(* ===== verification/Sysnr_Generic.thy ===== *)
theory Sysnr_Generic
  imports Main
begin

text \<open>
  The enumerators of \<open>enum class SystemCallNr\<close> (include/sysnrs/generic.hxx): the abstract
  system call numbers shared by all ABIs. The enum counts up from \<open>UNKNOWN = 0\<close>, so an
  enumerator is its position. The type is \<open>uint64_t\<close>; every value the code handles comes from a
  table below \<open>SYSTEM_CALL_COUNT\<close>, so a natural number holds it.
\<close>

type_synonym sysnr = nat

abbreviation (input) SYS_UNKNOWN :: sysnr where "SYS_UNKNOWN \<equiv> 0"
abbreviation (input) SYS_ACCEPT :: sysnr where "SYS_ACCEPT \<equiv> 1"
abbreviation (input) SYS_ACCEPT4 :: sysnr where "SYS_ACCEPT4 \<equiv> 2"
abbreviation (input) SYS_ACCESS :: sysnr where "SYS_ACCESS \<equiv> 3"
abbreviation (input) SYS_ACCT :: sysnr where "SYS_ACCT \<equiv> 4"
abbreviation (input) SYS_ADD_KEY :: sysnr where "SYS_ADD_KEY \<equiv> 5"
abbreviation (input) SYS_ADJTIMEX :: sysnr where "SYS_ADJTIMEX \<equiv> 6"
abbreviation (input) SYS_AFS_SYSCALL :: sysnr where "SYS_AFS_SYSCALL \<equiv> 7"
abbreviation (input) SYS_ALARM :: sysnr where "SYS_ALARM \<equiv> 8"
abbreviation (input) SYS_ARCH_PRCTL :: sysnr where "SYS_ARCH_PRCTL \<equiv> 9"
abbreviation (input) SYS_BDFLUSH :: sysnr where "SYS_BDFLUSH \<equiv> 10"
abbreviation (input) SYS_BIND :: sysnr where "SYS_BIND \<equiv> 11"
abbreviation (input) SYS_BPF :: sysnr where "SYS_BPF \<equiv> 12"
abbreviation (input) SYS_BREAK :: sysnr where "SYS_BREAK \<equiv> 13"
abbreviation (input) SYS_BRK :: sysnr where "SYS_BRK \<equiv> 14"
abbreviation (input) SYS_CACHESTAT :: sysnr where "SYS_CACHESTAT \<equiv> 15"
abbreviation (input) SYS_CAPGET :: sysnr where "SYS_CAPGET \<equiv> 16"
abbreviation (input) SYS_CAPSET :: sysnr where "SYS_CAPSET \<equiv> 17"
abbreviation (input) SYS_CHDIR :: sysnr where "SYS_CHDIR \<equiv> 18"
abbreviation (input) SYS_CHMOD :: sysnr where "SYS_CHMOD \<equiv> 19"
abbreviation (input) SYS_CHOWN :: sysnr where "SYS_CHOWN \<equiv> 20"
abbreviation (input) SYS_CHOWN32 :: sysnr where "SYS_CHOWN32 \<equiv> 21"
abbreviation (input) SYS_CHROOT :: sysnr where "SYS_CHROOT \<equiv> 22"
abbreviation (input) SYS_CLOCK_ADJTIME :: sysnr where "SYS_CLOCK_ADJTIME \<equiv> 23"
abbreviation (input) SYS_CLOCK_ADJTIME64 :: sysnr where "SYS_CLOCK_ADJTIME64 \<equiv> 24"
abbreviation (input) SYS_CLOCK_GETRES :: sysnr where "SYS_CLOCK_GETRES \<equiv> 25"
abbreviation (input) SYS_CLOCK_GETRES_TIME64 :: sysnr where "SYS_CLOCK_GETRES_TIME64 \<equiv> 26"
abbreviation (input) SYS_CLOCK_GETTIME :: sysnr where "SYS_CLOCK_GETTIME \<equiv> 27"
abbreviation (input) SYS_CLOCK_GETTIME64 :: sysnr where "SYS_CLOCK_GETTIME64 \<equiv> 28"
abbreviation (input) SYS_CLOCK_NANOSLEEP :: sysnr where "SYS_CLOCK_NANOSLEEP \<equiv> 29"
abbreviation (input) SYS_CLOCK_NANOSLEEP_TIME64 :: sysnr where "SYS_CLOCK_NANOSLEEP_TIME64 \<equiv> 30"
abbreviation (input) SYS_CLOCK_SETTIME :: sysnr where "SYS_CLOCK_SETTIME \<equiv> 31"
abbreviation (input) SYS_CLOCK_SETTIME64 :: sysnr where "SYS_CLOCK_SETTIME64 \<equiv> 32"
abbreviation (input) SYS_CLONE :: sysnr where "SYS_CLONE \<equiv> 33"
abbreviation (input) SYS_CLONE3 :: sysnr where "SYS_CLONE3 \<equiv> 34"
abbreviation (input) SYS_CLOSE :: sysnr where "SYS_CLOSE \<equiv> 35"
abbreviation (input) SYS_CLOSE_RANGE :: sysnr where "SYS_CLOSE_RANGE \<equiv> 36"
abbreviation (input) SYS_CONNECT :: sysnr where "SYS_CONNECT \<equiv> 37"
abbreviation (input) SYS_COPY_FILE_RANGE :: sysnr where "SYS_COPY_FILE_RANGE \<equiv> 38"
abbreviation (input) SYS_CREAT :: sysnr where "SYS_CREAT \<equiv> 39"
abbreviation (input) SYS_CREATE_MODULE :: sysnr where "SYS_CREATE_MODULE \<equiv> 40"
abbreviation (input) SYS_DELETE_MODULE :: sysnr where "SYS_DELETE_MODULE \<equiv> 41"
abbreviation (input) SYS_DUP :: sysnr where "SYS_DUP \<equiv> 42"
abbreviation (input) SYS_DUP2 :: sysnr where "SYS_DUP2 \<equiv> 43"
abbreviation (input) SYS_DUP3 :: sysnr where "SYS_DUP3 \<equiv> 44"
abbreviation (input) SYS_EPOLL_CREATE :: sysnr where "SYS_EPOLL_CREATE \<equiv> 45"
abbreviation (input) SYS_EPOLL_CREATE1 :: sysnr where "SYS_EPOLL_CREATE1 \<equiv> 46"
abbreviation (input) SYS_EPOLL_CTL :: sysnr where "SYS_EPOLL_CTL \<equiv> 47"
abbreviation (input) SYS_EPOLL_CTL_OLD :: sysnr where "SYS_EPOLL_CTL_OLD \<equiv> 48"
abbreviation (input) SYS_EPOLL_PWAIT :: sysnr where "SYS_EPOLL_PWAIT \<equiv> 49"
abbreviation (input) SYS_EPOLL_PWAIT2 :: sysnr where "SYS_EPOLL_PWAIT2 \<equiv> 50"
abbreviation (input) SYS_EPOLL_WAIT :: sysnr where "SYS_EPOLL_WAIT \<equiv> 51"
abbreviation (input) SYS_EPOLL_WAIT_OLD :: sysnr where "SYS_EPOLL_WAIT_OLD \<equiv> 52"
abbreviation (input) SYS_EVENTFD :: sysnr where "SYS_EVENTFD \<equiv> 53"
abbreviation (input) SYS_EVENTFD2 :: sysnr where "SYS_EVENTFD2 \<equiv> 54"
abbreviation (input) SYS_EXECVE :: sysnr where "SYS_EXECVE \<equiv> 55"
abbreviation (input) SYS_EXECVEAT :: sysnr where "SYS_EXECVEAT \<equiv> 56"
abbreviation (input) SYS_EXIT :: sysnr where "SYS_EXIT \<equiv> 57"
abbreviation (input) SYS_EXIT_GROUP :: sysnr where "SYS_EXIT_GROUP \<equiv> 58"
abbreviation (input) SYS_FACCESSAT :: sysnr where "SYS_FACCESSAT \<equiv> 59"
abbreviation (input) SYS_FACCESSAT2 :: sysnr where "SYS_FACCESSAT2 \<equiv> 60"
abbreviation (input) SYS_FADVISE64 :: sysnr where "SYS_FADVISE64 \<equiv> 61"
abbreviation (input) SYS_FADVISE64_64 :: sysnr where "SYS_FADVISE64_64 \<equiv> 62"
abbreviation (input) SYS_FALLOCATE :: sysnr where "SYS_FALLOCATE \<equiv> 63"
abbreviation (input) SYS_FANOTIFY_INIT :: sysnr where "SYS_FANOTIFY_INIT \<equiv> 64"
abbreviation (input) SYS_FANOTIFY_MARK :: sysnr where "SYS_FANOTIFY_MARK \<equiv> 65"
abbreviation (input) SYS_FCHDIR :: sysnr where "SYS_FCHDIR \<equiv> 66"
abbreviation (input) SYS_FCHMOD :: sysnr where "SYS_FCHMOD \<equiv> 67"
abbreviation (input) SYS_FCHMODAT :: sysnr where "SYS_FCHMODAT \<equiv> 68"
abbreviation (input) SYS_FCHMODAT2 :: sysnr where "SYS_FCHMODAT2 \<equiv> 69"
abbreviation (input) SYS_FCHOWN :: sysnr where "SYS_FCHOWN \<equiv> 70"
abbreviation (input) SYS_FCHOWN32 :: sysnr where "SYS_FCHOWN32 \<equiv> 71"
abbreviation (input) SYS_FCHOWNAT :: sysnr where "SYS_FCHOWNAT \<equiv> 72"
abbreviation (input) SYS_FCNTL :: sysnr where "SYS_FCNTL \<equiv> 73"
abbreviation (input) SYS_FCNTL64 :: sysnr where "SYS_FCNTL64 \<equiv> 74"
abbreviation (input) SYS_FDATASYNC :: sysnr where "SYS_FDATASYNC \<equiv> 75"
abbreviation (input) SYS_FGETXATTR :: sysnr where "SYS_FGETXATTR \<equiv> 76"
abbreviation (input) SYS_FILE_GETATTR :: sysnr where "SYS_FILE_GETATTR \<equiv> 77"
abbreviation (input) SYS_FILE_SETATTR :: sysnr where "SYS_FILE_SETATTR \<equiv> 78"
abbreviation (input) SYS_FINIT_MODULE :: sysnr where "SYS_FINIT_MODULE \<equiv> 79"
abbreviation (input) SYS_FLISTXATTR :: sysnr where "SYS_FLISTXATTR \<equiv> 80"
abbreviation (input) SYS_FLOCK :: sysnr where "SYS_FLOCK \<equiv> 81"
abbreviation (input) SYS_FORK :: sysnr where "SYS_FORK \<equiv> 82"
abbreviation (input) SYS_FREMOVEXATTR :: sysnr where "SYS_FREMOVEXATTR \<equiv> 83"
abbreviation (input) SYS_FSCONFIG :: sysnr where "SYS_FSCONFIG \<equiv> 84"
abbreviation (input) SYS_FSETXATTR :: sysnr where "SYS_FSETXATTR \<equiv> 85"
abbreviation (input) SYS_FSMOUNT :: sysnr where "SYS_FSMOUNT \<equiv> 86"
abbreviation (input) SYS_FSOPEN :: sysnr where "SYS_FSOPEN \<equiv> 87"
abbreviation (input) SYS_FSPICK :: sysnr where "SYS_FSPICK \<equiv> 88"
abbreviation (input) SYS_FSTAT :: sysnr where "SYS_FSTAT \<equiv> 89"
abbreviation (input) SYS_FSTAT64 :: sysnr where "SYS_FSTAT64 \<equiv> 90"
abbreviation (input) SYS_FSTATAT64 :: sysnr where "SYS_FSTATAT64 \<equiv> 91"
abbreviation (input) SYS_FSTATFS :: sysnr where "SYS_FSTATFS \<equiv> 92"
abbreviation (input) SYS_FSTATFS64 :: sysnr where "SYS_FSTATFS64 \<equiv> 93"
abbreviation (input) SYS_FSYNC :: sysnr where "SYS_FSYNC \<equiv> 94"
abbreviation (input) SYS_FTIME :: sysnr where "SYS_FTIME \<equiv> 95"
abbreviation (input) SYS_FTRUNCATE :: sysnr where "SYS_FTRUNCATE \<equiv> 96"
abbreviation (input) SYS_FTRUNCATE64 :: sysnr where "SYS_FTRUNCATE64 \<equiv> 97"
abbreviation (input) SYS_FUTEX :: sysnr where "SYS_FUTEX \<equiv> 98"
abbreviation (input) SYS__FUTEX_REQUEUE :: sysnr where "SYS__FUTEX_REQUEUE \<equiv> 99"
abbreviation (input) SYS_FUTEX_TIME64 :: sysnr where "SYS_FUTEX_TIME64 \<equiv> 100"
abbreviation (input) SYS__FUTEX_WAIT :: sysnr where "SYS__FUTEX_WAIT \<equiv> 101"
abbreviation (input) SYS_FUTEX_WAITV :: sysnr where "SYS_FUTEX_WAITV \<equiv> 102"
abbreviation (input) SYS__FUTEX_WAKE :: sysnr where "SYS__FUTEX_WAKE \<equiv> 103"
abbreviation (input) SYS_FUTIMESAT :: sysnr where "SYS_FUTIMESAT \<equiv> 104"
abbreviation (input) SYS_GET_KERNEL_SYMS :: sysnr where "SYS_GET_KERNEL_SYMS \<equiv> 105"
abbreviation (input) SYS_GET_MEMPOLICY :: sysnr where "SYS_GET_MEMPOLICY \<equiv> 106"
abbreviation (input) SYS_GET_ROBUST_LIST :: sysnr where "SYS_GET_ROBUST_LIST \<equiv> 107"
abbreviation (input) SYS_GET_THREAD_AREA :: sysnr where "SYS_GET_THREAD_AREA \<equiv> 108"
abbreviation (input) SYS_GETCPU :: sysnr where "SYS_GETCPU \<equiv> 109"
abbreviation (input) SYS_GETCWD :: sysnr where "SYS_GETCWD \<equiv> 110"
abbreviation (input) SYS_GETDENTS :: sysnr where "SYS_GETDENTS \<equiv> 111"
abbreviation (input) SYS_GETDENTS64 :: sysnr where "SYS_GETDENTS64 \<equiv> 112"
abbreviation (input) SYS_GETEGID :: sysnr where "SYS_GETEGID \<equiv> 113"
abbreviation (input) SYS_GETEGID32 :: sysnr where "SYS_GETEGID32 \<equiv> 114"
abbreviation (input) SYS_GETEUID :: sysnr where "SYS_GETEUID \<equiv> 115"
abbreviation (input) SYS_GETEUID32 :: sysnr where "SYS_GETEUID32 \<equiv> 116"
abbreviation (input) SYS_GETGID :: sysnr where "SYS_GETGID \<equiv> 117"
abbreviation (input) SYS_GETGID32 :: sysnr where "SYS_GETGID32 \<equiv> 118"
abbreviation (input) SYS_GETGROUPS :: sysnr where "SYS_GETGROUPS \<equiv> 119"
abbreviation (input) SYS_GETGROUPS32 :: sysnr where "SYS_GETGROUPS32 \<equiv> 120"
abbreviation (input) SYS_GETITIMER :: sysnr where "SYS_GETITIMER \<equiv> 121"
abbreviation (input) SYS_GETPEERNAME :: sysnr where "SYS_GETPEERNAME \<equiv> 122"
abbreviation (input) SYS_GETPGID :: sysnr where "SYS_GETPGID \<equiv> 123"
abbreviation (input) SYS_GETPGRP :: sysnr where "SYS_GETPGRP \<equiv> 124"
abbreviation (input) SYS_GETPID :: sysnr where "SYS_GETPID \<equiv> 125"
abbreviation (input) SYS_GETPMSG :: sysnr where "SYS_GETPMSG \<equiv> 126"
abbreviation (input) SYS_GETPPID :: sysnr where "SYS_GETPPID \<equiv> 127"
abbreviation (input) SYS_GETPRIORITY :: sysnr where "SYS_GETPRIORITY \<equiv> 128"
abbreviation (input) SYS_GETRANDOM :: sysnr where "SYS_GETRANDOM \<equiv> 129"
abbreviation (input) SYS_GETRESGID :: sysnr where "SYS_GETRESGID \<equiv> 130"
abbreviation (input) SYS_GETRESGID32 :: sysnr where "SYS_GETRESGID32 \<equiv> 131"
abbreviation (input) SYS_GETRESUID :: sysnr where "SYS_GETRESUID \<equiv> 132"
abbreviation (input) SYS_GETRESUID32 :: sysnr where "SYS_GETRESUID32 \<equiv> 133"
abbreviation (input) SYS_GETRLIMIT :: sysnr where "SYS_GETRLIMIT \<equiv> 134"
abbreviation (input) SYS_GETRUSAGE :: sysnr where "SYS_GETRUSAGE \<equiv> 135"
abbreviation (input) SYS_GETSID :: sysnr where "SYS_GETSID \<equiv> 136"
abbreviation (input) SYS_GETSOCKNAME :: sysnr where "SYS_GETSOCKNAME \<equiv> 137"
abbreviation (input) SYS_GETSOCKOPT :: sysnr where "SYS_GETSOCKOPT \<equiv> 138"
abbreviation (input) SYS_GETTID :: sysnr where "SYS_GETTID \<equiv> 139"
abbreviation (input) SYS_GETTIMEOFDAY :: sysnr where "SYS_GETTIMEOFDAY \<equiv> 140"
abbreviation (input) SYS_GETUID :: sysnr where "SYS_GETUID \<equiv> 141"
abbreviation (input) SYS_GETUID32 :: sysnr where "SYS_GETUID32 \<equiv> 142"
abbreviation (input) SYS_GETXATTR :: sysnr where "SYS_GETXATTR \<equiv> 143"
abbreviation (input) SYS_GETXATTRAT :: sysnr where "SYS_GETXATTRAT \<equiv> 144"
abbreviation (input) SYS_GTTY :: sysnr where "SYS_GTTY \<equiv> 145"
abbreviation (input) SYS_IDLE :: sysnr where "SYS_IDLE \<equiv> 146"
abbreviation (input) SYS_INIT_MODULE :: sysnr where "SYS_INIT_MODULE \<equiv> 147"
abbreviation (input) SYS_INOTIFY_ADD_WATCH :: sysnr where "SYS_INOTIFY_ADD_WATCH \<equiv> 148"
abbreviation (input) SYS_INOTIFY_INIT :: sysnr where "SYS_INOTIFY_INIT \<equiv> 149"
abbreviation (input) SYS_INOTIFY_INIT1 :: sysnr where "SYS_INOTIFY_INIT1 \<equiv> 150"
abbreviation (input) SYS_INOTIFY_RM_WATCH :: sysnr where "SYS_INOTIFY_RM_WATCH \<equiv> 151"
abbreviation (input) SYS_IO_CANCEL :: sysnr where "SYS_IO_CANCEL \<equiv> 152"
abbreviation (input) SYS_IO_DESTROY :: sysnr where "SYS_IO_DESTROY \<equiv> 153"
abbreviation (input) SYS_IO_GETEVENTS :: sysnr where "SYS_IO_GETEVENTS \<equiv> 154"
abbreviation (input) SYS_IO_PGETEVENTS :: sysnr where "SYS_IO_PGETEVENTS \<equiv> 155"
abbreviation (input) SYS_IO_PGETEVENTS_TIME64 :: sysnr where "SYS_IO_PGETEVENTS_TIME64 \<equiv> 156"
abbreviation (input) SYS_IO_SETUP :: sysnr where "SYS_IO_SETUP \<equiv> 157"
abbreviation (input) SYS_IO_SUBMIT :: sysnr where "SYS_IO_SUBMIT \<equiv> 158"
abbreviation (input) SYS_IO_URING_ENTER :: sysnr where "SYS_IO_URING_ENTER \<equiv> 159"
abbreviation (input) SYS_IO_URING_REGISTER :: sysnr where "SYS_IO_URING_REGISTER \<equiv> 160"
abbreviation (input) SYS_IO_URING_SETUP :: sysnr where "SYS_IO_URING_SETUP \<equiv> 161"
abbreviation (input) SYS_IOCTL :: sysnr where "SYS_IOCTL \<equiv> 162"
abbreviation (input) SYS_IOPERM :: sysnr where "SYS_IOPERM \<equiv> 163"
abbreviation (input) SYS_IOPL :: sysnr where "SYS_IOPL \<equiv> 164"
abbreviation (input) SYS_IOPRIO_GET :: sysnr where "SYS_IOPRIO_GET \<equiv> 165"
abbreviation (input) SYS_IOPRIO_SET :: sysnr where "SYS_IOPRIO_SET \<equiv> 166"
abbreviation (input) SYS_IPC :: sysnr where "SYS_IPC \<equiv> 167"
abbreviation (input) SYS_KCMP :: sysnr where "SYS_KCMP \<equiv> 168"
abbreviation (input) SYS_KEXEC_FILE_LOAD :: sysnr where "SYS_KEXEC_FILE_LOAD \<equiv> 169"
abbreviation (input) SYS_KEXEC_LOAD :: sysnr where "SYS_KEXEC_LOAD \<equiv> 170"
abbreviation (input) SYS_KEYCTL :: sysnr where "SYS_KEYCTL \<equiv> 171"
abbreviation (input) SYS_KILL :: sysnr where "SYS_KILL \<equiv> 172"
abbreviation (input) SYS_LANDLOCK_ADD_RULE :: sysnr where "SYS_LANDLOCK_ADD_RULE \<equiv> 173"
abbreviation (input) SYS_LANDLOCK_CREATE_RULESET :: sysnr where "SYS_LANDLOCK_CREATE_RULESET \<equiv> 174"
abbreviation (input) SYS_LANDLOCK_RESTRICT_SELF :: sysnr where "SYS_LANDLOCK_RESTRICT_SELF \<equiv> 175"
abbreviation (input) SYS_LCHOWN :: sysnr where "SYS_LCHOWN \<equiv> 176"
abbreviation (input) SYS_LCHOWN32 :: sysnr where "SYS_LCHOWN32 \<equiv> 177"
abbreviation (input) SYS_LGETXATTR :: sysnr where "SYS_LGETXATTR \<equiv> 178"
abbreviation (input) SYS_LINK :: sysnr where "SYS_LINK \<equiv> 179"
abbreviation (input) SYS_LINKAT :: sysnr where "SYS_LINKAT \<equiv> 180"
abbreviation (input) SYS_LISTEN :: sysnr where "SYS_LISTEN \<equiv> 181"
abbreviation (input) SYS_LISTMOUNT :: sysnr where "SYS_LISTMOUNT \<equiv> 182"
abbreviation (input) SYS_LISTXATTR :: sysnr where "SYS_LISTXATTR \<equiv> 183"
abbreviation (input) SYS_LISTXATTRAT :: sysnr where "SYS_LISTXATTRAT \<equiv> 184"
abbreviation (input) SYS_LLISTXATTR :: sysnr where "SYS_LLISTXATTR \<equiv> 185"
abbreviation (input) SYS_LLSEEK :: sysnr where "SYS_LLSEEK \<equiv> 186"
abbreviation (input) SYS_LOCK :: sysnr where "SYS_LOCK \<equiv> 187"
abbreviation (input) SYS_LOOKUP_DCOOKIE :: sysnr where "SYS_LOOKUP_DCOOKIE \<equiv> 188"
abbreviation (input) SYS_LREMOVEXATTR :: sysnr where "SYS_LREMOVEXATTR \<equiv> 189"
abbreviation (input) SYS_LSEEK :: sysnr where "SYS_LSEEK \<equiv> 190"
abbreviation (input) SYS_LSETXATTR :: sysnr where "SYS_LSETXATTR \<equiv> 191"
abbreviation (input) SYS_LSM_GET_SELF_ATTR :: sysnr where "SYS_LSM_GET_SELF_ATTR \<equiv> 192"
abbreviation (input) SYS_LSM_LIST_MODULES :: sysnr where "SYS_LSM_LIST_MODULES \<equiv> 193"
abbreviation (input) SYS_LSM_SET_SELF_ATTR :: sysnr where "SYS_LSM_SET_SELF_ATTR \<equiv> 194"
abbreviation (input) SYS_LSTAT :: sysnr where "SYS_LSTAT \<equiv> 195"
abbreviation (input) SYS_LSTAT64 :: sysnr where "SYS_LSTAT64 \<equiv> 196"
abbreviation (input) SYS_MADVISE :: sysnr where "SYS_MADVISE \<equiv> 197"
abbreviation (input) SYS_MAP_SHADOW_STACK :: sysnr where "SYS_MAP_SHADOW_STACK \<equiv> 198"
abbreviation (input) SYS_MBIND :: sysnr where "SYS_MBIND \<equiv> 199"
abbreviation (input) SYS_MEMBARRIER :: sysnr where "SYS_MEMBARRIER \<equiv> 200"
abbreviation (input) SYS_MEMFD_CREATE :: sysnr where "SYS_MEMFD_CREATE \<equiv> 201"
abbreviation (input) SYS_MEMFD_SECRET :: sysnr where "SYS_MEMFD_SECRET \<equiv> 202"
abbreviation (input) SYS_MIGRATE_PAGES :: sysnr where "SYS_MIGRATE_PAGES \<equiv> 203"
abbreviation (input) SYS_MINCORE :: sysnr where "SYS_MINCORE \<equiv> 204"
abbreviation (input) SYS_MKDIR :: sysnr where "SYS_MKDIR \<equiv> 205"
abbreviation (input) SYS_MKDIRAT :: sysnr where "SYS_MKDIRAT \<equiv> 206"
abbreviation (input) SYS_MKNOD :: sysnr where "SYS_MKNOD \<equiv> 207"
abbreviation (input) SYS_MKNODAT :: sysnr where "SYS_MKNODAT \<equiv> 208"
abbreviation (input) SYS_MLOCK :: sysnr where "SYS_MLOCK \<equiv> 209"
abbreviation (input) SYS_MLOCK2 :: sysnr where "SYS_MLOCK2 \<equiv> 210"
abbreviation (input) SYS_MLOCKALL :: sysnr where "SYS_MLOCKALL \<equiv> 211"
abbreviation (input) SYS_MMAP :: sysnr where "SYS_MMAP \<equiv> 212"
abbreviation (input) SYS_MMAP2 :: sysnr where "SYS_MMAP2 \<equiv> 213"
abbreviation (input) SYS_MODIFY_LDT :: sysnr where "SYS_MODIFY_LDT \<equiv> 214"
abbreviation (input) SYS_MOUNT :: sysnr where "SYS_MOUNT \<equiv> 215"
abbreviation (input) SYS_MOUNT_SETATTR :: sysnr where "SYS_MOUNT_SETATTR \<equiv> 216"
abbreviation (input) SYS_MOVE_MOUNT :: sysnr where "SYS_MOVE_MOUNT \<equiv> 217"
abbreviation (input) SYS_MOVE_PAGES :: sysnr where "SYS_MOVE_PAGES \<equiv> 218"
abbreviation (input) SYS_MPROTECT :: sysnr where "SYS_MPROTECT \<equiv> 219"
abbreviation (input) SYS_MPX :: sysnr where "SYS_MPX \<equiv> 220"
abbreviation (input) SYS_MQ_GETSETATTR :: sysnr where "SYS_MQ_GETSETATTR \<equiv> 221"
abbreviation (input) SYS_MQ_NOTIFY :: sysnr where "SYS_MQ_NOTIFY \<equiv> 222"
abbreviation (input) SYS_MQ_OPEN :: sysnr where "SYS_MQ_OPEN \<equiv> 223"
abbreviation (input) SYS_MQ_TIMEDRECEIVE :: sysnr where "SYS_MQ_TIMEDRECEIVE \<equiv> 224"
abbreviation (input) SYS_MQ_TIMEDRECEIVE_TIME64 :: sysnr where "SYS_MQ_TIMEDRECEIVE_TIME64 \<equiv> 225"
abbreviation (input) SYS_MQ_TIMEDSEND :: sysnr where "SYS_MQ_TIMEDSEND \<equiv> 226"
abbreviation (input) SYS_MQ_TIMEDSEND_TIME64 :: sysnr where "SYS_MQ_TIMEDSEND_TIME64 \<equiv> 227"
abbreviation (input) SYS_MQ_UNLINK :: sysnr where "SYS_MQ_UNLINK \<equiv> 228"
abbreviation (input) SYS_MREMAP :: sysnr where "SYS_MREMAP \<equiv> 229"
abbreviation (input) SYS_MSEAL :: sysnr where "SYS_MSEAL \<equiv> 230"
abbreviation (input) SYS_MSGCTL :: sysnr where "SYS_MSGCTL \<equiv> 231"
abbreviation (input) SYS_MSGGET :: sysnr where "SYS_MSGGET \<equiv> 232"
abbreviation (input) SYS_MSGRCV :: sysnr where "SYS_MSGRCV \<equiv> 233"
abbreviation (input) SYS_MSGSND :: sysnr where "SYS_MSGSND \<equiv> 234"
abbreviation (input) SYS_MSYNC :: sysnr where "SYS_MSYNC \<equiv> 235"
abbreviation (input) SYS_MUNLOCK :: sysnr where "SYS_MUNLOCK \<equiv> 236"
abbreviation (input) SYS_MUNLOCKALL :: sysnr where "SYS_MUNLOCKALL \<equiv> 237"
abbreviation (input) SYS_MUNMAP :: sysnr where "SYS_MUNMAP \<equiv> 238"
abbreviation (input) SYS_NAME_TO_HANDLE_AT :: sysnr where "SYS_NAME_TO_HANDLE_AT \<equiv> 239"
abbreviation (input) SYS_NANOSLEEP :: sysnr where "SYS_NANOSLEEP \<equiv> 240"
abbreviation (input) SYS_NEWFSTATAT :: sysnr where "SYS_NEWFSTATAT \<equiv> 241"
abbreviation (input) SYS_NEWSELECT :: sysnr where "SYS_NEWSELECT \<equiv> 242"
abbreviation (input) SYS_NFSSERVCTL :: sysnr where "SYS_NFSSERVCTL \<equiv> 243"
abbreviation (input) SYS_NICE :: sysnr where "SYS_NICE \<equiv> 244"
abbreviation (input) SYS_OLDFSTAT :: sysnr where "SYS_OLDFSTAT \<equiv> 245"
abbreviation (input) SYS_OLDLSTAT :: sysnr where "SYS_OLDLSTAT \<equiv> 246"
abbreviation (input) SYS_OLDOLDUNAME :: sysnr where "SYS_OLDOLDUNAME \<equiv> 247"
abbreviation (input) SYS_OLDSTAT :: sysnr where "SYS_OLDSTAT \<equiv> 248"
abbreviation (input) SYS_OLDUNAME :: sysnr where "SYS_OLDUNAME \<equiv> 249"
abbreviation (input) SYS_OPEN :: sysnr where "SYS_OPEN \<equiv> 250"
abbreviation (input) SYS_OPEN_BY_HANDLE_AT :: sysnr where "SYS_OPEN_BY_HANDLE_AT \<equiv> 251"
abbreviation (input) SYS_OPEN_TREE :: sysnr where "SYS_OPEN_TREE \<equiv> 252"
abbreviation (input) SYS_OPEN_TREE_ATTR :: sysnr where "SYS_OPEN_TREE_ATTR \<equiv> 253"
abbreviation (input) SYS_OPENAT :: sysnr where "SYS_OPENAT \<equiv> 254"
abbreviation (input) SYS_OPENAT2 :: sysnr where "SYS_OPENAT2 \<equiv> 255"
abbreviation (input) SYS_PAUSE :: sysnr where "SYS_PAUSE \<equiv> 256"
abbreviation (input) SYS_PERF_EVENT_OPEN :: sysnr where "SYS_PERF_EVENT_OPEN \<equiv> 257"
abbreviation (input) SYS_PERSONALITY :: sysnr where "SYS_PERSONALITY \<equiv> 258"
abbreviation (input) SYS_PIDFD_GETFD :: sysnr where "SYS_PIDFD_GETFD \<equiv> 259"
abbreviation (input) SYS_PIDFD_OPEN :: sysnr where "SYS_PIDFD_OPEN \<equiv> 260"
abbreviation (input) SYS_PIDFD_SEND_SIGNAL :: sysnr where "SYS_PIDFD_SEND_SIGNAL \<equiv> 261"
abbreviation (input) SYS_PIPE :: sysnr where "SYS_PIPE \<equiv> 262"
abbreviation (input) SYS_PIPE2 :: sysnr where "SYS_PIPE2 \<equiv> 263"
abbreviation (input) SYS_PIVOT_ROOT :: sysnr where "SYS_PIVOT_ROOT \<equiv> 264"
abbreviation (input) SYS_PKEY_ALLOC :: sysnr where "SYS_PKEY_ALLOC \<equiv> 265"
abbreviation (input) SYS_PKEY_FREE :: sysnr where "SYS_PKEY_FREE \<equiv> 266"
abbreviation (input) SYS_PKEY_MPROTECT :: sysnr where "SYS_PKEY_MPROTECT \<equiv> 267"
abbreviation (input) SYS_POLL :: sysnr where "SYS_POLL \<equiv> 268"
abbreviation (input) SYS_PPOLL :: sysnr where "SYS_PPOLL \<equiv> 269"
abbreviation (input) SYS_PPOLL_TIME64 :: sysnr where "SYS_PPOLL_TIME64 \<equiv> 270"
abbreviation (input) SYS_PRCTL :: sysnr where "SYS_PRCTL \<equiv> 271"
abbreviation (input) SYS_PREAD64 :: sysnr where "SYS_PREAD64 \<equiv> 272"
abbreviation (input) SYS_PREADV :: sysnr where "SYS_PREADV \<equiv> 273"
abbreviation (input) SYS_PREADV2 :: sysnr where "SYS_PREADV2 \<equiv> 274"
abbreviation (input) SYS_PRLIMIT64 :: sysnr where "SYS_PRLIMIT64 \<equiv> 275"
abbreviation (input) SYS_PROCESS_MADVISE :: sysnr where "SYS_PROCESS_MADVISE \<equiv> 276"
abbreviation (input) SYS_PROCESS_MRELEASE :: sysnr where "SYS_PROCESS_MRELEASE \<equiv> 277"
abbreviation (input) SYS_PROCESS_VM_READV :: sysnr where "SYS_PROCESS_VM_READV \<equiv> 278"
abbreviation (input) SYS_PROCESS_VM_WRITEV :: sysnr where "SYS_PROCESS_VM_WRITEV \<equiv> 279"
abbreviation (input) SYS_PROF :: sysnr where "SYS_PROF \<equiv> 280"
abbreviation (input) SYS_PROFIL :: sysnr where "SYS_PROFIL \<equiv> 281"
abbreviation (input) SYS_PSELECT6 :: sysnr where "SYS_PSELECT6 \<equiv> 282"
abbreviation (input) SYS_PSELECT6_TIME64 :: sysnr where "SYS_PSELECT6_TIME64 \<equiv> 283"
abbreviation (input) SYS_PTRACE :: sysnr where "SYS_PTRACE \<equiv> 284"
abbreviation (input) SYS_PUTPMSG :: sysnr where "SYS_PUTPMSG \<equiv> 285"
abbreviation (input) SYS_PWRITE64 :: sysnr where "SYS_PWRITE64 \<equiv> 286"
abbreviation (input) SYS_PWRITEV :: sysnr where "SYS_PWRITEV \<equiv> 287"
abbreviation (input) SYS_PWRITEV2 :: sysnr where "SYS_PWRITEV2 \<equiv> 288"
abbreviation (input) SYS_QUERY_MODULE :: sysnr where "SYS_QUERY_MODULE \<equiv> 289"
abbreviation (input) SYS_QUOTACTL :: sysnr where "SYS_QUOTACTL \<equiv> 290"
abbreviation (input) SYS_QUOTACTL_FD :: sysnr where "SYS_QUOTACTL_FD \<equiv> 291"
abbreviation (input) SYS_READ :: sysnr where "SYS_READ \<equiv> 292"
abbreviation (input) SYS_READAHEAD :: sysnr where "SYS_READAHEAD \<equiv> 293"
abbreviation (input) SYS_READDIR :: sysnr where "SYS_READDIR \<equiv> 294"
abbreviation (input) SYS_READLINK :: sysnr where "SYS_READLINK \<equiv> 295"
abbreviation (input) SYS_READLINKAT :: sysnr where "SYS_READLINKAT \<equiv> 296"
abbreviation (input) SYS_READV :: sysnr where "SYS_READV \<equiv> 297"
abbreviation (input) SYS_REBOOT :: sysnr where "SYS_REBOOT \<equiv> 298"
abbreviation (input) SYS_RECVFROM :: sysnr where "SYS_RECVFROM \<equiv> 299"
abbreviation (input) SYS_RECVMMSG :: sysnr where "SYS_RECVMMSG \<equiv> 300"
abbreviation (input) SYS_RECVMMSG_TIME64 :: sysnr where "SYS_RECVMMSG_TIME64 \<equiv> 301"
abbreviation (input) SYS_RECVMSG :: sysnr where "SYS_RECVMSG \<equiv> 302"
abbreviation (input) SYS_REMAP_FILE_PAGES :: sysnr where "SYS_REMAP_FILE_PAGES \<equiv> 303"
abbreviation (input) SYS_REMOVEXATTR :: sysnr where "SYS_REMOVEXATTR \<equiv> 304"
abbreviation (input) SYS_REMOVEXATTRAT :: sysnr where "SYS_REMOVEXATTRAT \<equiv> 305"
abbreviation (input) SYS_RENAME :: sysnr where "SYS_RENAME \<equiv> 306"
abbreviation (input) SYS_RENAMEAT :: sysnr where "SYS_RENAMEAT \<equiv> 307"
abbreviation (input) SYS_RENAMEAT2 :: sysnr where "SYS_RENAMEAT2 \<equiv> 308"
abbreviation (input) SYS_REQUEST_KEY :: sysnr where "SYS_REQUEST_KEY \<equiv> 309"
abbreviation (input) SYS_RESTART_SYSCALL :: sysnr where "SYS_RESTART_SYSCALL \<equiv> 310"
abbreviation (input) SYS_RMDIR :: sysnr where "SYS_RMDIR \<equiv> 311"
abbreviation (input) SYS_RSEQ :: sysnr where "SYS_RSEQ \<equiv> 312"
abbreviation (input) SYS_RT_SIGACTION :: sysnr where "SYS_RT_SIGACTION \<equiv> 313"
abbreviation (input) SYS_RT_SIGPENDING :: sysnr where "SYS_RT_SIGPENDING \<equiv> 314"
abbreviation (input) SYS_RT_SIGPROCMASK :: sysnr where "SYS_RT_SIGPROCMASK \<equiv> 315"
abbreviation (input) SYS_RT_SIGQUEUEINFO :: sysnr where "SYS_RT_SIGQUEUEINFO \<equiv> 316"
abbreviation (input) SYS_RT_SIGRETURN :: sysnr where "SYS_RT_SIGRETURN \<equiv> 317"
abbreviation (input) SYS_RT_SIGSUSPEND :: sysnr where "SYS_RT_SIGSUSPEND \<equiv> 318"
abbreviation (input) SYS_RT_SIGTIMEDWAIT :: sysnr where "SYS_RT_SIGTIMEDWAIT \<equiv> 319"
abbreviation (input) SYS_RT_SIGTIMEDWAIT_TIME64 :: sysnr where "SYS_RT_SIGTIMEDWAIT_TIME64 \<equiv> 320"
abbreviation (input) SYS_RT_TGSIGQUEUEINFO :: sysnr where "SYS_RT_TGSIGQUEUEINFO \<equiv> 321"
abbreviation (input) SYS_SCHED_GET_PRIORITY_MAX :: sysnr where "SYS_SCHED_GET_PRIORITY_MAX \<equiv> 322"
abbreviation (input) SYS_SCHED_GET_PRIORITY_MIN :: sysnr where "SYS_SCHED_GET_PRIORITY_MIN \<equiv> 323"
abbreviation (input) SYS_SCHED_GETAFFINITY :: sysnr where "SYS_SCHED_GETAFFINITY \<equiv> 324"
abbreviation (input) SYS_SCHED_GETATTR :: sysnr where "SYS_SCHED_GETATTR \<equiv> 325"
abbreviation (input) SYS_SCHED_GETPARAM :: sysnr where "SYS_SCHED_GETPARAM \<equiv> 326"
abbreviation (input) SYS_SCHED_GETSCHEDULER :: sysnr where "SYS_SCHED_GETSCHEDULER \<equiv> 327"
abbreviation (input) SYS_SCHED_RR_GET_INTERVAL :: sysnr where "SYS_SCHED_RR_GET_INTERVAL \<equiv> 328"
abbreviation (input) SYS_SCHED_RR_GET_INTERVAL_TIME64 :: sysnr where "SYS_SCHED_RR_GET_INTERVAL_TIME64 \<equiv> 329"
abbreviation (input) SYS_SCHED_SETAFFINITY :: sysnr where "SYS_SCHED_SETAFFINITY \<equiv> 330"
abbreviation (input) SYS_SCHED_SETATTR :: sysnr where "SYS_SCHED_SETATTR \<equiv> 331"
abbreviation (input) SYS_SCHED_SETPARAM :: sysnr where "SYS_SCHED_SETPARAM \<equiv> 332"
abbreviation (input) SYS_SCHED_SETSCHEDULER :: sysnr where "SYS_SCHED_SETSCHEDULER \<equiv> 333"
abbreviation (input) SYS_SCHED_YIELD :: sysnr where "SYS_SCHED_YIELD \<equiv> 334"
abbreviation (input) SYS_SECCOMP :: sysnr where "SYS_SECCOMP \<equiv> 335"
abbreviation (input) SYS_SECURITY :: sysnr where "SYS_SECURITY \<equiv> 336"
abbreviation (input) SYS_SELECT :: sysnr where "SYS_SELECT \<equiv> 337"
abbreviation (input) SYS_SEMCTL :: sysnr where "SYS_SEMCTL \<equiv> 338"
abbreviation (input) SYS_SEMGET :: sysnr where "SYS_SEMGET \<equiv> 339"
abbreviation (input) SYS_SEMOP :: sysnr where "SYS_SEMOP \<equiv> 340"
abbreviation (input) SYS_SEMTIMEDOP :: sysnr where "SYS_SEMTIMEDOP \<equiv> 341"
abbreviation (input) SYS_SEMTIMEDOP_TIME64 :: sysnr where "SYS_SEMTIMEDOP_TIME64 \<equiv> 342"
abbreviation (input) SYS_SENDFILE :: sysnr where "SYS_SENDFILE \<equiv> 343"
abbreviation (input) SYS_SENDFILE64 :: sysnr where "SYS_SENDFILE64 \<equiv> 344"
abbreviation (input) SYS_SENDMMSG :: sysnr where "SYS_SENDMMSG \<equiv> 345"
abbreviation (input) SYS_SENDMSG :: sysnr where "SYS_SENDMSG \<equiv> 346"
abbreviation (input) SYS_SENDTO :: sysnr where "SYS_SENDTO \<equiv> 347"
abbreviation (input) SYS_SET_MEMPOLICY :: sysnr where "SYS_SET_MEMPOLICY \<equiv> 348"
abbreviation (input) SYS_SET_MEMPOLICY_HOME_NODE :: sysnr where "SYS_SET_MEMPOLICY_HOME_NODE \<equiv> 349"
abbreviation (input) SYS_SET_ROBUST_LIST :: sysnr where "SYS_SET_ROBUST_LIST \<equiv> 350"
abbreviation (input) SYS_SET_THREAD_AREA :: sysnr where "SYS_SET_THREAD_AREA \<equiv> 351"
abbreviation (input) SYS_SET_TID_ADDRESS :: sysnr where "SYS_SET_TID_ADDRESS \<equiv> 352"
abbreviation (input) SYS_SETDOMAINNAME :: sysnr where "SYS_SETDOMAINNAME \<equiv> 353"
abbreviation (input) SYS_SETFSGID :: sysnr where "SYS_SETFSGID \<equiv> 354"
abbreviation (input) SYS_SETFSGID32 :: sysnr where "SYS_SETFSGID32 \<equiv> 355"
abbreviation (input) SYS_SETFSUID :: sysnr where "SYS_SETFSUID \<equiv> 356"
abbreviation (input) SYS_SETFSUID32 :: sysnr where "SYS_SETFSUID32 \<equiv> 357"
abbreviation (input) SYS_SETGID :: sysnr where "SYS_SETGID \<equiv> 358"
abbreviation (input) SYS_SETGID32 :: sysnr where "SYS_SETGID32 \<equiv> 359"
abbreviation (input) SYS_SETGROUPS :: sysnr where "SYS_SETGROUPS \<equiv> 360"
abbreviation (input) SYS_SETGROUPS32 :: sysnr where "SYS_SETGROUPS32 \<equiv> 361"
abbreviation (input) SYS_SETHOSTNAME :: sysnr where "SYS_SETHOSTNAME \<equiv> 362"
abbreviation (input) SYS_SETITIMER :: sysnr where "SYS_SETITIMER \<equiv> 363"
abbreviation (input) SYS_SETNS :: sysnr where "SYS_SETNS \<equiv> 364"
abbreviation (input) SYS_SETPGID :: sysnr where "SYS_SETPGID \<equiv> 365"
abbreviation (input) SYS_SETPRIORITY :: sysnr where "SYS_SETPRIORITY \<equiv> 366"
abbreviation (input) SYS_SETREGID :: sysnr where "SYS_SETREGID \<equiv> 367"
abbreviation (input) SYS_SETREGID32 :: sysnr where "SYS_SETREGID32 \<equiv> 368"
abbreviation (input) SYS_SETRESGID :: sysnr where "SYS_SETRESGID \<equiv> 369"
abbreviation (input) SYS_SETRESGID32 :: sysnr where "SYS_SETRESGID32 \<equiv> 370"
abbreviation (input) SYS_SETRESUID :: sysnr where "SYS_SETRESUID \<equiv> 371"
abbreviation (input) SYS_SETRESUID32 :: sysnr where "SYS_SETRESUID32 \<equiv> 372"
abbreviation (input) SYS_SETREUID :: sysnr where "SYS_SETREUID \<equiv> 373"
abbreviation (input) SYS_SETREUID32 :: sysnr where "SYS_SETREUID32 \<equiv> 374"
abbreviation (input) SYS_SETRLIMIT :: sysnr where "SYS_SETRLIMIT \<equiv> 375"
abbreviation (input) SYS_SETSID :: sysnr where "SYS_SETSID \<equiv> 376"
abbreviation (input) SYS_SETSOCKOPT :: sysnr where "SYS_SETSOCKOPT \<equiv> 377"
abbreviation (input) SYS_SETTIMEOFDAY :: sysnr where "SYS_SETTIMEOFDAY \<equiv> 378"
abbreviation (input) SYS_SETUID :: sysnr where "SYS_SETUID \<equiv> 379"
abbreviation (input) SYS_SETUID32 :: sysnr where "SYS_SETUID32 \<equiv> 380"
abbreviation (input) SYS_SETXATTR :: sysnr where "SYS_SETXATTR \<equiv> 381"
abbreviation (input) SYS_SETXATTRAT :: sysnr where "SYS_SETXATTRAT \<equiv> 382"
abbreviation (input) SYS_SGETMASK :: sysnr where "SYS_SGETMASK \<equiv> 383"
abbreviation (input) SYS_SHMAT :: sysnr where "SYS_SHMAT \<equiv> 384"
abbreviation (input) SYS_SHMCTL :: sysnr where "SYS_SHMCTL \<equiv> 385"
abbreviation (input) SYS_SHMDT :: sysnr where "SYS_SHMDT \<equiv> 386"
abbreviation (input) SYS_SHMGET :: sysnr where "SYS_SHMGET \<equiv> 387"
abbreviation (input) SYS_SHUTDOWN :: sysnr where "SYS_SHUTDOWN \<equiv> 388"
abbreviation (input) SYS_SIGACTION :: sysnr where "SYS_SIGACTION \<equiv> 389"
abbreviation (input) SYS_SIGALTSTACK :: sysnr where "SYS_SIGALTSTACK \<equiv> 390"
abbreviation (input) SYS_SIGNAL :: sysnr where "SYS_SIGNAL \<equiv> 391"
abbreviation (input) SYS_SIGNALFD :: sysnr where "SYS_SIGNALFD \<equiv> 392"
abbreviation (input) SYS_SIGNALFD4 :: sysnr where "SYS_SIGNALFD4 \<equiv> 393"
abbreviation (input) SYS_SIGPENDING :: sysnr where "SYS_SIGPENDING \<equiv> 394"
abbreviation (input) SYS_SIGPROCMASK :: sysnr where "SYS_SIGPROCMASK \<equiv> 395"
abbreviation (input) SYS_SIGRETURN :: sysnr where "SYS_SIGRETURN \<equiv> 396"
abbreviation (input) SYS_SIGSUSPEND :: sysnr where "SYS_SIGSUSPEND \<equiv> 397"
abbreviation (input) SYS_SOCKET :: sysnr where "SYS_SOCKET \<equiv> 398"
abbreviation (input) SYS_SOCKETCALL :: sysnr where "SYS_SOCKETCALL \<equiv> 399"
abbreviation (input) SYS_SOCKETPAIR :: sysnr where "SYS_SOCKETPAIR \<equiv> 400"
abbreviation (input) SYS_SPLICE :: sysnr where "SYS_SPLICE \<equiv> 401"
abbreviation (input) SYS_SSETMASK :: sysnr where "SYS_SSETMASK \<equiv> 402"
abbreviation (input) SYS_STAT :: sysnr where "SYS_STAT \<equiv> 403"
abbreviation (input) SYS_STAT64 :: sysnr where "SYS_STAT64 \<equiv> 404"
abbreviation (input) SYS_STATFS :: sysnr where "SYS_STATFS \<equiv> 405"
abbreviation (input) SYS_STATFS64 :: sysnr where "SYS_STATFS64 \<equiv> 406"
abbreviation (input) SYS_STATMOUNT :: sysnr where "SYS_STATMOUNT \<equiv> 407"
abbreviation (input) SYS_STATX :: sysnr where "SYS_STATX \<equiv> 408"
abbreviation (input) SYS_STIME :: sysnr where "SYS_STIME \<equiv> 409"
abbreviation (input) SYS_STTY :: sysnr where "SYS_STTY \<equiv> 410"
abbreviation (input) SYS_SWAPOFF :: sysnr where "SYS_SWAPOFF \<equiv> 411"
abbreviation (input) SYS_SWAPON :: sysnr where "SYS_SWAPON \<equiv> 412"
abbreviation (input) SYS_SYMLINK :: sysnr where "SYS_SYMLINK \<equiv> 413"
abbreviation (input) SYS_SYMLINKAT :: sysnr where "SYS_SYMLINKAT \<equiv> 414"
abbreviation (input) SYS_SYNC :: sysnr where "SYS_SYNC \<equiv> 415"
abbreviation (input) SYS_SYNC_FILE_RANGE :: sysnr where "SYS_SYNC_FILE_RANGE \<equiv> 416"
abbreviation (input) SYS_SYNCFS :: sysnr where "SYS_SYNCFS \<equiv> 417"
abbreviation (input) SYS_SYSCTL :: sysnr where "SYS_SYSCTL \<equiv> 418"
abbreviation (input) SYS_SYSFS :: sysnr where "SYS_SYSFS \<equiv> 419"
abbreviation (input) SYS_SYSINFO :: sysnr where "SYS_SYSINFO \<equiv> 420"
abbreviation (input) SYS_SYSLOG :: sysnr where "SYS_SYSLOG \<equiv> 421"
abbreviation (input) SYS_TEE :: sysnr where "SYS_TEE \<equiv> 422"
abbreviation (input) SYS_TGKILL :: sysnr where "SYS_TGKILL \<equiv> 423"
abbreviation (input) SYS_TIME :: sysnr where "SYS_TIME \<equiv> 424"
abbreviation (input) SYS_TIMER_CREATE :: sysnr where "SYS_TIMER_CREATE \<equiv> 425"
abbreviation (input) SYS_TIMER_DELETE :: sysnr where "SYS_TIMER_DELETE \<equiv> 426"
abbreviation (input) SYS_TIMER_GETOVERRUN :: sysnr where "SYS_TIMER_GETOVERRUN \<equiv> 427"
abbreviation (input) SYS_TIMER_GETTIME :: sysnr where "SYS_TIMER_GETTIME \<equiv> 428"
abbreviation (input) SYS_TIMER_GETTIME64 :: sysnr where "SYS_TIMER_GETTIME64 \<equiv> 429"
abbreviation (input) SYS_TIMER_SETTIME :: sysnr where "SYS_TIMER_SETTIME \<equiv> 430"
abbreviation (input) SYS_TIMER_SETTIME64 :: sysnr where "SYS_TIMER_SETTIME64 \<equiv> 431"
abbreviation (input) SYS_TIMERFD_CREATE :: sysnr where "SYS_TIMERFD_CREATE \<equiv> 432"
abbreviation (input) SYS_TIMERFD_GETTIME :: sysnr where "SYS_TIMERFD_GETTIME \<equiv> 433"
abbreviation (input) SYS_TIMERFD_GETTIME64 :: sysnr where "SYS_TIMERFD_GETTIME64 \<equiv> 434"
abbreviation (input) SYS_TIMERFD_SETTIME :: sysnr where "SYS_TIMERFD_SETTIME \<equiv> 435"
abbreviation (input) SYS_TIMERFD_SETTIME64 :: sysnr where "SYS_TIMERFD_SETTIME64 \<equiv> 436"
abbreviation (input) SYS_TIMES :: sysnr where "SYS_TIMES \<equiv> 437"
abbreviation (input) SYS_TKILL :: sysnr where "SYS_TKILL \<equiv> 438"
abbreviation (input) SYS_TRUNCATE :: sysnr where "SYS_TRUNCATE \<equiv> 439"
abbreviation (input) SYS_TRUNCATE64 :: sysnr where "SYS_TRUNCATE64 \<equiv> 440"
abbreviation (input) SYS_TUXCALL :: sysnr where "SYS_TUXCALL \<equiv> 441"
abbreviation (input) SYS_UGETRLIMIT :: sysnr where "SYS_UGETRLIMIT \<equiv> 442"
abbreviation (input) SYS_ULIMIT :: sysnr where "SYS_ULIMIT \<equiv> 443"
abbreviation (input) SYS_UMASK :: sysnr where "SYS_UMASK \<equiv> 444"
abbreviation (input) SYS_UMOUNT :: sysnr where "SYS_UMOUNT \<equiv> 445"
abbreviation (input) SYS_UMOUNT2 :: sysnr where "SYS_UMOUNT2 \<equiv> 446"
abbreviation (input) SYS_UNAME :: sysnr where "SYS_UNAME \<equiv> 447"
abbreviation (input) SYS_UNLINK :: sysnr where "SYS_UNLINK \<equiv> 448"
abbreviation (input) SYS_UNLINKAT :: sysnr where "SYS_UNLINKAT \<equiv> 449"
abbreviation (input) SYS_UNSHARE :: sysnr where "SYS_UNSHARE \<equiv> 450"
abbreviation (input) SYS_UPROBE :: sysnr where "SYS_UPROBE \<equiv> 451"
abbreviation (input) SYS_URETPROBE :: sysnr where "SYS_URETPROBE \<equiv> 452"
abbreviation (input) SYS_USELIB :: sysnr where "SYS_USELIB \<equiv> 453"
abbreviation (input) SYS_USERFAULTFD :: sysnr where "SYS_USERFAULTFD \<equiv> 454"
abbreviation (input) SYS_USTAT :: sysnr where "SYS_USTAT \<equiv> 455"
abbreviation (input) SYS_UTIME :: sysnr where "SYS_UTIME \<equiv> 456"
abbreviation (input) SYS_UTIMENSAT :: sysnr where "SYS_UTIMENSAT \<equiv> 457"
abbreviation (input) SYS_UTIMENSAT_TIME64 :: sysnr where "SYS_UTIMENSAT_TIME64 \<equiv> 458"
abbreviation (input) SYS_UTIMES :: sysnr where "SYS_UTIMES \<equiv> 459"
abbreviation (input) SYS_VFORK :: sysnr where "SYS_VFORK \<equiv> 460"
abbreviation (input) SYS_VHANGUP :: sysnr where "SYS_VHANGUP \<equiv> 461"
abbreviation (input) SYS_VM86 :: sysnr where "SYS_VM86 \<equiv> 462"
abbreviation (input) SYS_VM86OLD :: sysnr where "SYS_VM86OLD \<equiv> 463"
abbreviation (input) SYS_VMSPLICE :: sysnr where "SYS_VMSPLICE \<equiv> 464"
abbreviation (input) SYS_VSERVER :: sysnr where "SYS_VSERVER \<equiv> 465"
abbreviation (input) SYS_WAIT4 :: sysnr where "SYS_WAIT4 \<equiv> 466"
abbreviation (input) SYS_WAITID :: sysnr where "SYS_WAITID \<equiv> 467"
abbreviation (input) SYS_WAITPID :: sysnr where "SYS_WAITPID \<equiv> 468"
abbreviation (input) SYS_WRITE :: sysnr where "SYS_WRITE \<equiv> 469"
abbreviation (input) SYS_WRITEV :: sysnr where "SYS_WRITEV \<equiv> 470"

definition SYSTEM_CALL_COUNT :: nat where
  "SYSTEM_CALL_COUNT = 471"

end
