(* ===== verification/Sysnr_Tables.thy ===== *)
theory Sysnr_Tables
  imports Sysnr_Generic
begin

text \<open>
  The translation tables of src/sysnrs: \<open>to_generic\<close> for each native numbering, the names of the
  generic system calls and the map from names to numbers. The \<open>switch\<close> of \<open>to_generic\<close> becomes
  an association list in the order of its cases: a pair is the value of the native enumerator
  (include/sysnrs/<abi>.hxx) and the generic number the case returns. Long tables are cut into
  parts.
\<close>

definition X32_SYSCALL_BIT :: nat where
  "X32_SYSCALL_BIT = 1073741824"

section \<open>x64\<close>

definition x64_cases_1 :: "(nat \<times> sysnr) list" where
  "x64_cases_1 = [
   (0, SYS_READ), (1, SYS_WRITE), (2, SYS_OPEN),
   (3, SYS_CLOSE), (4, SYS_STAT), (5, SYS_FSTAT),
   (6, SYS_LSTAT), (7, SYS_POLL), (8, SYS_LSEEK),
   (9, SYS_MMAP), (10, SYS_MPROTECT), (11, SYS_MUNMAP),
   (12, SYS_BRK), (13, SYS_RT_SIGACTION), (14, SYS_RT_SIGPROCMASK),
   (15, SYS_RT_SIGRETURN), (16, SYS_IOCTL), (17, SYS_PREAD64),
   (18, SYS_PWRITE64), (19, SYS_READV), (20, SYS_WRITEV),
   (21, SYS_ACCESS), (22, SYS_PIPE), (23, SYS_SELECT),
   (24, SYS_SCHED_YIELD), (25, SYS_MREMAP), (26, SYS_MSYNC),
   (27, SYS_MINCORE), (28, SYS_MADVISE), (29, SYS_SHMGET),
   (30, SYS_SHMAT), (31, SYS_SHMCTL), (32, SYS_DUP),
   (33, SYS_DUP2), (34, SYS_PAUSE), (35, SYS_NANOSLEEP),
   (36, SYS_GETITIMER), (37, SYS_ALARM), (38, SYS_SETITIMER),
   (39, SYS_GETPID), (40, SYS_SENDFILE), (41, SYS_SOCKET),
   (42, SYS_CONNECT), (43, SYS_ACCEPT), (44, SYS_SENDTO),
   (45, SYS_RECVFROM), (46, SYS_SENDMSG), (47, SYS_RECVMSG),
   (48, SYS_SHUTDOWN), (49, SYS_BIND), (50, SYS_LISTEN),
   (51, SYS_GETSOCKNAME), (52, SYS_GETPEERNAME), (53, SYS_SOCKETPAIR),
   (54, SYS_SETSOCKOPT), (55, SYS_GETSOCKOPT), (56, SYS_CLONE),
   (57, SYS_FORK), (58, SYS_VFORK), (59, SYS_EXECVE),
   (60, SYS_EXIT), (61, SYS_WAIT4), (62, SYS_KILL),
   (63, SYS_UNAME), (64, SYS_SEMGET), (65, SYS_SEMOP),
   (66, SYS_SEMCTL), (67, SYS_SHMDT), (68, SYS_MSGGET),
   (69, SYS_MSGSND), (70, SYS_MSGRCV), (71, SYS_MSGCTL),
   (72, SYS_FCNTL), (73, SYS_FLOCK), (74, SYS_FSYNC),
   (75, SYS_FDATASYNC), (76, SYS_TRUNCATE), (77, SYS_FTRUNCATE),
   (78, SYS_GETDENTS), (79, SYS_GETCWD), (80, SYS_CHDIR),
   (81, SYS_FCHDIR), (82, SYS_RENAME), (83, SYS_MKDIR),
   (84, SYS_RMDIR), (85, SYS_CREAT), (86, SYS_LINK),
   (87, SYS_UNLINK), (88, SYS_SYMLINK), (89, SYS_READLINK),
   (90, SYS_CHMOD), (91, SYS_FCHMOD), (92, SYS_CHOWN),
   (93, SYS_FCHOWN), (94, SYS_LCHOWN), (95, SYS_UMASK),
   (96, SYS_GETTIMEOFDAY), (97, SYS_GETRLIMIT), (98, SYS_GETRUSAGE),
   (99, SYS_SYSINFO), (100, SYS_TIMES), (101, SYS_PTRACE),
   (102, SYS_GETUID), (103, SYS_SYSLOG), (104, SYS_GETGID),
   (105, SYS_SETUID), (106, SYS_SETGID), (107, SYS_GETEUID),
   (108, SYS_GETEGID), (109, SYS_SETPGID), (110, SYS_GETPPID),
   (111, SYS_GETPGRP), (112, SYS_SETSID), (113, SYS_SETREUID),
   (114, SYS_SETREGID), (115, SYS_GETGROUPS), (116, SYS_SETGROUPS),
   (117, SYS_SETRESUID), (118, SYS_GETRESUID), (119, SYS_SETRESGID),
   (120, SYS_GETRESGID), (121, SYS_GETPGID), (122, SYS_SETFSUID),
   (123, SYS_SETFSGID), (124, SYS_GETSID), (125, SYS_CAPGET),
   (126, SYS_CAPSET), (127, SYS_RT_SIGPENDING), (128, SYS_RT_SIGTIMEDWAIT),
   (129, SYS_RT_SIGQUEUEINFO), (130, SYS_RT_SIGSUSPEND), (131, SYS_SIGALTSTACK),
   (132, SYS_UTIME), (133, SYS_MKNOD), (134, SYS_USELIB),
   (135, SYS_PERSONALITY), (136, SYS_USTAT), (137, SYS_STATFS),
   (138, SYS_FSTATFS), (139, SYS_SYSFS), (140, SYS_GETPRIORITY),
   (141, SYS_SETPRIORITY), (142, SYS_SCHED_SETPARAM), (143, SYS_SCHED_GETPARAM),
   (144, SYS_SCHED_SETSCHEDULER), (145, SYS_SCHED_GETSCHEDULER), (146, SYS_SCHED_GET_PRIORITY_MAX),
   (147, SYS_SCHED_GET_PRIORITY_MIN), (148, SYS_SCHED_RR_GET_INTERVAL), (149, SYS_MLOCK)]"

definition x64_cases_2 :: "(nat \<times> sysnr) list" where
  "x64_cases_2 = [
   (150, SYS_MUNLOCK), (151, SYS_MLOCKALL), (152, SYS_MUNLOCKALL),
   (153, SYS_VHANGUP), (154, SYS_MODIFY_LDT), (155, SYS_PIVOT_ROOT),
   (156, SYS_SYSCTL), (157, SYS_PRCTL), (158, SYS_ARCH_PRCTL),
   (159, SYS_ADJTIMEX), (160, SYS_SETRLIMIT), (161, SYS_CHROOT),
   (162, SYS_SYNC), (163, SYS_ACCT), (164, SYS_SETTIMEOFDAY),
   (165, SYS_MOUNT), (166, SYS_UMOUNT2), (167, SYS_SWAPON),
   (168, SYS_SWAPOFF), (169, SYS_REBOOT), (170, SYS_SETHOSTNAME),
   (171, SYS_SETDOMAINNAME), (172, SYS_IOPL), (173, SYS_IOPERM),
   (174, SYS_CREATE_MODULE), (175, SYS_INIT_MODULE), (176, SYS_DELETE_MODULE),
   (177, SYS_GET_KERNEL_SYMS), (178, SYS_QUERY_MODULE), (179, SYS_QUOTACTL),
   (180, SYS_NFSSERVCTL), (181, SYS_GETPMSG), (182, SYS_PUTPMSG),
   (183, SYS_AFS_SYSCALL), (184, SYS_TUXCALL), (185, SYS_SECURITY),
   (186, SYS_GETTID), (187, SYS_READAHEAD), (188, SYS_SETXATTR),
   (189, SYS_LSETXATTR), (190, SYS_FSETXATTR), (191, SYS_GETXATTR),
   (192, SYS_LGETXATTR), (193, SYS_FGETXATTR), (194, SYS_LISTXATTR),
   (195, SYS_LLISTXATTR), (196, SYS_FLISTXATTR), (197, SYS_REMOVEXATTR),
   (198, SYS_LREMOVEXATTR), (199, SYS_FREMOVEXATTR), (200, SYS_TKILL),
   (201, SYS_TIME), (202, SYS_FUTEX), (203, SYS_SCHED_SETAFFINITY),
   (204, SYS_SCHED_GETAFFINITY), (205, SYS_SET_THREAD_AREA), (206, SYS_IO_SETUP),
   (207, SYS_IO_DESTROY), (208, SYS_IO_GETEVENTS), (209, SYS_IO_SUBMIT),
   (210, SYS_IO_CANCEL), (211, SYS_GET_THREAD_AREA), (212, SYS_LOOKUP_DCOOKIE),
   (213, SYS_EPOLL_CREATE), (214, SYS_EPOLL_CTL_OLD), (215, SYS_EPOLL_WAIT_OLD),
   (216, SYS_REMAP_FILE_PAGES), (217, SYS_GETDENTS64), (218, SYS_SET_TID_ADDRESS),
   (219, SYS_RESTART_SYSCALL), (220, SYS_SEMTIMEDOP), (221, SYS_FADVISE64),
   (222, SYS_TIMER_CREATE), (223, SYS_TIMER_SETTIME), (224, SYS_TIMER_GETTIME),
   (225, SYS_TIMER_GETOVERRUN), (226, SYS_TIMER_DELETE), (227, SYS_CLOCK_SETTIME),
   (228, SYS_CLOCK_GETTIME), (229, SYS_CLOCK_GETRES), (230, SYS_CLOCK_NANOSLEEP),
   (231, SYS_EXIT_GROUP), (232, SYS_EPOLL_WAIT), (233, SYS_EPOLL_CTL),
   (234, SYS_TGKILL), (235, SYS_UTIMES), (236, SYS_VSERVER),
   (237, SYS_MBIND), (238, SYS_SET_MEMPOLICY), (239, SYS_GET_MEMPOLICY),
   (240, SYS_MQ_OPEN), (241, SYS_MQ_UNLINK), (242, SYS_MQ_TIMEDSEND),
   (243, SYS_MQ_TIMEDRECEIVE), (244, SYS_MQ_NOTIFY), (245, SYS_MQ_GETSETATTR),
   (246, SYS_KEXEC_LOAD), (247, SYS_WAITID), (248, SYS_ADD_KEY),
   (249, SYS_REQUEST_KEY), (250, SYS_KEYCTL), (251, SYS_IOPRIO_SET),
   (252, SYS_IOPRIO_GET), (253, SYS_INOTIFY_INIT), (254, SYS_INOTIFY_ADD_WATCH),
   (255, SYS_INOTIFY_RM_WATCH), (256, SYS_MIGRATE_PAGES), (257, SYS_OPENAT),
   (258, SYS_MKDIRAT), (259, SYS_MKNODAT), (260, SYS_FCHOWNAT),
   (261, SYS_FUTIMESAT), (262, SYS_NEWFSTATAT), (263, SYS_UNLINKAT),
   (264, SYS_RENAMEAT), (265, SYS_LINKAT), (266, SYS_SYMLINKAT),
   (267, SYS_READLINKAT), (268, SYS_FCHMODAT), (269, SYS_FACCESSAT),
   (270, SYS_PSELECT6), (271, SYS_PPOLL), (272, SYS_UNSHARE),
   (273, SYS_SET_ROBUST_LIST), (274, SYS_GET_ROBUST_LIST), (275, SYS_SPLICE),
   (276, SYS_TEE), (277, SYS_SYNC_FILE_RANGE), (278, SYS_VMSPLICE),
   (279, SYS_MOVE_PAGES), (280, SYS_UTIMENSAT), (281, SYS_EPOLL_PWAIT),
   (282, SYS_SIGNALFD), (283, SYS_TIMERFD_CREATE), (284, SYS_EVENTFD),
   (285, SYS_FALLOCATE), (286, SYS_TIMERFD_SETTIME), (287, SYS_TIMERFD_GETTIME),
   (288, SYS_ACCEPT4), (289, SYS_SIGNALFD4), (290, SYS_EVENTFD2),
   (291, SYS_EPOLL_CREATE1), (292, SYS_DUP3), (293, SYS_PIPE2),
   (294, SYS_INOTIFY_INIT1), (295, SYS_PREADV), (296, SYS_PWRITEV),
   (297, SYS_RT_TGSIGQUEUEINFO), (298, SYS_PERF_EVENT_OPEN), (299, SYS_RECVMMSG)]"

definition x64_cases_3 :: "(nat \<times> sysnr) list" where
  "x64_cases_3 = [
   (300, SYS_FANOTIFY_INIT), (301, SYS_FANOTIFY_MARK), (302, SYS_PRLIMIT64),
   (303, SYS_NAME_TO_HANDLE_AT), (304, SYS_OPEN_BY_HANDLE_AT), (305, SYS_CLOCK_ADJTIME),
   (306, SYS_SYNCFS), (307, SYS_SENDMMSG), (308, SYS_SETNS),
   (309, SYS_GETCPU), (310, SYS_PROCESS_VM_READV), (311, SYS_PROCESS_VM_WRITEV),
   (312, SYS_KCMP), (313, SYS_FINIT_MODULE), (314, SYS_SCHED_SETATTR),
   (315, SYS_SCHED_GETATTR), (316, SYS_RENAMEAT2), (317, SYS_SECCOMP),
   (318, SYS_GETRANDOM), (319, SYS_MEMFD_CREATE), (320, SYS_KEXEC_FILE_LOAD),
   (321, SYS_BPF), (322, SYS_EXECVEAT), (323, SYS_USERFAULTFD),
   (324, SYS_MEMBARRIER), (325, SYS_MLOCK2), (326, SYS_COPY_FILE_RANGE),
   (327, SYS_PREADV2), (328, SYS_PWRITEV2), (329, SYS_PKEY_MPROTECT),
   (330, SYS_PKEY_ALLOC), (331, SYS_PKEY_FREE), (332, SYS_STATX),
   (333, SYS_IO_PGETEVENTS), (334, SYS_RSEQ), (335, SYS_URETPROBE),
   (336, SYS_UPROBE), (424, SYS_PIDFD_SEND_SIGNAL), (425, SYS_IO_URING_SETUP),
   (426, SYS_IO_URING_ENTER), (427, SYS_IO_URING_REGISTER), (428, SYS_OPEN_TREE),
   (429, SYS_MOVE_MOUNT), (430, SYS_FSOPEN), (431, SYS_FSCONFIG),
   (432, SYS_FSMOUNT), (433, SYS_FSPICK), (434, SYS_PIDFD_OPEN),
   (435, SYS_CLONE3), (436, SYS_CLOSE_RANGE), (437, SYS_OPENAT2),
   (438, SYS_PIDFD_GETFD), (439, SYS_FACCESSAT2), (440, SYS_PROCESS_MADVISE),
   (441, SYS_EPOLL_PWAIT2), (442, SYS_MOUNT_SETATTR), (443, SYS_QUOTACTL_FD),
   (444, SYS_LANDLOCK_CREATE_RULESET), (445, SYS_LANDLOCK_ADD_RULE), (446, SYS_LANDLOCK_RESTRICT_SELF),
   (447, SYS_MEMFD_SECRET), (448, SYS_PROCESS_MRELEASE), (449, SYS_FUTEX_WAITV),
   (450, SYS_SET_MEMPOLICY_HOME_NODE), (451, SYS_CACHESTAT), (452, SYS_FCHMODAT2),
   (453, SYS_MAP_SHADOW_STACK), (454, SYS__FUTEX_WAKE), (455, SYS__FUTEX_WAIT),
   (456, SYS__FUTEX_REQUEUE), (457, SYS_STATMOUNT), (458, SYS_LISTMOUNT),
   (459, SYS_LSM_GET_SELF_ATTR), (460, SYS_LSM_SET_SELF_ATTR), (461, SYS_LSM_LIST_MODULES),
   (462, SYS_MSEAL), (463, SYS_SETXATTRAT), (464, SYS_GETXATTRAT),
   (465, SYS_LISTXATTRAT), (466, SYS_REMOVEXATTRAT), (467, SYS_OPEN_TREE_ATTR),
   (468, SYS_FILE_GETATTR), (469, SYS_FILE_SETATTR)]"

definition x64_cases :: "(nat \<times> sysnr) list" where
  "x64_cases = x64_cases_1 @ x64_cases_2 @ x64_cases_3"

definition to_generic_x64 :: "nat \<Rightarrow> sysnr" where
  "to_generic_x64 nr = (case map_of x64_cases nr of None \<Rightarrow> SYS_UNKNOWN | Some g \<Rightarrow> g)"

section \<open>x32\<close>

definition x32_cases_1 :: "(nat \<times> sysnr) list" where
  "x32_cases_1 = [
   (X32_SYSCALL_BIT + 0, SYS_READ), (X32_SYSCALL_BIT + 1, SYS_WRITE), (X32_SYSCALL_BIT + 2, SYS_OPEN),
   (X32_SYSCALL_BIT + 3, SYS_CLOSE), (X32_SYSCALL_BIT + 4, SYS_STAT), (X32_SYSCALL_BIT + 5, SYS_FSTAT),
   (X32_SYSCALL_BIT + 6, SYS_LSTAT), (X32_SYSCALL_BIT + 7, SYS_POLL), (X32_SYSCALL_BIT + 8, SYS_LSEEK),
   (X32_SYSCALL_BIT + 9, SYS_MMAP), (X32_SYSCALL_BIT + 10, SYS_MPROTECT), (X32_SYSCALL_BIT + 11, SYS_MUNMAP),
   (X32_SYSCALL_BIT + 12, SYS_BRK), (X32_SYSCALL_BIT + 14, SYS_RT_SIGPROCMASK), (X32_SYSCALL_BIT + 17, SYS_PREAD64),
   (X32_SYSCALL_BIT + 18, SYS_PWRITE64), (X32_SYSCALL_BIT + 21, SYS_ACCESS), (X32_SYSCALL_BIT + 22, SYS_PIPE),
   (X32_SYSCALL_BIT + 23, SYS_SELECT), (X32_SYSCALL_BIT + 24, SYS_SCHED_YIELD), (X32_SYSCALL_BIT + 25, SYS_MREMAP),
   (X32_SYSCALL_BIT + 26, SYS_MSYNC), (X32_SYSCALL_BIT + 27, SYS_MINCORE), (X32_SYSCALL_BIT + 28, SYS_MADVISE),
   (X32_SYSCALL_BIT + 29, SYS_SHMGET), (X32_SYSCALL_BIT + 30, SYS_SHMAT), (X32_SYSCALL_BIT + 31, SYS_SHMCTL),
   (X32_SYSCALL_BIT + 32, SYS_DUP), (X32_SYSCALL_BIT + 33, SYS_DUP2), (X32_SYSCALL_BIT + 34, SYS_PAUSE),
   (X32_SYSCALL_BIT + 35, SYS_NANOSLEEP), (X32_SYSCALL_BIT + 36, SYS_GETITIMER), (X32_SYSCALL_BIT + 37, SYS_ALARM),
   (X32_SYSCALL_BIT + 38, SYS_SETITIMER), (X32_SYSCALL_BIT + 39, SYS_GETPID), (X32_SYSCALL_BIT + 40, SYS_SENDFILE),
   (X32_SYSCALL_BIT + 41, SYS_SOCKET), (X32_SYSCALL_BIT + 42, SYS_CONNECT), (X32_SYSCALL_BIT + 43, SYS_ACCEPT),
   (X32_SYSCALL_BIT + 44, SYS_SENDTO), (X32_SYSCALL_BIT + 48, SYS_SHUTDOWN), (X32_SYSCALL_BIT + 49, SYS_BIND),
   (X32_SYSCALL_BIT + 50, SYS_LISTEN), (X32_SYSCALL_BIT + 51, SYS_GETSOCKNAME), (X32_SYSCALL_BIT + 52, SYS_GETPEERNAME),
   (X32_SYSCALL_BIT + 53, SYS_SOCKETPAIR), (X32_SYSCALL_BIT + 56, SYS_CLONE), (X32_SYSCALL_BIT + 57, SYS_FORK),
   (X32_SYSCALL_BIT + 58, SYS_VFORK), (X32_SYSCALL_BIT + 60, SYS_EXIT), (X32_SYSCALL_BIT + 61, SYS_WAIT4),
   (X32_SYSCALL_BIT + 62, SYS_KILL), (X32_SYSCALL_BIT + 63, SYS_UNAME), (X32_SYSCALL_BIT + 64, SYS_SEMGET),
   (X32_SYSCALL_BIT + 65, SYS_SEMOP), (X32_SYSCALL_BIT + 66, SYS_SEMCTL), (X32_SYSCALL_BIT + 67, SYS_SHMDT),
   (X32_SYSCALL_BIT + 68, SYS_MSGGET), (X32_SYSCALL_BIT + 69, SYS_MSGSND), (X32_SYSCALL_BIT + 70, SYS_MSGRCV),
   (X32_SYSCALL_BIT + 71, SYS_MSGCTL), (X32_SYSCALL_BIT + 72, SYS_FCNTL), (X32_SYSCALL_BIT + 73, SYS_FLOCK),
   (X32_SYSCALL_BIT + 74, SYS_FSYNC), (X32_SYSCALL_BIT + 75, SYS_FDATASYNC), (X32_SYSCALL_BIT + 76, SYS_TRUNCATE),
   (X32_SYSCALL_BIT + 77, SYS_FTRUNCATE), (X32_SYSCALL_BIT + 78, SYS_GETDENTS), (X32_SYSCALL_BIT + 79, SYS_GETCWD),
   (X32_SYSCALL_BIT + 80, SYS_CHDIR), (X32_SYSCALL_BIT + 81, SYS_FCHDIR), (X32_SYSCALL_BIT + 82, SYS_RENAME),
   (X32_SYSCALL_BIT + 83, SYS_MKDIR), (X32_SYSCALL_BIT + 84, SYS_RMDIR), (X32_SYSCALL_BIT + 85, SYS_CREAT),
   (X32_SYSCALL_BIT + 86, SYS_LINK), (X32_SYSCALL_BIT + 87, SYS_UNLINK), (X32_SYSCALL_BIT + 88, SYS_SYMLINK),
   (X32_SYSCALL_BIT + 89, SYS_READLINK), (X32_SYSCALL_BIT + 90, SYS_CHMOD), (X32_SYSCALL_BIT + 91, SYS_FCHMOD),
   (X32_SYSCALL_BIT + 92, SYS_CHOWN), (X32_SYSCALL_BIT + 93, SYS_FCHOWN), (X32_SYSCALL_BIT + 94, SYS_LCHOWN),
   (X32_SYSCALL_BIT + 95, SYS_UMASK), (X32_SYSCALL_BIT + 96, SYS_GETTIMEOFDAY), (X32_SYSCALL_BIT + 97, SYS_GETRLIMIT),
   (X32_SYSCALL_BIT + 98, SYS_GETRUSAGE), (X32_SYSCALL_BIT + 99, SYS_SYSINFO), (X32_SYSCALL_BIT + 100, SYS_TIMES),
   (X32_SYSCALL_BIT + 102, SYS_GETUID), (X32_SYSCALL_BIT + 103, SYS_SYSLOG), (X32_SYSCALL_BIT + 104, SYS_GETGID),
   (X32_SYSCALL_BIT + 105, SYS_SETUID), (X32_SYSCALL_BIT + 106, SYS_SETGID), (X32_SYSCALL_BIT + 107, SYS_GETEUID),
   (X32_SYSCALL_BIT + 108, SYS_GETEGID), (X32_SYSCALL_BIT + 109, SYS_SETPGID), (X32_SYSCALL_BIT + 110, SYS_GETPPID),
   (X32_SYSCALL_BIT + 111, SYS_GETPGRP), (X32_SYSCALL_BIT + 112, SYS_SETSID), (X32_SYSCALL_BIT + 113, SYS_SETREUID),
   (X32_SYSCALL_BIT + 114, SYS_SETREGID), (X32_SYSCALL_BIT + 115, SYS_GETGROUPS), (X32_SYSCALL_BIT + 116, SYS_SETGROUPS),
   (X32_SYSCALL_BIT + 117, SYS_SETRESUID), (X32_SYSCALL_BIT + 118, SYS_GETRESUID), (X32_SYSCALL_BIT + 119, SYS_SETRESGID),
   (X32_SYSCALL_BIT + 120, SYS_GETRESGID), (X32_SYSCALL_BIT + 121, SYS_GETPGID), (X32_SYSCALL_BIT + 122, SYS_SETFSUID),
   (X32_SYSCALL_BIT + 123, SYS_SETFSGID), (X32_SYSCALL_BIT + 124, SYS_GETSID), (X32_SYSCALL_BIT + 125, SYS_CAPGET),
   (X32_SYSCALL_BIT + 126, SYS_CAPSET), (X32_SYSCALL_BIT + 130, SYS_RT_SIGSUSPEND), (X32_SYSCALL_BIT + 132, SYS_UTIME),
   (X32_SYSCALL_BIT + 133, SYS_MKNOD), (X32_SYSCALL_BIT + 135, SYS_PERSONALITY), (X32_SYSCALL_BIT + 136, SYS_USTAT),
   (X32_SYSCALL_BIT + 137, SYS_STATFS), (X32_SYSCALL_BIT + 138, SYS_FSTATFS), (X32_SYSCALL_BIT + 139, SYS_SYSFS),
   (X32_SYSCALL_BIT + 140, SYS_GETPRIORITY), (X32_SYSCALL_BIT + 141, SYS_SETPRIORITY), (X32_SYSCALL_BIT + 142, SYS_SCHED_SETPARAM),
   (X32_SYSCALL_BIT + 143, SYS_SCHED_GETPARAM), (X32_SYSCALL_BIT + 144, SYS_SCHED_SETSCHEDULER), (X32_SYSCALL_BIT + 145, SYS_SCHED_GETSCHEDULER),
   (X32_SYSCALL_BIT + 146, SYS_SCHED_GET_PRIORITY_MAX), (X32_SYSCALL_BIT + 147, SYS_SCHED_GET_PRIORITY_MIN), (X32_SYSCALL_BIT + 148, SYS_SCHED_RR_GET_INTERVAL),
   (X32_SYSCALL_BIT + 149, SYS_MLOCK), (X32_SYSCALL_BIT + 150, SYS_MUNLOCK), (X32_SYSCALL_BIT + 151, SYS_MLOCKALL),
   (X32_SYSCALL_BIT + 152, SYS_MUNLOCKALL), (X32_SYSCALL_BIT + 153, SYS_VHANGUP), (X32_SYSCALL_BIT + 154, SYS_MODIFY_LDT),
   (X32_SYSCALL_BIT + 155, SYS_PIVOT_ROOT), (X32_SYSCALL_BIT + 157, SYS_PRCTL), (X32_SYSCALL_BIT + 158, SYS_ARCH_PRCTL),
   (X32_SYSCALL_BIT + 159, SYS_ADJTIMEX), (X32_SYSCALL_BIT + 160, SYS_SETRLIMIT), (X32_SYSCALL_BIT + 161, SYS_CHROOT),
   (X32_SYSCALL_BIT + 162, SYS_SYNC), (X32_SYSCALL_BIT + 163, SYS_ACCT), (X32_SYSCALL_BIT + 164, SYS_SETTIMEOFDAY),
   (X32_SYSCALL_BIT + 165, SYS_MOUNT), (X32_SYSCALL_BIT + 166, SYS_UMOUNT2), (X32_SYSCALL_BIT + 167, SYS_SWAPON)]"

definition x32_cases_2 :: "(nat \<times> sysnr) list" where
  "x32_cases_2 = [
   (X32_SYSCALL_BIT + 168, SYS_SWAPOFF), (X32_SYSCALL_BIT + 169, SYS_REBOOT), (X32_SYSCALL_BIT + 170, SYS_SETHOSTNAME),
   (X32_SYSCALL_BIT + 171, SYS_SETDOMAINNAME), (X32_SYSCALL_BIT + 172, SYS_IOPL), (X32_SYSCALL_BIT + 173, SYS_IOPERM),
   (X32_SYSCALL_BIT + 175, SYS_INIT_MODULE), (X32_SYSCALL_BIT + 176, SYS_DELETE_MODULE), (X32_SYSCALL_BIT + 179, SYS_QUOTACTL),
   (X32_SYSCALL_BIT + 181, SYS_GETPMSG), (X32_SYSCALL_BIT + 182, SYS_PUTPMSG), (X32_SYSCALL_BIT + 183, SYS_AFS_SYSCALL),
   (X32_SYSCALL_BIT + 184, SYS_TUXCALL), (X32_SYSCALL_BIT + 185, SYS_SECURITY), (X32_SYSCALL_BIT + 186, SYS_GETTID),
   (X32_SYSCALL_BIT + 187, SYS_READAHEAD), (X32_SYSCALL_BIT + 188, SYS_SETXATTR), (X32_SYSCALL_BIT + 189, SYS_LSETXATTR),
   (X32_SYSCALL_BIT + 190, SYS_FSETXATTR), (X32_SYSCALL_BIT + 191, SYS_GETXATTR), (X32_SYSCALL_BIT + 192, SYS_LGETXATTR),
   (X32_SYSCALL_BIT + 193, SYS_FGETXATTR), (X32_SYSCALL_BIT + 194, SYS_LISTXATTR), (X32_SYSCALL_BIT + 195, SYS_LLISTXATTR),
   (X32_SYSCALL_BIT + 196, SYS_FLISTXATTR), (X32_SYSCALL_BIT + 197, SYS_REMOVEXATTR), (X32_SYSCALL_BIT + 198, SYS_LREMOVEXATTR),
   (X32_SYSCALL_BIT + 199, SYS_FREMOVEXATTR), (X32_SYSCALL_BIT + 200, SYS_TKILL), (X32_SYSCALL_BIT + 201, SYS_TIME),
   (X32_SYSCALL_BIT + 202, SYS_FUTEX), (X32_SYSCALL_BIT + 203, SYS_SCHED_SETAFFINITY), (X32_SYSCALL_BIT + 204, SYS_SCHED_GETAFFINITY),
   (X32_SYSCALL_BIT + 207, SYS_IO_DESTROY), (X32_SYSCALL_BIT + 208, SYS_IO_GETEVENTS), (X32_SYSCALL_BIT + 210, SYS_IO_CANCEL),
   (X32_SYSCALL_BIT + 212, SYS_LOOKUP_DCOOKIE), (X32_SYSCALL_BIT + 213, SYS_EPOLL_CREATE), (X32_SYSCALL_BIT + 216, SYS_REMAP_FILE_PAGES),
   (X32_SYSCALL_BIT + 217, SYS_GETDENTS64), (X32_SYSCALL_BIT + 218, SYS_SET_TID_ADDRESS), (X32_SYSCALL_BIT + 219, SYS_RESTART_SYSCALL),
   (X32_SYSCALL_BIT + 220, SYS_SEMTIMEDOP), (X32_SYSCALL_BIT + 221, SYS_FADVISE64), (X32_SYSCALL_BIT + 223, SYS_TIMER_SETTIME),
   (X32_SYSCALL_BIT + 224, SYS_TIMER_GETTIME), (X32_SYSCALL_BIT + 225, SYS_TIMER_GETOVERRUN), (X32_SYSCALL_BIT + 226, SYS_TIMER_DELETE),
   (X32_SYSCALL_BIT + 227, SYS_CLOCK_SETTIME), (X32_SYSCALL_BIT + 228, SYS_CLOCK_GETTIME), (X32_SYSCALL_BIT + 229, SYS_CLOCK_GETRES),
   (X32_SYSCALL_BIT + 230, SYS_CLOCK_NANOSLEEP), (X32_SYSCALL_BIT + 231, SYS_EXIT_GROUP), (X32_SYSCALL_BIT + 232, SYS_EPOLL_WAIT),
   (X32_SYSCALL_BIT + 233, SYS_EPOLL_CTL), (X32_SYSCALL_BIT + 234, SYS_TGKILL), (X32_SYSCALL_BIT + 235, SYS_UTIMES),
   (X32_SYSCALL_BIT + 237, SYS_MBIND), (X32_SYSCALL_BIT + 238, SYS_SET_MEMPOLICY), (X32_SYSCALL_BIT + 239, SYS_GET_MEMPOLICY),
   (X32_SYSCALL_BIT + 240, SYS_MQ_OPEN), (X32_SYSCALL_BIT + 241, SYS_MQ_UNLINK), (X32_SYSCALL_BIT + 242, SYS_MQ_TIMEDSEND),
   (X32_SYSCALL_BIT + 243, SYS_MQ_TIMEDRECEIVE), (X32_SYSCALL_BIT + 245, SYS_MQ_GETSETATTR), (X32_SYSCALL_BIT + 248, SYS_ADD_KEY),
   (X32_SYSCALL_BIT + 249, SYS_REQUEST_KEY), (X32_SYSCALL_BIT + 250, SYS_KEYCTL), (X32_SYSCALL_BIT + 251, SYS_IOPRIO_SET),
   (X32_SYSCALL_BIT + 252, SYS_IOPRIO_GET), (X32_SYSCALL_BIT + 253, SYS_INOTIFY_INIT), (X32_SYSCALL_BIT + 254, SYS_INOTIFY_ADD_WATCH),
   (X32_SYSCALL_BIT + 255, SYS_INOTIFY_RM_WATCH), (X32_SYSCALL_BIT + 256, SYS_MIGRATE_PAGES), (X32_SYSCALL_BIT + 257, SYS_OPENAT),
   (X32_SYSCALL_BIT + 258, SYS_MKDIRAT), (X32_SYSCALL_BIT + 259, SYS_MKNODAT), (X32_SYSCALL_BIT + 260, SYS_FCHOWNAT),
   (X32_SYSCALL_BIT + 261, SYS_FUTIMESAT), (X32_SYSCALL_BIT + 262, SYS_NEWFSTATAT), (X32_SYSCALL_BIT + 263, SYS_UNLINKAT),
   (X32_SYSCALL_BIT + 264, SYS_RENAMEAT), (X32_SYSCALL_BIT + 265, SYS_LINKAT), (X32_SYSCALL_BIT + 266, SYS_SYMLINKAT),
   (X32_SYSCALL_BIT + 267, SYS_READLINKAT), (X32_SYSCALL_BIT + 268, SYS_FCHMODAT), (X32_SYSCALL_BIT + 269, SYS_FACCESSAT),
   (X32_SYSCALL_BIT + 270, SYS_PSELECT6), (X32_SYSCALL_BIT + 271, SYS_PPOLL), (X32_SYSCALL_BIT + 272, SYS_UNSHARE),
   (X32_SYSCALL_BIT + 275, SYS_SPLICE), (X32_SYSCALL_BIT + 276, SYS_TEE), (X32_SYSCALL_BIT + 277, SYS_SYNC_FILE_RANGE),
   (X32_SYSCALL_BIT + 280, SYS_UTIMENSAT), (X32_SYSCALL_BIT + 281, SYS_EPOLL_PWAIT), (X32_SYSCALL_BIT + 282, SYS_SIGNALFD),
   (X32_SYSCALL_BIT + 283, SYS_TIMERFD_CREATE), (X32_SYSCALL_BIT + 284, SYS_EVENTFD), (X32_SYSCALL_BIT + 285, SYS_FALLOCATE),
   (X32_SYSCALL_BIT + 286, SYS_TIMERFD_SETTIME), (X32_SYSCALL_BIT + 287, SYS_TIMERFD_GETTIME), (X32_SYSCALL_BIT + 288, SYS_ACCEPT4),
   (X32_SYSCALL_BIT + 289, SYS_SIGNALFD4), (X32_SYSCALL_BIT + 290, SYS_EVENTFD2), (X32_SYSCALL_BIT + 291, SYS_EPOLL_CREATE1),
   (X32_SYSCALL_BIT + 292, SYS_DUP3), (X32_SYSCALL_BIT + 293, SYS_PIPE2), (X32_SYSCALL_BIT + 294, SYS_INOTIFY_INIT1),
   (X32_SYSCALL_BIT + 298, SYS_PERF_EVENT_OPEN), (X32_SYSCALL_BIT + 300, SYS_FANOTIFY_INIT), (X32_SYSCALL_BIT + 301, SYS_FANOTIFY_MARK),
   (X32_SYSCALL_BIT + 302, SYS_PRLIMIT64), (X32_SYSCALL_BIT + 303, SYS_NAME_TO_HANDLE_AT), (X32_SYSCALL_BIT + 304, SYS_OPEN_BY_HANDLE_AT),
   (X32_SYSCALL_BIT + 305, SYS_CLOCK_ADJTIME), (X32_SYSCALL_BIT + 306, SYS_SYNCFS), (X32_SYSCALL_BIT + 308, SYS_SETNS),
   (X32_SYSCALL_BIT + 309, SYS_GETCPU), (X32_SYSCALL_BIT + 312, SYS_KCMP), (X32_SYSCALL_BIT + 313, SYS_FINIT_MODULE),
   (X32_SYSCALL_BIT + 314, SYS_SCHED_SETATTR), (X32_SYSCALL_BIT + 315, SYS_SCHED_GETATTR), (X32_SYSCALL_BIT + 316, SYS_RENAMEAT2),
   (X32_SYSCALL_BIT + 317, SYS_SECCOMP), (X32_SYSCALL_BIT + 318, SYS_GETRANDOM), (X32_SYSCALL_BIT + 319, SYS_MEMFD_CREATE),
   (X32_SYSCALL_BIT + 320, SYS_KEXEC_FILE_LOAD), (X32_SYSCALL_BIT + 321, SYS_BPF), (X32_SYSCALL_BIT + 323, SYS_USERFAULTFD),
   (X32_SYSCALL_BIT + 324, SYS_MEMBARRIER), (X32_SYSCALL_BIT + 325, SYS_MLOCK2), (X32_SYSCALL_BIT + 326, SYS_COPY_FILE_RANGE),
   (X32_SYSCALL_BIT + 329, SYS_PKEY_MPROTECT), (X32_SYSCALL_BIT + 330, SYS_PKEY_ALLOC), (X32_SYSCALL_BIT + 331, SYS_PKEY_FREE),
   (X32_SYSCALL_BIT + 332, SYS_STATX), (X32_SYSCALL_BIT + 333, SYS_IO_PGETEVENTS), (X32_SYSCALL_BIT + 334, SYS_RSEQ),
   (X32_SYSCALL_BIT + 335, SYS_URETPROBE), (X32_SYSCALL_BIT + 336, SYS_UPROBE), (X32_SYSCALL_BIT + 424, SYS_PIDFD_SEND_SIGNAL),
   (X32_SYSCALL_BIT + 425, SYS_IO_URING_SETUP), (X32_SYSCALL_BIT + 426, SYS_IO_URING_ENTER), (X32_SYSCALL_BIT + 427, SYS_IO_URING_REGISTER),
   (X32_SYSCALL_BIT + 428, SYS_OPEN_TREE), (X32_SYSCALL_BIT + 429, SYS_MOVE_MOUNT), (X32_SYSCALL_BIT + 430, SYS_FSOPEN),
   (X32_SYSCALL_BIT + 431, SYS_FSCONFIG), (X32_SYSCALL_BIT + 432, SYS_FSMOUNT), (X32_SYSCALL_BIT + 433, SYS_FSPICK)]"

definition x32_cases_3 :: "(nat \<times> sysnr) list" where
  "x32_cases_3 = [
   (X32_SYSCALL_BIT + 434, SYS_PIDFD_OPEN), (X32_SYSCALL_BIT + 435, SYS_CLONE3), (X32_SYSCALL_BIT + 436, SYS_CLOSE_RANGE),
   (X32_SYSCALL_BIT + 437, SYS_OPENAT2), (X32_SYSCALL_BIT + 438, SYS_PIDFD_GETFD), (X32_SYSCALL_BIT + 439, SYS_FACCESSAT2),
   (X32_SYSCALL_BIT + 440, SYS_PROCESS_MADVISE), (X32_SYSCALL_BIT + 441, SYS_EPOLL_PWAIT2), (X32_SYSCALL_BIT + 442, SYS_MOUNT_SETATTR),
   (X32_SYSCALL_BIT + 443, SYS_QUOTACTL_FD), (X32_SYSCALL_BIT + 444, SYS_LANDLOCK_CREATE_RULESET), (X32_SYSCALL_BIT + 445, SYS_LANDLOCK_ADD_RULE),
   (X32_SYSCALL_BIT + 446, SYS_LANDLOCK_RESTRICT_SELF), (X32_SYSCALL_BIT + 447, SYS_MEMFD_SECRET), (X32_SYSCALL_BIT + 448, SYS_PROCESS_MRELEASE),
   (X32_SYSCALL_BIT + 449, SYS_FUTEX_WAITV), (X32_SYSCALL_BIT + 450, SYS_SET_MEMPOLICY_HOME_NODE), (X32_SYSCALL_BIT + 451, SYS_CACHESTAT),
   (X32_SYSCALL_BIT + 452, SYS_FCHMODAT2), (X32_SYSCALL_BIT + 453, SYS_MAP_SHADOW_STACK), (X32_SYSCALL_BIT + 454, SYS__FUTEX_WAKE),
   (X32_SYSCALL_BIT + 455, SYS__FUTEX_WAIT), (X32_SYSCALL_BIT + 456, SYS__FUTEX_REQUEUE), (X32_SYSCALL_BIT + 457, SYS_STATMOUNT),
   (X32_SYSCALL_BIT + 458, SYS_LISTMOUNT), (X32_SYSCALL_BIT + 459, SYS_LSM_GET_SELF_ATTR), (X32_SYSCALL_BIT + 460, SYS_LSM_SET_SELF_ATTR),
   (X32_SYSCALL_BIT + 461, SYS_LSM_LIST_MODULES), (X32_SYSCALL_BIT + 462, SYS_MSEAL), (X32_SYSCALL_BIT + 463, SYS_SETXATTRAT),
   (X32_SYSCALL_BIT + 464, SYS_GETXATTRAT), (X32_SYSCALL_BIT + 465, SYS_LISTXATTRAT), (X32_SYSCALL_BIT + 466, SYS_REMOVEXATTRAT),
   (X32_SYSCALL_BIT + 467, SYS_OPEN_TREE_ATTR), (X32_SYSCALL_BIT + 468, SYS_FILE_GETATTR), (X32_SYSCALL_BIT + 469, SYS_FILE_SETATTR),
   (X32_SYSCALL_BIT + 512, SYS_RT_SIGACTION), (X32_SYSCALL_BIT + 513, SYS_RT_SIGRETURN), (X32_SYSCALL_BIT + 514, SYS_IOCTL),
   (X32_SYSCALL_BIT + 515, SYS_READV), (X32_SYSCALL_BIT + 516, SYS_WRITEV), (X32_SYSCALL_BIT + 517, SYS_RECVFROM),
   (X32_SYSCALL_BIT + 518, SYS_SENDMSG), (X32_SYSCALL_BIT + 519, SYS_RECVMSG), (X32_SYSCALL_BIT + 520, SYS_EXECVE),
   (X32_SYSCALL_BIT + 521, SYS_PTRACE), (X32_SYSCALL_BIT + 522, SYS_RT_SIGPENDING), (X32_SYSCALL_BIT + 523, SYS_RT_SIGTIMEDWAIT),
   (X32_SYSCALL_BIT + 524, SYS_RT_SIGQUEUEINFO), (X32_SYSCALL_BIT + 525, SYS_SIGALTSTACK), (X32_SYSCALL_BIT + 526, SYS_TIMER_CREATE),
   (X32_SYSCALL_BIT + 527, SYS_MQ_NOTIFY), (X32_SYSCALL_BIT + 528, SYS_KEXEC_LOAD), (X32_SYSCALL_BIT + 529, SYS_WAITID),
   (X32_SYSCALL_BIT + 530, SYS_SET_ROBUST_LIST), (X32_SYSCALL_BIT + 531, SYS_GET_ROBUST_LIST), (X32_SYSCALL_BIT + 532, SYS_VMSPLICE),
   (X32_SYSCALL_BIT + 533, SYS_MOVE_PAGES), (X32_SYSCALL_BIT + 534, SYS_PREADV), (X32_SYSCALL_BIT + 535, SYS_PWRITEV),
   (X32_SYSCALL_BIT + 536, SYS_RT_TGSIGQUEUEINFO), (X32_SYSCALL_BIT + 537, SYS_RECVMMSG), (X32_SYSCALL_BIT + 538, SYS_SENDMMSG),
   (X32_SYSCALL_BIT + 539, SYS_PROCESS_VM_READV), (X32_SYSCALL_BIT + 540, SYS_PROCESS_VM_WRITEV), (X32_SYSCALL_BIT + 541, SYS_SETSOCKOPT),
   (X32_SYSCALL_BIT + 542, SYS_GETSOCKOPT), (X32_SYSCALL_BIT + 543, SYS_IO_SETUP), (X32_SYSCALL_BIT + 544, SYS_IO_SUBMIT),
   (X32_SYSCALL_BIT + 545, SYS_EXECVEAT), (X32_SYSCALL_BIT + 546, SYS_PREADV2), (X32_SYSCALL_BIT + 547, SYS_PWRITEV2)]"

definition x32_cases :: "(nat \<times> sysnr) list" where
  "x32_cases = x32_cases_1 @ x32_cases_2 @ x32_cases_3"

definition to_generic_x32 :: "nat \<Rightarrow> sysnr" where
  "to_generic_x32 nr = (case map_of x32_cases nr of None \<Rightarrow> SYS_UNKNOWN | Some g \<Rightarrow> g)"

section \<open>i386\<close>

definition i386_cases_1 :: "(nat \<times> sysnr) list" where
  "i386_cases_1 = [
   (0, SYS_RESTART_SYSCALL), (1, SYS_EXIT), (2, SYS_FORK),
   (3, SYS_READ), (4, SYS_WRITE), (5, SYS_OPEN),
   (6, SYS_CLOSE), (7, SYS_WAITPID), (8, SYS_CREAT),
   (9, SYS_LINK), (10, SYS_UNLINK), (11, SYS_EXECVE),
   (12, SYS_CHDIR), (13, SYS_TIME), (14, SYS_MKNOD),
   (15, SYS_CHMOD), (16, SYS_LCHOWN), (17, SYS_BREAK),
   (18, SYS_OLDSTAT), (19, SYS_LSEEK), (20, SYS_GETPID),
   (21, SYS_MOUNT), (22, SYS_UMOUNT), (23, SYS_SETUID),
   (24, SYS_GETUID), (25, SYS_STIME), (26, SYS_PTRACE),
   (27, SYS_ALARM), (28, SYS_OLDFSTAT), (29, SYS_PAUSE),
   (30, SYS_UTIME), (31, SYS_STTY), (32, SYS_GTTY),
   (33, SYS_ACCESS), (34, SYS_NICE), (35, SYS_FTIME),
   (36, SYS_SYNC), (37, SYS_KILL), (38, SYS_RENAME),
   (39, SYS_MKDIR), (40, SYS_RMDIR), (41, SYS_DUP),
   (42, SYS_PIPE), (43, SYS_TIMES), (44, SYS_PROF),
   (45, SYS_BRK), (46, SYS_SETGID), (47, SYS_GETGID),
   (48, SYS_SIGNAL), (49, SYS_GETEUID), (50, SYS_GETEGID),
   (51, SYS_ACCT), (52, SYS_UMOUNT2), (53, SYS_LOCK),
   (54, SYS_IOCTL), (55, SYS_FCNTL), (56, SYS_MPX),
   (57, SYS_SETPGID), (58, SYS_ULIMIT), (59, SYS_OLDOLDUNAME),
   (60, SYS_UMASK), (61, SYS_CHROOT), (62, SYS_USTAT),
   (63, SYS_DUP2), (64, SYS_GETPPID), (65, SYS_GETPGRP),
   (66, SYS_SETSID), (67, SYS_SIGACTION), (68, SYS_SGETMASK),
   (69, SYS_SSETMASK), (70, SYS_SETREUID), (71, SYS_SETREGID),
   (72, SYS_SIGSUSPEND), (73, SYS_SIGPENDING), (74, SYS_SETHOSTNAME),
   (75, SYS_SETRLIMIT), (76, SYS_GETRLIMIT), (77, SYS_GETRUSAGE),
   (78, SYS_GETTIMEOFDAY), (79, SYS_SETTIMEOFDAY), (80, SYS_GETGROUPS),
   (81, SYS_SETGROUPS), (82, SYS_SELECT), (83, SYS_SYMLINK),
   (84, SYS_OLDLSTAT), (85, SYS_READLINK), (86, SYS_USELIB),
   (87, SYS_SWAPON), (88, SYS_REBOOT), (89, SYS_READDIR),
   (90, SYS_MMAP), (91, SYS_MUNMAP), (92, SYS_TRUNCATE),
   (93, SYS_FTRUNCATE), (94, SYS_FCHMOD), (95, SYS_FCHOWN),
   (96, SYS_GETPRIORITY), (97, SYS_SETPRIORITY), (98, SYS_PROFIL),
   (99, SYS_STATFS), (100, SYS_FSTATFS), (101, SYS_IOPERM),
   (102, SYS_SOCKETCALL), (103, SYS_SYSLOG), (104, SYS_SETITIMER),
   (105, SYS_GETITIMER), (106, SYS_STAT), (107, SYS_LSTAT),
   (108, SYS_FSTAT), (109, SYS_OLDUNAME), (110, SYS_IOPL),
   (111, SYS_VHANGUP), (112, SYS_IDLE), (113, SYS_VM86OLD),
   (114, SYS_WAIT4), (115, SYS_SWAPOFF), (116, SYS_SYSINFO),
   (117, SYS_IPC), (118, SYS_FSYNC), (119, SYS_SIGRETURN),
   (120, SYS_CLONE), (121, SYS_SETDOMAINNAME), (122, SYS_UNAME),
   (123, SYS_MODIFY_LDT), (124, SYS_ADJTIMEX), (125, SYS_MPROTECT),
   (126, SYS_SIGPROCMASK), (127, SYS_CREATE_MODULE), (128, SYS_INIT_MODULE),
   (129, SYS_DELETE_MODULE), (130, SYS_GET_KERNEL_SYMS), (131, SYS_QUOTACTL),
   (132, SYS_GETPGID), (133, SYS_FCHDIR), (134, SYS_BDFLUSH),
   (135, SYS_SYSFS), (136, SYS_PERSONALITY), (137, SYS_AFS_SYSCALL),
   (138, SYS_SETFSUID), (139, SYS_SETFSGID), (140, SYS_LLSEEK),
   (141, SYS_GETDENTS), (142, SYS_NEWSELECT), (143, SYS_FLOCK),
   (144, SYS_MSYNC), (145, SYS_READV), (146, SYS_WRITEV),
   (147, SYS_GETSID), (148, SYS_FDATASYNC), (149, SYS_SYSCTL)]"

definition i386_cases_2 :: "(nat \<times> sysnr) list" where
  "i386_cases_2 = [
   (150, SYS_MLOCK), (151, SYS_MUNLOCK), (152, SYS_MLOCKALL),
   (153, SYS_MUNLOCKALL), (154, SYS_SCHED_SETPARAM), (155, SYS_SCHED_GETPARAM),
   (156, SYS_SCHED_SETSCHEDULER), (157, SYS_SCHED_GETSCHEDULER), (158, SYS_SCHED_YIELD),
   (159, SYS_SCHED_GET_PRIORITY_MAX), (160, SYS_SCHED_GET_PRIORITY_MIN), (161, SYS_SCHED_RR_GET_INTERVAL),
   (162, SYS_NANOSLEEP), (163, SYS_MREMAP), (164, SYS_SETRESUID),
   (165, SYS_GETRESUID), (166, SYS_VM86), (167, SYS_QUERY_MODULE),
   (168, SYS_POLL), (169, SYS_NFSSERVCTL), (170, SYS_SETRESGID),
   (171, SYS_GETRESGID), (172, SYS_PRCTL), (173, SYS_RT_SIGRETURN),
   (174, SYS_RT_SIGACTION), (175, SYS_RT_SIGPROCMASK), (176, SYS_RT_SIGPENDING),
   (177, SYS_RT_SIGTIMEDWAIT), (178, SYS_RT_SIGQUEUEINFO), (179, SYS_RT_SIGSUSPEND),
   (180, SYS_PREAD64), (181, SYS_PWRITE64), (182, SYS_CHOWN),
   (183, SYS_GETCWD), (184, SYS_CAPGET), (185, SYS_CAPSET),
   (186, SYS_SIGALTSTACK), (187, SYS_SENDFILE), (188, SYS_GETPMSG),
   (189, SYS_PUTPMSG), (190, SYS_VFORK), (191, SYS_UGETRLIMIT),
   (192, SYS_MMAP2), (193, SYS_TRUNCATE64), (194, SYS_FTRUNCATE64),
   (195, SYS_STAT64), (196, SYS_LSTAT64), (197, SYS_FSTAT64),
   (198, SYS_LCHOWN32), (199, SYS_GETUID32), (200, SYS_GETGID32),
   (201, SYS_GETEUID32), (202, SYS_GETEGID32), (203, SYS_SETREUID32),
   (204, SYS_SETREGID32), (205, SYS_GETGROUPS32), (206, SYS_SETGROUPS32),
   (207, SYS_FCHOWN32), (208, SYS_SETRESUID32), (209, SYS_GETRESUID32),
   (210, SYS_SETRESGID32), (211, SYS_GETRESGID32), (212, SYS_CHOWN32),
   (213, SYS_SETUID32), (214, SYS_SETGID32), (215, SYS_SETFSUID32),
   (216, SYS_SETFSGID32), (217, SYS_PIVOT_ROOT), (218, SYS_MINCORE),
   (219, SYS_MADVISE), (220, SYS_GETDENTS64), (221, SYS_FCNTL64),
   (224, SYS_GETTID), (225, SYS_READAHEAD), (226, SYS_SETXATTR),
   (227, SYS_LSETXATTR), (228, SYS_FSETXATTR), (229, SYS_GETXATTR),
   (230, SYS_LGETXATTR), (231, SYS_FGETXATTR), (232, SYS_LISTXATTR),
   (233, SYS_LLISTXATTR), (234, SYS_FLISTXATTR), (235, SYS_REMOVEXATTR),
   (236, SYS_LREMOVEXATTR), (237, SYS_FREMOVEXATTR), (238, SYS_TKILL),
   (239, SYS_SENDFILE64), (240, SYS_FUTEX), (241, SYS_SCHED_SETAFFINITY),
   (242, SYS_SCHED_GETAFFINITY), (243, SYS_SET_THREAD_AREA), (244, SYS_GET_THREAD_AREA),
   (245, SYS_IO_SETUP), (246, SYS_IO_DESTROY), (247, SYS_IO_GETEVENTS),
   (248, SYS_IO_SUBMIT), (249, SYS_IO_CANCEL), (250, SYS_FADVISE64),
   (252, SYS_EXIT_GROUP), (253, SYS_LOOKUP_DCOOKIE), (254, SYS_EPOLL_CREATE),
   (255, SYS_EPOLL_CTL), (256, SYS_EPOLL_WAIT), (257, SYS_REMAP_FILE_PAGES),
   (258, SYS_SET_TID_ADDRESS), (259, SYS_TIMER_CREATE), (260, SYS_TIMER_SETTIME),
   (261, SYS_TIMER_GETTIME), (262, SYS_TIMER_GETOVERRUN), (263, SYS_TIMER_DELETE),
   (264, SYS_CLOCK_SETTIME), (265, SYS_CLOCK_GETTIME), (266, SYS_CLOCK_GETRES),
   (267, SYS_CLOCK_NANOSLEEP), (268, SYS_STATFS64), (269, SYS_FSTATFS64),
   (270, SYS_TGKILL), (271, SYS_UTIMES), (272, SYS_FADVISE64_64),
   (273, SYS_VSERVER), (274, SYS_MBIND), (275, SYS_GET_MEMPOLICY),
   (276, SYS_SET_MEMPOLICY), (277, SYS_MQ_OPEN), (278, SYS_MQ_UNLINK),
   (279, SYS_MQ_TIMEDSEND), (280, SYS_MQ_TIMEDRECEIVE), (281, SYS_MQ_NOTIFY),
   (282, SYS_MQ_GETSETATTR), (283, SYS_KEXEC_LOAD), (284, SYS_WAITID),
   (286, SYS_ADD_KEY), (287, SYS_REQUEST_KEY), (288, SYS_KEYCTL),
   (289, SYS_IOPRIO_SET), (290, SYS_IOPRIO_GET), (291, SYS_INOTIFY_INIT),
   (292, SYS_INOTIFY_ADD_WATCH), (293, SYS_INOTIFY_RM_WATCH), (294, SYS_MIGRATE_PAGES),
   (295, SYS_OPENAT), (296, SYS_MKDIRAT), (297, SYS_MKNODAT),
   (298, SYS_FCHOWNAT), (299, SYS_FUTIMESAT), (300, SYS_FSTATAT64),
   (301, SYS_UNLINKAT), (302, SYS_RENAMEAT), (303, SYS_LINKAT)]"

definition i386_cases_3 :: "(nat \<times> sysnr) list" where
  "i386_cases_3 = [
   (304, SYS_SYMLINKAT), (305, SYS_READLINKAT), (306, SYS_FCHMODAT),
   (307, SYS_FACCESSAT), (308, SYS_PSELECT6), (309, SYS_PPOLL),
   (310, SYS_UNSHARE), (311, SYS_SET_ROBUST_LIST), (312, SYS_GET_ROBUST_LIST),
   (313, SYS_SPLICE), (314, SYS_SYNC_FILE_RANGE), (315, SYS_TEE),
   (316, SYS_VMSPLICE), (317, SYS_MOVE_PAGES), (318, SYS_GETCPU),
   (319, SYS_EPOLL_PWAIT), (320, SYS_UTIMENSAT), (321, SYS_SIGNALFD),
   (322, SYS_TIMERFD_CREATE), (323, SYS_EVENTFD), (324, SYS_FALLOCATE),
   (325, SYS_TIMERFD_SETTIME), (326, SYS_TIMERFD_GETTIME), (327, SYS_SIGNALFD4),
   (328, SYS_EVENTFD2), (329, SYS_EPOLL_CREATE1), (330, SYS_DUP3),
   (331, SYS_PIPE2), (332, SYS_INOTIFY_INIT1), (333, SYS_PREADV),
   (334, SYS_PWRITEV), (335, SYS_RT_TGSIGQUEUEINFO), (336, SYS_PERF_EVENT_OPEN),
   (337, SYS_RECVMMSG), (338, SYS_FANOTIFY_INIT), (339, SYS_FANOTIFY_MARK),
   (340, SYS_PRLIMIT64), (341, SYS_NAME_TO_HANDLE_AT), (342, SYS_OPEN_BY_HANDLE_AT),
   (343, SYS_CLOCK_ADJTIME), (344, SYS_SYNCFS), (345, SYS_SENDMMSG),
   (346, SYS_SETNS), (347, SYS_PROCESS_VM_READV), (348, SYS_PROCESS_VM_WRITEV),
   (349, SYS_KCMP), (350, SYS_FINIT_MODULE), (351, SYS_SCHED_SETATTR),
   (352, SYS_SCHED_GETATTR), (353, SYS_RENAMEAT2), (354, SYS_SECCOMP),
   (355, SYS_GETRANDOM), (356, SYS_MEMFD_CREATE), (357, SYS_BPF),
   (358, SYS_EXECVEAT), (359, SYS_SOCKET), (360, SYS_SOCKETPAIR),
   (361, SYS_BIND), (362, SYS_CONNECT), (363, SYS_LISTEN),
   (364, SYS_ACCEPT4), (365, SYS_GETSOCKOPT), (366, SYS_SETSOCKOPT),
   (367, SYS_GETSOCKNAME), (368, SYS_GETPEERNAME), (369, SYS_SENDTO),
   (370, SYS_SENDMSG), (371, SYS_RECVFROM), (372, SYS_RECVMSG),
   (373, SYS_SHUTDOWN), (374, SYS_USERFAULTFD), (375, SYS_MEMBARRIER),
   (376, SYS_MLOCK2), (377, SYS_COPY_FILE_RANGE), (378, SYS_PREADV2),
   (379, SYS_PWRITEV2), (380, SYS_PKEY_MPROTECT), (381, SYS_PKEY_ALLOC),
   (382, SYS_PKEY_FREE), (383, SYS_STATX), (384, SYS_ARCH_PRCTL),
   (385, SYS_IO_PGETEVENTS), (386, SYS_RSEQ), (393, SYS_SEMGET),
   (394, SYS_SEMCTL), (395, SYS_SHMGET), (396, SYS_SHMCTL),
   (397, SYS_SHMAT), (398, SYS_SHMDT), (399, SYS_MSGGET),
   (400, SYS_MSGSND), (401, SYS_MSGRCV), (402, SYS_MSGCTL),
   (403, SYS_CLOCK_GETTIME64), (404, SYS_CLOCK_SETTIME64), (405, SYS_CLOCK_ADJTIME64),
   (406, SYS_CLOCK_GETRES_TIME64), (407, SYS_CLOCK_NANOSLEEP_TIME64), (408, SYS_TIMER_GETTIME64),
   (409, SYS_TIMER_SETTIME64), (410, SYS_TIMERFD_GETTIME64), (411, SYS_TIMERFD_SETTIME64),
   (412, SYS_UTIMENSAT_TIME64), (413, SYS_PSELECT6_TIME64), (414, SYS_PPOLL_TIME64),
   (416, SYS_IO_PGETEVENTS_TIME64), (417, SYS_RECVMMSG_TIME64), (418, SYS_MQ_TIMEDSEND_TIME64),
   (419, SYS_MQ_TIMEDRECEIVE_TIME64), (420, SYS_SEMTIMEDOP_TIME64), (421, SYS_RT_SIGTIMEDWAIT_TIME64),
   (422, SYS_FUTEX_TIME64), (423, SYS_SCHED_RR_GET_INTERVAL_TIME64), (424, SYS_PIDFD_SEND_SIGNAL),
   (425, SYS_IO_URING_SETUP), (426, SYS_IO_URING_ENTER), (427, SYS_IO_URING_REGISTER),
   (428, SYS_OPEN_TREE), (429, SYS_MOVE_MOUNT), (430, SYS_FSOPEN),
   (431, SYS_FSCONFIG), (432, SYS_FSMOUNT), (433, SYS_FSPICK),
   (434, SYS_PIDFD_OPEN), (435, SYS_CLONE3), (436, SYS_CLOSE_RANGE),
   (437, SYS_OPENAT2), (438, SYS_PIDFD_GETFD), (439, SYS_FACCESSAT2),
   (440, SYS_PROCESS_MADVISE), (441, SYS_EPOLL_PWAIT2), (442, SYS_MOUNT_SETATTR),
   (443, SYS_QUOTACTL_FD), (444, SYS_LANDLOCK_CREATE_RULESET), (445, SYS_LANDLOCK_ADD_RULE),
   (446, SYS_LANDLOCK_RESTRICT_SELF), (447, SYS_MEMFD_SECRET), (448, SYS_PROCESS_MRELEASE),
   (449, SYS_FUTEX_WAITV), (450, SYS_SET_MEMPOLICY_HOME_NODE), (451, SYS_CACHESTAT),
   (452, SYS_FCHMODAT2), (453, SYS_MAP_SHADOW_STACK), (454, SYS__FUTEX_WAKE),
   (455, SYS__FUTEX_WAIT), (456, SYS__FUTEX_REQUEUE), (457, SYS_STATMOUNT),
   (458, SYS_LISTMOUNT), (459, SYS_LSM_GET_SELF_ATTR), (460, SYS_LSM_SET_SELF_ATTR)]"

definition i386_cases_4 :: "(nat \<times> sysnr) list" where
  "i386_cases_4 = [
   (461, SYS_LSM_LIST_MODULES), (462, SYS_MSEAL), (463, SYS_SETXATTRAT),
   (464, SYS_GETXATTRAT), (465, SYS_LISTXATTRAT), (466, SYS_REMOVEXATTRAT),
   (467, SYS_OPEN_TREE_ATTR), (468, SYS_FILE_GETATTR), (469, SYS_FILE_SETATTR)]"

definition i386_cases :: "(nat \<times> sysnr) list" where
  "i386_cases = i386_cases_1 @ i386_cases_2 @ i386_cases_3 @ i386_cases_4"

definition to_generic_i386 :: "nat \<Rightarrow> sysnr" where
  "to_generic_i386 nr = (case map_of i386_cases nr of None \<Rightarrow> SYS_UNKNOWN | Some g \<Rightarrow> g)"

section \<open>aarch64\<close>

definition aarch64_cases_1 :: "(nat \<times> sysnr) list" where
  "aarch64_cases_1 = [
   (0, SYS_IO_SETUP), (1, SYS_IO_DESTROY), (2, SYS_IO_SUBMIT),
   (3, SYS_IO_CANCEL), (4, SYS_IO_GETEVENTS), (5, SYS_SETXATTR),
   (6, SYS_LSETXATTR), (7, SYS_FSETXATTR), (8, SYS_GETXATTR),
   (9, SYS_LGETXATTR), (10, SYS_FGETXATTR), (11, SYS_LISTXATTR),
   (12, SYS_LLISTXATTR), (13, SYS_FLISTXATTR), (14, SYS_REMOVEXATTR),
   (15, SYS_LREMOVEXATTR), (16, SYS_FREMOVEXATTR), (17, SYS_GETCWD),
   (18, SYS_LOOKUP_DCOOKIE), (19, SYS_EVENTFD2), (20, SYS_EPOLL_CREATE1),
   (21, SYS_EPOLL_CTL), (22, SYS_EPOLL_PWAIT), (23, SYS_DUP),
   (24, SYS_DUP3), (25, SYS_FCNTL), (26, SYS_INOTIFY_INIT1),
   (27, SYS_INOTIFY_ADD_WATCH), (28, SYS_INOTIFY_RM_WATCH), (29, SYS_IOCTL),
   (30, SYS_IOPRIO_SET), (31, SYS_IOPRIO_GET), (32, SYS_FLOCK),
   (33, SYS_MKNODAT), (34, SYS_MKDIRAT), (35, SYS_UNLINKAT),
   (36, SYS_SYMLINKAT), (37, SYS_LINKAT), (38, SYS_RENAMEAT),
   (39, SYS_UMOUNT2), (40, SYS_MOUNT), (41, SYS_PIVOT_ROOT),
   (42, SYS_NFSSERVCTL), (43, SYS_STATFS), (44, SYS_FSTATFS),
   (45, SYS_TRUNCATE), (46, SYS_FTRUNCATE), (47, SYS_FALLOCATE),
   (48, SYS_FACCESSAT), (49, SYS_CHDIR), (50, SYS_FCHDIR),
   (51, SYS_CHROOT), (52, SYS_FCHMOD), (53, SYS_FCHMODAT),
   (54, SYS_FCHOWNAT), (55, SYS_FCHOWN), (56, SYS_OPENAT),
   (57, SYS_CLOSE), (58, SYS_VHANGUP), (59, SYS_PIPE2),
   (60, SYS_QUOTACTL), (61, SYS_GETDENTS64), (62, SYS_LSEEK),
   (63, SYS_READ), (64, SYS_WRITE), (65, SYS_READV),
   (66, SYS_WRITEV), (67, SYS_PREAD64), (68, SYS_PWRITE64),
   (69, SYS_PREADV), (70, SYS_PWRITEV), (71, SYS_SENDFILE),
   (72, SYS_PSELECT6), (73, SYS_PPOLL), (74, SYS_SIGNALFD4),
   (75, SYS_VMSPLICE), (76, SYS_SPLICE), (77, SYS_TEE),
   (78, SYS_READLINKAT), (79, SYS_NEWFSTATAT), (80, SYS_FSTAT),
   (81, SYS_SYNC), (82, SYS_FSYNC), (83, SYS_FDATASYNC),
   (84, SYS_SYNC_FILE_RANGE), (85, SYS_TIMERFD_CREATE), (86, SYS_TIMERFD_SETTIME),
   (87, SYS_TIMERFD_GETTIME), (88, SYS_UTIMENSAT), (89, SYS_ACCT),
   (90, SYS_CAPGET), (91, SYS_CAPSET), (92, SYS_PERSONALITY),
   (93, SYS_EXIT), (94, SYS_EXIT_GROUP), (95, SYS_WAITID),
   (96, SYS_SET_TID_ADDRESS), (97, SYS_UNSHARE), (98, SYS_FUTEX),
   (99, SYS_SET_ROBUST_LIST), (100, SYS_GET_ROBUST_LIST), (101, SYS_NANOSLEEP),
   (102, SYS_GETITIMER), (103, SYS_SETITIMER), (104, SYS_KEXEC_LOAD),
   (105, SYS_INIT_MODULE), (106, SYS_DELETE_MODULE), (107, SYS_TIMER_CREATE),
   (108, SYS_TIMER_GETTIME), (109, SYS_TIMER_GETOVERRUN), (110, SYS_TIMER_SETTIME),
   (111, SYS_TIMER_DELETE), (112, SYS_CLOCK_SETTIME), (113, SYS_CLOCK_GETTIME),
   (114, SYS_CLOCK_GETRES), (115, SYS_CLOCK_NANOSLEEP), (116, SYS_SYSLOG),
   (117, SYS_PTRACE), (118, SYS_SCHED_SETPARAM), (119, SYS_SCHED_SETSCHEDULER),
   (120, SYS_SCHED_GETSCHEDULER), (121, SYS_SCHED_GETPARAM), (122, SYS_SCHED_SETAFFINITY),
   (123, SYS_SCHED_GETAFFINITY), (124, SYS_SCHED_YIELD), (125, SYS_SCHED_GET_PRIORITY_MAX),
   (126, SYS_SCHED_GET_PRIORITY_MIN), (127, SYS_SCHED_RR_GET_INTERVAL), (128, SYS_RESTART_SYSCALL),
   (129, SYS_KILL), (130, SYS_TKILL), (131, SYS_TGKILL),
   (132, SYS_SIGALTSTACK), (133, SYS_RT_SIGSUSPEND), (134, SYS_RT_SIGACTION),
   (135, SYS_RT_SIGPROCMASK), (136, SYS_RT_SIGPENDING), (137, SYS_RT_SIGTIMEDWAIT),
   (138, SYS_RT_SIGQUEUEINFO), (139, SYS_RT_SIGRETURN), (140, SYS_SETPRIORITY),
   (141, SYS_GETPRIORITY), (142, SYS_REBOOT), (143, SYS_SETREGID),
   (144, SYS_SETGID), (145, SYS_SETREUID), (146, SYS_SETUID),
   (147, SYS_SETRESUID), (148, SYS_GETRESUID), (149, SYS_SETRESGID)]"

definition aarch64_cases_2 :: "(nat \<times> sysnr) list" where
  "aarch64_cases_2 = [
   (150, SYS_GETRESGID), (151, SYS_SETFSUID), (152, SYS_SETFSGID),
   (153, SYS_TIMES), (154, SYS_SETPGID), (155, SYS_GETPGID),
   (156, SYS_GETSID), (157, SYS_SETSID), (158, SYS_GETGROUPS),
   (159, SYS_SETGROUPS), (160, SYS_UNAME), (161, SYS_SETHOSTNAME),
   (162, SYS_SETDOMAINNAME), (163, SYS_GETRLIMIT), (164, SYS_SETRLIMIT),
   (165, SYS_GETRUSAGE), (166, SYS_UMASK), (167, SYS_PRCTL),
   (168, SYS_GETCPU), (169, SYS_GETTIMEOFDAY), (170, SYS_SETTIMEOFDAY),
   (171, SYS_ADJTIMEX), (172, SYS_GETPID), (173, SYS_GETPPID),
   (174, SYS_GETUID), (175, SYS_GETEUID), (176, SYS_GETGID),
   (177, SYS_GETEGID), (178, SYS_GETTID), (179, SYS_SYSINFO),
   (180, SYS_MQ_OPEN), (181, SYS_MQ_UNLINK), (182, SYS_MQ_TIMEDSEND),
   (183, SYS_MQ_TIMEDRECEIVE), (184, SYS_MQ_NOTIFY), (185, SYS_MQ_GETSETATTR),
   (186, SYS_MSGGET), (187, SYS_MSGCTL), (188, SYS_MSGRCV),
   (189, SYS_MSGSND), (190, SYS_SEMGET), (191, SYS_SEMCTL),
   (192, SYS_SEMTIMEDOP), (193, SYS_SEMOP), (194, SYS_SHMGET),
   (195, SYS_SHMCTL), (196, SYS_SHMAT), (197, SYS_SHMDT),
   (198, SYS_SOCKET), (199, SYS_SOCKETPAIR), (200, SYS_BIND),
   (201, SYS_LISTEN), (202, SYS_ACCEPT), (203, SYS_CONNECT),
   (204, SYS_GETSOCKNAME), (205, SYS_GETPEERNAME), (206, SYS_SENDTO),
   (207, SYS_RECVFROM), (208, SYS_SETSOCKOPT), (209, SYS_GETSOCKOPT),
   (210, SYS_SHUTDOWN), (211, SYS_SENDMSG), (212, SYS_RECVMSG),
   (213, SYS_READAHEAD), (214, SYS_BRK), (215, SYS_MUNMAP),
   (216, SYS_MREMAP), (217, SYS_ADD_KEY), (218, SYS_REQUEST_KEY),
   (219, SYS_KEYCTL), (220, SYS_CLONE), (221, SYS_EXECVE),
   (222, SYS_MMAP), (223, SYS_FADVISE64), (224, SYS_SWAPON),
   (225, SYS_SWAPOFF), (226, SYS_MPROTECT), (227, SYS_MSYNC),
   (228, SYS_MLOCK), (229, SYS_MUNLOCK), (230, SYS_MLOCKALL),
   (231, SYS_MUNLOCKALL), (232, SYS_MINCORE), (233, SYS_MADVISE),
   (234, SYS_REMAP_FILE_PAGES), (235, SYS_MBIND), (236, SYS_GET_MEMPOLICY),
   (237, SYS_SET_MEMPOLICY), (238, SYS_MIGRATE_PAGES), (239, SYS_MOVE_PAGES),
   (240, SYS_RT_TGSIGQUEUEINFO), (241, SYS_PERF_EVENT_OPEN), (242, SYS_ACCEPT4),
   (243, SYS_RECVMMSG), (260, SYS_WAIT4), (261, SYS_PRLIMIT64),
   (262, SYS_FANOTIFY_INIT), (263, SYS_FANOTIFY_MARK), (264, SYS_NAME_TO_HANDLE_AT),
   (265, SYS_OPEN_BY_HANDLE_AT), (266, SYS_CLOCK_ADJTIME), (267, SYS_SYNCFS),
   (268, SYS_SETNS), (269, SYS_SENDMMSG), (270, SYS_PROCESS_VM_READV),
   (271, SYS_PROCESS_VM_WRITEV), (272, SYS_KCMP), (273, SYS_FINIT_MODULE),
   (274, SYS_SCHED_SETATTR), (275, SYS_SCHED_GETATTR), (276, SYS_RENAMEAT2),
   (277, SYS_SECCOMP), (278, SYS_GETRANDOM), (279, SYS_MEMFD_CREATE),
   (280, SYS_BPF), (281, SYS_EXECVEAT), (282, SYS_USERFAULTFD),
   (283, SYS_MEMBARRIER), (284, SYS_MLOCK2), (285, SYS_COPY_FILE_RANGE),
   (286, SYS_PREADV2), (287, SYS_PWRITEV2), (288, SYS_PKEY_MPROTECT),
   (289, SYS_PKEY_ALLOC), (290, SYS_PKEY_FREE), (291, SYS_STATX),
   (292, SYS_IO_PGETEVENTS), (293, SYS_RSEQ), (294, SYS_KEXEC_FILE_LOAD),
   (424, SYS_PIDFD_SEND_SIGNAL), (425, SYS_IO_URING_SETUP), (426, SYS_IO_URING_ENTER),
   (427, SYS_IO_URING_REGISTER), (428, SYS_OPEN_TREE), (429, SYS_MOVE_MOUNT),
   (430, SYS_FSOPEN), (431, SYS_FSCONFIG), (432, SYS_FSMOUNT),
   (433, SYS_FSPICK), (434, SYS_PIDFD_OPEN), (435, SYS_CLONE3),
   (436, SYS_CLOSE_RANGE), (437, SYS_OPENAT2), (438, SYS_PIDFD_GETFD),
   (439, SYS_FACCESSAT2), (440, SYS_PROCESS_MADVISE), (441, SYS_EPOLL_PWAIT2),
   (442, SYS_MOUNT_SETATTR), (443, SYS_QUOTACTL_FD), (444, SYS_LANDLOCK_CREATE_RULESET)]"

definition aarch64_cases_3 :: "(nat \<times> sysnr) list" where
  "aarch64_cases_3 = [
   (445, SYS_LANDLOCK_ADD_RULE), (446, SYS_LANDLOCK_RESTRICT_SELF), (447, SYS_MEMFD_SECRET),
   (448, SYS_PROCESS_MRELEASE), (449, SYS_FUTEX_WAITV), (450, SYS_SET_MEMPOLICY_HOME_NODE),
   (451, SYS_CACHESTAT), (452, SYS_FCHMODAT2), (453, SYS_MAP_SHADOW_STACK),
   (454, SYS__FUTEX_WAKE), (455, SYS__FUTEX_WAIT), (456, SYS__FUTEX_REQUEUE),
   (457, SYS_STATMOUNT), (458, SYS_LISTMOUNT), (459, SYS_LSM_GET_SELF_ATTR),
   (460, SYS_LSM_SET_SELF_ATTR), (461, SYS_LSM_LIST_MODULES), (462, SYS_MSEAL),
   (463, SYS_SETXATTRAT), (464, SYS_GETXATTRAT), (465, SYS_LISTXATTRAT),
   (466, SYS_REMOVEXATTRAT), (467, SYS_OPEN_TREE_ATTR), (468, SYS_FILE_GETATTR),
   (469, SYS_FILE_SETATTR)]"

definition aarch64_cases :: "(nat \<times> sysnr) list" where
  "aarch64_cases = aarch64_cases_1 @ aarch64_cases_2 @ aarch64_cases_3"

definition to_generic_aarch64 :: "nat \<Rightarrow> sysnr" where
  "to_generic_aarch64 nr = (case map_of aarch64_cases nr of None \<Rightarrow> SYS_UNKNOWN | Some g \<Rightarrow> g)"

section \<open>Names\<close>

definition SYSTEM_CALL_NAMES_1 :: "string list" where
  "SYSTEM_CALL_NAMES_1 = [
   ''unknown'', ''accept'', ''accept4'', ''access'',
   ''acct'', ''add_key'', ''adjtimex'', ''afs_syscall'',
   ''alarm'', ''arch_prctl'', ''bdflush'', ''bind'',
   ''bpf'', ''break'', ''brk'', ''cachestat'',
   ''capget'', ''capset'', ''chdir'', ''chmod'',
   ''chown'', ''chown32'', ''chroot'', ''clock_adjtime'',
   ''clock_adjtime64'', ''clock_getres'', ''clock_getres_time64'', ''clock_gettime'',
   ''clock_gettime64'', ''clock_nanosleep'', ''clock_nanosleep_time64'', ''clock_settime'',
   ''clock_settime64'', ''clone'', ''clone3'', ''close'',
   ''close_range'', ''connect'', ''copy_file_range'', ''creat'',
   ''create_module'', ''delete_module'', ''dup'', ''dup2'',
   ''dup3'', ''epoll_create'', ''epoll_create1'', ''epoll_ctl'',
   ''epoll_ctl_old'', ''epoll_pwait'', ''epoll_pwait2'', ''epoll_wait'',
   ''epoll_wait_old'', ''eventfd'', ''eventfd2'', ''execve'',
   ''execveat'', ''exit'', ''exit_group'', ''faccessat'',
   ''faccessat2'', ''fadvise64'', ''fadvise64_64'', ''fallocate'',
   ''fanotify_init'', ''fanotify_mark'', ''fchdir'', ''fchmod'',
   ''fchmodat'', ''fchmodat2'', ''fchown'', ''fchown32'',
   ''fchownat'', ''fcntl'', ''fcntl64'', ''fdatasync'',
   ''fgetxattr'', ''file_getattr'', ''file_setattr'', ''finit_module'',
   ''flistxattr'', ''flock'', ''fork'', ''fremovexattr'',
   ''fsconfig'', ''fsetxattr'', ''fsmount'', ''fsopen'',
   ''fspick'', ''fstat'', ''fstat64'', ''fstatat64'',
   ''fstatfs'', ''fstatfs64'', ''fsync'', ''ftime'',
   ''ftruncate'', ''ftruncate64'', ''futex'', ''futex_requeue'',
   ''futex_time64'', ''futex_wait'', ''futex_waitv'', ''futex_wake'',
   ''futimesat'', ''get_kernel_syms'', ''get_mempolicy'', ''get_robust_list'',
   ''get_thread_area'', ''getcpu'', ''getcwd'', ''getdents'',
   ''getdents64'', ''getegid'', ''getegid32'', ''geteuid'',
   ''geteuid32'', ''getgid'', ''getgid32'', ''getgroups'',
   ''getgroups32'', ''getitimer'', ''getpeername'', ''getpgid'',
   ''getpgrp'', ''getpid'', ''getpmsg'', ''getppid'',
   ''getpriority'', ''getrandom'', ''getresgid'', ''getresgid32'',
   ''getresuid'', ''getresuid32'', ''getrlimit'', ''getrusage'',
   ''getsid'', ''getsockname'', ''getsockopt'', ''gettid'',
   ''gettimeofday'', ''getuid'', ''getuid32'', ''getxattr'',
   ''getxattrat'', ''gtty'', ''idle'', ''init_module'',
   ''inotify_add_watch'', ''inotify_init'']"

definition SYSTEM_CALL_NAMES_2 :: "string list" where
  "SYSTEM_CALL_NAMES_2 = [
   ''inotify_init1'', ''inotify_rm_watch'', ''io_cancel'', ''io_destroy'',
   ''io_getevents'', ''io_pgetevents'', ''io_pgetevents_time64'', ''io_setup'',
   ''io_submit'', ''io_uring_enter'', ''io_uring_register'', ''io_uring_setup'',
   ''ioctl'', ''ioperm'', ''iopl'', ''ioprio_get'',
   ''ioprio_set'', ''ipc'', ''kcmp'', ''kexec_file_load'',
   ''kexec_load'', ''keyctl'', ''kill'', ''landlock_add_rule'',
   ''landlock_create_ruleset'', ''landlock_restrict_self'', ''lchown'', ''lchown32'',
   ''lgetxattr'', ''link'', ''linkat'', ''listen'',
   ''listmount'', ''listxattr'', ''listxattrat'', ''llistxattr'',
   ''llseek'', ''lock'', ''lookup_dcookie'', ''lremovexattr'',
   ''lseek'', ''lsetxattr'', ''lsm_get_self_attr'', ''lsm_list_modules'',
   ''lsm_set_self_attr'', ''lstat'', ''lstat64'', ''madvise'',
   ''map_shadow_stack'', ''mbind'', ''membarrier'', ''memfd_create'',
   ''memfd_secret'', ''migrate_pages'', ''mincore'', ''mkdir'',
   ''mkdirat'', ''mknod'', ''mknodat'', ''mlock'',
   ''mlock2'', ''mlockall'', ''mmap'', ''mmap2'',
   ''modify_ldt'', ''mount'', ''mount_setattr'', ''move_mount'',
   ''move_pages'', ''mprotect'', ''mpx'', ''mq_getsetattr'',
   ''mq_notify'', ''mq_open'', ''mq_timedreceive'', ''mq_timedreceive_time64'',
   ''mq_timedsend'', ''mq_timedsend_time64'', ''mq_unlink'', ''mremap'',
   ''mseal'', ''msgctl'', ''msgget'', ''msgrcv'',
   ''msgsnd'', ''msync'', ''munlock'', ''munlockall'',
   ''munmap'', ''name_to_handle_at'', ''nanosleep'', ''newfstatat'',
   ''newselect'', ''nfsservctl'', ''nice'', ''oldfstat'',
   ''oldlstat'', ''oldolduname'', ''oldstat'', ''olduname'',
   ''open'', ''open_by_handle_at'', ''open_tree'', ''open_tree_attr'',
   ''openat'', ''openat2'', ''pause'', ''perf_event_open'',
   ''personality'', ''pidfd_getfd'', ''pidfd_open'', ''pidfd_send_signal'',
   ''pipe'', ''pipe2'', ''pivot_root'', ''pkey_alloc'',
   ''pkey_free'', ''pkey_mprotect'', ''poll'', ''ppoll'',
   ''ppoll_time64'', ''prctl'', ''pread64'', ''preadv'',
   ''preadv2'', ''prlimit64'', ''process_madvise'', ''process_mrelease'',
   ''process_vm_readv'', ''process_vm_writev'', ''prof'', ''profil'',
   ''pselect6'', ''pselect6_time64'', ''ptrace'', ''putpmsg'',
   ''pwrite64'', ''pwritev'', ''pwritev2'', ''query_module'',
   ''quotactl'', ''quotactl_fd'', ''read'', ''readahead'',
   ''readdir'', ''readlink'', ''readlinkat'', ''readv'',
   ''reboot'', ''recvfrom'']"

definition SYSTEM_CALL_NAMES_3 :: "string list" where
  "SYSTEM_CALL_NAMES_3 = [
   ''recvmmsg'', ''recvmmsg_time64'', ''recvmsg'', ''remap_file_pages'',
   ''removexattr'', ''removexattrat'', ''rename'', ''renameat'',
   ''renameat2'', ''request_key'', ''restart_syscall'', ''rmdir'',
   ''rseq'', ''rt_sigaction'', ''rt_sigpending'', ''rt_sigprocmask'',
   ''rt_sigqueueinfo'', ''rt_sigreturn'', ''rt_sigsuspend'', ''rt_sigtimedwait'',
   ''rt_sigtimedwait_time64'', ''rt_tgsigqueueinfo'', ''sched_get_priority_max'', ''sched_get_priority_min'',
   ''sched_getaffinity'', ''sched_getattr'', ''sched_getparam'', ''sched_getscheduler'',
   ''sched_rr_get_interval'', ''sched_rr_get_interval_time64'', ''sched_setaffinity'', ''sched_setattr'',
   ''sched_setparam'', ''sched_setscheduler'', ''sched_yield'', ''seccomp'',
   ''security'', ''select'', ''semctl'', ''semget'',
   ''semop'', ''semtimedop'', ''semtimedop_time64'', ''sendfile'',
   ''sendfile64'', ''sendmmsg'', ''sendmsg'', ''sendto'',
   ''set_mempolicy'', ''set_mempolicy_home_node'', ''set_robust_list'', ''set_thread_area'',
   ''set_tid_address'', ''setdomainname'', ''setfsgid'', ''setfsgid32'',
   ''setfsuid'', ''setfsuid32'', ''setgid'', ''setgid32'',
   ''setgroups'', ''setgroups32'', ''sethostname'', ''setitimer'',
   ''setns'', ''setpgid'', ''setpriority'', ''setregid'',
   ''setregid32'', ''setresgid'', ''setresgid32'', ''setresuid'',
   ''setresuid32'', ''setreuid'', ''setreuid32'', ''setrlimit'',
   ''setsid'', ''setsockopt'', ''settimeofday'', ''setuid'',
   ''setuid32'', ''setxattr'', ''setxattrat'', ''sgetmask'',
   ''shmat'', ''shmctl'', ''shmdt'', ''shmget'',
   ''shutdown'', ''sigaction'', ''sigaltstack'', ''signal'',
   ''signalfd'', ''signalfd4'', ''sigpending'', ''sigprocmask'',
   ''sigreturn'', ''sigsuspend'', ''socket'', ''socketcall'',
   ''socketpair'', ''splice'', ''ssetmask'', ''stat'',
   ''stat64'', ''statfs'', ''statfs64'', ''statmount'',
   ''statx'', ''stime'', ''stty'', ''swapoff'',
   ''swapon'', ''symlink'', ''symlinkat'', ''sync'',
   ''sync_file_range'', ''syncfs'', ''sysctl'', ''sysfs'',
   ''sysinfo'', ''syslog'', ''tee'', ''tgkill'',
   ''time'', ''timer_create'', ''timer_delete'', ''timer_getoverrun'',
   ''timer_gettime'', ''timer_gettime64'', ''timer_settime'', ''timer_settime64'',
   ''timerfd_create'', ''timerfd_gettime'', ''timerfd_gettime64'', ''timerfd_settime'',
   ''timerfd_settime64'', ''times'', ''tkill'', ''truncate'',
   ''truncate64'', ''tuxcall'', ''ugetrlimit'', ''ulimit'',
   ''umask'', ''umount'', ''umount2'', ''uname'',
   ''unlink'', ''unlinkat'']"

definition SYSTEM_CALL_NAMES_4 :: "string list" where
  "SYSTEM_CALL_NAMES_4 = [
   ''unshare'', ''uprobe'', ''uretprobe'', ''uselib'',
   ''userfaultfd'', ''ustat'', ''utime'', ''utimensat'',
   ''utimensat_time64'', ''utimes'', ''vfork'', ''vhangup'',
   ''vm86'', ''vm86old'', ''vmsplice'', ''vserver'',
   ''wait4'', ''waitid'', ''waitpid'', ''write'',
   ''writev'']"

definition SYSTEM_CALL_NAMES :: "string list" where
  "SYSTEM_CALL_NAMES = SYSTEM_CALL_NAMES_1 @ SYSTEM_CALL_NAMES_2 @ SYSTEM_CALL_NAMES_3 @ SYSTEM_CALL_NAMES_4"

definition SYSTEM_CALL_NAME_MAP_1 :: "(string \<times> sysnr) list" where
  "SYSTEM_CALL_NAME_MAP_1 = [
   (''accept'', SYS_ACCEPT), (''accept4'', SYS_ACCEPT4), (''access'', SYS_ACCESS),
   (''acct'', SYS_ACCT), (''add_key'', SYS_ADD_KEY), (''adjtimex'', SYS_ADJTIMEX),
   (''afs_syscall'', SYS_AFS_SYSCALL), (''alarm'', SYS_ALARM), (''arch_prctl'', SYS_ARCH_PRCTL),
   (''bdflush'', SYS_BDFLUSH), (''bind'', SYS_BIND), (''bpf'', SYS_BPF),
   (''break'', SYS_BREAK), (''brk'', SYS_BRK), (''cachestat'', SYS_CACHESTAT),
   (''capget'', SYS_CAPGET), (''capset'', SYS_CAPSET), (''chdir'', SYS_CHDIR),
   (''chmod'', SYS_CHMOD), (''chown'', SYS_CHOWN), (''chown32'', SYS_CHOWN32),
   (''chroot'', SYS_CHROOT), (''clock_adjtime'', SYS_CLOCK_ADJTIME), (''clock_adjtime64'', SYS_CLOCK_ADJTIME64),
   (''clock_getres'', SYS_CLOCK_GETRES), (''clock_getres_time64'', SYS_CLOCK_GETRES_TIME64), (''clock_gettime'', SYS_CLOCK_GETTIME),
   (''clock_gettime64'', SYS_CLOCK_GETTIME64), (''clock_nanosleep'', SYS_CLOCK_NANOSLEEP), (''clock_nanosleep_time64'', SYS_CLOCK_NANOSLEEP_TIME64),
   (''clock_settime'', SYS_CLOCK_SETTIME), (''clock_settime64'', SYS_CLOCK_SETTIME64), (''clone'', SYS_CLONE),
   (''clone3'', SYS_CLONE3), (''close'', SYS_CLOSE), (''close_range'', SYS_CLOSE_RANGE),
   (''connect'', SYS_CONNECT), (''copy_file_range'', SYS_COPY_FILE_RANGE), (''creat'', SYS_CREAT),
   (''create_module'', SYS_CREATE_MODULE), (''delete_module'', SYS_DELETE_MODULE), (''dup'', SYS_DUP),
   (''dup2'', SYS_DUP2), (''dup3'', SYS_DUP3), (''epoll_create'', SYS_EPOLL_CREATE),
   (''epoll_create1'', SYS_EPOLL_CREATE1), (''epoll_ctl'', SYS_EPOLL_CTL), (''epoll_ctl_old'', SYS_EPOLL_CTL_OLD),
   (''epoll_pwait'', SYS_EPOLL_PWAIT), (''epoll_pwait2'', SYS_EPOLL_PWAIT2), (''epoll_wait'', SYS_EPOLL_WAIT),
   (''epoll_wait_old'', SYS_EPOLL_WAIT_OLD), (''eventfd'', SYS_EVENTFD), (''eventfd2'', SYS_EVENTFD2),
   (''execve'', SYS_EXECVE), (''execveat'', SYS_EXECVEAT), (''exit'', SYS_EXIT),
   (''exit_group'', SYS_EXIT_GROUP), (''faccessat'', SYS_FACCESSAT), (''faccessat2'', SYS_FACCESSAT2),
   (''fadvise64'', SYS_FADVISE64), (''fadvise64_64'', SYS_FADVISE64_64), (''fallocate'', SYS_FALLOCATE),
   (''fanotify_init'', SYS_FANOTIFY_INIT), (''fanotify_mark'', SYS_FANOTIFY_MARK), (''fchdir'', SYS_FCHDIR),
   (''fchmod'', SYS_FCHMOD), (''fchmodat'', SYS_FCHMODAT), (''fchmodat2'', SYS_FCHMODAT2),
   (''fchown'', SYS_FCHOWN), (''fchown32'', SYS_FCHOWN32), (''fchownat'', SYS_FCHOWNAT),
   (''fcntl'', SYS_FCNTL), (''fcntl64'', SYS_FCNTL64), (''fdatasync'', SYS_FDATASYNC),
   (''fgetxattr'', SYS_FGETXATTR), (''file_getattr'', SYS_FILE_GETATTR), (''file_setattr'', SYS_FILE_SETATTR),
   (''finit_module'', SYS_FINIT_MODULE), (''flistxattr'', SYS_FLISTXATTR), (''flock'', SYS_FLOCK),
   (''fork'', SYS_FORK), (''fremovexattr'', SYS_FREMOVEXATTR), (''fsconfig'', SYS_FSCONFIG),
   (''fsetxattr'', SYS_FSETXATTR), (''fsmount'', SYS_FSMOUNT), (''fsopen'', SYS_FSOPEN),
   (''fspick'', SYS_FSPICK), (''fstat'', SYS_FSTAT), (''fstat64'', SYS_FSTAT64),
   (''fstatat64'', SYS_FSTATAT64), (''fstatfs'', SYS_FSTATFS), (''fstatfs64'', SYS_FSTATFS64),
   (''fsync'', SYS_FSYNC), (''ftime'', SYS_FTIME), (''ftruncate'', SYS_FTRUNCATE),
   (''ftruncate64'', SYS_FTRUNCATE64), (''futex'', SYS_FUTEX), (''futex_requeue'', SYS__FUTEX_REQUEUE),
   (''futex_time64'', SYS_FUTEX_TIME64), (''futex_wait'', SYS__FUTEX_WAIT), (''futex_waitv'', SYS_FUTEX_WAITV),
   (''futex_wake'', SYS__FUTEX_WAKE), (''futimesat'', SYS_FUTIMESAT), (''get_kernel_syms'', SYS_GET_KERNEL_SYMS),
   (''get_mempolicy'', SYS_GET_MEMPOLICY), (''get_robust_list'', SYS_GET_ROBUST_LIST), (''get_thread_area'', SYS_GET_THREAD_AREA),
   (''getcpu'', SYS_GETCPU), (''getcwd'', SYS_GETCWD), (''getdents'', SYS_GETDENTS),
   (''getdents64'', SYS_GETDENTS64), (''getegid'', SYS_GETEGID), (''getegid32'', SYS_GETEGID32),
   (''geteuid'', SYS_GETEUID), (''geteuid32'', SYS_GETEUID32), (''getgid'', SYS_GETGID),
   (''getgid32'', SYS_GETGID32), (''getgroups'', SYS_GETGROUPS), (''getgroups32'', SYS_GETGROUPS32),
   (''getitimer'', SYS_GETITIMER), (''getpeername'', SYS_GETPEERNAME), (''getpgid'', SYS_GETPGID),
   (''getpgrp'', SYS_GETPGRP), (''getpid'', SYS_GETPID), (''getpmsg'', SYS_GETPMSG),
   (''getppid'', SYS_GETPPID), (''getpriority'', SYS_GETPRIORITY), (''getrandom'', SYS_GETRANDOM),
   (''getresgid'', SYS_GETRESGID), (''getresgid32'', SYS_GETRESGID32), (''getresuid'', SYS_GETRESUID),
   (''getresuid32'', SYS_GETRESUID32), (''getrlimit'', SYS_GETRLIMIT), (''getrusage'', SYS_GETRUSAGE),
   (''getsid'', SYS_GETSID), (''getsockname'', SYS_GETSOCKNAME), (''getsockopt'', SYS_GETSOCKOPT),
   (''gettid'', SYS_GETTID), (''gettimeofday'', SYS_GETTIMEOFDAY), (''getuid'', SYS_GETUID),
   (''getuid32'', SYS_GETUID32), (''getxattr'', SYS_GETXATTR), (''getxattrat'', SYS_GETXATTRAT),
   (''gtty'', SYS_GTTY), (''idle'', SYS_IDLE), (''init_module'', SYS_INIT_MODULE),
   (''inotify_add_watch'', SYS_INOTIFY_ADD_WATCH), (''inotify_init'', SYS_INOTIFY_INIT), (''inotify_init1'', SYS_INOTIFY_INIT1)]"

definition SYSTEM_CALL_NAME_MAP_2 :: "(string \<times> sysnr) list" where
  "SYSTEM_CALL_NAME_MAP_2 = [
   (''inotify_rm_watch'', SYS_INOTIFY_RM_WATCH), (''io_cancel'', SYS_IO_CANCEL), (''io_destroy'', SYS_IO_DESTROY),
   (''io_getevents'', SYS_IO_GETEVENTS), (''io_pgetevents'', SYS_IO_PGETEVENTS), (''io_pgetevents_time64'', SYS_IO_PGETEVENTS_TIME64),
   (''io_setup'', SYS_IO_SETUP), (''io_submit'', SYS_IO_SUBMIT), (''io_uring_enter'', SYS_IO_URING_ENTER),
   (''io_uring_register'', SYS_IO_URING_REGISTER), (''io_uring_setup'', SYS_IO_URING_SETUP), (''ioctl'', SYS_IOCTL),
   (''ioperm'', SYS_IOPERM), (''iopl'', SYS_IOPL), (''ioprio_get'', SYS_IOPRIO_GET),
   (''ioprio_set'', SYS_IOPRIO_SET), (''ipc'', SYS_IPC), (''kcmp'', SYS_KCMP),
   (''kexec_file_load'', SYS_KEXEC_FILE_LOAD), (''kexec_load'', SYS_KEXEC_LOAD), (''keyctl'', SYS_KEYCTL),
   (''kill'', SYS_KILL), (''landlock_add_rule'', SYS_LANDLOCK_ADD_RULE), (''landlock_create_ruleset'', SYS_LANDLOCK_CREATE_RULESET),
   (''landlock_restrict_self'', SYS_LANDLOCK_RESTRICT_SELF), (''lchown'', SYS_LCHOWN), (''lchown32'', SYS_LCHOWN32),
   (''lgetxattr'', SYS_LGETXATTR), (''link'', SYS_LINK), (''linkat'', SYS_LINKAT),
   (''listen'', SYS_LISTEN), (''listmount'', SYS_LISTMOUNT), (''listxattr'', SYS_LISTXATTR),
   (''listxattrat'', SYS_LISTXATTRAT), (''llistxattr'', SYS_LLISTXATTR), (''llseek'', SYS_LLSEEK),
   (''lock'', SYS_LOCK), (''lookup_dcookie'', SYS_LOOKUP_DCOOKIE), (''lremovexattr'', SYS_LREMOVEXATTR),
   (''lseek'', SYS_LSEEK), (''lsetxattr'', SYS_LSETXATTR), (''lsm_get_self_attr'', SYS_LSM_GET_SELF_ATTR),
   (''lsm_list_modules'', SYS_LSM_LIST_MODULES), (''lsm_set_self_attr'', SYS_LSM_SET_SELF_ATTR), (''lstat'', SYS_LSTAT),
   (''lstat64'', SYS_LSTAT64), (''madvise'', SYS_MADVISE), (''map_shadow_stack'', SYS_MAP_SHADOW_STACK),
   (''mbind'', SYS_MBIND), (''membarrier'', SYS_MEMBARRIER), (''memfd_create'', SYS_MEMFD_CREATE),
   (''memfd_secret'', SYS_MEMFD_SECRET), (''migrate_pages'', SYS_MIGRATE_PAGES), (''mincore'', SYS_MINCORE),
   (''mkdir'', SYS_MKDIR), (''mkdirat'', SYS_MKDIRAT), (''mknod'', SYS_MKNOD),
   (''mknodat'', SYS_MKNODAT), (''mlock'', SYS_MLOCK), (''mlock2'', SYS_MLOCK2),
   (''mlockall'', SYS_MLOCKALL), (''mmap'', SYS_MMAP), (''mmap2'', SYS_MMAP2),
   (''modify_ldt'', SYS_MODIFY_LDT), (''mount'', SYS_MOUNT), (''mount_setattr'', SYS_MOUNT_SETATTR),
   (''move_mount'', SYS_MOVE_MOUNT), (''move_pages'', SYS_MOVE_PAGES), (''mprotect'', SYS_MPROTECT),
   (''mpx'', SYS_MPX), (''mq_getsetattr'', SYS_MQ_GETSETATTR), (''mq_notify'', SYS_MQ_NOTIFY),
   (''mq_open'', SYS_MQ_OPEN), (''mq_timedreceive'', SYS_MQ_TIMEDRECEIVE), (''mq_timedreceive_time64'', SYS_MQ_TIMEDRECEIVE_TIME64),
   (''mq_timedsend'', SYS_MQ_TIMEDSEND), (''mq_timedsend_time64'', SYS_MQ_TIMEDSEND_TIME64), (''mq_unlink'', SYS_MQ_UNLINK),
   (''mremap'', SYS_MREMAP), (''mseal'', SYS_MSEAL), (''msgctl'', SYS_MSGCTL),
   (''msgget'', SYS_MSGGET), (''msgrcv'', SYS_MSGRCV), (''msgsnd'', SYS_MSGSND),
   (''msync'', SYS_MSYNC), (''munlock'', SYS_MUNLOCK), (''munlockall'', SYS_MUNLOCKALL),
   (''munmap'', SYS_MUNMAP), (''name_to_handle_at'', SYS_NAME_TO_HANDLE_AT), (''nanosleep'', SYS_NANOSLEEP),
   (''newfstatat'', SYS_NEWFSTATAT), (''newselect'', SYS_NEWSELECT), (''nfsservctl'', SYS_NFSSERVCTL),
   (''nice'', SYS_NICE), (''oldfstat'', SYS_OLDFSTAT), (''oldlstat'', SYS_OLDLSTAT),
   (''oldolduname'', SYS_OLDOLDUNAME), (''oldstat'', SYS_OLDSTAT), (''olduname'', SYS_OLDUNAME),
   (''open'', SYS_OPEN), (''open_by_handle_at'', SYS_OPEN_BY_HANDLE_AT), (''open_tree'', SYS_OPEN_TREE),
   (''open_tree_attr'', SYS_OPEN_TREE_ATTR), (''openat'', SYS_OPENAT), (''openat2'', SYS_OPENAT2),
   (''pause'', SYS_PAUSE), (''perf_event_open'', SYS_PERF_EVENT_OPEN), (''personality'', SYS_PERSONALITY),
   (''pidfd_getfd'', SYS_PIDFD_GETFD), (''pidfd_open'', SYS_PIDFD_OPEN), (''pidfd_send_signal'', SYS_PIDFD_SEND_SIGNAL),
   (''pipe'', SYS_PIPE), (''pipe2'', SYS_PIPE2), (''pivot_root'', SYS_PIVOT_ROOT),
   (''pkey_alloc'', SYS_PKEY_ALLOC), (''pkey_free'', SYS_PKEY_FREE), (''pkey_mprotect'', SYS_PKEY_MPROTECT),
   (''poll'', SYS_POLL), (''ppoll'', SYS_PPOLL), (''ppoll_time64'', SYS_PPOLL_TIME64),
   (''prctl'', SYS_PRCTL), (''pread64'', SYS_PREAD64), (''preadv'', SYS_PREADV),
   (''preadv2'', SYS_PREADV2), (''prlimit64'', SYS_PRLIMIT64), (''process_madvise'', SYS_PROCESS_MADVISE),
   (''process_mrelease'', SYS_PROCESS_MRELEASE), (''process_vm_readv'', SYS_PROCESS_VM_READV), (''process_vm_writev'', SYS_PROCESS_VM_WRITEV),
   (''prof'', SYS_PROF), (''profil'', SYS_PROFIL), (''pselect6'', SYS_PSELECT6),
   (''pselect6_time64'', SYS_PSELECT6_TIME64), (''ptrace'', SYS_PTRACE), (''putpmsg'', SYS_PUTPMSG),
   (''pwrite64'', SYS_PWRITE64), (''pwritev'', SYS_PWRITEV), (''pwritev2'', SYS_PWRITEV2),
   (''query_module'', SYS_QUERY_MODULE), (''quotactl'', SYS_QUOTACTL), (''quotactl_fd'', SYS_QUOTACTL_FD),
   (''read'', SYS_READ), (''readahead'', SYS_READAHEAD), (''readdir'', SYS_READDIR),
   (''readlink'', SYS_READLINK), (''readlinkat'', SYS_READLINKAT), (''readv'', SYS_READV),
   (''reboot'', SYS_REBOOT), (''recvfrom'', SYS_RECVFROM), (''recvmmsg'', SYS_RECVMMSG)]"

definition SYSTEM_CALL_NAME_MAP_3 :: "(string \<times> sysnr) list" where
  "SYSTEM_CALL_NAME_MAP_3 = [
   (''recvmmsg_time64'', SYS_RECVMMSG_TIME64), (''recvmsg'', SYS_RECVMSG), (''remap_file_pages'', SYS_REMAP_FILE_PAGES),
   (''removexattr'', SYS_REMOVEXATTR), (''removexattrat'', SYS_REMOVEXATTRAT), (''rename'', SYS_RENAME),
   (''renameat'', SYS_RENAMEAT), (''renameat2'', SYS_RENAMEAT2), (''request_key'', SYS_REQUEST_KEY),
   (''restart_syscall'', SYS_RESTART_SYSCALL), (''rmdir'', SYS_RMDIR), (''rseq'', SYS_RSEQ),
   (''rt_sigaction'', SYS_RT_SIGACTION), (''rt_sigpending'', SYS_RT_SIGPENDING), (''rt_sigprocmask'', SYS_RT_SIGPROCMASK),
   (''rt_sigqueueinfo'', SYS_RT_SIGQUEUEINFO), (''rt_sigreturn'', SYS_RT_SIGRETURN), (''rt_sigsuspend'', SYS_RT_SIGSUSPEND),
   (''rt_sigtimedwait'', SYS_RT_SIGTIMEDWAIT), (''rt_sigtimedwait_time64'', SYS_RT_SIGTIMEDWAIT_TIME64), (''rt_tgsigqueueinfo'', SYS_RT_TGSIGQUEUEINFO),
   (''sched_get_priority_max'', SYS_SCHED_GET_PRIORITY_MAX), (''sched_get_priority_min'', SYS_SCHED_GET_PRIORITY_MIN), (''sched_getaffinity'', SYS_SCHED_GETAFFINITY),
   (''sched_getattr'', SYS_SCHED_GETATTR), (''sched_getparam'', SYS_SCHED_GETPARAM), (''sched_getscheduler'', SYS_SCHED_GETSCHEDULER),
   (''sched_rr_get_interval'', SYS_SCHED_RR_GET_INTERVAL), (''sched_rr_get_interval_time64'', SYS_SCHED_RR_GET_INTERVAL_TIME64), (''sched_setaffinity'', SYS_SCHED_SETAFFINITY),
   (''sched_setattr'', SYS_SCHED_SETATTR), (''sched_setparam'', SYS_SCHED_SETPARAM), (''sched_setscheduler'', SYS_SCHED_SETSCHEDULER),
   (''sched_yield'', SYS_SCHED_YIELD), (''seccomp'', SYS_SECCOMP), (''security'', SYS_SECURITY),
   (''select'', SYS_SELECT), (''semctl'', SYS_SEMCTL), (''semget'', SYS_SEMGET),
   (''semop'', SYS_SEMOP), (''semtimedop'', SYS_SEMTIMEDOP), (''semtimedop_time64'', SYS_SEMTIMEDOP_TIME64),
   (''sendfile'', SYS_SENDFILE), (''sendfile64'', SYS_SENDFILE64), (''sendmmsg'', SYS_SENDMMSG),
   (''sendmsg'', SYS_SENDMSG), (''sendto'', SYS_SENDTO), (''set_mempolicy'', SYS_SET_MEMPOLICY),
   (''set_mempolicy_home_node'', SYS_SET_MEMPOLICY_HOME_NODE), (''set_robust_list'', SYS_SET_ROBUST_LIST), (''set_thread_area'', SYS_SET_THREAD_AREA),
   (''set_tid_address'', SYS_SET_TID_ADDRESS), (''setdomainname'', SYS_SETDOMAINNAME), (''setfsgid'', SYS_SETFSGID),
   (''setfsgid32'', SYS_SETFSGID32), (''setfsuid'', SYS_SETFSUID), (''setfsuid32'', SYS_SETFSUID32),
   (''setgid'', SYS_SETGID), (''setgid32'', SYS_SETGID32), (''setgroups'', SYS_SETGROUPS),
   (''setgroups32'', SYS_SETGROUPS32), (''sethostname'', SYS_SETHOSTNAME), (''setitimer'', SYS_SETITIMER),
   (''setns'', SYS_SETNS), (''setpgid'', SYS_SETPGID), (''setpriority'', SYS_SETPRIORITY),
   (''setregid'', SYS_SETREGID), (''setregid32'', SYS_SETREGID32), (''setresgid'', SYS_SETRESGID),
   (''setresgid32'', SYS_SETRESGID32), (''setresuid'', SYS_SETRESUID), (''setresuid32'', SYS_SETRESUID32),
   (''setreuid'', SYS_SETREUID), (''setreuid32'', SYS_SETREUID32), (''setrlimit'', SYS_SETRLIMIT),
   (''setsid'', SYS_SETSID), (''setsockopt'', SYS_SETSOCKOPT), (''settimeofday'', SYS_SETTIMEOFDAY),
   (''setuid'', SYS_SETUID), (''setuid32'', SYS_SETUID32), (''setxattr'', SYS_SETXATTR),
   (''setxattrat'', SYS_SETXATTRAT), (''sgetmask'', SYS_SGETMASK), (''shmat'', SYS_SHMAT),
   (''shmctl'', SYS_SHMCTL), (''shmdt'', SYS_SHMDT), (''shmget'', SYS_SHMGET),
   (''shutdown'', SYS_SHUTDOWN), (''sigaction'', SYS_SIGACTION), (''sigaltstack'', SYS_SIGALTSTACK),
   (''signal'', SYS_SIGNAL), (''signalfd'', SYS_SIGNALFD), (''signalfd4'', SYS_SIGNALFD4),
   (''sigpending'', SYS_SIGPENDING), (''sigprocmask'', SYS_SIGPROCMASK), (''sigreturn'', SYS_SIGRETURN),
   (''sigsuspend'', SYS_SIGSUSPEND), (''socket'', SYS_SOCKET), (''socketcall'', SYS_SOCKETCALL),
   (''socketpair'', SYS_SOCKETPAIR), (''splice'', SYS_SPLICE), (''ssetmask'', SYS_SSETMASK),
   (''stat'', SYS_STAT), (''stat64'', SYS_STAT64), (''statfs'', SYS_STATFS),
   (''statfs64'', SYS_STATFS64), (''statmount'', SYS_STATMOUNT), (''statx'', SYS_STATX),
   (''stime'', SYS_STIME), (''stty'', SYS_STTY), (''swapoff'', SYS_SWAPOFF),
   (''swapon'', SYS_SWAPON), (''symlink'', SYS_SYMLINK), (''symlinkat'', SYS_SYMLINKAT),
   (''sync'', SYS_SYNC), (''sync_file_range'', SYS_SYNC_FILE_RANGE), (''syncfs'', SYS_SYNCFS),
   (''sysctl'', SYS_SYSCTL), (''sysfs'', SYS_SYSFS), (''sysinfo'', SYS_SYSINFO),
   (''syslog'', SYS_SYSLOG), (''tee'', SYS_TEE), (''tgkill'', SYS_TGKILL),
   (''time'', SYS_TIME), (''timer_create'', SYS_TIMER_CREATE), (''timer_delete'', SYS_TIMER_DELETE),
   (''timer_getoverrun'', SYS_TIMER_GETOVERRUN), (''timer_gettime'', SYS_TIMER_GETTIME), (''timer_gettime64'', SYS_TIMER_GETTIME64),
   (''timer_settime'', SYS_TIMER_SETTIME), (''timer_settime64'', SYS_TIMER_SETTIME64), (''timerfd_create'', SYS_TIMERFD_CREATE),
   (''timerfd_gettime'', SYS_TIMERFD_GETTIME), (''timerfd_gettime64'', SYS_TIMERFD_GETTIME64), (''timerfd_settime'', SYS_TIMERFD_SETTIME),
   (''timerfd_settime64'', SYS_TIMERFD_SETTIME64), (''times'', SYS_TIMES), (''tkill'', SYS_TKILL),
   (''truncate'', SYS_TRUNCATE), (''truncate64'', SYS_TRUNCATE64), (''tuxcall'', SYS_TUXCALL),
   (''ugetrlimit'', SYS_UGETRLIMIT), (''ulimit'', SYS_ULIMIT), (''umask'', SYS_UMASK),
   (''umount'', SYS_UMOUNT), (''umount2'', SYS_UMOUNT2), (''uname'', SYS_UNAME),
   (''unlink'', SYS_UNLINK), (''unlinkat'', SYS_UNLINKAT), (''unshare'', SYS_UNSHARE)]"

definition SYSTEM_CALL_NAME_MAP_4 :: "(string \<times> sysnr) list" where
  "SYSTEM_CALL_NAME_MAP_4 = [
   (''uprobe'', SYS_UPROBE), (''uretprobe'', SYS_URETPROBE), (''uselib'', SYS_USELIB),
   (''userfaultfd'', SYS_USERFAULTFD), (''ustat'', SYS_USTAT), (''utime'', SYS_UTIME),
   (''utimensat'', SYS_UTIMENSAT), (''utimensat_time64'', SYS_UTIMENSAT_TIME64), (''utimes'', SYS_UTIMES),
   (''vfork'', SYS_VFORK), (''vhangup'', SYS_VHANGUP), (''vm86'', SYS_VM86),
   (''vm86old'', SYS_VM86OLD), (''vmsplice'', SYS_VMSPLICE), (''vserver'', SYS_VSERVER),
   (''wait4'', SYS_WAIT4), (''waitid'', SYS_WAITID), (''waitpid'', SYS_WAITPID),
   (''write'', SYS_WRITE), (''writev'', SYS_WRITEV)]"

definition SYSTEM_CALL_NAME_MAP :: "(string \<times> sysnr) list" where
  "SYSTEM_CALL_NAME_MAP = SYSTEM_CALL_NAME_MAP_1 @ SYSTEM_CALL_NAME_MAP_2 @ SYSTEM_CALL_NAME_MAP_3 @ SYSTEM_CALL_NAME_MAP_4"

end
