(* ===== verification/Clues_Prelude.thy ===== *)
theory Clues_Prelude
  imports Main "HOL-Library.Word"
begin

text \<open>
  Shared vocabulary of the development: C++ exceptions as values, imperative code as functions
  from a state to an outcome and a state, and the proof rules that carry an invariant through
  such code.

  The code under verification throws exceptions and keeps every state change it made before the
  throw, so an operation is a function \<open>'s \<Rightarrow> (exn + 'a) \<times> 's\<close>: the state is returned on
  both paths. \<open>Undefined\<close> marks undefined behaviour of C++ (a null dereference, an
  invalidated iterator); no \<open>catch\<close> clause ever matches it.
\<close>

section \<open>Exceptions\<close>

type_synonym errno = int

text \<open>
  \<open>ApiError\<close> is \<open>cosmos::ApiError\<close> with its errno, \<open>RuntimeError\<close> is
  \<open>cosmos::RuntimeError\<close>, \<open>StdError\<close> any other \<open>std::exception\<close>.
\<close>

datatype exn =
    ApiError errno
  | RuntimeError string
  | StdError string
  | Undefined string

text \<open>Which exceptions a \<open>catch\<close> clause of the source takes.\<close>

fun is_ApiError :: "exn \<Rightarrow> bool" where
  "is_ApiError (ApiError _) = True"
| "is_ApiError _ = False"

fun is_CosmosError :: "exn \<Rightarrow> bool" where
  "is_CosmosError (ApiError _) = True"
| "is_CosmosError (RuntimeError _) = True"
| "is_CosmosError _ = False"

fun is_std_exception :: "exn \<Rightarrow> bool" where
  "is_std_exception (Undefined _) = False"
| "is_std_exception _ = True"

text \<open>The errno values the code compares with (Linux numbers).\<close>

abbreviation (input) ESRCH :: errno where "ESRCH \<equiv> 3"
abbreviation (input) EINTR :: errno where "EINTR \<equiv> 4"
abbreviation (input) EIO :: errno where "EIO \<equiv> 5"
abbreviation (input) ECHILD :: errno where "ECHILD \<equiv> 10"
abbreviation (input) ENODATA :: errno where "ENODATA \<equiv> 61"

section \<open>Imperative code\<close>

type_synonym ('s, 'a) prog = "'s \<Rightarrow> (exn + 'a) \<times> 's"

definition ret :: "'a \<Rightarrow> ('s, 'a) prog" where
  "ret x = (\<lambda>s. (Inr x, s))"

definition raise :: "exn \<Rightarrow> ('s, 'a) prog" where
  "raise e = (\<lambda>s. (Inl e, s))"

definition bindE :: "('s, 'a) prog \<Rightarrow> ('a \<Rightarrow> ('s, 'b) prog) \<Rightarrow> ('s, 'b) prog" where
  "bindE m f = (\<lambda>s. case m s of (Inl e, s') \<Rightarrow> (Inl e, s') | (Inr x, s') \<Rightarrow> f x s')"

definition seqE :: "('s, unit) prog \<Rightarrow> ('s, 'b) prog \<Rightarrow> ('s, 'b) prog" where
  "seqE m n = bindE m (\<lambda>_. n)"

text \<open>\<open>try { m } catch (\<dots>) { h }\<close>: \<open>p\<close> says which exceptions the clause takes.\<close>

definition catchE :: "(exn \<Rightarrow> bool) \<Rightarrow> ('s, 'a) prog \<Rightarrow> (exn \<Rightarrow> ('s, 'a) prog) \<Rightarrow> ('s, 'a) prog" where
  "catchE p m h = (\<lambda>s. case m s of
     (Inl e, s') \<Rightarrow> if p e then h e s' else (Inl e, s')
   | (Inr x, s') \<Rightarrow> (Inr x, s'))"

definition askE :: "('s \<Rightarrow> 'a) \<Rightarrow> ('s, 'a) prog" where
  "askE f = (\<lambda>s. (Inr (f s), s))"

definition updE :: "('s \<Rightarrow> 's) \<Rightarrow> ('s, unit) prog" where
  "updE f = (\<lambda>s. (Inr (), f s))"

definition skipE :: "('s, unit) prog" where
  "skipE = ret ()"

definition liftE :: "exn + 'a \<Rightarrow> ('s, 'a) prog" where
  "liftE r = (\<lambda>s. (r, s))"

primrec seqsE :: "('s, unit) prog list \<Rightarrow> ('s, unit) prog" where
  "seqsE [] = skipE"
| "seqsE (m # ms) = seqE m (seqsE ms)"

primrec forE :: "'a list \<Rightarrow> ('a \<Rightarrow> ('s, unit) prog) \<Rightarrow> ('s, unit) prog" where
  "forE [] f = skipE"
| "forE (x # xs) f = seqE (f x) (forE xs f)"

named_theorems run_simps \<open>how a program combinator runs\<close>

lemmas prog_defs =
  ret_def raise_def bindE_def seqE_def catchE_def askE_def updE_def skipE_def liftE_def

lemma run_ret [run_simps]: "ret x s = (Inr x, s)"
  by (simp add: ret_def)

lemma run_raise [run_simps]: "raise e s = (Inl e, s)"
  by (simp add: raise_def)

lemma run_ask [run_simps]: "askE f s = (Inr (f s), s)"
  by (simp add: askE_def)

lemma run_upd [run_simps]: "updE f s = (Inr (), f s)"
  by (simp add: updE_def)

lemma run_skip [run_simps]: "skipE s = (Inr (), s)"
  by (simp add: skipE_def ret_def)

lemma run_lift [run_simps]: "liftE r s = (r, s)"
  by (simp add: liftE_def)

lemma run_bind_Inr [run_simps]: "m s = (Inr x, s') \<Longrightarrow> bindE m f s = f x s'"
  by (simp add: bindE_def)

lemma run_bind_Inl [run_simps]: "m s = (Inl e, s') \<Longrightarrow> bindE m f s = (Inl e, s')"
  by (simp add: bindE_def)

lemma run_seq_Inr [run_simps]: "m s = (Inr x, s') \<Longrightarrow> seqE m n s = n s'"
  by (simp add: seqE_def bindE_def)

lemma run_seq_Inl [run_simps]: "m s = (Inl e, s') \<Longrightarrow> seqE m n s = (Inl e, s')"
  by (simp add: seqE_def bindE_def)

lemma run_catch_Inr [run_simps]: "m s = (Inr x, s') \<Longrightarrow> catchE p m h s = (Inr x, s')"
  by (simp add: catchE_def)

lemma run_catch_Inl [run_simps]:
  "m s = (Inl e, s') \<Longrightarrow> catchE p m h s = (if p e then h e s' else (Inl e, s'))"
  by (simp add: catchE_def)

text \<open>A normal return of a sequence went through a normal return of each part.\<close>

lemma bind_InrE:
  assumes "bindE m f s = (Inr x, s')"
  obtains y t where "m s = (Inr y, t)" "f y t = (Inr x, s')"
  using assms by (auto simp: bindE_def split: prod.splits sum.splits)

lemma seq_InrE:
  assumes "seqE m n s = (Inr x, s')"
  obtains t where "m s = (Inr (), t)" "n t = (Inr x, s')"
  using assms by (auto simp: seqE_def bindE_def split: prod.splits sum.splits)

text \<open>Rewriting a program to its first action, and executing that action.\<close>

named_theorems step_simps \<open>execute the head of a program\<close>

lemma seq_assoc [step_simps]: "seqE (seqE a b) c = seqE a (seqE b c)"
  by (auto simp: prog_defs fun_eq_iff split: prod.split sum.split)

lemma seq_bind_assoc [step_simps]: "seqE (bindE m f) n = bindE m (\<lambda>x. seqE (f x) n)"
  by (auto simp: prog_defs fun_eq_iff split: prod.split sum.split)

lemma bind_bind_assoc [step_simps]: "bindE (bindE m f) g = bindE m (\<lambda>x. bindE (f x) g)"
  by (auto simp: prog_defs fun_eq_iff split: prod.split sum.split)

lemma bind_seq_assoc [step_simps]: "bindE (seqE m n) f = seqE m (bindE n f)"
  by (auto simp: prog_defs fun_eq_iff split: prod.split sum.split)

lemma seq_if [step_simps]: "seqE (if b then m else n) k = (if b then seqE m k else seqE n k)"
  by simp

lemma bind_if [step_simps]: "bindE (if b then m else n) k = (if b then bindE m k else bindE n k)"
  by simp

lemma seq_skipE [step_simps]: "seqE skipE n = n"
  by (simp add: prog_defs fun_eq_iff)

lemma seq_raise [step_simps]: "seqE (raise e) n = raise e"
  by (simp add: prog_defs fun_eq_iff)

lemma bind_raise [step_simps]: "bindE (raise e) n = raise e"
  by (simp add: prog_defs fun_eq_iff)

lemma bind_ret [step_simps]: "bindE (ret x) f = f x"
  by (simp add: prog_defs fun_eq_iff)

lemma bind_ask [step_simps]: "bindE (askE f) g w = g (f w) w"
  by (simp add: prog_defs)

lemma seq_upd [step_simps]: "seqE (updE f) n w = n (f w)"
  by (simp add: prog_defs)

lemma bind_lift_Inr [step_simps]: "bindE (liftE (Inr x)) f = f x"
  by (simp add: prog_defs fun_eq_iff)

lemma seq_pure [step_simps]: "seqE (\<lambda>s. (Inr (), f s)) n w = n (f w)"
  by (simp add: prog_defs)

lemma bind_lift_Inl [step_simps]: "bindE (liftE (Inl e)) f = raise e"
  by (simp add: prog_defs fun_eq_iff)

lemma seq_lift_Inr [step_simps]: "seqE (liftE (Inr x)) n = n"
  by (simp add: prog_defs fun_eq_iff)

lemma seq_skip_last [step_simps]: "seqE m skipE = m"
  by (auto simp: prog_defs fun_eq_iff split: prod.split sum.split)

section \<open>Carrying an invariant\<close>

text \<open>
  \<open>hoare P m Q E\<close>: from a state with \<open>P\<close>, a normal return satisfies \<open>Q\<close> and an exception
  leaves a state with \<open>E\<close>. \<open>keeps I m\<close> is the special case of an invariant that holds on
  every way out.
\<close>

definition hoare ::
  "('s \<Rightarrow> bool) \<Rightarrow> ('s, 'a) prog \<Rightarrow> ('a \<Rightarrow> 's \<Rightarrow> bool) \<Rightarrow> (exn \<Rightarrow> 's \<Rightarrow> bool) \<Rightarrow> bool"
where
  "hoare P m Q E \<longleftrightarrow>
     (\<forall>s. P s \<longrightarrow> (case m s of (Inl e, s') \<Rightarrow> E e s' | (Inr x, s') \<Rightarrow> Q x s'))"

definition keeps :: "('s \<Rightarrow> bool) \<Rightarrow> ('s, 'a) prog \<Rightarrow> bool" where
  "keeps I m \<longleftrightarrow> (\<forall>s. I s \<longrightarrow> I (snd (m s)))"

named_theorems keeps_intros \<open>invariant preservation, one rule per combinator or operation\<close>

lemma keepsI: "(\<And>s. I s \<Longrightarrow> I (snd (m s))) \<Longrightarrow> keeps I m"
  by (simp add: keeps_def)

lemma keepsD: "keeps I m \<Longrightarrow> I s \<Longrightarrow> I (snd (m s))"
  by (simp add: keeps_def)

lemma keeps_hoare: "keeps I m \<longleftrightarrow> hoare I m (\<lambda>_. I) (\<lambda>_. I)"
proof -
  have "(I (snd (m s))) = (case m s of (Inl e, s') \<Rightarrow> I s' | (Inr x, s') \<Rightarrow> I s')" for s
    by (simp split: prod.split sum.split)
  then show ?thesis by (simp add: keeps_def hoare_def)
qed

lemma keeps_ret [keeps_intros]: "keeps I (ret x)"
  by (simp add: keeps_def ret_def)

lemma keeps_raise [keeps_intros]: "keeps I (raise e)"
  by (simp add: keeps_def raise_def)

lemma keeps_ask [keeps_intros]: "keeps I (askE f)"
  by (simp add: keeps_def askE_def)

lemma keeps_skip [keeps_intros]: "keeps I skipE"
  by (simp add: keeps_def skipE_def ret_def)

lemma keeps_lift [keeps_intros]: "keeps I (liftE r)"
  by (simp add: keeps_def liftE_def)

lemma keeps_upd: "(\<And>s. I s \<Longrightarrow> I (f s)) \<Longrightarrow> keeps I (updE f)"
  by (simp add: keeps_def updE_def)

lemma keeps_bind [keeps_intros]:
  "keeps I m \<Longrightarrow> (\<And>x. keeps I (f x)) \<Longrightarrow> keeps I (bindE m f)"
  by (fastforce simp: keeps_def bindE_def split: prod.splits sum.splits)

lemma keeps_seq [keeps_intros]: "keeps I m \<Longrightarrow> keeps I n \<Longrightarrow> keeps I (seqE m n)"
  by (simp add: seqE_def keeps_bind)

lemma keeps_catch [keeps_intros]:
  "keeps I m \<Longrightarrow> (\<And>e. keeps I (h e)) \<Longrightarrow> keeps I (catchE p m h)"
  by (fastforce simp: keeps_def catchE_def split: prod.splits sum.splits)

lemma keeps_if [keeps_intros]:
  "(b \<Longrightarrow> keeps I m) \<Longrightarrow> (\<not> b \<Longrightarrow> keeps I n) \<Longrightarrow> keeps I (if b then m else n)"
  by simp

lemma keeps_option [keeps_intros]:
  "keeps I m \<Longrightarrow> (\<And>x. keeps I (f x)) \<Longrightarrow> keeps I (case x of None \<Rightarrow> m | Some y \<Rightarrow> f y)"
  by (cases x) simp_all

lemma keeps_let [keeps_intros]: "(\<And>x. keeps I (f x)) \<Longrightarrow> keeps I (let x = a in f x)"
  by simp

lemma keeps_for [keeps_intros]: "(\<And>x. keeps I (f x)) \<Longrightarrow> keeps I (forE xs f)"
  by (induction xs) (auto intro: keeps_intros)

lemma keeps_seqs [keeps_intros]: "(\<And>m. m \<in> set ms \<Longrightarrow> keeps I m) \<Longrightarrow> keeps I (seqsE ms)"
  by (induction ms) (auto intro: keeps_intros)

subsection \<open>Pre- and postconditions\<close>

named_theorems hoare_intros \<open>weakest precondition style rules\<close>

lemma hoareI:
  "(\<And>s. P s \<Longrightarrow> (case m s of (Inl e, s') \<Rightarrow> E e s' | (Inr x, s') \<Rightarrow> Q x s')) \<Longrightarrow> hoare P m Q E"
  by (simp add: hoare_def)

lemma hoare_Inr: "hoare P m Q E \<Longrightarrow> P s \<Longrightarrow> m s = (Inr x, s') \<Longrightarrow> Q x s'"
  by (fastforce simp: hoare_def)

lemma hoare_Inl: "hoare P m Q E \<Longrightarrow> P s \<Longrightarrow> m s = (Inl e, s') \<Longrightarrow> E e s'"
  by (fastforce simp: hoare_def)

lemma hoare_conseq:
  assumes "hoare P m Q E" "\<And>s. P' s \<Longrightarrow> P s" "\<And>x s. Q x s \<Longrightarrow> Q' x s" "\<And>e s. E e s \<Longrightarrow> E' e s"
  shows "hoare P' m Q' E'"
  using assms by (fastforce simp: hoare_def split: prod.splits sum.splits)

lemma hoare_ret [hoare_intros]: "hoare (Q x) (ret x) Q E"
  by (simp add: hoare_def ret_def)

lemma hoare_raise [hoare_intros]: "hoare (E e) (raise e) Q E"
  by (simp add: hoare_def raise_def)

lemma hoare_ask [hoare_intros]: "hoare (\<lambda>s. Q (f s) s) (askE f) Q E"
  by (simp add: hoare_def askE_def)

lemma hoare_upd [hoare_intros]: "hoare (\<lambda>s. Q () (f s)) (updE f) Q E"
  by (simp add: hoare_def updE_def)

lemma hoare_skip [hoare_intros]: "hoare (Q ()) skipE Q E"
  by (simp add: hoare_def skipE_def ret_def)

lemma hoare_bind:
  "hoare P m R E \<Longrightarrow> (\<And>x. hoare (R x) (f x) Q E) \<Longrightarrow> hoare P (bindE m f) Q E"
  by (fastforce simp: hoare_def bindE_def split: prod.splits sum.splits)

lemma hoare_seq:
  "hoare P m (\<lambda>_. R) E \<Longrightarrow> hoare R n Q E \<Longrightarrow> hoare P (seqE m n) Q E"
  unfolding seqE_def by (rule hoare_bind)

lemma hoare_catch:
  assumes "hoare P m Q F" and "\<And>e. p e \<Longrightarrow> hoare (F e) (h e) Q E"
    and "\<And>e s. \<not> p e \<Longrightarrow> F e s \<Longrightarrow> E e s"
  shows "hoare P (catchE p m h) Q E"
  using assms by (fastforce simp: hoare_def catchE_def split: prod.splits sum.splits)

subsection \<open>Programs that always return\<close>

text \<open>\<open>gives P m Q\<close>: from a state with \<open>P\<close> the program returns without an exception, with \<open>Q\<close>.\<close>

abbreviation (input) gives :: "('s \<Rightarrow> bool) \<Rightarrow> ('s, 'a) prog \<Rightarrow> ('a \<Rightarrow> 's \<Rightarrow> bool) \<Rightarrow> bool" where
  "gives P m Q \<equiv> hoare P m Q (\<lambda>_ _. False)"

lemma givesI:
  assumes "\<And>s. P s \<Longrightarrow> \<exists>x s'. m s = (Inr x, s') \<and> Q x s'"
  shows "gives P m Q"
  by (rule hoareI) (use assms in fastforce)

lemma givesE:
  assumes "gives P m Q" "P s"
  obtains x s' where "m s = (Inr x, s')" "Q x s'"
proof (cases "m s")
  case (Pair r s')
  with assms that show thesis by (cases r) (auto simp: hoare_def)
qed

lemma gives_if: "(b \<Longrightarrow> gives P m Q) \<Longrightarrow> (\<not> b \<Longrightarrow> gives P n Q) \<Longrightarrow> gives P (if b then m else n) Q"
  by simp

lemma gives_pre: "gives P m Q \<Longrightarrow> (\<And>s. P' s \<Longrightarrow> P s) \<Longrightarrow> gives P' m Q"
  by (erule hoare_conseq) auto

lemma gives_post: "gives P m Q \<Longrightarrow> (\<And>x s. Q x s \<Longrightarrow> Q' x s) \<Longrightarrow> gives P m Q'"
  by (erule hoare_conseq) auto

lemma gives_skip: "(\<And>s. P s \<Longrightarrow> Q () s) \<Longrightarrow> gives P skipE Q"
  by (simp add: hoare_def skipE_def ret_def)

lemma gives_ret: "(\<And>s. P s \<Longrightarrow> Q x s) \<Longrightarrow> gives P (ret x) Q"
  by (simp add: hoare_def ret_def)

lemma gives_upd: "(\<And>s. P s \<Longrightarrow> Q () (f s)) \<Longrightarrow> gives P (updE f) Q"
  by (simp add: hoare_def updE_def)

lemma gives_lift: "r = Inr x \<Longrightarrow> (\<And>s. P s \<Longrightarrow> Q x s) \<Longrightarrow> gives P (liftE r) Q"
  by (simp add: hoare_def liftE_def)

text \<open>Reading the state: nothing is known of the value, or the precondition determines it.\<close>

lemma gives_ask:
  assumes "\<And>x. gives (\<lambda>s. P s \<and> f s = x) (g x) Q"
  shows "gives P (bindE (askE f) g) Q"
proof (rule hoareI)
  fix s assume "P s"
  with assms [of "f s"]
  show "case bindE (askE f) g s of (Inl e, s') \<Rightarrow> False | (Inr x, s') \<Rightarrow> Q x s'"
    by (simp add: hoare_def bind_ask)
qed

lemma gives_ask_val:
  assumes "\<And>s. P s \<Longrightarrow> f s = v" "gives P (g v) Q"
  shows "gives P (bindE (askE f) g) Q"
proof (rule hoareI)
  fix s assume "P s"
  with assms(1) [of s] assms(2)
  show "case bindE (askE f) g s of (Inl e, s') \<Rightarrow> False | (Inr x, s') \<Rightarrow> Q x s'"
    by (simp add: hoare_def bind_ask)
qed

lemma gives_ask_if:
  assumes "gives (\<lambda>s. P s \<and> b s) m Q" "gives (\<lambda>s. P s \<and> \<not> b s) n Q"
  shows "gives P (bindE (askE b) (\<lambda>x. if x then m else n)) Q"
proof (rule hoareI)
  fix s assume "P s"
  with assms
  show "case bindE (askE b) (\<lambda>x. if x then m else n) s of (Inl e, s') \<Rightarrow> False | (Inr x, s') \<Rightarrow> Q x s'"
    by (cases "b s") (simp_all add: hoare_def bind_ask)
qed

subsection \<open>Invariants and defined behaviour\<close>

text \<open>
  \<open>safe I m\<close>: \<open>m\<close> keeps \<open>I\<close> on every way out and never runs into undefined behaviour.
\<close>

fun is_undefined :: "exn \<Rightarrow> bool" where
  "is_undefined (Undefined _) = True"
| "is_undefined _ = False"

definition safe :: "('s \<Rightarrow> bool) \<Rightarrow> ('s, 'a) prog \<Rightarrow> bool" where
  "safe I m \<longleftrightarrow> hoare I m (\<lambda>_. I) (\<lambda>e s. I s \<and> \<not> is_undefined e)"

named_theorems safe_intros \<open>safety, one rule per combinator or operation\<close>

lemma safeI:
  assumes "\<And>s e s'. I s \<Longrightarrow> m s = (Inl e, s') \<Longrightarrow> I s' \<and> \<not> is_undefined e"
    and "\<And>s x s'. I s \<Longrightarrow> m s = (Inr x, s') \<Longrightarrow> I s'"
  shows "safe I m"
  unfolding safe_def
proof (rule hoareI)
  fix s
  assume I: "I s"
  obtain r s' where m: "m s = (r, s')" by fastforce
  show "case m s of (Inl e, s') \<Rightarrow> I s' \<and> \<not> is_undefined e | (Inr x, s') \<Rightarrow> I s'"
  proof (cases r)
    case (Inl e)
    with m assms(1) [OF I, of e s'] show ?thesis by simp
  next
    case (Inr x)
    with m assms(2) [OF I, of x s'] show ?thesis by simp
  qed
qed

lemma safeD_Inr: "safe I m \<Longrightarrow> I s \<Longrightarrow> m s = (Inr x, s') \<Longrightarrow> I s'"
  by (auto simp: safe_def hoare_def dest!: spec [of _ s])

lemma safeD_Inl: "safe I m \<Longrightarrow> I s \<Longrightarrow> m s = (Inl e, s') \<Longrightarrow> I s' \<and> \<not> is_undefined e"
  by (auto simp: safe_def hoare_def dest!: spec [of _ s])

lemma safe_ret [safe_intros]: "safe I (ret x)"
  by (simp add: safe_def hoare_def ret_def)

lemma safe_raise [safe_intros]: "\<not> is_undefined e \<Longrightarrow> safe I (raise e)"
  by (simp add: safe_def hoare_def raise_def)

lemma safe_ask [safe_intros]: "safe I (askE f)"
  by (simp add: safe_def hoare_def askE_def)

lemma safe_skip [safe_intros]: "safe I skipE"
  by (simp add: skipE_def safe_ret)

lemma safe_upd: "(\<And>s. I s \<Longrightarrow> I (f s)) \<Longrightarrow> safe I (updE f)"
  by (simp add: safe_def hoare_def updE_def)

lemma safe_lift [safe_intros]: "(\<And>e. r = Inl e \<Longrightarrow> \<not> is_undefined e) \<Longrightarrow> safe I (liftE r)"
  by (cases r) (simp_all add: safe_def hoare_def liftE_def)

lemma safe_bind [safe_intros]: "safe I m \<Longrightarrow> (\<And>x. safe I (f x)) \<Longrightarrow> safe I (bindE m f)"
  unfolding safe_def by (rule hoare_bind)

lemma safe_seq [safe_intros]: "safe I m \<Longrightarrow> safe I n \<Longrightarrow> safe I (seqE m n)"
  unfolding safe_def by (rule hoare_seq)

lemma safe_catch [safe_intros]:
  "safe I m \<Longrightarrow> (\<And>e. \<not> is_undefined e \<Longrightarrow> safe I (h e)) \<Longrightarrow> safe I (catchE p m h)"
  by (rule safeI) (auto simp: catchE_def split: prod.splits sum.splits if_splits dest: safeD_Inl safeD_Inr)

lemma safe_if [safe_intros]:
  "(b \<Longrightarrow> safe I m) \<Longrightarrow> (\<not> b \<Longrightarrow> safe I n) \<Longrightarrow> safe I (if b then m else n)"
  by simp

lemma safe_option [safe_intros]:
  "(x = None \<Longrightarrow> safe I m) \<Longrightarrow> (\<And>y. x = Some y \<Longrightarrow> safe I (f y)) \<Longrightarrow>
     safe I (case x of None \<Rightarrow> m | Some y \<Rightarrow> f y)"
  by (cases x) simp_all

lemma safe_sum [safe_intros]:
  "(\<And>y. x = Inl y \<Longrightarrow> safe I (f y)) \<Longrightarrow> (\<And>y. x = Inr y \<Longrightarrow> safe I (g y)) \<Longrightarrow>
     safe I (case x of Inl y \<Rightarrow> f y | Inr y \<Rightarrow> g y)"
  by (cases x) simp_all

lemma safe_for [safe_intros]: "(\<And>x. safe I (f x)) \<Longrightarrow> safe I (forE xs f)"
  by (induction xs) (auto intro: safe_intros)

lemma safe_seqs [safe_intros]: "safe I (seqsE [])" "safe I m \<Longrightarrow> safe I (seqsE ms) \<Longrightarrow> safe I (seqsE (m # ms))"
  by (auto intro: safe_intros)

subsection \<open>Code that does not see a part of the state\<close>

text \<open>
  \<open>commutes g m\<close>: running \<open>m\<close> after the change \<open>g\<close> of the state is running it before, with the same
  outcome: \<open>m\<close> neither reads nor writes what \<open>g\<close> changes.
\<close>

definition commutes :: "('s \<Rightarrow> 's) \<Rightarrow> ('s, 'a) prog \<Rightarrow> bool" where
  "commutes g m \<longleftrightarrow> (\<forall>s. m (g s) = (fst (m s), g (snd (m s))))"

named_theorems commutes_intros \<open>independence, one rule per combinator or operation\<close>

lemma commutesD: "commutes g m \<Longrightarrow> m s = (r, s') \<Longrightarrow> m (g s) = (r, g s')"
  by (simp add: commutes_def)

lemma commutes_ret [commutes_intros]: "commutes g (ret x)"
  by (simp add: commutes_def ret_def)

lemma commutes_raise [commutes_intros]: "commutes g (raise e)"
  by (simp add: commutes_def raise_def)

lemma commutes_skip [commutes_intros]: "commutes g skipE"
  by (simp add: skipE_def commutes_ret)

lemma commutes_lift [commutes_intros]: "commutes g (liftE r)"
  by (simp add: commutes_def liftE_def)

lemma commutes_ask: "(\<And>s. f (g s) = f s) \<Longrightarrow> commutes g (askE f)"
  by (simp add: commutes_def askE_def)

lemma commutes_upd: "(\<And>s. f (g s) = g (f s)) \<Longrightarrow> commutes g (updE f)"
  by (simp add: commutes_def updE_def)

lemma commutes_bind [commutes_intros]:
  "commutes g m \<Longrightarrow> (\<And>x. commutes g (f x)) \<Longrightarrow> commutes g (bindE m f)"
  by (auto simp: commutes_def bindE_def split: prod.splits sum.splits)

lemma commutes_seq [commutes_intros]: "commutes g m \<Longrightarrow> commutes g n \<Longrightarrow> commutes g (seqE m n)"
  unfolding seqE_def by (rule commutes_bind)

lemma commutes_catch [commutes_intros]:
  "commutes g m \<Longrightarrow> (\<And>e. commutes g (h e)) \<Longrightarrow> commutes g (catchE p m h)"
  by (auto simp: commutes_def catchE_def split: prod.splits sum.splits)

lemma commutes_if [commutes_intros]:
  "commutes g m \<Longrightarrow> commutes g n \<Longrightarrow> commutes g (if b then m else n)"
  by simp

lemma commutes_option [commutes_intros]:
  "commutes g m \<Longrightarrow> (\<And>y. commutes g (f y)) \<Longrightarrow> commutes g (case x of None \<Rightarrow> m | Some y \<Rightarrow> f y)"
  by (cases x) simp_all

lemma commutes_sum [commutes_intros]:
  "(\<And>y. commutes g (f y)) \<Longrightarrow> (\<And>y. commutes g (h y)) \<Longrightarrow>
     commutes g (case x of Inl y \<Rightarrow> f y | Inr y \<Rightarrow> h y)"
  by (cases x) simp_all

lemma commutes_for [commutes_intros]: "(\<And>x. commutes g (f x)) \<Longrightarrow> commutes g (forE xs f)"
  by (induction xs) (auto intro: commutes_intros)

lemma commutes_seqs [commutes_intros]:
  "commutes g (seqsE [])" "commutes g m \<Longrightarrow> commutes g (seqsE ms) \<Longrightarrow> commutes g (seqsE (m # ms))"
  by (auto intro: commutes_intros)

section \<open>Lists and options\<close>

lemma map_of_filter_key:
  "map_of (filter (\<lambda>p. fst p \<in> A) m) k = (if k \<in> A then map_of m k else None)"
  by (induction m) auto

lemma option_case_map: "(case map_option f x of None \<Rightarrow> a | Some y \<Rightarrow> b y) = (case x of None \<Rightarrow> a | Some y \<Rightarrow> b (f y))"
  by (cases x) simp_all

end
