(* ===== verification/Text.thy ===== *)
theory Text
  imports Clues_Prelude
begin

text \<open>
  Numbers and text of the C++ standard library as the code uses them: \<open>std::to_string\<close>,
  \<open>std::stoi\<close>, \<open>std::stoul\<close>, prefix and suffix tests, joining with a separator. A string is a
  list of bytes.
\<close>

section \<open>Printing numbers\<close>

definition digit_char :: "nat \<Rightarrow> char" where
  "digit_char d = char_of (48 + d)"

fun nat_str :: "nat \<Rightarrow> string" where
  "nat_str n = (if n < 10 then [digit_char n] else nat_str (n div 10) @ [digit_char (n mod 10)])"

declare nat_str.simps [simp del]

definition int_str :: "int \<Rightarrow> string" where
  "int_str i = (if i < 0 then ''-'' @ nat_str (nat (- i)) else nat_str (nat i))"

text \<open>Hexadecimal, lower case, without a prefix.\<close>

definition hex_digit :: "nat \<Rightarrow> char" where
  "hex_digit d = (if d < 10 then digit_char d else char_of (87 + d))"

fun hex_str :: "nat \<Rightarrow> string" where
  "hex_str n = (if n < 16 then [hex_digit n] else hex_str (n div 16) @ [hex_digit (n mod 16)])"

declare hex_str.simps [simp del]

section \<open>Parsing numbers\<close>

definition char_val :: "char \<Rightarrow> nat" where
  "char_val c = of_char c"

definition is_digit :: "nat \<Rightarrow> char \<Rightarrow> bool" where
  "is_digit base c \<longleftrightarrow> 48 \<le> char_val c \<and> char_val c < 48 + base"

definition is_space :: "char \<Rightarrow> bool" where
  "is_space c \<longleftrightarrow> char_val c = 32 \<or> (9 \<le> char_val c \<and> char_val c \<le> 13)"

definition digits_val :: "nat \<Rightarrow> string \<Rightarrow> nat" where
  "digits_val base ds = foldl (\<lambda>acc c. acc * base + (char_val c - 48)) 0 ds"

text \<open>
  The common part of \<open>strtol\<close> and \<open>strtoul\<close> for bases up to ten: leading white space, a sign,
  the longest run of digits; nothing if there is no digit. Bases above ten are not used.
\<close>

definition scan_number :: "nat \<Rightarrow> string \<Rightarrow> (bool \<times> nat) option" where
  "scan_number base s =
     (let t = dropWhile is_space s;
          neg = (t \<noteq> [] \<and> hd t = CHR ''-'');
          u = (if t \<noteq> [] \<and> (hd t = CHR ''-'' \<or> hd t = CHR ''+'') then tl t else t);
          ds = takeWhile (is_digit base) u
      in if ds = [] then None else Some (neg, digits_val base ds))"

text \<open>\<open>std::stoi(s, nullptr, base)\<close>.\<close>

definition stoi :: "nat \<Rightarrow> string \<Rightarrow> exn + int" where
  "stoi base s = (case scan_number base s of
     None \<Rightarrow> Inl (StdError ''invalid_argument'')
   | Some (neg, v) \<Rightarrow>
       (let i = (if neg then - int v else int v)
        in if i < - (2 ^ 31) \<or> 2 ^ 31 \<le> i then Inl (StdError ''out_of_range'') else Inr i))"

text \<open>\<open>std::stoul(s)\<close> with a 64 bit \<open>unsigned long\<close>; a minus sign negates modulo \<open>2^64\<close>.\<close>

definition stoul :: "string \<Rightarrow> exn + nat" where
  "stoul s = (case scan_number 10 s of
     None \<Rightarrow> Inl (StdError ''invalid_argument'')
   | Some (neg, v) \<Rightarrow>
       if 2 ^ 64 \<le> v then Inl (StdError ''out_of_range'')
       else Inr (if neg then (2 ^ 64 - v) mod 2 ^ 64 else v))"

section \<open>Joining\<close>

fun join :: "string \<Rightarrow> string list \<Rightarrow> string" where
  "join sep [] = []"
| "join sep [x] = x"
| "join sep (x # y # zs) = x @ sep @ join sep (y # zs)"

definition is_prefix :: "string \<Rightarrow> string \<Rightarrow> bool" where
  "is_prefix p s \<longleftrightarrow> take (length p) s = p"

definition is_suffix :: "string \<Rightarrow> string \<Rightarrow> bool" where
  "is_suffix p s \<longleftrightarrow> length p \<le> length s \<and> drop (length s - length p) s = p"

section \<open>Facts\<close>

lemma char_val_digit [simp]: "d < 10 \<Longrightarrow> char_val (digit_char d) = 48 + d"
  by (simp add: char_val_def digit_char_def)

lemma is_digit_digit [simp]: "d < 10 \<Longrightarrow> is_digit 10 (digit_char d)"
  by (simp add: is_digit_def)

lemma nat_str_digits: "set (nat_str n) \<subseteq> {c. is_digit 10 c}"
proof (induction n rule: nat_str.induct)
  case (1 n)
  then show ?case by (subst nat_str.simps) auto
qed

lemma nat_str_nonempty [simp]: "nat_str n \<noteq> []"
  by (subst nat_str.simps) simp

lemma digits_val_snoc: "digits_val b (ds @ [c]) = digits_val b ds * b + (char_val c - 48)"
  by (simp add: digits_val_def)

lemma digits_val_nat_str: "digits_val 10 (nat_str n) = n"
proof (induction n rule: nat_str.induct)
  case (1 n)
  show ?case
  proof (cases "n < 10")
    case True
    then show ?thesis by (subst nat_str.simps) (simp add: digits_val_def)
  next
    case False
    with 1 show ?thesis
      by (subst nat_str.simps) (simp add: digits_val_snoc)
  qed
qed

lemma nat_str_inject [simp]: "nat_str m = nat_str n \<longleftrightarrow> m = n"
  using digits_val_nat_str by metis

lemma digit_not_space: "is_digit b c \<Longrightarrow> \<not> is_space c"
  by (auto simp: is_digit_def is_space_def)

lemma digit_not_sign: "is_digit b c \<Longrightarrow> c \<noteq> CHR ''-'' \<and> c \<noteq> CHR ''+''"
  by (auto simp: is_digit_def char_val_def)

text \<open>Reading back a printed number, whatever non-digit follows it.\<close>

lemma scan_number_nat_str:
  assumes "r = [] \<or> \<not> is_digit 10 (hd r)"
  shows "scan_number 10 (nat_str n @ r) = Some (False, n)"
proof -
  obtain c cs where n: "nat_str n = c # cs" by (cases "nat_str n") auto
  have d: "\<forall>x \<in> set (nat_str n). is_digit 10 x" using nat_str_digits by auto
  then have c: "is_digit 10 c" using n by simp
  have "takeWhile (is_digit 10) (nat_str n @ r) = nat_str n"
    using d assms by (cases r) (auto simp: takeWhile_append2)
  moreover have "dropWhile is_space (nat_str n @ r) = nat_str n @ r"
    using n c digit_not_space by simp
  moreover have "hd (nat_str n @ r) \<noteq> CHR ''-''" "hd (nat_str n @ r) \<noteq> CHR ''+''"
    using n c digit_not_sign by auto
  ultimately show ?thesis
    by (simp add: scan_number_def Let_def digits_val_nat_str)
qed

lemma stoul_nat_str:
  "n < 2 ^ 64 \<Longrightarrow> r = [] \<or> \<not> is_digit 10 (hd r) \<Longrightarrow> stoul (nat_str n @ r) = Inr n"
  by (simp add: stoul_def scan_number_nat_str)

lemma stoi_nat_str:
  "n < 2 ^ 31 \<Longrightarrow> stoi 10 (nat_str n) = Inr (int n)"
  using scan_number_nat_str [of "[]" n] by (simp add: stoi_def Let_def)

lemma is_suffix_append [simp]: "is_suffix p (s @ p)"
  by (simp add: is_suffix_def)

end
