(* ===== verification/Sys_Types.thy ===== *)
theory Sys_Types
  imports Sysnr_Tables Text "HOL-Library.Char_ord" "HOL-Library.List_Lexorder"
begin

text \<open>
  The vocabulary of include/types.hxx, include/utils.hxx and src/SystemCallInfo.cxx: ABIs, kernel
  errno codes, the result of a failed system call, and the decoded ptrace system call information
  with its generic system call number.
\<close>

section \<open>ABIs and the build target\<close>

datatype abi = ABI_UNKNOWN | ABI_X86_64 | ABI_I386 | ABI_X32 | ABI_AARCH64

text \<open>
  The compile-time constants of \<open>cosmos::arch\<close>, which say what the library was built for. They
  are parameters of everything that reads them.
\<close>

record arch_flags =
  arch_X86_64 :: bool
  arch_I386 :: bool
  arch_X32 :: bool
  arch_AARCH64 :: bool

definition is_default_abi :: "arch_flags \<Rightarrow> abi \<Rightarrow> bool" where
  "is_default_abi a abi = (case abi of
     ABI_X86_64 \<Rightarrow> arch_X86_64 a
   | ABI_I386 \<Rightarrow> arch_I386 a
   | ABI_AARCH64 \<Rightarrow> arch_AARCH64 a
   | _ \<Rightarrow> False)"

definition get_default_abi :: "arch_flags \<Rightarrow> abi" where
  "get_default_abi a =
     (if arch_X32 a then ABI_X32
      else if arch_X86_64 a then ABI_X86_64
      else if arch_I386 a then ABI_I386
      else if arch_AARCH64 a then ABI_AARCH64
      else ABI_UNKNOWN)"

definition is_32bit_emulation_abi :: "arch_flags \<Rightarrow> abi \<Rightarrow> bool" where
  "is_32bit_emulation_abi a abi \<longleftrightarrow> get_default_abi a = ABI_X86_64 \<and> abi = ABI_I386"

definition get_abi_label :: "abi \<Rightarrow> string" where
  "get_abi_label abi = (case abi of
     ABI_X86_64 \<Rightarrow> ''x86_64''
   | ABI_I386 \<Rightarrow> ''i386''
   | ABI_X32 \<Rightarrow> ''x32''
   | ABI_AARCH64 \<Rightarrow> ''aarch64''
   | _ \<Rightarrow> ''unknown'')"

text \<open>The preprocessor chain of \<open>get_supported_abis\<close> reads the same build target.\<close>

definition get_supported_abis :: "arch_flags \<Rightarrow> exn + abi list" where
  "get_supported_abis a =
     (if arch_X86_64 a then Inr [ABI_I386, ABI_X86_64, ABI_X32]
      else if arch_I386 a then Inr [ABI_I386]
      else if arch_AARCH64 a then Inr [ABI_AARCH64]
      else Inl (RuntimeError ''no ABIs supported on this platform?!''))"

fun is_supported_abi_loop :: "abi list \<Rightarrow> abi \<Rightarrow> bool" where
  "is_supported_abi_loop [] abi = False"
| "is_supported_abi_loop (s # ss) abi = (if s = abi then True else is_supported_abi_loop ss abi)"

definition is_supported_abi :: "arch_flags \<Rightarrow> abi \<Rightarrow> exn + bool" where
  "is_supported_abi a abi = map_sum id (\<lambda>l. is_supported_abi_loop l abi) (get_supported_abis a)"

section \<open>Errors of system calls\<close>

text \<open>\<open>enum class KernelErrno : int\<close>: the enumerators.\<close>

abbreviation (input) KERR_RESTART_SYS :: errno where "KERR_RESTART_SYS \<equiv> 512"
abbreviation (input) KERR_RESTART_NOINTR :: errno where "KERR_RESTART_NOINTR \<equiv> 513"
abbreviation (input) KERR_RESTART_NOHAND :: errno where "KERR_RESTART_NOHAND \<equiv> 514"
abbreviation (input) KERR_RESTART_RESTARTBLOCK :: errno where "KERR_RESTART_RESTARTBLOCK \<equiv> 516"

record errno_result =
  er_errno :: "errno option"
  er_kernel_errno :: "errno option"

definition ErrnoResult :: "errno \<Rightarrow> errno_result" where
  "ErrnoResult code =
     (if KERR_RESTART_SYS \<le> code \<and> code \<le> KERR_RESTART_RESTARTBLOCK
      then \<lparr>er_errno = None, er_kernel_errno = Some code\<rparr>
      else \<lparr>er_errno = Some code, er_kernel_errno = None\<rparr>)"

definition hasErrorCode :: "errno_result \<Rightarrow> bool" where
  "hasErrorCode r \<longleftrightarrow> er_errno r \<noteq> None"

definition hasKernelErrorCode :: "errno_result \<Rightarrow> bool" where
  "hasKernelErrorCode r \<longleftrightarrow> er_kernel_errno r \<noteq> None"

text \<open>\<open>ERRNO_NAMES\<close> is generated when the library is built, so it is a parameter.\<close>

definition get_errno_label :: "string list \<Rightarrow> errno \<Rightarrow> string" where
  "get_errno_label ERRNO_NAMES num =
     (if num < 0 \<or> length ERRNO_NAMES \<le> nat num then ''E<INVALID>'' else ERRNO_NAMES ! nat num)"

definition get_kernel_errno_label :: "errno \<Rightarrow> string" where
  "get_kernel_errno_label err =
     (if err = KERR_RESTART_SYS then ''RESTART_SYS''
      else if err = KERR_RESTART_NOINTR then ''RESTART_NOINTR''
      else if err = KERR_RESTART_NOHAND then ''RESTART_NOHAND''
      else if err = KERR_RESTART_RESTARTBLOCK then ''RESTART_RESTARTBLOCK''
      else ''?INVALID?'')"

definition ErrnoResult_str :: "string list \<Rightarrow> errno_result \<Rightarrow> exn + string" where
  "ErrnoResult_str names r = (case er_errno r of
     Some code \<Rightarrow> Inr (int_str code @ '' ('' @ get_errno_label names code @ '')'')
   | None \<Rightarrow> (case er_kernel_errno r of
       Some code \<Rightarrow> Inr (int_str code @ '' ('' @ get_kernel_errno_label code @ '')'')
     | None \<Rightarrow> Inl (Undefined ''dereference of an empty optional'')))"

section \<open>System call names\<close>

definition SystemCall_name :: "sysnr \<Rightarrow> exn + string" where
  "SystemCall_name nr = (if nr < length SYSTEM_CALL_NAMES then Inr (SYSTEM_CALL_NAMES ! nr)
     else Inl (Undefined ''SYSTEM_CALL_NAMES index out of range''))"

definition SystemCall_validNr :: "sysnr \<Rightarrow> bool" where
  "SystemCall_validNr nr \<longleftrightarrow> nr < length SYSTEM_CALL_NAMES"

definition lookup_system_call :: "string \<Rightarrow> sysnr option" where
  "lookup_system_call name = map_of SYSTEM_CALL_NAME_MAP name"

section \<open>System call information\<close>

text \<open>
  \<open>cosmos::ptrace::Arch\<close>, and what \<open>PTRACE_GET_SYSCALL_INFO\<close> reports. \<open>si_isX32\<close> is the
  answer of \<open>cosmos::ptrace::SyscallInfo::isX32()\<close>.
\<close>

datatype arch = Arch_I386 | Arch_X86_64 | Arch_AARCH64 | Arch_other nat

type_synonym word64 = "64 word"

datatype exit_info = ExitValue word64 | ExitError errno

text \<open>The six argument words of an entry, a fixed-size array.\<close>

datatype six_words = Six word64 word64 word64 word64 word64 word64

fun six_list :: "six_words \<Rightarrow> word64 list" where
  "six_list (Six a b c d e f) = [a, b, c, d, e, f]"

definition six_of :: "word64 list \<Rightarrow> six_words" where
  "six_of ws = (let g = (\<lambda>i. if i < length ws then ws ! i else 0)
     in Six (g 0) (g 1) (g 2) (g 3) (g 4) (g 5))"

datatype info_kind =
    InfoEntry nat six_words
  | InfoExit exit_info
  | InfoOther

datatype native_nr = NrI386 nat | NrX64 nat | NrX32 nat | NrAARCH64 nat

record sysinfo =
  si_kind :: info_kind
  si_arch :: arch
  si_isX32 :: bool
  si_generic :: sysnr
  si_native :: native_nr
  si_abi :: abi

fun isEntry :: "sysinfo \<Rightarrow> bool" where
  "isEntry i = (case si_kind i of InfoEntry _ _ \<Rightarrow> True | _ \<Rightarrow> False)"

fun isExit :: "sysinfo \<Rightarrow> bool" where
  "isExit i = (case si_kind i of InfoExit _ \<Rightarrow> True | _ \<Rightarrow> False)"

definition entry_args :: "sysinfo \<Rightarrow> word64 list" where
  "entry_args i = (case si_kind i of InfoEntry _ args \<Rightarrow> six_list args | _ \<Rightarrow> [])"

definition updateSysNr :: "sysinfo \<Rightarrow> exn + sysinfo" where
  "updateSysNr i = (case si_kind i of
     InfoEntry native _ \<Rightarrow> (case si_arch i of
         Arch_X86_64 \<Rightarrow>
           if si_isX32 i
           then Inr (i\<lparr>si_abi := ABI_X32, si_native := NrX32 native,
                       si_generic := to_generic_x32 native\<rparr>)
           else Inr (i\<lparr>si_abi := ABI_X86_64, si_native := NrX64 native,
                       si_generic := to_generic_x64 native\<rparr>)
       | Arch_I386 \<Rightarrow> Inr (i\<lparr>si_native := NrI386 native, si_generic := to_generic_i386 native,
                             si_abi := ABI_I386\<rparr>)
       | Arch_AARCH64 \<Rightarrow> Inr (i\<lparr>si_native := NrAARCH64 native,
                             si_generic := to_generic_aarch64 native, si_abi := ABI_AARCH64\<rparr>)
       | Arch_other _ \<Rightarrow> Inl (RuntimeError ''unsupported ARCH''))
   | _ \<Rightarrow> Inl (RuntimeError ''bad SysCallInfo state''))"

definition argAsWord :: "sysinfo \<Rightarrow> nat \<Rightarrow> exn + word64" where
  "argAsWord i nr = (if \<not> isEntry i then Inl (StdError ''Not an EntryInfo'')
     else if length (entry_args i) \<le> nr then Inl (StdError ''Bad arg nr.'')
     else Inr (entry_args i ! nr))"

lemma length_six_list [simp]: "length (six_list a) = 6"
  by (cases a) simp

lemma length_entry_args [simp]: "isEntry i \<Longrightarrow> length (entry_args i) = 6"
  by (auto simp: entry_args_def split: info_kind.splits)

lemma updateSysNr_kind: "updateSysNr i = Inr j \<Longrightarrow> si_kind j = si_kind i \<and> isEntry j"
  by (auto simp: updateSysNr_def split: info_kind.splits arch.splits if_splits)

section \<open>Facts about errors\<close>

lemma ErrnoResult_one:
  "hasErrorCode (ErrnoResult c) \<longleftrightarrow> \<not> hasKernelErrorCode (ErrnoResult c)"
  by (simp add: ErrnoResult_def hasErrorCode_def hasKernelErrorCode_def)

lemma ErrnoResult_kernel:
  "hasKernelErrorCode (ErrnoResult c) \<longleftrightarrow> 512 \<le> c \<and> c \<le> 516"
  by (simp add: ErrnoResult_def hasKernelErrorCode_def)

lemma ErrnoResult_fields:
  "er_errno (ErrnoResult c) = (if 512 \<le> c \<and> c \<le> 516 then None else Some c)"
  "er_kernel_errno (ErrnoResult c) = (if 512 \<le> c \<and> c \<le> 516 then Some c else None)"
  by (auto simp: ErrnoResult_def)

section \<open>Facts about the tables\<close>

definition range_ok :: "(nat \<times> sysnr) list \<Rightarrow> bool" where
  "range_ok t \<longleftrightarrow> list_all (\<lambda>p. 0 < snd p \<and> snd p < SYSTEM_CALL_COUNT) t"

lemma range_ok_append: "range_ok (xs @ ys) \<longleftrightarrow> range_ok xs \<and> range_ok ys"
  by (simp add: range_ok_def)

lemma range_ok_map_of:
  "range_ok t \<Longrightarrow> map_of t n = Some g \<Longrightarrow> 0 < g \<and> g < SYSTEM_CALL_COUNT"
  by (fastforce simp: range_ok_def list_all_iff dest: map_of_SomeD)

lemma range_x64: "range_ok x64_cases"
  unfolding x64_cases_def range_ok_append
  by (intro conjI; simp add: range_ok_def SYSTEM_CALL_COUNT_def x64_cases_1_def x64_cases_2_def
      x64_cases_3_def)

lemma range_x32: "range_ok x32_cases"
  unfolding x32_cases_def range_ok_append
  by (intro conjI; simp add: range_ok_def SYSTEM_CALL_COUNT_def x32_cases_1_def x32_cases_2_def
      x32_cases_3_def)

lemma range_i386: "range_ok i386_cases"
  unfolding i386_cases_def range_ok_append
  by (intro conjI; simp add: range_ok_def SYSTEM_CALL_COUNT_def i386_cases_1_def i386_cases_2_def
      i386_cases_3_def i386_cases_4_def)

lemma range_aarch64: "range_ok aarch64_cases"
  unfolding aarch64_cases_def range_ok_append
  by (intro conjI; simp add: range_ok_def SYSTEM_CALL_COUNT_def aarch64_cases_1_def
      aarch64_cases_2_def aarch64_cases_3_def)

lemma to_generic_range:
  "to_generic_x64 n < SYSTEM_CALL_COUNT" "to_generic_x32 n < SYSTEM_CALL_COUNT"
  "to_generic_i386 n < SYSTEM_CALL_COUNT" "to_generic_aarch64 n < SYSTEM_CALL_COUNT"
  using range_ok_map_of [OF range_x64] range_ok_map_of [OF range_x32]
    range_ok_map_of [OF range_i386] range_ok_map_of [OF range_aarch64]
  by (auto simp: to_generic_x64_def to_generic_x32_def to_generic_i386_def to_generic_aarch64_def
      SYSTEM_CALL_COUNT_def split: option.splits)

lemma updateSysNr_range: "updateSysNr i = Inr j \<Longrightarrow> si_generic j < SYSTEM_CALL_COUNT"
  by (auto simp: updateSysNr_def to_generic_range split: info_kind.splits arch.splits if_splits)

lemma length_names: "length SYSTEM_CALL_NAMES = SYSTEM_CALL_COUNT"
  by (simp add: SYSTEM_CALL_NAMES_def SYSTEM_CALL_NAMES_1_def SYSTEM_CALL_NAMES_2_def
      SYSTEM_CALL_NAMES_3_def SYSTEM_CALL_NAMES_4_def SYSTEM_CALL_COUNT_def)

end
