(* ===== verification/Sysnr_Names.thy ===== *)
theory Sysnr_Names
  imports Sys_Types
begin

text \<open>
  The two name tables of the generated src/sysnrs/generic.cxx agree: looking a system call up by
  name (\<open>lookup_system_call\<close>) inverts printing its name (\<open>SystemCall::name\<close>), and no
  number that the ABI tables produce is outside the name table.
\<close>

lemma names_ascending: "successively (<) (tl SYSTEM_CALL_NAMES)"
  unfolding SYSTEM_CALL_NAMES_def SYSTEM_CALL_NAMES_1_def SYSTEM_CALL_NAMES_2_def
    SYSTEM_CALL_NAMES_3_def SYSTEM_CALL_NAMES_4_def
  by code_simp

lemma name_map_zip:
  "SYSTEM_CALL_NAME_MAP = zip (tl SYSTEM_CALL_NAMES) [1..<SYSTEM_CALL_COUNT]"
  unfolding SYSTEM_CALL_NAMES_def SYSTEM_CALL_NAMES_1_def SYSTEM_CALL_NAMES_2_def
    SYSTEM_CALL_NAMES_3_def SYSTEM_CALL_NAMES_4_def SYSTEM_CALL_NAME_MAP_def
    SYSTEM_CALL_NAME_MAP_1_def SYSTEM_CALL_NAME_MAP_2_def SYSTEM_CALL_NAME_MAP_3_def
    SYSTEM_CALL_NAME_MAP_4_def SYSTEM_CALL_COUNT_def
  by code_simp

lemma names_distinct: "distinct (tl SYSTEM_CALL_NAMES)"
  using names_ascending by (simp add: successively_conv_sorted_wrt strict_sorted_iff)

lemma names_nonempty: "SYSTEM_CALL_NAMES \<noteq> []"
  using length_names by (auto simp: SYSTEM_CALL_COUNT_def)

lemma length_tl_names: "length (tl SYSTEM_CALL_NAMES) = length [1..<SYSTEM_CALL_COUNT]"
  by (simp add: length_names)

lemma nth_tl_pred: "xs \<noteq> [] \<Longrightarrow> 0 < n \<Longrightarrow> xs ! n = tl xs ! (n - Suc 0)"
  by (cases xs; cases n) simp_all

lemma nth_names_tl: "0 < nr \<Longrightarrow> SYSTEM_CALL_NAMES ! nr = tl SYSTEM_CALL_NAMES ! (nr - 1)"
  using names_nonempty nth_tl_pred by simp

lemma map_of_zip_nth:
  assumes "distinct xs" "length xs = length ys"
  shows "map_of (zip xs ys) x = Some y \<longleftrightarrow> (\<exists>i<length xs. xs ! i = x \<and> ys ! i = y)"
  using assms by (auto simp: in_set_zip map_of_eq_Some_iff)

text \<open>C30: looking up a name yields a number exactly when that number is a known system call other
  than \<open>UNKNOWN\<close> and its printed name is the name looked up: \<open>lookup_system_call\<close> and
  \<open>SystemCall::name\<close> are inverse to each other over both generated tables.\<close>

theorem lookup_name_inverse:
  "lookup_system_call name = Some nr \<longleftrightarrow> 0 < nr \<and> SystemCall_name nr = Inr name"
proof -
  have "lookup_system_call name = Some nr \<longleftrightarrow>
    (\<exists>i<length (tl SYSTEM_CALL_NAMES). tl SYSTEM_CALL_NAMES ! i = name \<and> i + 1 = nr)"
    unfolding lookup_system_call_def name_map_zip
    using map_of_zip_nth [OF names_distinct length_tl_names] by (auto simp: length_names)
  also have "\<dots> \<longleftrightarrow> 0 < nr \<and> nr < length SYSTEM_CALL_NAMES \<and> SYSTEM_CALL_NAMES ! nr = name"
    using nth_names_tl by (auto simp: length_names intro!: exI [of _ "nr - 1"])
  finally show ?thesis by (auto simp: SystemCall_name_def)
qed

end
