(* ===== verification/Tracee_Memory.thy ===== *)
theory Tracee_Memory
  imports Sys_Types
begin

text \<open>
  Reading the memory of the tracee (src/Tracee.cxx: \<open>ContainerFiller\<close>, \<open>BlobFiller\<close>,
  \<open>fillData\<close>, \<open>readString\<close>, \<open>readVector\<close>, \<open>readBlob\<close>; include/Tracee.hxx: \<open>readStruct\<close>,
  \<open>readStructIntoOptional\<close>, \<open>readStructs\<close>).

  The only primitive is \<open>getData\<close>, one \<open>PTRACE_PEEKDATA\<close> request, which is a parameter
  \<open>peek\<close>. \<open>fillData\<close> is a \<open>do \<dots> while\<close> loop whose end depends on the filler, so it is a
  partial function: \<open>None\<close> is a loop that never ends. A filler that writes through a raw pointer
  carries the size of the object it writes to, and writing past it is undefined behaviour.
  Words are little endian, as on every supported target.
\<close>

section \<open>The loop\<close>

type_synonym byte = "8 word"
type_synonym peek_fn = "word64 \<Rightarrow> exn + word64"
type_synonym 'f filler = "word64 \<Rightarrow> 'f \<Rightarrow> (exn + bool) \<times> 'f"

text \<open>\<open>operator++(ForeignPtr&, int)\<close>: to the next word.\<close>

definition next_word :: "word64 \<Rightarrow> word64" where
  "next_word p = p + 8"

partial_function (option) fillData ::
  "peek_fn \<Rightarrow> 'f filler \<Rightarrow> word64 \<Rightarrow> 'f \<Rightarrow> ((exn + unit) \<times> 'f) option"
where
  "fillData peek fl addr f = (case peek addr of
     Inl e \<Rightarrow> Some (Inl e, f)
   | Inr w \<Rightarrow> (case fl w f of
       (Inl e, f') \<Rightarrow> Some (Inl e, f')
     | (Inr go, f') \<Rightarrow> if go then fillData peek fl (next_word addr) f' else Some (Inr (), f')))"

declare fillData.simps [code]

section \<open>The fillers\<close>

definition word_bytes :: "word64 \<Rightarrow> byte list" where
  "word_bytes w = map (\<lambda>i. ucast (drop_bit (8 * i) w)) [0..<8]"

definition bytes_nat :: "byte list \<Rightarrow> nat" where
  "bytes_nat bs = foldr (\<lambda>b acc. unat b + 256 * acc) bs 0"

text \<open>The items of \<open>isz\<close> bytes in a word, as \<open>ContainerFiller\<close> copies them out one by one.\<close>

definition word_items :: "nat \<Rightarrow> word64 \<Rightarrow> nat list" where
  "word_items isz w =
     map (\<lambda>i. bytes_nat (take isz (drop (i * isz) (word_bytes w)))) [0..<8 div isz]"

record container_filler =
  cf_out :: "nat list"
  cf_filled :: nat

fun cf_loop :: "nat \<Rightarrow> bool \<Rightarrow> nat list \<Rightarrow> container_filler \<Rightarrow> bool \<times> container_filler" where
  "cf_loop mx stop_at_zero [] f = (True, f)"
| "cf_loop mx stop_at_zero (item # items) f =
     (if stop_at_zero \<and> item = 0 then (False, f)
      else let f = f\<lparr>cf_out := cf_out f @ [item], cf_filled := cf_filled f + 1\<rparr>
           in if cf_filled f = mx then (False, f) else cf_loop mx stop_at_zero items f)"

definition ContainerFiller :: "nat \<Rightarrow> nat \<Rightarrow> bool \<Rightarrow> container_filler filler" where
  "ContainerFiller isz mx stop_at_zero = (\<lambda>w f.
     (case cf_loop mx stop_at_zero (word_items isz w) f of (go, f') \<Rightarrow> (Inr go, f')))"

text \<open>
  \<open>bf_room\<close> is what is left of the object that \<open>m_buffer\<close> points into, \<open>bf_out\<close> what was
  written so far.
\<close>

record blob_filler =
  bf_left :: nat
  bf_room :: nat
  bf_out :: "byte list"

definition BlobFiller :: "blob_filler filler" where
  "BlobFiller = (\<lambda>w f.
     let to_copy = min 8 (bf_left f)
     in if bf_room f < to_copy
        then (Inl (Undefined ''write past the end of the buffer''), f)
        else (Inr (bf_left f - to_copy \<noteq> 0),
              f\<lparr>bf_left := bf_left f - to_copy, bf_room := bf_room f - to_copy,
                bf_out := bf_out f @ take to_copy (word_bytes w)\<rparr>))"

section \<open>The operations\<close>

definition readVector ::
  "peek_fn \<Rightarrow> nat \<Rightarrow> word64 \<Rightarrow> nat \<Rightarrow> bool \<Rightarrow> ((exn + unit) \<times> nat list) option"
where
  "readVector peek isz addr mx stop_at_zero =
     map_option (\<lambda>(r, f). (r, cf_out f))
       (fillData peek (ContainerFiller isz mx stop_at_zero) addr \<lparr>cf_out = [], cf_filled = 0\<rparr>)"

definition readString :: "peek_fn \<Rightarrow> word64 \<Rightarrow> nat \<Rightarrow> ((exn + unit) \<times> string) option" where
  "readString peek addr mx =
     map_option (\<lambda>(r, out). (r, map char_of out)) (readVector peek 1 addr mx True)"

text \<open>\<open>room\<close> is the size of the object behind the \<open>buffer\<close> pointer.\<close>

definition readBlob :: "peek_fn \<Rightarrow> word64 \<Rightarrow> nat \<Rightarrow> nat \<Rightarrow> ((exn + unit) \<times> byte list) option" where
  "readBlob peek addr room bytes =
     map_option (\<lambda>(r, f). (r, bf_out f))
       (fillData peek BlobFiller addr \<lparr>bf_left = bytes, bf_room = room, bf_out = []\<rparr>)"

text \<open>
  \<open>readStruct<T>(addr, out, max_bytes)\<close>: the flag says whether \<open>out\<close> was filled. \<open>old\<close> is the
  representation of \<open>out\<close> before, whose bytes stay where nothing is read over them.
\<close>

definition readStruct ::
  "peek_fn \<Rightarrow> word64 \<Rightarrow> byte list \<Rightarrow> nat \<Rightarrow> ((exn + bool) \<times> byte list) option"
where
  "readStruct peek addr old max_bytes =
     (if addr = 0 then Some (Inr False, old)
      else map_option (\<lambda>(r, bs).
          ((case r of
              Inl e \<Rightarrow> if e = ApiError EIO then Inr False else Inl e
            | Inr _ \<Rightarrow> Inr True),
           bs @ drop (length bs) old))
        (readBlob peek addr (length old) max_bytes))"

text \<open>\<open>readStructIntoOptional\<close>: \<open>sz\<close> is \<open>sizeof(T)\<close>; an empty optional is \<open>None\<close>.\<close>

definition readStructIntoOptional ::
  "peek_fn \<Rightarrow> word64 \<Rightarrow> nat \<Rightarrow> nat \<Rightarrow> ((exn + bool) \<times> byte list option) option"
where
  "readStructIntoOptional peek addr sz max_bytes =
     map_option (\<lambda>(r, bs). (r, if r = Inr False then None else Some bs))
       (readStruct peek addr (replicate sz 0) max_bytes)"

text \<open>\<open>readStructs\<close> over a vector of \<open>n\<close> structs of \<open>sz\<close> bytes.\<close>

fun readStructs ::
  "peek_fn \<Rightarrow> word64 \<Rightarrow> nat \<Rightarrow> nat \<Rightarrow> ((exn + bool) \<times> byte list list) option"
where
  "readStructs peek addr sz 0 = Some (Inr True, [])"
| "readStructs peek addr sz (Suc n) =
     (case readStruct peek addr (replicate sz 0) sz of
        None \<Rightarrow> None
      | Some (Inr True, out) \<Rightarrow>
          map_option (\<lambda>(r, outs). (r, out # outs))
            (readStructs peek (addr + of_nat sz) sz n)
      | Some (r, out) \<Rightarrow> Some (r, [out]))"

section \<open>The loop ends\<close>

text \<open>
  What \<open>fillData\<close> relies on: every step that asks for another word comes closer to the end.
\<close>

locale bounded_filler =
  fixes step :: "'f filler"
    and left :: "'f \<Rightarrow> nat"
    and inv :: "'f \<Rightarrow> bool"
  assumes step_inv: "inv f \<Longrightarrow> step w f = (Inr True, f') \<Longrightarrow> inv f'"
    and step_left: "inv f \<Longrightarrow> step w f = (Inr True, f') \<Longrightarrow> left f' < left f"
begin

lemma fill_returns: "inv f \<Longrightarrow> \<exists>r. fillData peek step addr f = Some r"
proof (induction "left f" arbitrary: addr f rule: less_induct)
  case less
  show ?case
  proof (cases "peek addr")
    case (Inl e)
    then show ?thesis by (simp add: fillData.simps)
  next
    case (Inr w)
    obtain r f' where st: "step w f = (r, f')" by fastforce
    show ?thesis
    proof (cases "r = Inr True")
      case True
      have "\<exists>r. fillData peek step (next_word addr) f' = Some r"
        using less.hyps [OF step_left step_inv] less.prems st True by blast
      then show ?thesis using Inr st True by (simp add: fillData.simps)
    next
      case False
      then show ?thesis using Inr st by (cases r) (simp_all add: fillData.simps)
    qed
  qed
qed

end

lemma cf_loop_more:
  "cf_loop mx z items f = (True, f') \<Longrightarrow> cf_filled f < mx \<Longrightarrow>
     cf_filled f' < mx \<and> cf_filled f' = cf_filled f + length items"
proof (induction items arbitrary: f)
  case Nil
  then show ?case by simp
next
  case (Cons item items)
  let ?g = "f\<lparr>cf_out := cf_out f @ [item], cf_filled := cf_filled f + 1\<rparr>"
  have "cf_loop mx z items ?g = (True, f')" "cf_filled f + 1 \<noteq> mx"
    using Cons.prems by (auto simp: Let_def split: if_splits)
  then show ?case using Cons.IH [of ?g] Cons.prems(2) by simp
qed

lemma length_word_items: "length (word_items isz w) = 8 div isz"
  by (simp add: word_items_def)

interpretation blob: bounded_filler BlobFiller bf_left "\<lambda>_. True"
  by unfold_locales (auto simp: BlobFiller_def Let_def split: if_splits)

lemma container_step:
  assumes "ContainerFiller isz mx z w f = (Inr True, f')" "cf_filled f < mx" "0 < isz" "isz \<le> 8"
  shows "cf_filled f' < mx \<and> cf_filled f < cf_filled f'"
proof -
  have "0 < 8 div isz" using assms(3,4) by (simp add: div_greater_zero_iff)
  then show ?thesis
    using assms cf_loop_more [of mx z "word_items isz w" f f']
    by (auto simp: ContainerFiller_def length_word_items split: prod.splits)
qed

interpretation container1: bounded_filler "ContainerFiller 1 mx z"
    "\<lambda>f. mx - cf_filled f" "\<lambda>f. cf_filled f < mx" for mx z
proof (unfold_locales, goal_cases)
  case (1 f w f')
  then show ?case using container_step [of 1 mx z w f f'] by simp
next
  case (2 f w f')
  then show ?case using container_step [of 1 mx z w f f'] by (auto intro: diff_less_mono2)
qed

interpretation container4: bounded_filler "ContainerFiller 4 mx z"
    "\<lambda>f. mx - cf_filled f" "\<lambda>f. cf_filled f < mx" for mx z
proof (unfold_locales, goal_cases)
  case (1 f w f')
  then show ?case using container_step [of 4 mx z w f f'] by simp
next
  case (2 f w f')
  then show ?case using container_step [of 4 mx z w f f'] by (auto intro: diff_less_mono2)
qed

section \<open>What the fillers collect\<close>

text \<open>The words at \<open>addr\<close>, \<open>addr + 8\<close>, \<dots>, when the first \<open>length ws\<close> of them can be read.\<close>

fun reads :: "peek_fn \<Rightarrow> word64 \<Rightarrow> word64 list \<Rightarrow> bool" where
  "reads peek addr [] = True"
| "reads peek addr (w # ws) = (peek addr = Inr w \<and> reads peek (next_word addr) ws)"

lemma cf_loop_append:
  "cf_loop mx z (xs @ ys) f =
     (case cf_loop mx z xs f of (True, f') \<Rightarrow> cf_loop mx z ys f' | (False, f') \<Rightarrow> (False, f'))"
  by (induction xs arbitrary: f) (auto simp: Let_def)

lemma fillData_container:
  "reads peek addr ws \<Longrightarrow> cf_loop mx z (concat (map (word_items isz) ws)) f = (False, f') \<Longrightarrow>
     fillData peek (ContainerFiller isz mx z) addr f = Some (Inr (), f')"
proof (induction ws arbitrary: addr f)
  case Nil
  then show ?case by simp
next
  case (Cons w ws)
  obtain go g where st: "cf_loop mx z (word_items isz w) f = (go, g)" by fastforce
  then show ?case
    using Cons.prems Cons.IH [of "next_word addr" g]
    by (cases go) (simp_all add: cf_loop_append fillData.simps ContainerFiller_def)
qed

lemma cf_loop_zero:
  assumes "\<forall>x\<in>set pre. x \<noteq> 0" "mx = 0 \<or> cf_filled f + length pre < mx"
  shows "cf_loop mx True (pre @ 0 # rest) f =
     (False, f\<lparr>cf_out := cf_out f @ pre, cf_filled := cf_filled f + length pre\<rparr>)"
  using assms by (induction pre arbitrary: f) (auto simp: Let_def)

lemma cf_loop_count:
  assumes "z \<longrightarrow> (\<forall>x\<in>set (take (Suc k) items). x \<noteq> 0)" "Suc k \<le> length items"
  shows "cf_loop (cf_filled f + Suc k) z items f =
     (False, f\<lparr>cf_out := cf_out f @ take (Suc k) items, cf_filled := cf_filled f + Suc k\<rparr>)"
  using assms
proof (induction k arbitrary: f items)
  case 0
  then show ?case by (cases items) (auto simp: Let_def)
next
  case (Suc k)
  then obtain x xs where [simp]: "items = x # xs" by (cases items) auto
  let ?g = "f\<lparr>cf_out := cf_out f @ [x], cf_filled := Suc (cf_filled f)\<rparr>"
  have "cf_loop (cf_filled ?g + Suc k) z xs ?g =
     (False, ?g\<lparr>cf_out := cf_out ?g @ take (Suc k) xs, cf_filled := cf_filled ?g + Suc k\<rparr>)"
    using Suc.prems by (intro Suc.IH) auto
  then show ?case using Suc.prems by (auto simp: Let_def)
qed

lemma cf_loop_max:
  assumes "z \<longrightarrow> (\<forall>x\<in>set (take mx items). x \<noteq> 0)" "0 < mx" "mx \<le> length items"
  shows "cf_loop mx z items \<lparr>cf_out = [], cf_filled = 0\<rparr> =
     (False, \<lparr>cf_out = take mx items, cf_filled = mx\<rparr>)"
  using cf_loop_count [of z "mx - 1" items "\<lparr>cf_out = [], cf_filled = 0\<rparr>"] assms by simp

text \<open>A container that never reaches its end: no zero, and a limit that is not hit.\<close>

lemma cf_loop_no_limit:
  assumes "\<forall>x\<in>set items. x \<noteq> 0"
  shows "cf_loop 0 True items f =
     (True, f\<lparr>cf_out := cf_out f @ items, cf_filled := cf_filled f + length items\<rparr>)"
  using assms by (induction items arbitrary: f) (auto simp: Let_def)

text \<open>The blob filler takes the bytes in order, as many as it was asked for.\<close>

lemma length_word_bytes [simp]: "length (word_bytes w) = 8"
  by (simp add: word_bytes_def)

lemma fillData_blob:
  assumes "reads peek addr ws" "0 < bf_left f" "bf_left f \<le> 8 * length ws" "bf_left f \<le> bf_room f"
  shows "fillData peek BlobFiller addr f = Some (Inr (),
     f\<lparr>bf_left := 0, bf_room := bf_room f - bf_left f,
       bf_out := bf_out f @ take (bf_left f) (concat (map word_bytes ws))\<rparr>)"
  using assms
proof (induction ws arbitrary: addr f)
  case Nil
  then show ?case by simp
next
  case (Cons w ws)
  show ?case
  proof (cases "bf_left f \<le> 8")
    case True
    then have "BlobFiller w f = (Inr False, f\<lparr>bf_left := 0, bf_room := bf_room f - bf_left f,
        bf_out := bf_out f @ take (bf_left f) (word_bytes w)\<rparr>)"
      using Cons.prems by (simp add: BlobFiller_def Let_def min_def)
    then show ?thesis using Cons.prems True by (simp add: fillData.simps)
  next
    case False
    let ?g = "f\<lparr>bf_left := bf_left f - 8, bf_room := bf_room f - 8,
        bf_out := bf_out f @ word_bytes w\<rparr>"
    have "BlobFiller w f = (Inr True, ?g)"
      using Cons.prems False by (simp add: BlobFiller_def Let_def min_def)
    moreover have "fillData peek BlobFiller (next_word addr) ?g = Some (Inr (),
       ?g\<lparr>bf_left := 0, bf_room := bf_room ?g - bf_left ?g,
         bf_out := bf_out ?g @ take (bf_left ?g) (concat (map word_bytes ws))\<rparr>)"
      using Cons.prems False by (intro Cons.IH) auto
    ultimately show ?thesis using Cons.prems False by (simp add: fillData.simps)
  qed
qed

lemma fillData_blob_overrun:
  assumes "reads peek addr ws" "bf_room f < bf_left f" "bf_left f \<le> 8 * length ws"
  shows "\<exists>g. fillData peek BlobFiller addr f =
     Some (Inl (Undefined ''write past the end of the buffer''), g)"
  using assms
proof (induction ws arbitrary: addr f)
  case Nil
  then show ?case by simp
next
  case (Cons w ws)
  show ?case
  proof (cases "bf_room f < min 8 (bf_left f)")
    case True
    then show ?thesis using Cons.prems by (simp add: fillData.simps BlobFiller_def)
  next
    case False
    let ?g = "f\<lparr>bf_left := bf_left f - 8, bf_room := bf_room f - 8,
        bf_out := bf_out f @ word_bytes w\<rparr>"
    have "BlobFiller w f = (Inr True, ?g)"
      using Cons.prems False by (auto simp: BlobFiller_def Let_def min_def)
    moreover have "\<exists>g. fillData peek BlobFiller (next_word addr) ?g =
        Some (Inl (Undefined ''write past the end of the buffer''), g)"
      using Cons.prems False by (intro Cons.IH) (auto simp: min_def split: if_splits)
    ultimately show ?thesis using Cons.prems by (simp add: fillData.simps)
  qed
qed

section \<open>What the operations read\<close>

lemma word_items_1: "word_items 1 w = map unat (word_bytes w)"
proof -
  have "map (\<lambda>i. bytes_nat (take 1 (drop (i * 1) bs))) [0..<length bs] = map unat bs" for bs
    by (rule nth_equalityI) (auto simp: take_Suc_conv_app_nth bytes_nat_def hd_drop_conv_nth take_Suc)
  from this [of "word_bytes w"] show ?thesis by (simp add: word_items_def)
qed

lemmas word_items_bytes = word_items_1 [unfolded One_nat_def]

lemma memory_bytes:
  "concat (map (word_items 1) ws) = map unat (concat (map word_bytes ws))"
  by (induction ws) (simp_all add: word_items_bytes)

lemma map_char_of_unat: "map char_of (map unat bs) = map (\<lambda>b. char_of (unat (b :: byte))) bs"
  by simp

text \<open>C8: reading a blob that fits into the buffer it is read to returns exactly the requested
  number of bytes, in memory order, whatever the alignment of the last word, and peeks no word
  beyond those that hold them.\<close>

theorem readBlob_correct:
  assumes "reads peek addr ws" and "0 < n" "n \<le> room" "n \<le> 8 * length ws"
  shows "readBlob peek addr room n = Some (Inr (), take n (concat (map word_bytes ws)))"
  using fillData_blob [of peek addr ws "\<lparr>bf_left = n, bf_room = room, bf_out = []\<rparr>"] assms
  by (simp add: readBlob_def)

definition demo_peek :: peek_fn where
  "demo_peek a = (if a = 16 then Inr 0x0807060504030201 else if a = 24 then Inr 0x00000000000A09
     else Inl (ApiError EIO))"

lemma demo_reads: "reads demo_peek 16 [0x0807060504030201, 0x0000000000000A09]"
  by (simp add: demo_peek_def next_word_def)

theorem readBlob_correct_witness: "readBlob demo_peek 16 12 10 = Some (Inr (), [1,2,3,4,5,6,7,8,9,10])"
proof -
  have "take 10 (concat (map word_bytes [0x0807060504030201, 0x0000000000000A09])) =
      [1,2,3,4,5,6,7,8,9,10]"
    by code_simp
  then show ?thesis using readBlob_correct [OF demo_reads, of 10 12] by simp
qed

text \<open>C7: reading a string stops at the terminating zero: with the bytes \<open>pre\<close> and then a zero in
  the readable words, and a limit that is absent (zero) or not reached by \<open>pre\<close>, exactly \<open>pre\<close>
  is returned, and nothing beyond the word with the zero has to be readable.\<close>

theorem readString_terminated:
  assumes "reads peek addr ws" and "concat (map word_bytes ws) = pre @ 0 # rest" "0 \<notin> set pre"
    and "mx = 0 \<or> length pre < mx"
  shows "readString peek addr mx = Some (Inr (), map (\<lambda>b. char_of (unat b)) pre)"
proof -
  let ?f = "\<lparr>cf_out = [], cf_filled = 0\<rparr>"
  have "\<forall>x\<in>set (map unat pre). x \<noteq> 0" using assms(3) by (auto simp: unat_gt_0)
  then have "cf_loop mx True (concat (map (word_items 1) ws)) ?f =
      (False, ?f\<lparr>cf_out := map unat pre, cf_filled := length pre\<rparr>)"
    using cf_loop_zero [of "map unat pre" mx ?f "map unat rest"] assms
    by (auto simp: memory_bytes [unfolded One_nat_def] simp del: map_map)
  from fillData_container [OF assms(1) this] show ?thesis
    by (simp add: readString_def readVector_def comp_def)
qed

theorem readString_terminated_witness:
  "readString demo_peek 16 0 = Some (Inr (), map char_of [1::nat,2,3,4,5,6,7,8,9,10])"
proof -
  have "concat (map word_bytes [0x0807060504030201, 0x0000000000000A09]) =
      [1,2,3,4,5,6,7,8,9,10] @ 0 # [0,0,0,0,0]"
    by code_simp
  from readString_terminated [OF demo_reads this, of 0] show ?thesis by simp
qed

lemma fillData_no_zero:
  assumes "fillData peek (ContainerFiller 1 0 True) addr f = Some y"
    and "\<And>a w. peek a = Inr w \<Longrightarrow> 0 \<notin> set (word_bytes w)"
  shows "fst y \<noteq> Inr ()"
proof -
  have "peek = peek \<longrightarrow> ContainerFiller 1 0 True = ContainerFiller 1 0 True \<longrightarrow> fst y \<noteq> Inr ()"
  proof (rule fillData.raw_induct [where P = "\<lambda>p fl a f y. p = peek \<longrightarrow>
      fl = ContainerFiller 1 0 True \<longrightarrow> fst y \<noteq> Inr ()", OF _ assms(1)], intro impI, goal_cases)
    case (1 self p fl a f y)
    show ?case
    proof (cases "p a")
      case (Inl e)
      then show ?thesis using 1 by auto
    next
      case (Inr w)
      then have "\<forall>x\<in>set (word_items 1 w). x \<noteq> 0"
        using 1 assms(2) by (auto simp: word_items_bytes unat_gt_0)
      then have "\<exists>f'. fl w f = (Inr True, f')"
        using cf_loop_no_limit [of "word_items 1 w" f] 1 by (simp add: ContainerFiller_def)
      then show ?thesis using 1(1) [of peek "ContainerFiller 1 0 True" "next_word a" _ y] 1(2-) Inr
        by auto
    qed
  qed
  then show ?thesis by simp
qed

text \<open>A limit of zero is no limit. With \<open>max = 0\<close> (which \<open>StringBuffer\<close> passes on when the
  tracee names a zero-sized buffer) reading a string never returns normally while the memory holds
  no zero byte: it runs on until the address space ends in an error.\<close>

theorem readString_zero_limit_unbounded:
  assumes "\<forall>a w. peek a = Inr w \<longrightarrow> 0 \<notin> set (word_bytes w)"
  shows "\<forall>out. readString peek addr 0 \<noteq> Some (Inr (), out)"
  using fillData_no_zero [of peek addr "\<lparr>cf_out = [], cf_filled = 0\<rparr>"] assms
  by (fastforce simp: readString_def readVector_def)

theorem readString_zero_limit_unbounded_witness:
  "\<forall>out. readString (\<lambda>a. if a < 4096 then Inr 0x4141414141414141 else Inl (ApiError EIO)) 0 0
     \<noteq> Some (Inr (), out)"
proof -
  have w: "0 \<notin> set (word_bytes 0x4141414141414141)" by code_simp
  show ?thesis
    by (rule readString_zero_limit_unbounded) (auto simp: w split: if_splits)
qed

text \<open>C9: every other read ends. A blob read always returns, whatever the memory and the length; a
  string read returns whenever its limit is not zero.\<close>

theorem reads_return:
  "(\<exists>r. readBlob peek addr room n = Some r) \<and> (mx = 0 \<or> (\<exists>r. readString peek addr mx = Some r))"
proof -
  have "0 < mx \<Longrightarrow> \<exists>r. fillData peek (ContainerFiller 1 mx True) addr \<lparr>cf_out = [], cf_filled = 0\<rparr> = Some r"
    by (rule container1.fill_returns) simp
  then show ?thesis
    using blob.fill_returns [OF TrueI, of peek addr]
    by (auto simp: readBlob_def readString_def readVector_def)
qed

lemma readStruct_ok:
  assumes "reads peek addr ws" "addr \<noteq> 0" "0 < n" "n \<le> length old" "n \<le> 8 * length ws"
  shows "readStruct peek addr old n = Some (Inr True, take n (concat (map word_bytes ws)) @ drop n old)"
proof -
  have "length (concat (map word_bytes ws)) = 8 * length ws" by (induction ws) auto
  then show ?thesis
    using fillData_blob [of peek addr ws "\<lparr>bf_left = n, bf_room = length old, bf_out = []\<rparr>"] assms
    by (simp add: readStruct_def readBlob_def min_def)
qed

lemma readStruct_overrun:
  assumes "reads peek addr ws" "addr \<noteq> 0" "length old < n" "n \<le> 8 * length ws"
  shows "map_option fst (readStruct peek addr old n) =
     Some (Inl (Undefined ''write past the end of the buffer''))"
  using fillData_blob_overrun [of peek addr ws "\<lparr>bf_left = n, bf_room = length old, bf_out = []\<rparr>"] assms
  by (auto simp: readStruct_def readBlob_def)

end
