(* ===== verification/Std_Map.thy ===== *)
theory Std_Map
  imports Clues_Prelude
begin

text \<open>
  \<open>std::map\<close> as the code uses it: an association list in ascending key order, because the
  code iterates over its maps and the order of the iteration is the key order. The interface the
  rest of the code relies on is the locale \<open>std_map\<close>; \<open>smap\<close> is its only provider.
\<close>

section \<open>Ordered association lists\<close>

type_synonym ('k, 'v) smap = "('k \<times> 'v) list"

definition smap_find :: "('k, 'v) smap \<Rightarrow> 'k \<rightharpoonup> 'v" where
  "smap_find m = map_of m"

definition smap_keys :: "('k, 'v) smap \<Rightarrow> 'k list" where
  "smap_keys m = map fst m"

definition smap_wf :: "('k::linorder, 'v) smap \<Rightarrow> bool" where
  "smap_wf m \<longleftrightarrow> sorted_wrt (<) (map fst m)"

text \<open>\<open>m[k] = v\<close>: assignment, whether or not the key is there.\<close>

fun smap_put :: "'k::linorder \<Rightarrow> 'v \<Rightarrow> ('k, 'v) smap \<Rightarrow> ('k, 'v) smap" where
  "smap_put k v [] = [(k, v)]"
| "smap_put k v ((k', v') # m) =
     (if k < k' then (k, v) # (k', v') # m
      else if k = k' then (k, v) # m
      else (k', v') # smap_put k v m)"

text \<open>\<open>m.insert({k, v})\<close>: an entry that is there is kept; the result says whether it inserted.\<close>

definition smap_insert :: "'k::linorder \<Rightarrow> 'v \<Rightarrow> ('k, 'v) smap \<Rightarrow> bool \<times> ('k, 'v) smap" where
  "smap_insert k v m = (case smap_find m k of
     None \<Rightarrow> (True, smap_put k v m) | Some _ \<Rightarrow> (False, m))"

text \<open>\<open>m.erase(k)\<close>, which returns how many entries went.\<close>

definition smap_erase :: "'k \<Rightarrow> ('k, 'v) smap \<Rightarrow> ('k, 'v) smap" where
  "smap_erase k m = filter (\<lambda>p. fst p \<noteq> k) m"

section \<open>The interface\<close>

locale std_map =
  fixes find :: "'m \<Rightarrow> 'k \<rightharpoonup> 'v"
    and put :: "'k \<Rightarrow> 'v \<Rightarrow> 'm \<Rightarrow> 'm"
    and insert :: "'k \<Rightarrow> 'v \<Rightarrow> 'm \<Rightarrow> bool \<times> 'm"
    and erase :: "'k \<Rightarrow> 'm \<Rightarrow> 'm"
    and keys :: "'m \<Rightarrow> 'k list"
    and wf :: "'m \<Rightarrow> bool"
  assumes find_put: "find (put k v m) = (find m)(k \<mapsto> v)"
    and find_erase: "find (erase k m) = (find m)(k := None)"
    and insert_old: "find m k = Some w \<Longrightarrow> insert k v m = (False, m)"
    and insert_new: "find m k = None \<Longrightarrow> insert k v m = (True, put k v m)"
    and keys_dom: "set (keys m) = dom (find m)"
    and wf_put: "wf m \<Longrightarrow> wf (put k v m)"
    and wf_erase: "wf m \<Longrightarrow> wf (erase k m)"
    and wf_distinct: "wf m \<Longrightarrow> distinct (keys m)"
begin

lemma insert_keeps: "find (snd (insert k v m)) k' = (case find m k' of Some w \<Rightarrow> Some w
    | None \<Rightarrow> if k' = k then Some v else None)"
proof (cases "find m k")
  case None
  then show ?thesis by (auto simp: insert_new find_put split: option.splits)
next
  case (Some w)
  then show ?thesis by (auto simp: insert_old split: option.splits)
qed

lemma insert_flag: "fst (insert k v m) \<longleftrightarrow> find m k = None"
  by (cases "find m k") (simp_all add: insert_new insert_old)

lemma wf_insert: "wf m \<Longrightarrow> wf (snd (insert k v m))"
  by (cases "find m k") (simp_all add: insert_new insert_old wf_put)

text \<open>
  A property of the entries that holds of what is stored holds of the map afterwards: the shape
  of every invariant kept over a map.
\<close>

definition all_entries :: "('k \<Rightarrow> 'v \<Rightarrow> bool) \<Rightarrow> 'm \<Rightarrow> bool" where
  "all_entries P m \<longleftrightarrow> (\<forall>k v. find m k = Some v \<longrightarrow> P k v)"

lemma all_entriesD: "all_entries P m \<Longrightarrow> find m k = Some v \<Longrightarrow> P k v"
  by (simp add: all_entries_def)

lemma all_entries_put: "all_entries P m \<Longrightarrow> P k v \<Longrightarrow> all_entries P (put k v m)"
  by (simp add: all_entries_def find_put)

lemma all_entries_erase: "all_entries P m \<Longrightarrow> all_entries P (erase k m)"
  by (simp add: all_entries_def find_erase)

lemma all_entries_insert: "all_entries P m \<Longrightarrow> P k v \<Longrightarrow> all_entries P (snd (insert k v m))"
  by (cases "find m k") (simp_all add: insert_new insert_old all_entries_put)

text \<open>Taking an entry out and putting it back under another key (\<open>extract\<close>, \<open>node.key() =\<close>).\<close>

lemma rekey_find:
  "find m old = Some v \<Longrightarrow> find (put new v (erase old m)) =
     ((find m)(old := None))(new \<mapsto> v)"
  by (simp add: find_put find_erase)

end

section \<open>The provider\<close>

lemma map_of_smap_put: "map_of (smap_put k v m) = (map_of m)(k \<mapsto> v)"
  by (induction k v m rule: smap_put.induct) (auto simp: fun_eq_iff)

lemma map_of_smap_erase: "map_of (smap_erase k m) = (map_of m)(k := None)"
  by (induction m) (auto simp: smap_erase_def fun_eq_iff)

lemma set_smap_put: "fst ` set (smap_put k v m) = insert k (fst ` set m)"
  by (induction k v m rule: smap_put.induct) auto

lemma smap_wf_put: "smap_wf m \<Longrightarrow> smap_wf (smap_put k v m)"
proof (induction k v m rule: smap_put.induct)
  case (1 k v)
  then show ?case by (simp add: smap_wf_def)
next
  case (2 k v k' v' m)
  then show ?case
    using set_smap_put [of k v m]
    by (auto simp: smap_wf_def image_iff dest: less_trans)
qed

lemma smap_wf_erase: "smap_wf m \<Longrightarrow> smap_wf (smap_erase k m)"
  by (induction m) (auto simp: smap_wf_def smap_erase_def)

lemma smap_wf_distinct: "smap_wf m \<Longrightarrow> distinct (map fst m)"
  by (simp add: smap_wf_def strict_sorted_iff)

interpretation smap: std_map smap_find smap_put smap_insert smap_erase smap_keys smap_wf
  by unfold_locales
    (auto simp: smap_find_def smap_insert_def smap_keys_def map_of_smap_put map_of_smap_erase
      dom_map_of_conv_image_fst smap_wf_put smap_wf_erase smap_wf_distinct)

lemmas smap_laws [simp] = smap.find_put smap.find_erase

lemma smap_find_Nil [simp]: "smap_find [] = Map.empty"
  by (simp add: smap_find_def)

lemma smap_wf_Nil [simp]: "smap_wf []"
  by (simp add: smap_wf_def)

end
