(* ===== verification/FD_Tracking.thy ===== *)
theory FD_Tracking
  imports Std_Map Sys_Types
begin

text \<open>
  File descriptor tracking: \<open>FDInfo\<close> and \<open>FDInfoMap\<close> (include/types.hxx), the parsing of
  \<open>/proc/<pid>/fd\<close> and \<open>/proc/<pid>/fdinfo\<close> (src/utils.cxx), and the operations of the tracee on
  the map (\<open>trackFD\<close>, \<open>updateFD\<close>, \<open>dropFD\<close>, \<open>syncFDsAfterExec\<close>, the initial fill of
  \<open>handleAttached\<close>, all in src/Tracee.cxx).

  \<open>cosmos::split\<close> and \<open>cosmos::stripped\<close> are library functions outside the repository; the
  parsers take them as parameters, as they take the contents of the proc files.
\<close>

section \<open>File descriptor information\<close>

type_synonym fileno = int

abbreviation (input) FD_INVALID :: fileno where "FD_INVALID \<equiv> - 1"

datatype fd_type =
    FD_NONE | FS_PATH | EVENT_FD | TIMER_FD | SIGNAL_FD | SOCKET | EPOLL | PIPE | INOTIFY
  | PID_FD | BPF_MAP | BPF_PROG | PERF_EVENT | FD_UNKNOWN

record fd_info =
  fi_type :: fd_type
  fi_fd :: fileno
  fi_path :: string
  fi_mode :: "int option"
  fi_flags :: "int option"
  fi_inode :: "nat option"
  fi_sock_domain :: "int option"
  fi_sock_type :: "int option"

definition FDInfo_default :: fd_info where
  "FDInfo_default = \<lparr>fi_type = FD_NONE, fi_fd = FD_INVALID, fi_path = [], fi_mode = None,
     fi_flags = None, fi_inode = None, fi_sock_domain = None, fi_sock_type = None\<rparr>"

definition FDInfo :: "fd_type \<Rightarrow> fileno \<Rightarrow> fd_info" where
  "FDInfo t fd = FDInfo_default\<lparr>fi_type := t, fi_fd := fd\<rparr>"

definition FDInfo_valid :: "fd_info \<Rightarrow> bool" where
  "FDInfo_valid i \<longleftrightarrow> fi_type i \<noteq> FD_NONE"

definition ensureFlags :: "fd_info \<Rightarrow> fd_info" where
  "ensureFlags i = (if fi_flags i = None then i\<lparr>fi_flags := Some 0\<rparr> else i)"

type_synonym fd_map = "(fileno, fd_info) smap"

section \<open>Parsing the proc file system\<close>

definition to_fd_info_type :: "string \<Rightarrow> fd_type" where
  "to_fd_info_type t =
     (if t = ''pipe'' then PIPE
      else if t = ''socket'' then SOCKET
      else if t = ''eventfd'' then EVENT_FD
      else if t = ''eventpoll'' then EPOLL
      else if t = ''pidfd'' then PID_FD
      else if t = ''signalfd'' then SIGNAL_FD
      else if t = ''timerfd'' then TIMER_FD
      else if t = ''inotify'' then INOTIFY
      else if t = ''bpf-map'' then BPF_MAP
      else if t = ''bpf-prog'' then BPF_PROG
      else if t = ''perf_event'' then PERF_EVENT
      else FD_UNKNOWN)"

text \<open>
  \<open>split text sep strip max_splits\<close> and \<open>stripped text chars\<close> stand for the libcosmos functions;
  \<open>max_splits = 0\<close> is no limit.
\<close>

record text_lib =
  tl_split :: "string \<Rightarrow> string \<Rightarrow> bool \<Rightarrow> nat \<Rightarrow> string list"
  tl_stripped :: "string \<Rightarrow> string \<Rightarrow> string"

definition parse_type_info :: "text_lib \<Rightarrow> string \<Rightarrow> fd_info \<Rightarrow> bool \<times> fd_info" where
  "parse_type_info L type_info info =
     (if type_info \<noteq> [] \<and> type_info ! 0 = CHR ''/''
      then (True, info\<lparr>fi_path := type_info, fi_type := FS_PATH, fi_inode := None\<rparr>)
      else
        let parts = tl_split L type_info '':'' False 1 in
        if length parts \<noteq> 2 then (False, info)
        else if parts ! 0 = ''anon_inode''
        then (True, info\<lparr>fi_type := to_fd_info_type (tl_stripped L (parts ! 1) ''[]'')\<rparr>)
        else
          let info = info\<lparr>fi_type := to_fd_info_type (parts ! 0)\<rparr>;
              inode_str = tl_stripped L (parts ! 1) ''[]''
          in case stoul inode_str of
               Inr inode \<Rightarrow> (True, info\<lparr>fi_inode := Some inode\<rparr>)
             | Inl _ \<Rightarrow> (False, info))"

text \<open>\<open>O_RDONLY|O_WRONLY|O_RDWR\<close> is 3, so the mode is the two low bits and the flags the rest.\<close>

fun parse_fd_info_lines :: "text_lib \<Rightarrow> string list \<Rightarrow> fd_info \<Rightarrow> exn + fd_info" where
  "parse_fd_info_lines L [] info = Inl (RuntimeError ''no flags found'')"
| "parse_fd_info_lines L (line # lines) info =
     (let parts = tl_split L line '':'' True 1 in
      if length parts \<noteq> 2 then parse_fd_info_lines L lines info
      else if parts ! 0 \<noteq> ''flags'' then parse_fd_info_lines L lines info
      else case stoi 8 (parts ! 1) of
          Inl e \<Rightarrow> Inl e
        | Inr raw_flags \<Rightarrow>
            Inr (info\<lparr>fi_mode := Some (raw_flags mod 4),
                      fi_flags := Some (raw_flags - raw_flags mod 4)\<rparr>))"

text \<open>Opening the fdinfo file can fail; its complete lines are the content of the file.\<close>

definition parse_fd_info ::
  "text_lib \<Rightarrow> (fileno \<Rightarrow> exn + string list) \<Rightarrow> fd_info \<Rightarrow> exn + fd_info"
where
  "parse_fd_info L fdinfo_lines info = (case fdinfo_lines (fi_fd info) of
     Inl e \<Rightarrow> Inl e
   | Inr lines \<Rightarrow> parse_fd_info_lines L lines info)"

text \<open>
  What \<open>/proc/<pid>\<close> shows: the entries of the directory \<open>fd\<close> (without the dot entries) or the
  error of opening it, the target of each symbolic link, and the fdinfo files.
\<close>

record proc_fds =
  pf_entries :: "exn + string list"
  pf_link :: "string \<Rightarrow> exn + string"
  pf_fdinfo :: "fileno \<Rightarrow> exn + string list"

definition get_currently_open_fds :: "proc_fds \<Rightarrow> exn + fileno list" where
  "get_currently_open_fds P = (case pf_entries P of
     Inl e \<Rightarrow> Inl e
   | Inr es \<Rightarrow> Inr (concat (map (\<lambda>e. case stoi 10 e of Inr fd \<Rightarrow> [fd] | Inl _ \<Rightarrow> []) es)))"

definition get_fd_info_entry :: "text_lib \<Rightarrow> proc_fds \<Rightarrow> string \<Rightarrow> fd_info list" where
  "get_fd_info_entry L P name = (case stoi 10 name of
     Inl _ \<Rightarrow> []
   | Inr fd \<Rightarrow>
      let info = FDInfo_default\<lparr>fi_fd := fd\<rparr>;
          rest = (\<lambda>info. case parse_fd_info L (pf_fdinfo P) info of
             Inl _ \<Rightarrow> [info] | Inr info' \<Rightarrow> [info'])
      in case pf_link P name of
           Inl _ \<Rightarrow> rest info
         | Inr target \<Rightarrow> (case parse_type_info L target info of
               (False, _) \<Rightarrow> []
             | (True, info) \<Rightarrow> rest info))"

definition get_fd_infos :: "text_lib \<Rightarrow> proc_fds \<Rightarrow> exn + fd_info list" where
  "get_fd_infos L P = (case pf_entries P of
     Inl e \<Rightarrow> Inl e
   | Inr es \<Rightarrow> Inr (concat (map (get_fd_info_entry L P) es)))"

section \<open>The map of a tracee\<close>

definition trackFD :: "fd_info \<Rightarrow> fd_map \<Rightarrow> fd_map" where
  "trackFD info m =
     (if fi_fd info = FD_INVALID then m
      else let (inserted, m') = smap_insert (fi_fd info) info m
           in if \<not> inserted then m else m')"

definition updateFD :: "fd_info \<Rightarrow> fd_map \<Rightarrow> fd_map" where
  "updateFD info m = (case smap_find m (fi_fd info) of
     None \<Rightarrow> m | Some _ \<Rightarrow> smap_put (fi_fd info) info m)"

definition dropFD :: "fileno \<Rightarrow> fd_map \<Rightarrow> fd_map" where
  "dropFD fd m = smap_erase fd m"

text \<open>The loop of \<open>handleAttached\<close> over the descriptors found in the proc file system.\<close>

definition initFDs :: "fd_info list \<Rightarrow> fd_map \<Rightarrow> fd_map" where
  "initFDs infos m = foldl (\<lambda>m info. snd (smap_insert (fi_fd info) info m)) m infos"

text \<open>
  The loop of \<open>syncFDsAfterExec\<close> over the map, from the iterator on: an erase moves the iterator to
  the entry behind the erased one, and then the loop header moves it once more.
\<close>

fun sync_fds_loop :: "fileno list \<Rightarrow> fd_map \<Rightarrow> fd_map" where
  "sync_fds_loop left_fds [] = []"
| "sync_fds_loop left_fds [e] = (if fst e \<in> set left_fds then [e] else [])"
| "sync_fds_loop left_fds (e # e' # m) =
     (if fst e \<in> set left_fds then e # sync_fds_loop left_fds (e' # m)
      else e' # sync_fds_loop left_fds m)"

definition syncFDsAfterExec :: "proc_fds \<Rightarrow> fd_map \<Rightarrow> exn + fd_map" where
  "syncFDsAfterExec P m = (case get_currently_open_fds P of
     Inl e \<Rightarrow> if is_ApiError e then Inr m else Inl e
   | Inr left_fds \<Rightarrow> Inr (sync_fds_loop left_fds m))"

section \<open>Well-formed maps\<close>

text \<open>Every entry is stored under the number it names, which is a real descriptor.\<close>

definition fd_entry_ok :: "fileno \<Rightarrow> fd_info \<Rightarrow> bool" where
  "fd_entry_ok k i \<longleftrightarrow> fi_fd i = k \<and> k \<noteq> FD_INVALID"

definition fd_map_ok :: "fd_map \<Rightarrow> bool" where
  "fd_map_ok m \<longleftrightarrow> smap_wf m \<and> smap.all_entries fd_entry_ok m"

lemma fd_map_ok_Nil [simp]: "fd_map_ok []"
  by (simp add: fd_map_ok_def smap.all_entries_def)

lemma fd_map_ok_put: "fd_map_ok m \<Longrightarrow> fd_entry_ok k i \<Longrightarrow> fd_map_ok (smap_put k i m)"
  by (simp add: fd_map_ok_def smap.wf_put smap.all_entries_put)

lemma fd_map_ok_insert: "fd_map_ok m \<Longrightarrow> fd_entry_ok k i \<Longrightarrow> fd_map_ok (snd (smap_insert k i m))"
  by (simp add: fd_map_ok_def smap.wf_insert smap.all_entries_insert)

lemma trackFD_eq: "trackFD info m =
    (if fi_fd info = FD_INVALID then m else snd (smap_insert (fi_fd info) info m))"
  by (cases "smap_find m (fi_fd info)") (simp_all add: trackFD_def smap.insert_old smap.insert_new)

lemma trackFD_ok: "fd_map_ok m \<Longrightarrow> fd_map_ok (trackFD info m)"
  by (simp add: trackFD_eq fd_map_ok_insert fd_entry_ok_def)

lemma updateFD_ok: "fd_map_ok m \<Longrightarrow> fd_map_ok (updateFD info m)"
  by (auto simp: updateFD_def fd_map_ok_def smap.wf_put intro!: smap.all_entries_put
      dest: smap.all_entriesD split: option.split) (auto simp: fd_entry_ok_def dest: smap.all_entriesD)

lemma dropFD_ok: "fd_map_ok m \<Longrightarrow> fd_map_ok (dropFD fd m)"
  by (simp add: dropFD_def fd_map_ok_def smap.wf_erase smap.all_entries_erase)

lemma trackFD_find: "smap_find (trackFD info m) k =
    (if fi_fd info \<noteq> FD_INVALID \<and> k = fi_fd info \<and> smap_find m k = None then Some info
     else smap_find m k)"
  by (auto simp: trackFD_eq smap.insert_keeps split: option.split)

lemma updateFD_find: "smap_find (updateFD info m) k =
    (if k = fi_fd info \<and> smap_find m k \<noteq> None then Some info else smap_find m k)"
  by (auto simp: updateFD_def split: option.split)

lemma dropFD_find: "smap_find (dropFD fd m) k = (if k = fd then None else smap_find m k)"
  by (simp add: dropFD_def)

lemmas fd_ops_find = trackFD_find updateFD_find dropFD_find
lemmas fd_ops_ok = trackFD_ok updateFD_ok dropFD_ok

section \<open>Synchronisation after execve\<close>

lemma sync_fds_subset: "set (sync_fds_loop L m) \<subseteq> set m"
  by (induction L m rule: sync_fds_loop.induct) auto

lemma sync_fds_sorted: "sorted_wrt P (map fst m) \<Longrightarrow> sorted_wrt P (map fst (sync_fds_loop L m))"
proof (induction L m rule: sync_fds_loop.induct)
  case (3 L e e' m)
  then show ?case by (fastforce dest: subsetD [OF sync_fds_subset])
qed simp_all

lemma sync_fds_ok:
  assumes "fd_map_ok m"
  shows "fd_map_ok (sync_fds_loop L m)"
proof -
  have wf: "smap_wf m" "smap_wf (sync_fds_loop L m)"
    using assms sync_fds_sorted [of "(<)" m L] by (simp_all add: fd_map_ok_def smap_wf_def)
  have "fd_entry_ok k v" if "smap_find (sync_fds_loop L m) k = Some v" for k v
  proof -
    have "(k, v) \<in> set m"
      using that sync_fds_subset [of L m] by (auto simp: smap_find_def dest: map_of_SomeD)
    then have "smap_find m k = Some v"
      using smap_wf_distinct [OF wf(1)] by (simp add: smap_find_def)
    then show ?thesis using assms by (auto simp: fd_map_ok_def dest: smap.all_entriesD)
  qed
  then show ?thesis using wf by (simp add: fd_map_ok_def smap.all_entries_def)
qed

lemma sync_fds_open:
  "filter (\<lambda>e. fst e \<in> set L) (sync_fds_loop L m) = filter (\<lambda>e. fst e \<in> set L) m"
  by (induction L m rule: sync_fds_loop.induct) auto

text \<open>C10: after an execve every descriptor that is still open keeps exactly the information it
  had, and nothing is added: whatever else the loop does, restricted to the open descriptors the map
  is unchanged and the result is a part of the old map.\<close>

theorem syncFDs_keeps_open:
  "get_currently_open_fds P = Inr L \<Longrightarrow>
     \<exists>m'. syncFDsAfterExec P m = Inr m' \<and> set m' \<subseteq> set m \<and>
       filter (\<lambda>e. fst e \<in> set L) m' = filter (\<lambda>e. fst e \<in> set L) m"
  by (simp add: syncFDsAfterExec_def sync_fds_open sync_fds_subset)

definition demo_proc :: proc_fds where
  "demo_proc = \<lparr>pf_entries = Inr [''0'', ''2'', ''x''], pf_link = (\<lambda>_. Inr ''/dev/null''),
     pf_fdinfo = (\<lambda>_. Inl (ApiError 2))\<rparr>"

lemma demo_open: "get_currently_open_fds demo_proc = Inr [0, 2]"
  by code_simp

theorem syncFDs_keeps_open_witness:
  "\<exists>m'. syncFDsAfterExec demo_proc [(0, FDInfo PIPE 0), (1, FDInfo PIPE 1)] = Inr m' \<and>
     set m' \<subseteq> set [(0, FDInfo PIPE 0), (1, FDInfo PIPE 1)] \<and>
     filter (\<lambda>e. fst e \<in> set [0, 2]) m' =
       filter (\<lambda>e. fst e \<in> set [0, 2]) [(0, FDInfo PIPE 0), (1, FDInfo PIPE 1)]"
  by (rule syncFDs_keeps_open [OF demo_open])

lemma sync_fds_filter:
  "successively (\<lambda>e e'. fst e \<in> set L \<or> fst e' \<in> set L) m \<Longrightarrow>
     sync_fds_loop L m = filter (\<lambda>e. fst e \<in> set L) m"
proof (induction L m rule: sync_fds_loop.induct)
  case (3 L e e' m)
  then have "successively (\<lambda>e e'. fst e \<in> set L \<or> fst e' \<in> set L) m" by (cases m) auto
  with 3 show ?case by auto
qed simp_all

text \<open>C11: the synchronisation removes exactly the closed descriptors when no two of them are
  neighbours in the map; but of two neighbours that are both closed it removes the first and keeps
  the second one, because the loop steps over the entry behind an erased one.\<close>

theorem syncFDs_exact_iff_no_neighbours:
  assumes "get_currently_open_fds P = Inr L"
  shows "(successively (\<lambda>e e'. fst e \<in> set L \<or> fst e' \<in> set L) m \<longrightarrow>
           syncFDsAfterExec P m = Inr (filter (\<lambda>e. fst e \<in> set L) m)) \<and>
         (fst a \<notin> set L \<and> fst b \<notin> set L \<longrightarrow>
           (\<exists>m'. syncFDsAfterExec P (a # b # m) = Inr (b # m')))"
  using assms sync_fds_filter by (auto simp: syncFDsAfterExec_def)

theorem syncFDs_exact_iff_no_neighbours_witness:
  "syncFDsAfterExec demo_proc [(0, FDInfo PIPE 0), (1, FDInfo PIPE 1)] = Inr [(0, FDInfo PIPE 0)] \<and>
   (\<exists>m'. syncFDsAfterExec demo_proc [(5, FDInfo PIPE 5), (6, FDInfo PIPE 6)] =
      Inr ((6, FDInfo PIPE 6) # m'))"
  using syncFDs_exact_iff_no_neighbours [OF demo_open, of "[(0, FDInfo PIPE 0), (1, FDInfo PIPE 1)]"]
    syncFDs_exact_iff_no_neighbours [OF demo_open, of "[]" "(5, FDInfo PIPE 5)" "(6, FDInfo PIPE 6)"]
  by simp

lemma syncFDsAfterExec_ok: "fd_map_ok m \<Longrightarrow> syncFDsAfterExec P m = Inr m' \<Longrightarrow> fd_map_ok m'"
  by (auto simp: syncFDsAfterExec_def sync_fds_ok split: sum.splits if_splits)



end
