(* ===== verification/System_Call.thy ===== *)
theory System_Call
  imports FD_Tracking Tracee_Memory
begin

text \<open>
  System calls and their parameters: \<open>SystemCallItem\<close> (include/SystemCallItem.hxx,
  src/SystemCallItem.cxx), the base class \<open>SystemCall\<close> (include/SystemCall.hxx,
  src/SystemCall.cxx), and the factory and cache \<open>SystemCallDB\<close> (src/SystemCallDB.cxx).

  A class derived from \<open>SystemCall\<close> is a record of its virtual methods, \<open>call_class\<close>; the virtual
  methods of its parameter objects are the fields \<open>cc_process\<close> and \<open>cc_update\<close>, which get the
  position of the parameter in \<open>m_pars\<close>. The base class is modelled for any such record. What a
  method sees of the tracee is the record \<open>tview\<close>: its memory, the configuration and, because they
  depend on the platform and not on the code, the sizes of the types that libcosmos and the kernel
  headers declare (\<open>tv_sizeof\<close>) and whether so many bytes can be allocated (\<open>tv_alloc\<close>).
  \<open>sc_ret\<close> is the item behind \<open>m_return\<close>, whose value is \<open>sc_return\<close>; \<open>sc_members\<close> are the items of
  a class that are not in \<open>m_pars\<close> at the moment.
\<close>

section \<open>Parameters\<close>

datatype item_type = PARAM_IN | PARAM_OUT | PARAM_IN_OUT | RETVAL

text \<open>
  \<open>item_kind\<close> is the dynamic class of an item, as far as its virtual methods \<open>processData\<close> and
  \<open>updateData\<close> are concerned: an item that only interprets its value (with the name of the class), or
  one that reads the memory of the tracee. Where an item holds a reference to another item, to the
  count or size of what it points to, the reference is the position of that parameter or the return
  value.
\<close>

datatype item_ref = OfParam nat | OfResult

datatype item_kind =
    K_Value string
  | K_Scalar nat | K_ScalarInOut nat | K_WaitStatus
  | K_Buffer item_ref | K_String | K_StringBuffer item_ref | K_StringArray
  | K_TimeSpec | K_TimeSpecInOut | K_RemainingTimeSpec | K_TimeVal | K_TimeValInOut
  | K_CloneArgs | K_ResourceLimit | K_ResourceUsage
  | K_Stat | K_StatFS
  | K_FLock | K_ExtFileDescOwner | K_ReadWriteHint
  | K_OldMmapArgs | K_OldSelectArgs
  | K_SigAction | K_SigSet | K_SigInfo | K_RSeq
  | K_PipeEnds | K_ReadVector nat | K_WriteVector nat
  | K_FDSet | K_EPollEventSettings | K_EPollEventReport | K_PollFDs nat

text \<open>A buffer of an I/O vector: base address, length, filled bytes, data fetched of it.\<close>

record iobuf =
  ib_base :: word64
  ib_len :: nat
  ib_filled :: nat
  ib_data :: "byte list"

text \<open>
  A message header of recvmsg(2) and the like with its sub-items: the header as read at the entry and at
  the exit, the one of them that the flags and the length of the control data are from, the address,
  the control data, the I/O vector and the number of bytes of this message.
\<close>

record msg_state =
  mh_in :: "byte list option"
  mh_out :: "byte list option"
  mh_ctl :: "byte list option"
  mh_name :: "byte list option"
  mh_control :: "byte list"
  mh_bufs :: "iobuf list"
  mh_bytes :: "nat option"

text \<open>
  \<open>it_name\<close> is the label. What \<open>processData\<close> and \<open>updateData\<close> fetched from the tracee is in
  \<open>it_data\<close> (the main object, \<open>None\<close> an empty optional), \<open>it_more\<close> (further objects of the class) and
  \<open>it_bufs\<close> (I/O vectors) and \<open>it_msgs\<close> (message headers). Members that are
  functions of the value are not stored.
\<close>

record item =
  it_kind :: item_kind
  it_name :: string
  it_type :: item_type
  it_defer :: bool
  it_unused :: bool
  it_val :: word64
  it_data :: "byte list option"
  it_more :: "byte list list"
  it_bufs :: "iobuf list"
  it_msgs :: "msg_state list"

definition new_item :: "item_type \<Rightarrow> string \<Rightarrow> item" where
  "new_item t label = \<lparr>it_kind = K_Value label, it_name = label, it_type = t, it_defer = False,
     it_unused = False, it_val = 0, it_data = None, it_more = [], it_bufs = [], it_msgs = []\<rparr>"

definition unused_item :: item where
  "unused_item = (new_item PARAM_IN ''unused'')\<lparr>it_kind := K_Value ''UnusedItem'', it_unused := True\<rparr>"

definition isIn :: "item \<Rightarrow> bool" where
  "isIn i \<longleftrightarrow> it_type i = PARAM_IN"

definition isOut :: "item \<Rightarrow> bool" where
  "isOut i \<longleftrightarrow> it_type i = PARAM_OUT"

definition needsUpdate :: "item \<Rightarrow> bool" where
  "needsUpdate i \<longleftrightarrow> it_type i \<noteq> PARAM_IN"

section \<open>The base class\<close>

record tview =
  tv_pid :: int
  tv_peek :: peek_fn
  tv_arch :: arch_flags
  tv_prefetch :: nat
  tv_text :: text_lib
  tv_proc :: proc_fds
  tv_sizeof :: "string \<Rightarrow> nat"
  tv_alloc :: "nat \<Rightarrow> bool"

record syscall =
  sc_class :: string
  sc_nr :: sysnr
  sc_abi :: abi
  sc_info :: "sysinfo option"
  sc_error :: "errno_result option"
  sc_return :: word64
  sc_pars :: "item list"
  sc_ret :: item
  sc_members :: "item list"

record call_class =
  cc_nr :: "sysnr \<Rightarrow> sysnr"
  cc_pars :: "sysnr \<Rightarrow> item list"
  cc_ret :: "sysnr \<Rightarrow> item"
  cc_members :: "sysnr \<Rightarrow> item list"
  cc_process :: "tview \<Rightarrow> nat \<Rightarrow> (syscall, unit) prog"
  cc_update :: "tview \<Rightarrow> nat \<Rightarrow> (syscall, unit) prog"
  cc_prepare :: "(syscall, unit) prog"
  cc_2nd :: "tview \<Rightarrow> (syscall, bool) prog"
  cc_post :: "tview \<Rightarrow> (syscall, unit) prog"
  cc_fdtrack :: "tview \<Rightarrow> syscall \<Rightarrow> (fd_map, unit) prog"

text \<open>The virtual methods that the base classes provide.\<close>

definition base_class :: call_class where
  "base_class = \<lparr>cc_nr = id, cc_pars = (\<lambda>_. []),
     cc_ret = (\<lambda>_. new_item RETVAL ''result''), cc_members = (\<lambda>_. []), cc_process = (\<lambda>_ _. skipE),
     cc_update = (\<lambda>_ _. skipE), cc_prepare = skipE, cc_2nd = (\<lambda>_. ret False),
     cc_post = (\<lambda>_. skipE), cc_fdtrack = (\<lambda>_ _. skipE)\<rparr>"

definition hasResultValue :: "syscall \<Rightarrow> bool" where
  "hasResultValue s \<longleftrightarrow> sc_error s = None"

definition sc_hasErrorCode :: "syscall \<Rightarrow> bool" where
  "sc_hasErrorCode s \<longleftrightarrow> \<not> hasResultValue s"

definition is32BitEmulationABI :: "arch_flags \<Rightarrow> syscall \<Rightarrow> bool" where
  "is32BitEmulationABI a s = is_32bit_emulation_abi a (sc_abi s)"

definition usesTime32 :: "arch_flags \<Rightarrow> syscall \<Rightarrow> bool" where
  "usesTime32 a s \<longleftrightarrow> is32BitEmulationABI a s \<or> sc_abi s = ABI_I386"

text \<open>\<open>dropParameters\<close> pops from the end while there are more than \<open>start_index\<close> parameters.\<close>

definition dropParameters :: "nat \<Rightarrow> syscall \<Rightarrow> syscall" where
  "dropParameters start_index s = s\<lparr>sc_pars := take start_index (sc_pars s)\<rparr>"

definition addParameters :: "item list \<Rightarrow> syscall \<Rightarrow> syscall" where
  "addParameters ps s = s\<lparr>sc_pars := sc_pars s @ ps\<rparr>"

definition setParameters :: "item list \<Rightarrow> syscall \<Rightarrow> syscall" where
  "setParameters ps s = s\<lparr>sc_pars := ps\<rparr>"

definition par_set_val :: "nat \<Rightarrow> word64 \<Rightarrow> syscall \<Rightarrow> syscall" where
  "par_set_val n w s = s\<lparr>sc_pars := (sc_pars s)[n := (sc_pars s ! n)\<lparr>it_val := w\<rparr>]\<rparr>"

text \<open>\<open>SystemCallItem::fill\<close> on the parameter at position \<open>n\<close>.\<close>

definition item_fill :: "call_class \<Rightarrow> tview \<Rightarrow> nat \<Rightarrow> word64 \<Rightarrow> (syscall, unit) prog" where
  "item_fill c tv n w =
     seqE (updE (par_set_val n w))
       (bindE (askE (\<lambda>s. it_unused (sc_pars s ! n)))
         (\<lambda>unused. if \<not> unused then cc_process c tv n else skipE))"

text \<open>
  The first loop of \<open>fillParameters\<close>, over the argument words from position \<open>n\<close> on; it returns the
  deferred fills. A seventh parameter would read past the six argument words.
\<close>

primrec fill_loop ::
  "call_class \<Rightarrow> tview \<Rightarrow> word64 list \<Rightarrow> nat \<Rightarrow> (nat \<times> word64) list \<Rightarrow>
     (syscall, (nat \<times> word64) list) prog"
where
  "fill_loop c tv [] n deferred =
     bindE (askE (\<lambda>s. length (sc_pars s)))
       (\<lambda>k. if n < k then raise (Undefined ''argument index out of range'') else ret deferred)"
| "fill_loop c tv (w # ws) n deferred =
     bindE (askE (\<lambda>s. (length (sc_pars s), it_defer (sc_pars s ! n))))
       (\<lambda>(k, defer). if n < k
          then if defer then fill_loop c tv ws (n + 1) (deferred @ [(n, w)])
               else seqE (item_fill c tv n w) (fill_loop c tv ws (n + 1) deferred)
          else ret deferred)"

definition fillParameters :: "call_class \<Rightarrow> tview \<Rightarrow> sysinfo \<Rightarrow> (syscall, unit) prog" where
  "fillParameters c tv info =
     bindE (fill_loop c tv (entry_args info) 0 [])
       (\<lambda>deferred. forE deferred (\<lambda>(n, w). item_fill c tv n w))"

definition setEntryInfo :: "call_class \<Rightarrow> tview \<Rightarrow> sysinfo \<Rightarrow> (syscall, unit) prog" where
  "setEntryInfo c tv info = seqsE [
     updE (\<lambda>s. s\<lparr>sc_abi := si_abi info, sc_error := Some (ErrnoResult ENODATA),
                 sc_info := Some info\<rparr>),
     cc_prepare c,
     fillParameters c tv info,
     bindE (cc_2nd c tv) (\<lambda>again. if again then fillParameters c tv info else skipE),
     updE (\<lambda>s. s\<lparr>sc_info := None\<rparr>)]"

definition hasOutParameter :: "syscall \<Rightarrow> bool" where
  "hasOutParameter s = list_ex needsUpdate (sc_pars s)"

text \<open>The loop of \<open>setExitInfo\<close> over the parameters, from position \<open>n\<close>: what it defers.\<close>

primrec update_loop ::
  "call_class \<Rightarrow> tview \<Rightarrow> nat list \<Rightarrow> nat list \<Rightarrow> (syscall, nat list) prog"
where
  "update_loop c tv [] deferred = ret deferred"
| "update_loop c tv (n # ns) deferred =
     bindE (askE (\<lambda>s. sc_pars s ! n))
       (\<lambda>par. if needsUpdate par
          then if \<not> it_defer par then seqE (cc_update c tv n) (update_loop c tv ns deferred)
               else update_loop c tv ns (deferred @ [n])
          else update_loop c tv ns deferred)"

definition setExitInfo_pars :: "call_class \<Rightarrow> tview \<Rightarrow> exit_info \<Rightarrow> sysinfo \<Rightarrow> (syscall, unit) prog" where
  "setExitInfo_pars c tv exit info = seqsE [
     updE (\<lambda>s. s\<lparr>sc_info := Some info\<rparr>),
     updE (\<lambda>s. case exit of
         ExitValue v \<Rightarrow> s\<lparr>sc_error := None, sc_return := v\<rparr>
       | ExitError e \<Rightarrow> s\<lparr>sc_error := Some (ErrnoResult e), sc_return := 0\<rparr>),
     bindE (bindE (askE (\<lambda>s. [0..<length (sc_pars s)])) (\<lambda>ns. update_loop c tv ns []))
       (\<lambda>deferred. forE deferred (cc_update c tv)),
     cc_post c tv]"

text \<open>
  \<open>setExitInfo\<close> works on the call object and on the descriptor map of the process data.
\<close>

definition setExitInfo :: "call_class \<Rightarrow> tview \<Rightarrow> sysinfo \<Rightarrow> (syscall \<times> fd_map, unit) prog" where
  "setExitInfo c tv info = (\<lambda>(s, fds). case si_kind info of
     InfoExit exit \<Rightarrow> (case setExitInfo_pars c tv exit info s of
         (Inl e, s') \<Rightarrow> (Inl e, (s', fds))
       | (Inr _, s') \<Rightarrow> (case (case exit of ExitValue _ \<Rightarrow> cc_fdtrack c tv s' fds
                                | ExitError _ \<Rightarrow> (Inr (), fds)) of
             (Inl e, fds') \<Rightarrow> (Inl e, (s', fds'))
           | (Inr _, fds') \<Rightarrow> (Inr (), (s'\<lparr>sc_info := None\<rparr>, fds'))))
   | _ \<Rightarrow> (Inl (Undefined ''dereference of an empty optional''), (s, fds)))"

section \<open>The factory\<close>

datatype factory = New string | Multi string

text \<open>\<open>create_syscall\<close>: the class of each system call number, or the factory function.\<close>

definition create_syscall_cases_1 :: "(sysnr \<times> factory) list" where
  "create_syscall_cases_1 = [
   (SYS_ACCESS, New ''AccessSystemCall''), (SYS_FACCESSAT, New ''FAccessAtSystemCall''),
   (SYS_FACCESSAT2, New ''FAccessAt2SystemCall''), (SYS_ALARM, New ''AlarmSystemCall''),
   (SYS_ARCH_PRCTL, New ''ArchPrctlSystemCall''), (SYS_BRK, New ''BreakSystemCall''),
   (SYS_CLOCK_NANOSLEEP, New ''ClockNanoSleepSystemCall''),
   (SYS_CLOCK_NANOSLEEP_TIME64, New ''ClockNanoSleepSystemCall''),
   (SYS_CLONE, New ''CloneSystemCall''), (SYS_CLONE3, New ''Clone3SystemCall''),
   (SYS_CLOSE, New ''CloseSystemCall''), (SYS_EXECVE, New ''ExecveSystemCall''),
   (SYS_EXECVEAT, New ''ExecveAtSystemCall''), (SYS_EXIT, New ''ExitSystemCall''),
   (SYS_EXIT_GROUP, New ''ExitGroupSystemCall''), (SYS_FCNTL, New ''FcntlSystemCall''),
   (SYS_FCNTL64, New ''FcntlSystemCall''), (SYS_FORK, New ''ForkSystemCall''),
   (SYS_OLDFSTAT, New ''FstatSystemCall''), (SYS_FSTAT, New ''FstatSystemCall''),
   (SYS_FSTAT64, New ''FstatSystemCall''), (SYS_FSTATAT64, New ''FstatAtSystemCall''),
   (SYS_NEWFSTATAT, New ''FstatAtSystemCall''), (SYS_FUTEX, New ''FutexSystemCall''),
   (SYS_FUTEX_TIME64, New ''FutexSystemCall''), (SYS_GETDENTS, New ''GetDentsSystemCall''),
   (SYS_GETDENTS64, New ''GetDentsSystemCall''), (SYS_GETUID, New ''GetUIDSystemCall''),
   (SYS_GETUID32, New ''GetUIDSystemCall''), (SYS_GETEGID32, New ''GetEGIDSystemCall''),
   (SYS_GETEGID, New ''GetEGIDSystemCall''), (SYS_GETEUID32, New ''GetEUIDSystemCall''),
   (SYS_GETEUID, New ''GetEUIDSystemCall''), (SYS_GETGID32, New ''GetGIDSystemCall''),
   (SYS_GETGID, New ''GetGIDSystemCall''), (SYS_GETPID, New ''GetPIDSystemCall''),
   (SYS_GETPPID, New ''GetPPIDSystemCall''), (SYS_GETPGID, New ''GetPGIDSystemCall''),
   (SYS_GETTID, New ''GetTIDSystemCall''), (SYS_GETSID, New ''GetSIDSystemCall''),
   (SYS_SETSID, New ''SetSIDSystemCall''), (SYS_GETRLIMIT, New ''GetRlimitSystemCall''),
   (SYS_SETRLIMIT, New ''SetRlimitSystemCall''), (SYS_PRLIMIT64, New ''Prlimit64SystemCall''),
   (SYS_GET_ROBUST_LIST, New ''GetRobustListSystemCall''),
   (SYS_SET_ROBUST_LIST, New ''SetRobustListSystemCall''), (SYS_IOCTL, New ''IoCtlSystemCall''),
   (SYS_LSTAT, New ''LstatSystemCall''), (SYS_LSTAT64, New ''LstatSystemCall''),
   (SYS_OLDLSTAT, New ''LstatSystemCall''), (SYS_MMAP, New ''MmapSystemCall''),
   (SYS_MMAP2, New ''MmapSystemCall''), (SYS_MPROTECT, New ''MprotectSystemCall''),
   (SYS_MUNMAP, New ''MunmapSystemCall''), (SYS_NANOSLEEP, New ''NanoSleepSystemCall''),
   (SYS_OPENAT, New ''OpenAtSystemCall''), (SYS_OPEN, New ''OpenSystemCall''),
   (SYS_READ, New ''ReadSystemCall''), (SYS_RESTART_SYSCALL, New ''RestartSystemCall''),
   (SYS_RT_SIGACTION, New ''RtSigActionSystemCall''),
   (SYS_SIGACTION, New ''SigActionSystemCall''),
   (SYS_RT_SIGPROCMASK, New ''RtSigProcMaskSystemCall''),
   (SYS_SIGPROCMASK, New ''SigProcMaskSystemCall''),
   (SYS_SET_TID_ADDRESS, New ''SetTIDAddressSystemCall''), (SYS_OLDSTAT, New ''StatSystemCall''),
   (SYS_STAT64, New ''StatSystemCall''), (SYS_STAT, New ''StatSystemCall''),
   (SYS_TGKILL, New ''TgKillSystemCall''), (SYS_WAIT4, New ''Wait4SystemCall''),
   (SYS_WAITID, New ''WaitIDSystemCall''), (SYS_WAITPID, New ''WaitPIDSystemCall''),
   (SYS_WRITE, New ''WriteSystemCall''), (SYS_PIPE, New ''PipeSystemCall''),
   (SYS_PIPE2, New ''Pipe2SystemCall''), (SYS_PWRITE64, New ''PWrite64SystemCall''),
   (SYS_PREAD64, New ''PRead64SystemCall''), (SYS_READV, New ''ReadVSystemCall''),
   (SYS_WRITEV, New ''WriteVSystemCall''), (SYS_PREADV, New ''PReadVSystemCall'')]"

definition create_syscall_cases_2 :: "(sysnr \<times> factory) list" where
  "create_syscall_cases_2 = [
   (SYS_PREADV2, New ''PReadV2SystemCall''), (SYS_PWRITEV, New ''PWriteVSystemCall''),
   (SYS_PWRITEV2, New ''PWriteV2SystemCall''), (SYS_GETRANDOM, New ''GetRandomSystemCall''),
   (SYS_LSEEK, New ''LSeekSystemCall''), (SYS_LLSEEK, New ''LLSeekSystemCall''),
   (SYS_RSEQ, New ''RSeqSystemCall''), (SYS_PRCTL, Multi ''create_prctl_syscall''),
   (SYS_FADVISE64, New ''FAdviseSystemCall''), (SYS_FADVISE64_64, New ''FAdviseSystemCall''),
   (SYS_UMASK, New ''UmaskSystemCall''), (SYS_OLDOLDUNAME, New ''UnameSystemCall''),
   (SYS_OLDUNAME, New ''UnameSystemCall''), (SYS_UNAME, New ''UnameSystemCall''),
   (SYS_READLINK, New ''ReadLinkSystemCall''), (SYS_READLINKAT, New ''ReadLinkAtSystemCall''),
   (SYS_PIDFD_OPEN, New ''PIDFDOpenSystemCall''), (SYS_PIDFD_GETFD, New ''PIDFDGetFDSystemCall''),
   (SYS_PIDFD_SEND_SIGNAL, New ''PIDFDSendSignalSystemCall''),
   (SYS_EVENTFD, New ''EventFDSystemCall''), (SYS_EVENTFD2, New ''EventFD2SystemCall''),
   (SYS_AFS_SYSCALL, New ''DroppedSystemCall''), (SYS_PUTPMSG, New ''DroppedSystemCall''),
   (SYS_GETPMSG, New ''DroppedSystemCall''), (SYS_VSERVER, New ''DroppedSystemCall''),
   (SYS_BREAK, New ''DroppedSystemCall''), (SYS_FTIME, New ''DroppedSystemCall''),
   (SYS_GTTY, New ''DroppedSystemCall''), (SYS_LOCK, New ''DroppedSystemCall''),
   (SYS_MPX, New ''DroppedSystemCall''), (SYS_PROF, New ''DroppedSystemCall''),
   (SYS_ULIMIT, New ''DroppedSystemCall''), (SYS_STTY, New ''DroppedSystemCall''),
   (SYS_SECURITY, New ''DroppedSystemCall''), (SYS_EPOLL_CTL_OLD, New ''DroppedSystemCall''),
   (SYS_EPOLL_WAIT_OLD, New ''DroppedSystemCall''), (SYS_TUXCALL, New ''DroppedSystemCall''),
   (SYS_STATFS, New ''StatFSSystemCall''), (SYS_STATFS64, New ''StatFSSystemCall''),
   (SYS_FSTATFS, New ''FStatFSSystemCall''), (SYS_FSTATFS64, New ''FStatFSSystemCall''),
   (SYS_SIGNALFD, New ''SignalFDSystemCall''), (SYS_SIGNALFD4, New ''SignalFD4SystemCall''),
   (SYS_SELECT, New ''SelectSystemCall''), (SYS_NEWSELECT, New ''SelectSystemCall''),
   (SYS_PSELECT6, New ''PSelectSystemCall''), (SYS_PSELECT6_TIME64, New ''PSelectSystemCall''),
   (SYS_EPOLL_CREATE, New ''EPollCreateSystemCall''),
   (SYS_EPOLL_CREATE1, New ''EPollCreateSystemCall''),
   (SYS_EPOLL_CTL, New ''EPollCtlSystemCall''), (SYS_EPOLL_WAIT, New ''EPollWaitSystemCall''),
   (SYS_EPOLL_PWAIT, New ''EPollPWaitSystemCall''),
   (SYS_EPOLL_PWAIT2, New ''EPollPWait2SystemCall''), (SYS_POLL, New ''PollSystemCall''),
   (SYS_PPOLL, New ''PPollSystemCall''), (SYS_PPOLL_TIME64, New ''PPollSystemCall''),
   (SYS_DUP, New ''DupSystemCall''), (SYS_DUP2, New ''Dup2SystemCall''),
   (SYS_DUP3, New ''Dup3SystemCall''), (SYS_GETCWD, New ''GetCWDSystemCall''),
   (SYS_CHDIR, New ''ChDirSystemCall''), (SYS_FCHDIR, New ''FChDirSystemCall'')]"

definition create_syscall_cases_3 :: "(sysnr \<times> factory) list" where
  "create_syscall_cases_3 = [
   (SYS_SOCKET, New ''SocketSystemCall''), (SYS_SOCKETCALL, Multi ''create_socket_call_syscall''),
   (SYS_SOCKETPAIR, New ''SocketPairSystemCall''), (SYS_BIND, New ''BindSystemCall''),
   (SYS_CONNECT, New ''ConnectSystemCall''), (SYS_LISTEN, New ''ListenSystemCall''),
   (SYS_ACCEPT, New ''AcceptSystemCall''), (SYS_ACCEPT4, New ''AcceptSystemCall''),
   (SYS_SHUTDOWN, New ''ShutdownSystemCall''), (SYS_GETPEERNAME, New ''GetPeerNameSystemCall''),
   (SYS_GETSOCKNAME, New ''GetSockNameSystemCall''), (SYS_RECVFROM, New ''RecvFromSystemCall''),
   (SYS_SENDTO, New ''SendToSystemCall''), (SYS_RECVMSG, New ''RecvMsgSystemCall''),
   (SYS_SENDMSG, New ''SendMsgSystemCall''), (SYS_RECVMMSG, New ''RecvMMsgSystemCall''),
   (SYS_SENDMMSG, New ''SendMMsgSystemCall''),
   (SYS_GETSOCKOPT, Multi ''create_getsockopt_syscall''),
   (SYS_SETSOCKOPT, Multi ''create_setsockopt_syscall'')]"

definition create_syscall_cases :: "(sysnr \<times> factory) list" where
  "create_syscall_cases = create_syscall_cases_1 @ create_syscall_cases_2 @ create_syscall_cases_3"

text \<open>
  \<open>cf_class\<close> gives the methods of a class by its name, \<open>cf_multi\<close> the class that a factory function
  for a multiplexed call picks. \<open>cf_have_arch_prctl\<close> is the build option of the same name.
\<close>

record class_family =
  cf_class :: "string \<Rightarrow> call_class"
  cf_multi :: "string \<Rightarrow> tview \<Rightarrow> sysinfo \<Rightarrow> exn + string"
  cf_have_arch_prctl :: bool

definition factory_of :: "class_family \<Rightarrow> sysnr \<Rightarrow> factory" where
  "factory_of F nr =
     (case if nr = SYS_ARCH_PRCTL \<and> \<not> cf_have_arch_prctl F then None
           else map_of create_syscall_cases nr of
        Some f \<Rightarrow> f
      | None \<Rightarrow> if nr = SYS_UNKNOWN then New ''UnknownSystemCall''
                else New ''NotImplementedSystemCall'')"

definition new_call :: "class_family \<Rightarrow> string \<Rightarrow> sysnr \<Rightarrow> syscall" where
  "new_call F cls nr = \<lparr>sc_class = cls, sc_nr = cc_nr (cf_class F cls) nr, sc_abi = ABI_UNKNOWN,
     sc_info = None, sc_error = None, sc_return = 0, sc_pars = cc_pars (cf_class F cls) nr,
     sc_ret = cc_ret (cf_class F cls) nr, sc_members = cc_members (cf_class F cls) nr\<rparr>"

definition create_syscall :: "class_family \<Rightarrow> tview \<Rightarrow> sysinfo \<Rightarrow> exn + syscall \<times> bool" where
  "create_syscall F tv info = (case factory_of F (si_generic info) of
     New cls \<Rightarrow> Inr (new_call F cls (si_generic info), True)
   | Multi f \<Rightarrow> (case cf_multi F f tv info of
       Inl e \<Rightarrow> Inl e
     | Inr cls \<Rightarrow> Inr (new_call F cls (si_generic info), False)))"

section \<open>The cache\<close>

text \<open>
  \<open>SystemCallDB\<close> maps numbers to shared call objects, which live in a store under references
  because the tracee and the cache share them. A new object gets the first unused reference.
\<close>

type_synonym callref = nat

record call_store =
  cs_next :: callref
  cs_call :: "callref \<Rightarrow> syscall"

type_synonym syscall_db = "(sysnr, callref) smap"

definition store_new :: "syscall \<Rightarrow> call_store \<Rightarrow> callref \<times> call_store" where
  "store_new s st = (cs_next st, st\<lparr>cs_next := cs_next st + 1, cs_call := (cs_call st)(cs_next st := s)\<rparr>)"

definition SystemCallDB_get ::
  "class_family \<Rightarrow> tview \<Rightarrow> sysinfo \<Rightarrow> syscall_db \<times> call_store \<Rightarrow>
     (exn + callref) \<times> (syscall_db \<times> call_store)"
where
  "SystemCallDB_get F tv info = (\<lambda>(db, st). case smap_find db (si_generic info) of
     Some r \<Rightarrow> (Inr r, (db, st))
   | None \<Rightarrow> (case create_syscall F tv info of
       Inl e \<Rightarrow> (Inl e, (db, st))
     | Inr (s, do_cache) \<Rightarrow>
         (let (r, st') = store_new s st in
          if do_cache then (Inr r, (snd (smap_insert (si_generic info) r db), st'))
          else (Inr r, (db, st')))))"

section \<open>What every class keeps to\<close>

text \<open>
  \<open>par_sig\<close> is what the base class reads of a parameter besides its value. The methods of the
  items only touch what they fetched; \<open>call_contract\<close> says so, and is proved for each modelled
  class.
\<close>

definition par_sig :: "item \<Rightarrow> item_kind \<times> string \<times> item_type \<times> bool \<times> bool" where
  "par_sig i = (it_kind i, it_name i, it_type i, it_defer i, it_unused i)"

definition call_head :: "syscall \<Rightarrow> string \<times> sysnr \<times> abi \<times> sysinfo option \<times> errno_result option \<times> word64" where
  "call_head s = (sc_class s, sc_nr s, sc_abi s, sc_info s, sc_error s, sc_return s)"

definition call_frame :: "syscall \<Rightarrow> syscall \<Rightarrow> bool" where
  "call_frame s s' \<longleftrightarrow> call_head s' = call_head s \<and> map par_sig (sc_pars s') = map par_sig (sc_pars s)
     \<and> map it_val (sc_pars s') = map it_val (sc_pars s)"

lemma call_frame_refl [simp]: "call_frame s s"
  by (simp add: call_frame_def)

lemma call_frame_trans: "call_frame s t \<Longrightarrow> call_frame t u \<Longrightarrow> call_frame s u"
  by (simp add: call_frame_def)

lemma call_frame_length: "call_frame s s' \<Longrightarrow> length (sc_pars s') = length (sc_pars s)"
  unfolding call_frame_def by (metis length_map)

lemma call_frame_defer: "call_frame s s' \<Longrightarrow> map it_defer (sc_pars s') = map it_defer (sc_pars s)"
proof -
  assume "call_frame s s'"
  then have "map (\<lambda>x. fst (snd (snd (snd x)))) (map par_sig (sc_pars s')) =
      map (\<lambda>x. fst (snd (snd (snd x)))) (map par_sig (sc_pars s))"
    by (simp only: call_frame_def)
  then show ?thesis by (simp add: comp_def par_sig_def)
qed

locale call_contract =
  fixes c :: call_class
  assumes process_frame: "call_frame s (snd (cc_process c tv n s))"
    and update_frame: "call_frame s (snd (cc_update c tv n s))"
begin

text \<open>Filling parameter \<open>n\<close> sets its value and leaves the rest of the frame alone.\<close>

lemma item_fill_frame: "call_frame (par_set_val n w s) (snd (item_fill c tv n w s))"
  using process_frame [of "par_set_val n w s" tv n]
  by (simp add: item_fill_def seqE_def bindE_def updE_def askE_def skipE_def ret_def)

lemma par_set_val_sig: "map par_sig (sc_pars (par_set_val n w s)) = map par_sig (sc_pars s)"
  by (cases "n < length (sc_pars s)")
    (simp_all add: par_set_val_def par_sig_def map_update list_update_same_conv list_update_beyond)

lemma item_fill_sig: "map par_sig (sc_pars (snd (item_fill c tv n w s))) = map par_sig (sc_pars s)"
  using item_fill_frame [of n w s tv] par_set_val_sig by (simp add: call_frame_def)

lemma item_fill_head: "call_head (snd (item_fill c tv n w s)) = call_head s"
  using item_fill_frame [of n w s tv] by (simp add: call_frame_def call_head_def par_set_val_def)

lemma item_fill_vals:
  "map it_val (sc_pars (snd (item_fill c tv n w s))) = (map it_val (sc_pars s))[n := w]"
  using item_fill_frame [of n w s tv]
  by (cases "n < length (sc_pars s)") (simp_all add: call_frame_def par_set_val_def map_update)

lemma sig_length: "map par_sig (sc_pars s') = map par_sig (sc_pars s) \<Longrightarrow> length (sc_pars s') = length (sc_pars s)"
  by (metis length_map)

lemma sig_defer:
  assumes "map par_sig (sc_pars s') = map par_sig (sc_pars s)" "i < length (sc_pars s)"
  shows "it_defer (sc_pars s' ! i) = it_defer (sc_pars s ! i)"
proof -
  have "par_sig (sc_pars s' ! i) = par_sig (sc_pars s ! i)"
    using assms by (metis length_map nth_map)
  then show ?thesis by (simp add: par_sig_def)
qed

lemma item_fill_defer:
  "i < length (sc_pars s) \<Longrightarrow> it_defer (sc_pars (snd (item_fill c tv n w s)) ! i) = it_defer (sc_pars s ! i)"
  using sig_defer [OF item_fill_sig] by simp

lemma item_fill_length: "length (sc_pars (snd (item_fill c tv n w s))) = length (sc_pars s)"
  by (rule sig_length [OF item_fill_sig])

text \<open>The first loop fills what is not deferred, in order, and hands on the rest, in order.\<close>

lemma fill_loop_order:
  assumes "ws = drop n args" "n \<le> length (sc_pars s)" "length (sc_pars s) \<le> length args"
  shows "fill_loop c tv ws n ds s =
    (case forE (filter (\<lambda>i. \<not> it_defer (sc_pars s ! i)) [n..<length (sc_pars s)])
            (\<lambda>i. item_fill c tv i (args ! i)) s of
       (Inl e, s') \<Rightarrow> (Inl e, s')
     | (Inr _, s') \<Rightarrow> (Inr (ds @ map (\<lambda>i. (i, args ! i))
         (filter (\<lambda>i. it_defer (sc_pars s ! i)) [n..<length (sc_pars s)])), s'))"
  using assms
proof (induction ws arbitrary: n ds s)
  case Nil
  then have "n = length (sc_pars s)" by simp
  then show ?case by (simp add: prog_defs)
next
  case (Cons w ws)
  have n: "n < length args" "w = args ! n" "ws = drop (Suc n) args"
    using Cons.prems(1) by (metis drop_eq_Nil list.distinct(1) not_le_imp_less nth_via_drop,
      metis nth_via_drop, metis drop_Suc drop_tl list.sel(3))
  show ?case
  proof (cases "n < length (sc_pars s)")
    case False
    then have "n = length (sc_pars s)" using Cons.prems by simp
    then show ?thesis by (simp add: prog_defs)
  next
    case True
    let ?k = "length (sc_pars s)"
    have up: "[n..<?k] = n # [Suc n..<?k]" using True by (simp add: upt_conv_Cons)
    show ?thesis
    proof (cases "it_defer (sc_pars s ! n)")
      case d: True
      have "fill_loop c tv (w # ws) n ds s = fill_loop c tv ws (Suc n) (ds @ [(n, w)]) s"
        using True d by (simp add: prog_defs)
      with Cons.IH [OF n(3), of s "ds @ [(n, w)]"] Cons.prems(3) True show ?thesis
        by (simp add: up d n(2) del: fill_loop.simps split: prod.split sum.split)
    next
      case d: False
      obtain r s' where f: "item_fill c tv n w s = (r, s')" by fastforce
      have s': "length (sc_pars s') = ?k" "\<And>i. i < ?k \<Longrightarrow> it_defer (sc_pars s' ! i) = it_defer (sc_pars s ! i)"
        using item_fill_length [of tv n w s] item_fill_defer [of _ s tv n w] f by simp_all
      have fil: "filter (\<lambda>i. \<not> it_defer (sc_pars s' ! i)) [Suc n..<?k] = filter (\<lambda>i. \<not> it_defer (sc_pars s ! i)) [Suc n..<?k]"
        "filter (\<lambda>i. it_defer (sc_pars s' ! i)) [Suc n..<?k] = filter (\<lambda>i. it_defer (sc_pars s ! i)) [Suc n..<?k]"
        using s'(2) by (auto intro!: filter_cong)
      have A: "fill_loop c tv (w # ws) n ds s = (case r of Inl e \<Rightarrow> (Inl e, s')
          | Inr _ \<Rightarrow> fill_loop c tv ws (Suc n) ds s')"
        using True d f by (cases r) (simp_all add: prog_defs)
      have B: "forE (filter (\<lambda>i. \<not> it_defer (sc_pars s ! i)) [n..<?k]) (\<lambda>i. item_fill c tv i (args ! i)) s =
          (case r of Inl e \<Rightarrow> (Inl e, s') | Inr _ \<Rightarrow>
             forE (filter (\<lambda>i. \<not> it_defer (sc_pars s ! i)) [Suc n..<?k]) (\<lambda>i. item_fill c tv i (args ! i)) s')"
        using f d n by (cases r) (simp_all add: up prog_defs)
      have D: "filter (\<lambda>i. it_defer (sc_pars s ! i)) [n..<?k] = filter (\<lambda>i. it_defer (sc_pars s ! i)) [Suc n..<?k]"
        using d by (simp add: up)
      have C: "fill_loop c tv ws (Suc n) ds s' =
          (case forE (filter (\<lambda>i. \<not> it_defer (sc_pars s ! i)) [Suc n..<?k]) (\<lambda>i. item_fill c tv i (args ! i)) s' of
             (Inl e, s') \<Rightarrow> (Inl e, s')
           | (Inr _, s') \<Rightarrow> (Inr (ds @ map (\<lambda>i. (i, args ! i))
               (filter (\<lambda>i. it_defer (sc_pars s ! i)) [Suc n..<?k])), s'))"
        using Cons.IH [OF n(3), of s' ds] Cons.prems(3) True unfolding s'(1) fil by simp
      show ?thesis
        unfolding A B C D by (cases r) (simp_all del: fill_loop.simps)
    qed
  qed
qed

lemma forE_append: "forE (xs @ ys) f s = seqE (forE xs f) (forE ys f) s"
  by (induction xs arbitrary: s) (auto simp: prog_defs split: prod.splits sum.splits)

lemma forE_map: "forE (map g xs) f = forE xs (\<lambda>x. f (g x))"
  by (induction xs) simp_all

text \<open>
  \<open>fillParameters\<close> is one sweep over the parameters: first those that are not deferred, then the
  deferred ones, each group in the order of the parameters.
\<close>

lemma fillParameters_order:
  assumes "length (sc_pars s) \<le> length (entry_args info)"
  shows "fillParameters c tv info s =
    forE (filter (\<lambda>i. \<not> it_defer (sc_pars s ! i)) [0..<length (sc_pars s)] @
          filter (\<lambda>i. it_defer (sc_pars s ! i)) [0..<length (sc_pars s)])
      (\<lambda>i. item_fill c tv i (entry_args info ! i)) s"
proof -
  let ?nd = "filter (\<lambda>i. \<not> it_defer (sc_pars s ! i)) [0..<length (sc_pars s)]"
  obtain r t where f: "forE ?nd (\<lambda>i. item_fill c tv i (entry_args info ! i)) s = (r, t)" by fastforce
  then have "fill_loop c tv (entry_args info) 0 [] s = (case r of Inl e \<Rightarrow> (Inl e, t)
     | Inr _ \<Rightarrow> (Inr (map (\<lambda>i. (i, entry_args info ! i))
         (filter (\<lambda>i. it_defer (sc_pars s ! i)) [0..<length (sc_pars s)])), t))"
    using fill_loop_order [of "entry_args info" 0 "entry_args info" s tv "[]"] assms
    by (simp split: sum.split)
  with f show ?thesis
    by (cases r) (simp_all add: fillParameters_def forE_append forE_map seqE_def bindE_def)
qed

lemma forE_fill_frame:
  "forE is (\<lambda>i. item_fill c tv i (args ! i)) s = (Inr (), s') \<Longrightarrow>
     call_head s' = call_head s \<and> map par_sig (sc_pars s') = map par_sig (sc_pars s) \<and>
     (\<forall>j<length (sc_pars s). it_val (sc_pars s' ! j) = (if j \<in> set is then args ! j else it_val (sc_pars s ! j)))"
proof (induction "is" arbitrary: s)
  case Nil
  then show ?case by (simp add: prog_defs)
next
  case (Cons i "is")
  obtain r t where f: "item_fill c tv i (args ! i) s = (r, t)" by fastforce
  with Cons.prems have run: "forE is (\<lambda>i. item_fill c tv i (args ! i)) t = (Inr (), s')"
    by (cases r) (simp_all add: prog_defs)
  have t: "call_head t = call_head s" "map par_sig (sc_pars t) = map par_sig (sc_pars s)"
    "map it_val (sc_pars t) = (map it_val (sc_pars s))[i := args ! i]" "length (sc_pars t) = length (sc_pars s)"
    using item_fill_head [of tv i "args ! i" s] item_fill_sig [of tv i "args ! i" s]
      item_fill_vals [of tv i "args ! i" s] item_fill_length [of tv i "args ! i" s] f by simp_all
  have "it_val (sc_pars t ! j) = (if j = i then args ! i else it_val (sc_pars s ! j))"
    if "j < length (sc_pars s)" for j
  proof -
    have "map it_val (sc_pars t) ! j = (map it_val (sc_pars s))[i := args ! i] ! j" using t(3) by simp
    with that t(4) show ?thesis by (simp add: nth_list_update split: if_splits)
  qed
  with Cons.IH [OF run] t(1,2,4) show ?case by simp
qed

lemma fillParameters_values:
  assumes "fillParameters c tv info s = (Inr (), s')" "length (sc_pars s) \<le> length (entry_args info)"
  shows "call_head s' = call_head s \<and> map par_sig (sc_pars s') = map par_sig (sc_pars s) \<and>
    map it_val (sc_pars s') = take (length (sc_pars s)) (entry_args info)"
proof -
  let ?is = "filter (\<lambda>i. \<not> it_defer (sc_pars s ! i)) [0..<length (sc_pars s)] @
          filter (\<lambda>i. it_defer (sc_pars s ! i)) [0..<length (sc_pars s)]"
  have *: "call_head s' = call_head s \<and> map par_sig (sc_pars s') = map par_sig (sc_pars s) \<and>
     (\<forall>j<length (sc_pars s). it_val (sc_pars s' ! j) =
        (if j \<in> set ?is then entry_args info ! j else it_val (sc_pars s ! j)))"
    using assms by (intro forE_fill_frame) (simp add: fillParameters_order)
  then have len: "length (sc_pars s') = length (sc_pars s)" by (metis sig_length)
  have "map it_val (sc_pars s') = take (length (sc_pars s)) (entry_args info)"
    using * len assms(2) by (intro nth_equalityI) auto
  with * show ?thesis by blast
qed

lemma forE_returns:
  "(\<And>x s. \<exists>s'. f x s = (Inr (), s')) \<Longrightarrow> \<exists>s'. forE xs f s = (Inr (), s')"
proof (induction xs arbitrary: s)
  case Nil
  then show ?case by (simp add: prog_defs)
next
  case (Cons x xs)
  then obtain t where "f x s = (Inr (), t)" by blast
  with Cons show ?case by (simp add: prog_defs)
qed

lemma fillParameters_returns:
  assumes "\<And>n s. \<exists>s'. cc_process c tv n s = (Inr (), s')" "length (sc_pars s) \<le> length (entry_args info)"
  shows "\<exists>s'. fillParameters c tv info s = (Inr (), s')"
proof -
  have "\<exists>s'. item_fill c tv n w s = (Inr (), s')" for n w s
    using assms(1) [of n "par_set_val n w s"] by (auto simp: item_fill_def prog_defs)
  then show ?thesis
    unfolding fillParameters_order [OF assms(2)] by (intro forE_returns)
qed

text \<open>On exit no parameter value changes, and the outcome is the one the kernel reported.\<close>

lemma update_loop_frame: "call_frame s (snd (update_loop c tv ns ds s))"
proof (induction ns arbitrary: ds s)
  case Nil
  then show ?case by (simp add: prog_defs)
next
  case (Cons n ns)
  obtain r t where f: "cc_update c tv n s = (r, t)" by fastforce
  then have "call_frame s t" using update_frame [of s tv n] by simp
  then show ?case
    using Cons.IH f by (cases r) (auto simp: prog_defs intro: call_frame_trans)
qed

lemma forE_update_frame: "call_frame s (snd (forE ns (cc_update c tv) s))"
proof (induction ns arbitrary: s)
  case Nil
  then show ?case by (simp add: prog_defs)
next
  case (Cons n ns)
  obtain r t where f: "cc_update c tv n s = (r, t)" by fastforce
  then have "call_frame s t" using update_frame [of s tv n] by simp
  then show ?case
    using Cons.IH [of t] f by (cases r) (auto simp: prog_defs intro: call_frame_trans)
qed

end

text \<open>
  A class that changes its parameter list on entry: \<open>ready\<close> is the shape after
  \<open>prepareNewSystemCall\<close>, \<open>complete\<close> the shape after \<open>check2ndPass\<close>, which is also the shape between
  two calls, because the objects are reused. No shape has more than the six argument words.
\<close>

type_synonym signature = "(item_kind \<times> string \<times> item_type \<times> bool \<times> bool) list"

definition signature :: "syscall \<Rightarrow> signature" where
  "signature s = map par_sig (sc_pars s)"

locale call_protocol = call_contract c for c :: call_class +
  fixes ready :: "signature \<Rightarrow> bool"
    and complete :: "signature \<Rightarrow> bool"
  assumes init: "complete (map par_sig (cc_pars c nr))"
    and prepare: "complete (signature s) \<Longrightarrow> cc_prepare c s = (Inr (), s') \<Longrightarrow>
      ready (signature s') \<and> call_head s' = call_head s"
    and second: "ready (signature s) \<Longrightarrow> cc_2nd c tv s = (Inr again, s') \<Longrightarrow>
      complete (signature s') \<and> call_head s' = call_head s \<and> (again \<or> sc_pars s' = sc_pars s)"
    and post: "call_frame s (snd (cc_post c tv s))"
    and small: "ready l \<or> complete l \<Longrightarrow> length l \<le> 6"
begin

lemma signature_length: "length (signature s) = length (sc_pars s)"
  by (simp add: signature_def)

lemma fill_ready:
  assumes "fillParameters c tv info s = (Inr (), s')" "length (entry_args info) = 6"
    and "ready (signature s) \<or> complete (signature s)"
  shows "signature s' = signature s" "call_head s' = call_head s"
    and "map it_val (sc_pars s') = take (length (sc_pars s')) (entry_args info)"
proof -
  have "length (sc_pars s) \<le> length (entry_args info)"
    using small [OF assms(3)] assms(2) by (simp add: signature_length)
  from fillParameters_values [OF assms(1) this]
  have *: "call_head s' = call_head s" "map par_sig (sc_pars s') = map par_sig (sc_pars s)"
    "map it_val (sc_pars s') = take (length (sc_pars s)) (entry_args info)" by auto
  then show "signature s' = signature s" "call_head s' = call_head s" by (simp_all add: signature_def)
  then show "map it_val (sc_pars s') = take (length (sc_pars s')) (entry_args info)"
    using *(3) signature_length by metis
qed

text \<open>
  A successful \<open>setEntryInfo\<close>: every parameter holds its argument word, the call shows the error
  \<open>ENODATA\<close> and the ABI of this call, and the object is fit for reuse.
\<close>

lemma setEntryInfo_result:
  assumes "setEntryInfo c tv info s = (Inr (), s')" "length (entry_args info) = 6"
    and "complete (signature s)"
  shows "complete (signature s') \<and>
    map it_val (sc_pars s') = take (length (sc_pars s')) (entry_args info) \<and>
    sc_error s' = Some (ErrnoResult ENODATA) \<and> sc_abi s' = si_abi info \<and> sc_nr s' = sc_nr s \<and>
    sc_class s' = sc_class s \<and> sc_info s' = None"
proof -
  let ?s0 = "s\<lparr>sc_abi := si_abi info, sc_error := Some (ErrnoResult ENODATA), sc_info := Some info\<rparr>"
  obtain s1 s2 s3 s4 again where
    run: "cc_prepare c ?s0 = (Inr (), s1)" "fillParameters c tv info s1 = (Inr (), s2)"
      "cc_2nd c tv s2 = (Inr again, s3)"
      "(if again then fillParameters c tv info else skipE) s3 = (Inr (), s4)"
      "s' = s4\<lparr>sc_info := None\<rparr>"
    using assms(1)
    by (auto simp: setEntryInfo_def seqsE.simps seqE_def bindE_def updE_def skipE_def ret_def
        split: prod.splits sum.splits)
  have p: "ready (signature s1)" "call_head s1 = call_head ?s0"
    using prepare [OF _ run(1)] assms(3) by (auto simp: signature_def)
  have f: "signature s2 = signature s1" "call_head s2 = call_head s1"
    "map it_val (sc_pars s2) = take (length (sc_pars s2)) (entry_args info)"
    using fill_ready [OF run(2) assms(2)] p(1) by auto
  have c2: "complete (signature s3)" "call_head s3 = call_head s2" "again \<or> sc_pars s3 = sc_pars s2"
    using second [OF _ run(3)] p(1) f(1) by auto
  have "complete (signature s4) \<and> call_head s4 = call_head s3 \<and>
      map it_val (sc_pars s4) = take (length (sc_pars s4)) (entry_args info)"
  proof (cases again)
    case True
    then have "fillParameters c tv info s3 = (Inr (), s4)" using run(4) by simp
    from fill_ready [OF this assms(2)] c2 show ?thesis by simp
  next
    case False
    then show ?thesis using run(4) c2 f by (simp add: skipE_def ret_def)
  qed
  with c2 f p show ?thesis unfolding run(5)
    by (simp add: call_head_def signature_def)
qed

lemma call_frame_signature: "call_frame s s' \<Longrightarrow> signature s' = signature s"
  by (simp add: call_frame_def signature_def)

text \<open>
  A \<open>setExitInfo\<close> without error: parameters and values are those of the entry, and the outcome is
  a value or an error as the kernel reported it, never both.
\<close>

lemma setExitInfo_frame:
  assumes "setExitInfo_pars c tv exit info s = (Inr (), s')"
  shows "call_frame (s\<lparr>sc_info := Some info, sc_error := (case exit of ExitValue _ \<Rightarrow> None
       | ExitError e \<Rightarrow> Some (ErrnoResult e)), sc_return := (case exit of ExitValue v \<Rightarrow> v | ExitError _ \<Rightarrow> 0)\<rparr>) s'"
proof -
  let ?s1 = "s\<lparr>sc_info := Some info, sc_error := (case exit of ExitValue _ \<Rightarrow> None
       | ExitError e \<Rightarrow> Some (ErrnoResult e)), sc_return := (case exit of ExitValue v \<Rightarrow> v | ExitError _ \<Rightarrow> 0)\<rparr>"
  have upd: "(case exit of ExitValue v \<Rightarrow> (s\<lparr>sc_info := Some info\<rparr>)\<lparr>sc_error := None, sc_return := v\<rparr>
       | ExitError e \<Rightarrow> (s\<lparr>sc_info := Some info\<rparr>)\<lparr>sc_error := Some (ErrnoResult e), sc_return := 0\<rparr>) = ?s1"
    by (cases exit) simp_all
  obtain ds s2 s3 where run:
      "update_loop c tv [0..<length (sc_pars ?s1)] [] ?s1 = (Inr ds, s2)"
      "forE ds (cc_update c tv) s2 = (Inr (), s3)" "cc_post c tv s3 = (Inr (), s')"
    using assms unfolding setExitInfo_pars_def
    by (auto simp: upd seqsE.simps seqE_def bindE_def updE_def askE_def skipE_def ret_def
        split: prod.splits sum.splits)
  have a: "call_frame ?s1 s2" using update_loop_frame [of ?s1 tv _ "[]"] run(1) by (metis snd_conv)
  have b: "call_frame s2 s3" using forE_update_frame [of s2 ds tv] run(2) by simp
  have c: "call_frame s3 s'" using post [of s3 tv] run(3) by simp
  show ?thesis by (rule call_frame_trans [OF call_frame_trans [OF a b] c])
qed

lemma setExitInfo_result:
  assumes "setExitInfo c tv info (s, fds) = (Inr (), (s', fds'))" "si_kind info = InfoExit exit"
  shows "signature s' = signature s \<and> map it_val (sc_pars s') = map it_val (sc_pars s) \<and>
    sc_nr s' = sc_nr s \<and> sc_class s' = sc_class s \<and> sc_abi s' = sc_abi s \<and>
    (case exit of ExitValue v \<Rightarrow> hasResultValue s' \<and> sc_return s' = v
     | ExitError e \<Rightarrow> sc_error s' = Some (ErrnoResult e) \<and> fds' = fds)"
proof -
  obtain t where t: "setExitInfo_pars c tv exit info s = (Inr (), t)" "s' = t\<lparr>sc_info := None\<rparr>"
    and fds: "\<exists>e. exit = ExitError e \<Longrightarrow> fds' = fds"
    using assms by (auto simp: setExitInfo_def split: prod.splits sum.splits exit_info.splits)
  from setExitInfo_frame [OF t(1)] fds show ?thesis
    by (cases exit) (auto simp: t(2) call_frame_def call_head_def signature_def hasResultValue_def)
qed

end

section \<open>Classes without methods of their own\<close>

text \<open>
  The methods that \<open>SystemCall\<close> itself provides satisfy the protocol with any parameter list of at
  most six; this covers every class that only declares parameters and a return value.
\<close>

interpretation base: call_protocol base_class "\<lambda>l. length l \<le> 6" "\<lambda>l. length l \<le> 6"
  by unfold_locales (auto simp: base_class_def prog_defs)

lemma base_methods [simp]:
  "cc_process base_class = (\<lambda>_ _. skipE)" "cc_update base_class = (\<lambda>_ _. skipE)"
  "cc_prepare base_class = skipE" "cc_2nd base_class = (\<lambda>_. ret False)"
  "cc_post base_class = (\<lambda>_. skipE)" "cc_fdtrack base_class = (\<lambda>_ _. skipE)"
  by (simp_all add: base_class_def)

lemma base_entry_returns:
  assumes "isEntry info" "length (sc_pars s) \<le> 6"
  shows "\<exists>s'. setEntryInfo base_class tv info s = (Inr (), s') \<and> length (sc_pars s') \<le> 6"
proof -
  let ?s0 = "s\<lparr>sc_abi := si_abi info, sc_error := Some (ErrnoResult ENODATA), sc_info := Some info\<rparr>"
  obtain s1 where f: "fillParameters base_class tv info ?s0 = (Inr (), s1)"
    using base.fillParameters_returns [of tv ?s0 info] assms by (auto simp: prog_defs)
  have "map par_sig (sc_pars s1) = map par_sig (sc_pars ?s0)"
    using base.fillParameters_values [OF f] assms by simp
  then have "length (sc_pars s1) = length (sc_pars s)"
    using base.sig_length [of s1 ?s0] by simp
  then show ?thesis
    using f assms by (simp add: setEntryInfo_def prog_defs)
qed

lemma base_exit_returns:
  assumes "isExit info" "length (sc_pars s) \<le> 6"
  shows "\<exists>s'. setExitInfo base_class tv info (s, fds) = (Inr (), (s', fds)) \<and> length (sc_pars s') \<le> 6"
proof -
  obtain exit where k: "si_kind info = InfoExit exit"
    using assms(1) by (auto split: info_kind.splits)
  let ?s1 = "case exit of ExitValue v \<Rightarrow> (s\<lparr>sc_info := Some info\<rparr>)\<lparr>sc_error := None, sc_return := v\<rparr>
       | ExitError e \<Rightarrow> (s\<lparr>sc_info := Some info\<rparr>)\<lparr>sc_error := Some (ErrnoResult e), sc_return := 0\<rparr>"
  have "\<exists>r. update_loop base_class tv ns ds t = (Inr r, t)" for ns ds t
    by (induction ns arbitrary: ds) (auto simp: prog_defs)
  then obtain r where "update_loop base_class tv [0..<length (sc_pars ?s1)] [] ?s1 = (Inr r, ?s1)" by blast
  moreover have "forE ds (\<lambda>_. skipE) t = (Inr (), t)" for ds :: "nat list" and t :: syscall
    by (induction ds) (simp_all add: prog_defs)
  ultimately have "setExitInfo_pars base_class tv exit info s = (Inr (), ?s1)"
    by (cases exit) (simp_all add: setExitInfo_pars_def prog_defs)
  moreover have "length (sc_pars ?s1) = length (sc_pars s)" by (cases exit) simp_all
  ultimately show ?thesis using assms(2) k
    by (cases exit) (simp_all add: setExitInfo_def prog_defs)
qed

section \<open>The cache returns what it created\<close>

lemma SystemCallDB_get_cached:
  "smap_find db (si_generic info) = Some r \<Longrightarrow> SystemCallDB_get F tv info (db, st) = (Inr r, (db, st))"
  by (simp add: SystemCallDB_get_def)

text \<open>Every cached object belongs to the number it is cached under.\<close>

definition db_ok :: "syscall_db \<Rightarrow> call_store \<Rightarrow> bool" where
  "db_ok db st \<longleftrightarrow> smap_wf db \<and> smap.all_entries (\<lambda>nr r. r < cs_next st) db"

lemma SystemCallDB_get_fresh:
  assumes "smap_find db (si_generic info) = None" "create_syscall F tv info = Inr (s, do_cache)"
  shows "SystemCallDB_get F tv info (db, st) = (Inr (cs_next st),
     (if do_cache then smap_put (si_generic info) (cs_next st) db else db, snd (store_new s st)))"
  using assms by (simp add: SystemCallDB_get_def store_new_def smap.insert_new)

lemma all_entries_mono:
  "smap.all_entries P m \<Longrightarrow> (\<And>k v. P k v \<Longrightarrow> Q k v) \<Longrightarrow> smap.all_entries Q m"
  by (auto simp: smap.all_entries_def)

lemma SystemCallDB_get_ok:
  assumes "db_ok db st" "SystemCallDB_get F tv info (db, st) = (Inr r, (db', st'))"
  shows "db_ok db' st' \<and> r < cs_next st' \<and> cs_next st \<le> cs_next st'"
proof (cases "smap_find db (si_generic info)")
  case None
  then obtain s do_cache where c: "create_syscall F tv info = Inr (s, do_cache)"
    using assms(2) by (auto simp: SystemCallDB_get_def split: sum.splits prod.splits)
  with assms None show ?thesis
    by (auto simp: SystemCallDB_get_fresh db_ok_def store_new_def smap.wf_put
        intro!: smap.all_entries_put elim!: all_entries_mono split: if_splits)
next
  case (Some q)
  then show ?thesis using assms by (auto simp: SystemCallDB_get_def db_ok_def dest: smap.all_entriesD)
qed

text \<open>the cache: asking again for a system call of a number that is not multiplexed yields
  the same object, and creates nothing; a multiplexed call (prctl, socketcall and the socket option
  calls) gets a new object each time, and the cache stays as it is.\<close>

theorem SystemCallDB_get_twice:
  assumes "SystemCallDB_get F tv info (db, st) = (Inr r, (db', st'))"
    and "smap_find db (si_generic info) = None"
  shows "(case factory_of F (si_generic info) of
     New _ \<Rightarrow> \<forall>tv' info'. si_generic info' = si_generic info \<longrightarrow>
        SystemCallDB_get F tv' info' (db', st') = (Inr r, (db', st'))
   | Multi _ \<Rightarrow> db' = db \<and> r = cs_next st \<and>
        (\<forall>tv' info' r' q. SystemCallDB_get F tv' info (db', st') = (Inr r', q) \<longrightarrow> r' \<noteq> r))"
proof -
  obtain s do_cache where c: "create_syscall F tv info = Inr (s, do_cache)"
    using assms by (auto simp: SystemCallDB_get_def split: sum.splits prod.splits)
  from assms(1) SystemCallDB_get_fresh [OF assms(2) c, of st]
  have r: "r = cs_next st" "st' = snd (store_new s st)"
    "db' = (if do_cache then smap_put (si_generic info) (cs_next st) db else db)" by auto
  show ?thesis
  proof (cases "factory_of F (si_generic info)")
    case (New cls)
    then have "do_cache" using c by (simp add: create_syscall_def)
    then show ?thesis using New r by (simp add: SystemCallDB_get_cached)
  next
    case (Multi f)
    then have "\<not> do_cache" using c by (auto simp: create_syscall_def split: sum.splits)
    then show ?thesis using Multi r assms(2)
      by (auto simp: SystemCallDB_get_def create_syscall_def store_new_def Let_def split: sum.splits)
  qed
qed

definition plain_family :: class_family where
  "plain_family = \<lparr>cf_class = (\<lambda>_. base_class), cf_multi = (\<lambda>f _ _. Inr f), cf_have_arch_prctl = True\<rparr>"

definition demo_info :: "sysnr \<Rightarrow> sysinfo" where
  "demo_info nr = \<lparr>si_kind = InfoEntry 0 (Six 1 2 3 4 5 6), si_arch = Arch_X86_64, si_isX32 = False,
     si_generic = nr, si_native = NrX64 0, si_abi = ABI_X86_64\<rparr>"

definition demo_store :: call_store where
  "demo_store = \<lparr>cs_next = 7, cs_call = (\<lambda>_. new_call plain_family ''NotImplementedSystemCall'' 0)\<rparr>"

lemma si_generic_demo [simp]: "si_generic (demo_info nr) = nr" "length (entry_args (demo_info nr)) = 6"
    "si_abi (demo_info nr) = ABI_X86_64"
  by (simp_all add: demo_info_def entry_args_def)

definition arch_x86_64 :: arch_flags where
  "arch_x86_64 = \<lparr>arch_X86_64 = True, arch_I386 = False, arch_X32 = False, arch_AARCH64 = False\<rparr>"

definition demo_view :: tview where
  "demo_view = \<lparr>tv_pid = 100, tv_peek = demo_peek, tv_arch = arch_x86_64, tv_prefetch = 128,
     tv_text = \<lparr>tl_split = (\<lambda>s _ _ _. [s]), tl_stripped = (\<lambda>s _. s)\<rparr>, tv_proc = demo_proc,
     tv_sizeof = (\<lambda>_. 16), tv_alloc = (\<lambda>n. n < 2 ^ 30)\<rparr>"

definition demo_cached :: "syscall_db \<times> call_store" where
  "demo_cached = ([(SYS_CLOSE, 7)],
     snd (store_new (new_call plain_family ''CloseSystemCall'' SYS_CLOSE) demo_store))"

lemma demo_get: "SystemCallDB_get plain_family demo_view (demo_info SYS_CLOSE) ([], demo_store) =
    (Inr 7, demo_cached)"
proof -
  have "factory_of plain_family SYS_CLOSE = New ''CloseSystemCall''" by code_simp
  then show ?thesis
    by (simp add: SystemCallDB_get_def create_syscall_def store_new_def demo_cached_def
        demo_store_def smap.insert_new)
qed

theorem SystemCallDB_get_twice_witness:
  "SystemCallDB_get plain_family demo_view (demo_info SYS_CLOSE) demo_cached = (Inr 7, demo_cached)"
proof -
  have "factory_of plain_family SYS_CLOSE = New ''CloseSystemCall''" by code_simp
  with SystemCallDB_get_twice [OF demo_get [unfolded demo_cached_def]] show ?thesis
    by (simp add: demo_cached_def)
qed

end
