(* ===== verification/Tracee_Core.thy ===== *)
theory Tracee_Core
  imports System_Call
begin

text \<open>
  The state of the tracer and the operations of a tracee that do not depend on the event being
  handled (include/Tracee.hxx, include/Engine.hxx, src/Tracee.cxx): state changes, attaching,
  detaching, error handling.

  The tracer talks to the kernel and to its client. Both are parameters (\<open>env\<close>): every request to
  the kernel is appended to \<open>w_reqs\<close> and the kernel's answers are functions of that history, so an
  answer may change from one request to the next; every callback is appended to \<open>w_log\<close>, and the
  client is the decision whether it calls \<open>detach()\<close> from within that callback. Shared pointers are
  references into stores: tracee objects, process data objects and system call objects.
\<close>

section \<open>States, flags, events\<close>

type_synonym pid = int
type_synonym signal = nat

abbreviation (input) PID_INVALID :: pid where "PID_INVALID \<equiv> - 1"
abbreviation (input) SIG_TRAP :: signal where "SIG_TRAP \<equiv> 5"
abbreviation (input) SIG_KILL :: signal where "SIG_KILL \<equiv> 9"
abbreviation (input) SIG_CONT :: signal where "SIG_CONT \<equiv> 18"
abbreviation (input) SIG_STOP :: signal where "SIG_STOP \<equiv> 19"

definition STOPPING_SIGNALS :: "signal list" where
  "STOPPING_SIGNALS = [19, 20, 21, 22]"

datatype tstate =
    TS_UNKNOWN | RUNNING | SYSCALL_ENTER_STOP | SYSCALL_EXIT_STOP | SIGNAL_DELIVERY_STOP
  | GROUP_STOP | EVENT_STOP | DEAD | DETACHED

record tflags =
  WAIT_FOR_ATTACH_STOP :: bool
  DETACH_AT_NEXT_STOP :: bool
  INJECTED_SIGSTOP :: bool
  INJECTED_SIGCONT :: bool
  SYSCALL_ENTERED :: bool
  WAIT_FOR_EXITED :: bool
  ATTACH_THREADS_PENDING :: bool
  SEEN_SIGRETURN :: bool

definition no_flags :: tflags where
  "no_flags = \<lparr>WAIT_FOR_ATTACH_STOP = False, DETACH_AT_NEXT_STOP = False,
     INJECTED_SIGSTOP = False, INJECTED_SIGCONT = False, SYSCALL_ENTERED = False,
     WAIT_FOR_EXITED = False, ATTACH_THREADS_PENDING = False, SEEN_SIGRETURN = False\<rparr>"

datatype restart_mode = CONT | SYSCALL | LISTEN

datatype ptrace_event =
  Ev_FORK | Ev_VFORK | Ev_CLONE | Ev_EXEC | Ev_VFORK_DONE | Ev_EXIT | Ev_SECCOMP | Ev_STOP
  | Ev_other nat

text \<open>
  A trap signal: \<open>SIGTRAP | 0x80\<close>, a ptrace event stop (decoded into signal and event), or a signal
  delivery stop.
\<close>

datatype stop_signal = SysTrap | EventStop signal ptrace_event | Plain signal

datatype child_change =
    Exited int | Killed signal | Dumped signal | Trapped stop_signal | Signaled signal | OtherChange

record child_state =
  ch_pid :: pid
  ch_change :: child_change

datatype wait_status = WExited int | WSignaled signal

datatype tracee_kind = ChildTracee | ForeignTracee | AutoAttachedTracee

text \<open>A register set: its ABI, the system call number and the parameters in it.\<close>

record regset =
  rs_abi :: abi
  rs_nr :: nat
  rs_pars :: "word64 list"

record process_data =
  pd_exe :: string
  pd_cmdline :: "string list"
  pd_fds :: fd_map

type_synonym tref = nat
type_synonym pdref = nat

record tracee =
  t_kind :: tracee_kind
  t_state :: tstate
  t_prev :: tstate
  t_flags :: tflags
  t_pid :: pid
  t_follow :: bool
  t_info :: "sysinfo option"
  t_db :: syscall_db
  t_current :: "callref option"
  t_interrupted :: "callref option"
  t_mode :: restart_mode
  t_inject :: "signal option"
  t_exit :: "child_state option"
  t_attacher :: "pid option"
  t_ctr :: nat
  t_regs :: regset
  t_stop_signal :: "signal option"
  t_pdata :: pdref
  t_child_running :: bool
  t_child_pid :: pid

definition new_tracee :: "tracee_kind \<Rightarrow> pdref \<Rightarrow> tracee" where
  "new_tracee k pd = \<lparr>t_kind = k, t_state = TS_UNKNOWN, t_prev = TS_UNKNOWN, t_flags = no_flags,
     t_pid = PID_INVALID, t_follow = False, t_info = None, t_db = [], t_current = None,
     t_interrupted = None, t_mode = CONT, t_inject = None, t_exit = None, t_attacher = None,
     t_ctr = 0, t_regs = \<lparr>rs_abi = ABI_UNKNOWN, rs_nr = 0, rs_pars = []\<rparr>, t_stop_signal = None,
     t_pdata = pd, t_child_running = False, t_child_pid = PID_INVALID\<rparr>"

definition isChildProcess :: "tracee \<Rightarrow> bool" where
  "isChildProcess t \<longleftrightarrow> t_kind t = ChildTracee"

definition alive :: "tracee \<Rightarrow> bool" where
  "alive t \<longleftrightarrow> t_pid t \<noteq> PID_INVALID"

definition getStateLabel :: "tstate \<Rightarrow> string" where
  "getStateLabel s = (case s of
     TS_UNKNOWN \<Rightarrow> ''UNKNOWN'' | RUNNING \<Rightarrow> ''RUNNING''
   | SYSCALL_ENTER_STOP \<Rightarrow> ''SYSCALL_ENTER_STOP'' | SYSCALL_EXIT_STOP \<Rightarrow> ''SYSCALL_EXIT_STOP''
   | SIGNAL_DELIVERY_STOP \<Rightarrow> ''SIGNAL_DELIVERY_STOP'' | GROUP_STOP \<Rightarrow> ''GROUP_STOP''
   | EVENT_STOP \<Rightarrow> ''EVENT_STOP'' | DEAD \<Rightarrow> ''DEAD'' | DETACHED \<Rightarrow> ''DETACHED'')"

section \<open>Requests and callbacks\<close>

datatype request =
    Seize pid bool
  | Interrupt pid
  | Detach pid
  | Restart pid restart_mode "signal option"
  | GetSyscallInfo pid
  | GetSigInfo pid
  | GetPIDEventMsg pid
  | GetExitEventMsg pid
  | GetRegisterSet pid abi
  | SendSignal pid signal
  | WaitChild pid
  | Spawn "string list"
  | WaitStopped pid
  | OpenTaskDir pid
  | Wait

datatype status_flag = INTERRUPTED | RESUMED | LOST_TO_MT_EXIT | ABI_CHANGED | CLONED_THREAD

datatype callback =
    SyscallEntry tref callref "status_flag set"
  | SyscallExit tref callref "status_flag set"
  | Attached tref
  | SignaledCb tref signal
  | Stopped tref
  | Resumed tref
  | ExitedCb tref wait_status "status_flag set"
  | Disappeared tref child_state
  | NewExecutionContext tref string "string list" "pid option"
  | NewChildProcess tref tref ptrace_event "status_flag set"
  | VforkComplete tref "tref option"

text \<open>The tracee that a client may detach from in a callback: the one the callback is about.\<close>

fun cb_subject :: "callback \<Rightarrow> tref" where
  "cb_subject (SyscallEntry r _ _) = r"
| "cb_subject (SyscallExit r _ _) = r"
| "cb_subject (Attached r) = r"
| "cb_subject (SignaledCb r _) = r"
| "cb_subject (Stopped r) = r"
| "cb_subject (Resumed r) = r"
| "cb_subject (ExitedCb r _ _) = r"
| "cb_subject (Disappeared r _) = r"
| "cb_subject (NewExecutionContext r _ _ _) = r"
| "cb_subject (NewChildProcess _ child _ _) = child"
| "cb_subject (VforkComplete r _) = r"

text \<open>
  \<open>k_fail h q\<close> is the exception that request \<open>q\<close> raises after the requests \<open>h\<close>, if it fails; the
  other fields are the data a successful request returns, and what the proc file system shows.
\<close>

record kernel =
  k_fail :: "request list \<Rightarrow> request \<Rightarrow> exn option"
  k_syscall_info :: "request list \<Rightarrow> pid \<Rightarrow> sysinfo"
  k_siginfo :: "request list \<Rightarrow> pid \<Rightarrow> signal"
  k_pid_msg :: "request list \<Rightarrow> pid \<Rightarrow> pid"
  k_exit_msg :: "request list \<Rightarrow> pid \<Rightarrow> wait_status"
  k_regs :: "request list \<Rightarrow> pid \<Rightarrow> abi \<Rightarrow> regset"
  k_spawned :: "request list \<Rightarrow> pid"
  k_which :: "request list \<Rightarrow> string \<Rightarrow> bool"
  k_tasks :: "request list \<Rightarrow> pid \<Rightarrow> pid list"
  k_wait :: "request list \<Rightarrow> child_state"
  k_exe :: "request list \<Rightarrow> pid \<Rightarrow> exn + string"
  k_cmdline :: "request list \<Rightarrow> pid \<Rightarrow> string list option"
  k_view :: "request list \<Rightarrow> pid \<Rightarrow> tview"

record env =
  e_kernel :: kernel
  e_client :: "callback list \<Rightarrow> callback \<Rightarrow> bool"
  e_family :: class_family
  e_arch :: arch_flags
  e_isX32 :: "nat \<Rightarrow> bool"

record world =
  w_tracees :: "(pid, tref) smap"
  w_unknown :: "(pid, child_state) smap"
  w_newpid :: pid
  w_tracee :: "tref \<Rightarrow> tracee"
  w_next_tracee :: tref
  w_pdata :: "pdref \<Rightarrow> process_data"
  w_next_pdata :: pdref
  w_calls :: call_store
  w_reqs :: "request list"
  w_log :: "callback list"

section \<open>Primitives\<close>

definition getT :: "tref \<Rightarrow> (world, tracee) prog" where
  "getT r = askE (\<lambda>w. w_tracee w r)"

definition modT :: "tref \<Rightarrow> (tracee \<Rightarrow> tracee) \<Rightarrow> (world, unit) prog" where
  "modT r f = updE (\<lambda>w. w\<lparr>w_tracee := (w_tracee w)(r := f (w_tracee w r))\<rparr>)"

definition modFlags :: "tref \<Rightarrow> (tflags \<Rightarrow> tflags) \<Rightarrow> (world, unit) prog" where
  "modFlags r f = modT r (\<lambda>t. t\<lparr>t_flags := f (t_flags t)\<rparr>)"

definition modPD :: "tref \<Rightarrow> (process_data \<Rightarrow> process_data) \<Rightarrow> (world, unit) prog" where
  "modPD r f = updE (\<lambda>w. let d = t_pdata (w_tracee w r)
     in w\<lparr>w_pdata := (w_pdata w)(d := f (w_pdata w d))\<rparr>)"

definition getPD :: "tref \<Rightarrow> (world, process_data) prog" where
  "getPD r = askE (\<lambda>w. w_pdata w (t_pdata (w_tracee w r)))"

definition reqE :: "env \<Rightarrow> request \<Rightarrow> (world, unit) prog" where
  "reqE E q = (\<lambda>w. (case k_fail (e_kernel E) (w_reqs w) q of None \<Rightarrow> Inr () | Some e \<Rightarrow> Inl e,
     w\<lparr>w_reqs := w_reqs w @ [q]\<rparr>))"

definition answerE :: "(request list \<Rightarrow> 'a) \<Rightarrow> (world, 'a) prog" where
  "answerE f = askE (\<lambda>w. f (w_reqs w))"

section \<open>Changing the state\<close>

text \<open>\<open>ChildTracee::cleanupChild\<close>.\<close>

definition cleanupChild :: "env \<Rightarrow> tref \<Rightarrow> (world, unit) prog" where
  "cleanupChild E r = bindE (getT r) (\<lambda>t.
     if t_child_running t
     then catchE is_ApiError
       (seqE (reqE E (WaitChild (t_child_pid t))) (modT r (\<lambda>t. t\<lparr>t_child_running := False\<rparr>)))
       (\<lambda>e. if e \<noteq> ApiError ECHILD then raise e else skipE)
     else skipE)"

text \<open>What \<open>changeState\<close> does to the object itself.\<close>

definition stateChange :: "tstate \<Rightarrow> tracee \<Rightarrow> tracee" where
  "stateChange new t =
     (let t = (if new = SYSCALL_ENTER_STOP then t\<lparr>t_flags := (t_flags t)\<lparr>SYSCALL_ENTERED := True\<rparr>\<rparr>
          else if new = SYSCALL_EXIT_STOP then t\<lparr>t_flags := (t_flags t)\<lparr>SYSCALL_ENTERED := False\<rparr>\<rparr>
          else if new = GROUP_STOP
          then if INJECTED_SIGSTOP (t_flags t)
               then t\<lparr>t_flags := (t_flags t)\<lparr>INJECTED_SIGSTOP := False\<rparr>, t_mode := SYSCALL\<rparr>
               else t\<lparr>t_mode := LISTEN\<rparr>
          else if new = DETACHED
          then t\<lparr>t_flags := (t_flags t)\<lparr>DETACH_AT_NEXT_STOP := False\<rparr>\<rparr>
          else t);
        t = (if t_state t \<noteq> RUNNING then t\<lparr>t_prev := t_state t\<rparr> else t);
        t = (if t_prev t = GROUP_STOP \<and> t_state t \<noteq> GROUP_STOP then t\<lparr>t_stop_signal := None\<rparr> else t)
      in t\<lparr>t_state := new\<rparr>)"

definition changeState :: "env \<Rightarrow> tref \<Rightarrow> tstate \<Rightarrow> (world, unit) prog" where
  "changeState E r new = seqE
     (bindE (getT r) (\<lambda>t. if new = DEAD \<and> isChildProcess t then cleanupChild E r else skipE))
     (modT r (stateChange new))"

section \<open>Detaching\<close>

definition handleError :: "env \<Rightarrow> tref \<Rightarrow> exn \<Rightarrow> (world, unit) prog" where
  "handleError E r e =
     (if e = ApiError ESRCH then changeState E r DEAD
      else seqE (modT r (\<lambda>t. t\<lparr>t_pid := PID_INVALID\<rparr>)) (raise e))"

definition doDetach :: "env \<Rightarrow> tref \<Rightarrow> (world, unit) prog" where
  "doDetach E r = seqE
     (catchE is_ApiError
       (bindE (getT r) (\<lambda>t. seqE (reqE E (Detach (t_pid t))) (changeState E r DETACHED)))
       (handleError E r))
     (modT r (\<lambda>t. t\<lparr>t_pid := PID_INVALID, t_flags := no_flags, t_attacher := None\<rparr>))"

definition detach :: "env \<Rightarrow> tref \<Rightarrow> (world, bool) prog" where
  "detach E r = bindE (getT r) (\<lambda>t.
     if t_pid t = PID_INVALID then ret True
     else if t_state t = DEAD \<or> t_state t = DETACHED then ret True
     else if t_state t \<noteq> RUNNING \<and> t_state t \<noteq> TS_UNKNOWN
     then seqE (doDetach E r) (ret True)
     else seqE (modFlags r (\<lambda>f. f\<lparr>DETACH_AT_NEXT_STOP := True\<rparr>))
       (seqE (if \<not> WAIT_FOR_ATTACH_STOP (t_flags t)
              then catchE is_ApiError (reqE E (Interrupt (t_pid t))) (handleError E r)
              else skipE)
         (ret False)))"

text \<open>A callback, and the client's choice to detach from its tracee while it is in it.\<close>

definition callbackE :: "env \<Rightarrow> callback \<Rightarrow> (world, unit) prog" where
  "callbackE E cb = bindE (askE (\<lambda>w. e_client E (w_log w) cb)) (\<lambda>wants.
     seqE (updE (\<lambda>w. w\<lparr>w_log := w_log w @ [cb]\<rparr>))
       (if wants then bindE (detach E (cb_subject cb)) (\<lambda>_. skipE) else skipE))"

section \<open>Attaching\<close>

definition updateExecutable :: "env \<Rightarrow> tref \<Rightarrow> (world, unit) prog" where
  "updateExecutable E r = bindE (getT r) (\<lambda>t.
     bindE (answerE (\<lambda>h. k_exe (e_kernel E) h (t_pid t))) (\<lambda>res. case res of
         Inr exe \<Rightarrow> modPD r (\<lambda>d. d\<lparr>pd_exe := exe\<rparr>)
       | Inl e \<Rightarrow> if is_ApiError e then modPD r (\<lambda>d. d\<lparr>pd_exe := []\<rparr>) else raise e))"

definition updateCmdLine :: "env \<Rightarrow> tref \<Rightarrow> (world, unit) prog" where
  "updateCmdLine E r = bindE (getT r) (\<lambda>t. seqE (modPD r (\<lambda>d. d\<lparr>pd_cmdline := []\<rparr>))
     (bindE (answerE (\<lambda>h. k_cmdline (e_kernel E) h (t_pid t))) (\<lambda>res. case res of
         None \<Rightarrow> skipE
       | Some args \<Rightarrow> modPD r (\<lambda>d. d\<lparr>pd_cmdline := pd_cmdline d @ args\<rparr>))))"

definition updateExecInfo :: "env \<Rightarrow> tref \<Rightarrow> (world, unit) prog" where
  "updateExecInfo E r = seqE (updateExecutable E r) (updateCmdLine E r)"

definition attach :: "env \<Rightarrow> tref \<Rightarrow> bool \<Rightarrow> bool \<Rightarrow> (world, unit) prog" where
  "attach E r follow_children attach_threads = bindE (getT r) (\<lambda>t. seqsE [
     modT r (\<lambda>t. t\<lparr>t_follow := follow_children\<rparr>),
     catchE is_std_exception (reqE E (Seize (t_pid t) follow_children))
       (\<lambda>e. seqE (if \<not> isChildProcess t then changeState E r DEAD else skipE) (raise e)),
     updateExecutable E r,
     updateCmdLine E r,
     reqE E (Interrupt (t_pid t)),
     modFlags r (\<lambda>f. f\<lparr>WAIT_FOR_ATTACH_STOP := True\<rparr>),
     (if INJECTED_SIGSTOP (t_flags t)
      then seqE (reqE E (SendSignal (t_pid t) SIG_CONT)) (modFlags r (\<lambda>f. f\<lparr>INJECTED_SIGCONT := True\<rparr>))
      else skipE),
     (if attach_threads then modFlags r (\<lambda>f. f\<lparr>ATTACH_THREADS_PENDING := True\<rparr>) else skipE)])"

text \<open>New objects.\<close>

definition newPD :: "process_data \<Rightarrow> (world, pdref) prog" where
  "newPD d = (\<lambda>w. (Inr (w_next_pdata w),
     w\<lparr>w_pdata := (w_pdata w)(w_next_pdata w := d), w_next_pdata := w_next_pdata w + 1\<rparr>))"

definition empty_process_data :: process_data where
  "empty_process_data = \<lparr>pd_exe = [], pd_cmdline = [], pd_fds = []\<rparr>"

text \<open>The constructor of \<open>Tracee\<close>: process data shared with a sibling, or new.\<close>

definition newTracee :: "tracee_kind \<Rightarrow> tref option \<Rightarrow> (world, tref) prog" where
  "newTracee k sibling =
     bindE (case sibling of
         Some s \<Rightarrow> bindE (getT s) (\<lambda>t. ret (t_pdata t))
       | None \<Rightarrow> newPD empty_process_data)
     (\<lambda>pd w. (Inr (w_next_tracee w),
        w\<lparr>w_tracee := (w_tracee w)(w_next_tracee w := new_tracee k pd),
          w_next_tracee := w_next_tracee w + 1\<rparr>))"

definition unshareProcessData :: "tref \<Rightarrow> (world, unit) prog" where
  "unshareProcessData r = bindE (getPD r) (\<lambda>d. bindE (newPD d) (\<lambda>pd. modT r (\<lambda>t. t\<lparr>t_pdata := pd\<rparr>)))"

text \<open>\<open>ChildTracee::create\<close>.\<close>

definition ChildTracee_create :: "env \<Rightarrow> tref \<Rightarrow> string list \<Rightarrow> (world, unit) prog" where
  "ChildTracee_create E r args =
     bindE (answerE (\<lambda>h. args = [] \<or> \<not> k_which (e_kernel E) h (hd args))) (\<lambda>bad.
     if bad
     then seqE (changeState E r DEAD)
       (raise (RuntimeError ((if args = [] then ''<empty-path>'' else hd args) @
          '': does not exist or is not executable'')))
     else seqE (reqE E (Spawn args))
       (bindE (answerE (k_spawned (e_kernel E))) (\<lambda>pid. seqsE [
          modT r (\<lambda>t. t\<lparr>t_child_running := True, t_child_pid := pid\<rparr>),
          reqE E (WaitStopped pid),
          modFlags r (\<lambda>f. f\<lparr>INJECTED_SIGSTOP := True\<rparr>),
          modT r (\<lambda>t. t\<lparr>t_pid := pid\<rparr>)])))"

end
