(* ===== verification/Engine_Ops.thy ===== *)
theory Engine_Ops
  imports Tracee_Core
begin

unbundle bit_operations_syntax

text \<open>
  The operations of the engine on its map of tracees that the tracees call back into while they
  handle an event (src/Engine.cxx: \<open>addTracee\<close>, \<open>checkCleanupTracee\<close>, \<open>tryUpdateTraceePID\<close>,
  \<open>handleAutoAttach\<close>, \<open>handleSubstitution\<close>; src/AutoAttachedTracee.cxx; \<open>hasClonedThread\<close> of
  src/Tracee.cxx).
\<close>

section \<open>The map of tracees\<close>

definition eraseTracee :: "pid \<Rightarrow> (world, unit) prog" where
  "eraseTracee p = updE (\<lambda>w. w\<lparr>w_tracees := smap_erase p (w_tracees w)\<rparr>)"

text \<open>
  Looking up through an iterator that the code holds on to; the entry must still be there.
\<close>

definition traceeAt :: "pid \<Rightarrow> (world, tref) prog" where
  "traceeAt p = (\<lambda>w. case smap_find (w_tracees w) p of
     Some r \<Rightarrow> (Inr r, w)
   | None \<Rightarrow> (Inl (Undefined ''use of an invalidated iterator''), w))"

definition checkCleanupTracee :: "env \<Rightarrow> pid \<Rightarrow> (world, unit) prog" where
  "checkCleanupTracee E p = bindE (traceeAt p) (\<lambda>r. bindE (getT r) (\<lambda>t.
     if t_state t = DETACHED
     then if \<not> isChildProcess t then eraseTracee p else skipE
     else if t_state t = DEAD
     then seqE (doDetach E r) (eraseTracee p)
     else skipE))"

definition tryUpdateTraceePID :: "pid \<Rightarrow> pid \<Rightarrow> (world, bool) prog" where
  "tryUpdateTraceePID old_pid new_pid = (\<lambda>w. case smap_find (w_tracees w) old_pid of
     None \<Rightarrow> (Inr False, w)
   | Some r \<Rightarrow> (Inr True, w\<lparr>w_tracees :=
       snd (smap_insert new_pid r (smap_erase old_pid (w_tracees w)))\<rparr>))"

section \<open>Adding tracees\<close>

definition addTracee :: "env \<Rightarrow> pid \<Rightarrow> bool \<Rightarrow> bool \<Rightarrow> pid \<Rightarrow> (world, tref) prog" where
  "addTracee E p follow_children attach_threads sibling =
     bindE (askE (\<lambda>w. smap_find (w_tracees w) sibling)) (\<lambda>sib.
     bindE (newTracee ForeignTracee sib) (\<lambda>r.
     bindE (seqsE [
       modT r (\<lambda>t. t\<lparr>t_pid := p\<rparr>),
       attach E r follow_children attach_threads,
       updE (\<lambda>w. w\<lparr>w_tracees := smap_put p r (w_tracees w)\<rparr>)])
     (\<lambda>_. ret r)))"

definition addChildTracee :: "env \<Rightarrow> string list \<Rightarrow> bool \<Rightarrow> (world, tref) prog" where
  "addChildTracee E cmdline follow_children =
     bindE (newTracee ChildTracee None) (\<lambda>r.
     bindE (seqsE [
       ChildTracee_create E r cmdline,
       attach E r follow_children False,
       bindE (getT r) (\<lambda>t. updE (\<lambda>w. w\<lparr>w_tracees := smap_put (t_pid t) r (w_tracees w)\<rparr>))])
     (\<lambda>_. ret r))"

section \<open>Automatically attached tracees\<close>

abbreviation (input) CLONE_PIDFD_BIT :: nat where "CLONE_PIDFD_BIT \<equiv> 12"
abbreviation (input) CLONE_FILES_BIT :: nat where "CLONE_FILES_BIT \<equiv> 10"
abbreviation (input) CLONE_THREAD_BIT :: nat where "CLONE_THREAD_BIT \<equiv> 16"

text \<open>\<open>CloneFlagsValue::processData\<close> for clone(): the low byte is the exit signal.\<close>

definition clone_flags :: "syscall \<Rightarrow> word64" where
  "clone_flags s = it_val (sc_pars s ! 0) AND NOT 0xFF"

text \<open>
  \<open>CloneArgs::args()\<close> of clone3(): empty if the struct could not be fetched, else its first member,
  the 64 bits of flags.
\<close>

definition clone3_flags :: "syscall \<Rightarrow> word64 option" where
  "clone3_flags s = map_option (\<lambda>bs. of_nat (bytes_nat (take 8 bs))) (it_data (sc_pars s ! 0))"

text \<open>\<open>dynamic_cast\<close> to a class by reference.\<close>

definition cast_call :: "string \<Rightarrow> syscall \<Rightarrow> exn + unit" where
  "cast_call cls s = (if sc_class s = cls then Inr () else Inl (StdError ''bad_cast''))"

definition shares_file_descriptors_with_parent :: "syscall \<Rightarrow> exn + bool" where
  "shares_file_descriptors_with_parent s =
     (if sc_nr s = SYS_CLONE3
      then (case cast_call ''Clone3SystemCall'' s of Inl e \<Rightarrow> Inl e
        | Inr _ \<Rightarrow> (case clone3_flags s of
            Some flags \<Rightarrow> Inr (bit flags CLONE_FILES_BIT) | None \<Rightarrow> Inr False))
      else if sc_nr s = SYS_CLONE
      then (case cast_call ''CloneSystemCall'' s of Inl e \<Rightarrow> Inl e
        | Inr _ \<Rightarrow> Inr (bit (clone_flags s) CLONE_FILES_BIT))
      else Inr False)"

definition getCall :: "callref \<Rightarrow> (world, syscall) prog" where
  "getCall c = askE (\<lambda>w. cs_call (w_calls w) c)"

definition hasClonedThread :: "tref \<Rightarrow> (world, bool) prog" where
  "hasClonedThread r = bindE (getT r) (\<lambda>t. case t_current t of
     None \<Rightarrow> ret False
   | Some c \<Rightarrow> bindE (getCall c) (\<lambda>s.
       if sc_nr s = SYS_CLONE
       then seqE (liftE (cast_call ''CloneSystemCall'' s)) (ret (bit (clone_flags s) CLONE_THREAD_BIT))
       else if sc_nr s = SYS_CLONE3
       then seqE (liftE (cast_call ''Clone3SystemCall'' s)) (case clone3_flags s of
           None \<Rightarrow> raise (Undefined ''dereference of an empty optional'')
         | Some flags \<Rightarrow> ret (bit flags CLONE_THREAD_BIT))
       else ret False))"

text \<open>\<open>AutoAttachedTracee::configure\<close>.\<close>

definition AutoAttached_configure :: "tref \<Rightarrow> pid \<Rightarrow> syscall \<Rightarrow> (world, unit) prog" where
  "AutoAttached_configure r p sc = seqsE [
     modT r (\<lambda>t. t\<lparr>t_pid := p\<rparr>),
     modFlags r (\<lambda>f. f\<lparr>WAIT_FOR_ATTACH_STOP := True\<rparr>),
     bindE (liftE (shares_file_descriptors_with_parent sc))
       (\<lambda>shares. if \<not> shares then unshareProcessData r else skipE)]"

text \<open>
  \<open>handleAutoAttach\<close>. \<open>m_tracees[parent.pid()]\<close> would insert a null pointer for a parent that is not
  in the map, which the next event of that process would dereference; the model stops there.
\<close>

definition handleAutoAttach ::
  "env \<Rightarrow> tref \<Rightarrow> pid \<Rightarrow> ptrace_event \<Rightarrow> syscall \<Rightarrow> (world, unit) prog"
where
  "handleAutoAttach E parent p event sc = seqE
     (if event \<noteq> Ev_VFORK_DONE
      then bindE (getT parent) (\<lambda>pt. bindE (askE (\<lambda>w. smap_find (w_tracees w) (t_pid pt))) (\<lambda>sib.
        case sib of
          None \<Rightarrow> raise (Undefined ''null tracee inserted into m_tracees'')
        | Some s \<Rightarrow> bindE (newTracee AutoAttachedTracee (Some s)) (\<lambda>r. seqsE [
            AutoAttached_configure r p sc,
            updE (\<lambda>w. w\<lparr>w_tracees := snd (smap_insert p r (w_tracees w))\<rparr>),
            bindE (hasClonedThread parent) (\<lambda>cloned. bindE (traceeAt p) (\<lambda>child.
              callbackE E (NewChildProcess parent child event (if cloned then {CLONED_THREAD} else {})))),
            checkCleanupTracee E p])))
      else bindE (askE (\<lambda>w. smap_find (w_tracees w) p)) (\<lambda>child.
        callbackE E (VforkComplete parent child)))
     (updE (\<lambda>w. w\<lparr>w_newpid := p\<rparr>))"

section \<open>Substitution of a process ID by execve\<close>

definition handleSubstitution :: "env \<Rightarrow> pid \<Rightarrow> (world, tref option) prog" where
  "handleSubstitution E old_pid = bindE (askE (\<lambda>w. smap_find (w_tracees w) old_pid)) (\<lambda>it.
     case it of
       None \<Rightarrow> ret None
     | Some old \<Rightarrow> seqE
         (catchE is_ApiError (bindE (detach E old) (\<lambda>_. skipE))
           (\<lambda>e. if e \<noteq> ApiError ESRCH then raise e else skipE))
         (seqE (eraseTracee old_pid) (ret (Some old))))"

end
