(* ===== verification/Tracee_Events.thy ===== *)
theory Tracee_Events
  imports Engine_Ops
begin

text \<open>
  How a tracee handles one event that \<open>wait()\<close> reported for it (src/Tracee.cxx): system call entry
  and exit, signals, ptrace event stops, exit and death, and the restart at the end
  (\<open>processEvent\<close>). One definition per function of the source, in its order of effects.
\<close>

section \<open>System calls\<close>

definition runCall :: "callref \<Rightarrow> (syscall, 'a) prog \<Rightarrow> (world, 'a) prog" where
  "runCall c m = (\<lambda>w. case m (cs_call (w_calls w) c) of
     (r, s') \<Rightarrow> (r, w\<lparr>w_calls := (w_calls w)\<lparr>cs_call := (cs_call (w_calls w))(c := s')\<rparr>\<rparr>))"

definition getClass :: "env \<Rightarrow> callref \<Rightarrow> (world, call_class) prog" where
  "getClass E c = bindE (getCall c) (\<lambda>s. ret (cf_class (e_family E) (sc_class s)))"

definition getView :: "env \<Rightarrow> tref \<Rightarrow> (world, tview) prog" where
  "getView E r = bindE (getT r) (\<lambda>t. answerE (\<lambda>h. k_view (e_kernel E) h (t_pid t)))"

text \<open>\<open>m_syscall_db.get(*this, info)\<close> on the cache of tracee \<open>r\<close>.\<close>

definition dbGet :: "env \<Rightarrow> tref \<Rightarrow> sysinfo \<Rightarrow> (world, callref) prog" where
  "dbGet E r info = bindE (getView E r) (\<lambda>tv w.
     case SystemCallDB_get (e_family E) tv info (t_db (w_tracee w r), w_calls w) of
       (res, (db, st)) \<Rightarrow> (res, w\<lparr>w_calls := st,
          w_tracee := (w_tracee w)(r := (w_tracee w r)\<lparr>t_db := db\<rparr>)\<rparr>))"

definition callSetEntryInfo :: "env \<Rightarrow> tref \<Rightarrow> callref \<Rightarrow> sysinfo \<Rightarrow> (world, unit) prog" where
  "callSetEntryInfo E r c info = bindE (getView E r) (\<lambda>tv. bindE (getClass E c) (\<lambda>cc.
     runCall c (setEntryInfo cc tv info)))"

definition callSetExitInfo :: "env \<Rightarrow> tref \<Rightarrow> callref \<Rightarrow> sysinfo \<Rightarrow> (world, unit) prog" where
  "callSetExitInfo E r c info = bindE (getView E r) (\<lambda>tv. bindE (getClass E c) (\<lambda>cc w.
     (let d = t_pdata (w_tracee w r) in
      case setExitInfo cc tv info (cs_call (w_calls w) c, pd_fds (w_pdata w d)) of
        (res, (s', fds')) \<Rightarrow> (res, w\<lparr>
          w_calls := (w_calls w)\<lparr>cs_call := (cs_call (w_calls w))(c := s')\<rparr>,
          w_pdata := (w_pdata w)(d := (w_pdata w d)\<lparr>pd_fds := fds'\<rparr>)\<rparr>))))"

definition empty_info :: sysinfo where
  "empty_info = \<lparr>si_kind = InfoOther, si_arch = Arch_other 0, si_isX32 = False,
     si_generic = SYS_UNKNOWN, si_native = NrX64 0, si_abi = ABI_UNKNOWN\<rparr>"

text \<open>\<open>*m_syscall_info\<close>, which throws nothing but is undefined when empty.\<close>

definition getInfo :: "tref \<Rightarrow> (world, sysinfo) prog" where
  "getInfo r = bindE (getT r) (\<lambda>t. case t_info t of
     Some info \<Rightarrow> ret info | None \<Rightarrow> raise (Undefined ''dereference of an empty optional''))"

definition getCurrent :: "tref \<Rightarrow> (world, callref) prog" where
  "getCurrent r = bindE (getT r) (\<lambda>t. case t_current t of
     Some c \<Rightarrow> ret c | None \<Rightarrow> raise (Undefined ''dereference of a null pointer''))"

definition verifyArch :: "arch_flags \<Rightarrow> sysinfo \<Rightarrow> exn + unit" where
  "verifyArch a info = (case si_arch info of
     Arch_I386 \<Rightarrow> Inr ()
   | Arch_X86_64 \<Rightarrow> if \<not> arch_X86_64 a
       then Inl (RuntimeError ''tracing 64-bit binaries with a 32-bit tracer is not supported'')
       else Inr ()
   | Arch_AARCH64 \<Rightarrow> if \<not> arch_AARCH64 a
       then Inl (RuntimeError ''tracing 64-bit binaries with a 32-bit tracer is not supported'')
       else Inr ()
   | Arch_other _ \<Rightarrow> Inl (RuntimeError ''tracing this architecture/ABI is not currently supported''))"

text \<open>
  \<open>build_syscall_info\<close> from a register set; \<open>e_isX32\<close> is the test for the x32 bit in libcosmos.
\<close>

definition regset_arch :: "abi \<Rightarrow> arch" where
  "regset_arch abi = (case abi of
     ABI_I386 \<Rightarrow> Arch_I386 | ABI_AARCH64 \<Rightarrow> Arch_AARCH64 | _ \<Rightarrow> Arch_X86_64)"

definition build_syscall_info :: "env \<Rightarrow> regset \<Rightarrow> exn + sysinfo" where
  "build_syscall_info E rs = updateSysNr (empty_info\<lparr>
     si_kind := InfoEntry (rs_nr rs) (six_of (rs_pars rs)),
     si_arch := regset_arch (rs_abi rs), si_isX32 := e_isX32 E (rs_nr rs)\<rparr>)"

definition getInitialSyscallInfo :: "env \<Rightarrow> regset \<Rightarrow> abi \<Rightarrow> exn + sysinfo option" where
  "getInitialSyscallInfo E rs abi =
     (if abi = rs_abi rs then map_sum id Some (build_syscall_info E rs) else Inr None)"

definition tryRecoverRestartedSystemCall :: "env \<Rightarrow> tref \<Rightarrow> (world, bool) prog" where
  "tryRecoverRestartedSystemCall E r = bindE (getInfo r) (\<lambda>info. bindE (getT r) (\<lambda>t.
     bindE (liftE (getInitialSyscallInfo E (t_regs t) (si_abi info))) (\<lambda>orig. case orig of
       None \<Rightarrow> ret False
     | Some orig \<Rightarrow>
         if si_generic orig = SYS_RESTART_SYSCALL then ret False
         else if \<not> SystemCall_validNr (si_generic orig) then ret False
         else bindE (dbGet E r orig) (\<lambda>c. seqE (modT r (\<lambda>t. t\<lparr>t_current := Some c\<rparr>)) (ret True)))))"

text \<open>The part of \<open>handleSystemCallEntry\<close> that detects resumed system calls.\<close>

definition detectResumed :: "env \<Rightarrow> tref \<Rightarrow> sysinfo \<Rightarrow> (world, status_flag set) prog" where
  "detectResumed E r info = bindE (getT r) (\<lambda>t.
     if si_generic info = SYS_RESTART_SYSCALL
     then (case t_interrupted t of
         Some c \<Rightarrow> seqE (modT r (\<lambda>t. t\<lparr>t_current := Some c, t_interrupted := None\<rparr>)) (ret {RESUMED})
       | None \<Rightarrow> if t_ctr t \<noteq> 0 then ret {}
           else bindE (tryRecoverRestartedSystemCall E r) (\<lambda>ok. ret (if ok then {RESUMED} else {})))
     else (case t_interrupted t of
         Some c \<Rightarrow> if SEEN_SIGRETURN (t_flags t)
           then bindE (getCurrent r) (\<lambda>cur. bindE (getCall c) (\<lambda>old. bindE (getCall cur) (\<lambda>new.
             seqE (modFlags r (\<lambda>f. f\<lparr>SEEN_SIGRETURN := False\<rparr>))
               (seqE (modT r (\<lambda>t. t\<lparr>t_interrupted := None\<rparr>))
                 (ret (if sc_nr old = sc_nr new then {RESUMED} else {}))))))
           else ret {}
       | None \<Rightarrow> ret {}))"

definition handleSystemCallEntry :: "env \<Rightarrow> tref \<Rightarrow> (world, unit) prog" where
  "handleSystemCallEntry E r = bindE (getInfo r) (\<lambda>info.
     bindE (dbGet E r info) (\<lambda>c.
     seqE (modT r (\<lambda>t. t\<lparr>t_current := Some c\<rparr>))
     (bindE (getCall c) (\<lambda>s.
     bindE (ret (if sc_abi s \<noteq> ABI_UNKNOWN \<and> sc_abi s \<noteq> si_abi info then {ABI_CHANGED} else {})) (\<lambda>changed.
     seqE (liftE (verifyArch (e_arch E) info))
     (bindE (detectResumed E r info) (\<lambda>resumed.
     bindE (getCurrent r) (\<lambda>cur. seqsE [
       callSetEntryInfo E r cur info,
       modT r (\<lambda>t. t\<lparr>t_ctr := t_ctr t + 1\<rparr>),
       callbackE E (SyscallEntry r cur (changed \<union> resumed))]))))))))"

definition is_sigreturn :: "syscall \<Rightarrow> bool" where
  "is_sigreturn s \<longleftrightarrow> sc_nr s = SYS_RT_SIGRETURN \<or> sc_nr s = SYS_SIGRETURN"

definition kernelError :: "syscall \<Rightarrow> bool" where
  "kernelError s = (case sc_error s of Some e \<Rightarrow> hasKernelErrorCode e | None \<Rightarrow> False)"

definition interruptedError :: "syscall \<Rightarrow> bool" where
  "interruptedError s = (case sc_error s of
     Some e \<Rightarrow> hasErrorCode e \<and> er_errno e = Some EINTR | None \<Rightarrow> False)"

definition handleSystemCallExit :: "env \<Rightarrow> tref \<Rightarrow> (world, unit) prog" where
  "handleSystemCallExit E r = bindE (getCurrent r) (\<lambda>c. bindE (getInfo r) (\<lambda>info.
     seqE (callSetExitInfo E r c info)
     (bindE (getCall c) (\<lambda>s. seqsE [
       (if kernelError s then modT r (\<lambda>t. t\<lparr>t_interrupted := Some c\<rparr>) else skipE),
       callbackE E (SyscallExit r c (if kernelError s then {INTERRUPTED} else {})),
       bindE (getT r) (\<lambda>t. bindE (getCall c) (\<lambda>s.
         if t_interrupted t \<noteq> None \<and> is_sigreturn s
         then if interruptedError s then modT r (\<lambda>t. t\<lparr>t_interrupted := None\<rparr>)
              else modFlags r (\<lambda>f. f\<lparr>SEEN_SIGRETURN := True\<rparr>)
         else skipE)),
       modT r (\<lambda>t. t\<lparr>t_current := None\<rparr>)]))))"

definition handleStateMismatch :: "(world, unit) prog" where
  "handleStateMismatch = raise (RuntimeError ''system call state mismatch'')"

definition handleSystemCall :: "env \<Rightarrow> tref \<Rightarrow> (world, unit) prog" where
  "handleSystemCall E r = seqsE [
     modT r (\<lambda>t. t\<lparr>t_info := Some empty_info\<rparr>),
     bindE (getT r) (\<lambda>t. seqE (reqE E (GetSyscallInfo (t_pid t)))
       (bindE (answerE (\<lambda>h. k_syscall_info (e_kernel E) h (t_pid t)))
         (\<lambda>info. modT r (\<lambda>t. t\<lparr>t_info := Some info\<rparr>)))),
     bindE (getInfo r) (\<lambda>info. bindE (getT r) (\<lambda>t.
       if SYSCALL_ENTERED (t_flags t)
       then seqsE [
         if \<not> isExit info then handleStateMismatch else skipE,
         changeState E r SYSCALL_EXIT_STOP,
         handleSystemCallExit E r]
       else seqsE [
         if \<not> isEntry info then handleStateMismatch else skipE,
         bindE (liftE (updateSysNr info)) (\<lambda>info. modT r (\<lambda>t. t\<lparr>t_info := Some info\<rparr>)),
         changeState E r SYSCALL_ENTER_STOP,
         handleSystemCallEntry E r])),
     modT r (\<lambda>t. t\<lparr>t_info := None\<rparr>)]"

section \<open>Signals and stops\<close>

definition handleSignal :: "env \<Rightarrow> tref \<Rightarrow> signal \<Rightarrow> (world, unit) prog" where
  "handleSignal E r sig = bindE (getT r) (\<lambda>t.
     if INJECTED_SIGCONT (t_flags t) \<and> sig = SIG_CONT
     then modFlags r (\<lambda>f. f\<lparr>INJECTED_SIGCONT := False\<rparr>)
     else callbackE E (SignaledCb r sig))"

definition getRegisters :: "env \<Rightarrow> tref \<Rightarrow> abi \<Rightarrow> (world, regset) prog" where
  "getRegisters E r abi = bindE (getT r) (\<lambda>t.
     seqE (reqE E (GetRegisterSet (t_pid t) abi)) (answerE (\<lambda>h. k_regs (e_kernel E) h (t_pid t) abi)))"

definition setRegs :: "tref \<Rightarrow> regset \<Rightarrow> (world, unit) prog" where
  "setRegs r rs = modT r (\<lambda>t. t\<lparr>t_regs := rs\<rparr>)"

definition is_RuntimeError :: "exn \<Rightarrow> bool" where
  "is_RuntimeError e = (case e of RuntimeError _ \<Rightarrow> True | _ \<Rightarrow> False)"

definition getInitialRegisters :: "env \<Rightarrow> tref \<Rightarrow> (world, unit) prog" where
  "getInitialRegisters E r =
     (let abi = get_default_abi (e_arch E) in
      catchE is_RuntimeError
        (bindE (getRegisters E r abi) (\<lambda>rs. seqE (setRegs r rs)
          (if abi = ABI_X86_64 \<and> and (rs_nr rs) X32_SYSCALL_BIT \<noteq> 0
           then bindE (getRegisters E r ABI_X32) (setRegs r) else skipE)))
        (\<lambda>e. if abi = ABI_X86_64 then bindE (getRegisters E r ABI_I386) (setRegs r) else raise e))"

definition attachThreads :: "env \<Rightarrow> tref \<Rightarrow> (world, unit) prog" where
  "attachThreads E r = bindE (getT r) (\<lambda>t. seqE (reqE E (OpenTaskDir (t_pid t)))
     (bindE (answerE (\<lambda>h. k_tasks (e_kernel E) h (t_pid t))) (\<lambda>tasks.
       forE tasks (\<lambda>p. if p = t_pid t then skipE
         else catchE is_std_exception
           (bindE (addTracee E p (t_follow t) False (t_pid t))
             (\<lambda>q. modT q (\<lambda>u. u\<lparr>t_attacher := Some (t_pid t)\<rparr>)))
           (\<lambda>_. skipE)))))"

definition initFDInfos :: "env \<Rightarrow> tref \<Rightarrow> (world, unit) prog" where
  "initFDInfos E r = bindE (getPD r) (\<lambda>d.
     if pd_fds d = []
     then catchE is_CosmosError
       (bindE (getView E r) (\<lambda>tv. bindE (liftE (get_fd_infos (tv_text tv) (tv_proc tv)))
         (\<lambda>infos. modPD r (\<lambda>d. d\<lparr>pd_fds := initFDs infos (pd_fds d)\<rparr>))))
       (\<lambda>_. skipE)
     else skipE)"

definition handleAttached :: "env \<Rightarrow> tref \<Rightarrow> (world, unit) prog" where
  "handleAttached E r = seqsE [
     modFlags r (\<lambda>f. f\<lparr>WAIT_FOR_ATTACH_STOP := False\<rparr>),
     modT r (\<lambda>t. if \<not> INJECTED_SIGSTOP (t_flags t) then t\<lparr>t_mode := SYSCALL\<rparr> else t),
     getInitialRegisters E r,
     initFDInfos E r,
     callbackE E (Attached r),
     bindE (getT r) (\<lambda>t. if ATTACH_THREADS_PENDING (t_flags t)
       then seqE (catchE is_std_exception (attachThreads E r) (\<lambda>_. skipE))
              (modFlags r (\<lambda>f. f\<lparr>ATTACH_THREADS_PENDING := False\<rparr>))
       else skipE)]"

definition handleStopEvent :: "env \<Rightarrow> tref \<Rightarrow> signal \<Rightarrow> (world, unit) prog" where
  "handleStopEvent E r sig = bindE (getT r) (\<lambda>t.
     if WAIT_FOR_ATTACH_STOP (t_flags t) then handleAttached E r
     else if sig \<in> set STOPPING_SIGNALS
     then seqsE [
       changeState E r GROUP_STOP,
       modT r (\<lambda>t. t\<lparr>t_stop_signal := Some sig\<rparr>),
       callbackE E (Stopped r)]
     else if sig = SIG_TRAP then modT r (\<lambda>t. t\<lparr>t_mode := SYSCALL\<rparr>)
     else skipE)"

section \<open>Exit, exec, new children\<close>

text \<open>The heuristic of \<open>handleExitEvent\<close> for a thread lost to exit or execve of another one.\<close>

definition lostToMtExit :: "tref \<Rightarrow> wait_status \<Rightarrow> (world, bool) prog" where
  "lostToMtExit r status = bindE (getT r) (\<lambda>t. case status of
     WSignaled _ \<Rightarrow> ret False
   | WExited _ \<Rightarrow>
       if t_prev t \<noteq> SYSCALL_ENTER_STOP then ret True
       else (case t_current t of
           None \<Rightarrow> raise (Undefined ''dereference of an empty optional'')
         | Some c \<Rightarrow> bindE (getCall c)
             (\<lambda>s. ret (sc_nr s \<noteq> SYS_EXIT_GROUP \<and> sc_nr s \<noteq> SYS_EXIT))))"

definition handleExitEvent :: "env \<Rightarrow> tref \<Rightarrow> (world, unit) prog" where
  "handleExitEvent E r = bindE (getT r) (\<lambda>t. seqE (reqE E (GetExitEventMsg (t_pid t)))
     (bindE (answerE (\<lambda>h. k_exit_msg (e_kernel E) h (t_pid t))) (\<lambda>status.
       bindE (lostToMtExit r status) (\<lambda>lost.
         seqE (callbackE E (ExitedCb r status (if lost then {LOST_TO_MT_EXIT} else {})))
           (modFlags r (\<lambda>f. f\<lparr>WAIT_FOR_EXITED := True\<rparr>))))))"

definition syncState :: "env \<Rightarrow> tref \<Rightarrow> tref \<Rightarrow> (world, unit) prog" where
  "syncState E r other = bindE (getT other) (\<lambda>oth. seqsE [
     modT r (\<lambda>t. t\<lparr>t_info := t_info oth, t_db := t_db oth\<rparr>),
     modT other (\<lambda>t. t\<lparr>t_db := []\<rparr>),
     modT r (\<lambda>t. t\<lparr>t_current := t_current oth, t_interrupted := t_interrupted oth, t_ctr := t_ctr oth\<rparr>),
     changeState E other DEAD])"

definition syncFDs :: "env \<Rightarrow> tref \<Rightarrow> (world, unit) prog" where
  "syncFDs E r = bindE (getView E r) (\<lambda>tv. bindE (getPD r) (\<lambda>d.
     bindE (liftE (syncFDsAfterExec (tv_proc tv) (pd_fds d)))
       (\<lambda>m. modPD r (\<lambda>d. d\<lparr>pd_fds := m\<rparr>))))"

definition handleExecEvent :: "env \<Rightarrow> tref \<Rightarrow> pid \<Rightarrow> (world, unit) prog" where
  "handleExecEvent E r main_pid = bindE (getPD r) (\<lambda>old.
     seqE (reqE E (GetPIDEventMsg main_pid))
     (bindE (answerE (\<lambda>h. k_pid_msg (e_kernel E) h main_pid)) (\<lambda>former_pid.
     bindE (ret (if former_pid \<noteq> main_pid then Some former_pid else None)) (\<lambda>old_pid.
     seqsE [
       (case old_pid of
          None \<Rightarrow> skipE
        | Some p \<Rightarrow> bindE (handleSubstitution E p) (\<lambda>old_tracee. case old_tracee of
            Some other \<Rightarrow> syncState E r other
          | None \<Rightarrow> modT r (\<lambda>t. t\<lparr>t_pid := main_pid\<rparr>))),
       updateExecInfo E r,
       syncFDs E r,
       callbackE E (NewExecutionContext r (pd_exe old) (pd_cmdline old) old_pid)]))))"

definition handleNewChildEvent :: "env \<Rightarrow> tref \<Rightarrow> ptrace_event \<Rightarrow> (world, unit) prog" where
  "handleNewChildEvent E r event = bindE (getT r) (\<lambda>t.
     seqE (reqE E (GetPIDEventMsg (t_pid t)))
     (bindE (answerE (\<lambda>h. k_pid_msg (e_kernel E) h (t_pid t))) (\<lambda>p.
       bindE (getCurrent r) (\<lambda>c. bindE (getCall c) (\<lambda>s. handleAutoAttach E r p event s)))))"

definition handleEvent :: "env \<Rightarrow> tref \<Rightarrow> child_state \<Rightarrow> ptrace_event \<Rightarrow> signal \<Rightarrow> (world, unit) prog" where
  "handleEvent E r data event sig = (case event of
     Ev_STOP \<Rightarrow> handleStopEvent E r sig
   | Ev_EXIT \<Rightarrow> handleExitEvent E r
   | Ev_EXEC \<Rightarrow> handleExecEvent E r (ch_pid data)
   | Ev_CLONE \<Rightarrow> handleNewChildEvent E r event
   | Ev_VFORK \<Rightarrow> handleNewChildEvent E r event
   | Ev_VFORK_DONE \<Rightarrow> handleNewChildEvent E r event
   | Ev_FORK \<Rightarrow> handleNewChildEvent E r event
   | _ \<Rightarrow> skipE)"

section \<open>One event\<close>

definition signalStop :: "env \<Rightarrow> tref \<Rightarrow> signal \<Rightarrow> (world, unit) prog" where
  "signalStop E r sig = seqsE [
     changeState E r SIGNAL_DELIVERY_STOP,
     bindE (getT r) (\<lambda>t. seqE (reqE E (GetSigInfo (t_pid t)))
       (bindE (answerE (\<lambda>h. k_siginfo (e_kernel E) h (t_pid t))) (handleSignal E r))),
     modT r (\<lambda>t. t\<lparr>t_inject := Some sig\<rparr>)]"

text \<open>The end of \<open>processEvent\<close>: restart the tracee unless tracing it is over.\<close>

definition restartTracee :: "env \<Rightarrow> tref \<Rightarrow> (world, unit) prog" where
  "restartTracee E r = bindE (getT r) (\<lambda>t.
     if t_state t = DEAD \<or> t_state t = DETACHED then skipE
     else seqE (reqE E (Restart (t_pid t) (t_mode t) (t_inject t)))
       (if t_mode t \<noteq> LISTEN
        then seqE (changeState E r RUNNING)
          (if t_state t = GROUP_STOP then callbackE E (Resumed r) else skipE)
        else skipE))"

definition processDeath :: "env \<Rightarrow> tref \<Rightarrow> child_state \<Rightarrow> (world, unit) prog" where
  "processDeath E r data = seqsE [
     changeState E r DEAD,
     bindE (getT r) (\<lambda>t. if \<not> WAIT_FOR_EXITED (t_flags t)
       then callbackE E (Disappeared r data) else skipE),
     modT r (\<lambda>t. t\<lparr>t_exit := Some data\<rparr>)]"

definition processEvent :: "env \<Rightarrow> tref \<Rightarrow> child_state \<Rightarrow> (world, unit) prog" where
  "processEvent E r data = seqE (modT r (\<lambda>t. t\<lparr>t_inject := None\<rparr>)) (case ch_change data of
     Exited _ \<Rightarrow> processDeath E r data
   | Killed _ \<Rightarrow> processDeath E r data
   | Dumped _ \<Rightarrow> processDeath E r data
   | Trapped stop \<Rightarrow> bindE (getT r) (\<lambda>t.
       if DETACH_AT_NEXT_STOP (t_flags t) then doDetach E r
       else seqE (case stop of
           SysTrap \<Rightarrow> handleSystemCall E r
         | EventStop sig event \<Rightarrow> seqE (changeState E r EVENT_STOP) (handleEvent E r data event sig)
         | Plain sig \<Rightarrow> signalStop E r sig)
         (restartTracee E r))
   | Signaled sig \<Rightarrow> seqE (signalStop E r sig) (restartTracee E r)
   | OtherChange \<Rightarrow> restartTracee E r)"

end
