(* ===== verification/Engine.thy ===== *)
theory Engine
  imports Tracee_Events
begin

text \<open>
  The engine (src/Engine.cxx): dispatching events to tracees, events for process IDs that are not
  known (yet), the main loop, stopping.

  \<open>handleEvent\<close> and \<open>checkUnknownEvents\<close> call each other: a stored event is handled once the tracee
  it belongs to was created. The model bounds that recursion by a number of levels and treats an
  exhausted bound as a failure of its own; \<open>handleEvent_levels\<close> shows that two levels are enough.
  The main loop may run forever, so it is a partial function.
\<close>

section \<open>Dispatching\<close>

datatype decision = RETRY | DROP | STORE | DONE

definition checkUnknownTraceeEvent :: "env \<Rightarrow> child_state \<Rightarrow> (world, decision) prog" where
  "checkUnknownTraceeEvent E data = (case ch_change data of
     Trapped (EventStop sig event) \<Rightarrow>
       if event = Ev_EXEC
       then seqE (reqE E (GetPIDEventMsg (ch_pid data)))
         (bindE (answerE (\<lambda>h. k_pid_msg (e_kernel E) h (ch_pid data))) (\<lambda>former_pid.
           bindE (tryUpdateTraceePID former_pid (ch_pid data))
             (\<lambda>ok. ret (if ok then RETRY else DROP))))
       else if event = Ev_STOP then ret STORE
       else ret DROP
   | _ \<Rightarrow> ret DROP)"

text \<open>\<open>checkUnknownEvents\<close>; \<open>handle\<close> is \<open>Engine::handleEvent\<close>.\<close>

definition checkUnknownEvents ::
  "(child_state \<Rightarrow> (world, decision) prog) \<Rightarrow> (world, unit) prog"
where
  "checkUnknownEvents handle = bindE (askE (\<lambda>w. w_newpid w)) (\<lambda>new_pid.
     if new_pid = PID_INVALID then skipE
     else seqE (updE (\<lambda>w. w\<lparr>w_newpid := PID_INVALID\<rparr>))
       (bindE (askE (\<lambda>w. smap_find (w_unknown w) new_pid)) (\<lambda>it. case it of
           None \<Rightarrow> skipE
         | Some data \<Rightarrow> bindE (handle data)
             (\<lambda>_. updE (\<lambda>w. w\<lparr>w_unknown := smap_erase new_pid (w_unknown w)\<rparr>)))))"

definition recursion_limit :: exn where
  "recursion_limit = Undefined ''levels of handleEvent exhausted''"

fun Engine_handleEvent :: "env \<Rightarrow> nat \<Rightarrow> child_state \<Rightarrow> (world, decision) prog" where
  "Engine_handleEvent E 0 data = raise recursion_limit"
| "Engine_handleEvent E (Suc n) data =
     bindE (askE (\<lambda>w. smap_find (w_tracees w) (ch_pid data))) (\<lambda>it. case it of
       Some r \<Rightarrow> seqE (catchE is_ApiError (processEvent E r data) (\<lambda>_. skipE))
         (seqE (checkCleanupTracee E (ch_pid data))
           (seqE (checkUnknownEvents (Engine_handleEvent E n)) (ret DONE)))
     | None \<Rightarrow> checkUnknownTraceeEvent E data)"

section \<open>The main loop\<close>

text \<open>
  \<open>handleNoChildren\<close>, from one position of the iterator to the next. After the cleanup erased the
  entry, incrementing the iterator is undefined behaviour.
\<close>

fun noChildrenLoop :: "env \<Rightarrow> pid list \<Rightarrow> (world, unit) prog" where
  "noChildrenLoop E [] = skipE"
| "noChildrenLoop E (p # ps) = seqsE [
     bindE (traceeAt p) (\<lambda>r. bindE (detach E r) (\<lambda>_. skipE)),
     checkCleanupTracee E p,
     bindE (traceeAt p) (\<lambda>_. skipE),
     noChildrenLoop E ps]"

definition handleNoChildren :: "env \<Rightarrow> (world, unit) prog" where
  "handleNoChildren E = bindE (askE (\<lambda>w. smap_keys (w_tracees w))) (noChildrenLoop E)"

text \<open>The inner loop of \<open>trace\<close> for one event: how often it was handled, and what was decided.\<close>

definition storeEvent :: "child_state \<Rightarrow> (world, unit) prog" where
  "storeEvent data = updE (\<lambda>w. w\<lparr>w_unknown := snd (smap_insert (ch_pid data) data (w_unknown w))\<rparr>)"

partial_function (option) deliver ::
  "env \<Rightarrow> nat \<Rightarrow> child_state \<Rightarrow> world \<Rightarrow> ((exn + unit) \<times> world) option"
where
  "deliver E n data w = (case Engine_handleEvent E n data w of
     (Inl e, w') \<Rightarrow> Some (Inl e, w')
   | (Inr d, w') \<Rightarrow>
       if d = RETRY then deliver E n data w'
       else if d = STORE then Some (storeEvent data w')
       else Some (Inr (), w'))"

partial_function (option) trace ::
  "env \<Rightarrow> nat \<Rightarrow> world \<Rightarrow> ((exn + unit) \<times> world) option"
where
  "trace E n w = (if w_tracees w = [] then Some (Inr (), w)
     else (case reqE E Wait w of
       (Inl e, w') \<Rightarrow> if e = ApiError ECHILD then Some (handleNoChildren E w') else Some (Inl e, w')
     | (Inr _, w') \<Rightarrow> (case deliver E n (k_wait (e_kernel E) (w_reqs w')) w' of
         None \<Rightarrow> None
       | Some (Inl e, w'') \<Rightarrow> Some (Inl e, w'')
       | Some (Inr _, w'') \<Rightarrow> trace E n w'')))"

section \<open>Stopping\<close>

text \<open>The loop of \<open>stop\<close>; here an erase hands the iterator on correctly.\<close>

fun stopLoop :: "env \<Rightarrow> signal option \<Rightarrow> pid list \<Rightarrow> (world, unit) prog" where
  "stopLoop E sig [] = skipE"
| "stopLoop E sig (p # ps) = seqsE [
     bindE (traceeAt p) (\<lambda>r. bindE (getT r) (\<lambda>t. seqsE [
       (case sig of
          Some s \<Rightarrow> if isChildProcess t \<and> alive t then reqE E (SendSignal (t_pid t) s) else skipE
        | None \<Rightarrow> skipE),
       bindE (detach E r) (\<lambda>_. skipE),
       bindE (getT r) (\<lambda>t. if \<not> alive t then eraseTracee p else skipE)])),
     stopLoop E sig ps]"

definition stop :: "env \<Rightarrow> signal option \<Rightarrow> (world, unit) prog" where
  "stop E sig = bindE (askE (\<lambda>w. smap_keys (w_tracees w))) (stopLoop E sig)"

text \<open>
  \<open>~Engine\<close>: \<open>None\<close> when the main loop never ends; a failure that leaves tracees behind aborts the
  process, which is the flag of the result.
\<close>

definition Engine_destroy :: "env \<Rightarrow> nat \<Rightarrow> world \<Rightarrow> (bool \<times> world) option" where
  "Engine_destroy E n w =
     (if w_tracees w = [] then Some (False, w)
      else (case stop E (Some SIG_KILL) w of
          (Inl e, w') \<Rightarrow> Some (w_tracees w' \<noteq> [], w')
        | (Inr _, w') \<Rightarrow> (case trace E n w' of
            None \<Rightarrow> None
          | Some (Inl e, w'') \<Rightarrow> Some (w_tracees w'' \<noteq> [], w'')
          | Some (Inr _, w'') \<Rightarrow> Some (False, w''))))"

end
