(* ===== verification/Demo_World.thy ===== *)
theory Demo_World
  imports Engine
begin

text \<open>
  A small concrete environment and world on which the properties of the tracer are exercised: a
  kernel that grants every request, one tracee with process ID 100, and a client that never
  detaches. The fields are changed where a property needs something else.
\<close>

definition demo_kernel :: kernel where
  "demo_kernel = \<lparr>k_fail = (\<lambda>_ _. None), k_syscall_info = (\<lambda>_ _. demo_info SYS_CLOSE),
     k_siginfo = (\<lambda>_ _. 10), k_pid_msg = (\<lambda>_ _. 200), k_exit_msg = (\<lambda>_ _. WExited 0),
     k_regs = (\<lambda>_ _ a. \<lparr>rs_abi = a, rs_nr = 0, rs_pars = []\<rparr>), k_spawned = (\<lambda>_. 300),
     k_which = (\<lambda>_ _. True), k_tasks = (\<lambda>_ _. []),
     k_wait = (\<lambda>_. \<lparr>ch_pid = 100, ch_change = Exited 0\<rparr>),
     k_exe = (\<lambda>_ _. Inr ''/bin/true''), k_cmdline = (\<lambda>_ _. Some [''true'']),
     k_view = (\<lambda>_ _. demo_view)\<rparr>"

definition demo_env :: env where
  "demo_env = \<lparr>e_kernel = demo_kernel, e_client = (\<lambda>_ _. False), e_family = plain_family,
     e_arch = arch_x86_64, e_isX32 = (\<lambda>n. 2 ^ 30 \<le> n)\<rparr>"

definition demo_tracee :: tracee where
  "demo_tracee = (new_tracee ForeignTracee 0)\<lparr>t_pid := 100, t_state := RUNNING, t_mode := SYSCALL\<rparr>"

definition demo_world :: world where
  "demo_world = \<lparr>w_tracees = [(100, 0)], w_unknown = [], w_newpid = PID_INVALID,
     w_tracee = (\<lambda>r. if r = 0 then demo_tracee else new_tracee ForeignTracee 0), w_next_tracee = 1,
     w_pdata = (\<lambda>_. empty_process_data), w_next_pdata = 1,
     w_calls = \<lparr>cs_next = 0, cs_call = (\<lambda>_. new_call plain_family ''NotImplementedSystemCall'' 0)\<rparr>,
     w_reqs = [], w_log = []\<rparr>"

lemma demo_env_sel [simp]:
  "e_kernel demo_env = demo_kernel" "e_client demo_env l cb = False" "e_family demo_env = plain_family"
  "e_arch demo_env = arch_x86_64"
  by (simp_all add: demo_env_def)

lemma demo_kernel_sel [simp]:
  "k_fail demo_kernel h q = None" "k_siginfo demo_kernel h p = 10" "k_pid_msg demo_kernel h p = 200"
  "k_exit_msg demo_kernel h p = WExited 0" "k_view demo_kernel h p = demo_view"
  "k_exe demo_kernel h p = Inr ''/bin/true''"
  "k_syscall_info demo_kernel h p = demo_info SYS_CLOSE"
  by (simp_all add: demo_kernel_def)

lemma demo_view_proc [simp]: "tv_proc demo_view = demo_proc" "pf_entries demo_proc \<noteq> Inl e"
  by (simp_all add: demo_view_def demo_proc_def)

lemma demo_world_sel [simp]:
  "w_tracees demo_world = [(100, 0)]" "w_tracee demo_world 0 = demo_tracee" "w_unknown demo_world = []"
  "w_newpid demo_world = PID_INVALID" "w_reqs demo_world = []" "w_log demo_world = []"
  by (simp_all add: demo_world_def)

lemma demo_tracee_sel [simp]:
  "t_pid demo_tracee = 100" "t_state demo_tracee = RUNNING" "t_mode demo_tracee = SYSCALL"
  "t_flags demo_tracee = no_flags" "t_current demo_tracee = None" "t_kind demo_tracee = ForeignTracee"
  "t_prev demo_tracee = TS_UNKNOWN" "t_interrupted demo_tracee = None" "t_db demo_tracee = []"
  "t_ctr demo_tracee = 0" "t_pdata demo_tracee = 0" "t_stop_signal demo_tracee = None"
  by (simp_all add: demo_tracee_def new_tracee_def)

lemma plain_family_sel [simp]: "cf_class plain_family c = base_class" "cf_multi plain_family f tv i = Inr f"
  by (simp_all add: plain_family_def)

end
