(* ===== verification/Items.thy ===== *)
theory Items
  imports System_Call
begin

text \<open>
  The items of a system call that read the memory of the tracee (src/items/*.cxx and the inline
  methods of include/items/*.hxx): \<open>processData\<close>, which runs when the item is filled at the entry of
  the call, and \<open>updateData\<close>, which runs at the exit for items that are not pure input.

  A method is a program on the item; the system call it belongs to (\<open>m_call\<close>) is an argument, as it
  is const there. A loop over tracee memory that would never end is the outcome \<open>Undefined\<close>, like
  every behaviour that the code must exclude. Structures are kept in the layout in which they were
  read; the member-wise copies into the types of libcosmos only rename them.
\<close>

section \<open>Values\<close>

definition as_int :: "word64 \<Rightarrow> int" where
  "as_int w = sint (ucast w :: 32 word)"

definition as_uint :: "word64 \<Rightarrow> nat" where
  "as_uint w = unat (ucast w :: 32 word)"

abbreviation (input) SIZE_MAX :: nat where "SIZE_MAX \<equiv> 2 ^ 64 - 1"

text \<open>Members of a structure that was read as bytes.\<close>

definition field :: "nat \<Rightarrow> nat \<Rightarrow> byte list \<Rightarrow> nat" where
  "field off len bs = bytes_nat (take len (drop off bs))"

definition field_int :: "nat \<Rightarrow> byte list \<Rightarrow> int" where
  "field_int off bs = sint (of_nat (field off 4 bs) :: 32 word)"

definition field_ptr :: "nat \<Rightarrow> nat \<Rightarrow> byte list \<Rightarrow> word64" where
  "field_ptr off len bs = of_nat (field off len bs)"

text \<open>Widening a 32 bit member to 64 bits, unsigned and signed.\<close>

definition zero_extend :: "byte list \<Rightarrow> byte list" where
  "zero_extend bs = bs @ replicate 4 0"

definition sign_extend4 :: "byte list \<Rightarrow> byte list" where
  "sign_extend4 bs = bs @ replicate 4 (if bit (last bs) 7 then 0xFF else 0)"

section \<open>Fetching\<close>

type_synonym item_prog = "(item, unit) prog"

definition endless :: "(item, 'a) prog" where
  "endless = raise (Undefined ''endless loop'')"

definition voidE :: "('s, 'a) prog \<Rightarrow> ('s, unit) prog" where
  "voidE m = bindE m (\<lambda>_. skipE)"

definition allocE :: "tview \<Rightarrow> nat \<Rightarrow> item_prog" where
  "allocE tv n = (if tv_alloc tv n then skipE else raise (StdError ''bad_alloc''))"

definition put_data :: "byte list option \<Rightarrow> item \<Rightarrow> item" where
  "put_data d i = i\<lparr>it_data := d\<rparr>"

definition put_more :: "byte list option \<Rightarrow> item \<Rightarrow> item" where
  "put_more d i = i\<lparr>it_more := (case d of Some b \<Rightarrow> [b] | None \<Rightarrow> [])\<rparr>"

definition vec :: "item \<Rightarrow> byte list" where
  "vec i = (case it_data i of Some d \<Rightarrow> d | None \<Rightarrow> [])"

definition resize :: "'a \<Rightarrow> nat \<Rightarrow> 'a list \<Rightarrow> 'a list" where
  "resize x n d = take n d @ replicate (n - length d) x"

text \<open>\<open>readStructIntoOptional\<close> and \<open>readRawStructIntoOptional\<close> into one of the optionals of the item.\<close>

definition fetch_optional ::
  "(byte list option \<Rightarrow> item \<Rightarrow> item) \<Rightarrow> tview \<Rightarrow> nat \<Rightarrow> nat \<Rightarrow> word64 \<Rightarrow> (item, bool) prog"
where
  "fetch_optional put tv room mx addr = (\<lambda>i.
     case readStructIntoOptional (tv_peek tv) addr room mx of
       None \<Rightarrow> endless i
     | Some (r, d) \<Rightarrow> (r, put d i))"

definition fetch_raw ::
  "(byte list option \<Rightarrow> item \<Rightarrow> item) \<Rightarrow> tview \<Rightarrow> string \<Rightarrow> string \<Rightarrow> word64 \<Rightarrow> (item, bool) prog"
where
  "fetch_raw put tv raw T addr = fetch_optional put tv (tv_sizeof tv raw) (tv_sizeof tv T) addr"

text \<open>\<open>readStruct\<close> into a local variable, or into a member with the content \<open>old\<close>.\<close>

definition fetch_over :: "tview \<Rightarrow> byte list \<Rightarrow> word64 \<Rightarrow> (item, bool \<times> byte list) prog" where
  "fetch_over tv old addr = (\<lambda>i. case readStruct (tv_peek tv) addr old (length old) of
       None \<Rightarrow> endless i
     | Some (Inl e, _) \<Rightarrow> (Inl e, i)
     | Some (Inr ok, bs) \<Rightarrow> (Inr (ok, bs), i))"

definition fetch_local :: "tview \<Rightarrow> nat \<Rightarrow> word64 \<Rightarrow> (item, byte list option) prog" where
  "fetch_local tv n addr = bindE (fetch_over tv (replicate n 0) addr)
     (\<lambda>(ok, bs). ret (if ok then Some bs else None))"

text \<open>
  \<open>readStructs\<close> over the elements of a vector, which keep what is not read over. The elements have
  \<open>sz\<close> bytes by their type; \<open>resize\<close> says so.
\<close>

fun readStructsInto ::
  "peek_fn \<Rightarrow> word64 \<Rightarrow> nat \<Rightarrow> byte list list \<Rightarrow> ((exn + bool) \<times> byte list list) option"
where
  "readStructsInto peek addr sz [] = Some (Inr True, [])"
| "readStructsInto peek addr sz (old # olds) = (case readStruct peek addr old sz of
     None \<Rightarrow> None
   | Some (Inr True, out) \<Rightarrow> map_option (\<lambda>(r, outs). (r, out # outs))
       (readStructsInto peek (addr + of_nat sz) sz olds)
   | Some (r, out) \<Rightarrow> Some (r, out # olds))"

definition fetch_structs :: "tview \<Rightarrow> word64 \<Rightarrow> nat \<Rightarrow> (item, bool) prog" where
  "fetch_structs tv addr sz = (\<lambda>i. case readStructsInto (tv_peek tv) addr sz (map (resize 0 sz) (it_more i)) of
       None \<Rightarrow> endless i
     | Some (r, outs) \<Rightarrow> (r, i\<lparr>it_more := outs\<rparr>))"

text \<open>The size or count that another item or the return value holds.\<close>

definition ref_size :: "syscall \<Rightarrow> item_ref \<Rightarrow> nat" where
  "ref_size c ref = unat (case ref of OfParam k \<Rightarrow> it_val (sc_pars c ! k) | OfResult \<Rightarrow> sc_return c)"

section \<open>Pointers to scalars\<close>

definition fetchValue :: "tview \<Rightarrow> nat \<Rightarrow> item_prog" where
  "fetchValue tv w = seqE (updE (put_data None)) (bindE (askE it_val) (\<lambda>p.
     if p = 0 then skipE else voidE (fetch_optional put_data tv w w p)))"

definition PointerToScalar_processData :: "tview \<Rightarrow> nat \<Rightarrow> item_prog" where
  "PointerToScalar_processData tv w = bindE (askE it_type) (\<lambda>t.
     if t = PARAM_IN \<or> t = PARAM_IN_OUT then fetchValue tv w else updE (put_data None))"

definition PointerToScalar_updateData :: "tview \<Rightarrow> nat \<Rightarrow> item_prog" where
  "PointerToScalar_updateData tv w = bindE (askE needsUpdate) (\<lambda>u. if u then fetchValue tv w else skipE)"

definition PointerToScalarInOut_processData :: "tview \<Rightarrow> nat \<Rightarrow> item_prog" where
  "PointerToScalarInOut_processData tv w =
     seqE (PointerToScalar_processData tv w) (updE (\<lambda>i. put_more (it_data i) i))"

definition WaitStatus_updateData :: "tview \<Rightarrow> syscall \<Rightarrow> item_prog" where
  "WaitStatus_updateData tv c = (if hasResultValue c then PointerToScalar_updateData tv 4 else skipE)"

section \<open>Buffers and strings\<close>

definition availableBytes :: "syscall \<Rightarrow> item_ref \<Rightarrow> item \<Rightarrow> nat" where
  "availableBytes c ref i = (if \<not> isOut i \<or> hasResultValue c then ref_size c ref else 0)"

definition fillBuffer :: "tview \<Rightarrow> syscall \<Rightarrow> item_ref \<Rightarrow> item_prog" where
  "fillBuffer tv c ref = bindE (askE (\<lambda>i. min (tv_prefetch tv) (availableBytes c ref i))) (\<lambda>to_fetch.
     seqE (seqE (allocE tv to_fetch) (updE (\<lambda>i. put_data (Some (resize 0 to_fetch (vec i))) i)))
     (if to_fetch = 0 then skipE
      else catchE is_CosmosError
        (\<lambda>i. case readBlob (tv_peek tv) (it_val i) to_fetch to_fetch of
             None \<Rightarrow> endless i
           | Some (r, bs) \<Rightarrow> (r, put_data (Some (bs @ drop (length bs) (vec i))) i))
        (\<lambda>_. updE (put_data (Some [])))))"

definition BufferPointer_processData :: "tview \<Rightarrow> syscall \<Rightarrow> item_ref \<Rightarrow> item_prog" where
  "BufferPointer_processData tv c ref = bindE (askE (\<lambda>i. isOut i \<or> it_val i = 0)) (\<lambda>nothing.
     if nothing then updE (put_data (Some [])) else fillBuffer tv c ref)"

definition BufferPointer_updateData :: "tview \<Rightarrow> syscall \<Rightarrow> item_ref \<Rightarrow> item_prog" where
  "BufferPointer_updateData tv c ref = bindE (askE isIn) (\<lambda>isin.
     if isin then skipE else if sc_hasErrorCode c then skipE else fillBuffer tv c ref)"

text \<open>
  \<open>fetchRemainingData\<close>, which the client calls for a buffer that was fetched in part. The difference
  of the sizes wraps around if the buffer holds more than what is available, and the read then goes
  beyond the buffer.
\<close>

definition BufferPointer_fetchRemainingData :: "tview \<Rightarrow> syscall \<Rightarrow> item_ref \<Rightarrow> item_prog" where
  "BufferPointer_fetchRemainingData tv c ref = bindE (askE (\<lambda>i. (availableBytes c ref i, length (vec i))))
     (\<lambda>(available, old_size). if available = old_size then skipE
        else if available < old_size then raise (Undefined ''write beyond the buffer'')
        else seqE (seqE (allocE tv available) (updE (\<lambda>i. put_data (Some (resize 0 available (vec i))) i)))
          (catchE is_std_exception
            (\<lambda>i. case readBlob (tv_peek tv) (it_val i + of_nat old_size)
                    (available - old_size) (available - old_size) of
                None \<Rightarrow> endless i
              | Some (r, bs) \<Rightarrow> (r, put_data (Some (take old_size (vec i) @ bs @
                  drop (old_size + length bs) (vec i))) i))
            (\<lambda>e. seqE (updE (\<lambda>i. put_data (Some (resize 0 old_size (vec i))) i)) (raise e))))"

definition StringData_fetch :: "tview \<Rightarrow> nat \<Rightarrow> item_prog" where
  "StringData_fetch tv mx = catchE is_std_exception
     (\<lambda>i. case readString (tv_peek tv) (it_val i) mx of
         None \<Rightarrow> endless i
       | Some (r, str) \<Rightarrow> (r, put_data (Some (map of_char str)) i))
     (\<lambda>_. updE (put_data None))"

definition StringData_processData :: "tview \<Rightarrow> item_prog" where
  "StringData_processData tv = bindE (askE isOut) (\<lambda>isout.
     if \<not> isout then StringData_fetch tv SIZE_MAX else updE (put_data None))"

definition StringData_updateData :: "tview \<Rightarrow> syscall \<Rightarrow> item_prog" where
  "StringData_updateData tv c = (if hasResultValue c then StringData_fetch tv SIZE_MAX else skipE)"

definition StringBuffer_updateData :: "tview \<Rightarrow> syscall \<Rightarrow> item_ref \<Rightarrow> item_prog" where
  "StringBuffer_updateData tv c ref =
     (if hasResultValue c then StringData_fetch tv (ref_size c ref) else skipE)"

text \<open>The loop that reads one string per address of an argument vector.\<close>

primrec fetch_strings :: "tview \<Rightarrow> nat list \<Rightarrow> item_prog" where
  "fetch_strings tv [] = skipE"
| "fetch_strings tv (a # as) = seqE
     (\<lambda>i. case readString (tv_peek tv) (of_nat a) SIZE_MAX of
         None \<Rightarrow> endless i
       | Some (r, str) \<Rightarrow> (map_sum id (\<lambda>_. ()) r, i\<lparr>it_more := it_more i @ [map of_char str]\<rparr>))
     (fetch_strings tv as)"

definition fetchPointers :: "tview \<Rightarrow> nat \<Rightarrow> item_prog" where
  "fetchPointers tv isz = bindE (askE it_val) (\<lambda>array_start.
     seqE (updE (\<lambda>i. i\<lparr>it_more := []\<rparr>))
     (if array_start = 0 then skipE
      else bindE (\<lambda>i. case readVector (tv_peek tv) isz array_start SIZE_MAX True of
             None \<Rightarrow> endless i
           | Some (Inl e, _) \<Rightarrow> (Inl e, i)
           | Some (Inr _, addrs) \<Rightarrow> (Inr addrs, i))
        (fetch_strings tv)))"

definition StringArrayData_processData :: "tview \<Rightarrow> syscall \<Rightarrow> item_prog" where
  "StringArrayData_processData tv c =
     (if is32BitEmulationABI (tv_arch tv) c then fetchPointers tv 4 else fetchPointers tv 8)"

section \<open>Times\<close>

text \<open>
  \<open>SocketCallCommon::translatedSysCallNr\<close>: the sub-calls of socketcall(2) in the numbering of the
  kernel, and the system call each of them stands for.
\<close>

definition translatedSysCallNr :: "nat \<Rightarrow> sysnr option" where
  "translatedSysCallNr call = map_of
     [(1, SYS_SOCKET), (2, SYS_BIND), (3, SYS_CONNECT), (4, SYS_LISTEN), (5, SYS_ACCEPT),
      (6, SYS_GETSOCKNAME), (7, SYS_GETPEERNAME), (8, SYS_SOCKETPAIR), (11, SYS_SENDTO),
      (12, SYS_RECVFROM), (13, SYS_SHUTDOWN), (14, SYS_SETSOCKOPT), (15, SYS_GETSOCKOPT),
      (16, SYS_SENDMSG), (17, SYS_RECVMSG), (18, SYS_ACCEPT4), (19, SYS_RECVMMSG),
      (20, SYS_SENDMMSG)] call"

definition TimeSpec_needTime32Conversion :: "arch_flags \<Rightarrow> syscall \<Rightarrow> bool" where
  "TimeSpec_needTime32Conversion a c =
     (if \<not> usesTime32 a c then False
      else case (if sc_nr c = SYS_SOCKETCALL then translatedSysCallNr (as_uint (it_val (sc_pars c ! 0)))
                 else Some (sc_nr c)) of
          None \<Rightarrow> False
        | Some nr \<Rightarrow> nr \<in> set [SYS_CLOCK_NANOSLEEP, SYS_FUTEX, SYS_NANOSLEEP, SYS_PSELECT6, SYS_PPOLL,
            SYS_RECVMMSG])"

definition TimeSpec_fetch :: "(byte list option \<Rightarrow> item \<Rightarrow> item) \<Rightarrow> tview \<Rightarrow> syscall \<Rightarrow> item_prog" where
  "TimeSpec_fetch put tv c = bindE (askE it_val) (\<lambda>p.
     if TimeSpec_needTime32Conversion (tv_arch tv) c
     then bindE (fetch_local tv 8 p) (\<lambda>ts32. updE (put (map_option
         (\<lambda>bs. zero_extend (take 4 bs) @ zero_extend (drop 4 bs)) ts32)))
     else voidE (fetch_optional put tv 16 16 p))"

definition TimeSpecParameter_processData :: "tview \<Rightarrow> syscall \<Rightarrow> item_prog" where
  "TimeSpecParameter_processData tv c = bindE (askE isOut) (\<lambda>isout.
     if isout then updE (put_data None) else TimeSpec_fetch put_data tv c)"

definition TimeSpecParameter_updateData :: "tview \<Rightarrow> syscall \<Rightarrow> item_prog" where
  "TimeSpecParameter_updateData tv c = (if hasResultValue c then TimeSpec_fetch put_data tv c else skipE)"

definition TimeSpecInOut_processData :: "tview \<Rightarrow> syscall \<Rightarrow> item_prog" where
  "TimeSpecInOut_processData tv c = seqE (updE (put_more None)) (TimeSpecParameter_processData tv c)"

definition TimeSpecInOut_updateData :: "tview \<Rightarrow> syscall \<Rightarrow> item_prog" where
  "TimeSpecInOut_updateData tv c = TimeSpec_fetch put_more tv c"

definition RemainingTimeSpec_updateData :: "tview \<Rightarrow> syscall \<Rightarrow> item_prog" where
  "RemainingTimeSpec_updateData tv c = (case sc_error c of
     None \<Rightarrow> skipE
   | Some e \<Rightarrow> if \<not> hasErrorCode e \<or> er_errno e \<noteq> Some EINTR then skipE
       else TimeSpecParameter_updateData tv c)"

text \<open>For system calls other than those on socket options.\<close>

definition TimeVal_needTime32Conversion :: "arch_flags \<Rightarrow> syscall \<Rightarrow> bool" where
  "TimeVal_needTime32Conversion a c \<longleftrightarrow>
     usesTime32 a c \<and> sc_nr c \<in> set [SYS_SELECT, SYS_NEWSELECT, SYS_PSELECT6]"

definition TimeVal_fetch :: "(byte list option \<Rightarrow> item \<Rightarrow> item) \<Rightarrow> tview \<Rightarrow> syscall \<Rightarrow> item_prog" where
  "TimeVal_fetch put tv c = bindE (askE it_val) (\<lambda>p.
     if TimeVal_needTime32Conversion (tv_arch tv) c
     then bindE (fetch_local tv 8 p) (\<lambda>tv32. updE (put (map_option
         (\<lambda>bs. sign_extend4 (take 4 bs) @ sign_extend4 (drop 4 bs)) tv32)))
     else voidE (fetch_optional put tv 16 16 p))"

definition TimeValParameter_processData :: "tview \<Rightarrow> syscall \<Rightarrow> item_prog" where
  "TimeValParameter_processData tv c = bindE (askE isOut) (\<lambda>isout.
     if isout then updE (put_data None) else TimeVal_fetch put_data tv c)"

definition TimeValParameter_updateData :: "tview \<Rightarrow> syscall \<Rightarrow> item_prog" where
  "TimeValParameter_updateData tv c = (if hasResultValue c then TimeVal_fetch put_data tv c else skipE)"

definition TimeValInOut_processData :: "tview \<Rightarrow> syscall \<Rightarrow> item_prog" where
  "TimeValInOut_processData tv c = seqE (updE (put_more None)) (TimeValParameter_processData tv c)"

definition TimeValInOut_updateData :: "tview \<Rightarrow> syscall \<Rightarrow> item_prog" where
  "TimeValInOut_updateData tv c = TimeVal_fetch put_more tv c"

section \<open>clone3\<close>

text \<open>
  \<open>CloneArgs\<close>: \<open>it_more\<close> is the array of thread IDs, the pid file descriptor and the ID of the child.
  The offsets are those of \<open>struct clone_args\<close> of the kernel.
\<close>

definition no_id :: "byte list" where
  "no_id = replicate 4 0xFF"

definition CloneArgs_reset :: "item \<Rightarrow> item" where
  "CloneArgs_reset i = i\<lparr>it_data := None, it_more := [[], no_id, no_id]\<rparr>"

definition CloneArgs_verifySize :: "tview \<Rightarrow> syscall \<Rightarrow> exn + bool" where
  "CloneArgs_verifySize tv c =
     (if sc_nr c = SYS_CLONE3
      then (case sc_info c of
          None \<Rightarrow> Inl (Undefined ''dereference of a null pointer'')
        | Some info \<Rightarrow> if isEntry info then Inr (tv_sizeof tv ''cosmos::CloneArgs'' \<le> unat (entry_args info ! 1))
            else Inl (Undefined ''dereference of an empty optional''))
      else Inr False)"

definition CloneArgs_tids :: "tview \<Rightarrow> item_prog" where
  "CloneArgs_tids tv = bindE (askE vec) (\<lambda>args. let num_tids = field 72 8 args in
     if num_tids = 0 then skipE
     else seqE (allocE tv (4 * num_tids))
       (catchE is_std_exception
         (\<lambda>i. case readBlob (tv_peek tv) (field_ptr 64 8 args) (4 * num_tids) (4 * num_tids) of
             None \<Rightarrow> endless i
           | Some (r, bs) \<Rightarrow> (r, i\<lparr>it_more := (it_more i)[0 := bs]\<rparr>))
         (\<lambda>_. updE (\<lambda>i. i\<lparr>it_more := (it_more i)[0 := []]\<rparr>))))"

definition CloneArgs_processData :: "tview \<Rightarrow> syscall \<Rightarrow> item_prog" where
  "CloneArgs_processData tv c = seqE (updE CloneArgs_reset)
     (bindE (liftE (CloneArgs_verifySize tv c)) (\<lambda>size_ok.
        if \<not> size_ok then skipE
        else bindE (bindE (askE it_val) (fetch_raw put_data tv ''cosmos::CloneArgs'' ''cosmos::CloneArgs''))
          (\<lambda>ok. if \<not> ok then skipE else CloneArgs_tids tv)))"

definition CloneArgs_updateData :: "tview \<Rightarrow> syscall \<Rightarrow> item_prog" where
  "CloneArgs_updateData tv c = bindE (askE id) (\<lambda>i. case it_data i of
     None \<Rightarrow> skipE
   | Some args \<Rightarrow>
       if \<not> hasResultValue c then skipE
       else seqE
         (if bit (field_ptr 0 8 args) 12
          then bindE (fetch_over tv (it_more i ! 1) (field_ptr 8 8 args))
            (\<lambda>(ok, bs). updE (\<lambda>i. i\<lparr>it_more := (it_more i)[1 := bs]\<rparr>))
          else skipE)
         (if bit (field_ptr 0 8 args) 20
          then bindE (fetch_over tv (it_more i ! 2) (field_ptr 24 8 args))
            (\<lambda>(ok, bs). updE (\<lambda>i. i\<lparr>it_more := (it_more i)[2 := bs]\<rparr>))
          else skipE))"

section \<open>Resource limits and usage, file status\<close>

definition ResourceLimit_isCompatSyscall :: "syscall \<Rightarrow> bool" where
  "ResourceLimit_isCompatSyscall c \<longleftrightarrow> sc_nr c \<noteq> SYS_PRLIMIT64 \<and> sc_abi c = ABI_I386"

text \<open>A 32 bit limit as a 64 bit one: infinity stays infinity.\<close>

definition widen_limit :: "byte list \<Rightarrow> byte list" where
  "widen_limit bs = (if bs = replicate 4 0xFF then replicate 8 0xFF else zero_extend bs)"

definition ResourceLimit_updateData :: "tview \<Rightarrow> syscall \<Rightarrow> item_prog" where
  "ResourceLimit_updateData tv c = bindE (askE id) (\<lambda>i.
     if isOut i \<and> \<not> hasResultValue c then skipE
     else if ResourceLimit_isCompatSyscall c
     then bindE (fetch_local tv 8 (it_val i)) (\<lambda>rlim. updE (put_data (map_option
         (\<lambda>bs. widen_limit (take 4 bs) @ widen_limit (drop 4 bs)) rlim)))
     else bindE (fetch_local tv 16 (it_val i)) (\<lambda>rlim. updE (put_data rlim)))"

definition ResourceLimit_processData :: "tview \<Rightarrow> syscall \<Rightarrow> item_prog" where
  "ResourceLimit_processData tv c = bindE (askE isOut) (\<lambda>isout.
     if isout then updE (put_data None) else ResourceLimit_updateData tv c)"

definition ResourceUsage_updateData :: "tview \<Rightarrow> syscall \<Rightarrow> item_prog" where
  "ResourceUsage_updateData tv c =
     (if \<not> hasResultValue c then skipE
      else voidE (bindE (askE it_val) (fetch_raw put_data tv ''struct rusage'' ''Usage'')))"

text \<open>\<open>fetch_and_copy\<close> for a structure of \<open>n\<close> bytes: nothing happens if it cannot be read.\<close>

definition fetch_and_copy :: "tview \<Rightarrow> nat \<Rightarrow> item_prog" where
  "fetch_and_copy tv n = bindE (bindE (askE it_val) (fetch_local tv n))
     (\<lambda>st. case st of None \<Rightarrow> skipE | Some bs \<Rightarrow> updE (put_data (Some bs)))"

definition isOldStat :: "syscall \<Rightarrow> bool" where
  "isOldStat c \<longleftrightarrow> sc_nr c \<in> set [SYS_OLDSTAT, SYS_OLDLSTAT, SYS_OLDFSTAT]"

definition isStat64 :: "syscall \<Rightarrow> bool" where
  "isStat64 c \<longleftrightarrow> sc_nr c \<in> set [SYS_STAT64, SYS_LSTAT64, SYS_FSTAT64, SYS_FSTATAT64]"

definition isRegularStat :: "syscall \<Rightarrow> bool" where
  "isRegularStat c \<longleftrightarrow> sc_nr c \<in> set [SYS_STAT, SYS_LSTAT, SYS_FSTAT]"

definition StatParameter_updateData :: "tview \<Rightarrow> syscall \<Rightarrow> item_prog" where
  "StatParameter_updateData tv c =
     (if sc_abi c \<in> {ABI_X86_64, ABI_X32, ABI_AARCH64}
      then voidE (bindE (askE it_val) (fetch_raw put_data tv ''struct stat'' ''cosmos::FileStatus''))
      else if sc_abi c = ABI_I386
      then if isOldStat c then fetch_and_copy tv 32
        else if isStat64 c then fetch_and_copy tv 96
        else if isRegularStat c then fetch_and_copy tv 64
        else raise (RuntimeError ''unexpected syscall nr for struct stat'')
      else raise (RuntimeError ''unexpected ABI for struct stat''))"

definition isStatFS64 :: "syscall \<Rightarrow> bool" where
  "isStatFS64 c \<longleftrightarrow> sc_nr c \<in> set [SYS_FSTATFS64, SYS_STATFS64]"

definition isRegularStatFS :: "syscall \<Rightarrow> bool" where
  "isRegularStatFS c \<longleftrightarrow> sc_nr c \<in> set [SYS_FSTATFS, SYS_STATFS]"

definition StatFSParameter_updateData :: "tview \<Rightarrow> syscall \<Rightarrow> item_prog" where
  "StatFSParameter_updateData tv c =
     (let native = voidE (bindE (askE it_val)
            (fetch_raw put_data tv ''struct statfs'' ''cosmos::FileSystemStatus''));
          emulated = is32BitEmulationABI (tv_arch tv) c in
      if sc_abi c \<in> {ABI_X86_64, ABI_X32, ABI_AARCH64} then native
      else if sc_abi c = ABI_I386
      then if \<not> (arch_X86_64 (tv_arch tv) \<or> arch_I386 (tv_arch tv)) then skipE
        else if isStatFS64 c then if emulated then fetch_and_copy tv 84 else native
        else if isRegularStatFS c then fetch_and_copy tv 64
        else raise (RuntimeError ''unexpected syscall nr for struct statfs'')
      else raise (RuntimeError ''unexpected ABI for struct statfs''))"

section \<open>fcntl\<close>

abbreviation (input) F_GETLK :: int where "F_GETLK \<equiv> 5"

definition fcntl_operation :: "syscall \<Rightarrow> int" where
  "fcntl_operation c = as_int (it_val (sc_pars c ! 1))"

definition isLock64 :: "int \<Rightarrow> bool" where
  "isLock64 oper \<longleftrightarrow> oper \<in> set [12, 13, 14]"

definition isOFDLock :: "int \<Rightarrow> bool" where
  "isOFDLock oper \<longleftrightarrow> oper \<in> set [36, 37, 38]"

text \<open>Which structure \<open>FLockParameter\<close> reads: its name, or \<open>None\<close> where it gives up.\<close>

definition flock_type :: "syscall \<Rightarrow> string option" where
  "flock_type c =
     (if sc_abi c \<noteq> ABI_I386 then Some ''kernel::flock64''
      else if sc_class c \<noteq> ''FcntlSystemCall'' then None
      else let is_ofd_lock = isOFDLock (fcntl_operation c); is_lock64 = isLock64 (fcntl_operation c) in
        if \<not> is_ofd_lock \<and> sc_nr c \<noteq> SYS_FCNTL64
        then if is_lock64 then None else Some ''kernel::flock32''
        else if is_lock64 \<or> is_ofd_lock then Some ''kernel::flock64_i386''
        else Some ''kernel::flock32'')"

text \<open>The guard empties the lock on every way out on which no data was assigned.\<close>

definition FLockParameter_processData :: "tview \<Rightarrow> syscall \<Rightarrow> item_prog" where
  "FLockParameter_processData tv c = (case flock_type c of
     None \<Rightarrow> updE (put_data None)
   | Some T \<Rightarrow> bindE (catchE is_std_exception (bindE (askE it_val) (fetch_local tv (tv_sizeof tv T)))
        (\<lambda>e. seqE (updE (put_data None)) (raise e)))
      (\<lambda>lock. updE (put_data lock)))"

definition FLockParameter_updateData :: "tview \<Rightarrow> syscall \<Rightarrow> item_prog" where
  "FLockParameter_updateData tv c =
     (if sc_class c \<noteq> ''FcntlSystemCall'' \<or> fcntl_operation c \<noteq> F_GETLK then skipE
      else FLockParameter_processData tv c)"

definition ExtFileDescOwner_processData :: "tview \<Rightarrow> item_prog" where
  "ExtFileDescOwner_processData tv =
     voidE (bindE (askE it_val) (fetch_raw put_data tv ''struct f_owner_ex'' ''cosmos::FileDescriptor::Owner''))"

text \<open>Without data the hint is \<open>LIFE_NOT_SET\<close>, which is 0.\<close>

definition ReadWriteHint_processData :: "tview \<Rightarrow> item_prog" where
  "ReadWriteHint_processData tv = bindE (bindE (askE it_val) (fetch_local tv 8)) (\<lambda>native_hint.
     updE (put_data (Some (case native_hint of Some bs \<Rightarrow> bs | None \<Rightarrow> replicate 8 0))))"

section \<open>Argument structures of old system calls\<close>

text \<open>
  \<open>it_more\<close> is \<open>m_valid\<close>, as an empty list or not; the members keep their old values when the
  structure cannot be read. A member that was never set counts as 0, also the descriptor of
  \<open>OldMmapArgs\<close>, which the code leaves uninitialised.
\<close>

definition old_args_processData :: "tview \<Rightarrow> nat \<Rightarrow> item_prog" where
  "old_args_processData tv n = bindE (bindE (askE it_val) (fetch_local tv n)) (\<lambda>args. case args of
     None \<Rightarrow> updE (\<lambda>i. i\<lparr>it_more := []\<rparr>)
   | Some bs \<Rightarrow> updE (\<lambda>i. i\<lparr>it_data := Some bs, it_more := [[]]\<rparr>))"

section \<open>Signals\<close>

text \<open>The entry stop of the tracee is when the call works on entry information.\<close>

definition entering :: "syscall \<Rightarrow> bool" where
  "entering c = (case sc_info c of Some info \<Rightarrow> isEntry info | None \<Rightarrow> False)"

definition SigActionParameter_processData :: "tview \<Rightarrow> syscall \<Rightarrow> item_prog" where
  "SigActionParameter_processData tv c = bindE (askE id) (\<lambda>i.
     if isOut i \<and> entering c then updE (put_data None)
     else if sc_nr c = SYS_RT_SIGACTION
     then bindE (fetch_local tv ((if is32BitEmulationABI (tv_arch tv) c then 12 else 24) +
             tv_sizeof tv ''sigset_t'') (it_val i)) (\<lambda>act. updE (put_data act))
     else if sc_nr c = SYS_SIGACTION
     then bindE (fetch_local tv 16 (it_val i)) (\<lambda>act. updE (put_data act))
     else updE (put_data None))"

definition usesArgPack :: "syscall \<Rightarrow> bool" where
  "usesArgPack c \<longleftrightarrow> sc_nr c \<in> set [SYS_PSELECT6, SYS_PSELECT6_TIME64]"

definition SigSetParameter_processData :: "tview \<Rightarrow> syscall \<Rightarrow> item_prog" where
  "SigSetParameter_processData tv c = bindE (askE id) (\<lambda>i.
     if entering c \<and> isOut i then skipE
     else if sc_nr c = SYS_SIGPROCMASK
     then bindE (fetch_local tv 4 (it_val i)) (\<lambda>mask. case mask of
          None \<Rightarrow> skipE
        | Some bs \<Rightarrow> updE (put_data (Some (bs @ replicate (tv_sizeof tv ''sigset_t'' - 4) 0))))
     else if usesArgPack c
     then (let w = (if is32BitEmulationABI (tv_arch tv) c then 4 else 8) in
       bindE (fetch_local tv (2 * w) (it_val i)) (\<lambda>pack. case pack of
          None \<Rightarrow> skipE
        | Some bs \<Rightarrow> bindE (fetch_raw put_data tv ''sigset_t'' ''cosmos::SigSet'' (field_ptr 0 w bs))
            (\<lambda>ok. if ok then updE (put_more (Some (drop w bs))) else skipE)))
     else voidE (fetch_raw put_data tv ''sigset_t'' ''cosmos::SigSet'' (it_val i)))"

definition SigInfo_updateData :: "tview \<Rightarrow> syscall \<Rightarrow> item_prog" where
  "SigInfo_updateData tv c =
     (if \<not> hasResultValue c then skipE
      else if is32BitEmulationABI (tv_arch tv) c then fetch_and_copy tv 128
      else voidE (bindE (askE it_val) (fetch_raw put_data tv ''siginfo_t'' ''siginfo_t'')))"

text \<open>\<open>RSeqParameter\<close>: the size is the value of the second parameter, an \<open>uint32_t\<close>.\<close>

definition RSeqParameter_updateData :: "tview \<Rightarrow> syscall \<Rightarrow> item_prog" where
  "RSeqParameter_updateData tv c =
     (if sc_class c \<noteq> ''RSeqSystemCall'' then raise (StdError ''bad_cast'')
      else if \<not> hasResultValue c then skipE
      else let n = as_uint (it_val (sc_pars c ! 1)) in seqE (allocE tv n)
        (catchE is_std_exception
          (\<lambda>i. case readBlob (tv_peek tv) (it_val i) n n of
              None \<Rightarrow> endless i
            | Some (r, bs) \<Rightarrow> (r, put_data (Some bs) i))
          (\<lambda>_. updE (put_data None))))"

section \<open>Pipes, vectors and sets of descriptors\<close>

definition PipeEnds_updateData :: "tview \<Rightarrow> item_prog" where
  "PipeEnds_updateData tv = bindE (bindE (askE it_val) (fetch_local tv 8)) (\<lambda>ends. updE (put_data ends))"

definition empty_iobuf :: iobuf where
  "empty_iobuf = \<lparr>ib_base = 0, ib_len = 0, ib_filled = 0, ib_data = []\<rparr>"

text \<open>\<open>IOVectorBase::processData\<close>: an element of the vector is 2 words of 4 or 8 bytes.\<close>

definition IOVectorBase_processData :: "tview \<Rightarrow> syscall \<Rightarrow> nat \<Rightarrow> item_prog" where
  "IOVectorBase_processData tv c cnt =
     (let n = ref_size c (OfParam cnt); w = (if is32BitEmulationABI (tv_arch tv) c then 4 else 8) in
      seqsE [
        allocE tv (48 * n),
        updE (\<lambda>i. i\<lparr>it_bufs := resize empty_iobuf n (it_bufs i)\<rparr>),
        allocE tv (2 * w * n),
        updE (\<lambda>i. i\<lparr>it_more := replicate n (replicate (2 * w) 0)\<rparr>),
        bindE (bindE (askE it_val) (\<lambda>p. fetch_structs tv p (2 * w))) (\<lambda>ok.
          updE (\<lambda>i. i\<lparr>it_bufs := (if \<not> ok then [] else map (\<lambda>bs.
             \<lparr>ib_base = field_ptr 0 w bs, ib_len = field w w bs, ib_filled = 0, ib_data = []\<rparr>)
             (it_more i))\<rparr>))])"

text \<open>\<open>fetchBuffer\<close> on the buffer at position \<open>k\<close>.\<close>

definition fetchBuffer :: "tview \<Rightarrow> nat \<Rightarrow> nat \<Rightarrow> item_prog" where
  "fetchBuffer tv k left_to_fetch = bindE (askE (\<lambda>i. it_bufs i ! k)) (\<lambda>b.
     if ib_len b = 0 then skipE
     else let filled = min left_to_fetch (ib_len b); to_fetch = min (tv_prefetch tv) filled in
       seqE (updE (\<lambda>i. i\<lparr>it_bufs := (it_bufs i)[k := b\<lparr>ib_filled := filled\<rparr>]\<rparr>))
       (seqE (allocE tv to_fetch)
       (seqE (updE (\<lambda>i. i\<lparr>it_bufs := (it_bufs i)[k := b\<lparr>ib_filled := filled,
                  ib_data := resize 0 to_fetch (ib_data b)\<rparr>]\<rparr>))
         (catchE is_CosmosError
           (\<lambda>i. case readBlob (tv_peek tv) (ib_base b) to_fetch to_fetch of
               None \<Rightarrow> endless i
             | Some (r, bs) \<Rightarrow> (r, i\<lparr>it_bufs := (it_bufs i)[k := b\<lparr>ib_filled := filled,
                  ib_data := bs @ drop (length bs) (resize 0 to_fetch (ib_data b))\<rparr>]\<rparr>))
           (\<lambda>_. updE (\<lambda>i. i\<lparr>it_bufs := (it_bufs i)[k := b\<lparr>ib_filled := filled, ib_data := []\<rparr>]\<rparr>))))))"

primrec ReadVector_loop :: "tview \<Rightarrow> nat list \<Rightarrow> nat \<Rightarrow> item_prog" where
  "ReadVector_loop tv [] left_to_fetch = skipE"
| "ReadVector_loop tv (k # ks) left_to_fetch =
     (if left_to_fetch = 0 then skipE
      else seqE (fetchBuffer tv k left_to_fetch)
        (bindE (askE (\<lambda>i. ib_filled (it_bufs i ! k))) (\<lambda>filled. ReadVector_loop tv ks (left_to_fetch - filled))))"

definition ReadVector_updateData :: "tview \<Rightarrow> syscall \<Rightarrow> item_prog" where
  "ReadVector_updateData tv c =
     (if sc_hasErrorCode c then skipE
      else bindE (askE (\<lambda>i. [0..<length (it_bufs i)])) (\<lambda>ks. ReadVector_loop tv ks (ref_size c OfResult)))"

definition WriteVector_processData :: "tview \<Rightarrow> syscall \<Rightarrow> nat \<Rightarrow> item_prog" where
  "WriteVector_processData tv c cnt = seqE (IOVectorBase_processData tv c cnt)
     (bindE (askE (\<lambda>i. [0..<length (it_bufs i)])) (\<lambda>ks. forE ks (\<lambda>k.
        bindE (askE (\<lambda>i. ib_len (it_bufs i ! k))) (fetchBuffer tv k))))"

definition FDSet_processData :: "tview \<Rightarrow> item_prog" where
  "FDSet_processData tv = seqE (updE (put_more None)) (bindE (askE it_val) (\<lambda>p.
     if p = 0 then updE (put_data None) else voidE (fetch_optional put_data tv 128 128 p)))"

definition FDSet_updateData :: "tview \<Rightarrow> syscall \<Rightarrow> item_prog" where
  "FDSet_updateData tv c = bindE (askE id) (\<lambda>i.
     if it_data i = None then skipE
     else if \<not> hasResultValue c then skipE
     else voidE (fetch_optional put_more tv 128 128 (it_val i)))"

definition EPollEventSettings_processData :: "tview \<Rightarrow> item_prog" where
  "EPollEventSettings_processData tv =
     voidE (bindE (askE it_val) (fetch_raw put_data tv ''struct epoll_event'' ''struct epoll_event''))"

text \<open>A negative count converts to a size beyond what any vector can hold.\<close>

definition EPollEventReport_updateData :: "tview \<Rightarrow> syscall \<Rightarrow> item_prog" where
  "EPollEventReport_updateData tv c =
     (if \<not> hasResultValue c then skipE
      else let num_events = as_int (sc_return c); sz = tv_sizeof tv ''struct epoll_event'' in
        if num_events < 0 then raise (StdError ''length_error'')
        else seqsE [
          allocE tv (sz * nat num_events),
          updE (\<lambda>i. i\<lparr>it_more := resize (replicate sz 0) (nat num_events) (it_more i)\<rparr>),
          bindE (bindE (askE it_val) (\<lambda>p. fetch_structs tv p sz))
            (\<lambda>ok. if \<not> ok then updE (\<lambda>i. i\<lparr>it_more := []\<rparr>) else skipE)])"

definition PollFDs_processData :: "tview \<Rightarrow> syscall \<Rightarrow> nat \<Rightarrow> item_prog" where
  "PollFDs_processData tv c cnt =
     (let n = ref_size c (OfParam cnt); sz = tv_sizeof tv ''struct pollfd'' in seqsE [
        allocE tv (sz * n),
        updE (\<lambda>i. i\<lparr>it_more := resize (replicate sz 0) n (it_more i)\<rparr>),
        bindE (bindE (askE it_val) (\<lambda>p. fetch_structs tv p sz))
          (\<lambda>ok. if \<not> ok then updE (\<lambda>i. i\<lparr>it_more := []\<rparr>) else skipE)])"

definition PollFDs_updateData :: "tview \<Rightarrow> item_prog" where
  "PollFDs_updateData tv =
     voidE (bindE (askE it_val) (\<lambda>p. fetch_structs tv p (tv_sizeof tv ''struct pollfd'')))"

section \<open>The virtual methods\<close>

primrec process_kind :: "tview \<Rightarrow> syscall \<Rightarrow> item_kind \<Rightarrow> item_prog" where
  "process_kind tv c (K_Value _) = skipE"
| "process_kind tv c (K_Scalar w) = PointerToScalar_processData tv w"
| "process_kind tv c (K_ScalarInOut w) = PointerToScalarInOut_processData tv w"
| "process_kind tv c K_WaitStatus = PointerToScalar_processData tv 4"
| "process_kind tv c (K_Buffer r) = BufferPointer_processData tv c r"
| "process_kind tv c K_String = StringData_processData tv"
| "process_kind tv c (K_StringBuffer r) = StringData_processData tv"
| "process_kind tv c K_StringArray = StringArrayData_processData tv c"
| "process_kind tv c K_TimeSpec = TimeSpecParameter_processData tv c"
| "process_kind tv c K_TimeSpecInOut = TimeSpecInOut_processData tv c"
| "process_kind tv c K_RemainingTimeSpec = TimeSpecParameter_processData tv c"
| "process_kind tv c K_TimeVal = TimeValParameter_processData tv c"
| "process_kind tv c K_TimeValInOut = TimeValInOut_processData tv c"
| "process_kind tv c K_CloneArgs = CloneArgs_processData tv c"
| "process_kind tv c K_ResourceLimit = ResourceLimit_processData tv c"
| "process_kind tv c K_ResourceUsage = updE (put_data None)"
| "process_kind tv c K_Stat = updE (put_data None)"
| "process_kind tv c K_StatFS = updE (put_data None)"
| "process_kind tv c K_FLock = FLockParameter_processData tv c"
| "process_kind tv c K_ExtFileDescOwner = ExtFileDescOwner_processData tv"
| "process_kind tv c K_ReadWriteHint = ReadWriteHint_processData tv"
| "process_kind tv c K_OldMmapArgs = old_args_processData tv 24"
| "process_kind tv c K_OldSelectArgs = old_args_processData tv 20"
| "process_kind tv c K_SigAction = SigActionParameter_processData tv c"
| "process_kind tv c K_SigSet = SigSetParameter_processData tv c"
| "process_kind tv c K_SigInfo = updE (put_data None)"
| "process_kind tv c K_RSeq = updE (put_data None)"
| "process_kind tv c K_PipeEnds = updE (put_data None)"
| "process_kind tv c (K_ReadVector n) = IOVectorBase_processData tv c n"
| "process_kind tv c (K_WriteVector n) = WriteVector_processData tv c n"
| "process_kind tv c K_FDSet = FDSet_processData tv"
| "process_kind tv c K_EPollEventSettings = EPollEventSettings_processData tv"
| "process_kind tv c K_EPollEventReport = updE (\<lambda>i. i\<lparr>it_more := []\<rparr>)"
| "process_kind tv c (K_PollFDs n) = PollFDs_processData tv c n"

text \<open>A class without an \<open>updateData\<close> of its own calls \<open>processData\<close>.\<close>

fun update_kind :: "tview \<Rightarrow> syscall \<Rightarrow> item_kind \<Rightarrow> item_prog" where
  "update_kind tv c (K_Scalar w) = PointerToScalar_updateData tv w"
| "update_kind tv c (K_ScalarInOut w) = PointerToScalar_updateData tv w"
| "update_kind tv c K_WaitStatus = WaitStatus_updateData tv c"
| "update_kind tv c (K_Buffer r) = BufferPointer_updateData tv c r"
| "update_kind tv c K_String = StringData_updateData tv c"
| "update_kind tv c (K_StringBuffer r) = StringBuffer_updateData tv c r"
| "update_kind tv c K_TimeSpec = TimeSpecParameter_updateData tv c"
| "update_kind tv c K_TimeSpecInOut = TimeSpecInOut_updateData tv c"
| "update_kind tv c K_RemainingTimeSpec = RemainingTimeSpec_updateData tv c"
| "update_kind tv c K_TimeVal = TimeValParameter_updateData tv c"
| "update_kind tv c K_TimeValInOut = TimeValInOut_updateData tv c"
| "update_kind tv c K_CloneArgs = CloneArgs_updateData tv c"
| "update_kind tv c K_ResourceLimit = ResourceLimit_updateData tv c"
| "update_kind tv c K_ResourceUsage = ResourceUsage_updateData tv c"
| "update_kind tv c K_Stat = StatParameter_updateData tv c"
| "update_kind tv c K_StatFS = StatFSParameter_updateData tv c"
| "update_kind tv c K_FLock = FLockParameter_updateData tv c"
| "update_kind tv c K_SigInfo = SigInfo_updateData tv c"
| "update_kind tv c K_RSeq = RSeqParameter_updateData tv c"
| "update_kind tv c K_PipeEnds = PipeEnds_updateData tv"
| "update_kind tv c (K_ReadVector _) = ReadVector_updateData tv c"
| "update_kind tv c K_FDSet = FDSet_updateData tv c"
| "update_kind tv c K_EPollEventReport = EPollEventReport_updateData tv c"
| "update_kind tv c (K_PollFDs _) = PollFDs_updateData tv"
| "update_kind tv c k = process_kind tv c k"

definition processData :: "tview \<Rightarrow> syscall \<Rightarrow> item_prog" where
  "processData tv c = bindE (askE it_kind) (process_kind tv c)"

definition updateData :: "tview \<Rightarrow> syscall \<Rightarrow> item_prog" where
  "updateData tv c = bindE (askE it_kind) (update_kind tv c)"

text \<open>A method on the parameter, or on the other member, at position \<open>n\<close> of the call.\<close>

definition on_par :: "(syscall \<Rightarrow> item_prog) \<Rightarrow> nat \<Rightarrow> (syscall, unit) prog" where
  "on_par m n = (\<lambda>s. case m s (sc_pars s ! n) of (r, i) \<Rightarrow> (r, s\<lparr>sc_pars := (sc_pars s)[n := i]\<rparr>))"

definition on_member :: "(syscall \<Rightarrow> item_prog) \<Rightarrow> nat \<Rightarrow> (syscall, unit) prog" where
  "on_member m n = (\<lambda>s. case m s (sc_members s ! n) of (r, i) \<Rightarrow> (r, s\<lparr>sc_members := (sc_members s)[n := i]\<rparr>))"

text \<open>\<open>SystemCallItem::fill\<close> on a member that is not a parameter at the moment.\<close>

definition fill_member :: "tview \<Rightarrow> nat \<Rightarrow> word64 \<Rightarrow> (syscall, unit) prog" where
  "fill_member tv n w = on_member (\<lambda>c. seqE (updE (\<lambda>i. i\<lparr>it_val := w\<rparr>)) (bindE (askE it_unused)
     (\<lambda>unused. if \<not> unused then processData tv c else skipE))) n"

definition with_items :: "call_class \<Rightarrow> call_class" where
  "with_items cc = cc\<lparr>cc_process := (\<lambda>tv. on_par (processData tv)), cc_update := (\<lambda>tv. on_par (updateData tv))\<rparr>"

end
