(* ===== verification/Call_Classes.thy ===== *)
theory Call_Classes
  imports Items
begin

text \<open>
  The system call classes that consist of a parameter list and a return value (include/syscalls/*.hxx):
  each is the number it passes to \<open>SystemCall\<close> (or the number it is created for), its return item and
  the list that its constructor hands to \<open>setParameters\<close> and \<open>addParameters\<close>. The name of a parameter
  is its label; the bit and enum types of libcosmos a value is converted to do not matter here.
\<close>

definition item_of :: "item_kind \<Rightarrow> item_type \<Rightarrow> string \<Rightarrow> item" where
  "item_of k t label = (new_item t label)\<lparr>it_kind := k\<rparr>"

text \<open>An input and a return value of an item class that keeps no data of the tracee.\<close>

definition val :: "string \<Rightarrow> string \<Rightarrow> item" where
  "val cls label = item_of (K_Value cls) PARAM_IN label"

definition ret_val :: "string \<Rightarrow> string \<Rightarrow> item" where
  "ret_val cls label = item_of (K_Value cls) RETVAL label"

definition success_result :: item where
  "success_result = ret_val ''SuccessResult'' ''success''"

text \<open>\<open>DEFER_FILL\<close>.\<close>

definition deferred :: "item \<Rightarrow> item" where
  "deferred i = i\<lparr>it_defer := True\<rparr>"

definition numbered_class :: "item \<Rightarrow> item list \<Rightarrow> call_class" where
  "numbered_class r ps = with_items (base_class\<lparr>cc_ret := (\<lambda>_. r), cc_pars := (\<lambda>_. ps)\<rparr>)"

definition static_class :: "sysnr \<Rightarrow> item \<Rightarrow> item list \<Rightarrow> call_class" where
  "static_class nr r ps = (numbered_class r ps)\<lparr>cc_nr := (\<lambda>_. nr)\<rparr>"

section \<open>Memory\<close>

definition BreakSystemCall :: call_class where
  "BreakSystemCall = static_class SYS_BREAK (ret_val ''GenericPointerValue'' ''ret_addr'')
    [val ''GenericPointerValue'' ''req_addr'']"

definition MunmapSystemCall :: call_class where
  "MunmapSystemCall = static_class SYS_MUNMAP success_result
    [val ''GenericPointerValue'' ''addr'', val ''SizeValue'' ''len'']"

definition MprotectSystemCall :: call_class where
  "MprotectSystemCall = static_class SYS_MPROTECT success_result
    [val ''GenericPointerValue'' ''addr'', val ''SizeValue'' ''length'',
     val ''MemoryProtectionParameter'' ''prot'']"

section \<open>Threads\<close>

definition SetTIDAddressSystemCall :: call_class where
  "SetTIDAddressSystemCall = static_class SYS_SET_TID_ADDRESS (ret_val ''ThreadID'' ''tid'')
    [val ''GenericPointerValue'' ''addr'']"

definition GetRobustListSystemCall :: call_class where
  "GetRobustListSystemCall = static_class SYS_GET_ROBUST_LIST success_result
    [val ''ThreadID'' ''tid'', item_of (K_Scalar 8) PARAM_OUT ''head'',
     item_of (K_Scalar 8) PARAM_IN_OUT ''sizep'']"

definition SetRobustListSystemCall :: call_class where
  "SetRobustListSystemCall = static_class SYS_SET_ROBUST_LIST success_result
    [val ''GenericPointerValue'' ''head'', val ''SizeValue'' ''size'']"

section \<open>Time\<close>

definition NanoSleepSystemCall :: call_class where
  "NanoSleepSystemCall = static_class SYS_NANOSLEEP success_result
    [item_of K_TimeSpec PARAM_IN ''req_time'',
     item_of K_RemainingTimeSpec PARAM_OUT ''rem_time'']"

definition ClockNanoSleepSystemCall :: call_class where
  "ClockNanoSleepSystemCall = numbered_class success_result
    [val ''ClockID'' ''clockid'', val ''ClockNanoSleepFlags'' ''flags'',
     item_of K_TimeSpec PARAM_IN ''time'', item_of K_RemainingTimeSpec PARAM_OUT ''rem'']"

section \<open>Signals\<close>

definition AlarmSystemCall :: call_class where
  "AlarmSystemCall = static_class SYS_ALARM (ret_val ''UintValue'' ''old_seconds'')
    [val ''UintValue'' ''seconds'']"

definition SigActionSystemCall :: call_class where
  "SigActionSystemCall = static_class SYS_SIGACTION success_result
    [val ''SignalNumber'' ''signum'', item_of K_SigAction PARAM_IN ''sigaction'',
     item_of K_SigAction PARAM_OUT ''old_action'']"

definition RtSigActionSystemCall :: call_class where
  "RtSigActionSystemCall = static_class SYS_RT_SIGACTION success_result
    [val ''SignalNumber'' ''signum'', item_of K_SigAction PARAM_IN ''sigaction'',
     item_of K_SigAction PARAM_OUT ''old_action'', val ''SizeValue'' ''sigset_size'']"

definition SigProcMaskSystemCall :: call_class where
  "SigProcMaskSystemCall = static_class SYS_SIGPROCMASK success_result
    [val ''SigSetOperation'' ''sigsetop'', item_of K_SigSet PARAM_IN ''new mask'',
     item_of K_SigSet PARAM_OUT ''old mask'']"

definition RtSigProcMaskSystemCall :: call_class where
  "RtSigProcMaskSystemCall = static_class SYS_RT_SIGPROCMASK success_result
    [val ''SigSetOperation'' ''sigsetop'', item_of K_SigSet PARAM_IN ''new mask'',
     item_of K_SigSet PARAM_OUT ''old mask'', val ''SizeValue'' ''sigset_size'']"

definition TgKillSystemCall :: call_class where
  "TgKillSystemCall = static_class SYS_TGKILL success_result
    [val ''ProcessID'' ''pid'', val ''ThreadID'' ''tid'', val ''SignalNumber'' ''signum'']"

section \<open>Other\<close>

definition NotImplementedSystemCall :: call_class where
  "NotImplementedSystemCall = numbered_class (ret_val ''ReturnValue'' ''result'')
    [val ''UnsupportedItem'' ''unknown'']"

definition UnknownSystemCall :: call_class where
  "UnknownSystemCall = numbered_class (ret_val ''ReturnValue'' ''result'')
    [val ''UnknownItem'' ''unknown'']"

definition DroppedSystemCall :: call_class where
  "DroppedSystemCall = numbered_class (ret_val ''ReturnValue'' ''result'')
    [val ''DroppedItem'' ''unknown'']"

definition GetRlimitSystemCall :: call_class where
  "GetRlimitSystemCall = static_class SYS_GETRLIMIT success_result
    [val ''ResourceType'' ''resource'', item_of K_ResourceLimit PARAM_OUT ''limit'']"

definition SetRlimitSystemCall :: call_class where
  "SetRlimitSystemCall = static_class SYS_SETRLIMIT success_result
    [val ''ResourceType'' ''resource'', item_of K_ResourceLimit PARAM_IN ''limit'']"

definition Prlimit64SystemCall :: call_class where
  "Prlimit64SystemCall = static_class SYS_PRLIMIT64 success_result
    [val ''ProcessID'' ''pid'', val ''ResourceType'' ''resource'',
     item_of K_ResourceLimit PARAM_IN ''limit'',
     item_of K_ResourceLimit PARAM_OUT ''old_limit'']"

definition RestartSystemCall :: call_class where
  "RestartSystemCall = static_class SYS_RESTART_SYSCALL success_result
    []"

definition ExitSystemCall :: call_class where
  "ExitSystemCall = static_class SYS_EXIT success_result
    [val ''ExitStatus'' ''status'']"

definition ExitGroupSystemCall :: call_class where
  "ExitGroupSystemCall = static_class SYS_EXIT_GROUP success_result
    [val ''ExitStatus'' ''status'']"

definition GetRandomSystemCall :: call_class where
  "GetRandomSystemCall = static_class SYS_GETRANDOM (ret_val ''SizeValue'' ''bytes'')
    [item_of (K_Buffer (OfParam 1)) PARAM_OUT ''buf'', val ''SizeValue'' ''size'',
     val ''GetRandomFlagsValue'' ''flags'']"

definition RSeqSystemCall :: call_class where
  "RSeqSystemCall = static_class SYS_RSEQ success_result
    [item_of K_RSeq PARAM_IN_OUT ''rseq'', val ''Uint32Value'' ''rseq_len'',
     val ''RSeqFlagsValue'' ''flags'', val ''Uint32Value'' ''signature'']"

section \<open>Processes\<close>

definition ForkSystemCall :: call_class where
  "ForkSystemCall = static_class SYS_FORK (ret_val ''ProcessID'' ''pid'')
    []"

definition ExecveSystemCall :: call_class where
  "ExecveSystemCall = static_class SYS_EXECVE success_result
    [item_of K_String PARAM_IN ''filename'', item_of K_StringArray PARAM_IN ''argv'',
     item_of K_StringArray PARAM_IN ''envp'']"

definition ExecveAtSystemCall :: call_class where
  "ExecveAtSystemCall = static_class SYS_EXECVEAT success_result
    [val ''FileDescriptor'' ''fd'', item_of K_String PARAM_IN ''filename'',
     item_of K_StringArray PARAM_IN ''argv'', item_of K_StringArray PARAM_IN ''envp'',
     val ''AtFlagsValue'' ''flags'']"

definition SetSIDSystemCall :: call_class where
  "SetSIDSystemCall = static_class SYS_SETSID (ret_val ''SessionID'' ''sid'')
    []"

definition Wait4SystemCall :: call_class where
  "Wait4SystemCall = static_class SYS_WAIT4 (ret_val ''ProcessID'' ''pid'')
    [val ''ProcessID'' ''pid'', item_of K_WaitStatus PARAM_OUT ''wstatus'',
     val ''WaitOptions'' ''options'', item_of K_ResourceUsage PARAM_OUT ''rusage'']"

definition WaitPIDSystemCall :: call_class where
  "WaitPIDSystemCall = static_class SYS_WAITPID (ret_val ''ProcessID'' ''pid'')
    [val ''ProcessID'' ''pid'', item_of K_WaitStatus PARAM_OUT ''wstatus'',
     val ''WaitOptions'' ''options'']"

definition PIDFDSendSignalSystemCall :: call_class where
  "PIDFDSendSignalSystemCall = static_class SYS_PIDFD_SEND_SIGNAL success_result
    [val ''FileDescriptor'' ''fd'', val ''SignalNumber'' ''signum'',
     item_of K_SigInfo PARAM_OUT ''infop'', val ''PIDFDSendSignalFlags'' ''flags'']"

section \<open>File systems\<close>

definition AccessSystemCall :: call_class where
  "AccessSystemCall = static_class SYS_ACCESS success_result
    [item_of K_String PARAM_IN ''path'', val ''AccessModeParameter'' ''check'']"

definition FAccessAtSystemCall :: call_class where
  "FAccessAtSystemCall = static_class SYS_FACCESSAT success_result
    [val ''FileDescriptor'' ''fd'', item_of K_String PARAM_IN ''path'',
     val ''AccessModeParameter'' ''check'']"

definition FAccessAt2SystemCall :: call_class where
  "FAccessAt2SystemCall = static_class SYS_FACCESSAT2 success_result
    [val ''FileDescriptor'' ''fd'', item_of K_String PARAM_IN ''path'',
     val ''AccessModeParameter'' ''check'', val ''AtFlagsValue'' ''flags'']"

definition FstatSystemCall :: call_class where
  "FstatSystemCall = numbered_class success_result
    [val ''FileDescriptor'' ''fd'', item_of K_Stat PARAM_OUT ''stat'']"

definition FstatAtSystemCall :: call_class where
  "FstatAtSystemCall = numbered_class success_result
    [val ''FileDescriptor'' ''fd'', item_of K_String PARAM_IN ''string'',
     item_of K_Stat PARAM_OUT ''stat'', val ''AtFlagsValue'' ''flags'']"

definition StatSystemCallT :: call_class where
  "StatSystemCallT = numbered_class success_result
    [item_of K_String PARAM_IN ''path'', item_of K_Stat PARAM_OUT ''stat'']"

definition UmaskSystemCall :: call_class where
  "UmaskSystemCall = static_class SYS_UMASK (ret_val ''FileModeParameter'' ''old_mask'')
    [val ''FileModeParameter'' ''mask'']"

definition ReadLinkSystemCall :: call_class where
  "ReadLinkSystemCall = static_class SYS_READLINK (ret_val ''SizeValue'' ''bytes'')
    [item_of K_String PARAM_IN ''path'',
     item_of (K_StringBuffer OfResult) PARAM_OUT ''buf'', val ''SizeValue'' ''bufsiz'']"

definition ReadLinkAtSystemCall :: call_class where
  "ReadLinkAtSystemCall = static_class SYS_READLINKAT (ret_val ''SizeValue'' ''bytes'')
    [val ''FileDescriptor'' ''fd'', item_of K_String PARAM_IN ''path'',
     item_of (K_StringBuffer OfResult) PARAM_OUT ''buf'', val ''SizeValue'' ''bufsiz'']"

definition GetCWDSystemCall :: call_class where
  "GetCWDSystemCall = static_class SYS_GETCWD (ret_val ''SizeValue'' ''length'')
    [item_of K_String PARAM_OUT ''path'', val ''SizeValue'' ''size'']"

definition ChDirSystemCall :: call_class where
  "ChDirSystemCall = static_class SYS_CHDIR success_result
    [item_of K_String PARAM_IN ''cwd'']"

definition FChDirSystemCall :: call_class where
  "FChDirSystemCall = static_class SYS_FCHDIR success_result
    [val ''FileDescriptor'' ''fd'']"

section \<open>Input and output\<close>

definition select_items :: "item list" where
  "select_items = [val ''IntValue'' ''nfds'', item_of K_FDSet PARAM_IN_OUT ''readfds'',
     item_of K_FDSet PARAM_IN_OUT ''writefds'', item_of K_FDSet PARAM_IN_OUT ''exceptfds'']"

definition epoll_wait_items :: "item list" where
  "epoll_wait_items = [val ''FileDescriptor'' ''epfd'', item_of K_EPollEventReport PARAM_OUT ''events'',
     val ''IntValue'' ''n'']"

definition poll_items :: "item list" where
  "poll_items = [deferred (item_of (K_PollFDs 1) PARAM_IN_OUT ''fds''), val ''IntValue'' ''nfds'']"

definition WriteSystemCall :: call_class where
  "WriteSystemCall = static_class SYS_WRITE (ret_val ''SizeValue'' ''bytes'')
    [val ''FileDescriptor'' ''fd'',
     deferred (item_of (K_Buffer (OfParam 2)) PARAM_IN ''buf''), val ''SizeValue'' ''count'']"

definition ReadSystemCall :: call_class where
  "ReadSystemCall = static_class SYS_READ (ret_val ''SizeValue'' ''bytes'')
    [val ''FileDescriptor'' ''fd'', item_of (K_Buffer OfResult) PARAM_OUT ''buf'',
     val ''SizeValue'' ''count'']"

definition ReadVSystemCall :: call_class where
  "ReadVSystemCall = static_class SYS_READV (ret_val ''SizeValue'' ''bytes'')
    [val ''FileDescriptor'' ''fd'',
     deferred (item_of (K_ReadVector 2) PARAM_IN_OUT ''iov''), val ''IntValue'' ''iovcnt'']"

definition WriteVSystemCall :: call_class where
  "WriteVSystemCall = static_class SYS_WRITEV (ret_val ''SizeValue'' ''bytes'')
    [val ''FileDescriptor'' ''fd'', deferred (item_of (K_WriteVector 2) PARAM_IN ''iov''),
     val ''IntValue'' ''iovcnt'']"

definition PRead64SystemCall :: call_class where
  "PRead64SystemCall = static_class SYS_PREAD64 (ret_val ''SizeValue'' ''bytes'')
    [val ''FileDescriptor'' ''fd'', item_of (K_Buffer OfResult) PARAM_OUT ''buf'',
     val ''SizeValue'' ''count'', val ''OffsetValue'' ''offset'']"

definition PWrite64SystemCall :: call_class where
  "PWrite64SystemCall = static_class SYS_PWRITE64 (ret_val ''SizeValue'' ''bytes'')
    [val ''FileDescriptor'' ''fd'',
     deferred (item_of (K_Buffer (OfParam 2)) PARAM_IN ''buf''),
     val ''SizeValue'' ''count'', val ''OffsetValue'' ''offset'']"

definition PReadVSystemCall :: call_class where
  "PReadVSystemCall = static_class SYS_PREADV (ret_val ''SizeValue'' ''bytes'')
    [val ''FileDescriptor'' ''fd'',
     deferred (item_of (K_ReadVector 2) PARAM_IN_OUT ''iov''), val ''IntValue'' ''iovcnt'',
     unused_item, val ''CombinedOffsetValue'' ''offset'']"

definition PWriteVSystemCall :: call_class where
  "PWriteVSystemCall = static_class SYS_PWRITEV (ret_val ''SizeValue'' ''bytes'')
    [val ''FileDescriptor'' ''fd'', deferred (item_of (K_WriteVector 2) PARAM_IN ''iov''),
     val ''IntValue'' ''iovcnt'', unused_item, val ''CombinedOffsetValue'' ''offset'']"

definition PReadV2SystemCall :: call_class where
  "PReadV2SystemCall = static_class SYS_PREADV2 (ret_val ''SizeValue'' ''bytes'')
    [val ''FileDescriptor'' ''fd'',
     deferred (item_of (K_ReadVector 2) PARAM_IN_OUT ''iov''), val ''IntValue'' ''iovcnt'',
     unused_item, val ''CombinedOffsetValue'' ''offset'', val ''ReadWriteFlags'' ''flags'']"

definition PWriteV2SystemCall :: call_class where
  "PWriteV2SystemCall = static_class SYS_PWRITEV2 (ret_val ''SizeValue'' ''bytes'')
    [val ''FileDescriptor'' ''fd'', deferred (item_of (K_WriteVector 2) PARAM_IN ''iov''),
     val ''IntValue'' ''iovcnt'', unused_item, val ''CombinedOffsetValue'' ''offset'',
     val ''ReadWriteFlags'' ''flags'']"

definition IoCtlSystemCall :: call_class where
  "IoCtlSystemCall = static_class SYS_IOCTL success_result
    [val ''FileDescriptor'' ''fd'', val ''UintValue'' ''request'']"

definition LSeekSystemCall :: call_class where
  "LSeekSystemCall = static_class SYS_LSEEK (ret_val ''OffsetValue'' ''offset'')
    [val ''FileDescriptor'' ''fd'', val ''OffsetValue'' ''offset'', val ''Whence'' ''whence'']"

definition LLSeekSystemCall :: call_class where
  "LLSeekSystemCall = static_class SYS_LLSEEK success_result
    [val ''FileDescriptor'' ''fd'', deferred (val ''CombinedOffsetValue'' ''offset''),
     unused_item, item_of (K_Scalar 8) PARAM_OUT ''result'', val ''Whence'' ''whence'']"

definition PSelectSystemCall :: call_class where
  "PSelectSystemCall = numbered_class (ret_val ''IntValue'' ''nready'')
    (select_items @ [item_of K_TimeSpecInOut PARAM_IN_OUT ''timeout'', item_of K_SigSet PARAM_IN ''sigset_argpack''])"

definition EPollCtlSystemCall :: call_class where
  "EPollCtlSystemCall = static_class SYS_EPOLL_CTL success_result
    [val ''FileDescriptor'' ''epfd'', val ''EPollOperation'' ''op'',
     val ''FileDescriptor'' ''fd'', item_of K_EPollEventSettings PARAM_IN ''event'']"

definition EPollWaitSystemCall :: call_class where
  "EPollWaitSystemCall = static_class SYS_EPOLL_WAIT (ret_val ''IntValue'' ''nready'')
    (epoll_wait_items @ [val ''IntValue'' ''timeout''])"

definition EPollPWaitSystemCall :: call_class where
  "EPollPWaitSystemCall = static_class SYS_EPOLL_PWAIT (ret_val ''IntValue'' ''nready'')
    (epoll_wait_items @ [val ''IntValue'' ''timeout'', item_of K_SigSet PARAM_IN ''sigset'', val ''SizeValue'' ''sigset_size''])"

definition EPollPWait2SystemCall :: call_class where
  "EPollPWait2SystemCall = static_class SYS_EPOLL_PWAIT2 (ret_val ''IntValue'' ''nready'')
    (epoll_wait_items @ [item_of K_TimeSpec PARAM_IN ''timeout'', item_of K_SigSet PARAM_IN ''sigset'', val ''SizeValue'' ''sigset_size''])"

definition PollSystemCall :: call_class where
  "PollSystemCall = static_class SYS_POLL (ret_val ''IntValue'' ''nready'')
    (poll_items @ [val ''IntValue'' ''timeout''])"

definition PPollSystemCall :: call_class where
  "PPollSystemCall = numbered_class (ret_val ''IntValue'' ''nready'')
    (poll_items @ [item_of K_TimeSpecInOut PARAM_IN_OUT ''timeout'', item_of K_SigSet PARAM_IN ''sigset'', val ''SizeValue'' ''sigset_size''])"

text \<open>The classes of this theory by name.\<close>

definition static_classes :: "(string \<times> call_class) list" where
  "static_classes = [
     (''BreakSystemCall'', BreakSystemCall), (''MunmapSystemCall'', MunmapSystemCall),
     (''MprotectSystemCall'', MprotectSystemCall),
     (''SetTIDAddressSystemCall'', SetTIDAddressSystemCall),
     (''GetRobustListSystemCall'', GetRobustListSystemCall),
     (''SetRobustListSystemCall'', SetRobustListSystemCall),
     (''NanoSleepSystemCall'', NanoSleepSystemCall),
     (''ClockNanoSleepSystemCall'', ClockNanoSleepSystemCall),
     (''AlarmSystemCall'', AlarmSystemCall), (''SigActionSystemCall'', SigActionSystemCall),
     (''RtSigActionSystemCall'', RtSigActionSystemCall),
     (''SigProcMaskSystemCall'', SigProcMaskSystemCall),
     (''RtSigProcMaskSystemCall'', RtSigProcMaskSystemCall),
     (''TgKillSystemCall'', TgKillSystemCall),
     (''NotImplementedSystemCall'', NotImplementedSystemCall),
     (''UnknownSystemCall'', UnknownSystemCall), (''DroppedSystemCall'', DroppedSystemCall),
     (''GetRlimitSystemCall'', GetRlimitSystemCall),
     (''SetRlimitSystemCall'', SetRlimitSystemCall),
     (''Prlimit64SystemCall'', Prlimit64SystemCall),
     (''RestartSystemCall'', RestartSystemCall), (''ExitSystemCall'', ExitSystemCall),
     (''ExitGroupSystemCall'', ExitGroupSystemCall),
     (''GetRandomSystemCall'', GetRandomSystemCall), (''RSeqSystemCall'', RSeqSystemCall),
     (''ForkSystemCall'', ForkSystemCall), (''ExecveSystemCall'', ExecveSystemCall),
     (''ExecveAtSystemCall'', ExecveAtSystemCall), (''SetSIDSystemCall'', SetSIDSystemCall),
     (''Wait4SystemCall'', Wait4SystemCall), (''WaitPIDSystemCall'', WaitPIDSystemCall),
     (''PIDFDSendSignalSystemCall'', PIDFDSendSignalSystemCall),
     (''AccessSystemCall'', AccessSystemCall),
     (''FAccessAtSystemCall'', FAccessAtSystemCall),
     (''FAccessAt2SystemCall'', FAccessAt2SystemCall),
     (''FstatSystemCall'', FstatSystemCall), (''FstatAtSystemCall'', FstatAtSystemCall),
     (''UmaskSystemCall'', UmaskSystemCall), (''ReadLinkSystemCall'', ReadLinkSystemCall),
     (''ReadLinkAtSystemCall'', ReadLinkAtSystemCall),
     (''GetCWDSystemCall'', GetCWDSystemCall), (''ChDirSystemCall'', ChDirSystemCall),
     (''FChDirSystemCall'', FChDirSystemCall), (''WriteSystemCall'', WriteSystemCall),
     (''ReadSystemCall'', ReadSystemCall), (''ReadVSystemCall'', ReadVSystemCall),
     (''WriteVSystemCall'', WriteVSystemCall), (''PRead64SystemCall'', PRead64SystemCall),
     (''PWrite64SystemCall'', PWrite64SystemCall), (''PReadVSystemCall'', PReadVSystemCall),
     (''PWriteVSystemCall'', PWriteVSystemCall), (''PReadV2SystemCall'', PReadV2SystemCall),
     (''PWriteV2SystemCall'', PWriteV2SystemCall), (''IoCtlSystemCall'', IoCtlSystemCall),
     (''LSeekSystemCall'', LSeekSystemCall), (''LLSeekSystemCall'', LLSeekSystemCall),
     (''PSelectSystemCall'', PSelectSystemCall),
     (''EPollCtlSystemCall'', EPollCtlSystemCall),
     (''EPollWaitSystemCall'', EPollWaitSystemCall),
     (''EPollPWaitSystemCall'', EPollPWaitSystemCall),
     (''EPollPWait2SystemCall'', EPollPWait2SystemCall),
     (''PollSystemCall'', PollSystemCall), (''PPollSystemCall'', PPollSystemCall),
     (''StatSystemCall'', StatSystemCallT), (''LstatSystemCall'', StatSystemCallT)]"

end
