(* ===== verification/Call_Dynamic.thy ===== *)
theory Call_Dynamic
  imports Call_Classes
begin

unbundle bit_operations_syntax

text \<open>
  The system call classes with methods of their own: parameter lists that depend on the ABI, the
  number or an argument (\<open>prepareNewSystemCall\<close>, \<open>check2ndPass\<close>, \<open>postSystemCall\<close>), and the tracking
  of descriptors (\<open>updateFDTracking\<close>), from src/syscalls/*.cxx.

  A parameter that the code keeps in an empty optional until it is needed is created where the code
  emplaces it. The items that \<open>MmapSystemCall\<close> and \<open>SelectSystemCall\<close> keep while a structure of
  arguments takes their place are \<open>sc_members\<close>.
\<close>

section \<open>Helpers\<close>

definition set_ret :: "item \<Rightarrow> syscall \<Rightarrow> syscall" where
  "set_ret r s = s\<lparr>sc_ret := r\<rparr>"

definition par_int :: "syscall \<Rightarrow> nat \<Rightarrow> int" where
  "par_int s n = as_int (it_val (sc_pars s ! n))"

text \<open>\<open>new_fd.fd()\<close> of the return item.\<close>

definition ret_fd :: "syscall \<Rightarrow> fileno" where
  "ret_fd s = as_int (sc_return s)"

abbreviation (input) O_NONBLOCK_BIT :: nat where "O_NONBLOCK_BIT \<equiv> 11"
abbreviation (input) O_CLOEXEC_BIT :: nat where "O_CLOEXEC_BIT \<equiv> 19"

definition flag_set :: "nat \<Rightarrow> fd_info \<Rightarrow> fd_info" where
  "flag_set n i = i\<lparr>fi_flags := map_option (set_bit n) (fi_flags i)\<rparr>"

definition flag_reset :: "nat \<Rightarrow> fd_info \<Rightarrow> fd_info" where
  "flag_reset n i = i\<lparr>fi_flags := map_option (unset_bit n) (fi_flags i)\<rparr>"

text \<open>Flags that are created empty and get the two bits that exist as open flags, too.\<close>

definition creation_flags :: "bool \<Rightarrow> bool \<Rightarrow> fd_info \<Rightarrow> fd_info" where
  "creation_flags cloexec nonblock i =
     (let i = i\<lparr>fi_flags := Some 0\<rparr>; i = (if cloexec then flag_set O_CLOEXEC_BIT i else i)
      in if nonblock then flag_set O_NONBLOCK_BIT i else i)"

type_synonym fd_prog = "(fd_map, unit) prog"

definition track :: "fd_info \<Rightarrow> fd_prog" where
  "track info = updE (trackFD info)"

section \<open>Memory\<close>

definition mmap_items :: "item list" where
  "mmap_items = [val ''GenericPointerValue'' ''hint'', val ''SizeValue'' ''len'',
     val ''MemoryProtectionParameter'' ''prot'', val ''MapFlagsParameter'' ''flags'',
     val ''FileDescriptor'' ''fd'', val ''OffsetValue'' ''offset'']"

text \<open>\<open>old_args\<close> has a value exactly while it is the only parameter.\<close>

definition has_old_args :: "item_kind \<Rightarrow> syscall \<Rightarrow> bool" where
  "has_old_args k s \<longleftrightarrow> (case sc_pars s of [i] \<Rightarrow> it_kind i = k | _ \<Rightarrow> False)"

text \<open>The six or five items step aside for the structure, and come back.\<close>

definition use_old_args :: "item \<Rightarrow> syscall \<Rightarrow> syscall" where
  "use_old_args a s = s\<lparr>sc_members := sc_pars s, sc_pars := [a]\<rparr>"

definition drop_old_args :: "syscall \<Rightarrow> syscall" where
  "drop_old_args s = s\<lparr>sc_pars := sc_members s\<rparr>"

definition implementsOldMmap :: "syscall \<Rightarrow> bool" where
  "implementsOldMmap s \<longleftrightarrow> sc_abi s = ABI_I386"

definition Mmap_prepare :: "(syscall, unit) prog" where
  "Mmap_prepare = updE (\<lambda>s.
     if sc_nr s = SYS_MMAP2 \<or> \<not> implementsOldMmap s
     then if has_old_args K_OldMmapArgs s then drop_old_args s else s
     else if \<not> has_old_args K_OldMmapArgs s
       then use_old_args (item_of K_OldMmapArgs PARAM_IN ''args'') s else s)"

text \<open>A member of \<open>struct mmap_arg_struct\<close> or \<open>struct select_arg_struct\<close>: 32 bits, as a pointer or
  size or through \<open>int\<close>, which is widened with its sign.\<close>

definition arg_word :: "syscall \<Rightarrow> nat \<Rightarrow> word64" where
  "arg_word s n = (case it_data (sc_pars s ! 0) of
     None \<Rightarrow> 0 | Some bs \<Rightarrow> of_nat (field (4 * n) 4 bs))"

definition arg_signed :: "syscall \<Rightarrow> nat \<Rightarrow> word64" where
  "arg_signed s n = scast (ucast (arg_word s n) :: 32 word)"

definition Mmap_check2ndPass :: "tview \<Rightarrow> (syscall, bool) prog" where
  "Mmap_check2ndPass tv = bindE (askE id) (\<lambda>s.
     if has_old_args K_OldMmapArgs s
     then seqE (seqsE [fill_member tv 0 (arg_word s 0), fill_member tv 1 (arg_word s 1),
            fill_member tv 2 (arg_signed s 2), fill_member tv 3 (arg_signed s 3),
            fill_member tv 4 (arg_signed s 4), fill_member tv 5 (arg_word s 5)])
          (ret False)
     else ret False)"

definition MmapSystemCall :: call_class where
  "MmapSystemCall = (numbered_class (ret_val ''GenericPointerValue'' ''addr'') mmap_items)
     \<lparr>cc_prepare := Mmap_prepare, cc_2nd := Mmap_check2ndPass\<rparr>"

section \<open>Processes\<close>

abbreviation (input) CLONE_PARENT_SETTID :: nat where "CLONE_PARENT_SETTID \<equiv> 20"
abbreviation (input) CLONE_PIDFD :: nat where "CLONE_PIDFD \<equiv> 12"
abbreviation (input) CLONE_SETTLS :: nat where "CLONE_SETTLS \<equiv> 19"
abbreviation (input) CLONE_CHILD_SETTID :: nat where "CLONE_CHILD_SETTID \<equiv> 24"

text \<open>\<open>CloneFlagsValue\<close> in clone(2): the low byte is the exit signal.\<close>

definition clone_flag :: "syscall \<Rightarrow> nat \<Rightarrow> bool" where
  "clone_flag s n = bit (it_val (sc_pars s ! 0) AND NOT 0xFF) n"

text \<open>\<open>maybe_add_unused_par\<close>: up to the position that is needed.\<close>

definition add_unused :: "nat \<Rightarrow> item list \<Rightarrow> item list" where
  "add_unused need_index ps = ps @ replicate (need_index - length ps) unused_item"

definition add_settid :: "syscall \<Rightarrow> nat \<Rightarrow> item list \<Rightarrow> item list" where
  "add_settid s pos ps = (if clone_flag s CLONE_CHILD_SETTID
     then add_unused pos ps @ [val ''GenericPointerValue'' ''child_tid''] else ps)"

definition add_settls :: "syscall \<Rightarrow> nat \<Rightarrow> item list \<Rightarrow> item list" where
  "add_settls s pos ps = (if clone_flag s CLONE_SETTLS
     then add_unused pos ps @ [val ''GenericPointerValue'' ''tls''] else ps)"

definition Clone_pars :: "syscall \<Rightarrow> item list" where
  "Clone_pars s =
     (let ps = sc_pars s;
          ps = (if clone_flag s CLONE_PARENT_SETTID
                then ps @ [item_of (K_Scalar 4) PARAM_OUT ''parent_tid'']
                else if clone_flag s CLONE_PIDFD then ps @ [item_of (K_Scalar 4) PARAM_OUT ''pidfd'']
                else ps)
      in if sc_abi s = ABI_X86_64 \<or> sc_abi s = ABI_X32
         then add_settls s 4 (add_settid s 3 ps)
         else if sc_abi s = ABI_AARCH64 \<or> sc_abi s = ABI_I386
         then add_settid s 4 (add_settls s 3 ps)
         else ps)"

definition Clone_check2ndPass :: "(syscall, bool) prog" where
  "Clone_check2ndPass = seqE (updE (\<lambda>s. s\<lparr>sc_pars := Clone_pars s\<rparr>)) (askE (\<lambda>s. 2 < length (sc_pars s)))"

definition CloneSystemCall :: call_class where
  "CloneSystemCall = (static_class SYS_CLONE (ret_val ''ProcessID'' ''pid'')
     [val ''CloneFlagsValue'' ''flags'', val ''GenericPointerValue'' ''stack''])
     \<lparr>cc_prepare := updE (dropParameters 2), cc_2nd := (\<lambda>_. Clone_check2ndPass)\<rparr>"

definition Clone3_updateFDTracking :: "syscall \<Rightarrow> fd_prog" where
  "Clone3_updateFDTracking s = (case it_data (sc_pars s ! 0) of
     None \<Rightarrow> skipE
   | Some args \<Rightarrow> if bit (field_ptr 0 8 args) CLONE_PIDFD
       then track (FDInfo PID_FD (field_int 0 (it_more (sc_pars s ! 0) ! 1))) else skipE)"

definition Clone3SystemCall :: call_class where
  "Clone3SystemCall = (static_class SYS_CLONE3 (ret_val ''ProcessID'' ''pid'')
     [item_of K_CloneArgs PARAM_IN_OUT ''cl_args'', val ''SizeValue'' ''size''])
     \<lparr>cc_fdtrack := (\<lambda>_. Clone3_updateFDTracking)\<rparr>"

definition getShortLabel :: "sysnr \<Rightarrow> string" where
  "getShortLabel nr =
     (if nr \<in> set [SYS_GETUID32, SYS_GETUID] then ''uid''
      else if nr \<in> set [SYS_GETEUID32, SYS_GETEUID] then ''euid''
      else if nr \<in> set [SYS_GETGID32, SYS_GETGID] then ''gid''
      else if nr \<in> set [SYS_GETEGID32, SYS_GETEGID] then ''egid''
      else if nr \<in> set [SYS_GETPID, SYS_GETPPID] then ''pid''
      else if nr = SYS_GETTID then ''tid''
      else if nr = SYS_GETPGID then ''pgid''
      else if nr = SYS_GETSID then ''sid''
      else ''???'')"

definition GetXIDSystemCall :: "string \<Rightarrow> call_class" where
  "GetXIDSystemCall ID_T = with_items (base_class\<lparr>cc_ret := (\<lambda>nr. ret_val ID_T (getShortLabel nr))\<rparr>)"

definition GetPGIDSystemCall :: call_class where
  "GetPGIDSystemCall = static_class SYS_GETPGID (ret_val ''ProcessGroupID'' (getShortLabel SYS_GETPGID))
     [val ''ProcessID'' ''pid'']"

definition GetSIDSystemCall :: call_class where
  "GetSIDSystemCall = static_class SYS_GETSID (ret_val ''SessionID'' (getShortLabel SYS_GETSID))
     [val ''ProcessID'' ''pid'']"

abbreviation (input) P_ALL :: nat where "P_ALL \<equiv> 0"
abbreviation (input) P_PID :: nat where "P_PID \<equiv> 1"
abbreviation (input) P_PGID :: nat where "P_PGID \<equiv> 2"
abbreviation (input) P_PIDFD :: nat where "P_PIDFD \<equiv> 3"

definition WaitID_id :: "nat \<Rightarrow> item option" where
  "WaitID_id = map_of [(P_PID, val ''ProcessID'' ''pid''), (P_PGID, val ''ProcessGroupID'' ''pgid''),
     (P_PIDFD, val ''FileDescriptor'' ''pidfd''), (P_ALL, unused_item)]"

definition WaitID_check2ndPass :: "(syscall, bool) prog" where
  "WaitID_check2ndPass = bindE (askE (\<lambda>s. WaitID_id (as_uint (it_val (sc_pars s ! 0))))) (\<lambda>id. case id of
     None \<Rightarrow> raise (RuntimeError ''unsupported WaitID encountered'')
   | Some dynpar \<Rightarrow> seqE (updE (addParameters [dynpar, item_of K_SigInfo PARAM_OUT ''infop'',
         val ''WaitOptions'' ''options'', item_of K_ResourceUsage PARAM_OUT ''rusage'']))
       (ret True))"

definition WaitIDSystemCall :: call_class where
  "WaitIDSystemCall = (static_class SYS_WAITID success_result [val ''WaitID'' ''idtype''])
     \<lparr>cc_prepare := updE (dropParameters 1), cc_2nd := (\<lambda>_. WaitID_check2ndPass)\<rparr>"

definition PIDFDOpen_updateFDTracking :: "syscall \<Rightarrow> fd_prog" where
  "PIDFDOpen_updateFDTracking s = track
     (if bit (par_int s 1) O_NONBLOCK_BIT
      then (FDInfo PID_FD (ret_fd s))\<lparr>fi_flags := Some (2 ^ O_NONBLOCK_BIT)\<rparr>
      else FDInfo PID_FD (ret_fd s))"

definition PIDFDOpenSystemCall :: call_class where
  "PIDFDOpenSystemCall = (static_class SYS_PIDFD_OPEN (ret_val ''FileDescriptor'' ''fd'')
     [val ''ProcessID'' ''pid'', val ''PIDFDOpenFlags'' ''flags''])
     \<lparr>cc_fdtrack := (\<lambda>_. PIDFDOpen_updateFDTracking)\<rparr>"

definition PIDFDGetFD_updateFDTracking :: "tview \<Rightarrow> syscall \<Rightarrow> fd_prog" where
  "PIDFDGetFD_updateFDTracking tv s = (case get_fd_infos (tv_text tv) (tv_proc tv) of
     Inl e \<Rightarrow> if is_undefined e then raise e else track (FDInfo FD_UNKNOWN (ret_fd s))
   | Inr infos \<Rightarrow> (case find (\<lambda>info. fi_fd info = ret_fd s) infos of
       Some info \<Rightarrow> track info | None \<Rightarrow> skipE))"

definition PIDFDGetFDSystemCall :: call_class where
  "PIDFDGetFDSystemCall = (static_class SYS_PIDFD_GETFD (ret_val ''FileDescriptor'' ''fd'')
     [val ''FileDescriptor'' ''fd'', val ''FileDescriptor'' ''fd'', val ''PIDFDGetFDFlags'' ''flags''])
     \<lparr>cc_fdtrack := PIDFDGetFD_updateFDTracking\<rparr>"

section \<open>Threads\<close>

text \<open>\<open>FutexOperation::command\<close>: the operation without the private and the clock flag.\<close>

definition futex_command :: "syscall \<Rightarrow> int" where
  "futex_command s = par_int s 1 AND NOT 384"

text \<open>The parameters that each command adds, and whether the result is a number of woken waiters or
  a descriptor.\<close>

definition futex_pars :: "int \<Rightarrow> item list" where
  "futex_pars cmd =
     (let value = val ''Uint32Value'' ''value''; timeout = item_of K_TimeSpec PARAM_IN ''timeout'';
          bitset = val ''GenericPointerValue'' ''bitset''; wake_count = val ''Uint32Value'' ''nwakeup'';
          limit = val ''Uint32Value'' ''val2''; addr2 = val ''GenericPointerValue'' ''addr2'' in
      if cmd = 0 then [value, timeout]
      else if cmd = 9 then [value, timeout, unused_item, bitset]
      else if cmd = 1 then [wake_count]
      else if cmd = 10 then [wake_count, unused_item, unused_item, bitset]
      else if cmd = 2 then [val ''SignalNumber'' ''signum'']
      else if cmd = 3 then [wake_count, limit, addr2]
      else if cmd \<in> set [4, 12] then [wake_count, limit, addr2, val ''Uint32Value'' ''val3'']
      else if cmd = 5 then [wake_count, val ''Uint32Value'' ''nwakeup2'', addr2,
        val ''FutexWakeOperation'' ''wake_op'']
      else if cmd \<in> set [6, 13] then [unused_item, timeout]
      else if cmd = 11 then [value, timeout, addr2]
      else [])"

definition futex_ret :: "int \<Rightarrow> item option" where
  "futex_ret cmd =
     (if cmd \<in> set [1, 10, 3, 4, 12, 5] then Some (ret_val ''ReturnValue'' ''nwokenup'')
      else if cmd = 2 then Some (ret_val ''FileDescriptor'' ''fd'')
      else None)"

definition with_ret :: "item option \<Rightarrow> syscall \<Rightarrow> syscall" where
  "with_ret r s = (case r of None \<Rightarrow> s | Some i \<Rightarrow> set_ret i s)"

definition Futex_check2ndPass :: "(syscall, bool) prog" where
  "Futex_check2ndPass = bindE (askE futex_command) (\<lambda>cmd.
     seqE (updE (\<lambda>s. with_ret (futex_ret cmd) (addParameters (futex_pars cmd) s))) (ret True))"

definition FutexSystemCall :: call_class where
  "FutexSystemCall = (numbered_class success_result
     [val ''GenericPointerValue'' ''addr'', val ''FutexOperation'' ''op''])
     \<lparr>cc_prepare := updE (\<lambda>s. set_ret success_result (dropParameters 2 s)), cc_2nd := (\<lambda>_. Futex_check2ndPass)\<rparr>"

section \<open>File systems\<close>

text \<open>What each operation adds to the parameters of fcntl(2), and its return item if it has one of its
  own.\<close>

definition lock_item :: item where
  "lock_item = item_of K_FLock PARAM_IN_OUT ''flock''"

definition fcntl_items :: "(int \<times> item list \<times> item option) list" where
  "fcntl_items =
    (let lock = ([lock_item], None); dup = ([val ''FileDescriptor'' ''lowest_fd''], Some (ret_val ''FileDescriptor'' ''dupfd''))
     in [(0, dup), (1030, dup),
       (1, [], Some (ret_val ''FileDescFlagsValue'' ''fdflags'')),
       (2, [val ''FileDescFlagsValue'' ''fdflags''], None),
       (3, [], Some (ret_val ''OpenFlagsValue'' ''flags'')),
       (4, [val ''OpenFlagsValue'' ''flags''], None),
       (6, lock), (7, lock), (5, lock), (13, lock), (14, lock), (12, lock), (37, lock), (38, lock), (36, lock),
       (9, [], Some (ret_val ''FileDescOwner'' [])),
       (8, [val ''FileDescOwner'' []], None),
       (16, [item_of K_ExtFileDescOwner PARAM_OUT ''owner_ex''], None),
       (15, [item_of K_ExtFileDescOwner PARAM_IN ''owner_ex''], None),
       (11, [], Some (ret_val ''SignalNumber'' ''signum'')),
       (10, [val ''SignalNumber'' ''signum''], None),
       (1025, [], Some (ret_val ''LeaseType'' ''lease'')),
       (1024, [val ''LeaseType'' ''lease''], None),
       (1026, [val ''DNotifySettings'' ''events''], None),
       (1031, [val ''IntValue'' ''pipe size''], Some (ret_val ''IntValue'' ''pipe size'')),
       (1032, [], Some (ret_val ''IntValue'' ''pipe size'')),
       (1033, [val ''FileSealSettings'' ''flags''], None),
       (1034, [], Some (ret_val ''FileSealSettings'' ''flags'')),
       (1035, [item_of K_ReadWriteHint PARAM_OUT ''rw_hint''], None),
       (1037, [item_of K_ReadWriteHint PARAM_OUT ''rw_hint''], None),
       (1036, [item_of K_ReadWriteHint PARAM_IN ''rw_hint''], None),
       (1038, [item_of K_ReadWriteHint PARAM_IN ''rw_hint''], None)])"

definition fcntl_setup :: "int \<Rightarrow> item list \<times> item option" where
  "fcntl_setup oper = (case map_of fcntl_items oper of Some x \<Rightarrow> x | None \<Rightarrow> ([], None))"

definition Fcntl_check2ndPass :: "(syscall, bool) prog" where
  "Fcntl_check2ndPass = bindE (askE (\<lambda>s. fcntl_setup (fcntl_operation s))) (\<lambda>(extra, new_ret).
     seqE (updE (\<lambda>s. with_ret new_ret (addParameters extra s))) (ret True))"

abbreviation (input) F_DUPFD :: int where "F_DUPFD \<equiv> 0"
abbreviation (input) F_SETFD :: int where "F_SETFD \<equiv> 2"
abbreviation (input) F_DUPFD_CLOEXEC :: int where "F_DUPFD_CLOEXEC \<equiv> 1030"

definition Fcntl_updateFDTracking :: "syscall \<Rightarrow> fd_prog" where
  "Fcntl_updateFDTracking s =
     (let oper = fcntl_operation s; fd = par_int s 0 in
      if oper = F_DUPFD \<or> oper = F_DUPFD_CLOEXEC
      then bindE (askE (\<lambda>m. smap_find m fd)) (\<lambda>found. case found of
          None \<Rightarrow> skipE
        | Some info \<Rightarrow> track (let info = info\<lparr>fi_fd := ret_fd s\<rparr> in
            if oper = F_DUPFD_CLOEXEC then flag_set O_CLOEXEC_BIT (ensureFlags info)
            else flag_reset O_CLOEXEC_BIT info))
      else if oper = F_SETFD
      then bindE (askE (\<lambda>m. smap_find m fd)) (\<lambda>found. case found of
          None \<Rightarrow> skipE
        | Some info \<Rightarrow> updE (updateFD (let info = ensureFlags info in
            if bit (par_int s 2) 0 then flag_set O_CLOEXEC_BIT info else flag_reset O_CLOEXEC_BIT info)))
      else skipE)"

definition FcntlSystemCall :: call_class where
  "FcntlSystemCall = (numbered_class success_result
     [val ''FileDescriptor'' ''fd'', val ''FcntlOperation'' ''op''])
     \<lparr>cc_prepare := updE (\<lambda>s. set_ret success_result (dropParameters 2 s)),
      cc_2nd := (\<lambda>_. Fcntl_check2ndPass), cc_fdtrack := (\<lambda>_. Fcntl_updateFDTracking)\<rparr>"

text \<open>\<open>statfs64\<close> has the size of the structure between the two parameters of \<open>statfs\<close>.\<close>

definition size_item :: item where
  "size_item = val ''SizeValue'' ''size''"

definition StatFS_prepare :: "sysnr \<Rightarrow> (syscall, unit) prog" where
  "StatFS_prepare nr64 = updE (\<lambda>s.
     if sc_nr s = nr64
     then if length (sc_pars s) = 2 then setParameters [sc_pars s ! 0, size_item, sc_pars s ! 1] s else s
     else if length (sc_pars s) = 3 then setParameters [sc_pars s ! 0, sc_pars s ! 2] s else s)"

definition StatFSSystemCall :: call_class where
  "StatFSSystemCall = (numbered_class success_result
     [item_of K_String PARAM_IN ''path'', item_of K_StatFS PARAM_OUT ''buf''])
     \<lparr>cc_prepare := StatFS_prepare SYS_STATFS64\<rparr>"

definition FStatFSSystemCall :: call_class where
  "FStatFSSystemCall = (numbered_class success_result
     [val ''FileDescriptor'' ''fd'', item_of K_StatFS PARAM_OUT ''buf''])
     \<lparr>cc_prepare := StatFS_prepare SYS_FSTATFS64\<rparr>"

text \<open>
  open(2) and openat(2): the flags are at position \<open>n\<close>. How \<open>cosmos::BitMask\<close> tests a flag of more
  than one bit is not in this repository, so the test for \<open>O_TMPFILE\<close> is a parameter.
\<close>

definition Open_check2ndPass :: "(int \<Rightarrow> bool) \<Rightarrow> nat \<Rightarrow> (syscall, bool) prog" where
  "Open_check2ndPass is_tmpfile n = bindE (askE (\<lambda>s. par_int s n AND NOT 3)) (\<lambda>flags.
     if bit flags 6 \<or> is_tmpfile flags
     then seqE (updE (addParameters [val ''FileModeParameter'' ''mode''])) (ret True)
     else ret False)"

text \<open>\<open>StringData::str\<close>: what the path of an open descriptor is recorded as.\<close>

definition formatBadPointer :: "word64 \<Rightarrow> string" where
  "formatBadPointer p = (if p = 0 then ''NULL''
     else ''0x'' @ hex_str (unat p) @ '' '' @ [CHR 0xE2, CHR 0x86, CHR 0x92] @ '' [<invalid>]'')"

definition StringData_str :: "item \<Rightarrow> string" where
  "StringData_str i = (case it_data i of
     None \<Rightarrow> formatBadPointer (it_val i)
   | Some bs \<Rightarrow> [CHR 0x22] @ map (\<lambda>b. char_of (unat b)) bs @ [CHR 0x22])"

definition Open_updateFDTracking :: "nat \<Rightarrow> syscall \<Rightarrow> fd_prog" where
  "Open_updateFDTracking n s = track ((FDInfo FS_PATH (ret_fd s))
     \<lparr>fi_path := StringData_str (sc_pars s ! (n - 1)), fi_mode := Some (par_int s n AND 3),
      fi_flags := Some (par_int s n AND NOT 3)\<rparr>)"

definition OpenSystemCall :: "(int \<Rightarrow> bool) \<Rightarrow> call_class" where
  "OpenSystemCall is_tmpfile = (static_class SYS_OPEN (ret_val ''FileDescriptor'' ''fd'')
     [item_of K_String PARAM_IN ''filename'', val ''OpenFlagsValue'' ''flags''])
     \<lparr>cc_prepare := updE (dropParameters 2), cc_2nd := (\<lambda>_. Open_check2ndPass is_tmpfile 1),
      cc_fdtrack := (\<lambda>_. Open_updateFDTracking 1)\<rparr>"

definition OpenAtSystemCall :: "(int \<Rightarrow> bool) \<Rightarrow> call_class" where
  "OpenAtSystemCall is_tmpfile = (static_class SYS_OPENAT (ret_val ''FileDescriptor'' ''fd'')
     [val ''FileDescriptor'' ''fd'', item_of K_String PARAM_IN ''filename'', val ''OpenFlagsValue'' ''flags''])
     \<lparr>cc_prepare := updE (dropParameters 3), cc_2nd := (\<lambda>_. Open_check2ndPass is_tmpfile 2),
      cc_fdtrack := (\<lambda>_. Open_updateFDTracking 2)\<rparr>"

definition CloseSystemCall :: call_class where
  "CloseSystemCall = (static_class SYS_CLOSE success_result [val ''FileDescriptor'' ''fd''])
     \<lparr>cc_fdtrack := (\<lambda>_ s. updE (dropFD (par_int s 0)))\<rparr>"

text \<open>\<open>m_is_native_64\<close> holds exactly for the list of four parameters.\<close>

definition fadvise_pars64 :: "item list" where
  "fadvise_pars64 = [val ''FileDescriptor'' ''fd'', val ''OffsetValue'' ''offset'', val ''SizeValue'' ''size'',
     val ''AccessAdvice'' ''advice'']"

definition fadvise_pars_i386 :: "bool \<Rightarrow> item list" where
  "fadvise_pars_i386 size_is_64 =
     [val ''FileDescriptor'' ''fd'', unused_item, val ''CombinedOffsetValue'' ''offset''] @
     (if size_is_64 then [unused_item, val ''CombinedOffsetValue'' ''offset''] else [size_item]) @
     [val ''AccessAdvice'' ''advice'']"

definition FAdvise_prepare :: "(syscall, unit) prog" where
  "FAdvise_prepare = bindE (askE id) (\<lambda>s.
     if sc_abi s = ABI_AARCH64 then skipE
     else if sc_abi s = ABI_X86_64
     then if length (sc_pars s) \<noteq> 4 then updE (setParameters fadvise_pars64) else skipE
     else if sc_abi s = ABI_I386
     then updE (setParameters (fadvise_pars_i386 (sc_nr s = SYS_FADVISE64_64)))
     else raise (RuntimeError ''unsupported ABI''))"

definition FAdviseSystemCall :: "arch_flags \<Rightarrow> call_class" where
  "FAdviseSystemCall a = (numbered_class success_result (if arch_I386 a then [] else fadvise_pars64))
     \<lparr>cc_prepare := FAdvise_prepare\<rparr>"

definition Dup_updateFDTracking :: "syscall \<Rightarrow> fd_prog" where
  "Dup_updateFDTracking s = bindE (askE (\<lambda>m. smap_find m (par_int s 0))) (\<lambda>info. case info of
     None \<Rightarrow> skipE
   | Some info \<Rightarrow> track (info\<lparr>fi_fd := ret_fd s\<rparr>))"

definition dup_class :: "sysnr \<Rightarrow> item list \<Rightarrow> call_class" where
  "dup_class nr extra = (static_class nr (ret_val ''FileDescriptor'' ''fd'') (val ''FileDescriptor'' ''oldfd'' # extra))
     \<lparr>cc_fdtrack := (\<lambda>_. Dup_updateFDTracking)\<rparr>"

definition DupSystemCall :: call_class where
  "DupSystemCall = dup_class SYS_DUP []"

definition Dup2SystemCall :: call_class where
  "Dup2SystemCall = dup_class SYS_DUP2 [val ''FileDescriptor'' ''newfd'']"

definition Dup3SystemCall :: call_class where
  "Dup3SystemCall = dup_class SYS_DUP3 [val ''FileDescriptor'' ''newfd'', val ''DupFlags'' ''flags'']"

section \<open>Input and output\<close>

definition Pipe_updateFDTracking :: "syscall \<Rightarrow> fd_prog" where
  "Pipe_updateFDTracking s = (case it_data (sc_pars s ! 0) of
     None \<Rightarrow> skipE
   | Some ends \<Rightarrow>
       (let r = field_int 0 ends; w = field_int 4 ends in
        if r = FD_INVALID \<or> w = FD_INVALID then skipE
        else seqE (track ((FDInfo PIPE r)\<lparr>fi_mode := Some 0\<rparr>)) (track ((FDInfo PIPE w)\<lparr>fi_mode := Some 1\<rparr>))))"

definition pipe_class :: "sysnr \<Rightarrow> item list \<Rightarrow> call_class" where
  "pipe_class nr extra = (static_class nr success_result (item_of K_PipeEnds PARAM_OUT ''pipefd'' # extra))
     \<lparr>cc_fdtrack := (\<lambda>_. Pipe_updateFDTracking)\<rparr>"

definition PipeSystemCall :: call_class where
  "PipeSystemCall = pipe_class SYS_PIPE []"

definition Pipe2SystemCall :: call_class where
  "Pipe2SystemCall = pipe_class SYS_PIPE2 [val ''PipeFlags'' ''flags'']"

definition EventFDSystemCall :: call_class where
  "EventFDSystemCall = (static_class SYS_EVENTFD (ret_val ''FileDescriptor'' ''fd'')
     [val ''UintValue'' ''initval''])
     \<lparr>cc_fdtrack := (\<lambda>_ s. track (FDInfo EVENT_FD (ret_fd s)))\<rparr>"

definition EventFD2_updateFDTracking :: "syscall \<Rightarrow> fd_prog" where
  "EventFD2_updateFDTracking s = track (creation_flags (bit (par_int s 1) O_CLOEXEC_BIT)
     (bit (par_int s 1) O_NONBLOCK_BIT) (FDInfo EVENT_FD (ret_fd s)))"

definition EventFD2SystemCall :: call_class where
  "EventFD2SystemCall = (static_class SYS_EVENTFD2 (ret_val ''FileDescriptor'' ''fd'')
     [val ''UintValue'' ''initval'', val ''EventFDFlags'' ''flags''])
     \<lparr>cc_fdtrack := (\<lambda>_. EventFD2_updateFDTracking)\<rparr>"

definition isOldSelect :: "syscall \<Rightarrow> bool" where
  "isOldSelect s \<longleftrightarrow> sc_abi s = ABI_I386 \<and> sc_nr s = SYS_SELECT"

definition Select_prepare :: "(syscall, unit) prog" where
  "Select_prepare = updE (\<lambda>s.
     if isOldSelect s
     then if \<not> has_old_args K_OldSelectArgs s
       then use_old_args (item_of K_OldSelectArgs PARAM_IN_OUT ''args'') s else s
     else if has_old_args K_OldSelectArgs s then drop_old_args s else s)"

definition Select_check2ndPass :: "tview \<Rightarrow> (syscall, bool) prog" where
  "Select_check2ndPass tv = bindE (askE id) (\<lambda>s.
     if isOldSelect s
     then seqE (seqsE [fill_member tv 0 (arg_signed s 0), fill_member tv 1 (arg_word s 1),
            fill_member tv 2 (arg_word s 2), fill_member tv 3 (arg_word s 3),
            fill_member tv 4 (arg_word s 4)])
          (ret False)
     else ret False)"

definition Select_postSystemCall :: "tview \<Rightarrow> (syscall, unit) prog" where
  "Select_postSystemCall tv = bindE (askE (has_old_args K_OldSelectArgs)) (\<lambda>old.
     if old then seqsE (map (on_member (updateData tv)) [0..<5]) else skipE)"

definition SelectSystemCall :: call_class where
  "SelectSystemCall = (numbered_class (ret_val ''IntValue'' ''nready'')
     (select_items @ [item_of K_TimeValInOut PARAM_IN_OUT ''timeout'']))
     \<lparr>cc_prepare := Select_prepare, cc_2nd := Select_check2ndPass, cc_post := Select_postSystemCall\<rparr>"

definition EPollCreateSystemCall :: call_class where
  "EPollCreateSystemCall = with_items (base_class\<lparr>
     cc_pars := (\<lambda>nr. if nr = SYS_EPOLL_CREATE1 then [val ''EPollCreateFlags'' ''flags'']
        else [val ''IntValue'' ''size'']),
     cc_ret := (\<lambda>_. ret_val ''FileDescriptor'' ''fd''),
     cc_fdtrack := (\<lambda>_ s. track (FDInfo EVENT_FD (ret_fd s)))\<rparr>)"

section \<open>Signals\<close>

definition SignalFD_updateFDTracking :: "syscall \<Rightarrow> fd_prog" where
  "SignalFD_updateFDTracking s =
     (if par_int s 0 = ret_fd s then skipE else track (FDInfo SIGNAL_FD (ret_fd s)))"

definition SignalFD4_updateFDTracking :: "syscall \<Rightarrow> fd_prog" where
  "SignalFD4_updateFDTracking s =
     (if par_int s 0 = ret_fd s then skipE
      else track (creation_flags (bit (par_int s 3) O_CLOEXEC_BIT) (bit (par_int s 3) O_NONBLOCK_BIT)
        (FDInfo SIGNAL_FD (ret_fd s))))"

definition signalfd_items :: "item list" where
  "signalfd_items = [val ''FileDescriptor'' ''fd'', item_of K_SigSet PARAM_IN ''mask'',
     val ''SizeValue'' ''sigset_size'']"

definition SignalFDSystemCall :: call_class where
  "SignalFDSystemCall = (static_class SYS_SIGNALFD (ret_val ''FileDescriptor'' ''fd'') signalfd_items)
     \<lparr>cc_fdtrack := (\<lambda>_. SignalFD_updateFDTracking)\<rparr>"

definition SignalFD4SystemCall :: call_class where
  "SignalFD4SystemCall = (static_class SYS_SIGNALFD4 (ret_val ''FileDescriptor'' ''fd'')
     (signalfd_items @ [val ''SignalFDFlags'' ''flags'']))
     \<lparr>cc_fdtrack := (\<lambda>_. SignalFD4_updateFDTracking)\<rparr>"

section \<open>The family\<close>

text \<open>
  All classes of this model by name. The other classes of the factory (those on sockets, prctl(2),
  getdents(2) and uname(2), which have families of their own) and the choice among the classes of multiplexed calls are the parameter
  \<open>rest\<close>.
\<close>

definition dynamic_classes :: "arch_flags \<Rightarrow> (int \<Rightarrow> bool) \<Rightarrow> (string \<times> call_class) list" where
  "dynamic_classes a is_tmpfile = [
     (''MmapSystemCall'', MmapSystemCall), (''CloneSystemCall'', CloneSystemCall),
     (''Clone3SystemCall'', Clone3SystemCall), (''GetUIDSystemCall'', GetXIDSystemCall ''UserID''),
     (''GetEUIDSystemCall'', GetXIDSystemCall ''UserID''), (''GetGIDSystemCall'', GetXIDSystemCall ''GroupID''),
     (''GetEGIDSystemCall'', GetXIDSystemCall ''GroupID''), (''GetPIDSystemCall'', GetXIDSystemCall ''ProcessID''),
     (''GetPPIDSystemCall'', GetXIDSystemCall ''ProcessID''), (''GetTIDSystemCall'', GetXIDSystemCall ''ThreadID''),
     (''GetPGIDSystemCall'', GetPGIDSystemCall), (''GetSIDSystemCall'', GetSIDSystemCall),
     (''WaitIDSystemCall'', WaitIDSystemCall), (''PIDFDOpenSystemCall'', PIDFDOpenSystemCall),
     (''PIDFDGetFDSystemCall'', PIDFDGetFDSystemCall), (''FutexSystemCall'', FutexSystemCall),
     (''FcntlSystemCall'', FcntlSystemCall), (''StatFSSystemCall'', StatFSSystemCall),
     (''FStatFSSystemCall'', FStatFSSystemCall), (''OpenSystemCall'', OpenSystemCall is_tmpfile),
     (''OpenAtSystemCall'', OpenAtSystemCall is_tmpfile), (''CloseSystemCall'', CloseSystemCall),
     (''FAdviseSystemCall'', FAdviseSystemCall a), (''DupSystemCall'', DupSystemCall),
     (''Dup2SystemCall'', Dup2SystemCall), (''Dup3SystemCall'', Dup3SystemCall),
     (''PipeSystemCall'', PipeSystemCall), (''Pipe2SystemCall'', Pipe2SystemCall),
     (''EventFDSystemCall'', EventFDSystemCall), (''EventFD2SystemCall'', EventFD2SystemCall),
     (''SelectSystemCall'', SelectSystemCall), (''EPollCreateSystemCall'', EPollCreateSystemCall),
     (''SignalFDSystemCall'', SignalFDSystemCall), (''SignalFD4SystemCall'', SignalFD4SystemCall)]"

definition clues_family :: "arch_flags \<Rightarrow> (int \<Rightarrow> bool) \<Rightarrow> class_family \<Rightarrow> class_family" where
  "clues_family a is_tmpfile rest = rest\<lparr>cf_class := (\<lambda>cls.
     case map_of (static_classes @ dynamic_classes a is_tmpfile) cls of
       Some c \<Rightarrow> c | None \<Rightarrow> cf_class rest cls)\<rparr>"

end
