(* ===== verification/Items_Sound.thy ===== *)
theory Items_Sound
  imports Items
begin

text \<open>
  What holds of every item: its methods change nothing but what they fetched, and they never run into
  undefined behaviour as long as the view of the tracee is sane.
\<close>

section \<open>Invariants, and defined behaviour under a condition\<close>

text \<open>
  \<open>sound ok I m\<close>: \<open>m\<close> keeps \<open>I\<close> on every way out, and if \<open>ok\<close> holds it never runs into undefined
  behaviour. One proof gives both.
\<close>

definition sound :: "bool \<Rightarrow> ('s \<Rightarrow> bool) \<Rightarrow> ('s, 'a) prog \<Rightarrow> bool" where
  "sound ok I m \<longleftrightarrow> hoare I m (\<lambda>_. I) (\<lambda>e s. I s \<and> (ok \<longrightarrow> \<not> is_undefined e))"

named_theorems sound_intros \<open>soundness, one rule per combinator or operation\<close>

lemma sound_safe: "sound ok I m \<Longrightarrow> ok \<Longrightarrow> safe I m"
  by (simp add: sound_def safe_def)

lemma sound_snd: "sound ok I m \<Longrightarrow> I s \<Longrightarrow> I (snd (m s))"
  unfolding sound_def hoare_def by (drule spec [of _ s]) (auto split: prod.splits sum.splits)

lemma sound_Inl: "sound ok I m \<Longrightarrow> I s \<Longrightarrow> ok \<Longrightarrow> m s = (Inl e, s') \<Longrightarrow> \<not> is_undefined e"
  unfolding sound_def by (auto dest: hoare_Inl)

lemma soundI:
  assumes "\<And>s r s'. I s \<Longrightarrow> m s = (r, s') \<Longrightarrow> I s' \<and> (\<forall>e. r = Inl e \<longrightarrow> ok \<longrightarrow> \<not> is_undefined e)"
  shows "sound ok I m"
  unfolding sound_def
proof (rule hoareI)
  fix s assume "I s"
  obtain r s' where "m s = (r, s')" by fastforce
  with assms [OF \<open>I s\<close> this]
  show "case m s of (Inl e, s') \<Rightarrow> I s' \<and> (ok \<longrightarrow> \<not> is_undefined e) | (Inr x, s') \<Rightarrow> I s'"
    by (cases r) auto
qed

lemma sound_ret [sound_intros]: "sound ok I (ret x)"
  by (rule soundI) (auto simp: ret_def)

lemma sound_raise [sound_intros]: "(ok \<Longrightarrow> \<not> is_undefined e) \<Longrightarrow> sound ok I (raise e)"
  by (rule soundI) (auto simp: raise_def)

lemma sound_ask [sound_intros]: "sound ok I (askE f)"
  by (rule soundI) (auto simp: askE_def)

lemma sound_skip [sound_intros]: "sound ok I skipE"
  by (rule soundI) (auto simp: skipE_def ret_def)

lemma sound_upd: "(\<And>s. I s \<Longrightarrow> I (f s)) \<Longrightarrow> sound ok I (updE f)"
  by (rule soundI) (auto simp: updE_def)

lemma sound_lift [sound_intros]: "(\<And>e. r = Inl e \<Longrightarrow> ok \<Longrightarrow> \<not> is_undefined e) \<Longrightarrow> sound ok I (liftE r)"
  by (rule soundI) (auto simp: liftE_def)

lemma sound_bind [sound_intros]: "sound ok I m \<Longrightarrow> (\<And>x. sound ok I (f x)) \<Longrightarrow> sound ok I (bindE m f)"
  unfolding sound_def by (rule hoare_bind)

lemma sound_seq [sound_intros]: "sound ok I m \<Longrightarrow> sound ok I n \<Longrightarrow> sound ok I (seqE m n)"
  unfolding seqE_def by (rule sound_bind)

lemma sound_catch [sound_intros]:
  "sound ok I m \<Longrightarrow> (\<And>e. (ok \<Longrightarrow> \<not> is_undefined e) \<Longrightarrow> sound ok I (h e)) \<Longrightarrow> sound ok I (catchE p m h)"
  unfolding sound_def
  by (rule hoare_catch [where F = "\<lambda>e s. I s \<and> (ok \<longrightarrow> \<not> is_undefined e)"])
    (auto simp: hoare_def)

lemma sound_if [sound_intros]:
  "(b \<Longrightarrow> sound ok I m) \<Longrightarrow> (\<not> b \<Longrightarrow> sound ok I n) \<Longrightarrow> sound ok I (if b then m else n)"
  by simp

lemma sound_option [sound_intros]:
  "(x = None \<Longrightarrow> sound ok I m) \<Longrightarrow> (\<And>y. x = Some y \<Longrightarrow> sound ok I (f y)) \<Longrightarrow>
     sound ok I (case x of None \<Rightarrow> m | Some y \<Rightarrow> f y)"
  by (cases x) simp_all

lemma sound_prod [sound_intros]:
  "(\<And>a b. sound ok I (f a b)) \<Longrightarrow> sound ok I (case x of (a, b) \<Rightarrow> f a b)"
  by (cases x) simp

lemma sound_let [sound_intros]: "(\<And>x. sound ok I (f x)) \<Longrightarrow> sound ok I (let x = a in f x)"
  by simp

lemma sound_for [sound_intros]: "(\<And>x. sound ok I (f x)) \<Longrightarrow> sound ok I (forE xs f)"
  by (induction xs) (auto intro: sound_intros)

lemma sound_seqs [sound_intros]:
  "sound ok I (seqsE [])" "sound ok I m \<Longrightarrow> sound ok I (seqsE ms) \<Longrightarrow> sound ok I (seqsE (m # ms))"
  by (auto intro: sound_intros)

text \<open>A read that may never return.\<close>

lemma sound_read:
  assumes "\<And>s r x. I s \<Longrightarrow> R s = Some (r, x) \<Longrightarrow> I (g s r x) \<and>
      (\<forall>e. h s r x = Inl e \<longrightarrow> ok \<longrightarrow> \<not> is_undefined e)"
    and "\<And>s. I s \<Longrightarrow> ok \<Longrightarrow> R s \<noteq> None"
  shows "sound ok I (\<lambda>s. case R s of None \<Rightarrow> endless s | Some (r, x) \<Rightarrow> (h s r x, g s r x))"
proof (rule soundI)
  fix s r s'
  assume "I s" and run: "(case R s of None \<Rightarrow> endless s | Some (r, x) \<Rightarrow> (h s r x, g s r x)) = (r, s')"
  show "I s' \<and> (\<forall>e. r = Inl e \<longrightarrow> ok \<longrightarrow> \<not> is_undefined e)"
  proof (cases "R s")
    case None
    with run \<open>I s\<close> assms(2) [of s] show ?thesis by (auto simp: endless_def raise_def)
  next
    case (Some p)
    with run assms(1) [OF \<open>I s\<close>, of "fst p" "snd p"] show ?thesis by (cases p) auto
  qed
qed

section \<open>A sane view of the tracee\<close>

text \<open>
  What the kernel guarantees of \<open>PTRACE_PEEKDATA\<close>: it fails with an error number, and it fails for
  every address in the upper half, which belongs to the kernel; an error of the proc file system is an
  exception, too. And what the code asserts of the
  types of libcosmos: they are no larger than what they wrap.
\<close>

definition wrapped_types :: "(string \<times> string) list" where
  "wrapped_types = [(''struct rusage'', ''Usage''), (''struct stat'', ''cosmos::FileStatus''),
     (''struct statfs'', ''cosmos::FileSystemStatus''), (''struct f_owner_ex'', ''cosmos::FileDescriptor::Owner''),
     (''sigset_t'', ''cosmos::SigSet''), (''struct ucred'', ''cosmos::UnixCredentials''),
     (''struct linger'', ''cosmos::SocketOptions::Linger''),
     (''struct dmabuf_token'', ''cosmos::SocketOptions::DMABufToken''),
     (''struct so_timestamping'', ''cosmos::SocketOptions::TimestampingConfig'')]"

definition view_ok :: "tview \<Rightarrow> bool" where
  "view_ok tv \<longleftrightarrow> (\<forall>a e. tv_peek tv a = Inl e \<longrightarrow> \<not> is_undefined e) \<and>
     (\<forall>a. 2 ^ 63 \<le> unat a \<longrightarrow> (\<exists>e. tv_peek tv a = Inl e)) \<and>
     (\<forall>(raw, T)\<in>set wrapped_types. tv_sizeof tv T \<le> tv_sizeof tv raw) \<and>
     (\<forall>e. pf_entries (tv_proc tv) = Inl e \<longrightarrow> \<not> is_undefined e)"

lemma view_peek: "view_ok tv \<Longrightarrow> tv_peek tv a = Inl e \<Longrightarrow> \<not> is_undefined e"
  by (simp add: view_ok_def)

text \<open>Every read ends in a memory whose upper half faults.\<close>

lemma fill_ends:
  assumes "\<And>a. 2 ^ 63 \<le> unat a \<Longrightarrow> \<exists>e. peek a = Inl e"
  shows "\<exists>r. fillData peek fl addr f = Some r"
proof (induction "2 ^ 64 - unat addr" arbitrary: addr f rule: less_induct)
  case less
  show ?case
  proof (cases "peek addr")
    case (Inl e)
    then show ?thesis by (simp add: fillData.simps)
  next
    case (Inr w)
    then have lt: "unat addr < 2 ^ 63" using assms by (metis Inl_Inr_False not_le)
    then have "unat (next_word addr) = unat addr + 8"
      by (simp add: next_word_def unat_word_ariths)
    then have "\<exists>r. fillData peek fl (next_word addr) f' = Some r" for f'
      using less.hyps [of "next_word addr" f'] lt by simp
    then show ?thesis
      using Inr by (auto simp: fillData.simps [of _ _ addr] split: prod.splits sum.splits)
  qed
qed

text \<open>What a read can raise: an error of the kernel, or an error of the filler.\<close>

lemma fill_raises:
  assumes "fillData peek fl addr f = Some (Inl e, f')"
    and "\<And>a e. peek a = Inl e \<Longrightarrow> Q e" and "\<And>w f f'. J f \<Longrightarrow> fl w f = (Inr True, f') \<Longrightarrow> J f'"
    and "\<And>w f f' e. J f \<Longrightarrow> fl w f = (Inl e, f') \<Longrightarrow> Q e" and "J f"
  shows "Q e"
proof -
  have "p = peek \<longrightarrow> l = fl \<longrightarrow> J f \<longrightarrow> (\<forall>e. fst y = Inl e \<longrightarrow> Q e)"
    if "fillData p l a f = Some y" for p l a f y
  proof (rule fillData.raw_induct [where P = "\<lambda>p l a f y. p = peek \<longrightarrow> l = fl \<longrightarrow> J f \<longrightarrow>
      (\<forall>e. fst y = Inl e \<longrightarrow> Q e)", OF _ that], intro impI, goal_cases)
    case (1 self p l a f y)
    show ?case
    proof (cases "p a")
      case (Inl e)
      then show ?thesis using 1 assms(2) by auto
    next
      case (Inr w)
      obtain r g where st: "l w f = (r, g)" by fastforce
      show ?thesis
      proof (cases "r = Inr True")
        case True
        then show ?thesis using 1(1) [of peek fl "next_word a" g y] 1(2-) Inr st assms(3) [of f w g] by auto
      next
        case False
        then show ?thesis using 1(2-) Inr st assms(4) [of f w _ g] by (cases r) auto
      qed
    qed
  qed
  from this [OF assms(1)] assms(5) show ?thesis by simp
qed

lemma readBlob_defined:
  assumes "view_ok tv" "n \<le> room" "readBlob (tv_peek tv) a room n = Some (Inl e, bs)"
  shows "\<not> is_undefined e"
proof -
  obtain f' where "fillData (tv_peek tv) BlobFiller a \<lparr>bf_left = n, bf_room = room, bf_out = []\<rparr> = Some (Inl e, f')"
    using assms(3) by (auto simp: readBlob_def)
  then show ?thesis
    by (rule fill_raises [where J = "\<lambda>f. bf_left f \<le> bf_room f"])
      (use assms in \<open>auto simp: BlobFiller_def Let_def min_def split: if_splits dest: view_peek\<close>)
qed

lemma readBlob_ends: "\<exists>r. readBlob peek a room n = Some r"
  using blob.fill_returns [OF TrueI, of peek a] by (simp add: readBlob_def)

lemma readVector_defined:
  assumes "view_ok tv" "readVector (tv_peek tv) isz a mx z = Some (Inl e, bs)"
  shows "\<not> is_undefined e"
proof -
  obtain f' where "fillData (tv_peek tv) (ContainerFiller isz mx z) a \<lparr>cf_out = [], cf_filled = 0\<rparr> = Some (Inl e, f')"
    using assms(2) by (auto simp: readVector_def)
  then show ?thesis
    by (rule fill_raises [where J = "\<lambda>_. True"])
      (use assms in \<open>auto simp: ContainerFiller_def split: prod.splits dest: view_peek\<close>)
qed

lemma readVector_ends: "view_ok tv \<Longrightarrow> \<exists>r. readVector (tv_peek tv) isz a mx z = Some r"
  using fill_ends [of "tv_peek tv" "ContainerFiller isz mx z" a "\<lparr>cf_out = [], cf_filled = 0\<rparr>"]
  by (auto simp: readVector_def view_ok_def)

lemma readString_defined:
  "view_ok tv \<Longrightarrow> readString (tv_peek tv) a mx = Some (Inl e, str) \<Longrightarrow> \<not> is_undefined e"
  by (auto simp: readString_def dest: readVector_defined)

lemma readString_ends: "view_ok tv \<Longrightarrow> \<exists>r. readString (tv_peek tv) a mx = Some r"
  using readVector_ends [of tv 1 a mx True] by (auto simp: readString_def)

lemma readStruct_defined:
  assumes "view_ok tv" "n \<le> length old" "readStruct (tv_peek tv) a old n = Some (Inl e, bs)"
  shows "\<not> is_undefined e"
proof (cases "a = 0")
  case True
  with assms(3) show ?thesis by (simp add: readStruct_def)
next
  case False
  with assms(3) obtain r c where r: "readBlob (tv_peek tv) a (length old) n = Some (r, c)"
      "(case r of Inl e \<Rightarrow> if e = ApiError EIO then Inr False else Inl e | Inr _ \<Rightarrow> Inr True) = Inl e"
    by (auto simp: readStruct_def)
  then have "r = Inl e" by (auto split: sum.splits if_splits)
  with readBlob_defined [OF assms(1,2)] r(1) show ?thesis by simp
qed

lemma readStruct_ends: "\<exists>r. readStruct peek a old n = Some r"
  using readBlob_ends [of peek a "length old" n] by (auto simp: readStruct_def)

section \<open>The building blocks of the item methods\<close>

text \<open>What an item shows to the base class, and its value, stay.\<close>

definition item_is :: "(item_kind \<times> string \<times> item_type \<times> bool \<times> bool) \<Rightarrow> word64 \<Rightarrow> item \<Rightarrow> bool" where
  "item_is sg v i \<longleftrightarrow> par_sig i = sg \<and> it_val i = v"

lemma item_is_put [simp]:
  "item_is sg v (put_data d i) = item_is sg v i" "item_is sg v (put_more d i) = item_is sg v i"
  "item_is sg v (i\<lparr>it_more := m\<rparr>) = item_is sg v i" "item_is sg v (i\<lparr>it_bufs := b\<rparr>) = item_is sg v i"
  "item_is sg v (i\<lparr>it_data := d\<rparr>) = item_is sg v i"
  by (simp_all add: item_is_def par_sig_def put_data_def put_more_def)

lemma sound_put [sound_intros]:
  "(\<And>i. item_is sg v (f i) = item_is sg v i) \<Longrightarrow> sound ok (item_is sg v) (updE f)"
  by (rule sound_upd) simp

lemma sound_alloc [sound_intros]: "sound ok I (allocE tv n)"
  unfolding allocE_def by (intro sound_intros) simp

lemma sound_void [sound_intros]: "sound ok I m \<Longrightarrow> sound ok I (voidE m)"
  unfolding voidE_def by (intro sound_intros)

lemma readStructIntoOptional_sound:
  assumes "readStructIntoOptional (tv_peek tv) a room mx = Some (Inl e, d)" "view_ok tv" "mx \<le> room"
  shows "\<not> is_undefined e"
  using assms readStruct_defined [of tv mx "replicate room 0" a]
  by (auto simp: readStructIntoOptional_def)

lemma sound_fetch_optional:
  assumes "ok \<Longrightarrow> view_ok tv" "\<And>d i. item_is sg v (put d i) = item_is sg v i" "ok \<Longrightarrow> mx \<le> room"
  shows "sound ok (item_is sg v) (fetch_optional put tv room mx a)"
  unfolding fetch_optional_def
proof (rule sound_read, goal_cases)
  case (1 s r x)
  with assms show ?case by (auto dest: readStructIntoOptional_sound)
next
  case (2 s)
  then show ?case using readStruct_ends [of "tv_peek tv" a "replicate room 0" mx]
    by (auto simp: readStructIntoOptional_def)
qed

lemma sound_fetch_same [sound_intros]:
  assumes "ok \<Longrightarrow> view_ok tv"
  shows "sound ok (item_is sg v) (fetch_optional put_data tv n n a)"
    and "sound ok (item_is sg v) (fetch_optional put_more tv n n a)"
  using assms by (auto intro!: sound_fetch_optional)

lemma sound_fetch_raw [sound_intros]:
  assumes "ok \<Longrightarrow> view_ok tv" "raw = T \<or> (raw, T) \<in> set wrapped_types"
  shows "sound ok (item_is sg v) (fetch_raw put_data tv raw T a)"
  unfolding fetch_raw_def using assms
  by (intro sound_fetch_optional) (auto simp: view_ok_def)

lemma sound_fetch_over [sound_intros]:
  assumes "ok \<Longrightarrow> view_ok tv"
  shows "sound ok I (fetch_over tv old a)"
proof (rule soundI)
  fix s r s'
  assume I: "I s" and run: "fetch_over tv old a s = (r, s')"
  obtain q bs where "readStruct (tv_peek tv) a old (length old) = Some (q, bs)"
    using readStruct_ends [of "tv_peek tv" a old "length old"] by auto
  with run I readStruct_defined [of tv "length old" old a] assms
  show "I s' \<and> (\<forall>e. r = Inl e \<longrightarrow> ok \<longrightarrow> \<not> is_undefined e)"
    by (cases q) (auto simp: fetch_over_def)
qed

lemma sound_fetch_local [sound_intros]:
  "(ok \<Longrightarrow> view_ok tv) \<Longrightarrow> sound ok I (fetch_local tv n a)"
  unfolding fetch_local_def by (intro sound_intros)

lemma readStructsInto_defined:
  "view_ok tv \<Longrightarrow> readStructsInto (tv_peek tv) a sz olds = Some (Inl e, outs) \<Longrightarrow>
     \<forall>x\<in>set olds. sz \<le> length x \<Longrightarrow> \<not> is_undefined e"
proof (induction olds arbitrary: a outs)
  case Nil
  then show ?case by simp
next
  case (Cons x xs)
  then show ?case using readStruct_defined [of tv sz x a e]
    by (auto split: option.splits prod.splits sum.splits bool.splits)
qed

lemma readStructsInto_ends: "\<exists>r. readStructsInto peek a sz olds = Some r"
proof (induction olds arbitrary: a)
  case Nil
  then show ?case by simp
next
  case (Cons x xs)
  obtain q bs where "readStruct peek a x sz = Some (q, bs)"
    using readStruct_ends [of peek a x sz] by auto
  then show ?case using Cons [of "a + of_nat sz"]
    by (cases q) (auto split: bool.splits)
qed

lemma length_resize [simp]: "length (resize x n d) = n"
  by (simp add: resize_def)

lemma sound_fetch_structs [sound_intros]:
  assumes "ok \<Longrightarrow> view_ok tv"
  shows "sound ok (item_is sg v) (fetch_structs tv a sz)"
  unfolding fetch_structs_def
proof (rule sound_read, goal_cases)
  case (1 i r x)
  with assms readStructsInto_defined [of tv a sz "map (resize 0 sz) (it_more i)"] show ?case by auto
next
  case (2 i)
  then show ?case
    using readStructsInto_ends [of "tv_peek tv" a sz "map (resize 0 sz) (it_more i)"] by auto
qed

text \<open>Reads of a blob or a string into the item.\<close>

lemma sound_blob [sound_intros]:
  assumes "ok \<Longrightarrow> view_ok tv" "\<And>i r x. item_is sg v (g i r x) = item_is sg v i"
  shows "sound ok (item_is sg v) (\<lambda>i. case readBlob (tv_peek tv) (a i) n n of
     None \<Rightarrow> endless i | Some (r, x) \<Rightarrow> (r, g i r x))"
proof (rule sound_read, goal_cases)
  case (1 i r x)
  with assms readBlob_defined [of tv n n "a i"] show ?case by auto
next
  case (2 i)
  then show ?case using readBlob_ends [of "tv_peek tv" "a i" n n] by auto
qed

lemma sound_string:
  assumes "ok \<Longrightarrow> view_ok tv" "\<And>i r x. item_is sg v (g i r x) = item_is sg v i"
    and "\<And>r e. h r = Inl e \<Longrightarrow> r = Inl e"
  shows "sound ok (item_is sg v) (\<lambda>i. case readString (tv_peek tv) (a i) mx of
     None \<Rightarrow> endless i | Some (r, x) \<Rightarrow> (h r, g i r x))"
proof (rule sound_read [where h = "\<lambda>s r x. h r"], goal_cases)
  case (1 i r x)
  with assms readString_defined [of tv "a i" mx] show ?case by (metis)
next
  case (2 i)
  then show ?case using readString_ends [OF assms(1), of "a i" mx] by auto
qed

section \<open>Every method is sound\<close>

lemmas item_simps = put_data_def put_more_def

lemma sound_PointerToScalar:
  assumes "ok \<Longrightarrow> view_ok tv"
  shows "sound ok (item_is sg v) (PointerToScalar_processData tv w)"
    and "sound ok (item_is sg v) (PointerToScalar_updateData tv w)"
    and "sound ok (item_is sg v) (PointerToScalarInOut_processData tv w)"
    and "sound ok (item_is sg v) (WaitStatus_updateData tv c)"
  unfolding PointerToScalar_processData_def PointerToScalar_updateData_def fetchValue_def
    PointerToScalarInOut_processData_def WaitStatus_updateData_def
  by (intro sound_intros assms; simp)+

lemma sound_BufferPointer:
  assumes "ok \<Longrightarrow> view_ok tv"
  shows "sound ok (item_is sg v) (BufferPointer_processData tv c r)"
    and "sound ok (item_is sg v) (BufferPointer_updateData tv c r)"
  unfolding BufferPointer_processData_def BufferPointer_updateData_def fillBuffer_def
  by (intro sound_intros assms; simp)+

lemma sound_String:
  assumes "ok \<Longrightarrow> view_ok tv"
  shows "sound ok (item_is sg v) (StringData_processData tv)"
    and "sound ok (item_is sg v) (StringData_updateData tv c)"
    and "sound ok (item_is sg v) (StringBuffer_updateData tv c r)"
  unfolding StringData_processData_def StringData_updateData_def StringBuffer_updateData_def StringData_fetch_def
  by (intro sound_intros assms sound_string [where h = "\<lambda>r. r"]; simp)+

lemma map_sum_Inl: "map_sum id f r = Inl e \<Longrightarrow> r = Inl e"
  by (cases r) simp_all

lemma sound_fetch_strings:
  assumes "ok \<Longrightarrow> view_ok tv"
  shows "sound ok (item_is sg v) (fetch_strings tv as)"
  by (induction as)
    (auto intro!: sound_intros sound_string [OF assms] dest: map_sum_Inl)

lemma sound_fetchPointers:
  assumes "ok \<Longrightarrow> view_ok tv"
  shows "sound ok (item_is sg v) (fetchPointers tv isz)"
proof -
  have "sound ok (item_is sg v) (\<lambda>i. case readVector (tv_peek tv) isz p SIZE_MAX True of
             None \<Rightarrow> endless i | Some (Inl e, _) \<Rightarrow> (Inl e, i) | Some (Inr _, addrs) \<Rightarrow> (Inr addrs, i))" for p
  proof (rule soundI, goal_cases)
    case (1 i r i')
    then show ?case using readVector_ends [OF assms, of isz p SIZE_MAX True]
        readVector_defined [OF assms, of isz p SIZE_MAX True]
      by (auto simp: endless_def raise_def split: option.splits sum.splits)
  qed
  then show ?thesis unfolding fetchPointers_def
    by (intro sound_intros sound_fetch_strings assms; simp)
qed

lemma sound_StringArray:
  "(ok \<Longrightarrow> view_ok tv) \<Longrightarrow> sound ok (item_is sg v) (StringArrayData_processData tv c)"
  unfolding StringArrayData_processData_def by (intro sound_intros sound_fetchPointers)

lemma sound_Time_fetch:
  assumes "ok \<Longrightarrow> view_ok tv" "put = put_data \<or> put = put_more"
  shows "sound ok (item_is sg v) (TimeSpec_fetch put tv c)" "sound ok (item_is sg v) (TimeVal_fetch put tv c)"
  using assms(2) unfolding TimeSpec_fetch_def TimeVal_fetch_def
  by (auto intro!: sound_intros assms(1))

lemma sound_Time:
  assumes "ok \<Longrightarrow> view_ok tv"
  shows "sound ok (item_is sg v) (TimeSpecParameter_processData tv c)"
    and "sound ok (item_is sg v) (TimeSpecParameter_updateData tv c)"
    and "sound ok (item_is sg v) (TimeSpecInOut_processData tv c)"
    and "sound ok (item_is sg v) (TimeSpecInOut_updateData tv c)"
    and "sound ok (item_is sg v) (RemainingTimeSpec_updateData tv c)"
    and "sound ok (item_is sg v) (TimeValParameter_processData tv c)"
    and "sound ok (item_is sg v) (TimeValParameter_updateData tv c)"
    and "sound ok (item_is sg v) (TimeValInOut_processData tv c)"
    and "sound ok (item_is sg v) (TimeValInOut_updateData tv c)"
  unfolding TimeSpecParameter_processData_def TimeSpecParameter_updateData_def TimeSpecInOut_processData_def
    TimeSpecInOut_updateData_def RemainingTimeSpec_updateData_def TimeValParameter_processData_def
    TimeValParameter_updateData_def TimeValInOut_processData_def TimeValInOut_updateData_def
  by (intro sound_intros sound_Time_fetch assms; simp)+

lemma sound_CloneArgs_processData:
  assumes "ok \<Longrightarrow> view_ok tv" "ok \<Longrightarrow> entering c"
  shows "sound ok (item_is sg v) (CloneArgs_processData tv c)"
proof -
  have "\<not> is_undefined e" if "ok" "CloneArgs_verifySize tv c = Inl e" for e
    using assms(2) [OF that(1)] that(2)
    by (auto simp: entering_def CloneArgs_verifySize_def split: option.splits if_splits)
  moreover have "item_is sg v (CloneArgs_reset i) = item_is sg v i" for i
    by (simp add: CloneArgs_reset_def item_is_def par_sig_def)
  ultimately show ?thesis unfolding CloneArgs_processData_def CloneArgs_tids_def
    by (intro sound_intros assms(1); simp)
qed

lemma sound_CloneArgs_updateData:
  "(ok \<Longrightarrow> view_ok tv) \<Longrightarrow> sound ok (item_is sg v) (CloneArgs_updateData tv c)"
  unfolding CloneArgs_updateData_def by (intro sound_intros; simp)

lemma sound_limits:
  assumes "ok \<Longrightarrow> view_ok tv"
  shows "sound ok (item_is sg v) (ResourceLimit_processData tv c)"
    and "sound ok (item_is sg v) (ResourceLimit_updateData tv c)"
    and "sound ok (item_is sg v) (ResourceUsage_updateData tv c)"
  unfolding ResourceLimit_processData_def ResourceLimit_updateData_def ResourceUsage_updateData_def
  by (intro sound_intros assms; simp add: wrapped_types_def)+

lemma sound_fetch_and_copy [sound_intros]:
  "(ok \<Longrightarrow> view_ok tv) \<Longrightarrow> sound ok (item_is sg v) (fetch_and_copy tv n)"
  unfolding fetch_and_copy_def by (intro sound_intros; simp)

lemma sound_Stat:
  assumes "ok \<Longrightarrow> view_ok tv"
  shows "sound ok (item_is sg v) (StatParameter_updateData tv c)"
    and "sound ok (item_is sg v) (StatFSParameter_updateData tv c)"
  unfolding StatParameter_updateData_def StatFSParameter_updateData_def Let_def
  by (intro sound_intros assms; simp add: wrapped_types_def)+

lemma sound_fcntl:
  assumes "ok \<Longrightarrow> view_ok tv"
  shows "sound ok (item_is sg v) (FLockParameter_processData tv c)"
    and "sound ok (item_is sg v) (FLockParameter_updateData tv c)"
    and "sound ok (item_is sg v) (ExtFileDescOwner_processData tv)"
    and "sound ok (item_is sg v) (ReadWriteHint_processData tv)"
    and "sound ok (item_is sg v) (old_args_processData tv n)"
  unfolding FLockParameter_processData_def FLockParameter_updateData_def ExtFileDescOwner_processData_def
    ReadWriteHint_processData_def old_args_processData_def
  by (intro sound_intros assms; simp add: wrapped_types_def)+

lemma sound_signal:
  assumes "ok \<Longrightarrow> view_ok tv"
  shows "sound ok (item_is sg v) (SigActionParameter_processData tv c)"
    and "sound ok (item_is sg v) (SigSetParameter_processData tv c)"
    and "sound ok (item_is sg v) (SigInfo_updateData tv c)"
    and "sound ok (item_is sg v) (RSeqParameter_updateData tv c)"
  unfolding SigActionParameter_processData_def SigSetParameter_processData_def SigInfo_updateData_def
    RSeqParameter_updateData_def
  by (intro sound_intros assms; simp add: wrapped_types_def)+

lemma sound_fetchBuffer:
  assumes "ok \<Longrightarrow> view_ok tv"
  shows "sound ok (item_is sg v) (fetchBuffer tv k n)"
  unfolding fetchBuffer_def by (intro sound_intros assms; simp)

lemma sound_ReadVector_loop:
  "(ok \<Longrightarrow> view_ok tv) \<Longrightarrow> sound ok (item_is sg v) (ReadVector_loop tv ks n)"
  by (induction ks arbitrary: n) (auto intro!: sound_intros sound_fetchBuffer)

lemma sound_vectors:
  assumes "ok \<Longrightarrow> view_ok tv"
  shows "sound ok (item_is sg v) (PipeEnds_updateData tv)"
    and "sound ok (item_is sg v) (IOVectorBase_processData tv c n)"
    and "sound ok (item_is sg v) (ReadVector_updateData tv c)"
    and "sound ok (item_is sg v) (WriteVector_processData tv c n)"
    and "sound ok (item_is sg v) (FDSet_processData tv)"
    and "sound ok (item_is sg v) (FDSet_updateData tv c)"
    and "sound ok (item_is sg v) (EPollEventSettings_processData tv)"
    and "sound ok (item_is sg v) (EPollEventReport_updateData tv c)"
    and "sound ok (item_is sg v) (PollFDs_processData tv c n)"
    and "sound ok (item_is sg v) (PollFDs_updateData tv)"
  unfolding PipeEnds_updateData_def IOVectorBase_processData_def ReadVector_updateData_def
    WriteVector_processData_def FDSet_processData_def FDSet_updateData_def EPollEventSettings_processData_def
    EPollEventReport_updateData_def PollFDs_processData_def PollFDs_updateData_def
  by (intro sound_intros sound_fetchBuffer sound_ReadVector_loop assms; simp)+

lemmas sound_methods = sound_PointerToScalar sound_BufferPointer sound_String sound_StringArray sound_Time
  sound_CloneArgs_processData sound_CloneArgs_updateData sound_limits sound_Stat sound_fcntl sound_signal
  sound_vectors

lemma sound_processData:
  assumes "ok \<Longrightarrow> view_ok tv" "ok \<Longrightarrow> entering c"
  shows "sound ok (item_is sg v) (processData tv c)"
proof -
  have "sound ok (item_is sg v) (process_kind tv c k)" for k
    by (cases k) (auto intro!: sound_methods sound_intros assms)
  then show ?thesis unfolding processData_def by (intro sound_intros)
qed

lemma sound_updateData:
  assumes "ok \<Longrightarrow> view_ok tv"
  shows "sound ok (item_is sg v) (updateData tv c)"
proof -
  have "sound ok (item_is sg v) (update_kind tv c k)" for k
    by (cases k) (auto intro!: sound_methods sound_intros assms)
  then show ?thesis unfolding updateData_def by (intro sound_intros)
qed

end
