(* ===== verification/Call_Sound.thy ===== *)
theory Call_Sound
  imports Items_Sound
begin

text \<open>
  The entry and the exit of a system call are defined for every class whose methods keep to the
  contract \<open>safe_class\<close>: never more parameters than argument words, and no undefined behaviour in a
  sane view of the tracee.
\<close>

section \<open>System call objects\<close>

text \<open>No system call object has more parameters, or more items aside, than there are argument words.\<close>

definition call_fit :: "syscall \<Rightarrow> bool" where
  "call_fit s \<longleftrightarrow> length (sc_pars s) \<le> 6 \<and> length (sc_members s) \<le> 6"

text \<open>During an entry: at most \<open>k\<close> parameters, and the information on the entry at hand.\<close>

definition call_within :: "nat \<Rightarrow> sysinfo \<Rightarrow> syscall \<Rightarrow> bool" where
  "call_within k info s \<longleftrightarrow> length (sc_pars s) \<le> k \<and> length (sc_members s) \<le> 6 \<and> sc_info s = Some info"

lemma call_within_fit: "call_within k info s \<Longrightarrow> k \<le> 6 \<Longrightarrow> call_fit s"
  by (simp add: call_within_def call_fit_def)

text \<open>
  \<open>k\<close> is how many parameters are left after \<open>prepareNewSystemCall\<close>, before the first pass.
\<close>

locale safe_class = call_contract c for c :: call_class +
  fixes k :: nat
  assumes process: "view_ok tv \<Longrightarrow> isEntry info \<Longrightarrow> safe (call_within n info) (cc_process c tv i)"
    and update: "view_ok tv \<Longrightarrow> safe call_fit (cc_update c tv i)"
    and pars: "length (cc_pars c nr) \<le> 6" "length (cc_members c nr) \<le> 6" "k \<le> 6"
    and prepare: "hoare (call_within 6 info) (cc_prepare c) (\<lambda>_. call_within k info)
      (\<lambda>e s. call_within 6 info s \<and> \<not> is_undefined e)"
    and second: "view_ok tv \<Longrightarrow> isEntry info \<Longrightarrow>
      hoare (call_within k info) (cc_2nd c tv) (\<lambda>_. call_within 6 info) (\<lambda>e s. call_fit s \<and> \<not> is_undefined e)"
    and post: "view_ok tv \<Longrightarrow> safe call_fit (cc_post c tv)"
    and fdtrack: "view_ok tv \<Longrightarrow> cc_fdtrack c tv s fds = (Inl e, fds') \<Longrightarrow> \<not> is_undefined e"

section \<open>Items of a call\<close>

lemma on_par_frame:
  assumes "\<And>c sg v. sound ok (item_is sg v) (m c)"
  shows "call_frame s (snd (on_par m n s)) \<and> sc_members (snd (on_par m n s)) = sc_members s"
proof (cases "n < length (sc_pars s)")
  case True
  let ?i = "sc_pars s ! n"
  have "item_is (par_sig ?i) (it_val ?i) (snd (m s ?i))"
    using assms by (rule sound_snd) (simp add: item_is_def)
  then have "map par_sig ((sc_pars s)[n := snd (m s ?i)]) = map par_sig (sc_pars s)"
    "map it_val ((sc_pars s)[n := snd (m s ?i)]) = map it_val (sc_pars s)"
    using True by (simp_all add: map_update item_is_def list_update_same_conv)
  then show ?thesis
    by (cases "m s ?i") (simp add: on_par_def call_frame_def call_head_def)
next
  case False
  then show ?thesis
    by (simp add: on_par_def call_frame_def call_head_def list_update_beyond split: prod.split)
qed

lemma on_par_defined:
  assumes "on_par m n s = (Inl e, s')" "\<And>sg v. sound ok (item_is sg v) (m s)" "ok"
  shows "\<not> is_undefined e"
proof -
  let ?i = "sc_pars s ! n"
  obtain i' where "m s ?i = (Inl e, i')" using assms(1) by (auto simp: on_par_def split: prod.splits)
  with sound_Inl [OF assms(2), of "par_sig ?i" "it_val ?i" ?i] assms(3)
  show ?thesis by (simp add: item_is_def)
qed

lemma processData_frame:
  "call_frame s (snd (on_par (processData tv) n s)) \<and>
     sc_members (snd (on_par (processData tv) n s)) = sc_members s"
  by (rule on_par_frame [where ok = False]) (rule sound_processData, simp_all)

lemma updateData_frame:
  "call_frame s (snd (on_par (updateData tv) n s)) \<and>
     sc_members (snd (on_par (updateData tv) n s)) = sc_members s"
  by (rule on_par_frame [where ok = False]) (rule sound_updateData, simp)

lemma call_within_frame:
  assumes "call_frame s s' \<and> sc_members s' = sc_members s"
  shows "call_within n info s \<Longrightarrow> call_within n info s'" "call_fit s \<Longrightarrow> call_fit s'"
proof -
  have f: "call_frame s s'" using assms by blast
  have "call_head s' = call_head s" using f unfolding call_frame_def by blast
  then have "sc_info s' = sc_info s" by (simp add: call_head_def)
  moreover have "length (sc_pars s') = length (sc_pars s)" by (rule call_frame_length [OF f])
  ultimately show "call_within n info s \<Longrightarrow> call_within n info s'" "call_fit s \<Longrightarrow> call_fit s'"
    using assms by (simp_all add: call_within_def call_fit_def)
qed

text \<open>Every class that takes its item methods from the items satisfies the contract of the base class.\<close>

lemma items_contract:
  assumes "cc_process c = (\<lambda>tv. on_par (processData tv))" "cc_update c = (\<lambda>tv. on_par (updateData tv))"
  shows "call_contract c"
proof
  show "call_frame s (snd (cc_process c tv n s))" for s tv n
    unfolding assms by (rule conjunct1 [OF processData_frame])
  show "call_frame s (snd (cc_update c tv n s))" for s tv n
    unfolding assms by (rule conjunct1 [OF updateData_frame])
qed

interpretation items: call_contract "with_items c" for c
  by (rule items_contract) (simp_all add: with_items_def)

lemma on_member_fit:
  assumes "\<And>c sg v. sound ok (item_is sg v) (m c)"
  shows "sound ok (\<lambda>s. call_within k info s) (on_member m n)" "sound ok call_fit (on_member m n)"
proof -
  have "\<not> is_undefined e" if ok "m s (sc_members s ! n) = (Inl e, i)" for s e i
    using sound_Inl [OF assms _ that(1) that(2)] by (simp add: item_is_def)
  then show "sound ok (\<lambda>s. call_within k info s) (on_member m n)" "sound ok call_fit (on_member m n)"
    by (auto intro!: soundI simp: on_member_def call_within_def call_fit_def split: prod.splits)
qed

lemma items_process:
  assumes "view_ok tv" "isEntry info"
  shows "safe (call_within n info) (on_par (processData tv) i)"
proof (rule safeI)
  fix s e s'
  assume s: "call_within n info s" and run: "on_par (processData tv) i s = (Inl e, s')"
  have "call_within n info s'"
    using call_within_frame(1) [OF processData_frame s, of tv i] run by simp
  moreover have "sound True (item_is sg v) (processData tv s)" for sg v
    using s assms by (intro sound_processData) (simp_all add: entering_def call_within_def)
  ultimately show "call_within n info s' \<and> \<not> is_undefined e"
    using on_par_defined [OF run] by blast
next
  fix s x s'
  assume s: "call_within n info s" and run: "on_par (processData tv) i s = (Inr x, s')"
  show "call_within n info s'"
    using call_within_frame(1) [OF processData_frame s, of tv i] run by simp
qed

lemma items_update:
  assumes "view_ok tv"
  shows "safe call_fit (on_par (updateData tv) i)"
proof (rule safeI)
  fix s e s'
  assume s: "call_fit s" and run: "on_par (updateData tv) i s = (Inl e, s')"
  have "call_fit s'"
    using call_within_frame(2) [OF updateData_frame s, of tv i] run by simp
  moreover have "sound True (item_is sg v) (updateData tv s)" for sg v
    using assms by (intro sound_updateData)
  ultimately show "call_fit s' \<and> \<not> is_undefined e"
    using on_par_defined [OF run] by blast
next
  fix s x s'
  assume s: "call_fit s" and run: "on_par (updateData tv) i s = (Inr x, s')"
  show "call_fit s'"
    using call_within_frame(2) [OF updateData_frame s, of tv i] run by simp
qed

section \<open>Entry and exit are defined\<close>

context safe_class
begin

lemma fill_within:
  assumes "view_ok tv" "isEntry info"
  shows "safe (call_within n info) (item_fill c tv i w)"
  unfolding item_fill_def
  by (intro safe_seq safe_bind safe_if safe_ask safe_skip safe_upd process assms)
    (simp add: call_within_def par_set_val_def)

lemma fill_loop_within:
  assumes "view_ok tv" "isEntry info" "n \<le> i + length ws"
  shows "safe (call_within n info) (fill_loop c tv ws i ds)"
  using assms(3)
proof (induction ws arbitrary: i ds)
  case Nil
  then show ?case by (auto intro!: safeI simp: prog_defs call_within_def split: if_splits)
next
  case (Cons w ws)
  then show ?case
    by (auto intro!: safe_bind safe_ask safe_if safe_seq safe_ret fill_within assms(1,2) split: prod.split)
qed

lemma fillParameters_within:
  assumes "view_ok tv" "isEntry info" "n \<le> 6"
  shows "safe (call_within n info) (fillParameters c tv info)"
proof -
  have "length (entry_args info) = 6" using assms(2) by simp
  then show ?thesis unfolding fillParameters_def using assms
    by (auto intro!: safe_bind fill_loop_within safe_for fill_within split: prod.split)
qed

lemma entry_safe:
  assumes "view_ok tv" "isEntry info"
  shows "safe call_fit (setEntryInfo c tv info)"
proof -
  let ?E = "\<lambda>e s. call_fit s \<and> \<not> is_undefined e"
  have fill: "n \<le> 6 \<Longrightarrow> hoare (call_within n info) (fillParameters c tv info) (\<lambda>_. call_within n info) ?E" for n
    using fillParameters_within [OF assms, of n] unfolding safe_def
    by (rule hoare_conseq) (auto dest: call_within_fit)
  have 1: "hoare call_fit (updE (\<lambda>s. s\<lparr>sc_abi := si_abi info, sc_error := Some (ErrnoResult ENODATA),
      sc_info := Some info\<rparr>)) (\<lambda>_. call_within 6 info) ?E"
    by (simp add: hoare_def updE_def call_fit_def call_within_def)
  have 2: "hoare (call_within 6 info) (cc_prepare c) (\<lambda>_. call_within k info) ?E"
    by (rule hoare_conseq [OF prepare]) (auto dest: call_within_fit)
  have 3: "hoare (call_within k info) (fillParameters c tv info) (\<lambda>_. call_within k info) ?E"
    by (rule fill) (rule pars)
  have 4: "hoare (call_within k info) (bindE (cc_2nd c tv) (\<lambda>again. if again then fillParameters c tv info else skipE))
      (\<lambda>_. call_within 6 info) ?E"
    by (rule hoare_bind [OF second [OF assms]])
      (use fill [of 6] hoare_skip [of "\<lambda>_. call_within 6 info" ?E] in simp)
  have 5: "hoare (call_within 6 info) (updE (\<lambda>s. s\<lparr>sc_info := None\<rparr>)) (\<lambda>_. call_fit) ?E"
    by (simp add: hoare_def updE_def call_fit_def call_within_def)
  show ?thesis
    unfolding safe_def setEntryInfo_def seqsE.simps
    by (rule hoare_seq [OF 1 hoare_seq [OF 2 hoare_seq [OF 3 hoare_seq [OF 4 hoare_seq [OF 5 hoare_skip]]]]])
qed

lemma update_loop_fit: "view_ok tv \<Longrightarrow> safe call_fit (update_loop c tv ns ds)"
  by (induction ns arbitrary: ds) (auto intro!: safe_intros update)

lemma exit_pars_safe:
  assumes "view_ok tv"
  shows "safe call_fit (setExitInfo_pars c tv exit info)"
  unfolding setExitInfo_pars_def
  by (intro safe_seqs safe_seq safe_bind safe_ask safe_for safe_upd update_loop_fit update post assms)
    (auto simp: call_fit_def split: exit_info.splits)

lemma exit_safe:
  assumes "view_ok tv" "isExit info" "call_fit s" "setExitInfo c tv info (s, fds) = (r, (s', fds'))"
  shows "call_fit s' \<and> (\<forall>e. r = Inl e \<longrightarrow> \<not> is_undefined e)"
proof -
  obtain exit where k: "si_kind info = InfoExit exit" using assms(2) by (auto split: info_kind.splits)
  obtain q t where run: "setExitInfo_pars c tv exit info s = (q, t)" by fastforce
  have t: "call_fit t" "call_fit (t\<lparr>sc_info := None\<rparr>)" "q = Inl e \<Longrightarrow> \<not> is_undefined e" for e
    using safeD_Inl [OF exit_pars_safe [OF assms(1)] assms(3)] safeD_Inr [OF exit_pars_safe [OF assms(1)] assms(3)] run
    by (cases q; simp add: call_fit_def)+
  show ?thesis
  proof (cases q)
    case (Inl e)
    with assms(4) run k t show ?thesis by (simp add: setExitInfo_def)
  next
    case (Inr u)
    show ?thesis
    proof (cases exit)
      case (ExitValue v)
      obtain q2 fds2 where f: "cc_fdtrack c tv t fds = (q2, fds2)" by fastforce
      with assms(4) run k Inr ExitValue t fdtrack [OF assms(1), of t fds] show ?thesis
        by (cases q2) (auto simp: setExitInfo_def)
    next
      case (ExitError v)
      with assms(4) run k Inr t show ?thesis by (auto simp: setExitInfo_def)
    qed
  qed
qed

end

section \<open>Classes that only declare their parameters\<close>

lemma safe_plain:
  assumes "\<And>nr. length (cc_pars c nr) \<le> 6" "\<And>nr. length (cc_members c nr) \<le> 6"
    and "cc_process c = (\<lambda>tv. on_par (processData tv))" "cc_update c = (\<lambda>tv. on_par (updateData tv))"
    and "cc_prepare c = skipE" "cc_2nd c = (\<lambda>_. ret False)" "cc_post c = (\<lambda>_. skipE)"
    and "\<And>tv s fds e fds'. view_ok tv \<Longrightarrow> cc_fdtrack c tv s fds = (Inl e, fds') \<Longrightarrow> \<not> is_undefined e"
  shows "safe_class c 6"
proof -
  have "call_contract c" by (rule items_contract) (use assms in simp_all)
  moreover have "safe_class_axioms c 6"
  proof (rule safe_class_axioms.intro, goal_cases)
    case (1 tv info n i)
    then show ?case by (simp add: assms items_process)
  next
    case (2 tv i)
    then show ?case by (simp add: assms items_update)
  qed (use assms in \<open>auto simp: hoare_def prog_defs safe_def dest: call_within_fit\<close>)
  ultimately show ?thesis by (rule safe_class.intro)
qed

end
