(* ===== verification/Call_Safe.thy ===== *)
theory Call_Safe
  imports Call_Dynamic Call_Sound
begin

text \<open>
  Every class of \<open>Call_Classes\<close> and \<open>Call_Dynamic\<close> keeps to the contract \<open>safe_class\<close>.
\<close>

declare isEntry.simps [simp del] isExit.simps [simp del]

section \<open>Classes that only declare parameters\<close>

named_theorems safe_classes \<open>classes that keep to the contract\<close>

lemma safe_numbered [safe_classes]: "length ps \<le> 6 \<Longrightarrow> safe_class (numbered_class r ps) 6"
  by (rule safe_plain) (auto simp: numbered_class_def with_items_def base_class_def prog_defs)

lemma safe_static [safe_classes]: "length ps \<le> 6 \<Longrightarrow> safe_class (static_class nr r ps) 6"
  by (rule safe_plain) (auto simp: static_class_def numbered_class_def with_items_def base_class_def prog_defs)

lemma length_items [simp]:
  "length select_items = 4" "length epoll_wait_items = 3" "length poll_items = 2" "length mmap_items = 6"
  "length signalfd_items = 3" "length fadvise_pars64 = 4" "length (fadvise_pars_i386 b) \<le> 6"
  by (simp_all add: select_items_def epoll_wait_items_def poll_items_def mmap_items_def signalfd_items_def
      fadvise_pars64_def fadvise_pars_i386_def)

lemmas static_class_defs =
  BreakSystemCall_def MunmapSystemCall_def MprotectSystemCall_def
  SetTIDAddressSystemCall_def GetRobustListSystemCall_def SetRobustListSystemCall_def
  NanoSleepSystemCall_def ClockNanoSleepSystemCall_def AlarmSystemCall_def
  SigActionSystemCall_def RtSigActionSystemCall_def SigProcMaskSystemCall_def
  RtSigProcMaskSystemCall_def TgKillSystemCall_def NotImplementedSystemCall_def
  UnknownSystemCall_def DroppedSystemCall_def GetRlimitSystemCall_def
  SetRlimitSystemCall_def Prlimit64SystemCall_def RestartSystemCall_def
  ExitSystemCall_def ExitGroupSystemCall_def GetRandomSystemCall_def
  RSeqSystemCall_def ForkSystemCall_def ExecveSystemCall_def ExecveAtSystemCall_def
  SetSIDSystemCall_def Wait4SystemCall_def WaitPIDSystemCall_def
  PIDFDSendSignalSystemCall_def AccessSystemCall_def FAccessAtSystemCall_def
  FAccessAt2SystemCall_def FstatSystemCall_def FstatAtSystemCall_def
  StatSystemCallT_def UmaskSystemCall_def ReadLinkSystemCall_def
  ReadLinkAtSystemCall_def GetCWDSystemCall_def ChDirSystemCall_def
  FChDirSystemCall_def WriteSystemCall_def ReadSystemCall_def ReadVSystemCall_def
  WriteVSystemCall_def PRead64SystemCall_def PWrite64SystemCall_def
  PReadVSystemCall_def PWriteVSystemCall_def PReadV2SystemCall_def
  PWriteV2SystemCall_def IoCtlSystemCall_def LSeekSystemCall_def LLSeekSystemCall_def
  PSelectSystemCall_def EPollCtlSystemCall_def EPollWaitSystemCall_def
  EPollPWaitSystemCall_def EPollPWait2SystemCall_def PollSystemCall_def
  PPollSystemCall_def

lemma static_classes_safe: "(cls, c) \<in> set static_classes \<Longrightarrow> safe_class c 6"
  unfolding static_classes_def static_class_defs
  by (auto simp del: One_nat_def intro!: safe_classes)

section \<open>Classes with methods of their own\<close>

lemma safe_class_upd:
  assumes "safe_class c 6" "k \<le> 6"
    and "cc_process c' = cc_process c" "cc_update c' = cc_update c" "cc_pars c' = cc_pars c" "cc_members c' = cc_members c"
    and "\<And>info. hoare (call_within 6 info) (cc_prepare c') (\<lambda>_. call_within k info)
      (\<lambda>e s. call_within 6 info s \<and> \<not> is_undefined e)"
    and "\<And>tv info. view_ok tv \<Longrightarrow> isEntry info \<Longrightarrow>
      hoare (call_within k info) (cc_2nd c' tv) (\<lambda>_. call_within 6 info) (\<lambda>e s. call_fit s \<and> \<not> is_undefined e)"
    and "\<And>tv. view_ok tv \<Longrightarrow> safe call_fit (cc_post c' tv)"
    and "\<And>tv s fds e fds'. view_ok tv \<Longrightarrow> cc_fdtrack c' tv s fds = (Inl e, fds') \<Longrightarrow> \<not> is_undefined e"
  shows "safe_class c' k"
proof -
  note c = assms(1) [THEN safe_class.axioms(1)]
  have "call_contract c'"
    by (rule call_contract.intro) (simp_all add: assms(3,4) call_contract.process_frame [OF c]
        call_contract.update_frame [OF c])
  moreover have "safe_class_axioms c' k"
    by (rule safe_class_axioms.intro)
      (use assms safe_class.process [OF assms(1)] safe_class.update [OF assms(1)]
        safe_class.pars [OF assms(1)] in simp_all)
  ultimately show ?thesis by (rule safe_class.intro)
qed

text \<open>What the methods do, as far as the number of parameters goes.\<close>

lemma hoare_upd_within:
  "(\<And>s. call_within n info s \<Longrightarrow> call_within m info (f s)) \<Longrightarrow>
     hoare (call_within n info) (updE f) (\<lambda>_. call_within m info) E"
  by (simp add: hoare_def updE_def)

lemma second_adds:
  assumes "\<And>s. call_within k info s \<Longrightarrow> call_within 6 info (f s)"
  shows "hoare (call_within k info) (seqE (updE f) (askE b)) (\<lambda>_. call_within 6 info) E"
    and "hoare (call_within k info) (seqE (updE f) (ret True)) (\<lambda>_. call_within 6 info) E"
  using assms by (simp_all add: hoare_def prog_defs)

lemma hoare_ask_case:
  "(\<And>x. hoare P (f x) Q E) \<Longrightarrow> hoare P (bindE (askE g) f) Q E"
  by (auto simp: hoare_def bindE_def askE_def)

lemma safe_post: "safe_class c k \<Longrightarrow> view_ok tv \<Longrightarrow> safe call_fit (cc_post c tv)"
  by (rule safe_class.post)

lemma no_2nd: "k \<le> 6 \<Longrightarrow> hoare (call_within k info) (ret False) (\<lambda>_. call_within 6 info) E"
  by (simp add: hoare_def ret_def call_within_def)

lemma no_prepare: "hoare (call_within 6 info) skipE (\<lambda>_. call_within 6 info) E"
  by (rule hoare_skip)

lemma class_fields [simp]:
  "cc_prepare (numbered_class r ps) = skipE" "cc_prepare (static_class nr r ps) = skipE"
  "cc_2nd (numbered_class r ps) = (\<lambda>_. ret False)" "cc_2nd (static_class nr r ps) = (\<lambda>_. ret False)"
  "cc_post (numbered_class r ps) = (\<lambda>_. skipE)" "cc_post (static_class nr r ps) = (\<lambda>_. skipE)"
  "cc_fdtrack (numbered_class r ps) = (\<lambda>_ _. skipE)" "cc_fdtrack (static_class nr r ps) = (\<lambda>_ _. skipE)"
  by (simp_all add: numbered_class_def static_class_def with_items_def base_class_def)

lemma skip_defined: "skipE fds = (Inl e, fds') \<Longrightarrow> \<not> is_undefined e"
  by (simp add: prog_defs)

lemma track_defined: "track i fds = (Inl e, fds') \<Longrightarrow> \<not> is_undefined e"
  by (simp add: track_def prog_defs)

lemma drop_within: "call_within 6 info s \<Longrightarrow> call_within k info (dropParameters k s)"
  "call_within 6 info s \<Longrightarrow> call_within k info (set_ret r (dropParameters k s))"
  by (simp_all add: call_within_def dropParameters_def set_ret_def)

text \<open>A class that only tracks descriptors.\<close>

lemma safe_fdtrack [safe_classes]:
  assumes "safe_class c 6" "cc_prepare c = skipE" "cc_2nd c = (\<lambda>_. ret False)"
    and "\<And>tv s fds e fds'. view_ok tv \<Longrightarrow> f tv s fds = (Inl e, fds') \<Longrightarrow> \<not> is_undefined e"
  shows "safe_class (c\<lparr>cc_fdtrack := f\<rparr>) 6"
  by (rule safe_class_upd [OF assms(1)])
    (use assms safe_post [OF assms(1)] in \<open>simp_all add: no_2nd no_prepare\<close>)

lemma safe_dup: "length extra \<le> 5 \<Longrightarrow> safe_class (dup_class nr extra) 6"
  unfolding dup_class_def
  by (intro safe_classes) (auto simp: Dup_updateFDTracking_def track_def prog_defs split: option.splits)

lemma safe_pipe: "length extra \<le> 5 \<Longrightarrow> safe_class (pipe_class nr extra) 6"
  unfolding pipe_class_def
  by (intro safe_classes) (auto simp: Pipe_updateFDTracking_def track_def prog_defs Let_def split: option.splits if_splits)

lemmas tracking_defs = track_def prog_defs Clone3_updateFDTracking_def PIDFDOpen_updateFDTracking_def
  EventFD2_updateFDTracking_def SignalFD_updateFDTracking_def SignalFD4_updateFDTracking_def

lemma PIDFDGetFD_defined:
  "view_ok tv \<Longrightarrow> PIDFDGetFD_updateFDTracking tv s fds = (Inl e, fds') \<Longrightarrow> \<not> is_undefined e"
  by (auto simp: PIDFDGetFD_updateFDTracking_def get_fd_infos_def view_ok_def track_def prog_defs
      split: sum.splits option.splits if_splits)

interpretation clone3: safe_class Clone3SystemCall 6
  unfolding Clone3SystemCall_def
  by (intro safe_classes) (auto simp: tracking_defs split: option.splits if_splits)

interpretation pidfd_open: safe_class PIDFDOpenSystemCall 6
  unfolding PIDFDOpenSystemCall_def by (intro safe_classes) (auto simp: tracking_defs)

interpretation pidfd_getfd: safe_class PIDFDGetFDSystemCall 6
  unfolding PIDFDGetFDSystemCall_def by (intro safe_classes) (auto dest: PIDFDGetFD_defined)

interpretation dup: safe_class DupSystemCall 6
  unfolding DupSystemCall_def by (rule safe_dup) simp

interpretation dup2: safe_class Dup2SystemCall 6
  unfolding Dup2SystemCall_def by (rule safe_dup) simp

interpretation dup3: safe_class Dup3SystemCall 6
  unfolding Dup3SystemCall_def by (rule safe_dup) simp

interpretation pipe: safe_class PipeSystemCall 6
  unfolding PipeSystemCall_def by (rule safe_pipe) simp

interpretation pipe2: safe_class Pipe2SystemCall 6
  unfolding Pipe2SystemCall_def by (rule safe_pipe) simp

interpretation close_call: safe_class CloseSystemCall 6
  unfolding CloseSystemCall_def by (intro safe_classes) (auto simp: tracking_defs)

interpretation eventfd: safe_class EventFDSystemCall 6
  unfolding EventFDSystemCall_def by (intro safe_classes) (auto simp: tracking_defs)

interpretation eventfd2: safe_class EventFD2SystemCall 6
  unfolding EventFD2SystemCall_def by (intro safe_classes) (auto simp: tracking_defs)

interpretation signalfd: safe_class SignalFDSystemCall 6
  unfolding SignalFDSystemCall_def by (intro safe_classes) (auto simp: tracking_defs split: if_splits)

interpretation signalfd4: safe_class SignalFD4SystemCall 6
  unfolding SignalFD4SystemCall_def by (intro safe_classes) (auto simp: tracking_defs split: if_splits)

interpretation epoll_create: safe_class EPollCreateSystemCall 6
  unfolding EPollCreateSystemCall_def
  by (rule safe_plain) (auto simp: with_items_def base_class_def tracking_defs)

interpretation getxid: safe_class "GetXIDSystemCall ID_T" 6 for ID_T
  unfolding GetXIDSystemCall_def
  by (rule safe_plain) (auto simp: with_items_def base_class_def tracking_defs)

interpretation getpgid: safe_class GetPGIDSystemCall 6
  unfolding GetPGIDSystemCall_def by (intro safe_classes) simp

interpretation getsid: safe_class GetSIDSystemCall 6
  unfolding GetSIDSystemCall_def by (intro safe_classes) simp

section \<open>Parameter lists that depend on the arguments\<close>

lemma length_Clone_pars: "length (sc_pars s) \<le> 2 \<Longrightarrow> length (Clone_pars s) \<le> 5"
  by (simp add: Clone_pars_def add_settls_def add_settid_def add_unused_def Let_def)

interpretation clone: safe_class CloneSystemCall 2
  unfolding CloneSystemCall_def
proof (rule safe_class_upd [OF safe_static], simp_all add: skip_defined safe_skip, goal_cases)
  case (1 info)
  show ?case by (rule hoare_upd_within) (rule drop_within)
next
  case (2 tv info)
  have "length (sc_pars s) \<le> 2 \<Longrightarrow> length (Clone_pars s) \<le> 6" for s
    using length_Clone_pars [of s] by simp
  then show ?case unfolding Clone_check2ndPass_def
    by (intro second_adds) (simp add: call_within_def)
qed

interpretation waitid: safe_class WaitIDSystemCall 1
  unfolding WaitIDSystemCall_def
proof (rule safe_class_upd [OF safe_static], simp_all add: skip_defined safe_skip, goal_cases)
  case (1 info)
  show ?case by (rule hoare_upd_within) (rule drop_within)
next
  case (2 tv info)
  have "hoare (call_within 1 info) (raise (RuntimeError m)) Q (\<lambda>e s. call_fit s \<and> \<not> is_undefined e)" for m Q
    by (simp add: hoare_def raise_def call_within_def call_fit_def)
  then show ?case unfolding WaitID_check2ndPass_def
    by (intro hoare_ask_case) (auto split: option.split intro!: second_adds simp: call_within_def addParameters_def)
qed

lemma length_futex_pars: "length (futex_pars cmd) \<le> 4"
  by (simp add: futex_pars_def Let_def)

lemma with_ret_within [simp]: "call_within k info (with_ret r s) = call_within k info s"
  by (simp add: with_ret_def set_ret_def call_within_def split: option.split)

interpretation futex: safe_class FutexSystemCall 2
  unfolding FutexSystemCall_def
proof (rule safe_class_upd [OF safe_numbered], simp_all add: skip_defined safe_skip, goal_cases)
  case (1 info)
  show ?case by (rule hoare_upd_within) (rule drop_within)
next
  case (2 tv info)
  have "n \<le> 2 \<Longrightarrow> n + length (futex_pars cmd) \<le> 6" for n cmd
    using length_futex_pars [of cmd] by simp
  then show ?case unfolding Futex_check2ndPass_def
    by (intro hoare_ask_case second_adds) (simp add: call_within_def [of 2] call_within_def [of 6] addParameters_def)
qed

lemma length_fcntl_items: "length (fst (fcntl_setup oper)) \<le> 1"
proof -
  have "\<forall>(x, y)\<in>set fcntl_items. length (fst y) \<le> 1" by (simp add: fcntl_items_def Let_def)
  then show ?thesis by (cases "map_of fcntl_items oper") (use map_of_SomeD in \<open>fastforce simp: fcntl_setup_def\<close>)+
qed

interpretation fcntl: safe_class FcntlSystemCall 2
  unfolding FcntlSystemCall_def
proof (rule safe_class_upd [OF safe_numbered], simp_all add: safe_skip, goal_cases)
  case (1 info)
  show ?case by (rule hoare_upd_within) (rule drop_within)
next
  case (2 tv info)
  have "n \<le> 2 \<Longrightarrow> n + length (fst (fcntl_setup oper)) \<le> 6" for n oper
    using length_fcntl_items [of oper] by simp
  then have "fcntl_setup oper = (extra, r) \<Longrightarrow> n \<le> 2 \<Longrightarrow> n + length extra \<le> 6" for n oper extra r
    by (metis fst_conv)
  then show ?case unfolding Fcntl_check2ndPass_def
    by (auto simp: hoare_def prog_defs call_within_def [of 2] call_within_def [of 6] addParameters_def
        split: prod.split)
next
  case (3 tv s fds e fds')
  then show ?case by (auto simp: Fcntl_updateFDTracking_def tracking_defs Let_def split: option.splits if_splits)
qed

lemma StatFS_within: "hoare (call_within 6 info) (StatFS_prepare nr) (\<lambda>_. call_within 6 info) E"
  unfolding StatFS_prepare_def by (rule hoare_upd_within) (simp add: call_within_def setParameters_def)

interpretation statfs: safe_class StatFSSystemCall 6
  unfolding StatFSSystemCall_def
  by (rule safe_class_upd [OF safe_numbered]) (simp_all add: safe_skip skip_defined no_2nd StatFS_within)

interpretation fstatfs: safe_class FStatFSSystemCall 6
  unfolding FStatFSSystemCall_def
  by (rule safe_class_upd [OF safe_numbered]) (simp_all add: safe_skip skip_defined no_2nd StatFS_within)

lemma Open_2nd_within:
  assumes "k \<le> 3"
  shows "hoare (call_within k info) (Open_check2ndPass t n) (\<lambda>_. call_within 6 info) E"
  using assms unfolding Open_check2ndPass_def
  by (auto simp: hoare_def prog_defs call_within_def addParameters_def)

lemma Open_track_defined: "Open_updateFDTracking n s fds = (Inl e, fds') \<Longrightarrow> \<not> is_undefined e"
  by (simp add: Open_updateFDTracking_def tracking_defs)

interpretation open_call: safe_class "OpenSystemCall is_tmpfile" 2 for is_tmpfile
  unfolding OpenSystemCall_def
  by (rule safe_class_upd [OF safe_static])
    (auto simp: safe_skip Open_2nd_within intro!: hoare_upd_within drop_within dest: Open_track_defined)

interpretation openat: safe_class "OpenAtSystemCall is_tmpfile" 3 for is_tmpfile
  unfolding OpenAtSystemCall_def
  by (rule safe_class_upd [OF safe_static])
    (auto simp: safe_skip Open_2nd_within intro!: hoare_upd_within drop_within dest: Open_track_defined)

lemma FAdvise_within:
  "hoare (call_within 6 info) FAdvise_prepare (\<lambda>_. call_within 6 info) (\<lambda>e s. call_within 6 info s \<and> \<not> is_undefined e)"
  unfolding FAdvise_prepare_def
  by (auto simp: hoare_def prog_defs call_within_def setParameters_def)

interpretation fadvise: safe_class "FAdviseSystemCall a" 6 for a
  unfolding FAdviseSystemCall_def
  by (rule safe_class_upd [OF safe_numbered]) (simp_all add: safe_skip skip_defined no_2nd FAdvise_within)

section \<open>Items aside\<close>

lemma fill_member_within:
  assumes "view_ok tv" "isEntry info"
  shows "safe (call_within k info) (fill_member tv n w)"
proof (rule safeI)
  have sound: "sound True (item_is sg v) (processData tv c)" if "sc_info c = Some info" for c sg v
    using assms that by (intro sound_processData) (simp_all add: entering_def)
  define m where "m = (\<lambda>c. seqE (updE (\<lambda>i :: item. i\<lparr>it_val := w\<rparr>)) (bindE (askE it_unused)
     (\<lambda>unused. if \<not> unused then processData tv c else skipE)))"
  have fm: "fill_member tv n w = on_member m n" by (simp add: fill_member_def m_def)
  have m: "\<not> is_undefined e" if "sc_info c = Some info" "m c i = (Inl e, i')" for c i e i'
  proof -
    let ?i = "i\<lparr>it_val := w\<rparr>"
    have "processData tv c ?i = (Inl e, i')"
      using that(2) by (simp add: m_def prog_defs split: if_splits)
    with sound_Inl [OF sound [OF that(1)], of "par_sig ?i" "it_val ?i" ?i] show ?thesis
      by (simp add: item_is_def)
  qed
  show "call_within k info s' \<and> \<not> is_undefined e"
    if "call_within k info s" "fill_member tv n w s = (Inl e, s')" for s e s'
    using that m [of s "sc_members s ! n"] by (auto simp: fm on_member_def call_within_def split: prod.splits)
  show "call_within k info s'"
    if "call_within k info s" "fill_member tv n w s = (Inr x, s')" for s x s'
    using that by (auto simp: fm on_member_def call_within_def split: prod.splits)
qed

lemma fill_members_within:
  assumes "view_ok tv" "isEntry info"
  shows "hoare (call_within 6 info)
    (if b then seqE (seqsE (map (\<lambda>(n, w). fill_member tv n w) l)) (ret False) else ret False)
    (\<lambda>_. call_within 6 info) (\<lambda>e s. call_fit s \<and> \<not> is_undefined e)"
proof -
  have "safe (call_within 6 info) (seqsE (map (\<lambda>(n, w). fill_member tv n w) l))"
  proof (induction l)
    case Nil
    show ?case by (simp add: safe_skip)
  next
    case (Cons x l)
    then show ?case by (cases x) (simp add: safe_seq fill_member_within assms)
  qed
  then have "safe (call_within 6 info)
      (if b then seqE (seqsE (map (\<lambda>(n, w). fill_member tv n w) l)) (ret False) else ret False)"
    by (intro safe_if safe_seq safe_ret)
  then show ?thesis unfolding safe_def by (rule hoare_conseq) (auto dest: call_within_fit)
qed

lemma use_old_within:
  "call_within 6 info s \<Longrightarrow> call_within 6 info (use_old_args a s)"
  "call_within 6 info s \<Longrightarrow> call_within 6 info (drop_old_args s)"
  by (simp_all add: call_within_def use_old_args_def drop_old_args_def)

interpretation mmap: safe_class MmapSystemCall 6
  unfolding MmapSystemCall_def
proof (rule safe_class_upd [OF safe_numbered], simp_all add: safe_skip skip_defined, goal_cases)
  case (1 info)
  show ?case unfolding Mmap_prepare_def
    by (rule hoare_upd_within) (simp add: use_old_within)
next
  case (2 tv info)
  then have "hoare (call_within 6 info) (if has_old_args K_OldMmapArgs s
     then seqE (seqsE [fill_member tv 0 (arg_word s 0), fill_member tv 1 (arg_word s 1),
            fill_member tv 2 (arg_signed s 2), fill_member tv 3 (arg_signed s 3),
            fill_member tv 4 (arg_signed s 4), fill_member tv 5 (arg_word s 5)]) (ret False)
     else ret False) (\<lambda>_. call_within 6 info) (\<lambda>e s. call_fit s \<and> \<not> is_undefined e)" for s
    using fill_members_within [of tv info _ "[(0, arg_word s 0), (1, arg_word s 1), (2, arg_signed s 2),
      (3, arg_signed s 3), (4, arg_signed s 4), (5, arg_word s 5)]"] by (simp del: seqsE.simps cong: if_cong)
  then show ?case unfolding Mmap_check2ndPass_def by (rule hoare_ask_case)
qed

interpretation select: safe_class SelectSystemCall 6
  unfolding SelectSystemCall_def
proof (rule safe_class_upd [OF safe_numbered], simp_all add: skip_defined, goal_cases)
  case (1 info)
  show ?case unfolding Select_prepare_def
    by (rule hoare_upd_within) (simp add: use_old_within)
next
  case (2 tv info)
  then have "hoare (call_within 6 info) (if isOldSelect s
     then seqE (seqsE [fill_member tv 0 (arg_signed s 0), fill_member tv 1 (arg_word s 1),
            fill_member tv 2 (arg_word s 2), fill_member tv 3 (arg_word s 3),
            fill_member tv 4 (arg_word s 4)]) (ret False)
     else ret False) (\<lambda>_. call_within 6 info) (\<lambda>e s. call_fit s \<and> \<not> is_undefined e)" for s
    using fill_members_within [of tv info _ "[(0, arg_signed s 0), (1, arg_word s 1), (2, arg_word s 2),
      (3, arg_word s 3), (4, arg_word s 4)]"] by (simp del: seqsE.simps cong: if_cong)
  then show ?case unfolding Select_check2ndPass_def by (rule hoare_ask_case)
next
  case (3 tv)
  have "sound True call_fit (on_member (updateData tv) n)" for n
    by (rule on_member_fit) (rule sound_updateData, rule 3)
  then have "safe call_fit (on_member (updateData tv) n)" for n by (rule sound_safe) simp
  then have "safe call_fit (seqsE (map (on_member (updateData tv)) l))" for l
    by (induction l) (auto intro: safe_intros)
  then show ?case unfolding Select_postSystemCall_def by (intro safe_bind safe_ask safe_if safe_skip)
qed

section \<open>The whole family\<close>

lemmas dynamic_axioms = mmap.safe_class_axioms clone.safe_class_axioms clone3.safe_class_axioms
  getxid.safe_class_axioms getpgid.safe_class_axioms getsid.safe_class_axioms waitid.safe_class_axioms
  pidfd_open.safe_class_axioms pidfd_getfd.safe_class_axioms futex.safe_class_axioms
  fcntl.safe_class_axioms statfs.safe_class_axioms fstatfs.safe_class_axioms
  open_call.safe_class_axioms openat.safe_class_axioms close_call.safe_class_axioms
  fadvise.safe_class_axioms dup.safe_class_axioms dup2.safe_class_axioms dup3.safe_class_axioms
  pipe.safe_class_axioms pipe2.safe_class_axioms eventfd.safe_class_axioms eventfd2.safe_class_axioms
  select.safe_class_axioms epoll_create.safe_class_axioms signalfd.safe_class_axioms
  signalfd4.safe_class_axioms

lemma dynamic_classes_safe: "(cls, c) \<in> set (dynamic_classes a t) \<Longrightarrow> \<exists>k. safe_class c k"
  unfolding dynamic_classes_def by (auto intro: dynamic_axioms)

lemma clues_family_safe:
  assumes "\<And>cls. \<exists>k. safe_class (cf_class rest cls) k"
  shows "\<exists>k. safe_class (cf_class (clues_family a t rest) cls) k"
proof (cases "map_of (static_classes @ dynamic_classes a t) cls")
  case None
  then show ?thesis using assms by (simp add: clues_family_def del: map_of_append)
next
  case (Some c)
  then have "(cls, c) \<in> set static_classes \<or> (cls, c) \<in> set (dynamic_classes a t)"
    using map_of_SomeD by fastforce
  then have "\<exists>k. safe_class c k" using static_classes_safe dynamic_classes_safe by blast
  then show ?thesis using Some by (simp add: clues_family_def del: map_of_append)
qed

end
