(* ===== verification/Tracee_Safety.thy ===== *)
theory Tracee_Safety
  imports Demo_World Call_Safe
begin

text \<open>
  Invariants over the tracee objects: how an invariant passes through the operations of a tracee,
  and the invariant that makes \<open>handleSystemCall\<close> and \<open>handleExitEvent\<close> well defined, namely that
  a tracee believed to be in a system call has a current system call object.
\<close>

section \<open>Invariants over all tracee objects\<close>

text \<open>
  \<open>P\<close> holds of every tracee object, and no system call object has more parameters, or more items
  aside, than there are argument words.
\<close>

definition all_tracees :: "(tref \<Rightarrow> tracee \<Rightarrow> bool) \<Rightarrow> world \<Rightarrow> bool" where
  "all_tracees P w \<longleftrightarrow> (\<forall>r. P r (w_tracee w r)) \<and> (\<forall>c. call_fit (cs_call (w_calls w) c))"

lemma all_traceesD: "all_tracees P w \<Longrightarrow> P r (w_tracee w r)"
  by (simp add: all_tracees_def)

lemma all_tracees_fit: "all_tracees P w \<Longrightarrow> call_fit (cs_call (w_calls w) c)"
  by (simp add: all_tracees_def)

lemma safe_modT [safe_intros]:
  "(\<And>t. P r t \<Longrightarrow> P r (f t)) \<Longrightarrow> safe (all_tracees P) (modT r f)"
  unfolding modT_def by (rule safe_upd) (simp add: all_tracees_def)

lemma safe_modFlags [safe_intros]:
  "(\<And>t. P r t \<Longrightarrow> P r (t\<lparr>t_flags := f (t_flags t)\<rparr>)) \<Longrightarrow> safe (all_tracees P) (modFlags r f)"
  unfolding modFlags_def by (rule safe_modT)

lemma safe_upd_other [safe_intros]:
  "(\<And>w. w_tracee (f w) = w_tracee w \<and> w_calls (f w) = w_calls w) \<Longrightarrow> safe (all_tracees P) (updE f)"
  by (rule safe_upd) (simp add: all_tracees_def)

lemma safe_getT [safe_intros]: "safe I (getT r)"
  by (simp add: getT_def safe_ask)

lemma safe_bind_getT [safe_intros]:
  assumes "\<And>t. P r t \<Longrightarrow> safe (all_tracees P) (f t)"
  shows "safe (all_tracees P) (bindE (getT r) f)"
proof (rule safeI)
  fix w e w'
  assume w: "all_tracees P w" and run: "bindE (getT r) f w = (Inl e, w')"
  then show "all_tracees P w' \<and> \<not> is_undefined e"
    using safeD_Inl [OF assms [OF all_traceesD [OF w]] w] by (simp add: getT_def askE_def bindE_def)
next
  fix w x w'
  assume w: "all_tracees P w" and run: "bindE (getT r) f w = (Inr x, w')"
  then show "all_tracees P w'"
    using safeD_Inr [OF assms [OF all_traceesD [OF w]] w] by (simp add: getT_def askE_def bindE_def)
qed

lemma safe_getPD [safe_intros]: "safe I (getPD r)"
  by (simp add: getPD_def safe_ask)

lemma safe_modPD [safe_intros]: "safe (all_tracees P) (modPD r f)"
  by (simp add: modPD_def safe_upd_other Let_def)

lemma safe_answer [safe_intros]: "safe I (answerE f)"
  by (simp add: answerE_def safe_ask)

lemma safe_getCall [safe_intros]: "safe I (getCall c)"
  by (simp add: getCall_def safe_ask)

section \<open>An environment without undefined behaviour\<close>

text \<open>
  Requests and the entries of \<open>/proc\<close> fail with C++ exceptions, the kernel shows a sane view of every
  tracee, the factory
  functions for multiplexed calls find a class, and every class keeps to the contract \<open>safe_class\<close>.
\<close>

definition env_safe :: "env \<Rightarrow> bool" where
  "env_safe E \<longleftrightarrow>
     (\<forall>h q e. k_fail (e_kernel E) h q = Some e \<longrightarrow> \<not> is_undefined e) \<and>
     (\<forall>h p e. k_exe (e_kernel E) h p = Inl e \<longrightarrow> \<not> is_undefined e) \<and>
     (\<forall>h p. view_ok (k_view (e_kernel E) h p)) \<and>
     (\<forall>h p e. pf_entries (tv_proc (k_view (e_kernel E) h p)) = Inl e \<longrightarrow> \<not> is_undefined e) \<and>
     (\<forall>f tv i e. cf_multi (e_family E) f tv i \<noteq> Inl e) \<and>
     (\<forall>cls. \<exists>k. safe_class (cf_class (e_family E) cls) k)"

declare isExit.simps [simp del] isEntry.simps [simp del]

lemma env_fail: "env_safe E \<Longrightarrow> k_fail (e_kernel E) h q = Some e \<Longrightarrow> \<not> is_undefined e"
  unfolding env_safe_def by (elim conjE) simp

lemma env_exe: "env_safe E \<Longrightarrow> k_exe (e_kernel E) h p = Inl e \<Longrightarrow> \<not> is_undefined e"
  unfolding env_safe_def by (elim conjE) simp

lemma env_view: "env_safe E \<Longrightarrow> view_ok (k_view (e_kernel E) h p)"
  unfolding env_safe_def by (elim conjE) simp

lemma env_proc: "env_safe E \<Longrightarrow> pf_entries (tv_proc (k_view (e_kernel E) h p)) = Inl e \<Longrightarrow> \<not> is_undefined e"
  unfolding env_safe_def by (elim conjE) simp

lemma env_multi: "env_safe E \<Longrightarrow> cf_multi (e_family E) f tv i \<noteq> Inl e"
  unfolding env_safe_def by (elim conjE) simp

lemma env_class:
  assumes "env_safe E"
  obtains k where "safe_class (cf_class (e_family E) cls) k"
  using assms unfolding env_safe_def by blast

lemma env_new_call: "env_safe E \<Longrightarrow> call_fit (new_call (e_family E) cls nr)"
  by (rule env_class [of E cls]) (auto simp: call_fit_def new_call_def Let_def dest: safe_class.pars)

lemma env_entry:
  assumes "env_safe E" "isEntry info" "call_fit s"
    and "setEntryInfo (cf_class (e_family E) cls) (k_view (e_kernel E) h p) info s = (r, s')"
  shows "call_fit s' \<and> (\<forall>e. r = Inl e \<longrightarrow> \<not> is_undefined e)"
proof -
  obtain k where "safe_class (cf_class (e_family E) cls) k" using env_class [OF assms(1)] .
  then have safe: "safe call_fit (setEntryInfo (cf_class (e_family E) cls) (k_view (e_kernel E) h p) info)"
    by (rule safe_class.entry_safe [OF _ env_view [OF assms(1)] assms(2)])
  show ?thesis
    using safeD_Inl [OF safe assms(3)] safeD_Inr [OF safe assms(3)] assms(4) by (cases r) auto
qed

lemma env_exit:
  assumes "env_safe E" "isExit info" "call_fit s"
    and "setExitInfo (cf_class (e_family E) cls) (k_view (e_kernel E) h p) info (s, fds) = (r, (s', fds'))"
  shows "call_fit s' \<and> (\<forall>e. r = Inl e \<longrightarrow> \<not> is_undefined e)"
proof -
  obtain k where "safe_class (cf_class (e_family E) cls) k" using env_class [OF assms(1)] .
  then show ?thesis by (rule safe_class.exit_safe [OF _ env_view [OF assms(1)] assms(2-4)])
qed

lemma safe_req [safe_intros]: "env_safe E \<Longrightarrow> safe (all_tracees P) (reqE E q)"
  by (rule safeI) (auto simp: reqE_def all_tracees_def dest: env_fail split: option.splits)

lemma safe_new_PD [safe_intros]: "safe (all_tracees P) (newPD d)"
  by (rule safeI) (auto simp: newPD_def all_tracees_def)

section \<open>Detaching under an invariant\<close>

text \<open>
  What an invariant of a single tracee has to admit so that detaching, and with it every callback in
  which the client may detach, keeps it.
\<close>

locale detach_stable =
  fixes P :: "tref \<Rightarrow> tracee \<Rightarrow> bool" and E :: env
  assumes env: "env_safe E"
    and dead: "P r t \<Longrightarrow> P r (stateChange DEAD t)"
    and detached: "P r t \<Longrightarrow> P r (stateChange DETACHED t)"
    and lost: "P r t \<Longrightarrow> P r (t\<lparr>t_pid := PID_INVALID\<rparr>)"
    and released: "P r t \<Longrightarrow> P r (t\<lparr>t_pid := PID_INVALID, t_flags := no_flags, t_attacher := None\<rparr>)"
    and planned: "P r t \<Longrightarrow> P r (t\<lparr>t_flags := (t_flags t)\<lparr>DETACH_AT_NEXT_STOP := True\<rparr>\<rparr>)"
    and collected: "P r t \<Longrightarrow> P r (t\<lparr>t_child_running := False\<rparr>)"
begin

lemma safe_cleanup: "safe (all_tracees P) (cleanupChild E r)"
  unfolding cleanupChild_def
  by (intro safe_intros) (auto simp: env collected)

lemma safe_changeState_dead: "safe (all_tracees P) (changeState E r DEAD)"
  unfolding changeState_def
  by (intro safe_intros safe_cleanup) (auto simp: dead)

lemma safe_changeState_detached: "safe (all_tracees P) (changeState E r DETACHED)"
  unfolding changeState_def
  by (intro safe_intros safe_cleanup) (auto simp: detached)

lemma safe_handleError: "\<not> is_undefined e \<Longrightarrow> safe (all_tracees P) (handleError E r e)"
  unfolding handleError_def
  by (intro safe_intros safe_changeState_dead) (auto simp: lost)

lemma safe_doDetach: "safe (all_tracees P) (doDetach E r)"
  unfolding doDetach_def
  by (intro safe_intros safe_changeState_detached safe_handleError env) (auto simp: released)

lemma safe_detach: "safe (all_tracees P) (detach E r)"
  unfolding detach_def
  by (intro safe_intros safe_doDetach safe_handleError env) (auto simp: planned)

lemma safe_callback: "safe (all_tracees P) (callbackE E cb)"
  unfolding callbackE_def
  by (intro safe_intros safe_detach) auto

end

section \<open>A current call for every entered call\<close>

text \<open>
  The tracee counts as inside a system call while the flag is set, at the entry stop, and while it
  runs on from it.
\<close>

definition in_syscall :: "tracee \<Rightarrow> bool" where
  "in_syscall t \<longleftrightarrow> SYSCALL_ENTERED (t_flags t) \<or> t_state t = SYSCALL_ENTER_STOP \<or>
     (t_state t = RUNNING \<and> t_prev t = SYSCALL_ENTER_STOP)"

definition sys_ok :: "tracee \<Rightarrow> bool" where
  "sys_ok t \<longleftrightarrow> (in_syscall t \<longrightarrow> t_current t \<noteq> None)"

lemma sys_ok_state:
  "new \<noteq> SYSCALL_ENTER_STOP \<Longrightarrow> sys_ok t \<Longrightarrow> sys_ok (stateChange new t)"
  by (auto simp: sys_ok_def in_syscall_def stateChange_def Let_def split: if_splits)

lemma sys_ok_new: "sys_ok (new_tracee k pd)"
  by (simp add: sys_ok_def in_syscall_def new_tracee_def no_flags_def)

text \<open>Past the exit stop: the call object may go.\<close>

definition past_exit :: "tracee \<Rightarrow> bool" where
  "past_exit t \<longleftrightarrow> \<not> SYSCALL_ENTERED (t_flags t) \<and> t_state t \<noteq> SYSCALL_ENTER_STOP \<and> t_state t \<noteq> RUNNING"

lemmas sys_defs = sys_ok_def in_syscall_def past_exit_def stateChange_def Let_def no_flags_def

locale safe_env =
  fixes E :: env
  assumes safe_env: "env_safe E"

sublocale safe_env \<subseteq> ok: detach_stable "\<lambda>_. sys_ok" E
  by unfold_locales (auto simp: safe_env sys_defs)

sublocale safe_env \<subseteq> exiting: detach_stable "\<lambda>q t. sys_ok t \<and> (q = r \<longrightarrow> past_exit t)" E for r
  by unfold_locales (auto simp: safe_env sys_defs)

sublocale safe_env \<subseteq> entering: detach_stable "\<lambda>q t. q = r \<or> sys_ok t" E for r
  by unfold_locales (auto simp: safe_env sys_defs)

abbreviation world_ok :: "world \<Rightarrow> bool" where
  "world_ok \<equiv> all_tracees (\<lambda>_. sys_ok)"

lemma safe_changeState:
  assumes "new \<noteq> DEAD" "\<And>t. P r t \<Longrightarrow> P r (stateChange new t)"
  shows "safe (all_tracees P) (changeState E r new)"
  unfolding changeState_def using assms by (intro safe_intros) auto

lemma modT_run: "modT r f w = (Inr (), w\<lparr>w_tracee := (w_tracee w)(r := f (w_tracee w r))\<rparr>)"
  by (simp add: modT_def updE_def)

lemma seq_modT: "seqE (modT r f) n w = n (w\<lparr>w_tracee := (w_tracee w)(r := f (w_tracee w r))\<rparr>)"
  by (simp add: modT_def prog_defs)

lemma bind_getT: "bindE (getT r) f w = f (w_tracee w r) w"
  by (simp add: getT_def prog_defs)

lemma bind_getInfo: "t_info (w_tracee w r) = Some i \<Longrightarrow> bindE (getInfo r) f w = f i w"
  by (simp add: getInfo_def getT_def prog_defs)

lemma bind_getCurrent: "t_current (w_tracee w r) = Some c \<Longrightarrow> bindE (getCurrent r) f w = f c w"
  by (simp add: getCurrent_def getT_def prog_defs)

lemma getInfo_run: "t_info (w_tracee w r) = Some i \<Longrightarrow> getInfo r w = (Inr i, w)"
  by (simp add: getInfo_def getT_def prog_defs)

lemma getCurrent_run: "t_current (w_tracee w r) = Some c \<Longrightarrow> getCurrent r w = (Inr c, w)"
  by (simp add: getCurrent_def getT_def prog_defs)

lemma safe_runs:
  assumes "safe I m" "I s" "n s = m s"
  shows "case n s of (Inl e, s') \<Rightarrow> I s' \<and> \<not> is_undefined e | (Inr x, s') \<Rightarrow> I s'"
  using assms by (auto simp: safe_def hoare_def)

lemma safe_getView [safe_intros]: "safe I (getView E r)"
  unfolding getView_def
  by (simp add: safe_bind safe_getT answerE_def safe_ask)

lemma safe_getClass [safe_intros]: "safe I (getClass E c)"
  unfolding getClass_def by (simp add: safe_bind safe_getCall safe_ret)

context safe_env
begin

lemma safe_entryInfo:
  assumes "isEntry info"
  shows "safe (all_tracees P) (callSetEntryInfo E r c info)"
proof -
  have "safe (all_tracees P) (runCall c (setEntryInfo (cf_class (e_family E) cls) (k_view (e_kernel E) h p) info))" for cls h p
    by (intro safeI) (auto simp: runCall_def all_tracees_def split: prod.splits
        dest: env_entry [OF safe_env assms, rotated])
  then show ?thesis
    unfolding callSetEntryInfo_def getClass_def
    by (auto simp: bindE_def ret_def getCall_def askE_def safe_def hoare_def getView_def getT_def answerE_def)
qed

lemma safe_exitInfo:
  assumes "isExit info"
  shows "safe (all_tracees P) (callSetExitInfo E r c info)"
proof (rule safeI)
  fix w e w'
  assume "all_tracees P w" "callSetExitInfo E r c info w = (Inl e, w')"
  then show "all_tracees P w' \<and> \<not> is_undefined e"
    by (auto simp: callSetExitInfo_def getView_def getClass_def getT_def getCall_def prog_defs answerE_def
        all_tracees_def Let_def dest: env_exit [OF safe_env assms, rotated] split: prod.splits)
next
  fix w x w'
  assume "all_tracees P w" "callSetExitInfo E r c info w = (Inr x, w')"
  then show "all_tracees P w'"
    by (auto simp: callSetExitInfo_def getView_def getClass_def getT_def getCall_def prog_defs answerE_def
        all_tracees_def Let_def dest: env_exit [OF safe_env assms, rotated] split: prod.splits)
qed

text \<open>The exit of a system call, from the point where the object and the information are known.\<close>

definition exitWith :: "tref \<Rightarrow> callref \<Rightarrow> sysinfo \<Rightarrow> (world, unit) prog" where
  "exitWith r c info = seqE (callSetExitInfo E r c info)
     (bindE (getCall c) (\<lambda>s. seqsE [
       (if kernelError s then modT r (\<lambda>t. t\<lparr>t_interrupted := Some c\<rparr>) else skipE),
       callbackE E (SyscallExit r c (if kernelError s then {INTERRUPTED} else {})),
       bindE (getT r) (\<lambda>t. bindE (getCall c) (\<lambda>s.
         if t_interrupted t \<noteq> None \<and> is_sigreturn s
         then if interruptedError s then modT r (\<lambda>t. t\<lparr>t_interrupted := None\<rparr>)
              else modFlags r (\<lambda>f. f\<lparr>SEEN_SIGRETURN := True\<rparr>)
         else skipE)),
       modT r (\<lambda>t. t\<lparr>t_current := None\<rparr>)]))"

lemma safe_exitWith:
  "isExit info \<Longrightarrow> safe (all_tracees (\<lambda>q t. sys_ok t \<and> (q = r \<longrightarrow> past_exit t))) (exitWith r c info)"
  unfolding exitWith_def
  by (intro safe_intros safe_exitInfo exiting.safe_callback) (auto simp: sys_defs)

text \<open>Resuming a call never loses the current one.\<close>

lemma new_call_fit: "call_fit (new_call (e_family E) cls nr)"
  by (rule env_new_call [OF safe_env])

lemma dbGet_fit:
  "\<forall>c. call_fit (cs_call st c) \<Longrightarrow> SystemCallDB_get (e_family E) tv info (db, st) = (res, (db', st')) \<Longrightarrow>
     call_fit (cs_call st' c)"
  by (auto simp: SystemCallDB_get_def create_syscall_def store_new_def new_call_fit Let_def
      split: option.splits sum.splits prod.splits factory.splits if_splits)

lemma safe_dbGet: "safe (all_tracees P) (dbGet E r info)" if "\<And>t db. P r t \<Longrightarrow> P r (t\<lparr>t_db := db\<rparr>)"
proof (rule safeI)
  fix w e w'
  assume "all_tracees P w" "dbGet E r info w = (Inl e, w')"
  moreover have "cf_multi (e_family E) f tv i \<noteq> Inl e" for f tv i e
    using env_multi [OF safe_env] .
  ultimately show "all_tracees P w' \<and> \<not> is_undefined e"
    by (auto simp: dbGet_def getView_def getT_def prog_defs answerE_def SystemCallDB_get_def
        create_syscall_def split: prod.splits sum.splits option.splits factory.splits if_splits)
next
  fix w x w'
  assume "all_tracees P w" "dbGet E r info w = (Inr x, w')"
  then show "all_tracees P w'"
    using that by (auto simp: dbGet_def getView_def getT_def prog_defs answerE_def all_tracees_def
        dest: dbGet_fit split: prod.splits)
qed

lemma dbGet_returns: "\<exists>c w'. dbGet E r info w = (Inr c, w')"
proof -
  have "cf_multi (e_family E) f tv i \<noteq> Inl e" for f tv i e
    using env_multi [OF safe_env] .
  then show ?thesis
    by (auto simp: dbGet_def getView_def getT_def prog_defs answerE_def SystemCallDB_get_def
        create_syscall_def store_new_def Let_def split: prod.splits sum.splits option.splits factory.splits)
qed

end

text \<open>While a call is being entered: the object and the information are there.\<close>

definition entering_call :: "tref \<Rightarrow> tref \<Rightarrow> tracee \<Rightarrow> bool" where
  "entering_call r q t \<longleftrightarrow> sys_ok t \<and> (q = r \<longrightarrow> t_current t \<noteq> None \<and> t_info t \<noteq> None)"

sublocale safe_env \<subseteq> calling: detach_stable "entering_call r" E for r
  by unfold_locales (auto simp: safe_env sys_defs entering_call_def)

lemma hoare_safe: "safe I m \<longleftrightarrow> hoare I m (\<lambda>_. I) (\<lambda>e s. I s \<and> \<not> is_undefined e)"
  by (rule safe_def)

lemma all_tracees_mono: "all_tracees P w \<Longrightarrow> (\<And>q t. P q t \<Longrightarrow> Q q t) \<Longrightarrow> all_tracees Q w"
  by (simp add: all_tracees_def)

lemma entering_ok: "all_tracees (entering_call r) w \<Longrightarrow> world_ok w"
  by (simp add: all_tracees_def entering_call_def)

lemma seq_lift_modT: "seqE (bindE (liftE (Inr i)) (\<lambda>i. modT r (f i))) n w =
    n (w\<lparr>w_tracee := (w_tracee w)(r := f i (w_tracee w r))\<rparr>)"
  by (simp add: modT_def prog_defs)

lemma updateSysNr_defined: "updateSysNr i = Inl e \<Longrightarrow> \<not> is_undefined e"
  by (auto simp: updateSysNr_def split: info_kind.splits arch.splits if_splits)

lemma verifyArch_defined: "verifyArch a i = Inl e \<Longrightarrow> \<not> is_undefined e"
  by (auto simp: verifyArch_def split: arch.splits if_splits)

lemma getInitialSyscallInfo_defined: "getInitialSyscallInfo E rs abi = Inl e \<Longrightarrow> \<not> is_undefined e"
  by (auto simp: getInitialSyscallInfo_def build_syscall_info_def map_sum_def
      dest: updateSysNr_defined split: if_splits sum.splits)

lemma safe_getCurrent:
  "(\<And>t. P r t \<Longrightarrow> t_current t \<noteq> None) \<Longrightarrow> safe (all_tracees P) (getCurrent r)"
  unfolding getCurrent_def by (rule safe_bind_getT, rule safe_option) (blast intro: safe_ret)+

lemma safe_getInfo:
  "(\<And>t. P r t \<Longrightarrow> t_info t \<noteq> None) \<Longrightarrow> safe (all_tracees P) (getInfo r)"
  unfolding getInfo_def by (rule safe_bind_getT, rule safe_option) (blast intro: safe_ret)+

context safe_env
begin

lemma safe_tryRecover: "safe (all_tracees (entering_call r)) (tryRecoverRestartedSystemCall E r)"
  unfolding tryRecoverRestartedSystemCall_def
  by (intro safe_intros safe_getInfo safe_dbGet)
    (auto simp: entering_call_def sys_defs dest: getInitialSyscallInfo_defined)

lemma safe_detectResumed: "safe (all_tracees (entering_call r)) (detectResumed E r info)"
  unfolding detectResumed_def
  by (intro safe_intros safe_tryRecover safe_getCurrent) (auto simp: entering_call_def sys_defs)

definition enterWith :: "tref \<Rightarrow> callref \<Rightarrow> sysinfo \<Rightarrow> (world, unit) prog" where
  "enterWith r c info = bindE (getCall c) (\<lambda>s.
     bindE (ret (if sc_abi s \<noteq> ABI_UNKNOWN \<and> sc_abi s \<noteq> si_abi info then {ABI_CHANGED} else {})) (\<lambda>changed.
     seqE (liftE (verifyArch (e_arch E) info))
     (bindE (detectResumed E r info) (\<lambda>resumed.
     bindE (getCurrent r) (\<lambda>cur. seqsE [
       callSetEntryInfo E r cur info,
       modT r (\<lambda>t. t\<lparr>t_ctr := t_ctr t + 1\<rparr>),
       callbackE E (SyscallEntry r cur (changed \<union> resumed))])))))"

lemma safe_enterWith: "isEntry info \<Longrightarrow> safe (all_tracees (entering_call r)) (enterWith r c info)"
  unfolding enterWith_def
  by (intro safe_intros safe_detectResumed safe_getCurrent safe_entryInfo calling.safe_callback)
    (auto simp: entering_call_def sys_defs dest: verifyArch_defined)

lemma entry_post:
  assumes "all_tracees (\<lambda>q t. q = r \<or> sys_ok t) w" "t_info (w_tracee w r) = Some info" "isEntry info"
  shows "case handleSystemCallEntry E r w of (Inl e, w') \<Rightarrow> world_ok w' \<and> \<not> is_undefined e
    | (Inr _, w') \<Rightarrow> world_ok w'"
proof -
  obtain c w1 where db: "dbGet E r info w = (Inr c, w1)" using dbGet_returns by blast
  have w1: "all_tracees (\<lambda>q t. q = r \<or> sys_ok t) w1"
    using safeD_Inr [OF safe_dbGet assms(1) db] by (simp add: sys_defs)
  have i1: "t_info (w_tracee w1 r) = Some info"
    using db assms(2) by (auto simp: dbGet_def getView_def getT_def prog_defs answerE_def split: prod.splits)
  let ?w2 = "w1\<lparr>w_tracee := (w_tracee w1)(r := (w_tracee w1 r)\<lparr>t_current := Some c\<rparr>)\<rparr>"
  have "handleSystemCallEntry E r w = enterWith r c info ?w2"
    by (simp add: handleSystemCallEntry_def enterWith_def bind_getInfo [OF assms(2)]
        run_bind_Inr [of "dbGet E r info" w c w1, OF db] seq_modT)
  moreover have "all_tracees (entering_call r) ?w2"
    using w1 i1 by (auto simp: all_tracees_def entering_call_def sys_defs)
  then have "case enterWith r c info ?w2 of
      (Inl e, w') \<Rightarrow> all_tracees (entering_call r) w' \<and> \<not> is_undefined e
    | (Inr _, w') \<Rightarrow> all_tracees (entering_call r) w'"
    using safe_enterWith [OF assms(3), of r c] by (simp add: safe_def hoare_def)
  ultimately show ?thesis
    using entering_ok by (auto split: prod.splits sum.splits)
qed

text \<open>The exit of a call, from a state in which the tracee was inside one.\<close>

lemma exit_post:
  assumes "all_tracees (\<lambda>q t. sys_ok t \<and> (q = r \<longrightarrow> past_exit t)) w"
    and "t_info (w_tracee w r) = Some info" "isExit info" "t_current (w_tracee w r) = Some c"
  shows "case handleSystemCallExit E r w of (Inl e, w') \<Rightarrow> world_ok w' \<and> \<not> is_undefined e
    | (Inr _, w') \<Rightarrow> world_ok w'"
proof -
  have "handleSystemCallExit E r w = exitWith r c info w"
    by (simp add: handleSystemCallExit_def exitWith_def bind_getCurrent [OF assms(4)]
        bind_getInfo [OF assms(2)])
  moreover have "case exitWith r c info w of
      (Inl e, w') \<Rightarrow> all_tracees (\<lambda>q t. sys_ok t \<and> (q = r \<longrightarrow> past_exit t)) w' \<and> \<not> is_undefined e
    | (Inr _, w') \<Rightarrow> all_tracees (\<lambda>q t. sys_ok t \<and> (q = r \<longrightarrow> past_exit t)) w'"
    using safe_exitWith [OF assms(3), of r c] assms(1) by (simp add: safe_def hoare_def)
  ultimately show ?thesis
    by (auto simp: all_tracees_def split: prod.splits sum.splits)
qed

text \<open>The part of \<open>handleSystemCall\<close> after the information was fetched.\<close>

definition dispatchCall :: "tref \<Rightarrow> sysinfo \<Rightarrow> tracee \<Rightarrow> (world, unit) prog" where
  "dispatchCall r info t =
      (if SYSCALL_ENTERED (t_flags t)
       then seqsE [
         if \<not> isExit info then handleStateMismatch else skipE,
         changeState E r SYSCALL_EXIT_STOP,
         handleSystemCallExit E r]
       else seqsE [
         if \<not> isEntry info then handleStateMismatch else skipE,
         bindE (liftE (updateSysNr info)) (\<lambda>info. modT r (\<lambda>t. t\<lparr>t_info := Some info\<rparr>)),
         changeState E r SYSCALL_ENTER_STOP,
         handleSystemCallEntry E r])"

lemma changeState_run:
  "new \<noteq> DEAD \<Longrightarrow> changeState E r new w =
     (Inr (), w\<lparr>w_tracee := (w_tracee w)(r := stateChange new (w_tracee w r))\<rparr>)"
  by (simp add: changeState_def getT_def modT_def prog_defs)

lemma seq_changeState:
  "new \<noteq> DEAD \<Longrightarrow> seqE (changeState E r new) n w =
     n (w\<lparr>w_tracee := (w_tracee w)(r := stateChange new (w_tracee w r))\<rparr>)"
  by (simp add: changeState_def getT_def modT_def prog_defs)

lemma dispatch_post:
  assumes "world_ok w" "t_info (w_tracee w r) = Some info"
  shows "case dispatchCall r info (w_tracee w r) w of (Inl e, w') \<Rightarrow> world_ok w' \<and> \<not> is_undefined e
    | (Inr _, w') \<Rightarrow> world_ok w'"
proof (cases "SYSCALL_ENTERED (t_flags (w_tracee w r))")
  case True
  let ?w = "w\<lparr>w_tracee := (w_tracee w)(r := stateChange SYSCALL_EXIT_STOP (w_tracee w r))\<rparr>"
  obtain c where c: "t_current (w_tracee w r) = Some c"
    using assms(1) True by (force simp: all_tracees_def sys_ok_def in_syscall_def)
  show ?thesis
  proof (cases "isExit info")
    case ex: True
    have A: "all_tracees (\<lambda>q t. sys_ok t \<and> (q = r \<longrightarrow> past_exit t)) ?w"
      using assms(1) c by (auto simp: all_tracees_def sys_defs)
    have B: "t_info (w_tracee ?w r) = Some info" "t_current (w_tracee ?w r) = Some c"
      using assms(2) c by (simp_all add: stateChange_def Let_def)
    have "case handleSystemCallExit E r ?w of (Inl e, w') \<Rightarrow> world_ok w' \<and> \<not> is_undefined e
        | (Inr _, w') \<Rightarrow> world_ok w'"
      by (rule exit_post [OF A B(1) ex B(2)])
    moreover have "dispatchCall r info (w_tracee w r) w = handleSystemCallExit E r ?w"
      using True ex by (simp add: dispatchCall_def seq_skipE seq_changeState seq_skip_last)
    ultimately show ?thesis by simp
  next
    case False
    then show ?thesis using True assms(1)
      by (simp add: dispatchCall_def handleStateMismatch_def prog_defs)
  qed
next
  case False
  show ?thesis
  proof (cases "isEntry info \<and> (\<exists>i. updateSysNr info = Inr i)")
    case True
    then obtain i where i: "updateSysNr info = Inr i" by blast
    let ?t = "stateChange SYSCALL_ENTER_STOP ((w_tracee w r)\<lparr>t_info := Some i\<rparr>)"
    let ?w = "w\<lparr>w_tracee := (w_tracee w)(r := ?t)\<rparr>"
    have "dispatchCall r info (w_tracee w r) w = handleSystemCallEntry E r ?w"
      using True False i by (simp add: dispatchCall_def seq_skipE seq_changeState seq_skip_last
          seq_lift_modT)
    moreover have "all_tracees (\<lambda>q t. q = r \<or> sys_ok t) ?w"
      using assms(1) by (auto simp: all_tracees_def)
    moreover have "t_info (w_tracee ?w r) = Some i"
      by (simp add: stateChange_def Let_def)
    ultimately show ?thesis using entry_post [of r ?w i] updateSysNr_kind [OF i] by simp
  next
    case no: False
    then show ?thesis using False assms(1) updateSysNr_defined [of info]
      by (cases "updateSysNr info") (auto simp: dispatchCall_def handleStateMismatch_def prog_defs)
  qed
qed

lemma handleSystemCall_eq: "handleSystemCall E r = seqsE [
     modT r (\<lambda>t. t\<lparr>t_info := Some empty_info\<rparr>),
     bindE (getT r) (\<lambda>t. seqE (reqE E (GetSyscallInfo (t_pid t)))
       (bindE (answerE (\<lambda>h. k_syscall_info (e_kernel E) h (t_pid t)))
         (\<lambda>info. modT r (\<lambda>t. t\<lparr>t_info := Some info\<rparr>)))),
     bindE (getInfo r) (\<lambda>info. bindE (getT r) (dispatchCall r info)),
     modT r (\<lambda>t. t\<lparr>t_info := None\<rparr>)]"
  unfolding handleSystemCall_def dispatchCall_def ..

lemma safe_handleSystemCall: "safe world_ok (handleSystemCall E r)"
proof -
  let ?P = "\<lambda>q t. sys_ok t \<and> (q = r \<longrightarrow> t_info t \<noteq> None)"
  let ?E = "\<lambda>e w. world_ok w \<and> \<not> is_undefined e"
  have weak: "all_tracees ?P w \<Longrightarrow> world_ok w" for w by (simp add: all_tracees_def)
  have h1: "hoare world_ok (modT r (\<lambda>t. t\<lparr>t_info := Some empty_info\<rparr>)) (\<lambda>_. all_tracees ?P) ?E"
    by (rule hoareI) (auto simp: modT_run all_tracees_def sys_defs)
  have "safe (all_tracees ?P) (bindE (getT r) (\<lambda>t. seqE (reqE E (GetSyscallInfo (t_pid t)))
       (bindE (answerE (\<lambda>h. k_syscall_info (e_kernel E) h (t_pid t)))
         (\<lambda>info. modT r (\<lambda>t. t\<lparr>t_info := Some info\<rparr>)))))"
    by (intro safe_intros) (auto simp: safe_env sys_defs)
  then have h2: "hoare (all_tracees ?P) (bindE (getT r) (\<lambda>t. seqE (reqE E (GetSyscallInfo (t_pid t)))
       (bindE (answerE (\<lambda>h. k_syscall_info (e_kernel E) h (t_pid t)))
         (\<lambda>info. modT r (\<lambda>t. t\<lparr>t_info := Some info\<rparr>))))) (\<lambda>_. all_tracees ?P) ?E"
    unfolding safe_def by (rule hoare_conseq) (auto simp: weak)
  have h3: "hoare (all_tracees ?P) (bindE (getInfo r) (\<lambda>info. bindE (getT r) (dispatchCall r info)))
      (\<lambda>_. world_ok) ?E"
  proof (rule hoareI)
    fix w
    assume w: "all_tracees ?P w"
    then obtain info where i: "t_info (w_tracee w r) = Some info" by (force simp: all_tracees_def)
    show "case bindE (getInfo r) (\<lambda>info. bindE (getT r) (dispatchCall r info)) w of
        (Inl e, w') \<Rightarrow> world_ok w' \<and> \<not> is_undefined e | (Inr x, w') \<Rightarrow> world_ok w'"
      using dispatch_post [OF weak [OF w] i] by (simp add: bind_getInfo [OF i] bind_getT)
  qed
  have h4: "hoare world_ok (seqE (modT r (\<lambda>t. t\<lparr>t_info := None\<rparr>)) skipE) (\<lambda>_. world_ok) ?E"
    unfolding hoare_safe [symmetric] by (intro safe_intros) (auto simp: sys_defs)
  show ?thesis
    unfolding handleSystemCall_eq seqsE.simps safe_def
    by (rule hoare_seq [OF h1 hoare_seq [OF h2 hoare_seq [OF h3 h4]]])
qed

lemma safe_newTracee [safe_intros]:
  "(\<And>q pd. P q (new_tracee k pd)) \<Longrightarrow> safe (all_tracees P) (newTracee k sib)"
  unfolding newTracee_def
  by (intro safe_intros, cases sib) (auto intro!: safeI simp: all_tracees_def)

lemma safe_bind_answer: "(\<And>h. safe I (f (g h))) \<Longrightarrow> safe I (bindE (answerE g) f)"
  by (auto simp: safe_def hoare_def answerE_def prog_defs)

lemma safe_updateExecutable: "safe (all_tracees P) (updateExecutable E r)"
  unfolding updateExecutable_def
  by (rule safe_bind [OF safe_getT], rule safe_bind_answer)
    (auto intro!: safe_intros dest: env_exe [OF safe_env])

lemma safe_updateCmdLine: "safe (all_tracees P) (updateCmdLine E r)"
  unfolding updateCmdLine_def by (intro safe_intros)

lemma safe_attach: "safe world_ok (attach E r follow threads)"
  unfolding attach_def
  by (intro safe_intros ok.safe_changeState_dead safe_updateExecutable safe_updateCmdLine)
    (auto simp: safe_env sys_defs)

lemma safe_addTracee: "safe world_ok (addTracee E p follow threads sib)"
  unfolding addTracee_def
  by (intro safe_intros safe_attach) (auto simp: new_tracee_def sys_defs)

lemma safe_attachThreads: "safe world_ok (attachThreads E r)"
  unfolding attachThreads_def
  by (intro safe_intros safe_addTracee) (auto simp: safe_env sys_defs)

lemma safe_getRegisters: "safe (all_tracees P) (getRegisters E r abi)"
  unfolding getRegisters_def by (intro safe_intros) (auto simp: safe_env)

lemma safe_initialRegisters: "safe world_ok (getInitialRegisters E r)"
  unfolding getInitialRegisters_def setRegs_def Let_def
  by (intro safe_intros safe_getRegisters) (auto simp: sys_defs)

lemma get_fd_infos_defined:
  "get_fd_infos L P = Inl e \<Longrightarrow> (\<And>e. pf_entries P = Inl e \<Longrightarrow> \<not> is_undefined e) \<Longrightarrow> \<not> is_undefined e"
  by (auto simp: get_fd_infos_def split: sum.splits)

lemma safe_initFDInfos: "safe world_ok (initFDInfos E r)"
proof -
  have *: "safe world_ok (bindE (getView E r) (\<lambda>tv. bindE (liftE (get_fd_infos (tv_text tv) (tv_proc tv)))
         (\<lambda>infos. modPD r (\<lambda>d. d\<lparr>pd_fds := initFDs infos (pd_fds d)\<rparr>))))"
    unfolding getView_def
    by (rule safeI) (auto simp: getT_def prog_defs answerE_def modPD_def Let_def all_tracees_def
        split: prod.splits sum.splits dest: get_fd_infos_defined env_proc [OF safe_env])
  show ?thesis
    unfolding initFDInfos_def
    by (intro safe_bind [OF safe_getPD] safe_if safe_catch [OF *] safe_skip)
qed

lemma safe_handleAttached: "safe world_ok (handleAttached E r)"
  unfolding handleAttached_def
  by (intro safe_intros safe_initialRegisters safe_initFDInfos ok.safe_callback safe_attachThreads)
    (auto simp: sys_defs)

lemma safe_handleStopEvent: "safe world_ok (handleStopEvent E r sig)"
  unfolding handleStopEvent_def
  by (intro safe_intros safe_handleAttached ok.safe_callback safe_changeState) (auto simp: sys_defs)

lemma safe_signalStop: "safe world_ok (signalStop E r sig)"
  unfolding signalStop_def handleSignal_def
  by (intro safe_intros ok.safe_callback safe_changeState) (auto simp: safe_env sys_defs)

lemma safe_restartTracee: "safe world_ok (restartTracee E r)"
  unfolding restartTracee_def
  by (intro safe_intros ok.safe_callback safe_changeState) (auto simp: safe_env sys_defs)

lemma safe_processDeath: "safe world_ok (processDeath E r data)"
  unfolding processDeath_def
  by (intro safe_intros ok.safe_callback ok.safe_changeState_dead) (auto simp: sys_defs)

end

text \<open>Before an exit event is classified: the entry stop it may follow has its call object.\<close>

definition exit_ready :: "tref \<Rightarrow> tref \<Rightarrow> tracee \<Rightarrow> bool" where
  "exit_ready r q t \<longleftrightarrow> sys_ok t \<and> (q = r \<and> t_prev t = SYSCALL_ENTER_STOP \<longrightarrow> t_current t \<noteq> None)"

sublocale safe_env \<subseteq> leaving: detach_stable "exit_ready r" E for r
  by unfold_locales (auto simp: safe_env sys_defs exit_ready_def split: if_splits)

context safe_env
begin

lemma safe_lostToMtExit: "safe (all_tracees (exit_ready r)) (lostToMtExit r status)"
  unfolding lostToMtExit_def
  by (rule safe_bind_getT, cases status) (auto simp: exit_ready_def intro!: safe_intros)

lemma safe_handleExitEvent: "safe (all_tracees (exit_ready r)) (handleExitEvent E r)"
  unfolding handleExitEvent_def
  by (intro safe_intros safe_lostToMtExit leaving.safe_callback)
    (auto simp: safe_env exit_ready_def sys_defs)

end

section \<open>One event\<close>

text \<open>
  Events that concern the tracee alone: everything but execve and the creation of a child, which
  also change other tracees.
\<close>

fun own_event :: "child_change \<Rightarrow> bool" where
  "own_event (Trapped (EventStop _ ev)) \<longleftrightarrow> ev \<notin> {Ev_EXEC, Ev_CLONE, Ev_FORK, Ev_VFORK, Ev_VFORK_DONE}"
| "own_event _ \<longleftrightarrow> True"

lemma safe_weaken:
  assumes "hoare I m (\<lambda>_. J) (\<lambda>e s. J s \<and> \<not> is_undefined e)" "\<And>s. J s \<Longrightarrow> I s"
  shows "safe I m"
  unfolding safe_def using assms by (auto elim!: hoare_conseq)

context safe_env
begin

lemma eventStop_safe:
  assumes "own_event (Trapped (EventStop sig event))"
  shows "safe world_ok (seqE (changeState E r EVENT_STOP) (handleEvent E r data event sig))"
proof (cases "event = Ev_EXIT")
  case True
  have "hoare world_ok (changeState E r EVENT_STOP) (\<lambda>_. all_tracees (exit_ready r))
      (\<lambda>e w. all_tracees (exit_ready r) w \<and> \<not> is_undefined e)"
    by (rule hoareI) (auto simp: changeState_run all_tracees_def exit_ready_def sys_defs)
  then have "hoare world_ok (seqE (changeState E r EVENT_STOP) (handleExitEvent E r))
      (\<lambda>_. all_tracees (exit_ready r)) (\<lambda>e w. all_tracees (exit_ready r) w \<and> \<not> is_undefined e)"
    by (rule hoare_seq) (rule safe_handleExitEvent [unfolded safe_def])
  then have "safe world_ok (seqE (changeState E r EVENT_STOP) (handleExitEvent E r))"
    by (rule safe_weaken) (simp add: all_tracees_def exit_ready_def)
  then show ?thesis using True by (simp add: handleEvent_def)
next
  case False
  then show ?thesis
    using assms by (cases event)
      (auto simp: handleEvent_def sys_defs intro!: safe_intros safe_changeState safe_handleStopEvent)
qed

lemma processEvent_safe:
  assumes "own_event (ch_change data)"
  shows "safe world_ok (processEvent E r data)"
proof -
  have stop: "safe world_ok (case stop of
           SysTrap \<Rightarrow> handleSystemCall E r
         | EventStop sig event \<Rightarrow> seqE (changeState E r EVENT_STOP) (handleEvent E r data event sig)
         | Plain sig \<Rightarrow> signalStop E r sig)" if "own_event (Trapped stop)" for stop
    using that by (cases stop) (simp_all only: stop_signal.case safe_handleSystemCall
        eventStop_safe safe_signalStop)
  show ?thesis
    unfolding processEvent_def
  proof (rule safe_seq)
    show "safe world_ok (modT r (\<lambda>t. t\<lparr>t_inject := None\<rparr>))"
      by (rule safe_modT) (simp add: sys_defs)
  qed (use assms stop in \<open>cases "ch_change data"; auto intro!: safe_bind safe_getT safe_if
        safe_processDeath safe_signalStop safe_restartTracee ok.safe_doDetach safe_seq\<close>)
qed

end


lemma base_class_safe: "safe_class base_class 6"
  by unfold_locales
    (auto simp: base_class_def hoare_def prog_defs safe_def call_frame_def dest: call_within_fit)

lemma demo_view_ok: "view_ok demo_view"
  by (auto simp: view_ok_def demo_view_def demo_peek_def demo_proc_def wrapped_types_def)

lemma demo_env_safe: "env_safe demo_env"
  unfolding env_safe_def using base_class_safe demo_view_ok by auto

lemma demo_world_ok: "world_ok demo_world"
  by (auto simp: all_tracees_def demo_world_def demo_tracee_def new_tracee_def sys_defs call_fit_def
      new_call_def base_class_def plain_family_def)


interpretation demo: safe_env demo_env
  by unfold_locales (rule demo_env_safe)

end
