(* ===== verification/Stepping.thy ===== *)
theory Stepping
  imports Tracee_Safety
begin

text \<open>
  Running the model step by step: more rewrite rules of \<open>step_simps\<close>, which execute the head of a program on a world, for a
  kernel that grants its requests and a client that does not detach, and an environment and a world
  on which the properties are exercised.
\<close>

section \<open>Rewrite rules\<close>

lemma bind_answer [step_simps]: "bindE (answerE f) g w = g (f (w_reqs w)) w"
  by (simp add: answerE_def prog_defs)

lemma bind_getCall [step_simps]: "bindE (getCall c) g w = g (cs_call (w_calls w) c) w"
  by (simp add: getCall_def prog_defs)

lemma seq_modFlags [step_simps]: "seqE (modFlags r f) n w =
    n (w\<lparr>w_tracee := (w_tracee w)(r := (w_tracee w r)\<lparr>t_flags := f (t_flags (w_tracee w r))\<rparr>)\<rparr>)"
  by (simp add: modFlags_def seq_modT)

lemma modFlags_run [step_simps]: "modFlags r f w =
    (Inr (), w\<lparr>w_tracee := (w_tracee w)(r := (w_tracee w r)\<lparr>t_flags := f (t_flags (w_tracee w r))\<rparr>)\<rparr>)"
  by (simp add: modFlags_def modT_run)

lemma seq_req [step_simps]: "k_fail (e_kernel E) (w_reqs w) q = None \<Longrightarrow>
    seqE (reqE E q) n w = n (w\<lparr>w_reqs := w_reqs w @ [q]\<rparr>)"
  by (simp add: reqE_def prog_defs)

lemma req_run [step_simps]: "k_fail (e_kernel E) (w_reqs w) q = None \<Longrightarrow>
    reqE E q w = (Inr (), w\<lparr>w_reqs := w_reqs w @ [q]\<rparr>)"
  by (simp add: reqE_def prog_defs)

lemma seq_callback [step_simps]: "\<not> e_client E (w_log w) cb \<Longrightarrow>
    seqE (callbackE E cb) n w = n (w\<lparr>w_log := w_log w @ [cb]\<rparr>)"
  by (simp add: callbackE_def prog_defs)

lemma callback_run [step_simps]: "\<not> e_client E (w_log w) cb \<Longrightarrow>
    callbackE E cb w = (Inr (), w\<lparr>w_log := w_log w @ [cb]\<rparr>)"
  by (simp add: callbackE_def prog_defs)

lemma bind_traceeAt [step_simps]: "smap_find (w_tracees w) p = Some r \<Longrightarrow> bindE (traceeAt p) f w = f r w"
  by (simp add: traceeAt_def prog_defs)

lemma seq_changeState_run [step_simps]: "new \<noteq> DEAD \<Longrightarrow> seqE (changeState E r new) n w =
     n (w\<lparr>w_tracee := (w_tracee w)(r := stateChange new (w_tracee w r))\<rparr>)"
  by (simp add: changeState_def getT_def modT_def prog_defs)

lemma changeState_runs [step_simps]: "new \<noteq> DEAD \<Longrightarrow> changeState E r new w =
     (Inr (), w\<lparr>w_tracee := (w_tracee w)(r := stateChange new (w_tracee w r))\<rparr>)"
  by (simp add: changeState_def getT_def modT_def prog_defs)

lemmas [step_simps] = bind_getT seq_modT modT_run bind_getInfo bind_getCurrent seqsE.simps
  run_ret run_raise run_skip run_upd

section \<open>Calls of a class without parameters\<close>

lemma bind_getView: "bindE (getView E r) f w = f (k_view (e_kernel E) (w_reqs w) (t_pid (w_tracee w r))) w"
  by (simp add: getView_def step_simps)

lemma bind_getClass: "bindE (getClass E c) f w = f (cf_class (e_family E) (sc_class (cs_call (w_calls w) c))) w"
  by (simp add: getClass_def step_simps)

lemma bind_run_Inr: "m w = (Inr x, w') \<Longrightarrow> bindE m n w = n x w'"
  by (simp add: prog_defs)

lemma seq_run_Inr: "m w = (Inr x, w') \<Longrightarrow> seqE m n w = n w'"
  by (simp add: prog_defs)

lemma base_entry_none:
  assumes "sc_pars s = []" "si_kind info = InfoEntry nr args"
  shows "setEntryInfo base_class tv info s =
    (Inr (), s\<lparr>sc_abi := si_abi info, sc_error := Some (ErrnoResult ENODATA), sc_info := None\<rparr>)"
proof -
  obtain a as where "entry_args info = a # as"
    using assms(2) by (cases args) (simp add: entry_args_def)
  then show ?thesis
    using assms by (simp add: setEntryInfo_def fillParameters_def base_class_def prog_defs)
qed

lemma base_exit_none:
  assumes "sc_pars s = []" "si_kind info = InfoExit (ExitValue v)"
  shows "setExitInfo base_class tv info (s, fds) = (Inr (), (s\<lparr>sc_error := None, sc_return := v, sc_info := None\<rparr>, fds))"
  using assms by (simp add: setExitInfo_def setExitInfo_pars_def base_class_def prog_defs)


lemma runCall_run: "m (cs_call (w_calls w) c) = (Inr x, s') \<Longrightarrow> runCall c m w =
    (Inr x, w\<lparr>w_calls := (w_calls w)\<lparr>cs_call := (cs_call (w_calls w))(c := s')\<rparr>\<rparr>)"
  by (simp add: runCall_def)

lemma callSetEntryInfo_base:
  assumes "e_family E = plain_family" "sc_pars (cs_call (w_calls w) c) = []" "si_kind info = InfoEntry nr args"
  shows "seqE (callSetEntryInfo E r c info) n w = n (w\<lparr>w_calls := (w_calls w)\<lparr>cs_call :=
    (cs_call (w_calls w))(c := (cs_call (w_calls w) c)\<lparr>sc_abi := si_abi info,
      sc_error := Some (ErrnoResult ENODATA), sc_info := None\<rparr>)\<rparr>\<rparr>)"
  by (rule seq_run_Inr) (simp add: callSetEntryInfo_def bind_getView bind_getClass assms runCall_run [OF base_entry_none])

lemma callSetExitInfo_base:
  assumes "e_family E = plain_family" "sc_pars (cs_call (w_calls w) c) = []" "si_kind info = InfoExit (ExitValue v)"
  shows "seqE (callSetExitInfo E r c info) n w = n (w\<lparr>w_calls := (w_calls w)\<lparr>cs_call :=
    (cs_call (w_calls w))(c := (cs_call (w_calls w) c)\<lparr>sc_error := None, sc_return := v, sc_info := None\<rparr>)\<rparr>\<rparr>)"
  by (rule seq_run_Inr) (simp add: callSetExitInfo_def bind_getView bind_getClass assms base_exit_none)

end
