(* ===== verification/Tracee_Props.thy ===== *)
theory Tracee_Props
  imports Stepping
begin

text \<open>
  What a tracee does with each kind of event (src/Tracee.cxx): which callbacks the client sees, which
  requests the kernel gets, and in what order.
\<close>

section \<open>Shared facts\<close>

text \<open>A client that only watches, and a kernel that grants every request.\<close>

definition watching :: "env \<Rightarrow> bool" where
  "watching E \<longleftrightarrow> (\<forall>l cb. \<not> e_client E l cb)"

definition granting :: "env \<Rightarrow> bool" where
  "granting E \<longleftrightarrow> (\<forall>h q. k_fail (e_kernel E) h q = None)"

lemma watchingD [simp]: "watching E \<Longrightarrow> \<not> e_client E l cb"
  by (simp add: watching_def)

lemma grantingD [simp]: "granting E \<Longrightarrow> k_fail (e_kernel E) h q = None"
  by (simp add: granting_def)

lemma demo_watching: "watching demo_env"
  by (simp add: watching_def)

lemma demo_granting: "granting demo_env"
  by (simp add: granting_def)

lemma stateChange_same [simp]:
  "t_pid (stateChange new t) = t_pid t" "t_inject (stateChange new t) = t_inject t"
  "t_state (stateChange new t) = new" "t_current (stateChange new t) = t_current t"
  "t_info (stateChange new t) = t_info t" "t_db (stateChange new t) = t_db t"
  "t_kind (stateChange new t) = t_kind t" "t_ctr (stateChange new t) = t_ctr t"
  "t_pdata (stateChange new t) = t_pdata t" "t_exit (stateChange new t) = t_exit t"
  "t_interrupted (stateChange new t) = t_interrupted t"
  by (simp_all add: stateChange_def Let_def)

lemma stateChange_flags:
  "t_flags (stateChange new t) =
     (if new = SYSCALL_ENTER_STOP then (t_flags t)\<lparr>SYSCALL_ENTERED := True\<rparr>
      else if new = SYSCALL_EXIT_STOP then (t_flags t)\<lparr>SYSCALL_ENTERED := False\<rparr>
      else if new = GROUP_STOP \<and> INJECTED_SIGSTOP (t_flags t) then (t_flags t)\<lparr>INJECTED_SIGSTOP := False\<rparr>
      else if new = DETACHED then (t_flags t)\<lparr>DETACH_AT_NEXT_STOP := False\<rparr>
      else t_flags t)"
  by (simp add: stateChange_def Let_def)

lemma stateChange_mode:
  "t_mode (stateChange new t) = (if new \<noteq> GROUP_STOP then t_mode t
     else if INJECTED_SIGSTOP (t_flags t) then SYSCALL else LISTEN)"
  by (simp add: stateChange_def Let_def)

lemma stateChange_stop_signal:
  "t_stop_signal (stateChange new t) =
     (if (if t_state t \<noteq> RUNNING then t_state t else t_prev t) = GROUP_STOP \<and> t_state t \<noteq> GROUP_STOP
      then None else t_stop_signal t)"
  by (simp add: stateChange_def Let_def)

lemmas stateChange_simps = stateChange_flags stateChange_mode stateChange_stop_signal

lemma restart_run:
  assumes "granting E" "watching E" "t_state (w_tracee w r) \<noteq> DEAD" "t_state (w_tracee w r) \<noteq> DETACHED"
    "t_state (w_tracee w r) \<noteq> GROUP_STOP"
  shows "restartTracee E r w = (Inr (),
     (let t = w_tracee w r; w1 = w\<lparr>w_reqs := w_reqs w @ [Restart (t_pid t) (t_mode t) (t_inject t)]\<rparr>
      in if t_mode t = LISTEN then w1
         else w1\<lparr>w_tracee := (w_tracee w)(r := stateChange RUNNING t)\<rparr>))"
  using assms by (simp add: restartTracee_def step_simps Let_def)

section \<open>Signals\<close>

text \<open>C3: a signal that stops the tracee is reported to the client once and then delivered: the
  kernel is asked for the signal information and then to restart the tracee with exactly that
  signal. Only the SIGCONT that the tracer itself sent is kept from the client, and only once; it is
  delivered all the same.\<close>

theorem signal_reported_and_delivered:
  assumes "granting E" "watching E" "\<not> DETACH_AT_NEXT_STOP (t_flags (w_tracee w r))"
    and "ch_change data = Trapped (Plain sig)" "t_mode (w_tracee w r) \<noteq> LISTEN"
  shows "\<exists>w'. processEvent E r data w = (Inr (), w') \<and>
     (let t = w_tracee w r;
          own = INJECTED_SIGCONT (t_flags t) \<and> k_siginfo (e_kernel E) (w_reqs w @ [GetSigInfo (t_pid t)]) (t_pid t) = SIG_CONT
      in w_reqs w' = w_reqs w @ [GetSigInfo (t_pid t), Restart (t_pid t) (t_mode t) (Some sig)] \<and>
         w_log w' = w_log w @ (if own then [] else
           [SignaledCb r (k_siginfo (e_kernel E) (w_reqs w @ [GetSigInfo (t_pid t)]) (t_pid t))]) \<and>
         t_state (w_tracee w' r) = RUNNING \<and> t_prev (w_tracee w' r) = SIGNAL_DELIVERY_STOP \<and>
         t_flags (w_tracee w' r) = (if own then (t_flags t)\<lparr>INJECTED_SIGCONT := False\<rparr> else t_flags t))"
  using assms
  by (auto simp: processEvent_def signalStop_def handleSignal_def restart_run step_simps Let_def
      stateChange_simps stateChange_def)

theorem signal_reported_and_delivered_witness:
  "\<exists>w'. processEvent demo_env 0 \<lparr>ch_pid = 100, ch_change = Trapped (Plain 10)\<rparr> demo_world = (Inr (), w') \<and>
     w_reqs w' = [GetSigInfo 100, Restart 100 SYSCALL (Some 10)] \<and> w_log w' = [SignaledCb 0 10]"
  using signal_reported_and_delivered [OF demo_granting demo_watching, of demo_world 0
      "\<lparr>ch_pid = 100, ch_change = Trapped (Plain 10)\<rparr>" 10]
  by (auto simp: no_flags_def Let_def)

section \<open>Detaching\<close>

text \<open>C5: a planned detach happens at the next stop of the tracee, whatever stop it is: the only
  request is the detach (no restart, no signal delivered), the client sees no callback, and the
  object is left detached, without process ID and without flags.\<close>

theorem planned_detach_at_next_stop:
  assumes "granting E" and "DETACH_AT_NEXT_STOP (t_flags (w_tracee w r))"
    and "ch_change data = Trapped stopped"
  shows "\<exists>w'. processEvent E r data w = (Inr (), w') \<and>
     w_reqs w' = w_reqs w @ [Detach (t_pid (w_tracee w r))] \<and> w_log w' = w_log w \<and>
     t_state (w_tracee w' r) = DETACHED \<and> t_pid (w_tracee w' r) = PID_INVALID \<and>
     t_flags (w_tracee w' r) = no_flags"
  using assms
  by (simp add: processEvent_def doDetach_def step_simps catchE_def)

theorem planned_detach_at_next_stop_witness:
  "\<exists>w'. processEvent demo_env 0 \<lparr>ch_pid = 100, ch_change = Trapped SysTrap\<rparr>
     (demo_world\<lparr>w_tracee := (\<lambda>_. demo_tracee\<lparr>t_flags := no_flags\<lparr>DETACH_AT_NEXT_STOP := True\<rparr>\<rparr>)\<rparr>) = (Inr (), w')
     \<and> w_reqs w' = [Detach 100]"
  using planned_detach_at_next_stop [OF demo_granting,
      of "demo_world\<lparr>w_tracee := (\<lambda>_. demo_tracee\<lparr>t_flags := no_flags\<lparr>DETACH_AT_NEXT_STOP := True\<rparr>\<rparr>)\<rparr>" 0
        "\<lparr>ch_pid = 100, ch_change = Trapped SysTrap\<rparr>" SysTrap]
  by auto

text \<open>\<open>detach()\<close>: nothing happens to a tracee that is gone; a stopped tracee is detached from at
  once; a tracee that runs (or was just seized) is only marked, and interrupted unless its attach
  stop is still to come. The result says whether the detach is done.\<close>

theorem detach_cases:
  assumes "granting E"
  shows "let t = w_tracee w r; gone = (t_pid t = PID_INVALID \<or> t_state t \<in> {DEAD, DETACHED});
             moving = (t_state t \<in> {RUNNING, TS_UNKNOWN}) in
     \<exists>w'. detach E r w = (Inr (gone \<or> \<not> moving), w') \<and>
       w_reqs w' = w_reqs w @ (if gone then [] else if \<not> moving then [Detach (t_pid t)]
         else if WAIT_FOR_ATTACH_STOP (t_flags t) then [] else [Interrupt (t_pid t)]) \<and>
       (gone \<longrightarrow> w' = w) \<and>
       (\<not> gone \<and> \<not> moving \<longrightarrow> t_state (w_tracee w' r) = DETACHED \<and> \<not> alive (w_tracee w' r)) \<and>
       (\<not> gone \<and> moving \<longrightarrow> DETACH_AT_NEXT_STOP (t_flags (w_tracee w' r)) \<and>
          t_state (w_tracee w' r) = t_state t)"
  using assms
  by (auto simp: detach_def doDetach_def step_simps catchE_def Let_def alive_def)

theorem detach_cases_witness:
  "\<exists>w'. detach demo_env 0 demo_world = (Inr False, w') \<and> w_reqs w' = [Interrupt 100]"
  using detach_cases [OF demo_granting, of demo_world 0] by (auto simp: Let_def no_flags_def)

section \<open>Group stops\<close>

text \<open>C4: a stopping signal that is not the tracer's own puts the tracee into group-stop: the client
  is told once, the signal is kept, and the tracee is left stopped (LISTEN). When SIGCONT then ends
  the stop (a ptrace event stop with SIGTRAP) the tracee runs again, but the client is never told:
  \<open>resumed()\<close> is not called, because the state is no longer the group-stop when it is tested.\<close>

theorem group_stop_then_sigcont:
  assumes "granting E" "watching E" "t_flags (w_tracee w r) = no_flags"
    and "sig \<in> set STOPPING_SIGNALS"
  shows "\<exists>w1 w2. processEvent E r \<lparr>ch_pid = p, ch_change = Trapped (EventStop sig Ev_STOP)\<rparr> w = (Inr (), w1) \<and>
     processEvent E r \<lparr>ch_pid = p, ch_change = Trapped (EventStop SIG_TRAP Ev_STOP)\<rparr> w1 = (Inr (), w2) \<and>
     (let pid = t_pid (w_tracee w r) in
       w_log w1 = w_log w @ [Stopped r] \<and> w_reqs w1 = w_reqs w @ [Restart pid LISTEN None] \<and>
       t_state (w_tracee w1 r) = GROUP_STOP \<and> t_stop_signal (w_tracee w1 r) = Some sig \<and>
       w_log w2 = w_log w1 \<and> w_reqs w2 = w_reqs w1 @ [Restart pid SYSCALL None] \<and>
       t_state (w_tracee w2 r) = RUNNING \<and> t_stop_signal (w_tracee w2 r) = Some sig)"
  using assms
  by (auto simp: processEvent_def handleEvent_def handleStopEvent_def restartTracee_def step_simps
      stateChange_def no_flags_def Let_def STOPPING_SIGNALS_def)

theorem group_stop_then_sigcont_witness:
  "\<exists>w1 w2. processEvent demo_env 0 \<lparr>ch_pid = 100, ch_change = Trapped (EventStop SIG_STOP Ev_STOP)\<rparr> demo_world = (Inr (), w1) \<and>
     processEvent demo_env 0 \<lparr>ch_pid = 100, ch_change = Trapped (EventStop SIG_TRAP Ev_STOP)\<rparr> w1 = (Inr (), w2) \<and>
     w_log w2 = [Stopped 0]"
  using group_stop_then_sigcont [OF demo_granting demo_watching, of demo_world 0 SIG_STOP 100]
  by (auto simp: STOPPING_SIGNALS_def Let_def)

section \<open>Death\<close>



section \<open>System calls\<close>

text \<open>
  What the bookkeeping of system calls leaves alone: the callbacks, the requests, and of the tracee
  everything but its cache, its call objects and the sigreturn flag.
\<close>

definition strip :: "tracee \<Rightarrow> tracee" where
  "strip t = t\<lparr>t_db := [], t_current := None, t_interrupted := None,
     t_flags := (t_flags t)\<lparr>SEEN_SIGRETURN := False\<rparr>\<rparr>"

definition core :: "tref \<Rightarrow> world \<Rightarrow> callback list \<times> request list \<times> tracee" where
  "core r w = (w_log w, w_reqs w, strip (w_tracee w r))"

definition quiet :: "tref \<Rightarrow> (world, 'a) prog \<Rightarrow> bool" where
  "quiet r m \<longleftrightarrow> (\<forall>w. core r (snd (m w)) = core r w)"

lemma quietD: "quiet r m \<Longrightarrow> m w = (x, w') \<Longrightarrow> core r w' = core r w"
  by (metis quiet_def snd_conv)

named_theorems quiet_intros \<open>operations that only touch call objects\<close>

lemma quiet_bind [quiet_intros]: "quiet r m \<Longrightarrow> (\<And>x. quiet r (f x)) \<Longrightarrow> quiet r (bindE m f)"
  by (auto simp: quiet_def bindE_def split: prod.splits sum.splits) (metis snd_conv)+

lemma quiet_seq [quiet_intros]: "quiet r m \<Longrightarrow> quiet r n \<Longrightarrow> quiet r (seqE m n)"
  unfolding seqE_def by (rule quiet_bind)

lemma quiet_if [quiet_intros]: "quiet r m \<Longrightarrow> quiet r n \<Longrightarrow> quiet r (if b then m else n)"
  by simp

lemma quiet_option [quiet_intros]:
  "quiet r m \<Longrightarrow> (\<And>y. quiet r (f y)) \<Longrightarrow> quiet r (case x of None \<Rightarrow> m | Some y \<Rightarrow> f y)"
  by (cases x) simp_all

lemma quiet_prims [quiet_intros]:
  "quiet r (ret x)" "quiet r (raise e)" "quiet r skipE" "quiet r (liftE y)" "quiet r (askE f)"
  "quiet r (getT q)" "quiet r (getCall c)" "quiet r (answerE g)"
  by (simp_all add: quiet_def getT_def getCall_def answerE_def prog_defs)

lemma quiet_modT [quiet_intros]: "(\<And>t. strip (f t) = strip t) \<Longrightarrow> quiet r (modT r f)"
  by (simp add: quiet_def modT_def prog_defs core_def)

lemma quiet_modFlags [quiet_intros]:
  "(\<And>f. (g f)\<lparr>SEEN_SIGRETURN := False\<rparr> = f\<lparr>SEEN_SIGRETURN := False\<rparr>) \<Longrightarrow> quiet r (modFlags r g)"
  unfolding modFlags_def by (rule quiet_modT) (simp add: strip_def)

lemma quiet_calls [quiet_intros]:
  "quiet r (runCall c m)" "quiet r (getView E q)" "quiet r (getClass E c)" "quiet r (getCurrent q)"
  "quiet r (getInfo q)"
  by (auto simp: runCall_def quiet_def getView_def getClass_def getT_def getCall_def answerE_def
      getCurrent_def getInfo_def prog_defs core_def split: prod.splits option.splits)

lemma quiet_dbGet [quiet_intros]: "quiet r (dbGet E r info)"
  by (auto simp: quiet_def dbGet_def getView_def getT_def answerE_def prog_defs core_def strip_def
      split: prod.splits)

lemma quiet_setEntry [quiet_intros]: "quiet r (callSetEntryInfo E r c info)"
  unfolding callSetEntryInfo_def by (intro quiet_intros)

lemma setExit_tracee:
  "callSetExitInfo E r c info w = (x, w') \<Longrightarrow>
     w_tracee w' = w_tracee w \<and> w_log w' = w_log w \<and> w_reqs w' = w_reqs w"
  by (auto simp: callSetExitInfo_def getView_def getClass_def getT_def getCall_def answerE_def
      prog_defs Let_def split: prod.splits)

lemma setEntry_tracee:
  "callSetEntryInfo E r c info w = (x, w') \<Longrightarrow> w_tracee w' = w_tracee w"
  by (auto simp: callSetEntryInfo_def getView_def getClass_def runCall_def getT_def getCall_def
      answerE_def prog_defs split: prod.splits)

lemma quiet_detect [quiet_intros]: "quiet r (detectResumed E r info)"
  unfolding detectResumed_def tryRecoverRestartedSystemCall_def
  by (intro quiet_intros) (auto simp: strip_def)

lemma core_eq: "core r w' = core r w \<Longrightarrow> w_log w' = w_log w \<and> w_reqs w' = w_reqs w \<and>
    strip (w_tracee w' r) = strip (w_tracee w r)"
  by (simp add: core_def)

lemma strip_fields:
  assumes "strip t' = strip t"
  shows "t_state t' = t_state t" "t_prev t' = t_prev t" "t_mode t' = t_mode t" "t_pid t' = t_pid t"
    "t_inject t' = t_inject t" "t_ctr t' = t_ctr t" "t_info t' = t_info t"
    "SYSCALL_ENTERED (t_flags t') = SYSCALL_ENTERED (t_flags t)"
    "DETACH_AT_NEXT_STOP (t_flags t') = DETACH_AT_NEXT_STOP (t_flags t)"
    "t_kind t' = t_kind t"
proof -
  have sel: "t_state (strip t) = t_state t" "t_prev (strip t) = t_prev t" "t_mode (strip t) = t_mode t"
    "t_pid (strip t) = t_pid t" "t_inject (strip t) = t_inject t" "t_ctr (strip t) = t_ctr t"
    "t_info (strip t) = t_info t" "SYSCALL_ENTERED (t_flags (strip t)) = SYSCALL_ENTERED (t_flags t)"
    "DETACH_AT_NEXT_STOP (t_flags (strip t)) = DETACH_AT_NEXT_STOP (t_flags t)"
    "t_kind (strip t) = t_kind t" for t
    by (simp_all add: strip_def)
  show "t_state t' = t_state t" "t_prev t' = t_prev t" "t_mode t' = t_mode t" "t_pid t' = t_pid t"
    "t_inject t' = t_inject t" "t_ctr t' = t_ctr t" "t_info t' = t_info t"
    "SYSCALL_ENTERED (t_flags t') = SYSCALL_ENTERED (t_flags t)"
    "DETACH_AT_NEXT_STOP (t_flags t') = DETACH_AT_NEXT_STOP (t_flags t)" "t_kind t' = t_kind t"
    using sel [of t] sel [of t'] assms by simp_all
qed

lemma strip_ctr: "strip (t\<lparr>t_ctr := n\<rparr>) = (strip t)\<lparr>t_ctr := n\<rparr>"
  by (simp add: strip_def)

lemma strip_info: "strip (t\<lparr>t_info := n\<rparr>) = (strip t)\<lparr>t_info := n\<rparr>"
  by (simp add: strip_def)

lemma stateChange_info: "stateChange new (t\<lparr>t_info := n\<rparr>) = (stateChange new t)\<lparr>t_info := n\<rparr>"
  by (simp add: stateChange_def Let_def)

lemma detect_flags: "detectResumed E r info w = (Inr fl, w') \<Longrightarrow> fl \<subseteq> {RESUMED}"
  unfolding detectResumed_def bind_getT
  by (auto simp: step_simps getCurrent_def run_ret split: if_splits option.splits elim!: bind_InrE seq_InrE)

lemma entry_effect:
  assumes "handleSystemCallEntry E r w = (Inr (), w')" "watching E" "t_info (w_tracee w r) = Some info"
  shows "\<exists>c fl. w_log w' = w_log w @ [SyscallEntry r c fl] \<and> w_reqs w' = w_reqs w \<and>
     t_current (w_tracee w' r) = Some c \<and>
     strip (w_tracee w' r) = strip ((w_tracee w r)\<lparr>t_ctr := t_ctr (w_tracee w r) + 1\<rparr>) \<and>
     fl \<subseteq> {ABI_CHANGED, RESUMED} \<and>
     (\<exists>c0 w1. dbGet E r info w = (Inr c0, w1) \<and>
        (ABI_CHANGED \<in> fl \<longleftrightarrow> sc_abi (cs_call (w_calls w1) c0) \<notin> {ABI_UNKNOWN, si_abi info}))"
proof -
  let ?rest = "\<lambda>fl1 fl2 cur. seqE (callSetEntryInfo E r cur info)
      (seqE (modT r (\<lambda>t. t\<lparr>t_ctr := t_ctr t + 1\<rparr>))
        (callbackE E (SyscallEntry r cur (fl1 \<union> fl2))))"
  obtain c w1 where db: "dbGet E r info w = (Inr c, w1)"
    using assms(1) unfolding handleSystemCallEntry_def bind_getInfo [OF assms(3)] by (elim bind_InrE)
  let ?w2 = "w1\<lparr>w_tracee := (w_tracee w1)(r := (w_tracee w1 r)\<lparr>t_current := Some c\<rparr>)\<rparr>"
  let ?fl1 = "if sc_abi (cs_call (w_calls w1) c) \<noteq> ABI_UNKNOWN \<and> sc_abi (cs_call (w_calls w1) c) \<noteq> si_abi info
      then {ABI_CHANGED} else {}"
  have "seqE (liftE (verifyArch (e_arch E) info)) (bindE (detectResumed E r info)
        (\<lambda>fl2. bindE (getCurrent r) (\<lambda>cur. ?rest ?fl1 fl2 cur))) ?w2 = (Inr (), w')"
    using assms(1) unfolding handleSystemCallEntry_def bind_getInfo [OF assms(3)]
      run_bind_Inr [of "dbGet E r info" w c w1, OF db]
    by (simp add: step_simps)
  then obtain fl2 w4 where det: "detectResumed E r info ?w2 = (Inr fl2, w4)"
    and "bindE (getCurrent r) (\<lambda>cur. ?rest ?fl1 fl2 cur) w4 = (Inr (), w')"
    by - (erule seq_InrE, erule bind_InrE, simp add: run_lift)
  moreover then obtain cur where cur: "t_current (w_tracee w4 r) = Some cur"
    by (cases "t_current (w_tracee w4 r)") (auto simp: getCurrent_def step_simps)
  ultimately obtain w5 where ent: "callSetEntryInfo E r cur info w4 = (Inr (), w5)"
    and fin: "callbackE E (SyscallEntry r cur (?fl1 \<union> fl2))
        (w5\<lparr>w_tracee := (w_tracee w5)(r := (w_tracee w5 r)\<lparr>t_ctr := t_ctr (w_tracee w5 r) + 1\<rparr>)\<rparr>) = (Inr (), w')"
    unfolding bind_getCurrent [OF cur] by - (erule seq_InrE, simp add: seq_modT)
  have log: "w_log w' = w_log w5 @ [SyscallEntry r cur (?fl1 \<union> fl2)]" "w_reqs w' = w_reqs w5"
    "w_tracee w' r = (w_tracee w5 r)\<lparr>t_ctr := t_ctr (w_tracee w5 r) + 1\<rparr>"
    using fin assms(2) by (auto simp: step_simps)
  have "core r w5 = core r w4" using quietD [OF quiet_setEntry ent] .
  moreover have "core r w4 = core r w1"
    using quietD [OF quiet_detect det] by (simp add: core_def strip_def)
  moreover have "core r w1 = core r w" using quietD [OF quiet_dbGet db] .
  ultimately have core: "core r w5 = core r w" by simp
  have cur5: "t_current (w_tracee w5 r) = Some cur"
    using cur setEntry_tracee [OF ent] by simp
  have "strip (w_tracee w' r) = strip ((w_tracee w r)\<lparr>t_ctr := t_ctr (w_tracee w r) + 1\<rparr>)"
    using core_eq [OF core] log(3) strip_fields(6) [of "w_tracee w5 r" "w_tracee w r"]
    by (simp add: strip_ctr)
  moreover have "fl2 \<subseteq> {RESUMED}" using detect_flags [OF det] .
  then have "?fl1 \<union> fl2 \<subseteq> {ABI_CHANGED, RESUMED}" "ABI_CHANGED \<in> ?fl1 \<union> fl2 \<longleftrightarrow>
      sc_abi (cs_call (w_calls w1) c) \<notin> {ABI_UNKNOWN, si_abi info}" by auto
  moreover have "w_log w' = w_log w @ [SyscallEntry r cur (?fl1 \<union> fl2)]" "w_reqs w' = w_reqs w"
    "t_current (w_tracee w' r) = Some cur"
    using core_eq [OF core] log cur5 by simp_all
  ultimately show ?thesis using db by blast
qed

lemma exit_effect:
  assumes "handleSystemCallExit E r w = (Inr (), w')" "watching E" "t_info (w_tracee w r) = Some info"
    and "t_current (w_tracee w r) = Some c"
  shows "w_log w' = w_log w @
       [SyscallExit r c (if kernelError (cs_call (w_calls w') c) then {INTERRUPTED} else {})] \<and>
     w_reqs w' = w_reqs w \<and> t_current (w_tracee w' r) = None \<and>
     strip (w_tracee w' r) = strip (w_tracee w r) \<and>
     (kernelError (cs_call (w_calls w') c) \<and> \<not> is_sigreturn (cs_call (w_calls w') c) \<longrightarrow>
        t_interrupted (w_tracee w' r) = Some c)"
proof -
  obtain w1 where ex: "callSetExitInfo E r c info w = (Inr (), w1)"
    using assms(1) unfolding handleSystemCallExit_def bind_getCurrent [OF assms(4)]
      bind_getInfo [OF assms(3)] by (elim seq_InrE)
  have "w_calls w' = w_calls w1 \<and> w_log w' = w_log w1 @
       [SyscallExit r c (if kernelError (cs_call (w_calls w1) c) then {INTERRUPTED} else {})] \<and>
     w_reqs w' = w_reqs w1 \<and> t_current (w_tracee w' r) = None \<and>
     strip (w_tracee w' r) = strip (w_tracee w1 r) \<and>
     (kernelError (cs_call (w_calls w1) c) \<and> \<not> is_sigreturn (cs_call (w_calls w1) c) \<longrightarrow>
        t_interrupted (w_tracee w' r) = Some c)"
    using assms(1) unfolding handleSystemCallExit_def bind_getCurrent [OF assms(4)]
      bind_getInfo [OF assms(3)] run_seq_Inr [of "callSetExitInfo E r c info" w "()" w1, OF ex]
    using assms(2) by (auto simp: step_simps strip_def split: if_splits)
  then show ?thesis using setExit_tracee [OF ex] by simp
qed

lemma callEntry_effect:
  assumes "handleSystemCall E r w = (Inr (), w')" "granting E" "watching E"
    and "\<not> SYSCALL_ENTERED (t_flags (w_tracee w r))"
  shows "\<exists>c fl. w_log w' = w_log w @ [SyscallEntry r c fl] \<and>
     w_reqs w' = w_reqs w @ [GetSyscallInfo (t_pid (w_tracee w r))] \<and>
     t_current (w_tracee w' r) = Some c \<and>
     strip (w_tracee w' r) = strip ((stateChange SYSCALL_ENTER_STOP (w_tracee w r))
        \<lparr>t_ctr := t_ctr (w_tracee w r) + 1, t_info := None\<rparr>)"
proof -
  let ?p = "t_pid (w_tracee w r)"
  let ?i = "k_syscall_info (e_kernel E) (w_reqs w @ [GetSyscallInfo ?p]) ?p"
  obtain i where i: "isEntry ?i" "updateSysNr ?i = Inr i"
    using assms by (cases "updateSysNr ?i"; cases "isEntry ?i")
      (simp_all add: handleSystemCall_def handleStateMismatch_def step_simps)
  let ?w1 = "w\<lparr>w_reqs := w_reqs w @ [GetSyscallInfo ?p],
      w_tracee := (w_tracee w)(r := stateChange SYSCALL_ENTER_STOP ((w_tracee w r)\<lparr>t_info := Some i\<rparr>))\<rparr>"
  have "seqE (handleSystemCallEntry E r) (modT r (\<lambda>t. t\<lparr>t_info := None\<rparr>)) ?w1 = (Inr (), w')"
    using assms i by (simp add: handleSystemCall_def step_simps)
  then obtain w2 where e: "handleSystemCallEntry E r ?w1 = (Inr (), w2)"
    and w': "w' = w2\<lparr>w_tracee := (w_tracee w2)(r := (w_tracee w2 r)\<lparr>t_info := None\<rparr>)\<rparr>"
    by - (erule seq_InrE, simp add: modT_run)
  from entry_effect [OF e assms(3), of i] obtain c fl where
    "w_log w2 = w_log w @ [SyscallEntry r c fl]" "w_reqs w2 = w_reqs w @ [GetSyscallInfo ?p]"
    "t_current (w_tracee w2 r) = Some c"
    "strip (w_tracee w2 r) = strip ((w_tracee ?w1 r)\<lparr>t_ctr := t_ctr (w_tracee ?w1 r) + 1\<rparr>)"
    by auto
  then show ?thesis
    unfolding w' by (simp add: strip_info strip_ctr stateChange_info)
qed

lemma callExit_effect:
  assumes "handleSystemCall E r w = (Inr (), w')" "granting E" "watching E"
    and "SYSCALL_ENTERED (t_flags (w_tracee w r))" "t_current (w_tracee w r) = Some c"
  shows "w_log w' = w_log w @
       [SyscallExit r c (if kernelError (cs_call (w_calls w') c) then {INTERRUPTED} else {})] \<and>
     w_reqs w' = w_reqs w @ [GetSyscallInfo (t_pid (w_tracee w r))] \<and>
     t_current (w_tracee w' r) = None \<and>
     strip (w_tracee w' r) = strip ((stateChange SYSCALL_EXIT_STOP (w_tracee w r))\<lparr>t_info := None\<rparr>) \<and>
     (kernelError (cs_call (w_calls w') c) \<and> \<not> is_sigreturn (cs_call (w_calls w') c) \<longrightarrow>
        t_interrupted (w_tracee w' r) = Some c)"
proof -
  let ?p = "t_pid (w_tracee w r)"
  let ?i = "k_syscall_info (e_kernel E) (w_reqs w @ [GetSyscallInfo ?p]) ?p"
  have i: "isExit ?i"
    using assms by (cases "isExit ?i")
      (simp_all add: handleSystemCall_def handleStateMismatch_def step_simps)
  let ?w1 = "w\<lparr>w_reqs := w_reqs w @ [GetSyscallInfo ?p],
      w_tracee := (w_tracee w)(r := stateChange SYSCALL_EXIT_STOP ((w_tracee w r)\<lparr>t_info := Some ?i\<rparr>))\<rparr>"
  have "seqE (handleSystemCallExit E r) (modT r (\<lambda>t. t\<lparr>t_info := None\<rparr>)) ?w1 = (Inr (), w')"
    using assms i by (simp add: handleSystemCall_def step_simps)
  then obtain w2 where e: "handleSystemCallExit E r ?w1 = (Inr (), w2)"
    and w': "w' = w2\<lparr>w_tracee := (w_tracee w2)(r := (w_tracee w2 r)\<lparr>t_info := None\<rparr>)\<rparr>"
    by - (erule seq_InrE, simp add: modT_run)
  from exit_effect [OF e assms(3), of ?i c] assms(5) show ?thesis
    unfolding w' by (simp add: strip_info strip_ctr stateChange_info)
qed

text \<open>
  The restart after a system call stop, in terms of the stripped tracee.
\<close>

lemma restart_effect:
  assumes "restartTracee E r w = (Inr (), w')" "granting E" "watching E"
    and "t_state (w_tracee w r) \<notin> {DEAD, DETACHED, GROUP_STOP}" "t_mode (w_tracee w r) \<noteq> LISTEN"
  shows "w_log w' = w_log w \<and> w_calls w' = w_calls w \<and>
     w_reqs w' = w_reqs w @ [Restart (t_pid (w_tracee w r)) (t_mode (w_tracee w r)) (t_inject (w_tracee w r))] \<and>
     w_tracee w' r = stateChange RUNNING (w_tracee w r)"
proof -
  have "restartTracee E r w = (Inr (),
     (w\<lparr>w_reqs := w_reqs w @ [Restart (t_pid (w_tracee w r)) (t_mode (w_tracee w r)) (t_inject (w_tracee w r))],
        w_tracee := (w_tracee w)(r := stateChange RUNNING (w_tracee w r))\<rparr>))"
    using assms by (simp add: restart_run Let_def)
  with assms(1) have "w' = w\<lparr>w_reqs := w_reqs w @ [Restart (t_pid (w_tracee w r)) (t_mode (w_tracee w r)) (t_inject (w_tracee w r))],
        w_tracee := (w_tracee w)(r := stateChange RUNNING (w_tracee w r))\<rparr>" by auto
  then show ?thesis by simp
qed

lemma entry_event:
  assumes "processEvent E r \<lparr>ch_pid = p, ch_change = Trapped SysTrap\<rparr> w = (Inr (), w')"
    and "granting E" "watching E" "t_flags (w_tracee w r) = no_flags" "t_mode (w_tracee w r) = SYSCALL"
  shows "\<exists>c fl. w_log w' = w_log w @ [SyscallEntry r c fl] \<and>
     w_reqs w' = w_reqs w @ [GetSyscallInfo (t_pid (w_tracee w r)), Restart (t_pid (w_tracee w r)) SYSCALL None] \<and>
     (let t = w_tracee w' r in t_current t = Some c \<and> t_state t = RUNNING \<and> SYSCALL_ENTERED (t_flags t) \<and>
        \<not> DETACH_AT_NEXT_STOP (t_flags t) \<and> t_mode t = SYSCALL \<and> t_pid t = t_pid (w_tracee w r) \<and>
        t_ctr t = t_ctr (w_tracee w r) + 1)"
proof -
  let ?w0 = "w\<lparr>w_tracee := (w_tracee w)(r := (w_tracee w r)\<lparr>t_inject := None\<rparr>)\<rparr>"
  from assms obtain w1 where h: "handleSystemCall E r ?w0 = (Inr (), w1)"
    and rs: "restartTracee E r w1 = (Inr (), w')"
    by (auto simp: processEvent_def step_simps no_flags_def elim!: seq_InrE)
  from callEntry_effect [OF h assms(2,3)] assms(4,5) obtain c fl where
    c: "w_log w1 = w_log w @ [SyscallEntry r c fl]"
      "w_reqs w1 = w_reqs w @ [GetSyscallInfo (t_pid (w_tracee w r))]"
      "t_current (w_tracee w1 r) = Some c"
      "strip (w_tracee w1 r) = strip ((stateChange SYSCALL_ENTER_STOP ((w_tracee w r)\<lparr>t_inject := None\<rparr>))
        \<lparr>t_ctr := t_ctr (w_tracee w r) + 1, t_info := None\<rparr>)"
    by (auto simp: no_flags_def)
  note f = strip_fields [OF c(4)]
  have st: "t_state (w_tracee w1 r) = SYSCALL_ENTER_STOP" "t_mode (w_tracee w1 r) = SYSCALL"
    "t_inject (w_tracee w1 r) = None" "t_pid (w_tracee w1 r) = t_pid (w_tracee w r)"
    "SYSCALL_ENTERED (t_flags (w_tracee w1 r))" "\<not> DETACH_AT_NEXT_STOP (t_flags (w_tracee w1 r))"
    "t_ctr (w_tracee w1 r) = t_ctr (w_tracee w r) + 1"
    using f assms(4,5) by (simp_all add: stateChange_simps no_flags_def)
  from restart_effect [OF rs assms(2,3)] c st show ?thesis
    by (auto simp: Let_def stateChange_simps)
qed

lemma exit_event:
  assumes "processEvent E r \<lparr>ch_pid = p, ch_change = Trapped SysTrap\<rparr> w = (Inr (), w')"
    and "granting E" "watching E" "SYSCALL_ENTERED (t_flags (w_tracee w r))"
    and "\<not> DETACH_AT_NEXT_STOP (t_flags (w_tracee w r))" "t_mode (w_tracee w r) = SYSCALL"
    and "t_current (w_tracee w r) = Some c"
  shows "w_log w' = w_log w @
       [SyscallExit r c (if kernelError (cs_call (w_calls w') c) then {INTERRUPTED} else {})] \<and>
     w_reqs w' = w_reqs w @ [GetSyscallInfo (t_pid (w_tracee w r)), Restart (t_pid (w_tracee w r)) SYSCALL None] \<and>
     (let t = w_tracee w' r in t_current t = None \<and> t_state t = RUNNING \<and> \<not> SYSCALL_ENTERED (t_flags t) \<and>
        t_ctr t = t_ctr (w_tracee w r)) \<and>
     (kernelError (cs_call (w_calls w') c) \<and> \<not> is_sigreturn (cs_call (w_calls w') c) \<longrightarrow>
        t_interrupted (w_tracee w' r) = Some c)"
proof -
  let ?w0 = "w\<lparr>w_tracee := (w_tracee w)(r := (w_tracee w r)\<lparr>t_inject := None\<rparr>)\<rparr>"
  from assms obtain w1 where h: "handleSystemCall E r ?w0 = (Inr (), w1)"
    and rs: "restartTracee E r w1 = (Inr (), w')"
    by (auto simp: processEvent_def step_simps elim!: seq_InrE)
  from callExit_effect [OF h assms(2,3), of c] assms(4,7) have
    c: "w_log w1 = w_log w @
       [SyscallExit r c (if kernelError (cs_call (w_calls w1) c) then {INTERRUPTED} else {})]"
      "w_reqs w1 = w_reqs w @ [GetSyscallInfo (t_pid (w_tracee w r))]"
      "t_current (w_tracee w1 r) = None"
      "strip (w_tracee w1 r) = strip ((stateChange SYSCALL_EXIT_STOP ((w_tracee w r)\<lparr>t_inject := None\<rparr>))\<lparr>t_info := None\<rparr>)"
      "kernelError (cs_call (w_calls w1) c) \<and> \<not> is_sigreturn (cs_call (w_calls w1) c) \<longrightarrow>
        t_interrupted (w_tracee w1 r) = Some c"
    by auto
  note f = strip_fields [OF c(4)]
  have st: "t_state (w_tracee w1 r) = SYSCALL_EXIT_STOP" "t_mode (w_tracee w1 r) = SYSCALL"
    "t_inject (w_tracee w1 r) = None" "t_pid (w_tracee w1 r) = t_pid (w_tracee w r)"
    "\<not> SYSCALL_ENTERED (t_flags (w_tracee w1 r))" "t_ctr (w_tracee w1 r) = t_ctr (w_tracee w r)"
    using f assms(6) by (simp_all add: stateChange_simps)
  from restart_effect [OF rs assms(2,3)] c st show ?thesis
    by (auto simp: Let_def stateChange_simps)
qed

text \<open>C2: one system call is two stops: the client sees exactly one entry and then exactly one exit,
  both for the same call object; the tracee is restarted after each stop without a signal; the call
  is counted once; the exit carries INTERRUPTED exactly if the kernel reported one of its restart
  codes, and then (unless the call is a sigreturn) the object is kept as the interrupted call.\<close>

theorem system_call_entry_then_exit:
  assumes "granting E" "watching E" "t_flags (w_tracee w r) = no_flags" "t_mode (w_tracee w r) = SYSCALL"
    and "processEvent E r \<lparr>ch_pid = p, ch_change = Trapped SysTrap\<rparr> w = (Inr (), w1)"
    and "processEvent E r \<lparr>ch_pid = p, ch_change = Trapped SysTrap\<rparr> w1 = (Inr (), w2)"
  shows "\<exists>c fl. let call = cs_call (w_calls w2) c; pid = t_pid (w_tracee w r) in
     w_log w2 = w_log w @ [SyscallEntry r c fl,
       SyscallExit r c (if kernelError call then {INTERRUPTED} else {})] \<and>
     w_reqs w2 = w_reqs w @ [GetSyscallInfo pid, Restart pid SYSCALL None,
       GetSyscallInfo pid, Restart pid SYSCALL None] \<and>
     t_current (w_tracee w1 r) = Some c \<and> t_current (w_tracee w2 r) = None \<and>
     t_ctr (w_tracee w2 r) = t_ctr (w_tracee w r) + 1 \<and>
     (kernelError call \<and> \<not> is_sigreturn call \<longrightarrow> t_interrupted (w_tracee w2 r) = Some c)"
proof -
  from entry_event [OF assms(5,1,2,3,4)] obtain c fl where
    e: "w_log w1 = w_log w @ [SyscallEntry r c fl]"
      "w_reqs w1 = w_reqs w @ [GetSyscallInfo (t_pid (w_tracee w r)), Restart (t_pid (w_tracee w r)) SYSCALL None]"
      "t_current (w_tracee w1 r) = Some c" "SYSCALL_ENTERED (t_flags (w_tracee w1 r))"
      "\<not> DETACH_AT_NEXT_STOP (t_flags (w_tracee w1 r))" "t_mode (w_tracee w1 r) = SYSCALL"
      "t_pid (w_tracee w1 r) = t_pid (w_tracee w r)" "t_ctr (w_tracee w1 r) = t_ctr (w_tracee w r) + 1"
    by (auto simp: Let_def)
  from exit_event [OF assms(6,1,2) e(4,5,6,3)] e show ?thesis
    by (auto simp: Let_def)
qed

text \<open>A kernel that reports the entry of a \<open>read\<close> and then its exit with the value 0.\<close>

definition two_stop_env :: env where
  "two_stop_env = demo_env\<lparr>e_kernel := demo_kernel\<lparr>k_syscall_info := (\<lambda>h p.
     if length h = 1 then demo_info SYS_CLOSE
     else (demo_info SYS_CLOSE)\<lparr>si_kind := InfoExit (ExitValue 0)\<rparr>)\<rparr>\<rparr>"

lemma two_stop_sel [simp]:
  "e_family two_stop_env = plain_family" "e_arch two_stop_env = arch_x86_64"
  "\<not> e_client two_stop_env l cb" "k_fail (e_kernel two_stop_env) h q = None"
  "k_view (e_kernel two_stop_env) h p = demo_view"
  "k_syscall_info (e_kernel two_stop_env) h p = (if length h = 1 then demo_info SYS_CLOSE
     else (demo_info SYS_CLOSE)\<lparr>si_kind := InfoExit (ExitValue 0)\<rparr>)"
  by (simp_all add: two_stop_env_def)

lemma two_stop_ok: "granting two_stop_env" "watching two_stop_env"
  by (simp_all add: granting_def watching_def)

lemma demo_info_nr: "si_kind (demo_info n) = InfoEntry 0 (Six 1 2 3 4 5 6)"
  "updateSysNr (demo_info n) = Inr (demo_info SYS_READ)"
proof -
  have "to_generic_x64 0 = SYS_READ" by code_simp
  then show "updateSysNr (demo_info n) = Inr (demo_info SYS_READ)"
    by (simp add: demo_info_def updateSysNr_def)
qed (simp add: demo_info_def)

lemma demo_create: "create_syscall plain_family tv (demo_info SYS_READ) =
    Inr (new_call plain_family ''ReadSystemCall'' SYS_READ, True)"
proof -
  have "factory_of plain_family SYS_READ = New ''ReadSystemCall''" by code_simp
  then show ?thesis by (simp add: create_syscall_def)
qed

lemma demo_arch: "verifyArch arch_x86_64 (demo_info n) = Inr ()"
  by (simp add: verifyArch_def demo_info_def arch_x86_64_def)

lemma demo_world_calls [simp]: "cs_next (w_calls demo_world) = 0" "t_mode (stateChange SYSCALL_ENTER_STOP t) = t_mode t"
  by (simp_all add: demo_world_def stateChange_simps)

lemma two_stop_entry:
  "\<exists>w'. processEvent two_stop_env 0 \<lparr>ch_pid = 100, ch_change = Trapped SysTrap\<rparr> demo_world = (Inr (), w') \<and>
   w_reqs w' = [GetSyscallInfo 100, Restart 100 SYSCALL None] \<and> t_current (w_tracee w' 0) = Some 0 \<and>
   t_pid (w_tracee w' 0) = 100 \<and> t_mode (w_tracee w' 0) = SYSCALL \<and> t_interrupted (w_tracee w' 0) = None \<and>
   SYSCALL_ENTERED (t_flags (w_tracee w' 0)) \<and> \<not> DETACH_AT_NEXT_STOP (t_flags (w_tracee w' 0)) \<and>
   sc_pars (cs_call (w_calls w') 0) = [] \<and> sc_nr (cs_call (w_calls w') 0) = SYS_READ"
  by (simp add: processEvent_def handleSystemCall_def step_simps isEntry.simps isExit.simps no_flags_def
    handleSystemCallEntry_def dbGet_def bind_getView bind_getClass Let_def demo_info_nr demo_create demo_arch
    detectResumed_def SystemCallDB_get_def store_new_def bind_run_Inr smap.insert_new new_call_def base_class_def
    callSetEntryInfo_base restartTracee_def stateChange_simps)

lemma two_stop_exit:
  assumes "w_reqs w = [GetSyscallInfo 100, Restart 100 SYSCALL None]" "t_current (w_tracee w 0) = Some 0"
   "t_pid (w_tracee w 0) = 100" "t_mode (w_tracee w 0) = SYSCALL" "t_interrupted (w_tracee w 0) = None"
   "SYSCALL_ENTERED (t_flags (w_tracee w 0))" "\<not> DETACH_AT_NEXT_STOP (t_flags (w_tracee w 0))"
   "sc_pars (cs_call (w_calls w) 0) = []" "sc_nr (cs_call (w_calls w) 0) = SYS_READ"
  shows "\<exists>w'. processEvent two_stop_env 0 \<lparr>ch_pid = 100, ch_change = Trapped SysTrap\<rparr> w = (Inr (), w') \<and>
    sc_error (cs_call (w_calls w') 0) = None"
  using assms
  by (simp add: processEvent_def handleSystemCall_def step_simps isEntry.simps isExit.simps
    handleSystemCallExit_def Let_def callSetExitInfo_base kernelError_def restartTracee_def stateChange_simps)

theorem system_call_entry_then_exit_witness:
  "\<exists>w1 w2. processEvent two_stop_env 0 \<lparr>ch_pid = 100, ch_change = Trapped SysTrap\<rparr> demo_world = (Inr (), w1) \<and>
     processEvent two_stop_env 0 \<lparr>ch_pid = 100, ch_change = Trapped SysTrap\<rparr> w1 = (Inr (), w2) \<and>
     (\<exists>fl. w_log w2 = [SyscallEntry 0 0 fl, SyscallExit 0 0 {}]) \<and> t_ctr (w_tracee w2 0) = 1"
proof -
  obtain w1 where w1: "processEvent two_stop_env 0 \<lparr>ch_pid = 100, ch_change = Trapped SysTrap\<rparr> demo_world = (Inr (), w1)"
    "w_reqs w1 = [GetSyscallInfo 100, Restart 100 SYSCALL None]" "t_current (w_tracee w1 0) = Some 0"
    "t_pid (w_tracee w1 0) = 100" "t_mode (w_tracee w1 0) = SYSCALL" "t_interrupted (w_tracee w1 0) = None"
    "SYSCALL_ENTERED (t_flags (w_tracee w1 0))" "\<not> DETACH_AT_NEXT_STOP (t_flags (w_tracee w1 0))"
    "sc_pars (cs_call (w_calls w1) 0) = []" "sc_nr (cs_call (w_calls w1) 0) = SYS_READ"
    using two_stop_entry by blast
  from two_stop_exit [OF w1(2-)] obtain w2 where
    w2: "processEvent two_stop_env 0 \<lparr>ch_pid = 100, ch_change = Trapped SysTrap\<rparr> w1 = (Inr (), w2)"
    "sc_error (cs_call (w_calls w2) 0) = None" by blast
  from system_call_entry_then_exit [OF two_stop_ok _ _ w1(1) w2(1)] w1 w2 show ?thesis
    by (auto simp: Let_def kernelError_def)
qed

end
