(* ===== verification/Engine_Frame.thy ===== *)
theory Engine_Frame
  imports Stepping
begin

text \<open>
  What the tracees do not see of the engine: the stored events of unknown processes, and (but for
  the attachment of new children) the process ID of the last new child. The locale states it for a
  change \<open>g\<close> of the world that keeps apart from everything the tracees read and write.
\<close>

locale blind =
  fixes g :: "world \<Rightarrow> world"
  assumes reads_same [simp]: "w_tracees (g w) = w_tracees w" "w_tracee (g w) = w_tracee w"
      "w_next_tracee (g w) = w_next_tracee w" "w_pdata (g w) = w_pdata w"
      "w_next_pdata (g w) = w_next_pdata w" "w_calls (g w) = w_calls w"
      "w_reqs (g w) = w_reqs w" "w_log (g w) = w_log w"
    and writes_apart [simp]: "g (w\<lparr>w_tracees := a\<rparr>) = (g w)\<lparr>w_tracees := a\<rparr>"
      "g (w\<lparr>w_tracee := b\<rparr>) = (g w)\<lparr>w_tracee := b\<rparr>"
      "g (w\<lparr>w_next_tracee := c\<rparr>) = (g w)\<lparr>w_next_tracee := c\<rparr>"
      "g (w\<lparr>w_pdata := d\<rparr>) = (g w)\<lparr>w_pdata := d\<rparr>"
      "g (w\<lparr>w_next_pdata := e\<rparr>) = (g w)\<lparr>w_next_pdata := e\<rparr>"
      "g (w\<lparr>w_calls := f\<rparr>) = (g w)\<lparr>w_calls := f\<rparr>"
      "g (w\<lparr>w_reqs := h\<rparr>) = (g w)\<lparr>w_reqs := h\<rparr>"
      "g (w\<lparr>w_log := l\<rparr>) = (g w)\<lparr>w_log := l\<rparr>"
begin

lemma blind_prims [commutes_intros]:
  "commutes g (getT r)" "commutes g (modT r ft)" "commutes g (modFlags r ff)" "commutes g (modPD r fp)"
  "commutes g (getPD r)" "commutes g (reqE E q)" "commutes g (answerE fa)" "commutes g (getCall cr)"
  "commutes g (eraseTracee p)" "commutes g (newPD pd)"
  by (simp_all add: commutes_def getT_def modT_def modFlags_def modPD_def getPD_def reqE_def
      answerE_def getCall_def eraseTracee_def newPD_def askE_def updE_def Let_def)

lemma blind_traceeAt [commutes_intros]: "commutes g (traceeAt p)"
  by (auto simp: commutes_def traceeAt_def split: option.splits)

lemma blind_newTracee [commutes_intros]: "commutes g (newTracee k sib)"
  unfolding newTracee_def
  by (intro commutes_intros) (simp add: commutes_def)

lemma blind_changeState [commutes_intros]: "commutes g (changeState E r new)"
  unfolding changeState_def cleanupChild_def by (intro commutes_intros)

lemma blind_handleError [commutes_intros]: "commutes g (handleError E r e)"
  unfolding handleError_def by (intro commutes_intros)

lemma blind_doDetach [commutes_intros]: "commutes g (doDetach E r)"
  unfolding doDetach_def by (intro commutes_intros)

lemma blind_detach [commutes_intros]: "commutes g (detach E r)"
  unfolding detach_def by (intro commutes_intros)

lemma blind_callback [commutes_intros]: "commutes g (callbackE E cb)"
  unfolding callbackE_def
  by (intro commutes_intros commutes_ask commutes_upd) simp_all

lemma blind_exec_info [commutes_intros]: "commutes g (updateExecutable E r)" "commutes g (updateCmdLine E r)"
    "commutes g (updateExecInfo E r)"
  unfolding updateExecutable_def updateCmdLine_def updateExecInfo_def by (intro commutes_intros)+

lemma blind_attach [commutes_intros]: "commutes g (attach E r fc at)"
  unfolding attach_def by (intro commutes_intros)

lemma blind_unshare [commutes_intros]: "commutes g (unshareProcessData r)"
  unfolding unshareProcessData_def by (intro commutes_intros)

lemma blind_addTracee [commutes_intros]: "commutes g (addTracee E p fc at sib)"
  unfolding addTracee_def by (intro commutes_intros commutes_ask commutes_upd) simp_all

lemma blind_cleanup [commutes_intros]: "commutes g (checkCleanupTracee E p)"
  unfolding checkCleanupTracee_def by (intro commutes_intros)

lemma blind_runCall [commutes_intros]: "commutes g (runCall c m)"
  by (auto simp: commutes_def runCall_def split: prod.splits)

lemma blind_calls [commutes_intros]: "commutes g (getView E r)" "commutes g (getClass E c)"
    "commutes g (getInfo r)" "commutes g (getCurrent r)"
  unfolding getView_def getClass_def getInfo_def getCurrent_def by (intro commutes_intros)+

lemma blind_dbGet [commutes_intros]: "commutes g (dbGet E r info)"
  unfolding dbGet_def
  by (intro commutes_bind blind_calls) (auto simp: commutes_def split: prod.splits)

lemma blind_setEntry [commutes_intros]: "commutes g (callSetEntryInfo E r c info)"
  unfolding callSetEntryInfo_def by (intro commutes_intros)

lemma blind_setExit [commutes_intros]: "commutes g (callSetExitInfo E r c info)"
  unfolding callSetExitInfo_def
  by (intro commutes_bind blind_calls) (auto simp: commutes_def Let_def split: prod.splits)

lemma blind_resumed [commutes_intros]: "commutes g (detectResumed E r info)"
  unfolding detectResumed_def tryRecoverRestartedSystemCall_def by (intro commutes_intros)

lemma blind_entry [commutes_intros]: "commutes g (handleSystemCallEntry E r)"
  unfolding handleSystemCallEntry_def by (intro commutes_intros)

lemma blind_exit [commutes_intros]: "commutes g (handleSystemCallExit E r)"
  unfolding handleSystemCallExit_def by (intro commutes_intros)

lemma blind_systemCall [commutes_intros]: "commutes g (handleSystemCall E r)"
  unfolding handleSystemCall_def handleStateMismatch_def by (intro commutes_intros)

lemma blind_signal [commutes_intros]: "commutes g (handleSignal E r sig)" "commutes g (signalStop E r sig)"
  unfolding signalStop_def handleSignal_def by (intro commutes_intros)+

lemma blind_registers [commutes_intros]: "commutes g (getInitialRegisters E r)"
  unfolding getInitialRegisters_def getRegisters_def setRegs_def Let_def by (intro commutes_intros)

lemma blind_attached [commutes_intros]: "commutes g (handleAttached E r)"
  unfolding handleAttached_def initFDInfos_def attachThreads_def by (intro commutes_intros)

lemma blind_stop [commutes_intros]: "commutes g (handleStopEvent E r sig)"
  unfolding handleStopEvent_def by (intro commutes_intros)

lemma blind_lost [commutes_intros]: "commutes g (lostToMtExit r status)"
  by (cases status) (auto simp: lostToMtExit_def intro!: commutes_intros)

lemma blind_exitEvent [commutes_intros]: "commutes g (handleExitEvent E r)"
  unfolding handleExitEvent_def by (intro commutes_intros)

lemma blind_exec [commutes_intros]: "commutes g (handleExecEvent E r p)"
  unfolding handleExecEvent_def handleSubstitution_def syncState_def syncFDs_def
  by (intro commutes_intros commutes_ask) simp_all

lemma blind_restart [commutes_intros]: "commutes g (restartTracee E r)"
  unfolding restartTracee_def by (intro commutes_intros)

lemma blind_death [commutes_intros]: "commutes g (processDeath E r data)"
  unfolding processDeath_def by (intro commutes_intros)

lemma blind_cloned [commutes_intros]: "commutes g (hasClonedThread r)"
  unfolding hasClonedThread_def by (intro commutes_intros)

lemma blind_configure [commutes_intros]: "commutes g (AutoAttached_configure r p sc)"
  unfolding AutoAttached_configure_def by (intro commutes_intros)

text \<open>A stop event of a tracee itself.\<close>

lemma blind_stop_event: "commutes g (processEvent E r \<lparr>ch_pid = p, ch_change = Trapped (EventStop sig Ev_STOP)\<rparr>)"
  by (auto simp: processEvent_def handleEvent_def intro!: commutes_intros)

end

text \<open>Changes that also keep apart from the process ID of the last new child.\<close>

locale blind_newpid = blind +
  assumes newpid_apart [simp]: "g (w\<lparr>w_newpid := n\<rparr>) = (g w)\<lparr>w_newpid := n\<rparr>" "w_newpid (g w) = w_newpid w"
begin

lemma blind_autoAttach [commutes_intros]: "commutes g (handleAutoAttach E r p ev s)"
  unfolding handleAutoAttach_def
  by (intro commutes_intros commutes_ask commutes_upd) simp_all

lemma blind_newChild [commutes_intros]: "commutes g (handleNewChildEvent E r ev)"
  unfolding handleNewChildEvent_def by (intro commutes_intros)

lemma blind_event [commutes_intros]: "commutes g (handleEvent E r data ev sig)"
  by (cases ev) (auto simp: handleEvent_def intro!: commutes_intros)

lemma blind_processEvent [commutes_intros]: "commutes g (processEvent E r data)"
  unfolding processEvent_def
  by (cases "ch_change data")
    (auto intro!: commutes_intros split: stop_signal.splits)

end

section \<open>The two parts of the world that tracees do not see\<close>

interpretation unknown: blind_newpid "\<lambda>w. w\<lparr>w_unknown := u\<rparr>" for u
  by unfold_locales simp_all

interpretation newpid: blind "\<lambda>w. w\<lparr>w_newpid := p\<rparr>" for p
  by unfold_locales simp_all

lemma unknown_same:
  assumes "\<And>u. commutes (\<lambda>w. w\<lparr>w_unknown := u\<rparr>) m" "m w = (x, w')"
  shows "w_unknown w' = w_unknown w"
proof -
  have "m w = (x, w'\<lparr>w_unknown := w_unknown w\<rparr>)"
    using commutesD [OF assms(1) [of "w_unknown w"] assms(2)] by simp
  then have "w' = w'\<lparr>w_unknown := w_unknown w\<rparr>" using assms(2) by simp
  then show ?thesis by (metis world.select_convs(2) world.surjective world.update_convs(2))
qed

lemma newpid_same:
  assumes "\<And>p. commutes (\<lambda>w. w\<lparr>w_newpid := p\<rparr>) m" "m w = (x, w')"
  shows "w_newpid w' = w_newpid w"
proof -
  have "m w = (x, w'\<lparr>w_newpid := w_newpid w\<rparr>)"
    using commutesD [OF assms(1) [of "w_newpid w"] assms(2)] by simp
  then have "w' = w'\<lparr>w_newpid := w_newpid w\<rparr>" using assms(2) by simp
  then show ?thesis by (metis world.select_convs(3) world.surjective world.update_convs(3))
qed

end
