(* ===== verification/Engine_Props.thy ===== *)
theory Engine_Props
  imports Engine_Frame Tracee_Props
begin

text \<open>
  The engine (src/Engine.cxx): every event reaches at most one tracee, the mutual recursion of
  \<open>handleEvent\<close> and \<open>checkUnknownEvents\<close> is two levels deep, events that arrive early are handled
  as if they had arrived in order, and what happens when tracing ends.
\<close>

section \<open>Stored events\<close>

definition is_stop_event :: "child_state \<Rightarrow> bool" where
  "is_stop_event d \<longleftrightarrow> (case ch_change d of Trapped (EventStop sig ev) \<Rightarrow> ev = Ev_STOP | _ \<Rightarrow> False)"

definition stored_stops :: "world \<Rightarrow> bool" where
  "stored_stops w \<longleftrightarrow> smap_wf (w_unknown w) \<and>
     smap.all_entries (\<lambda>p d. ch_pid d = p \<and> is_stop_event d) (w_unknown w)"

lemma stored_stops_cong: "w_unknown w' = w_unknown w \<Longrightarrow> stored_stops w' = stored_stops w"
  by (simp add: stored_stops_def)

lemma stored_stops_erase: "stored_stops w \<Longrightarrow> stored_stops (w\<lparr>w_unknown := smap_erase p (w_unknown w)\<rparr>)"
  by (simp add: stored_stops_def smap.wf_erase smap.all_entries_erase)

lemma stored_stops_insert: "stored_stops w \<Longrightarrow> is_stop_event d \<Longrightarrow>
    stored_stops (w\<lparr>w_unknown := snd (smap_insert (ch_pid d) d (w_unknown w))\<rparr>)"
  by (simp add: stored_stops_def smap.wf_insert smap.all_entries_insert)

lemma stored_stopsD:
  assumes "stored_stops w" "smap_find (w_unknown w) p = Some d"
  shows "ch_pid d = p" "\<exists>sig. d = \<lparr>ch_pid = p, ch_change = Trapped (EventStop sig Ev_STOP)\<rparr>"
proof -
  have d: "ch_pid d = p" "is_stop_event d"
    using smap.all_entriesD [of _ "w_unknown w" p d] assms by (auto simp: stored_stops_def)
  then show "ch_pid d = p" by simp
  from d show "\<exists>sig. d = \<lparr>ch_pid = p, ch_change = Trapped (EventStop sig Ev_STOP)\<rparr>"
    by (cases d) (auto simp: is_stop_event_def split: child_change.splits stop_signal.splits)
qed

section \<open>Handling an event of a known process\<close>

text \<open>What an event does to its tracee, before the stored events are looked at.\<close>

definition ownPart :: "env \<Rightarrow> tref \<Rightarrow> child_state \<Rightarrow> (world, unit) prog" where
  "ownPart E r d = seqE (catchE is_ApiError (processEvent E r d) (\<lambda>_. skipE)) (checkCleanupTracee E (ch_pid d))"

lemma handleEvent_known:
  assumes "smap_find (w_tracees w) (ch_pid d) = Some r"
  shows "Engine_handleEvent E (Suc n) d w = (case ownPart E r d w of
     (Inl e, w1) \<Rightarrow> (Inl e, w1)
   | (Inr _, w1) \<Rightarrow> (case checkUnknownEvents (Engine_handleEvent E n) w1 of
       (Inl e, w2) \<Rightarrow> (Inl e, w2) | (Inr _, w2) \<Rightarrow> (Inr DONE, w2)))"
proof -
  have "Engine_handleEvent E (Suc n) d w =
     seqE (ownPart E r d) (seqE (checkUnknownEvents (Engine_handleEvent E n)) (ret DONE)) w"
    using assms by (simp add: step_simps ownPart_def)
  then show ?thesis
    by (simp add: seqE_def bindE_def ret_def del: Engine_handleEvent.simps split: prod.split sum.split)
qed

lemma checkUnknownEvents_run:
  "checkUnknownEvents h w = (if w_newpid w = PID_INVALID then (Inr (), w)
     else (let w0 = w\<lparr>w_newpid := PID_INVALID\<rparr> in
       case smap_find (w_unknown w) (w_newpid w) of
         None \<Rightarrow> (Inr (), w0)
       | Some d \<Rightarrow> (case h d w0 of (Inl e, w1) \<Rightarrow> (Inl e, w1)
           | (Inr _, w1) \<Rightarrow> (Inr (), w1\<lparr>w_unknown := smap_erase (w_newpid w) (w_unknown w1)\<rparr>))))"
  by (auto simp: checkUnknownEvents_def prog_defs Let_def split: option.split)

lemma handleEvent_unknown:
  "smap_find (w_tracees w) (ch_pid d) = None \<Longrightarrow> Engine_handleEvent E (Suc n) d w = checkUnknownTraceeEvent E d w"
  by (simp add: step_simps)

lemma ownPart_unknown: "commutes (\<lambda>w. w\<lparr>w_unknown := u\<rparr>) (ownPart E r d)"
  unfolding ownPart_def by (intro commutes_intros)

lemma ownPart_newpid:
  "commutes (\<lambda>w. w\<lparr>w_newpid := p\<rparr>) (ownPart E r \<lparr>ch_pid = q, ch_change = Trapped (EventStop sig Ev_STOP)\<rparr>)"
  unfolding ownPart_def by (intro commutes_intros newpid.blind_stop_event)

lemma ownPart_keeps_unknown: "ownPart E r d w = (x, w') \<Longrightarrow> w_unknown w' = w_unknown w"
  by (rule unknown_same [OF ownPart_unknown])

text \<open>A stop event of a process that is not the last new child looks at no stored event.\<close>

lemma handleEvent_stop:
  assumes "w_newpid w = PID_INVALID" "d = \<lparr>ch_pid = p, ch_change = Trapped (EventStop sig Ev_STOP)\<rparr>"
  shows "Engine_handleEvent E (Suc n) d w = (case smap_find (w_tracees w) p of
     None \<Rightarrow> (Inr STORE, w)
   | Some r \<Rightarrow> (case ownPart E r d w of (Inl e, w1) \<Rightarrow> (Inl e, w1) | (Inr _, w1) \<Rightarrow> (Inr DONE, w1)))"
proof (cases "smap_find (w_tracees w) p")
  case None
  then show ?thesis using assms by (simp add: step_simps checkUnknownTraceeEvent_def)
next
  case (Some r)
  obtain x w1 where own: "ownPart E r d w = (x, w1)" by fastforce
  then have "w_newpid w1 = PID_INVALID"
    using newpid_same [of "ownPart E r d" w x w1] ownPart_newpid assms by simp
  then have "checkUnknownEvents h w1 = (Inr (), w1)" for h
    by (simp add: checkUnknownEvents_run)
  then show ?thesis
    using Some own assms(2) by (cases x) (simp_all add: handleEvent_known del: Engine_handleEvent.simps)
qed

section \<open>The end of a tracee\<close>

definition detached :: "tracee \<Rightarrow> tracee" where
  "detached t = t\<lparr>t_pid := PID_INVALID, t_flags := no_flags, t_attacher := None\<rparr>"

lemma catch_run: "m w = (Inr x, w') \<Longrightarrow> catchE p m h w = (Inr x, w')"
  by (simp add: catchE_def)

lemma doDetach_granted:
  assumes "k_fail (e_kernel E) (w_reqs w) (Detach (t_pid (w_tracee w r))) = None"
  shows "doDetach E r w = (Inr (), w\<lparr>w_reqs := w_reqs w @ [Detach (t_pid (w_tracee w r))],
     w_tracee := (w_tracee w)(r := detached (stateChange DETACHED (w_tracee w r)))\<rparr>)"
proof -
  have "catchE is_ApiError (bindE (getT r) (\<lambda>t. seqE (reqE E (Detach (t_pid t))) (changeState E r DETACHED)))
      (handleError E r) w = (Inr (), w\<lparr>w_reqs := w_reqs w @ [Detach (t_pid (w_tracee w r))],
     w_tracee := (w_tracee w)(r := stateChange DETACHED (w_tracee w r))\<rparr>)"
    using assms by (intro catch_run) (simp add: step_simps)
  then show ?thesis
    by (simp add: doDetach_def run_seq_Inr modT_run detached_def)
qed

lemma ownPart_run: "processEvent E r d w = (Inr (), w1) \<Longrightarrow> ownPart E r d w = checkCleanupTracee E (ch_pid d) w1"
  by (simp add: ownPart_def seqE_def bindE_def catchE_def)

lemma death_run:
  assumes "watching E" "t_kind (w_tracee w r) \<noteq> ChildTracee" "ch_change d \<in> {Exited c, Killed s, Dumped s}"
  shows "processEvent E r d w = (Inr (), w\<lparr>w_log := w_log w @
       (if WAIT_FOR_EXITED (t_flags (w_tracee w r)) then [] else [Disappeared r d]),
     w_tracee := (w_tracee w)(r := (stateChange DEAD ((w_tracee w r)\<lparr>t_inject := None\<rparr>))\<lparr>t_exit := Some d\<rparr>)\<rparr>)"
  using assms
  by (auto simp: processEvent_def processDeath_def changeState_def isChildProcess_def step_simps
      stateChange_flags)

text \<open>An event that ends a tracee takes it out of the map, after one more (futile) detach request.\<close>

lemma ownPart_death:
  assumes "watching E" "granting E" "t_kind (w_tracee w r) \<noteq> ChildTracee"
    and "ch_change d \<in> {Exited c, Killed s, Dumped s}" "smap_find (w_tracees w) (ch_pid d) = Some r"
  shows "\<exists>w'. ownPart E r d w = (Inr (), w') \<and> w_tracees w' = smap_erase (ch_pid d) (w_tracees w) \<and>
    w_newpid w' = w_newpid w \<and> w_unknown w' = w_unknown w \<and>
    w_reqs w' = w_reqs w @ [Detach (t_pid (w_tracee w r))] \<and>
    w_log w' = w_log w @ (if WAIT_FOR_EXITED (t_flags (w_tracee w r)) then [] else [Disappeared r d])"
  unfolding ownPart_run [OF death_run [OF assms(1,3,4)]]
  using assms(2,5)
  by (simp add: checkCleanupTracee_def eraseTracee_def step_simps run_seq_Inr [OF doDetach_granted])

section \<open>Two levels are enough\<close>

lemma checkUnknownEvents_levels:
  assumes "stored_stops w"
  shows "checkUnknownEvents (Engine_handleEvent E (Suc n)) w = checkUnknownEvents (Engine_handleEvent E (Suc m)) w"
proof (cases "smap_find (w_unknown w) (w_newpid w)")
  case None
  then show ?thesis by (simp add: checkUnknownEvents_run Let_def del: Engine_handleEvent.simps)
next
  case (Some d)
  obtain sig where d: "d = \<lparr>ch_pid = w_newpid w, ch_change = Trapped (EventStop sig Ev_STOP)\<rparr>"
    using stored_stopsD(2) [OF assms Some] by blast
  let ?w = "w\<lparr>w_newpid := PID_INVALID\<rparr>"
  have "Engine_handleEvent E (Suc n) d ?w = Engine_handleEvent E (Suc m) d ?w"
    using handleEvent_stop [OF _ d, of ?w] by (simp del: Engine_handleEvent.simps)
  then show ?thesis
    using Some by (simp add: checkUnknownEvents_run Let_def del: Engine_handleEvent.simps)
qed

lemma handleEvent_levels:
  assumes "stored_stops w"
  shows "Engine_handleEvent E (Suc (Suc n)) d w = Engine_handleEvent E 2 d w"
proof (cases "smap_find (w_tracees w) (ch_pid d)")
  case None
  then show ?thesis by (simp add: numeral_2_eq_2 handleEvent_unknown del: Engine_handleEvent.simps)
next
  case (Some r)
  obtain x w1 where own: "ownPart E r d w = (x, w1)" by fastforce
  then have "stored_stops w1"
    using stored_stops_cong [OF ownPart_keeps_unknown [OF own]] assms by simp
  note eq = checkUnknownEvents_levels [OF this, of E n 0]
  show ?thesis
    unfolding numeral_2_eq_2 handleEvent_known [OF Some] own prod.case eq ..
qed

section \<open>One event\<close>

text \<open>The outcome of an event, without the decision.\<close>

definition handled :: "(exn + decision) \<times> world \<Rightarrow> ((exn + unit) \<times> world) option" where
  "handled r = Some (map_sum id (\<lambda>_. ()) (fst r), snd r)"

lemma deliver_known:
  assumes "smap_find (w_tracees w) (ch_pid d) = Some r"
  shows "deliver E (Suc n) d w = handled (Engine_handleEvent E (Suc n) d w)"
proof -
  obtain x w1 where own: "ownPart E r d w = (x, w1)" by fastforce
  obtain y w2 where rest: "checkUnknownEvents (Engine_handleEvent E n) w1 = (y, w2)" by fastforce
  show ?thesis
    unfolding deliver.simps [of E "Suc n" d w] handleEvent_known [OF assms] own handled_def
    by (cases x; cases y) (simp_all add: rest)
qed

lemma deliver_unknown:
  assumes "smap_find (w_tracees w) (ch_pid d) = None"
  shows "deliver E (Suc n) d w = (case checkUnknownTraceeEvent E d w of
     (Inl e, w') \<Rightarrow> Some (Inl e, w')
   | (Inr c, w') \<Rightarrow> if c = RETRY then deliver E (Suc n) d w'
       else if c = STORE then Some (storeEvent d w') else Some (Inr (), w'))"
  unfolding deliver.simps [of E "Suc n" d w] handleEvent_unknown [OF assms] by (rule refl)

text \<open>C13: where an event goes: to the tracee of its process if there is one; a stop event of an
  unknown process is stored and nothing else happens; an exec event of an unknown process whose
  former process ID is traced makes that tracee known under the new ID, and the event is then handled
  as its event, once; every other event is dropped. So the loop that retries an event ends.\<close>

theorem deliver_routing:
  "deliver E (Suc n) d w =
    (let p = ch_pid d; q = GetPIDEventMsg p; h = w_reqs w @ [q]; w0 = w\<lparr>w_reqs := h\<rparr>;
         old = k_pid_msg (e_kernel E) h p
     in case smap_find (w_tracees w) p of
       Some r \<Rightarrow> handled (Engine_handleEvent E (Suc n) d w)
     | None \<Rightarrow> (case ch_change d of
         Trapped (EventStop sig ev) \<Rightarrow>
           if ev = Ev_STOP then Some (storeEvent d w)
           else if ev = Ev_EXEC then (case k_fail (e_kernel E) (w_reqs w) q of
               Some e \<Rightarrow> Some (Inl e, w0)
             | None \<Rightarrow> (case smap_find (w_tracees w) old of
                 None \<Rightarrow> Some (Inr (), w0)
               | Some r \<Rightarrow> handled (Engine_handleEvent E (Suc n) d
                   (w0\<lparr>w_tracees := smap_put p r (smap_erase old (w_tracees w))\<rparr>))))
           else Some (Inr (), w)
       | _ \<Rightarrow> Some (Inr (), w)))"
proof (cases "smap_find (w_tracees w) (ch_pid d)")
  case (Some r)
  then show ?thesis by (simp add: deliver_known Let_def del: Engine_handleEvent.simps)
next
  case None
  have ins: "smap_find (smap_erase old (w_tracees w)) (ch_pid d) = None" for old
    using None by simp
  show ?thesis
    using None smap.insert_new [OF ins]
    by (auto simp: deliver_unknown [OF None] checkUnknownTraceeEvent_def reqE_def answerE_def
        tryUpdateTraceePID_def prog_defs deliver_known Let_def
        simp del: Engine_handleEvent.simps split: child_change.splits stop_signal.splits option.splits)
qed

section \<open>What is stored\<close>

lemma handleEvent_stored:
  assumes "stored_stops w" "Engine_handleEvent E (Suc n) d w = (x, w')"
    and "smap_find (w_tracees w) (ch_pid d) = Some r"
  shows "stored_stops w'"
proof -
  obtain y w1 where own: "ownPart E r d w = (y, w1)" by fastforce
  then have w1: "stored_stops w1"
    using stored_stops_cong [OF ownPart_keeps_unknown [OF own]] assms by simp
  have "stored_stops (snd (checkUnknownEvents (Engine_handleEvent E n) w1))"
  proof (cases "smap_find (w_unknown w1) (w_newpid w1)")
    case None
    then show ?thesis using w1 by (simp add: checkUnknownEvents_run Let_def stored_stops_def)
  next
    case (Some c)
    obtain sig where c: "c = \<lparr>ch_pid = w_newpid w1, ch_change = Trapped (EventStop sig Ev_STOP)\<rparr>"
      using stored_stopsD(2) [OF w1 Some] by blast
    let ?w = "w1\<lparr>w_newpid := PID_INVALID\<rparr>"
    obtain z w2 where nested: "Engine_handleEvent E n c ?w = (z, w2)" by fastforce
    have "w_unknown w2 = w_unknown w1"
    proof (cases n)
      case 0
      then show ?thesis using nested by (auto simp: prog_defs)
    next
      case (Suc m)
      with nested handleEvent_stop [OF _ c, of ?w E m] show ?thesis
        by (auto split: option.splits prod.splits sum.splits dest: ownPart_keeps_unknown
            simp del: Engine_handleEvent.simps)
    qed
    then have "stored_stops w2" using w1 by (simp add: stored_stops_def)
    then show ?thesis
      using Some nested w1 stored_stops_erase [of w2]
      by (cases z) (simp_all add: checkUnknownEvents_run Let_def stored_stops_def [of w1])
  qed
  then show ?thesis
    using assms(2) w1 unfolding handleEvent_known [OF assms(3)] own
    by (auto split: sum.splits prod.splits)
qed

lemma unknownEvent_effect:
  assumes "checkUnknownTraceeEvent E d w = (x, w')" "smap_find (w_tracees w) (ch_pid d) = None"
  shows "w_unknown w' = w_unknown w \<and> (x = Inr STORE \<longrightarrow> is_stop_event d) \<and>
    (x = Inr RETRY \<longrightarrow> (\<exists>r. smap_find (w_tracees w') (ch_pid d) = Some r))"
proof -
  have "smap_find (smap_erase old (w_tracees w)) (ch_pid d) = None" for old
    using assms(2) by simp
  note new = smap.insert_new [OF this]
  show ?thesis
    using assms(1)
    by (auto simp: checkUnknownTraceeEvent_def reqE_def answerE_def tryUpdateTraceePID_def prog_defs
        is_stop_event_def new split: child_change.splits stop_signal.splits option.splits if_splits)
qed

lemma deliver_stored:
  assumes "stored_stops w" "deliver E (Suc n) d w = Some (x, w')"
  shows "stored_stops w'"
proof -
  have known: "stored_stops v'"
    if "stored_stops v" "smap_find (w_tracees v) (ch_pid d) = Some r" "deliver E (Suc n) d v = Some (y, v')" for v v' y r
  proof -
    obtain z v1 where z: "Engine_handleEvent E (Suc n) d v = (z, v1)" by fastforce
    then have "v1 = v'" using that(3) by (simp add: deliver_known [OF that(2)] handled_def del: Engine_handleEvent.simps)
    with handleEvent_stored [OF that(1) z that(2)] show ?thesis by simp
  qed
  show ?thesis
  proof (cases "smap_find (w_tracees w) (ch_pid d)")
    case (Some r)
    from known [OF assms(1) this assms(2)] show ?thesis .
  next
    case None
    obtain y w1 where c: "checkUnknownTraceeEvent E d w = (y, w1)" by fastforce
    note eff = unknownEvent_effect [OF c None]
    then have w1: "stored_stops w1" using stored_stops_cong [of w1 w] assms(1) by simp
    consider (retry) "y = Inr RETRY" | (store) "y = Inr STORE" | (other) "y \<noteq> Inr RETRY" "y \<noteq> Inr STORE" by blast
    then show ?thesis
    proof cases
      case retry
      with eff obtain r where "smap_find (w_tracees w1) (ch_pid d) = Some r" by blast
      with known [OF w1] assms(2) retry show ?thesis by (simp add: deliver_unknown [OF None] c)
    next
      case store
      with assms(2) eff stored_stops_insert [OF w1] show ?thesis
        by (auto simp: deliver_unknown [OF None] c storeEvent_def prog_defs)
    next
      case other
      with assms(2) w1 show ?thesis
        by (cases y) (auto simp: deliver_unknown [OF None] c split: if_splits)
    qed
  qed
qed

lemma handleNoChildren_unknown: "commutes (\<lambda>w. w\<lparr>w_unknown := u\<rparr>) (handleNoChildren E)"
proof -
  have "commutes (\<lambda>w. w\<lparr>w_unknown := u\<rparr>) (noChildrenLoop E ps)" for ps
    by (induction ps) (auto intro!: commutes_intros)
  then show ?thesis
    unfolding handleNoChildren_def by (intro commutes_intros commutes_ask) simp_all
qed

section \<open>The main loop\<close>

lemma deliver_levels:
  assumes "stored_stops w"
  shows "deliver E (Suc (Suc n)) d w = deliver E (Suc (Suc m)) d w"
proof -
  have H: "Engine_handleEvent E (Suc (Suc n)) d v = Engine_handleEvent E (Suc (Suc m)) d v" if "stored_stops v" for v
    using handleEvent_levels [OF that, of E n d] handleEvent_levels [OF that, of E m d] by (simp only:)
  show ?thesis
  proof (cases "smap_find (w_tracees w) (ch_pid d)")
    case (Some r)
    show ?thesis unfolding deliver_known [OF Some] H [OF assms] ..
  next
    case None
    obtain y w1 where c: "checkUnknownTraceeEvent E d w = (y, w1)" by fastforce
    note eff = unknownEvent_effect [OF c None]
    then have w1: "stored_stops w1" using stored_stops_cong [of w1 w] assms by simp
    have "y = Inr RETRY \<Longrightarrow> deliver E (Suc (Suc n)) d w1 = deliver E (Suc (Suc m)) d w1"
      using eff deliver_known [of w1 d] H [OF w1] by fastforce
    then show ?thesis unfolding deliver_unknown [OF None] c by (cases y) auto
  qed
qed

text \<open>How the main loop is left.\<close>

definition trace_end :: "env \<Rightarrow> (exn + unit) \<times> world \<Rightarrow> bool" where
  "trace_end E r \<longleftrightarrow> stored_stops (snd r) \<and> (fst r = Inr () \<longrightarrow> w_tracees (snd r) = [] \<or>
     (\<exists>v. k_fail (e_kernel E) (w_reqs v) Wait = Some (ApiError ECHILD) \<and>
          handleNoChildren E (v\<lparr>w_reqs := w_reqs v @ [Wait]\<rparr>) = (Inr (), snd r)))"

lemma trace_levels:
  assumes "trace E k w = Some r"
  shows "k = Suc (Suc n) \<longrightarrow> stored_stops w \<longrightarrow> trace E 2 w = Some r \<and> trace_end E r"
proof (rule trace.raw_induct [where P = "\<lambda>E k w r. k = Suc (Suc n) \<longrightarrow> stored_stops w \<longrightarrow>
    trace E 2 w = Some r \<and> trace_end E r", OF _ assms], intro impI)
  fix rec E k w r
  assume 1: "\<And>E k w r. rec E k w = Some r \<Longrightarrow> k = Suc (Suc n) \<longrightarrow> stored_stops w \<longrightarrow>
      trace E 2 w = Some r \<and> trace_end E r"
    "(if w_tracees w = [] then Some (Inr (), w)
      else case reqE E Wait w of
           (Inl e, w') \<Rightarrow> if e = ApiError ECHILD then Some (handleNoChildren E w') else Some (Inl e, w')
         | (Inr _, w') \<Rightarrow> (case deliver E k (k_wait (e_kernel E) (w_reqs w')) w' of
               None \<Rightarrow> None | Some (Inl e, w'') \<Rightarrow> Some (Inl e, w'')
             | Some (Inr _, w'') \<Rightarrow> rec E k w'')) = Some r"
    "k = Suc (Suc n)" "stored_stops w"
  show "trace E 2 w = Some r \<and> trace_end E r"
  proof (cases "w_tracees w = []")
    case True
    with 1 show ?thesis by (auto simp: trace.simps [of E 2 w] trace_end_def)
  next
    case False
    obtain y w1 where req: "reqE E Wait w = (y, w1)" by fastforce
    then have w1: "stored_stops w1" "w1 = w\<lparr>w_reqs := w_reqs w @ [Wait]\<rparr>"
      "\<And>e. y = Inl e \<Longrightarrow> k_fail (e_kernel E) (w_reqs w) Wait = Some e"
      using 1(4) by (auto simp: reqE_def stored_stops_def split: option.splits)
    show ?thesis
    proof (cases y)
      case (Inl e)
      then have k: "k_fail (e_kernel E) (w_reqs w) Wait = Some e" using w1(3) by simp
      obtain z w2 where none: "handleNoChildren E w1 = (z, w2)" by fastforce
      then have "stored_stops w2"
        using stored_stops_cong [OF unknown_same [OF handleNoChildren_unknown none]] w1(1) by simp
      show ?thesis
      proof (cases "e = ApiError ECHILD")
        case True
        have "r = (z, w2)" "trace E 2 w = Some (z, w2)"
          using 1(2) False req Inl none True by (simp_all add: trace.simps [of E 2 w])
        moreover have "\<exists>v. k_fail (e_kernel E) (w_reqs v) Wait = Some (ApiError ECHILD) \<and>
            handleNoChildren E (v\<lparr>w_reqs := w_reqs v @ [Wait]\<rparr>) = (z, w2)"
          using k True none w1(2) by blast
        ultimately show ?thesis using \<open>stored_stops w2\<close> by (auto simp: trace_end_def)
      next
        case False
        then show ?thesis
          using 1(2) \<open>w_tracees w \<noteq> []\<close> req Inl w1(1)
          by (auto simp: trace.simps [of E 2 w] trace_end_def)
      qed
    next
      case (Inr u)
      let ?d = "k_wait (e_kernel E) (w_reqs w1)"
      obtain z w2 where d: "deliver E k ?d w1 = Some (z, w2)"
        using 1(2) False req Inr by (cases "deliver E k ?d w1") auto
      have d2: "deliver E 2 ?d w1 = Some (z, w2)"
        using d deliver_levels [OF w1(1), of E n ?d 0] 1(3) by (simp add: numeral_2_eq_2)
      have w2: "stored_stops w2" using deliver_stored [OF w1(1)] d 1(3) by blast
      show ?thesis
      proof (cases z)
        case (Inl e)
        with 1(2) False req Inr d d2 w2 show ?thesis
          by (auto simp: trace.simps [of E 2 w] trace_end_def)
      next
        case z: (Inr v)
        then have "rec E k w2 = Some r" using 1(2) False req Inr d by simp
        with 1(1,3) w2 have "trace E 2 w2 = Some r \<and> trace_end E r" by blast
        with False req Inr d2 z show ?thesis
          by (simp add: trace.simps [of E 2 w])
      qed
    qed
  qed
qed

text \<open>C14: the main loop, if it returns, leaves only stop events stored, each under its process, and
  it returns normally only when no tracee is left or the kernel reported that there are no children;
  two levels of \<open>handleEvent\<close> give what any larger bound gives.\<close>

theorem trace_result:
  assumes "trace E (Suc (Suc n)) w = Some (x, w')" "stored_stops w"
  shows "trace E 2 w = Some (x, w') \<and> stored_stops w' \<and>
    (x = Inr () \<longrightarrow> w_tracees w' = [] \<or>
       (\<exists>v. k_fail (e_kernel E) (w_reqs v) Wait = Some (ApiError ECHILD) \<and>
            handleNoChildren E (v\<lparr>w_reqs := w_reqs v @ [Wait]\<rparr>) = (Inr (), w')))"
  using trace_levels [OF assms(1)] assms(2) by (simp add: trace_end_def)

text \<open>The process dies, which ends the main loop; the client sees it disappear.\<close>

lemma demo_stored: "stored_stops demo_world"
  by (simp add: stored_stops_def smap.all_entries_def)

lemma demo_trace: "\<exists>w'. trace demo_env 7 demo_world = Some (Inr (), w') \<and> w_tracees w' = []"
proof -
  let ?d = "\<lparr>ch_pid = 100, ch_change = Exited 0\<rparr>"
  let ?w = "demo_world\<lparr>w_reqs := [Wait]\<rparr>"
  have find: "smap_find (w_tracees ?w) (ch_pid ?d) = Some 0" by (simp add: smap_find_def)
  from ownPart_death [OF demo_watching demo_granting _ _ this, of 0 9]
  obtain w1 where own: "ownPart demo_env 0 ?d ?w = (Inr (), w1)" "w_tracees w1 = []" "w_newpid w1 = PID_INVALID"
    by (auto simp: smap_erase_def)
  have "Engine_handleEvent demo_env (Suc 6) ?d ?w = (Inr DONE, w1)"
    unfolding handleEvent_known [OF find] own(1) using own(3) by (simp add: checkUnknownEvents_run)
  then have "deliver demo_env (Suc 6) ?d ?w = Some (Inr (), w1)"
    unfolding deliver_known [OF find] by (simp add: handled_def)
  then have d: "deliver demo_env 7 ?d ?w = Some (Inr (), w1)" by simp
  have "k_wait demo_kernel h = ?d" for h by (simp add: demo_kernel_def)
  with d own show ?thesis
    by (simp add: trace.simps [of demo_env 7 demo_world] trace.simps [of demo_env 7 w1] req_run)
qed

theorem trace_result_witness:
  "\<exists>w'. trace demo_env 2 demo_world = Some (Inr (), w') \<and> stored_stops w' \<and> w_tracees w' = []"
proof -
  obtain w' where w': "trace demo_env 7 demo_world = Some (Inr (), w')" "w_tracees w' = []"
    using demo_trace by blast
  then have "trace demo_env (Suc (Suc 5)) demo_world = Some (Inr (), w')" by simp
  from trace_result [OF this demo_stored] w'(2) show ?thesis by blast
qed

end
