(* ===== verification/Engine_Order.thy ===== *)
theory Engine_Order
  imports Engine_Props
begin

text \<open>
  The order of events does not matter where the code says so: a stop event of a new child that
  arrives before the event of its parent is stored and handled right after the parent's event.
\<close>

section \<open>Announcing a child\<close>

lemma autoAttach_newpid: "handleAutoAttach E r p ev s w = (Inr (), w') \<Longrightarrow> w_newpid w' = p"
  unfolding handleAutoAttach_def by (elim seq_InrE) (auto simp: run_upd)

lemma newChild_newpid:
  assumes "handleNewChildEvent E r ev w = (Inr (), w')" "\<And>h p. k_pid_msg (e_kernel E) h p = c"
  shows "w_newpid w' = c"
  using assms(1) unfolding handleNewChildEvent_def bind_getT
  by (auto simp: bind_answer assms(2) answerE_def run_ask elim!: seq_InrE bind_InrE dest!: autoAttach_newpid)

lemma announced:
  assumes "processEvent E r d w = (Inr (), w')" "ch_change d = Trapped (EventStop sig ev)"
    and "ev \<in> {Ev_CLONE, Ev_FORK, Ev_VFORK}" "\<not> DETACH_AT_NEXT_STOP (t_flags (w_tracee w r))"
    and "\<And>h p. k_pid_msg (e_kernel E) h p = c"
  shows "w_newpid w' = c"
proof -
  obtain w0 w1 where new: "handleNewChildEvent E r ev w0 = (Inr (), w1)"
    and rs: "restartTracee E r w1 = (Inr (), w')"
    using assms(1-4) unfolding processEvent_def seq_modT
    by (auto simp: bind_getT handleEvent_def elim!: seq_InrE)
  from newChild_newpid [OF new assms(5)] newpid_same [OF newpid.blind_restart rs] show ?thesis by simp
qed

lemma put_erase: "smap_find m k = None \<Longrightarrow> smap_wf m \<Longrightarrow> smap_erase k (smap_put k v m) = m"
proof (induction k v m rule: smap_put.induct)
  case (1 k v)
  then show ?case by (simp add: smap_erase_def)
next
  case (2 k v k' v' m)
  then have "k \<noteq> k'" "k \<notin> fst ` set m" by (auto simp: smap_find_def map_of_eq_None_iff split: if_splits)
  then have "filter (\<lambda>p. fst p \<noteq> k) m = m" by (auto simp: filter_id_conv)
  with 2 \<open>k \<noteq> k'\<close> show ?case
    by (auto simp: smap_erase_def smap_find_def smap_wf_def)
qed

section \<open>Two orders, one result\<close>

lemma checkUnknown_none:
  "smap_find (w_unknown w) (w_newpid w) = None \<Longrightarrow> checkUnknownEvents h w = (Inr (), w\<lparr>w_newpid := PID_INVALID\<rparr>)"
  by (cases w) (auto simp: checkUnknownEvents_run Let_def)

text \<open>C15: a child's stop event may arrive before the event of its parent that announces the child:
  delivering it first (when it is stored) and then the parent's event ends in exactly the world that
  the other order ends in, callbacks, requests and stored events included.\<close>

theorem early_stop_event:
  assumes child: "child = \<lparr>ch_pid = c, ch_change = Trapped (EventStop sig Ev_STOP)\<rparr>"
    and new: "smap_find (w_tracees w) c = None" "smap_find (w_unknown w) c = None" "smap_wf (w_unknown w)"
      "c \<noteq> PID_INVALID"
    and parent: "smap_find (w_tracees w) (ch_pid parent) = Some r" "ch_change parent = Trapped (EventStop s ev)"
      "ev \<in> {Ev_CLONE, Ev_FORK, Ev_VFORK}" "\<not> DETACH_AT_NEXT_STOP (t_flags (w_tracee w r))"
    and answer: "\<And>h p. k_pid_msg (e_kernel E) h p = c"
    and runs: "processEvent E r parent w = (Inr (), wp)" "deliver E 2 parent w = Some (Inr (), w1)"
      "deliver E 2 child w1 = Some (Inr (), w2)" "smap_find (w_tracees w1) c = Some r'"
  shows "\<exists>v. deliver E 2 child w = Some (Inr (), v) \<and> deliver E 2 parent v = Some (Inr (), w2)"
proof -
  let ?u = "smap_put c child (w_unknown w)"
  let ?v = "w\<lparr>w_unknown := ?u\<rparr>"
  have ins: "snd (smap_insert c child (w_unknown w)) = ?u" using smap.insert_new [OF new(2)] by simp
  have first: "deliver E 2 child w = Some (Inr (), ?v)"
    using new(1) ins unfolding numeral_2_eq_2
    by (simp add: deliver_unknown child checkUnknownTraceeEvent_def storeEvent_def prog_defs)
  obtain wc where own: "ownPart E r parent w = (Inr (), wc)"
    using runs(2) unfolding numeral_2_eq_2 deliver_known [OF parent(1)] handleEvent_known [OF parent(1)] handled_def
    by (auto split: prod.splits sum.splits)
  have np: "w_newpid wc = c"
    using announced [OF runs(1) parent(2-4) answer] own newpid_same [OF newpid.blind_cleanup, of E "ch_pid parent" wp]
    by (simp add: ownPart_run [OF runs(1)])
  have unk: "w_unknown wc = w_unknown w" by (rule ownPart_keeps_unknown [OF own])
  have w1: "w1 = wc\<lparr>w_newpid := PID_INVALID\<rparr>"
    using runs(2) np unk new(2) unfolding numeral_2_eq_2 deliver_known [OF parent(1)] handleEvent_known [OF parent(1)] own handled_def
    by (simp add: checkUnknown_none)
  have kid: "Engine_handleEvent E (Suc n) child w1 =
      (case ownPart E r' child w1 of (Inl e, x) \<Rightarrow> (Inl e, x) | (Inr _, x) \<Rightarrow> (Inr DONE, x))" for n
    using handleEvent_stop [OF _ child, of w1 E n] runs(4) w1 by simp
  have fw1: "smap_find (w_tracees w1) (ch_pid child) = Some r'" using runs(4) child by simp
  have own': "ownPart E r' child w1 = (Inr (), w2)"
    using runs(3) unfolding numeral_2_eq_2 deliver_known [OF fw1] kid handled_def
    by (auto split: prod.splits sum.splits)
  have unk2: "w_unknown w2 = w_unknown w"
    using ownPart_keeps_unknown [OF own'] w1 unk by simp
  let ?g = "\<lambda>w. w\<lparr>w_unknown := ?u\<rparr>"
  have fv: "smap_find (w_tracees ?v) (ch_pid parent) = Some r" using parent(1) by simp
  have ownv: "ownPart E r parent ?v = (Inr (), ?g wc)"
    using commutesD [OF ownPart_unknown own] by simp
  have fg: "smap_find (w_tracees (?g w1)) c = Some r'" using runs(4) by simp
  have kid1: "Engine_handleEvent E (Suc 0) child (?g w1) = (Inr DONE, ?g w2)"
    using handleEvent_stop [OF _ child, of "?g w1" E 0] fg w1 commutesD [OF ownPart_unknown own', of ?u] by simp
  have "checkUnknownEvents (Engine_handleEvent E (Suc 0)) (?g wc) = (Inr (), w2)"
  proof -
    have "(?g w2)\<lparr>w_unknown := smap_erase c ?u\<rparr> = w2"
      using unk2 put_erase [OF new(2,3)] by (cases w2) simp
    moreover have "(?g wc)\<lparr>w_newpid := PID_INVALID\<rparr> = ?g w1" unfolding w1 by simp
    ultimately show ?thesis
      using kid1 np new(4) by (simp add: checkUnknownEvents_run Let_def del: Engine_handleEvent.simps)
  qed
  then have "deliver E 2 parent ?v = Some (Inr (), w2)"
    unfolding numeral_2_eq_2 deliver_known [OF fv] handleEvent_known [OF fv] ownv handled_def by simp
  with first show ?thesis by blast
qed

text \<open>Thread 100 of the demo world creates the thread 200 by \<open>clone\<close> with shared descriptors.\<close>

definition clone_call :: syscall where
  "clone_call = (new_call plain_family ''CloneSystemCall'' SYS_CLONE)\<lparr>sc_pars :=
     [(new_item PARAM_IN ''flags'')\<lparr>it_val := 0x10400\<rparr>]\<rparr>"

definition clone_world :: world where
  "clone_world = demo_world\<lparr>w_tracee := (w_tracee demo_world)(0 := demo_tracee\<lparr>t_current := Some 0\<rparr>),
     w_calls := \<lparr>cs_next = 1, cs_call = (\<lambda>_. clone_call)\<rparr>\<rparr>"

lemma clone_call_sel [simp]: "sc_nr clone_call = SYS_CLONE" "cast_call ''CloneSystemCall'' clone_call = Inr ()"
    "bit (clone_flags clone_call) 10" "bit (clone_flags clone_call) 16"
proof -
  show "bit (clone_flags clone_call) 10" "bit (clone_flags clone_call) 16"
    unfolding clone_flags_def clone_call_def by code_simp+
qed (simp_all add: clone_call_def new_call_def base_class_def cast_call_def)

lemma clone_world_sel [simp]: "w_tracees clone_world = [(100, 0)]" "w_unknown clone_world = []"
    "w_tracee clone_world 0 = demo_tracee\<lparr>t_current := Some 0\<rparr>" "w_next_tracee clone_world = 1"
    "cs_call (w_calls clone_world) c = clone_call" "w_reqs clone_world = []" "w_log clone_world = []"
  by (simp_all add: clone_world_def demo_world_def)

lemma bind_newTracee: "bindE (newTracee k (Some q)) f w = f (w_next_tracee w)
    (w\<lparr>w_tracee := (w_tracee w)(w_next_tracee w := new_tracee k (t_pdata (w_tracee w q))),
       w_next_tracee := w_next_tracee w + 1\<rparr>)"
  by (simp add: newTracee_def getT_def prog_defs)

lemma new_tracee_sel [simp]: "t_state (new_tracee k d) = TS_UNKNOWN" "t_flags (new_tracee k d) = no_flags"
    "t_mode (new_tracee k d) = CONT" "t_pdata (new_tracee k d) = d" "t_kind (new_tracee k d) = k"
  by (simp_all add: new_tracee_def)

lemma bind_traceeAt_the: "smap_find (w_tracees w) p \<noteq> None \<Longrightarrow>
    bindE (traceeAt p) f w = f (the (smap_find (w_tracees w) p)) w"
  by (auto simp: bind_traceeAt)

lemma demo_callback: "callbackE demo_env cb w = (Inr (), w\<lparr>w_log := w_log w @ [cb]\<rparr>)"
  by (rule callback_run) simp

lemma demo_cloned: "t_current (w_tracee w r) = Some c \<Longrightarrow> cs_call (w_calls w) c = clone_call \<Longrightarrow>
    hasClonedThread r w = (Inr True, w)"
  by (simp add: hasClonedThread_def step_simps run_ret)

lemma demo_cleanup: "smap_find (w_tracees w) p = Some q \<Longrightarrow> t_state (w_tracee w q) = TS_UNKNOWN \<Longrightarrow>
    checkCleanupTracee E p w = (Inr (), w)"
  by (simp add: checkCleanupTracee_def step_simps run_skip)

lemma demo_configure: "AutoAttached_configure q p clone_call w = (Inr (), w\<lparr>w_tracee := (w_tracee w)(q := (w_tracee w q)
    \<lparr>t_pid := p, t_flags := (t_flags (w_tracee w q))\<lparr>WAIT_FOR_ATTACH_STOP := True\<rparr>\<rparr>)\<rparr>)"
  by (simp add: AutoAttached_configure_def shares_file_descriptors_with_parent_def step_simps)

lemma demo_autoAttach:
  assumes "w_tracees w = [(100, 0)]" "w_next_tracee w = 1" "t_pid (w_tracee w 0) = 100"
    "t_current (w_tracee w 0) = Some c" "cs_call (w_calls w) c = clone_call"
  shows "\<exists>w'. handleAutoAttach demo_env 0 200 Ev_CLONE clone_call w = (Inr (), w') \<and>
    w_tracees w' = [(100, 0), (200, 1)] \<and> w_tracee w' 0 = w_tracee w 0 \<and> w_reqs w' = w_reqs w \<and>
    WAIT_FOR_ATTACH_STOP (t_flags (w_tracee w' 1)) \<and> t_pid (w_tracee w' 1) = 200 \<and>
    \<not> DETACH_AT_NEXT_STOP (t_flags (w_tracee w' 1)) \<and> \<not> ATTACH_THREADS_PENDING (t_flags (w_tracee w' 1)) \<and>
    \<not> INJECTED_SIGSTOP (t_flags (w_tracee w' 1)) \<and> t_kind (w_tracee w' 1) = AutoAttachedTracee \<and> w_unknown w' = w_unknown w"
  using assms
  by (simp add: handleAutoAttach_def newTracee_def getT_def demo_configure demo_callback hasClonedThread_def
      getCall_def traceeAt_def checkCleanupTracee_def smap_find_def smap_insert_def prog_defs no_flags_def del: One_nat_def)

lemma demo_restart: "t_state (w_tracee w r) \<notin> {DEAD, DETACHED, GROUP_STOP} \<Longrightarrow> restartTracee demo_env r w = (Inr (),
     (let t = w_tracee w r; w1 = w\<lparr>w_reqs := w_reqs w @ [Restart (t_pid t) (t_mode t) (t_inject t)]\<rparr>
      in if t_mode t = LISTEN then w1 else w1\<lparr>w_tracee := (w_tracee w)(r := stateChange RUNNING t)\<rparr>))"
  by (rule restart_run [OF demo_granting demo_watching]) simp_all

lemma clone_event: "\<exists>wp. processEvent demo_env 0 \<lparr>ch_pid = 100, ch_change = Trapped (EventStop 5 Ev_CLONE)\<rparr> clone_world
    = (Inr (), wp) \<and> w_tracees wp = [(100, 0), (200, 1)] \<and> WAIT_FOR_ATTACH_STOP (t_flags (w_tracee wp 1)) \<and>
    \<not> DETACH_AT_NEXT_STOP (t_flags (w_tracee wp 1)) \<and> \<not> ATTACH_THREADS_PENDING (t_flags (w_tracee wp 1)) \<and>
    \<not> INJECTED_SIGSTOP (t_flags (w_tracee wp 1)) \<and> t_state (w_tracee wp 0) = RUNNING"
proof -
  let ?w = "clone_world\<lparr>w_tracee := (w_tracee clone_world)(0 :=
      stateChange EVENT_STOP (demo_tracee\<lparr>t_current := Some 0, t_inject := None\<rparr>)), w_reqs := [GetPIDEventMsg 100]\<rparr>"
  obtain w1 where w1: "handleAutoAttach demo_env 0 200 Ev_CLONE clone_call ?w = (Inr (), w1)"
     "w_tracees w1 = [(100, 0), (200, 1)]" "w_tracee w1 0 = w_tracee ?w 0"
     "WAIT_FOR_ATTACH_STOP (t_flags (w_tracee w1 1))" "\<not> DETACH_AT_NEXT_STOP (t_flags (w_tracee w1 1))"
     "\<not> ATTACH_THREADS_PENDING (t_flags (w_tracee w1 1))" "\<not> INJECTED_SIGSTOP (t_flags (w_tracee w1 1))"
    using demo_autoAttach [of ?w 0] by (auto simp del: One_nat_def)
  show ?thesis
    using w1
    by (simp add: processEvent_def handleEvent_def handleNewChildEvent_def step_simps bind_getCurrent
        run_seq_Inr demo_restart stateChange_mode no_flags_def del: One_nat_def)
qed

lemma initFDInfos_demo: "\<exists>w'. initFDInfos demo_env r w = (Inr (), w') \<and> w_tracee w' = w_tracee w \<and> w_tracees w' = w_tracees w"
proof -
  obtain infos where "get_fd_infos (tv_text demo_view) demo_proc = Inr infos"
    by (simp add: get_fd_infos_def demo_proc_def)
  then show ?thesis
    by (simp add: initFDInfos_def getPD_def getView_def getT_def answerE_def modPD_def prog_defs Let_def)
qed

lemma registers_demo: "\<exists>w'. getInitialRegisters demo_env r w = (Inr (), w') \<and> w_tracees w' = w_tracees w \<and>
    (\<forall>q. t_flags (w_tracee w' q) = t_flags (w_tracee w q) \<and> t_state (w_tracee w' q) = t_state (w_tracee w q) \<and>
      t_mode (w_tracee w' q) = t_mode (w_tracee w q))"
  by (simp add: getInitialRegisters_def getRegisters_def setRegs_def get_default_abi_def arch_x86_64_def Let_def
        getT_def modT_def reqE_def answerE_def prog_defs demo_kernel_def)

lemma attach_event:
  assumes "WAIT_FOR_ATTACH_STOP (t_flags (w_tracee w r))" "\<not> DETACH_AT_NEXT_STOP (t_flags (w_tracee w r))"
    "\<not> ATTACH_THREADS_PENDING (t_flags (w_tracee w r))" "\<not> INJECTED_SIGSTOP (t_flags (w_tracee w r))"
  shows "\<exists>w'. processEvent demo_env r \<lparr>ch_pid = p, ch_change = Trapped (EventStop 5 Ev_STOP)\<rparr> w = (Inr (), w') \<and>
    w_tracees w' = w_tracees w \<and> t_state (w_tracee w' r) = RUNNING"
proof -
  let ?t = "stateChange EVENT_STOP ((w_tracee w r)\<lparr>t_inject := None\<rparr>)"
  let ?w1 = "w\<lparr>w_tracee := (w_tracee w)(r := ?t\<lparr>t_flags := (t_flags ?t)\<lparr>WAIT_FOR_ATTACH_STOP := False\<rparr>, t_mode := SYSCALL\<rparr>)\<rparr>"
  obtain w2 where w2: "getInitialRegisters demo_env r ?w1 = (Inr (), w2)" "w_tracees w2 = w_tracees w"
    "t_flags (w_tracee w2 r) = t_flags (w_tracee ?w1 r)" "t_state (w_tracee w2 r) = t_state (w_tracee ?w1 r)"
    "t_mode (w_tracee w2 r) = t_mode (w_tracee ?w1 r)"
    using registers_demo [of r ?w1] by auto
  obtain w3 where w3: "initFDInfos demo_env r w2 = (Inr (), w3)" "w_tracee w3 = w_tracee w2" "w_tracees w3 = w_tracees w2"
    using initFDInfos_demo by blast
  let ?w4 = "w3\<lparr>w_log := w_log w3 @ [Attached r]\<rparr>"
  have "handleAttached demo_env r (w\<lparr>w_tracee := (w_tracee w)(r := ?t)\<rparr>) = (Inr (), ?w4)"
    using assms w2 w3
    by (simp add: handleAttached_def step_simps run_seq_Inr demo_callback stateChange_flags)
  then show ?thesis
    using assms w2 w3
    by (simp add: processEvent_def handleEvent_def handleStopEvent_def step_simps run_seq_Inr demo_restart
        stateChange_flags Let_def)
qed

theorem early_stop_event_witness:
  "\<exists>v w2. deliver demo_env 2 \<lparr>ch_pid = 200, ch_change = Trapped (EventStop 5 Ev_STOP)\<rparr> clone_world = Some (Inr (), v) \<and>
     deliver demo_env 2 \<lparr>ch_pid = 100, ch_change = Trapped (EventStop 5 Ev_CLONE)\<rparr> v = Some (Inr (), w2) \<and>
     t_state (w_tracee w2 1) = RUNNING"
proof -
  let ?kid = "\<lparr>ch_pid = 200, ch_change = Trapped (EventStop 5 Ev_STOP)\<rparr>"
  let ?par = "\<lparr>ch_pid = 100, ch_change = Trapped (EventStop 5 Ev_CLONE)\<rparr>"
  obtain wp where wp: "processEvent demo_env 0 ?par clone_world = (Inr (), wp)" "w_tracees wp = [(100, 0), (200, 1)]"
    "WAIT_FOR_ATTACH_STOP (t_flags (w_tracee wp 1))" "\<not> DETACH_AT_NEXT_STOP (t_flags (w_tracee wp 1))"
    "\<not> ATTACH_THREADS_PENDING (t_flags (w_tracee wp 1))" "\<not> INJECTED_SIGSTOP (t_flags (w_tracee wp 1))"
    "t_state (w_tracee wp 0) = RUNNING"
    using clone_event by blast
  have fp: "smap_find (w_tracees clone_world) (ch_pid ?par) = Some 0" by (simp add: smap_find_def)
  have "checkCleanupTracee demo_env 100 wp = (Inr (), wp)"
    using wp by (simp add: checkCleanupTracee_def bind_traceeAt smap_find_def step_simps)
  then have own: "ownPart demo_env 0 ?par clone_world = (Inr (), wp)"
    using ownPart_run [OF wp(1)] by simp
  let ?w1 = "wp\<lparr>w_newpid := PID_INVALID\<rparr>"
  have "w_unknown wp = []" using ownPart_keeps_unknown [OF own] by simp
  then have d1: "deliver demo_env 2 ?par clone_world = Some (Inr (), ?w1)"
    unfolding numeral_2_eq_2 deliver_known [OF fp] handleEvent_known [OF fp] own handled_def
    by (simp add: checkUnknown_none)
  obtain w2 where w2: "processEvent demo_env 1 ?kid ?w1 = (Inr (), w2)" "w_tracees w2 = w_tracees ?w1"
    "t_state (w_tracee w2 1) = RUNNING"
    using attach_event [of ?w1 1 200] wp by auto
  have fk: "smap_find (w_tracees ?w1) (ch_pid ?kid) = Some 1" using wp by (simp add: smap_find_def)
  have "checkCleanupTracee demo_env 200 w2 = (Inr (), w2)"
    using w2 wp by (simp add: checkCleanupTracee_def bind_traceeAt smap_find_def step_simps)
  then have ownk: "ownPart demo_env 1 ?kid ?w1 = (Inr (), w2)"
    using ownPart_run [OF w2(1)] by simp
  then have "Engine_handleEvent demo_env (Suc 1) ?kid ?w1 = (Inr DONE, w2)"
    using handleEvent_stop [of ?w1 ?kid 200 5 demo_env 1] fk by simp
  then have d2: "deliver demo_env 2 ?kid ?w1 = Some (Inr (), w2)"
    using deliver_known [OF fk, of demo_env 1] by (simp add: handled_def numeral_2_eq_2 del: Engine_handleEvent.simps)
  have "\<exists>v. deliver demo_env 2 ?kid clone_world = Some (Inr (), v) \<and> deliver demo_env 2 ?par v = Some (Inr (), w2)"
    by (rule early_stop_event [OF refl, where w = clone_world and parent = ?par and r = 0 and r' = 1 and wp = wp and ?w1.0 = ?w1
        and ev = Ev_CLONE and s = 5])
      (use wp(1) d1 d2 fk fp in \<open>simp_all add: smap_find_def no_flags_def\<close>)
  with w2(3) show ?thesis by blast
qed

end
