(* ===== verification/Engine_End.thy ===== *)
theory Engine_End
  imports Engine_Props
begin

text \<open>
  How tracing ends: \<open>stop\<close> and \<open>handleNoChildren\<close> (src/Engine.cxx).
\<close>

section \<open>Lost tracees\<close>

definition vanished :: "env \<Rightarrow> bool" where
  "vanished E \<longleftrightarrow> (\<forall>h q. k_fail (e_kernel E) h q = Some (ApiError ESRCH))"

lemma vanished_req: "vanished E \<Longrightarrow> reqE E q w = (Inl (ApiError ESRCH), w\<lparr>w_reqs := w_reqs w @ [q]\<rparr>)"
  by (simp add: vanished_def reqE_def)

lemma changeState_foreign: "t_kind (w_tracee w r) \<noteq> ChildTracee \<Longrightarrow> changeState E r new w =
    (Inr (), w\<lparr>w_tracee := (w_tracee w)(r := stateChange new (w_tracee w r))\<rparr>)"
  by (simp add: changeState_def getT_def modT_def isChildProcess_def prog_defs)

lemma doDetach_vanished:
  assumes "vanished E" "t_kind (w_tracee w r) \<noteq> ChildTracee"
  shows "doDetach E r w = (Inr (), w\<lparr>w_reqs := w_reqs w @ [Detach (t_pid (w_tracee w r))],
     w_tracee := (w_tracee w)(r := detached (stateChange DEAD (w_tracee w r)))\<rparr>)"
  using assms
  by (simp add: doDetach_def getT_def modT_def prog_defs vanished_req handleError_def
      changeState_foreign detached_def)

lemma detach_vanished:
  assumes "vanished E" "t_kind (w_tracee w r) \<noteq> ChildTracee" "alive (w_tracee w r)"
    and "t_state (w_tracee w r) \<notin> {DEAD, DETACHED}" "\<not> WAIT_FOR_ATTACH_STOP (t_flags (w_tracee w r))"
  shows "\<exists>b w'. detach E r w = (Inr b, w') \<and> w_tracees w' = w_tracees w \<and> t_state (w_tracee w' r) = DEAD \<and>
    t_kind (w_tracee w' r) \<noteq> ChildTracee"
proof (cases "t_state (w_tracee w r) \<in> {RUNNING, TS_UNKNOWN}")
  case True
  then show ?thesis
    using assms by (auto simp: detach_def alive_def getT_def modFlags_def modT_def prog_defs vanished_req
        handleError_def changeState_foreign)
next
  case False
  then show ?thesis
    using assms
    by (auto simp: detach_def alive_def bind_getT run_seq_Inr [OF doDetach_vanished] run_ret detached_def)
qed

text \<open>C18: when the kernel reports that there are no children, and the processes are indeed gone, the
  loop that cleans up erases the first tracee from the map and then steps on through the iterator to
  it: undefined behaviour, for every tracee that is not a child process of the tracer.\<close>

theorem handleNoChildren_undefined:
  assumes "vanished E" "w_tracees w = (p, r) # rest" "t_kind (w_tracee w r) \<noteq> ChildTracee"
    and "alive (w_tracee w r)" "t_state (w_tracee w r) \<notin> {DEAD, DETACHED}"
    and "\<not> WAIT_FOR_ATTACH_STOP (t_flags (w_tracee w r))"
  shows "\<exists>w'. handleNoChildren E w = (Inl (Undefined ''use of an invalidated iterator''), w') \<and>
    w_tracees w' = smap_erase p (w_tracees w)"
proof -
  have fp: "smap_find (w_tracees w) p = Some r" using assms(2) by (simp add: smap_find_def)
  obtain b w1 where d: "detach E r w = (Inr b, w1)" "w_tracees w1 = w_tracees w" "t_state (w_tracee w1 r) = DEAD"
    "t_kind (w_tracee w1 r) \<noteq> ChildTracee"
    using detach_vanished assms by blast
  obtain w2 where c: "checkCleanupTracee E p w1 = (Inr (), w2)" "w_tracees w2 = smap_erase p (w_tracees w)"
    using fp d assms(1)
    by (simp add: checkCleanupTracee_def eraseTracee_def step_simps run_seq_Inr [OF doDetach_vanished])
  have "traceeAt p w2 = (Inl (Undefined ''use of an invalidated iterator''), w2)"
    using c by (simp add: traceeAt_def)
  then have "noChildrenLoop E (p # map fst rest) w = (Inl (Undefined ''use of an invalidated iterator''), w2)"
    using fp d(1) c(1) by (simp add: step_simps seqE_def bindE_def traceeAt_def run_skip)
  then show ?thesis
    using c(2) assms(2) by (simp add: handleNoChildren_def smap_keys_def step_simps del: noChildrenLoop.simps)
qed

lemma vanished_demo: "vanished (demo_env\<lparr>e_kernel := demo_kernel\<lparr>k_fail := (\<lambda>_ _. Some (ApiError ESRCH))\<rparr>\<rparr>)"
  by (simp add: vanished_def)

theorem handleNoChildren_undefined_witness:
  "\<exists>w'. handleNoChildren (demo_env\<lparr>e_kernel := demo_kernel\<lparr>k_fail := (\<lambda>_ _. Some (ApiError ESRCH))\<rparr>\<rparr>) demo_world =
     (Inl (Undefined ''use of an invalidated iterator''), w') \<and> w_tracees w' = []"
  using handleNoChildren_undefined [OF vanished_demo demo_world_sel(1)]
  by (simp add: alive_def no_flags_def smap_erase_def)

section \<open>Stopping\<close>

text \<open>Who is left after \<open>stop\<close>: tracees that run (they are detached from at their next stop), and
  tracees that are already dead or detached from but still hold a process ID.\<close>

definition stays :: "tracee \<Rightarrow> bool" where
  "stays t \<longleftrightarrow> alive t \<and> t_state t \<in> {RUNNING, TS_UNKNOWN, DEAD, DETACHED}"

lemma detach_run:
  assumes "granting E"
  shows "\<exists>b w'. detach E r w = (Inr b, w') \<and> w_tracees w' = w_tracees w \<and>
    (\<forall>q. q \<noteq> r \<longrightarrow> w_tracee w' q = w_tracee w q) \<and> (alive (w_tracee w' r) \<longleftrightarrow> stays (w_tracee w r)) \<and>
    (alive (w_tracee w' r) \<longrightarrow> t_state (w_tracee w' r) = t_state (w_tracee w r) \<and>
       (t_state (w_tracee w r) \<in> {RUNNING, TS_UNKNOWN} \<longrightarrow> DETACH_AT_NEXT_STOP (t_flags (w_tracee w' r))))"
proof -
  have grant: "k_fail (e_kernel E) h q = None" for h q using assms by simp
  show ?thesis
    by (auto simp: detach_def alive_def stays_def step_simps grant doDetach_granted run_seq_Inr catch_run run_ret
        detached_def)
qed

lemma erase_middle: "distinct (map fst (a @ (p, r) # b)) \<Longrightarrow> smap_erase p (a @ (p, r) # b) = a @ b"
proof -
  assume "distinct (map fst (a @ (p, r) # b))"
  then have "p \<notin> fst ` set a" "p \<notin> fst ` set b" by auto
  then have "\<forall>q\<in>set a. fst q \<noteq> p" "\<forall>q\<in>set b. fst q \<noteq> p" by auto
  then show ?thesis by (simp add: smap_erase_def)
qed

lemma stopLoop_run:
  assumes "granting E" "w_tracees w = kept @ todo" "distinct (map fst (kept @ todo))" "distinct (map snd (kept @ todo))"
  shows "\<exists>w'. stopLoop E sig (map fst todo) w = (Inr (), w') \<and>
    w_tracees w' = kept @ filter (\<lambda>(p, r). stays (w_tracee w r)) todo \<and>
    (\<forall>q. q \<notin> snd ` set todo \<longrightarrow> w_tracee w' q = w_tracee w q) \<and>
    (\<forall>(p, r)\<in>set todo. t_state (w_tracee w r) \<in> {RUNNING, TS_UNKNOWN} \<longrightarrow> stays (w_tracee w r) \<longrightarrow>
       DETACH_AT_NEXT_STOP (t_flags (w_tracee w' r)))"
  using assms(2-4)
proof (induction todo arbitrary: kept w)
  case Nil
  then show ?case by (simp add: run_skip)
next
  case (Cons e todo)
  obtain p r where e: "e = (p, r)" by fastforce
  have fp: "smap_find (w_tracees w) p = Some r"
    using Cons.prems e unfolding smap_find_def by (intro map_of_is_SomeI) simp_all
  obtain w0 where sig: "(case sig of Some s \<Rightarrow> if isChildProcess (w_tracee w r) \<and> alive (w_tracee w r)
        then reqE E (SendSignal (t_pid (w_tracee w r)) s) else skipE | None \<Rightarrow> skipE) w = (Inr (), w0)"
      and w0: "w_tracees w0 = w_tracees w" "w_tracee w0 = w_tracee w"
    using assms(1) by (cases sig; cases "isChildProcess (w_tracee w r) \<and> alive (w_tracee w r)")
      (auto simp: req_run run_skip)
  from detach_run [OF assms(1), of r w0] obtain b w1 where d': "detach E r w0 = (Inr b, w1)"
    "w_tracees w1 = w_tracees w0" "\<forall>q. q \<noteq> r \<longrightarrow> w_tracee w1 q = w_tracee w0 q"
    "alive (w_tracee w1 r) \<longleftrightarrow> stays (w_tracee w0 r)"
    "alive (w_tracee w1 r) \<longrightarrow> t_state (w_tracee w1 r) = t_state (w_tracee w0 r) \<and>
       (t_state (w_tracee w0 r) \<in> {RUNNING, TS_UNKNOWN} \<longrightarrow> DETACH_AT_NEXT_STOP (t_flags (w_tracee w1 r)))"
    by blast
  note d = d'(1) d'(2-) [unfolded w0]
  let ?w2 = "if stays (w_tracee w r) then w1 else w1\<lparr>w_tracees := kept @ todo\<rparr>"
  have er: "smap_erase p (kept @ e # todo) = kept @ todo"
    using erase_middle [of kept p r todo] Cons.prems(2) e by simp
  have step: "stopLoop E sig (map fst (e # todo)) w = stopLoop E sig (map fst todo) ?w2"
    using fp d Cons.prems(1) er e
    by (simp add: bind_seq_assoc seq_bind_assoc bind_traceeAt bind_getT run_seq_Inr sig run_bind_Inr d(1)
        eraseTracee_def step_simps)
  let ?kept = "if stays (w_tracee w r) then kept @ [e] else kept"
  have "w_tracees ?w2 = ?kept @ todo" using d(2) Cons.prems(1) by simp
  moreover have "distinct (map fst (?kept @ todo))" "distinct (map snd (?kept @ todo))"
    using Cons.prems by auto
  ultimately obtain w' where w': "stopLoop E sig (map fst todo) ?w2 = (Inr (), w')"
    "w_tracees w' = ?kept @ filter (\<lambda>(p, r). stays (w_tracee ?w2 r)) todo"
    "\<forall>q. q \<notin> snd ` set todo \<longrightarrow> w_tracee w' q = w_tracee ?w2 q"
    "\<forall>(p, r)\<in>set todo. t_state (w_tracee ?w2 r) \<in> {RUNNING, TS_UNKNOWN} \<longrightarrow> stays (w_tracee ?w2 r) \<longrightarrow>
       DETACH_AT_NEXT_STOP (t_flags (w_tracee w' r))"
    using Cons.IH [of ?w2 ?kept] by blast
  have r: "r \<notin> snd ` set todo" using Cons.prems(3) e by auto
  have same: "w_tracee ?w2 q = w_tracee w q" if "q \<noteq> r" for q using d(3) that by simp
  have "filter (\<lambda>(p, r). stays (w_tracee ?w2 r)) todo = filter (\<lambda>(p, r). stays (w_tracee w r)) todo"
  proof (rule filter_cong [OF refl])
    fix x assume "x \<in> set todo"
    then have "snd x \<noteq> r" using r by auto
    then show "(case x of (p, r) \<Rightarrow> stays (w_tracee ?w2 r)) = (case x of (p, r) \<Rightarrow> stays (w_tracee w r))"
      by (simp only: split_beta same [OF \<open>snd x \<noteq> r\<close>])
  qed
  note flt = this
  have tr: "w_tracees w' = kept @ filter (\<lambda>(p, r). stays (w_tracee w r)) (e # todo)"
    unfolding w'(2) flt using e by simp
  have other: "\<forall>q. q \<notin> snd ` set (e # todo) \<longrightarrow> w_tracee w' q = w_tracee w q"
    using w'(3) same e by auto
  have last: "DETACH_AT_NEXT_STOP (t_flags (w_tracee w' r))"
    if "t_state (w_tracee w r) \<in> {RUNNING, TS_UNKNOWN}" "stays (w_tracee w r)"
    using w'(3) r that d(4,5) by simp
  have "DETACH_AT_NEXT_STOP (t_flags (w_tracee w' (snd x)))"
    if "x \<in> set todo" "t_state (w_tracee w (snd x)) \<in> {RUNNING, TS_UNKNOWN}" "stays (w_tracee w (snd x))" for x
  proof -
    have "snd x \<noteq> r" using r that(1) by auto
    note sx = same [OF this]
    have "stays (w_tracee ?w2 (snd x))" "t_state (w_tracee ?w2 (snd x)) \<in> {RUNNING, TS_UNKNOWN}"
      using that(2,3) unfolding sx by simp_all
    then show ?thesis using bspec [OF w'(4) that(1)] by (simp only: split_beta)
  qed
  then have "\<forall>x\<in>set todo. t_state (w_tracee w (snd x)) \<in> {RUNNING, TS_UNKNOWN} \<longrightarrow> stays (w_tracee w (snd x)) \<longrightarrow>
       DETACH_AT_NEXT_STOP (t_flags (w_tracee w' (snd x)))" by blast
  with last e have "\<forall>(p, r)\<in>set (e # todo). t_state (w_tracee w r) \<in> {RUNNING, TS_UNKNOWN} \<longrightarrow>
      stays (w_tracee w r) \<longrightarrow> DETACH_AT_NEXT_STOP (t_flags (w_tracee w' r))"
    by (simp only: split_beta set_simps ball_simps snd_conv) blast
  with tr other w'(1) step show ?case by auto
qed



end
