(* ===== verification/Engine_Exec.thy ===== *)
theory Engine_Exec
  imports Engine_End
begin

text \<open>
  execve(2) by a thread that is not the main thread (\<open>handleExecEvent\<close>, \<open>syncState\<close> of src/Tracee.cxx,
  \<open>handleSubstitution\<close> of src/Engine.cxx): the calling thread takes over the process ID of the main
  thread, so the tracee object of the main thread goes on in its place.
\<close>

section \<open>execve in a multi-threaded process\<close>

text \<open>What a program leaves alone when it does not touch the object of tracee \<open>r\<close> beyond its process
  data, and does not throw.\<close>

definition spares :: "tref \<Rightarrow> (world, 'a) prog \<Rightarrow> bool" where
  "spares r m \<longleftrightarrow> (\<forall>w. \<exists>x w'. m w = (Inr x, w') \<and> w_tracee w' r = w_tracee w r)"

lemma sparesI: "(\<And>w. \<exists>x w'. m w = (Inr x, w') \<and> w_tracee w' r = w_tracee w r) \<Longrightarrow> spares r m"
  by (simp add: spares_def)

named_theorems spares_intros \<open>programs that leave a tracee alone\<close>

lemma spares_bind [spares_intros]: "spares r m \<Longrightarrow> (\<And>x. spares r (f x)) \<Longrightarrow> spares r (bindE m f)"
  by (simp add: spares_def bindE_def) (metis (no_types, lifting) old.prod.case sum.case(2))

lemma spares_seq [spares_intros]: "spares r m \<Longrightarrow> spares r n \<Longrightarrow> spares r (seqE m n)"
  by (simp add: spares_def seqE_def bindE_def) (metis (no_types, lifting) old.prod.case sum.case(2))

lemma spares_if [spares_intros]: "spares r m \<Longrightarrow> spares r n \<Longrightarrow> spares r (if b then m else n)"
  by simp

lemma spares_option [spares_intros]:
  "spares r m \<Longrightarrow> (\<And>x. spares r (f x)) \<Longrightarrow> spares r (case a of None \<Rightarrow> m | Some x \<Rightarrow> f x)"
  by (cases a) simp_all

lemma spares_prims [spares_intros]:
  "spares r skipE" "spares r (ret x)" "spares r (askE f)" "spares r (answerE g)" "spares r (getT q)" "spares r (getPD q)"
  "spares r (modPD q h)" "spares r (liftE (Inr x))" "spares r (getView E q)" "spares r (eraseTracee p)"
  by (simp_all add: spares_def prog_defs getT_def getPD_def modPD_def Let_def answerE_def getView_def eraseTracee_def)

lemma spares_modT [spares_intros]: "q \<noteq> r \<Longrightarrow> spares r (modT q f)"
  by (simp add: spares_def modT_run)

lemma spares_req [spares_intros]: "granting E \<Longrightarrow> spares r (reqE E q)"
  by (simp add: spares_def req_run)

lemma spares_callback [spares_intros]: "watching E \<Longrightarrow> spares r (callbackE E cb)"
  by (simp add: spares_def callback_run)

lemma spares_catch [spares_intros]: "spares r m \<Longrightarrow> spares r (catchE p m h)"
  by (simp add: spares_def catchE_def) (metis (no_types, lifting) old.prod.case sum.case(2))

lemma spares_detach [spares_intros]: "granting E \<Longrightarrow> q \<noteq> r \<Longrightarrow> spares r (detach E q)"
  by (intro sparesI) (metis detach_run)

lemma spares_changeState [spares_intros]: "granting E \<Longrightarrow> q \<noteq> r \<Longrightarrow> spares r (changeState E q new)"
  unfolding changeState_def cleanupChild_def by (intro spares_intros)

text \<open>What the proc file system shows can be read, or fails with an \<open>ApiError\<close>.\<close>

definition proc_readable :: "env \<Rightarrow> bool" where
  "proc_readable E \<longleftrightarrow> (\<forall>h p e. k_exe (e_kernel E) h p = Inl e \<longrightarrow> is_ApiError e) \<and>
     (\<forall>h p e. pf_entries (tv_proc (k_view (e_kernel E) h p)) = Inl e \<longrightarrow> is_ApiError e)"

lemma spares_updateExecInfo [spares_intros]:
  assumes "proc_readable E"
  shows "spares r (updateExecInfo E q)"
proof -
  have "spares r (updateCmdLine E q)"
    unfolding updateCmdLine_def by (intro spares_intros)
  moreover have "spares r (updateExecutable E q)"
  proof (rule sparesI)
    fix w :: world
    show "\<exists>x w'. updateExecutable E q w = (Inr x, w') \<and> w_tracee w' r = w_tracee w r"
      using assms
      by (cases "k_exe (e_kernel E) (w_reqs w) (t_pid (w_tracee w q))")
        (auto simp: updateExecutable_def bind_getT bind_answer modPD_def Let_def proc_readable_def run_upd)
  qed
  ultimately show ?thesis
    unfolding updateExecInfo_def by (intro spares_intros)
qed

lemma spares_syncFDs [spares_intros]:
  assumes "proc_readable E"
  shows "spares r (syncFDs E q)"
proof -
  have ok: "\<exists>m'. syncFDsAfterExec (tv_proc (k_view (e_kernel E) h p)) m = Inr m'" for h p m
    using assms by (auto simp: proc_readable_def syncFDsAfterExec_def get_currently_open_fds_def split: sum.split)
  show ?thesis
  proof (rule sparesI)
    fix w :: world
    let ?t = "w_tracee w q"
    obtain m' where "syncFDsAfterExec (tv_proc (k_view (e_kernel E) (w_reqs w) (t_pid ?t)))
        (pd_fds (w_pdata w (t_pdata ?t))) = Inr m'" using ok by blast
    then show "\<exists>x w'. syncFDs E q w = (Inr x, w') \<and> w_tracee w' r = w_tracee w r"
      by (simp add: syncFDs_def bind_getView getPD_def step_simps modPD_def Let_def)
  qed
qed

lemma spares_substitution: "granting E \<Longrightarrow> w_tracees w = ts \<Longrightarrow> smap_find ts p = Some q \<Longrightarrow> q \<noteq> r \<Longrightarrow>
    \<exists>w'. handleSubstitution E p w = (Inr (Some q), w') \<and> w_tracee w' r = w_tracee w r"
proof -
  assume a: "granting E" "w_tracees w = ts" "smap_find ts p = Some q" "q \<noteq> r"
  have "spares r (seqE (catchE is_ApiError (bindE (detach E q) (\<lambda>_. skipE))
     (\<lambda>e. if e \<noteq> ApiError ESRCH then raise e else skipE)) (eraseTracee p))"
    using a by (intro spares_intros)
  then obtain w' where "seqE (catchE is_ApiError (bindE (detach E q) (\<lambda>_. skipE))
     (\<lambda>e. if e \<noteq> ApiError ESRCH then raise e else skipE)) (eraseTracee p) w = (Inr (), w')"
     "w_tracee w' r = w_tracee w r" by (auto simp: spares_def)
  then show ?thesis using a
    by (simp add: handleSubstitution_def bind_ask seq_assoc [symmetric] run_seq_Inr run_ret)
qed

text \<open>\<open>syncState\<close> takes over the current system call of the other thread, but not the flag that the
  thread is inside it.\<close>

lemma syncState_run:
  assumes "granting E" "q \<noteq> r"
  shows "\<exists>w'. syncState E r q w = (Inr (), w') \<and> t_flags (w_tracee w' r) = t_flags (w_tracee w r) \<and>
    t_current (w_tracee w' r) = t_current (w_tracee w q)"
proof -
  have dead: "\<exists>w'. changeState E q DEAD w = (Inr (), w') \<and> w_tracee w' r = w_tracee w r" for w
    using spares_changeState [OF assms, of DEAD] by (auto simp: spares_def)
  let ?w = "w\<lparr>w_tracee := (w_tracee w)(r := (w_tracee w r)\<lparr>t_info := t_info (w_tracee w q), t_db := t_db (w_tracee w q),
     t_current := t_current (w_tracee w q), t_interrupted := t_interrupted (w_tracee w q),
     t_ctr := t_ctr (w_tracee w q)\<rparr>, q := (w_tracee w q)\<lparr>t_db := []\<rparr>)\<rparr>"
  have "syncState E r q w = changeState E q DEAD ?w"
    using assms(2) by (simp add: syncState_def bind_getT seq_modT seqsE.simps seq_skip_last fun_upd_twist)
  then show ?thesis using dead [of ?w] assms(2) by auto
qed

lemma handleExecEvent_takeover:
  assumes "granting E" "watching E" "proc_readable E" "\<And>h. k_pid_msg (e_kernel E) h main = old" "old \<noteq> main"
    and "smap_find (w_tracees w) old = Some q" "q \<noteq> r"
  shows "\<exists>w'. handleExecEvent E r main w = (Inr (), w') \<and> t_flags (w_tracee w' r) = t_flags (w_tracee w r)"
proof -
  let ?rest = "\<lambda>exe args. seqE (updateExecInfo E r) (seqE (syncFDs E r)
     (callbackE E (NewExecutionContext r exe args (Some old))))"
  have rest: "\<exists>x w'. ?rest exe args w = (Inr x, w') \<and> w_tracee w' r = w_tracee w r" for exe args w
  proof -
    have "spares r (?rest exe args)" using assms(1-3) by (intro spares_intros)
    then show ?thesis by (simp add: spares_def)
  qed
  let ?w = "w\<lparr>w_reqs := w_reqs w @ [GetPIDEventMsg main]\<rparr>"
  have "smap_find (w_tracees ?w) old = Some q" using assms(6) by simp
  then obtain w1 where w1: "handleSubstitution E old ?w = (Inr (Some q), w1)" "w_tracee w1 r = w_tracee w r"
    using spares_substitution [OF assms(1) refl _ assms(7)] by fastforce
  obtain w2 where w2: "syncState E r q w1 = (Inr (), w2)" "t_flags (w_tracee w2 r) = t_flags (w_tracee w1 r)"
    using syncState_run [OF assms(1,7)] by blast
  obtain w3 where "?rest (pd_exe (w_pdata w (t_pdata (w_tracee w r))))
      (pd_cmdline (w_pdata w (t_pdata (w_tracee w r)))) w2 = (Inr (), w3)" "w_tracee w3 r = w_tracee w2 r"
    using rest by fastforce
  then show ?thesis
    using assms(1,4,5) w1 w2
    by (simp add: handleExecEvent_def getPD_def bind_ask seq_req bind_answer bind_ret seqsE.simps seq_skip_last
        bind_run_Inr seq_bind_assoc seq_run_Inr)
qed

lemma restart_keeps_flags:
  assumes "granting E" "watching E"
  shows "\<exists>w'. restartTracee E r w = (Inr (), w') \<and> t_flags (w_tracee w' r) = t_flags (w_tracee w r)"
proof -
  have "k_fail (e_kernel E) h q = None" "\<not> e_client E l cb" for h q l cb using assms by simp_all
  then show ?thesis by (simp add: restartTracee_def step_simps stateChange_flags)
qed

text \<open>C17: when a thread that is not the main thread calls execve, and the object of the main thread is
  not inside a system call, the exec event succeeds, but the exit of the execve then raises: the main
  thread's object took over the current system call without the flag \<open>SYSCALL_ENTERED\<close>, so the exit
  stop is taken for a mismatch.\<close>

theorem exec_takeover_mismatch:
  assumes "granting E" "watching E" "proc_readable E" "\<And>h. k_pid_msg (e_kernel E) h main = old" "old \<noteq> main"
    and "smap_find (w_tracees w) old = Some q" "q \<noteq> r"
    and "\<not> SYSCALL_ENTERED (t_flags (w_tracee w r))" "\<not> DETACH_AT_NEXT_STOP (t_flags (w_tracee w r))"
    and "\<And>h p. isExit (k_syscall_info (e_kernel E) h p)"
  shows "\<exists>w1 w2. processEvent E r \<lparr>ch_pid = main, ch_change = Trapped (EventStop SIG_TRAP Ev_EXEC)\<rparr> w = (Inr (), w1) \<and>
    processEvent E r \<lparr>ch_pid = main, ch_change = Trapped SysTrap\<rparr> w1 =
      (Inl (RuntimeError ''system call state mismatch''), w2)"
proof -
  let ?w = "w\<lparr>w_tracee := (w_tracee w)(r := stateChange EVENT_STOP ((w_tracee w r)\<lparr>t_inject := None\<rparr>))\<rparr>"
  have "smap_find (w_tracees ?w) old = Some q" using assms(6) by simp
  from handleExecEvent_takeover [OF assms(1-5) this assms(7)] obtain w1 where
    w1: "handleExecEvent E r main ?w = (Inr (), w1)" "t_flags (w_tracee w1 r) = t_flags (w_tracee ?w r)" by blast
  have fl: "\<not> SYSCALL_ENTERED (t_flags (w_tracee w1 r))" "\<not> DETACH_AT_NEXT_STOP (t_flags (w_tracee w1 r))"
    using w1(2) assms(8,9) by (simp_all add: stateChange_flags)
  obtain w2 where w2: "restartTracee E r w1 = (Inr (), w2)" "t_flags (w_tracee w2 r) = t_flags (w_tracee w1 r)"
    using restart_keeps_flags [OF assms(1,2)] by blast
  have first: "processEvent E r \<lparr>ch_pid = main, ch_change = Trapped (EventStop SIG_TRAP Ev_EXEC)\<rparr> w = (Inr (), w2)"
    using assms(9) w1(1) w2(1) by (simp add: processEvent_def handleEvent_def step_simps seq_run_Inr)
  moreover have "isEntry i \<Longrightarrow> \<not> isExit i" for i
    by (cases i; cases "si_kind i") (simp_all add: isEntry.simps isExit.simps)
  then have "\<not> isEntry (k_syscall_info (e_kernel E) h p)" for h p using assms(10) by blast
  then have "\<exists>w3. processEvent E r \<lparr>ch_pid = main, ch_change = Trapped SysTrap\<rparr> w2 =
      (Inl (RuntimeError ''system call state mismatch''), w3)"
    using fl w2(2) assms(1)
    by (simp add: processEvent_def handleSystemCall_def handleStateMismatch_def step_simps stateChange_flags)
  ultimately show ?thesis by blast
qed

definition exec_env :: env where
  "exec_env = demo_env\<lparr>e_kernel := demo_kernel\<lparr>k_syscall_info := (\<lambda>_ _.
     (demo_info SYS_EXECVE)\<lparr>si_kind := InfoExit (ExitValue 0)\<rparr>)\<rparr>\<rparr>"

theorem exec_takeover_mismatch_witness:
  "\<exists>w1 w2. processEvent exec_env 0 \<lparr>ch_pid = 100, ch_change = Trapped (EventStop SIG_TRAP Ev_EXEC)\<rparr>
      (demo_world\<lparr>w_tracees := [(100, 0), (200, 1)]\<rparr>) = (Inr (), w1) \<and>
    processEvent exec_env 0 \<lparr>ch_pid = 100, ch_change = Trapped SysTrap\<rparr> w1 =
      (Inl (RuntimeError ''system call state mismatch''), w2)"
proof (rule exec_takeover_mismatch [where old = 200 and q = 1])
  show "proc_readable exec_env"
    by (simp add: exec_env_def proc_readable_def)
  show "granting exec_env" "watching exec_env" by (simp_all add: exec_env_def granting_def watching_def)
qed (simp_all add: exec_env_def smap_find_def no_flags_def isExit.simps)

end
