(* ===== verification/Engine_Drain.thy ===== *)
theory Engine_Drain
  imports Engine_End
begin

text \<open>
  The main loop comes to its end when every process does: whatever the order in which the kernel
  reports the deaths of the tracees, \<open>trace\<close> returns after the last one.
\<close>

definition is_death :: "child_state \<Rightarrow> bool" where
  "is_death d = (case ch_change d of Exited _ \<Rightarrow> True | Killed _ \<Rightarrow> True | Dumped _ \<Rightarrow> True | _ \<Rightarrow> False)"

definition waits :: "request list \<Rightarrow> nat" where
  "waits h = length (filter (\<lambda>q. q = Wait) h)"

lemma waits_append [simp]: "waits (h @ [Wait]) = Suc (waits h)" "waits (h @ [Detach p]) = waits h"
  by (simp_all add: waits_def)

text \<open>The kernel reports the events \<open>ds\<close>, in this order, to the next calls of \<open>waitpid\<close>.\<close>

definition reports :: "env \<Rightarrow> nat \<Rightarrow> child_state list \<Rightarrow> bool" where
  "reports E n ds \<longleftrightarrow> (\<forall>i<length ds. \<forall>h. waits h = n + Suc i \<longrightarrow> k_wait (e_kernel E) h = ds ! i)"

lemma reports_Cons:
  assumes "reports E n (d # ds)"
  shows "waits h = Suc n \<Longrightarrow> k_wait (e_kernel E) h = d" "reports E (Suc n) ds"
proof -
  show "waits h = Suc n \<Longrightarrow> k_wait (e_kernel E) h = d"
    using assms by (simp add: reports_def) (metis add.right_neutral add_Suc_right nth_Cons_0 zero_less_Suc)
  show "reports E (Suc n) ds"
    unfolding reports_def
  proof (intro allI impI)
    fix i h
    assume "i < length ds" "waits h = Suc n + Suc i"
    then have "k_wait (e_kernel E) h = (d # ds) ! Suc i"
      using assms unfolding reports_def by (metis Suc_less_eq add_Suc_shift length_Cons)
    then show "k_wait (e_kernel E) h = ds ! i" by simp
  qed
qed

text \<open>What the client hears of a death: nothing more if an exit event announced it.\<close>

definition death_note :: "world \<Rightarrow> child_state \<Rightarrow> callback list" where
  "death_note w d = (case smap_find (w_tracees w) (ch_pid d) of
     None \<Rightarrow> []
   | Some r \<Rightarrow> if WAIT_FOR_EXITED (t_flags (w_tracee w r)) then [] else [Disappeared r d])"

text \<open>Tracees that are not child processes, each in the map once.\<close>

definition plain_map :: "world \<Rightarrow> bool" where
  "plain_map w \<longleftrightarrow> distinct (map snd (w_tracees w)) \<and> distinct (map fst (w_tracees w)) \<and>
     (\<forall>(p, r)\<in>set (w_tracees w). t_kind (w_tracee w r) \<noteq> ChildTracee)"

lemma smap_find_in: "smap_find m p = Some r \<Longrightarrow> (p, r) \<in> set m"
  by (simp add: smap_find_def map_of_SomeD)

lemma death_step:
  assumes "watching E" "granting E" "plain_map w" "is_death d" "smap_find (w_tracees w) (ch_pid d) = Some r"
  shows "\<exists>w'. ownPart E r d w = (Inr (), w') \<and> w_tracees w' = smap_erase (ch_pid d) (w_tracees w) \<and>
    w_newpid w' = w_newpid w \<and> waits (w_reqs w') = waits (w_reqs w) \<and>
    w_log w' = w_log w @ death_note w d \<and> (\<forall>q. q \<noteq> r \<longrightarrow> w_tracee w' q = w_tracee w q)"
proof -
  have k: "t_kind (w_tracee w r) \<noteq> ChildTracee"
    using assms(3) smap_find_in [OF assms(5)] by (auto simp: plain_map_def)
  obtain c s where "ch_change d \<in> {Exited c, Killed s, Dumped s}"
    using assms(4) by (auto simp: is_death_def split: child_change.splits)
  note run = ownPart_run [OF death_run [OF assms(1) k this]]
  show ?thesis unfolding run using assms(2,5)
    by (simp add: checkCleanupTracee_def eraseTracee_def step_simps run_seq_Inr [OF doDetach_granted] death_note_def)
qed


lemma plain_map_erase:
  assumes "plain_map w" "smap_find (w_tracees w) p = Some r" "w_tracees w' = smap_erase p (w_tracees w)"
    and "\<forall>q. q \<noteq> r \<longrightarrow> w_tracee w' q = w_tracee w q"
  shows "plain_map w'" "\<And>d. ch_pid d \<noteq> p \<Longrightarrow> death_note w' d = death_note w d"
proof -
  have other: "q \<noteq> r" if "(p', q) \<in> set (w_tracees w)" "p' \<noteq> p" for p' q
  proof
    assume "q = r"
    with that smap_find_in [OF assms(2)] assms(1) have "p' = p"
      unfolding plain_map_def by (metis eq_key_imp_eq_value distinct_map inj_on_eq_iff prod.inject snd_conv)
    then show False using that by simp
  qed
  have "distinct (map f (smap_erase p (w_tracees w)))" if "distinct (map f (w_tracees w))" for f :: "_ \<Rightarrow> 'b"
    using that by (simp add: smap_erase_def distinct_map_filter)
  then show "plain_map w'"
    using assms other by (auto simp: plain_map_def smap_erase_def distinct_map_filter)
  show "death_note w' d = death_note w d" if "ch_pid d \<noteq> p" for d
  proof (cases "smap_find (w_tracees w) (ch_pid d)")
    case None
    then show ?thesis using that assms(3) by (simp add: death_note_def)
  next
    case (Some q)
    then have "q \<noteq> r" using other [OF smap_find_in that] by blast
    then show ?thesis using that assms(3,4) Some by (simp add: death_note_def)
  qed
qed

lemma death_note_reqs [simp]: "death_note (w\<lparr>w_reqs := h\<rparr>) d = death_note w d"
  by (simp add: death_note_def cong: option.case_cong)

lemma trace_death:
  assumes "watching E" "granting E" "plain_map w" "w_newpid w = PID_INVALID" "is_death d"
    and "smap_find (w_tracees w) (ch_pid d) = Some r" "k_wait (e_kernel E) (w_reqs w @ [Wait]) = d"
  shows "\<exists>w'. trace E (Suc n) w = trace E (Suc n) w' \<and> w_tracees w' = smap_erase (ch_pid d) (w_tracees w) \<and>
    w_newpid w' = PID_INVALID \<and> waits (w_reqs w') = Suc (waits (w_reqs w)) \<and> w_log w' = w_log w @ death_note w d \<and>
    plain_map w' \<and> (\<forall>d'. ch_pid d' \<noteq> ch_pid d \<longrightarrow> death_note w' d' = death_note w d')"
proof -
  let ?w = "w\<lparr>w_reqs := w_reqs w @ [Wait]\<rparr>"
  have find: "smap_find (w_tracees ?w) (ch_pid d) = Some r" using assms(6) by simp
  have "plain_map ?w" using assms(3) by (simp add: plain_map_def)
  from death_step [OF assms(1,2) this assms(5) find] obtain w' where own: "ownPart E r d ?w = (Inr (), w')"
    and w': "w_tracees w' = smap_erase (ch_pid d) (w_tracees w)" "w_newpid w' = PID_INVALID"
      "waits (w_reqs w') = Suc (waits (w_reqs w))" "w_log w' = w_log w @ death_note w d"
      "\<forall>q. q \<noteq> r \<longrightarrow> w_tracee w' q = w_tracee w q"
    using assms(4) by auto
  have "Engine_handleEvent E (Suc n) d ?w = (Inr DONE, w')"
    unfolding handleEvent_known [OF find] own using w'(2) by (simp add: checkUnknownEvents_run)
  then have dl: "deliver E (Suc n) d ?w = Some (Inr (), w')"
    unfolding deliver_known [OF find] by (simp add: handled_def)
  have "reqE E Wait w = (Inr (), ?w)" using assms(2) by (simp add: req_run granting_def)
  moreover have "w_tracees w \<noteq> []" using assms(6) by auto
  ultimately have "trace E (Suc n) w = trace E (Suc n) w'"
    using dl assms(7) by (simp add: trace.simps [of E "Suc n" w])
  with w' plain_map_erase [OF assms(3,6) w'(1,5)] show ?thesis by blast
qed

lemma drain:
  assumes "watching E" "granting E"
  shows "plain_map w \<Longrightarrow> w_newpid w = PID_INVALID \<Longrightarrow> reports E (waits (w_reqs w)) ds \<Longrightarrow>
    list_all is_death ds \<Longrightarrow> distinct (map ch_pid ds) \<Longrightarrow> ch_pid ` set ds = fst ` set (w_tracees w) \<Longrightarrow>
    \<exists>w'. trace E (Suc n) w = Some (Inr (), w') \<and> w_tracees w' = [] \<and>
      w_log w' = w_log w @ concat (map (death_note w) ds)"
proof (induction ds arbitrary: w)
  case Nil
  then show ?case by (simp add: trace.simps [of E "Suc n" w])
next
  case (Cons d ds)
  then have "ch_pid d \<in> fst ` set (w_tracees w)" by force
  then obtain r where r: "smap_find (w_tracees w) (ch_pid d) = Some r"
    by (metis map_of_eq_None_iff not_None_eq smap_find_def)
  note rep = reports_Cons [OF Cons.prems(3)]
  have "is_death d" "list_all is_death ds" using Cons.prems(4) by simp_all
  note death = trace_death [OF assms Cons.prems(1,2) this(1) r, of n]
  obtain w' where w': "trace E (Suc n) w = trace E (Suc n) w'"
    "w_tracees w' = smap_erase (ch_pid d) (w_tracees w)" "w_newpid w' = PID_INVALID"
    "waits (w_reqs w') = Suc (waits (w_reqs w))" "w_log w' = w_log w @ death_note w d" "plain_map w'"
    and same: "\<forall>d'. ch_pid d' \<noteq> ch_pid d \<longrightarrow> death_note w' d' = death_note w d'"
    using death rep(1) by auto
  have "ch_pid ` set ds = fst ` set (w_tracees w')"
    using Cons.prems(5,6) unfolding w'(2) by (auto simp: smap_erase_def image_iff) force+
  with Cons.IH [OF w'(6,3)] rep(2) \<open>list_all is_death ds\<close> Cons.prems(5) obtain w'' where
    "trace E (Suc n) w' = Some (Inr (), w'')" "w_tracees w'' = []"
    "w_log w'' = w_log w' @ concat (map (death_note w') ds)"
    unfolding w'(4) by auto
  moreover have "map (death_note w') ds = map (death_note w) ds"
    using same Cons.prems(5) by (intro map_cong refl) (metis image_eqI distinct.simps(2) list.simps(9) list.set_map)
  ultimately show ?case using w'(1,5) by simp
qed


definition two_world :: world where
  "two_world = demo_world\<lparr>w_tracees := [(100, 0), (200, 1)],
     w_tracee := (w_tracee demo_world)(1 := demo_tracee\<lparr>t_pid := 200\<rparr>)\<rparr>"

definition dying_env :: env where
  "dying_env = demo_env\<lparr>e_kernel := demo_kernel\<lparr>k_wait := (\<lambda>h. if waits h = 1 then \<lparr>ch_pid = 200, ch_change = Killed 9\<rparr>
     else \<lparr>ch_pid = 100, ch_change = Exited 0\<rparr>)\<rparr>\<rparr>"


end
