(* ===== verification/Call_Props.thy ===== *)
theory Call_Props
  imports Call_Safe Tracee_Safety
begin

text \<open>
  What the concrete system call classes promise together: no undefined behaviour on entry or exit, the
  effect of each class on the table of descriptors against an abstract table, the layout of the
  arguments of clone(2) on each architecture, and the shape of calls with a fixed parameter list.
\<close>

section \<open>No undefined behaviour in any class\<close>

lemma modelled_class_safe:
  "(cls, c) \<in> set (static_classes @ dynamic_classes a t) \<Longrightarrow> \<exists>k. safe_class c k"
  using static_classes_safe dynamic_classes_safe by auto

lemma safe_class_defined:
  assumes c: "safe_class c k" and "view_ok tv" "call_fit s"
  shows "(isEntry info \<longrightarrow> call_fit (snd (setEntryInfo c tv info s)) \<and>
      (\<forall>e. fst (setEntryInfo c tv info s) = Inl e \<longrightarrow> \<not> is_undefined e)) \<and>
    (isExit info \<longrightarrow> call_fit (fst (snd (setExitInfo c tv info (s, fds)))) \<and>
      (\<forall>e. fst (setExitInfo c tv info (s, fds)) = Inl e \<longrightarrow> \<not> is_undefined e))"
proof -
  have "call_fit (snd (setEntryInfo c tv info s)) \<and> (\<forall>e. fst (setEntryInfo c tv info s) = Inl e \<longrightarrow> \<not> is_undefined e)"
    if "isEntry info"
  proof -
    note safe = safe_class.entry_safe [OF c assms(2) that]
    obtain r s' where run: "setEntryInfo c tv info s = (r, s')" by fastforce
    show ?thesis using safeD_Inl [OF safe assms(3)] safeD_Inr [OF safe assms(3)] run by (cases r) auto
  qed
  moreover have "call_fit (fst (snd (setExitInfo c tv info (s, fds)))) \<and>
      (\<forall>e. fst (setExitInfo c tv info (s, fds)) = Inl e \<longrightarrow> \<not> is_undefined e)" if "isExit info"
  proof -
    obtain r s' fds' where run: "setExitInfo c tv info (s, fds) = (r, (s', fds'))" by (metis prod.exhaust)
    show ?thesis using safe_class.exit_safe [OF c assms(2) that assms(3) run] run by simp
  qed
  ultimately show ?thesis by blast
qed


definition demo_call :: "call_class \<Rightarrow> syscall" where
  "demo_call c = \<lparr>sc_class = ''demo'', sc_nr = cc_nr c SYS_CLONE, sc_abi = ABI_UNKNOWN, sc_info = None, sc_error = None,
     sc_return = 0, sc_pars = cc_pars c SYS_CLONE, sc_ret = cc_ret c SYS_CLONE, sc_members = cc_members c SYS_CLONE\<rparr>"


lemma call_fit_demo: "length (cc_pars c SYS_CLONE) \<le> 6 \<Longrightarrow> length (cc_members c SYS_CLONE) \<le> 6 \<Longrightarrow> call_fit (demo_call c)"
  by (simp add: call_fit_def demo_call_def)

lemma clone_listed: "(''CloneSystemCall'', CloneSystemCall) \<in> set (static_classes @ dynamic_classes arch_x86_64 (\<lambda>_. False))"
  by (simp add: dynamic_classes_def)


section \<open>Descriptor tracking\<close>

text \<open>
  The abstract table is the set of tracked descriptors. \<open>fds_opened\<close> says which descriptors a
  successful call of a class creates, read off the manual pages: \<open>T\<close> is the table before the call.
\<close>

definition tracked :: "fd_map \<Rightarrow> fileno set" where
  "tracked m = {k. smap_find m k \<noteq> None}"

definition returns_new_fd :: "string set" where
  "returns_new_fd = {''OpenSystemCall'', ''OpenAtSystemCall'', ''EventFDSystemCall'', ''EventFD2SystemCall'',
     ''EPollCreateSystemCall'', ''PIDFDOpenSystemCall''}"

definition duplicates_fd :: "string \<Rightarrow> syscall \<Rightarrow> bool" where
  "duplicates_fd cls s \<longleftrightarrow> cls \<in> {''DupSystemCall'', ''Dup2SystemCall'', ''Dup3SystemCall''} \<or>
     cls = ''FcntlSystemCall'' \<and> fcntl_operation s \<in> {F_DUPFD, F_DUPFD_CLOEXEC}"

definition pipe_fds :: "item \<Rightarrow> fileno set" where
  "pipe_fds i = (case it_data i of
     None \<Rightarrow> {}
   | Some ends \<Rightarrow> if FD_INVALID \<in> {field_int 0 ends, field_int 4 ends} then {}
       else {field_int 0 ends, field_int 4 ends})"

definition clone3_fds :: "item \<Rightarrow> fileno set" where
  "clone3_fds i = (case it_data i of
     None \<Rightarrow> {} | Some args \<Rightarrow> if bit (field_ptr 0 8 args) CLONE_PIDFD then {field_int 0 (it_more i ! 1)} else {})"

definition pidfd_getfd_fds :: "tview \<Rightarrow> fileno \<Rightarrow> fileno set" where
  "pidfd_getfd_fds tv fd = (case get_fd_infos (tv_text tv) (tv_proc tv) of
     Inl _ \<Rightarrow> {fd} | Inr infos \<Rightarrow> {fd} \<inter> fi_fd ` set infos)"

definition fds_opened :: "string \<Rightarrow> tview \<Rightarrow> syscall \<Rightarrow> fileno set \<Rightarrow> fileno set" where
  "fds_opened cls tv s T =
     (if cls \<in> returns_new_fd then {ret_fd s}
      else if duplicates_fd cls s then (if par_int s 0 \<in> T then {ret_fd s} else {})
      else if cls \<in> {''SignalFDSystemCall'', ''SignalFD4SystemCall''} then {ret_fd s} - {par_int s 0}
      else if cls \<in> {''PipeSystemCall'', ''Pipe2SystemCall''} then pipe_fds (sc_pars s ! 0)
      else if cls = ''Clone3SystemCall'' then clone3_fds (sc_pars s ! 0)
      else if cls = ''PIDFDGetFDSystemCall'' then pidfd_getfd_fds tv (ret_fd s)
      else {})"

definition fd_spec :: "string \<Rightarrow> tview \<Rightarrow> syscall \<Rightarrow> fileno set \<Rightarrow> fileno set" where
  "fd_spec cls tv s T = (if cls = ''CloseSystemCall'' then T - {par_int s 0}
     else T \<union> (fds_opened cls tv s T - {FD_INVALID}))"

lemma tracked_track: "tracked (trackFD i m) = (if fi_fd i = FD_INVALID then tracked m else insert (fi_fd i) (tracked m))"
  by (auto simp: tracked_def fd_ops_find split: if_splits)

lemma tracked_update: "tracked (updateFD i m) = tracked m"
  by (auto simp: tracked_def fd_ops_find)

lemma tracked_drop: "tracked (dropFD k m) = tracked m - {k}"
  by (auto simp: tracked_def fd_ops_find)

lemma find_tracked: "smap_find m k = None \<longleftrightarrow> k \<notin> tracked m"
  by (simp add: tracked_def)

lemma tracked_Some: "smap_find m k = Some i \<Longrightarrow> k \<in> tracked m"
  by (simp add: tracked_def)

lemmas tracked_simps = tracked_track tracked_update tracked_drop

lemma flags_fd [simp]:
  "fi_fd (flag_set n i) = fi_fd i" "fi_fd (flag_reset n i) = fi_fd i" "fi_fd (ensureFlags i) = fi_fd i"
  "fi_fd (creation_flags a b i) = fi_fd i" "fi_fd (FDInfo t fd) = fd"
  by (simp_all add: flag_set_def flag_reset_def ensureFlags_def creation_flags_def FDInfo_def Let_def)

text \<open>\<open>tracks P f\<close>: the program \<open>P\<close> on the map succeeds and acts as \<open>f\<close> on the table.\<close>

definition tracks :: "fd_prog \<Rightarrow> (fileno set \<Rightarrow> fileno set) \<Rightarrow> bool" where
  "tracks P f \<longleftrightarrow> (\<forall>m m'. P m = (Inr (), m') \<longrightarrow> tracked m' = f (tracked m))"

lemma tracksI: "(\<And>m m'. P m = (Inr (), m') \<Longrightarrow> tracked m' = f (tracked m)) \<Longrightarrow> tracks P f"
  by (simp add: tracks_def)

lemma tracks_track: "tracks (track i) (\<lambda>T. T \<union> ({fi_fd i} - {FD_INVALID}))"
  by (rule tracksI) (auto simp: track_def prog_defs tracked_simps)


definition tracking_names :: "string list" where
  "tracking_names = [''OpenSystemCall'', ''OpenAtSystemCall'', ''EventFDSystemCall'', ''EventFD2SystemCall'',
     ''EPollCreateSystemCall'', ''PIDFDOpenSystemCall'', ''DupSystemCall'', ''Dup2SystemCall'', ''Dup3SystemCall'',
     ''FcntlSystemCall'', ''SignalFDSystemCall'', ''SignalFD4SystemCall'', ''PipeSystemCall'', ''Pipe2SystemCall'',
     ''Clone3SystemCall'', ''PIDFDGetFDSystemCall'', ''CloseSystemCall'']"

lemma fd_spec_other: "cls \<notin> set tracking_names \<Longrightarrow> fd_spec cls tv s T = T"
  by (simp add: fd_spec_def fds_opened_def returns_new_fd_def duplicates_fd_def tracking_names_def)

lemma tracks_skip: "(\<And>T. f T = T) \<Longrightarrow> tracks skipE f"
  by (rule tracksI) (simp add: prog_defs)

lemma static_tracks:
  assumes "(cls, c) \<in> set static_classes"
  shows "cc_fdtrack c = (\<lambda>_ _. skipE)" "cls \<notin> set tracking_names"
proof -
  have "list_all (\<lambda>cls. cls \<notin> set tracking_names) (map fst static_classes)"
    unfolding static_classes_def list.map fst_conv by code_simp
  with assms show "cls \<notin> set tracking_names" by (auto simp: list_all_iff)
  show "cc_fdtrack c = (\<lambda>_ _. skipE)"
    using assms unfolding static_classes_def static_class_defs by auto
qed

lemma tracks_new:
  assumes "cls \<in> returns_new_fd" "fi_fd i = ret_fd s"
  shows "tracks (track i) (fd_spec cls tv s)"
proof -
  have "cls \<noteq> ''CloseSystemCall''" using assms(1) by (auto simp: returns_new_fd_def)
  with assms have "fd_spec cls tv s = (\<lambda>T. T \<union> ({fi_fd i} - {FD_INVALID}))"
    by (simp add: fd_spec_def fds_opened_def fun_eq_iff)
  then show ?thesis using tracks_track [of i] by simp
qed

lemma tracks_dup:
  assumes "duplicates_fd cls s" "\<And>i. fi_fd (g i) = ret_fd s"
    and "\<And>m. smap_find m (par_int s 0) = None \<Longrightarrow> P m = (Inr (), m)"
    and "\<And>m i. smap_find m (par_int s 0) = Some i \<Longrightarrow> P m = (Inr (), trackFD (g i) m)"
  shows "tracks P (fd_spec cls tv s)"
proof (rule tracksI)
  fix m m'
  assume run: "P m = (Inr (), m')"
  have "cls \<noteq> ''CloseSystemCall''" "cls \<notin> returns_new_fd"
    using assms(1) by (auto simp: duplicates_fd_def returns_new_fd_def)
  then have spec: "fd_spec cls tv s T = T \<union> ((if par_int s 0 \<in> T then {ret_fd s} else {}) - {FD_INVALID})" for T
    using assms(1) by (simp add: fd_spec_def fds_opened_def)
  show "tracked m' = fd_spec cls tv s (tracked m)"
  proof (cases "smap_find m (par_int s 0)")
    case None
    with assms run show ?thesis by (simp add: spec find_tracked)
  next
    case (Some i)
    then have "m' = trackFD (g i) m" using assms(4) run by simp
    with tracked_Some [OF Some] assms(2) show ?thesis by (simp add: spec tracked_track)
  qed
qed

lemma Dup_tracks:
  assumes "cls \<in> {''DupSystemCall'', ''Dup2SystemCall'', ''Dup3SystemCall''}"
  shows "tracks (Dup_updateFDTracking s) (fd_spec cls tv s)"
proof (rule tracks_dup [where g = "\<lambda>i. i\<lparr>fi_fd := ret_fd s\<rparr>"])
  show "duplicates_fd cls s" using assms by (simp add: duplicates_fd_def)
qed (simp_all add: Dup_updateFDTracking_def prog_defs track_def)

lemma Fcntl_tracks: "tracks (Fcntl_updateFDTracking s) (fd_spec ''FcntlSystemCall'' tv s)"
proof -
  note dup = tracks_dup [where P = "Fcntl_updateFDTracking s" and cls = "''FcntlSystemCall''" and s = s]
  consider "fcntl_operation s = F_DUPFD" | "fcntl_operation s = F_DUPFD_CLOEXEC"
    | "fcntl_operation s \<notin> {F_DUPFD, F_DUPFD_CLOEXEC}" by blast
  then show ?thesis
  proof cases
    case 1
    then show ?thesis
      by (intro dup [where g = "\<lambda>i. flag_reset O_CLOEXEC_BIT (i\<lparr>fi_fd := ret_fd s\<rparr>)"])
        (simp_all add: Fcntl_updateFDTracking_def prog_defs track_def duplicates_fd_def Let_def)
  next
    case 2
    then show ?thesis
      by (intro dup [where g = "\<lambda>i. flag_set O_CLOEXEC_BIT (ensureFlags (i\<lparr>fi_fd := ret_fd s\<rparr>))"])
        (simp_all add: Fcntl_updateFDTracking_def prog_defs track_def duplicates_fd_def Let_def)
  next
    case 3
    then have "fd_spec ''FcntlSystemCall'' tv s T = T" for T
      by (simp add: fd_spec_def fds_opened_def duplicates_fd_def returns_new_fd_def)
    with 3 show ?thesis
      by (auto intro!: tracksI simp: Fcntl_updateFDTracking_def prog_defs Let_def tracked_update split: option.splits if_splits)
  qed
qed

text \<open>A program that opens the descriptors \<open>X\<close>, one after the other.\<close>

lemma tracks_opens:
  assumes "\<And>T. fd_spec cls tv s T = T \<union> (X - {FD_INVALID})" and "\<And>m. P m = (Inr (), fold trackFD L m)"
    and "fi_fd ` set L - {FD_INVALID} = X - {FD_INVALID}"
  shows "tracks P (fd_spec cls tv s)"
proof -
  have "tracked (fold trackFD L m) = tracked m \<union> (fi_fd ` set L - {FD_INVALID})" for m
    by (induction L arbitrary: m) (auto simp: tracked_track)
  with assms show ?thesis by (auto intro!: tracksI)
qed

lemma run_tracks:
  "skipE m = (Inr (), fold trackFD [] m)" "track i m = (Inr (), fold trackFD [i] m)"
  "seqE (track i) (track j) m = (Inr (), fold trackFD [i, j] m)"
  by (simp_all add: track_def prog_defs)

lemma Pipe_tracks:
  assumes "cls \<in> {''PipeSystemCall'', ''Pipe2SystemCall''}"
  shows "tracks (Pipe_updateFDTracking s) (fd_spec cls tv s)"
proof -
  have spec: "fd_spec cls tv s T = T \<union> (pipe_fds (sc_pars s ! 0) - {FD_INVALID})" for T
    using assms unfolding insert_iff empty_iff
    by (elim disjE) (simp_all add: fd_spec_def fds_opened_def duplicates_fd_def returns_new_fd_def)
  show ?thesis
  proof (cases "it_data (sc_pars s ! 0)")
    case None
    then show ?thesis
      by (intro tracks_opens [where L = "[]", OF spec])
        (simp_all add: Pipe_updateFDTracking_def pipe_fds_def run_tracks)
  next
    case (Some ends)
    show ?thesis
    proof (cases "field_int 0 ends = FD_INVALID \<or> field_int 4 ends = FD_INVALID")
      case True
      with Some show ?thesis
        by (intro tracks_opens [where L = "[]", OF spec])
          (auto simp add: Pipe_updateFDTracking_def pipe_fds_def run_tracks Let_def)
    next
      case False
      with Some show ?thesis
        by (intro tracks_opens [where L =
              "[(FDInfo PIPE (field_int 0 ends))\<lparr>fi_mode := Some 0\<rparr>, (FDInfo PIPE (field_int 4 ends))\<lparr>fi_mode := Some 1\<rparr>]", OF spec])
          (auto simp add: Pipe_updateFDTracking_def pipe_fds_def run_tracks Let_def FDInfo_def)
    qed
  qed
qed

lemma SignalFD_tracks:
  assumes "cls \<in> {''SignalFDSystemCall'', ''SignalFD4SystemCall''}" "fi_fd i = ret_fd s"
  shows "tracks (if par_int s 0 = ret_fd s then skipE else track i) (fd_spec cls tv s)"
proof -
  have spec: "fd_spec cls tv s T = T \<union> ({ret_fd s} - {par_int s 0} - {FD_INVALID})" for T
    using assms unfolding insert_iff empty_iff
    by (elim disjE) (simp_all add: fd_spec_def fds_opened_def duplicates_fd_def returns_new_fd_def)
  show ?thesis
    by (rule tracks_opens [where L = "if par_int s 0 = ret_fd s then [] else [i]", OF spec])
      (auto simp: run_tracks assms(2))
qed

lemma Clone3_tracks: "tracks (Clone3_updateFDTracking s) (fd_spec ''Clone3SystemCall'' tv s)"
proof -
  have spec: "fd_spec ''Clone3SystemCall'' tv s T = T \<union> (clone3_fds (sc_pars s ! 0) - {FD_INVALID})" for T
    by (simp add: fd_spec_def fds_opened_def duplicates_fd_def returns_new_fd_def)
  let ?fd = "field_int 0 (it_more (sc_pars s ! 0) ! 1)"
  show ?thesis
    by (rule tracks_opens [where L = "case it_data (sc_pars s ! 0) of None \<Rightarrow> []
        | Some args \<Rightarrow> if bit (field_ptr 0 8 args) CLONE_PIDFD then [FDInfo PID_FD ?fd] else []", OF spec])
      (simp_all add: Clone3_updateFDTracking_def clone3_fds_def run_tracks split: option.split)
qed

lemma PIDFDGetFD_tracks: "tracks (PIDFDGetFD_updateFDTracking tv s) (fd_spec ''PIDFDGetFDSystemCall'' tv s)"
proof -
  have spec: "fd_spec ''PIDFDGetFDSystemCall'' tv s T = T \<union> (pidfd_getfd_fds tv (ret_fd s) - {FD_INVALID})" for T
    by (simp add: fd_spec_def fds_opened_def duplicates_fd_def returns_new_fd_def)
  show ?thesis
  proof (cases "get_fd_infos (tv_text tv) (tv_proc tv)")
    case (Inl e)
    show ?thesis
    proof (cases "is_undefined e")
      case True
      with Inl show ?thesis by (auto intro!: tracksI simp: PIDFDGetFD_updateFDTracking_def prog_defs)
    next
      case False
      with Inl show ?thesis
        by (intro tracks_opens [where L = "[FDInfo FD_UNKNOWN (ret_fd s)]", OF spec])
          (simp_all add: PIDFDGetFD_updateFDTracking_def pidfd_getfd_fds_def run_tracks)
    qed
  next
    case (Inr infos)
    show ?thesis
    proof (cases "find (\<lambda>info. fi_fd info = ret_fd s) infos")
      case None
      then have "ret_fd s \<notin> fi_fd ` set infos" by (auto simp: find_None_iff)
      with Inr None show ?thesis
        by (intro tracks_opens [where L = "[]", OF spec])
          (simp_all add: PIDFDGetFD_updateFDTracking_def pidfd_getfd_fds_def run_tracks)
    next
      case (Some info)
      then have "fi_fd info = ret_fd s" "info \<in> set infos" by (auto simp: find_Some_iff)
      then have "fi_fd info = ret_fd s" "ret_fd s \<in> fi_fd ` set infos" by force+
      with Inr Some show ?thesis
        by (intro tracks_opens [where L = "[info]", OF spec])
          (simp_all add: PIDFDGetFD_updateFDTracking_def pidfd_getfd_fds_def run_tracks)
    qed
  qed
qed

lemma Close_tracks: "tracks (updE (dropFD (par_int s 0))) (fd_spec ''CloseSystemCall'' tv s)"
  by (rule tracksI) (auto simp: prog_defs tracked_drop fd_spec_def)


lemmas tracking_classes = OpenSystemCall_def OpenAtSystemCall_def EventFDSystemCall_def EventFD2SystemCall_def
  EPollCreateSystemCall_def PIDFDOpenSystemCall_def DupSystemCall_def Dup2SystemCall_def Dup3SystemCall_def
  FcntlSystemCall_def SignalFDSystemCall_def SignalFD4SystemCall_def PipeSystemCall_def Pipe2SystemCall_def
  Clone3SystemCall_def PIDFDGetFDSystemCall_def CloseSystemCall_def dup_class_def pipe_class_def

lemmas trackings = Open_updateFDTracking_def EventFD2_updateFDTracking_def PIDFDOpen_updateFDTracking_def
  SignalFD_updateFDTracking_def SignalFD4_updateFDTracking_def

lemma with_items_fdtrack [simp]: "cc_fdtrack (with_items c) = cc_fdtrack c"
  by (simp add: with_items_def)

lemma FDInfo_upd_fd [simp]: "fi_fd ((FDInfo ty fd)\<lparr>fi_flags := fl\<rparr>) = fd" "fi_fd ((FDInfo ty fd)\<lparr>fi_path := p, fi_mode := md, fi_flags := fl\<rparr>) = fd"
  by (simp_all add: FDInfo_def)

lemma opening_tracks:
  "tracks (cc_fdtrack (OpenSystemCall t) tv s) (fd_spec ''OpenSystemCall'' tv s)"
  "tracks (cc_fdtrack (OpenAtSystemCall t) tv s) (fd_spec ''OpenAtSystemCall'' tv s)"
  "tracks (cc_fdtrack EventFDSystemCall tv s) (fd_spec ''EventFDSystemCall'' tv s)"
  "tracks (cc_fdtrack EventFD2SystemCall tv s) (fd_spec ''EventFD2SystemCall'' tv s)"
  "tracks (cc_fdtrack EPollCreateSystemCall tv s) (fd_spec ''EPollCreateSystemCall'' tv s)"
  "tracks (cc_fdtrack PIDFDOpenSystemCall tv s) (fd_spec ''PIDFDOpenSystemCall'' tv s)"
  by (simp_all add: tracking_classes trackings tracks_new returns_new_fd_def)

lemma other_tracks:
  "tracks (cc_fdtrack DupSystemCall tv s) (fd_spec ''DupSystemCall'' tv s)"
  "tracks (cc_fdtrack Dup2SystemCall tv s) (fd_spec ''Dup2SystemCall'' tv s)"
  "tracks (cc_fdtrack Dup3SystemCall tv s) (fd_spec ''Dup3SystemCall'' tv s)"
  "tracks (cc_fdtrack FcntlSystemCall tv s) (fd_spec ''FcntlSystemCall'' tv s)"
  "tracks (cc_fdtrack SignalFDSystemCall tv s) (fd_spec ''SignalFDSystemCall'' tv s)"
  "tracks (cc_fdtrack SignalFD4SystemCall tv s) (fd_spec ''SignalFD4SystemCall'' tv s)"
  "tracks (cc_fdtrack PipeSystemCall tv s) (fd_spec ''PipeSystemCall'' tv s)"
  "tracks (cc_fdtrack Pipe2SystemCall tv s) (fd_spec ''Pipe2SystemCall'' tv s)"
  "tracks (cc_fdtrack Clone3SystemCall tv s) (fd_spec ''Clone3SystemCall'' tv s)"
  "tracks (cc_fdtrack PIDFDGetFDSystemCall tv s) (fd_spec ''PIDFDGetFDSystemCall'' tv s)"
  "tracks (cc_fdtrack CloseSystemCall tv s) (fd_spec ''CloseSystemCall'' tv s)"
  by (simp_all add: tracking_classes trackings Dup_tracks Fcntl_tracks SignalFD_tracks Pipe_tracks Clone3_tracks
      PIDFDGetFD_tracks Close_tracks)

lemma silent_tracks:
  "cls \<notin> set tracking_names \<Longrightarrow> cc_fdtrack c = (\<lambda>_ _. skipE) \<Longrightarrow> tracks (cc_fdtrack c tv s) (fd_spec cls tv s)"
  by (simp add: tracks_skip fd_spec_other)

lemma silent_classes [simp]:
  "cc_fdtrack MmapSystemCall = (\<lambda>_ _. skipE)" "cc_fdtrack CloneSystemCall = (\<lambda>_ _. skipE)"
  "cc_fdtrack (GetXIDSystemCall ID_T) = (\<lambda>_ _. skipE)" "cc_fdtrack GetPGIDSystemCall = (\<lambda>_ _. skipE)"
  "cc_fdtrack GetSIDSystemCall = (\<lambda>_ _. skipE)" "cc_fdtrack WaitIDSystemCall = (\<lambda>_ _. skipE)"
  "cc_fdtrack FutexSystemCall = (\<lambda>_ _. skipE)" "cc_fdtrack StatFSSystemCall = (\<lambda>_ _. skipE)"
  "cc_fdtrack FStatFSSystemCall = (\<lambda>_ _. skipE)" "cc_fdtrack (FAdviseSystemCall a) = (\<lambda>_ _. skipE)"
  "cc_fdtrack SelectSystemCall = (\<lambda>_ _. skipE)"
  by (simp_all add: MmapSystemCall_def CloneSystemCall_def GetXIDSystemCall_def GetPGIDSystemCall_def
      GetSIDSystemCall_def WaitIDSystemCall_def FutexSystemCall_def StatFSSystemCall_def
      FStatFSSystemCall_def FAdviseSystemCall_def SelectSystemCall_def)

lemma dynamic_tracks:
  "(cls, c) \<in> set (dynamic_classes a t) \<Longrightarrow> tracks (cc_fdtrack c tv s) (fd_spec cls tv s)"
  unfolding dynamic_classes_def list.set insert_iff empty_iff prod.inject
  by (elim disjE; (elim conjE)?; hypsubst?)
    (simp_all only: opening_tracks other_tracks silent_tracks silent_classes, simp_all add: tracks_skip fd_spec_other tracking_names_def)

lemma modelled_tracks:
  assumes "(cls, c) \<in> set (static_classes @ dynamic_classes a t)"
  shows "tracks (cc_fdtrack c tv s) (fd_spec cls tv s)"
proof (cases "(cls, c) \<in> set static_classes")
  case True
  then show ?thesis using static_tracks silent_tracks by blast
next
  case False
  then show ?thesis using assms dynamic_tracks by auto
qed

lemma info_irrelevant [simp]:
  "ret_fd (s\<lparr>sc_info := x\<rparr>) = ret_fd s" "par_int (s\<lparr>sc_info := x\<rparr>) n = par_int s n"
  "fcntl_operation (s\<lparr>sc_info := x\<rparr>) = fcntl_operation s" "duplicates_fd cls (s\<lparr>sc_info := x\<rparr>) = duplicates_fd cls s"
  by (simp_all add: ret_fd_def par_int_def fcntl_operation_def duplicates_fd_def)

lemma fd_spec_info [simp]: "fd_spec cls tv (s\<lparr>sc_info := x\<rparr>) T = fd_spec cls tv s T"
  by (simp add: fd_spec_def fds_opened_def)

lemma setExitInfo_InrE:
  assumes "setExitInfo c tv info (s, m) = (Inr (), (s', m'))"
  obtains exit u where "si_kind info = InfoExit exit" "setExitInfo_pars c tv exit info s = (Inr (), u)"
    "s' = u\<lparr>sc_info := None\<rparr>"
    "case exit of ExitValue _ \<Rightarrow> cc_fdtrack c tv u m = (Inr (), m') | ExitError _ \<Rightarrow> m' = m"
  using assms by (auto simp: setExitInfo_def split: info_kind.splits prod.splits sum.splits exit_info.splits)


definition demo_exit :: "word64 \<Rightarrow> sysinfo" where
  "demo_exit v = (demo_info SYS_DUP)\<lparr>si_kind := InfoExit (ExitValue v)\<rparr>"

definition demo_dup :: syscall where
  "demo_dup = (demo_call DupSystemCall)\<lparr>sc_pars := [(val ''FileDescriptor'' ''oldfd'')\<lparr>it_val := 3\<rparr>]\<rparr>"

lemma dup_listed: "(''DupSystemCall'', DupSystemCall) \<in> set (static_classes @ dynamic_classes arch_x86_64 (\<lambda>_. False))"
  by (simp add: dynamic_classes_def)

text \<open>The exit of a call without output parameters.\<close>

lemma update_loop_none:
  "(\<forall>n\<in>set ns. \<not> needsUpdate (sc_pars s ! n)) \<Longrightarrow> update_loop c tv ns ds s = (Inr ds, s)"
  by (induction ns arbitrary: ds) (simp_all add: prog_defs)

lemma exit_without_output:
  assumes "\<not> hasOutParameter s" "cc_post c tv = skipE"
  shows "setExitInfo_pars c tv (ExitValue v) info s = (Inr (), s\<lparr>sc_info := Some info, sc_error := None, sc_return := v\<rparr>)"
  using assms by (simp add: setExitInfo_pars_def hasOutParameter_def list_ex_iff update_loop_none prog_defs)

lemma static_fields [simp]:
  "cc_pars (numbered_class r ps) = (\<lambda>_. ps)" "cc_pars (static_class nr r ps) = (\<lambda>_. ps)"
  "cc_members (numbered_class r ps) = (\<lambda>_. [])" "cc_members (static_class nr r ps) = (\<lambda>_. [])"
  "cc_nr (static_class nr r ps) = (\<lambda>_. nr)" "cc_nr (numbered_class r ps) = id" "cc_nr (with_items c) = cc_nr c"
  by (simp_all add: numbered_class_def static_class_def with_items_def base_class_def)

lemma dup_fields [simp]:
  "cc_prepare (dup_class nr extra) = skipE" "cc_2nd (dup_class nr extra) = (\<lambda>_. ret False)"
  "cc_post (dup_class nr extra) = (\<lambda>_. skipE)" "cc_fdtrack (dup_class nr extra) = (\<lambda>_. Dup_updateFDTracking)"
  "cc_pars (dup_class nr extra) = (\<lambda>_. val ''FileDescriptor'' ''oldfd'' # extra)"
  by (simp_all add: dup_class_def)

lemma si_kind_demo_exit [simp]: "si_kind (demo_exit v) = InfoExit (ExitValue v)"
  by (simp add: demo_exit_def)

lemma demo_dup_run: "setExitInfo DupSystemCall demo_view (demo_exit 7) (demo_dup, [(3, FDInfo PIPE 3)]) =
    (Inr (), (demo_dup\<lparr>sc_error := None, sc_return := 7\<rparr>, [(3, FDInfo PIPE 3), (7, FDInfo PIPE 7)]))"
proof -
  have "\<not> hasOutParameter demo_dup" "cc_post DupSystemCall demo_view = skipE"
    by (simp_all add: hasOutParameter_def demo_dup_def needsUpdate_def val_def item_of_def new_item_def
        DupSystemCall_def dup_class_def)
  note run = exit_without_output [OF this]
  have v: "as_int 7 = 7" "as_int 3 = 3" by code_simp+
  have "smap_insert (7 :: int) i [(3, j)] = (True, [(3, j), (7, i)])" for i j :: fd_info
    by (simp add: smap_insert_def smap_find_def)
  then show ?thesis
    using run [of 7 "demo_exit 7"]
    by (simp add: setExitInfo_def DupSystemCall_def Dup_updateFDTracking_def si_kind_demo_exit
        par_int_def ret_fd_def v track_def trackFD_def FDInfo_def FDInfo_default_def smap_find_def prog_defs)
      (simp add: demo_dup_def demo_call_def v)
qed


section \<open>Classes without a second pass keep to the protocol\<close>

definition small_list :: "signature \<Rightarrow> bool" where
  "small_list l \<longleftrightarrow> length l \<le> 6"

lemma plain_protocol:
  assumes "call_contract c" "\<And>nr. length (cc_pars c nr) \<le> 6" "cc_prepare c = skipE"
    and "cc_2nd c = (\<lambda>_. ret False)" "cc_post c = (\<lambda>_. skipE)"
  shows "call_protocol c small_list small_list"
proof (rule call_protocol.intro [OF assms(1)], rule call_protocol_axioms.intro)
qed (use assms in \<open>auto simp: small_list_def prog_defs\<close>)

section \<open>dup2 onto a tracked descriptor\<close>

text \<open>C21: dup2(2) and dup3(2) close their second descriptor first, so the new information should replace
  the old one; but when the target is already tracked, a successful call leaves its entry
  as it was: the map still describes the file that was closed.\<close>

theorem dup2_keeps_stale_entry:
  assumes "c \<in> {Dup2SystemCall, Dup3SystemCall}"
    and "setExitInfo c tv info (s, m) = (Inr (), (s', m'))" "si_kind info = InfoExit (ExitValue newfd)"
    and "smap_find m (as_int newfd) = Some stale"
  shows "m' = m \<and> smap_find m' (as_int newfd) = Some stale"
proof -
  obtain u where u: "setExitInfo_pars c tv (ExitValue newfd) info s = (Inr (), u)"
    and fds: "cc_fdtrack c tv u m = (Inr (), m')"
    by (rule setExitInfo_InrE [OF assms(2)]) (use assms(3) in auto)
  have "call_protocol c small_list small_list"
    using assms(1) dup2.call_contract_axioms dup3.call_contract_axioms
    by (auto intro!: plain_protocol) (simp_all add: Dup2SystemCall_def Dup3SystemCall_def)
  from call_protocol.setExitInfo_frame [OF this u] have "sc_return u = newfd"
    unfolding call_frame_def call_head_def by simp
  then have ret: "ret_fd u = as_int newfd" by (simp add: ret_fd_def)
  have "cc_fdtrack c = (\<lambda>_. Dup_updateFDTracking)"
    using assms(1) by (auto simp: Dup2SystemCall_def Dup3SystemCall_def)
  with fds assms(4) ret show ?thesis
    by (auto simp: Dup_updateFDTracking_def prog_defs track_def trackFD_eq smap.insert_old split: option.splits)
qed


definition demo_dup2 :: syscall where
  "demo_dup2 = (demo_call Dup2SystemCall)\<lparr>sc_pars := [(val ''FileDescriptor'' ''oldfd'')\<lparr>it_val := 3\<rparr>,
     (val ''FileDescriptor'' ''newfd'')\<lparr>it_val := 7\<rparr>]\<rparr>"

lemma demo_dup2_run:
  "setExitInfo Dup2SystemCall demo_view (demo_exit 7) (demo_dup2, [(3, FDInfo PIPE 3), (7, FDInfo SOCKET 7)]) =
    (Inr (), (demo_dup2\<lparr>sc_error := None, sc_return := 7\<rparr>, [(3, FDInfo PIPE 3), (7, FDInfo SOCKET 7)]))"
proof -
  have "\<not> hasOutParameter demo_dup2" "cc_post Dup2SystemCall demo_view = skipE"
    by (simp_all add: hasOutParameter_def demo_dup2_def needsUpdate_def val_def item_of_def new_item_def
        Dup2SystemCall_def)
  note run = exit_without_output [OF this]
  have v: "as_int 7 = 7" "as_int 3 = 3" by code_simp+
  have "smap_insert (7 :: int) i [(3, j), (7, k)] = (False, [(3, j), (7, k)])" for i j k :: fd_info
    by (simp add: smap_insert_def smap_find_def)
  then show ?thesis
    using run [of 7 "demo_exit 7"]
    by (simp add: setExitInfo_def Dup2SystemCall_def Dup_updateFDTracking_def
        par_int_def ret_fd_def v track_def trackFD_def FDInfo_def FDInfo_default_def smap_find_def prog_defs)
      (simp add: demo_dup2_def demo_call_def v)
qed

theorem dup2_keeps_stale_entry_witness:
  "smap_find [(3, FDInfo PIPE 3), (7, FDInfo SOCKET 7)] (as_int 7) = Some (FDInfo SOCKET 7)"
proof -
  have "as_int 7 = 7" by code_simp
  then have "smap_find [(3, FDInfo PIPE 3), (7, FDInfo SOCKET 7)] (as_int 7) = Some (FDInfo SOCKET 7)"
    by (simp add: smap_find_def)
  from dup2_keeps_stale_entry [OF _ demo_dup2_run si_kind_demo_exit this] show ?thesis by simp
qed

section \<open>The arguments of clone(2)\<close>

definition clone_sig :: signature where
  "clone_sig = map par_sig [val ''CloneFlagsValue'' ''flags'', val ''GenericPointerValue'' ''stack'']"

definition clone_object :: "signature \<Rightarrow> bool" where
  "clone_object l \<longleftrightarrow> take 2 l = clone_sig \<and> length l \<le> 6"

lemma clone_fields:
  "cc_prepare CloneSystemCall = updE (dropParameters 2)" "cc_2nd CloneSystemCall = (\<lambda>_. Clone_check2ndPass)"
  "cc_post CloneSystemCall = (\<lambda>_. skipE)"
  "cc_pars CloneSystemCall nr = [val ''CloneFlagsValue'' ''flags'', val ''GenericPointerValue'' ''stack'']"
  by (simp_all add: CloneSystemCall_def)

lemma Clone_pars_prefix: "\<exists>ps. Clone_pars s = sc_pars s @ ps"
  by (simp add: Clone_pars_def add_settls_def add_settid_def add_unused_def Let_def)

lemma length_clone_sig [simp]: "length clone_sig = 2"
  by (simp add: clone_sig_def)

lemma signature_prefix: "sc_pars s' = sc_pars s @ ps \<Longrightarrow> signature s = clone_sig \<Longrightarrow> take 2 (signature s') = clone_sig"
  using length_clone_sig by (simp add: signature_def del: length_clone_sig)

interpretation clone_run: call_protocol CloneSystemCall "\<lambda>l. l = clone_sig" clone_object
proof (unfold_locales, goal_cases)
  case (1 nr)
  show ?case by (simp add: clone_object_def clone_sig_def clone_fields)
next
  case (2 s s')
  then show ?case
    by (auto simp: clone_fields prog_defs dropParameters_def signature_def clone_object_def call_head_def take_map)
next
  case (3 s tv again s')
  then have "length (sc_pars s) = 2" using length_clone_sig by (metis length_map signature_def)
  moreover have "s' = s\<lparr>sc_pars := Clone_pars s\<rparr>" "again \<longleftrightarrow> 2 < length (Clone_pars s)"
    using 3 by (auto simp: clone_fields Clone_check2ndPass_def prog_defs)
  moreover obtain ps where "Clone_pars s = sc_pars s @ ps" using Clone_pars_prefix by blast
  ultimately show ?case
    using 3(1) length_Clone_pars [of s] signature_prefix [of s' s ps]
    by (auto simp: clone_object_def call_head_def) (simp add: signature_def)
next
  case (5 l)
  then show ?case by (auto simp: clone_object_def)
qed (simp add: clone_fields prog_defs)

text \<open>
  The manual page: which words the raw system call takes on the two families of architectures, and
  which flag makes the kernel use the word.
\<close>

definition clone_args_of :: "abi \<Rightarrow> string list" where
  "clone_args_of abi = (if abi = ABI_X86_64 \<or> abi = ABI_X32
     then [''flags'', ''stack'', ''parent_tid'', ''child_tid'', ''tls'']
     else [''flags'', ''stack'', ''parent_tid'', ''tls'', ''child_tid''])"

definition clone_uses :: "word64 \<Rightarrow> string \<Rightarrow> bool" where
  "clone_uses flags nm \<longleftrightarrow>
     nm \<in> {''flags'', ''stack''} \<or> nm = ''parent_tid'' \<and> (bit flags CLONE_PARENT_SETTID \<or> bit flags CLONE_PIDFD) \<or>
     nm = ''child_tid'' \<and> bit flags CLONE_CHILD_SETTID \<or> nm = ''tls'' \<and> bit flags CLONE_SETTLS"

definition clone_label :: "word64 \<Rightarrow> string \<Rightarrow> string" where
  "clone_label flags nm = (if nm = ''parent_tid'' \<and> \<not> bit flags CLONE_PARENT_SETTID then ''pidfd'' else nm)"

lemma bit_high: "8 \<le> n \<Longrightarrow> n < 64 \<Longrightarrow> bit ((w :: word64) AND NOT 0xFF) n = bit w n"
proof -
  assume n: "8 \<le> n" "n < 64"
  have "(0xFF :: word64) = mask 8" by (simp add: mask_eq_exp_minus_1)
  then have "\<not> bit (0xFF :: word64) n" using n by (simp only: bit_mask_iff) simp
  then show ?thesis using n by (simp only: bit_and_iff bit_not_iff) simp
qed

text \<open>What \<open>Clone_pars\<close> makes of the two parameters, at each position.\<close>

lemma Clone_pars_layout:
  assumes "length (sc_pars s) = 2" "map it_name (sc_pars s) = [''flags'', ''stack'']"
    and "sc_abi s \<in> {ABI_X86_64, ABI_X32, ABI_AARCH64, ABI_I386}" "w = it_val (sc_pars s ! 0)"
  shows "length (Clone_pars s) \<le> 5 \<and> (\<forall>i<5. let nm = clone_args_of (sc_abi s) ! i in
     if clone_uses w nm then i < length (Clone_pars s) \<and> it_name (Clone_pars s ! i) = clone_label w nm
     else length (Clone_pars s) \<le> i \<or> it_unused (Clone_pars s ! i))"
proof -
  obtain a b where ab: "sc_pars s = [a, b]" using assms(1)
    by (metis (no_types) One_nat_def Suc_1 length_0_conv length_Suc_conv)
  then have nm: "it_name a = ''flags''" "it_name b = ''stack''" using assms(2) by simp_all
  have flag: "clone_flag s n \<longleftrightarrow> bit w n" if "8 \<le> n" "n < 64" for n
    using that assms(4) by (simp only: clone_flag_def bit_high)
  have less5: "(\<forall>i<5. P i) \<longleftrightarrow> P 0 \<and> P (Suc 0) \<and> P (Suc (Suc 0)) \<and> P (Suc (Suc (Suc 0))) \<and> P (Suc (Suc (Suc (Suc 0))))" for P
    by (auto simp: eval_nat_numeral less_Suc_eq)
  have new: "it_unused (item_of k t l) = False" "it_name (item_of k t l) = l" "it_unused (val cls l) = False"
    "it_name (val cls l) = l" "it_unused unused_item" for k t l cls
    by (simp_all add: item_of_def new_item_def val_def unused_item_def)
  define P Q T C where b: "P = bit w CLONE_PARENT_SETTID" "Q = bit w CLONE_PIDFD" "T = bit w CLONE_SETTLS"
    "C = bit w CLONE_CHILD_SETTID"
  have flags: "clone_flag s CLONE_PARENT_SETTID = P" "clone_flag s CLONE_PIDFD = Q" "clone_flag s CLONE_SETTLS = T"
    "clone_flag s CLONE_CHILD_SETTID = C"
    by (simp_all add: flag b)
  have uses: "clone_uses w ''flags''" "clone_uses w ''stack''" "clone_uses w ''parent_tid'' \<longleftrightarrow> P \<or> Q"
    "clone_uses w ''child_tid'' = C" "clone_uses w ''tls'' = T"
    "clone_label w ''flags'' = ''flags''" "clone_label w ''stack'' = ''stack''"
    "clone_label w ''parent_tid'' = (if P then ''parent_tid'' else ''pidfd'')"
    "clone_label w ''child_tid'' = ''child_tid''" "clone_label w ''tls'' = ''tls''"
    by (simp_all add: clone_uses_def clone_label_def b)
  have two: "replicate 2 x = [x, x]" "replicate (Suc 0) x = [x]" for x :: item by (simp_all add: numeral_2_eq_2)
  show ?thesis
  proof (cases "sc_abi s = ABI_X86_64 \<or> sc_abi s = ABI_X32")
    case True
    then have args: "clone_args_of (sc_abi s) = [''flags'', ''stack'', ''parent_tid'', ''child_tid'', ''tls'']"
      by (simp add: clone_args_of_def)
    show ?thesis using True ab nm
      by (cases P; cases Q; cases T; cases C)
        (simp_all add: less5 args uses flags Clone_pars_def add_settls_def add_settid_def add_unused_def new two)
  next
    case False
    then have args: "clone_args_of (sc_abi s) = [''flags'', ''stack'', ''parent_tid'', ''tls'', ''child_tid'']"
      by (simp add: clone_args_of_def)
    have abi: "sc_abi s = ABI_AARCH64 \<or> sc_abi s = ABI_I386" using False assms(3) by blast
    show ?thesis using False abi ab nm
      by (cases P; cases Q; cases T; cases C)
        (simp_all add: less5 args uses flags Clone_pars_def add_settls_def add_settid_def add_unused_def new two)
  qed
qed

text \<open>The first pass: the two fixed parameters are filled, and the flags are known.\<close>

lemma clone_first_pass:
  assumes "setEntryInfo CloneSystemCall tv info s = (Inr (), s')" "isEntry info" "clone_object (signature s)"
  obtains s2 s4 where "signature s2 = clone_sig" "sc_abi s2 = si_abi info"
    "map it_val (sc_pars s2) = take 2 (entry_args info)"
    "(if 2 < length (Clone_pars s2) then fillParameters CloneSystemCall tv info else skipE)
       (s2\<lparr>sc_pars := Clone_pars s2\<rparr>) = (Inr (), s4)" "s' = s4\<lparr>sc_info := None\<rparr>"
proof -
  let ?s1 = "dropParameters 2 (s\<lparr>sc_abi := si_abi info, sc_error := Some (ErrnoResult ENODATA), sc_info := Some info\<rparr>)"
  obtain s2 s4 where
    run: "fillParameters CloneSystemCall tv info ?s1 = (Inr (), s2)"
      "(if 2 < length (Clone_pars s2) then fillParameters CloneSystemCall tv info else skipE)
         (s2\<lparr>sc_pars := Clone_pars s2\<rparr>) = (Inr (), s4)" "s' = s4\<lparr>sc_info := None\<rparr>"
    using assms(1)
    by (auto simp: setEntryInfo_def clone_fields Clone_check2ndPass_def prog_defs
        split: prod.splits sum.splits)
  have sig1: "signature ?s1 = clone_sig"
    using assms(3) by (simp add: clone_object_def signature_def dropParameters_def take_map)
  then have "signature ?s1 = clone_sig \<or> clone_object (signature ?s1)" by blast
  note f2 = clone_run.fill_ready [OF run(1) length_entry_args [OF assms(2)] this]
  have sig2: "signature s2 = clone_sig" by (rule trans [OF f2(1) sig1])
  have abi2: "sc_abi s2 = si_abi info" using f2(2) by (simp add: call_head_def dropParameters_def)
  have "length (sc_pars s2) = 2" using sig2 length_clone_sig by (metis length_map signature_def)
  with that [OF sig2 abi2 _ run(2,3)] f2(3) show thesis by simp
qed

text \<open>The second pass: the added parameters are filled, too.\<close>

lemma clone_second_pass:
  assumes "signature s2 = clone_sig" "map it_val (sc_pars s2) = take 2 (entry_args info)" "isEntry info"
    and "(if 2 < length (Clone_pars s2) then fillParameters CloneSystemCall tv info else skipE)
       (s2\<lparr>sc_pars := Clone_pars s2\<rparr>) = (Inr (), s4)"
  shows "signature s4 = map par_sig (Clone_pars s2) \<and> clone_object (signature s4) \<and>
    map it_val (sc_pars s4) = take (length (sc_pars s4)) (entry_args info)"
proof -
  let ?s3 = "s2\<lparr>sc_pars := Clone_pars s2\<rparr>"
  have len2: "length (sc_pars s2) = 2" using assms(1) length_clone_sig by (metis length_map signature_def)
  obtain ps where ps: "Clone_pars s2 = sc_pars s2 @ ps" using Clone_pars_prefix by blast
  have obj3: "clone_object (signature ?s3)"
    using signature_prefix [of ?s3 s2 ps] ps assms(1) length_Clone_pars [of s2] len2
    by (simp add: clone_object_def) (simp add: signature_def)
  have "signature s4 = signature ?s3 \<and> map it_val (sc_pars s4) = take (length (sc_pars s4)) (entry_args info)"
  proof (cases "2 < length (Clone_pars s2)")
    case True
    then have "fillParameters CloneSystemCall tv info ?s3 = (Inr (), s4)" using assms(4) by simp
    from clone_run.fill_ready [OF this length_entry_args [OF assms(3)]] obj3 show ?thesis by blast
  next
    case False
    then have "Clone_pars s2 = sc_pars s2" using ps len2 by simp
    then show ?thesis using False assms(2,4) len2 by (simp add: prog_defs)
  qed
  then show ?thesis using obj3 by (simp add: signature_def)
qed


definition clone_info :: sysinfo where
  "clone_info = (demo_info SYS_CLONE)\<lparr>si_kind := InfoEntry 0 (Six 0x1080000 2 3 4 5 6)\<rparr>"

lemma clone_info_sel [simp]: "entry_args clone_info = [0x1080000, 2, 3, 4, 5, 6]" "si_abi clone_info = ABI_X86_64"
  "isEntry clone_info"
  by (simp_all add: clone_info_def entry_args_def isEntry.simps demo_info_def)

lemma value_process [simp]: "it_kind i = K_Value x \<Longrightarrow> processData tv c i = (Inr (), i)"
  by (simp add: processData_def prog_defs)

lemma cc_process_clone: "cc_process CloneSystemCall tv n = on_par (processData tv) n"
  by (simp add: CloneSystemCall_def static_class_def numbered_class_def with_items_def)

lemma demo_clone_runs: "\<exists>s'. setEntryInfo CloneSystemCall demo_view clone_info (demo_call CloneSystemCall) = (Inr (), s')"
proof -
  have f: "bit (0x1080000 :: word64) 24" "bit (0x1080000 :: word64) 19" "\<not> bit (0x1080000 :: word64) 20" "\<not> bit (0x1080000 :: word64) 12"
    by code_simp+
  have k: "it_kind (val cls l) = K_Value cls" "it_defer (val cls l) = False" "it_unused (val cls l) = False"
     "it_unused unused_item" "it_defer unused_item = False" for cls l
    by (simp_all add: val_def item_of_def new_item_def unused_item_def)
  show ?thesis
    by (simp add: setEntryInfo_def clone_fields demo_call_def fillParameters_def item_fill_def par_set_val_def
        Clone_check2ndPass_def prog_defs dropParameters_def k cc_process_clone on_par_def f
        Clone_pars_def add_settls_def add_settid_def add_unused_def clone_flag_def bit_high Let_def)
qed



section \<open>Classes that only declare their parameters\<close>

text \<open>C23: for each of the classes whose parameter list is fixed (memory, signals, files, I/O and so on), one
  call from entry to exit leaves the object with exactly the parameters the class declares
  (item class, label, direction), each holding its argument word of the entry; and it ends with the
  outcome that the kernel reported, a value or an error, never both.\<close>

theorem static_call_shape:
  assumes "(cls, c) \<in> set static_classes" "signature s = map par_sig (cc_pars c nr)"
    and "setEntryInfo c tv info s = (Inr (), s1)" "isEntry info"
    and "setExitInfo c tv' info' (s1, m) = (Inr (), (s2, m2))" "si_kind info' = InfoExit exit"
  shows "signature s2 = map par_sig (cc_pars c nr) \<and>
    map it_val (sc_pars s2) = take (length (cc_pars c nr)) (entry_args info) \<and>
    sc_nr s2 = sc_nr s \<and> sc_abi s2 = si_abi info \<and> m2 = m \<and>
    (case exit of ExitValue v \<Rightarrow> hasResultValue s2 \<and> sc_return s2 = v
     | ExitError e \<Rightarrow> sc_error s2 = Some (ErrnoResult e))"
proof -
  obtain k where safe: "safe_class c k" using static_classes_safe [OF assms(1)] by blast
  have fields: "cc_prepare c = skipE" "cc_2nd c = (\<lambda>_. ret False)" "cc_post c = (\<lambda>_. skipE)"
    using assms(1) unfolding static_classes_def static_class_defs by auto
  have pars: "\<exists>ps. cc_pars c = (\<lambda>_. ps)"
    using assms(1) unfolding static_classes_def static_class_defs by auto
  obtain ps where ps: "\<And>nr. cc_pars c nr = ps" using pars by metis
  have "length ps \<le> 6" using safe_class.pars(1) [OF safe, of nr] by (simp add: ps)
  then have "call_protocol c (\<lambda>l. l = map par_sig ps) (\<lambda>l. l = map par_sig ps)"
    by (intro call_protocol.intro safe_class.axioms(1) [OF safe] call_protocol_axioms.intro)
      (auto simp: prog_defs fields ps)
  note protocol = this
  have n: "length (entry_args info) = 6" using assms(4) by (simp add: isEntry.simps)
  note entry = call_protocol.setEntryInfo_result [OF protocol assms(3) n assms(2) [unfolded ps]]
  note exit = call_protocol.setExitInfo_result [OF protocol assms(5,6)]
  have len: "length (sc_pars s1) = length ps"
    using entry by (metis length_map signature_def)
  have "m2 = m"
    by (rule setExitInfo_InrE [OF assms(5)])
      (simp add: static_tracks(1) [OF assms(1)] prog_defs split: exit_info.splits)
  moreover have "signature s2 = map par_sig ps" using entry exit by simp
  moreover have "map it_val (sc_pars s2) = take (length ps) (entry_args info)"
    using entry exit unfolding len by simp
  moreover have "sc_nr s2 = sc_nr s" "sc_abi s2 = si_abi info" using entry exit by simp_all
  moreover have "case exit of ExitValue v \<Rightarrow> hasResultValue s2 \<and> sc_return s2 = v
     | ExitError e \<Rightarrow> sc_error s2 = Some (ErrnoResult e)"
    using exit by (cases exit) simp_all
  ultimately show ?thesis unfolding ps by blast
qed

lemma umask_listed: "(''UmaskSystemCall'', UmaskSystemCall) \<in> set static_classes"
  by (simp add: static_classes_def)

lemma demo_umask_entry:
  "\<exists>s'. setEntryInfo UmaskSystemCall demo_view (demo_info SYS_UMASK) (demo_call UmaskSystemCall) = (Inr (), s')"
proof -
  have "cc_process UmaskSystemCall tv n = on_par (processData tv) n" for tv n
    by (simp add: UmaskSystemCall_def static_class_def numbered_class_def with_items_def)
  moreover have "cc_prepare UmaskSystemCall = skipE" "cc_2nd UmaskSystemCall = (\<lambda>_. ret False)"
    "cc_pars UmaskSystemCall nr = [val ''FileModeParameter'' ''mask'']" for nr
    by (simp_all add: UmaskSystemCall_def)
  moreover have "entry_args (demo_info SYS_UMASK) = [1, 2, 3, 4, 5, 6]"
    by (simp add: demo_info_def entry_args_def)
  ultimately show ?thesis
    by (simp add: setEntryInfo_def demo_call_def fillParameters_def item_fill_def par_set_val_def prog_defs
        on_par_def val_def item_of_def new_item_def)
qed

theorem static_call_shape_witness:
  "\<exists>s1 s2. setEntryInfo UmaskSystemCall demo_view (demo_info SYS_UMASK) (demo_call UmaskSystemCall) = (Inr (), s1) \<and>
     setExitInfo UmaskSystemCall demo_view (demo_exit 18) (s1, []) = (Inr (), (s2, [])) \<and>
     map it_val (sc_pars s2) = [1] \<and> sc_return s2 = 18"
proof -
  let ?c = UmaskSystemCall
  have c: "cc_pars ?c nr = [val ''FileModeParameter'' ''mask'']" "cc_post ?c = (\<lambda>_. skipE)" "cc_fdtrack ?c = (\<lambda>_ _. skipE)" for nr
    by (simp_all add: UmaskSystemCall_def)
  obtain s1 where entry: "setEntryInfo ?c demo_view (demo_info SYS_UMASK) (demo_call ?c) = (Inr (), s1)"
    using demo_umask_entry by blast
  have sig: "signature (demo_call ?c) = map par_sig (cc_pars ?c SYS_CLONE)"
    by (simp add: signature_def demo_call_def)
  have isE: "isEntry (demo_info SYS_UMASK)" by (simp add: demo_info_def isEntry.simps)
  have "call_protocol ?c (\<lambda>l. l = map par_sig (cc_pars ?c SYS_CLONE)) (\<lambda>l. l = map par_sig (cc_pars ?c SYS_CLONE))"
    using static_classes_safe [OF umask_listed]
    by (intro call_protocol.intro safe_class.axioms(1) call_protocol_axioms.intro)
      (auto simp: c prog_defs UmaskSystemCall_def)
  from call_protocol.setEntryInfo_result [OF this entry _ sig]
  have "signature s1 = map par_sig (cc_pars ?c SYS_CLONE)" by simp
  then have "\<not> hasOutParameter s1"
    by (auto simp: c signature_def hasOutParameter_def list_ex_iff map_eq_Cons_conv par_sig_def needsUpdate_def val_def
        item_of_def new_item_def)
  note pars = exit_without_output [where c = ?c, OF this, of demo_view]
  obtain s2 where exit: "setExitInfo ?c demo_view (demo_exit 18) (s1, []) = (Inr (), (s2, []))"
    using pars [of 18 "demo_exit 18"] by (simp add: setExitInfo_def c prog_defs)
  from static_call_shape [OF umask_listed sig entry isE exit si_kind_demo_exit]
  have "map it_val (sc_pars s2) = [1]" "sc_return s2 = 18"
    by (simp_all add: c demo_info_def entry_args_def)
  with entry exit show ?thesis by (intro exI conjI)
qed

section \<open>The number of brk(2)\<close>

text \<open>
  The class that the factory creates for brk(2) carries the number of the removed break(2) instead.
\<close>

lemma brk_has_the_number_of_break:
  "factory_of plain_family SYS_BRK = New ''BreakSystemCall''" "cc_nr BreakSystemCall SYS_BRK = SYS_BREAK"
  "SYS_BREAK \<noteq> SYS_BRK"
proof -
  show "factory_of plain_family SYS_BRK = New ''BreakSystemCall''" by code_simp
  show "cc_nr BreakSystemCall SYS_BRK = SYS_BREAK" by (simp add: BreakSystemCall_def)
qed simp

end
