(* ===== verification/Buffer_Props.thy ===== *)
theory Buffer_Props
  imports Call_Props
begin

text \<open>
  What the buffers of system calls hold: the bytes that are in the memory of the tracee, as many as
  this call names, first a part of them and the rest when the client asks for it.
\<close>

section \<open>Memory as bytes\<close>

text \<open>
  \<open>mem_at peek a bs\<close>: the tracee has the bytes \<open>bs\<close> at \<open>a\<close>, so a word can be read at every address
  that has eight bytes of them from there on.
\<close>

definition mem_at :: "peek_fn \<Rightarrow> word64 \<Rightarrow> byte list \<Rightarrow> bool" where
  "mem_at peek a bs \<longleftrightarrow> (\<forall>k. k + 8 \<le> length bs \<longrightarrow>
     (\<exists>w. peek (a + of_nat k) = Inr w \<and> word_bytes w = take 8 (drop k bs)))"

lemma mem_at_drop:
  assumes "mem_at peek a bs" "k \<le> length bs"
  shows "mem_at peek (a + of_nat k) (drop k bs)"
  unfolding mem_at_def
proof (intro allI impI)
  fix j
  assume "j + 8 \<le> length (drop k bs)"
  then have "k + j + 8 \<le> length bs" using assms(2) by simp
  then obtain w where "peek (a + of_nat (k + j)) = Inr w" "word_bytes w = take 8 (drop (k + j) bs)"
    using assms(1) unfolding mem_at_def by blast
  then show "\<exists>w. peek (a + of_nat k + of_nat j) = Inr w \<and> word_bytes w = take 8 (drop j (drop k bs))"
    by (auto simp: add.assoc add.commute [of j k])
qed

lemma mem_at_reads:
  "mem_at peek a bs \<Longrightarrow> 8 * n \<le> length bs \<Longrightarrow>
     \<exists>ws. reads peek a ws \<and> length ws = n \<and> concat (map word_bytes ws) = take (8 * n) bs"
proof (induction n arbitrary: a bs)
  case 0
  then show ?case by (intro exI [of _ "[]"]) simp
next
  case (Suc n)
  have "0 + 8 \<le> length bs" using Suc.prems(2) by simp
  then obtain w where w: "peek a = Inr w" "word_bytes w = take 8 bs"
    using Suc.prems(1) unfolding mem_at_def by (auto dest!: spec [of _ 0])
  have "mem_at peek (next_word a) (drop 8 bs)"
    using mem_at_drop [OF Suc.prems(1), of 8] Suc.prems(2) by (simp add: next_word_def)
  moreover have "8 * n \<le> length (drop 8 bs)" using Suc.prems(2) by simp
  ultimately obtain ws where
    "reads peek (next_word a) ws" "length ws = n" "concat (map word_bytes ws) = take (8 * n) (drop 8 bs)"
    using Suc.IH by blast
  then show ?case using w
    by (intro exI [of _ "w # ws"]) (simp add: take_add [of 8 "8 * n", symmetric])
qed

lemma readBlob_mem:
  assumes "mem_at peek a bs" "0 < n" "n + 8 \<le> length bs"
  shows "readBlob peek a n n = Some (Inr (), take n bs)"
proof -
  have "8 * ((n + 7) div 8) \<le> n + 7" by simp
  then have "8 * ((n + 7) div 8) \<le> length bs" using assms(3) by linarith
  then obtain ws where ws: "reads peek a ws" "length ws = (n + 7) div 8"
    "concat (map word_bytes ws) = take (8 * ((n + 7) div 8)) bs"
    using mem_at_reads [OF assms(1)] by blast
  have "n \<le> 8 * ((n + 7) div 8)" by simp
  then show ?thesis
    using fillData_blob [OF ws(1), of "\<lparr>bf_left = n, bf_room = n, bf_out = []\<rparr>"] assms(2) ws(2,3)
    by (simp add: readBlob_def min_def)
qed

section \<open>Fetching in two steps\<close>

definition buffer_ok :: "tview \<Rightarrow> syscall \<Rightarrow> item_ref \<Rightarrow> item \<Rightarrow> byte list \<Rightarrow> bool" where
  "buffer_ok tv c ref i bs \<longleftrightarrow> it_type i = PARAM_IN \<and> it_val i \<noteq> 0 \<and> mem_at (tv_peek tv) (it_val i) bs \<and>
     ref_size c ref + 8 \<le> length bs \<and> tv_alloc tv (ref_size c ref) \<and> tv_alloc tv (min (tv_prefetch tv) (ref_size c ref))"

lemma fillBuffer_mem:
  assumes "buffer_ok tv c ref i bs" "m = min (tv_prefetch tv) (ref_size c ref)"
  shows "BufferPointer_processData tv c ref i = (Inr (), i\<lparr>it_data := Some (take m bs)\<rparr>)"
proof -
  have i: "isOut i = False" "it_val i \<noteq> 0" "availableBytes c ref i = ref_size c ref" "tv_alloc tv m"
    using assms by (simp_all add: buffer_ok_def isOut_def availableBytes_def)
  show ?thesis
  proof (cases "m = 0")
    case True
    then show ?thesis using i
      by (simp add: BufferPointer_processData_def fillBuffer_def allocE_def prog_defs put_data_def resize_def
          assms(2) [symmetric])
  next
    case False
    then have "readBlob (tv_peek tv) (it_val i) m m = Some (Inr (), take m bs)"
      using assms(1) by (intro readBlob_mem) (auto simp: buffer_ok_def assms(2))
    moreover have "length (take m bs) = m" using assms by (auto simp: buffer_ok_def)
    ultimately show ?thesis using i False
      by (simp add: BufferPointer_processData_def fillBuffer_def allocE_def prog_defs put_data_def vec_def
          assms(2) [symmetric])
  qed
qed

text \<open>C24: the data of an input buffer (write(2), sendto(2) and the like): at the entry exactly the first
  bytes of the tracee's buffer are fetched, up to the configured limit and never more than the
  size argument; and asking for the rest then gives the whole buffer, byte for byte.\<close>

theorem buffer_fetch_complete:
  assumes "buffer_ok tv c ref i bs"
  shows "\<exists>i1 i2. BufferPointer_processData tv c ref i = (Inr (), i1) \<and>
    it_data i1 = Some (take (min (tv_prefetch tv) (ref_size c ref)) bs) \<and>
    BufferPointer_fetchRemainingData tv c ref i1 = (Inr (), i2) \<and>
    it_data i2 = Some (take (ref_size c ref) bs)"
proof -
  define n m where nm: "n = ref_size c ref" "m = min (tv_prefetch tv) n"
  let ?i = "i\<lparr>it_data := Some (take m bs)\<rparr>"
  have ok: "n + 8 \<le> length bs" "tv_alloc tv n" "mem_at (tv_peek tv) (it_val i) bs" and m: "m \<le> n"
    using assms by (simp_all add: buffer_ok_def nm)
  then have len: "length (take m bs) = m" by simp
  have av: "availableBytes c ref ?i = n" using assms by (simp add: availableBytes_def isOut_def buffer_ok_def nm)
  have first: "BufferPointer_processData tv c ref i = (Inr (), ?i)"
    using fillBuffer_mem [OF assms] by (simp add: nm)
  have "BufferPointer_fetchRemainingData tv c ref ?i = (Inr (), ?i\<lparr>it_data := Some (take n bs)\<rparr>)"
  proof (cases "m = n")
    case True
    then show ?thesis using len av by (simp add: BufferPointer_fetchRemainingData_def prog_defs vec_def)
  next
    case False
    then have lt: "m < n" using m by simp
    have "mem_at (tv_peek tv) (it_val i + of_nat m) (drop m bs)"
      using ok m by (intro mem_at_drop) simp_all
    then have blob: "readBlob (tv_peek tv) (it_val i + of_nat m) (n - m) (n - m) = Some (Inr (), take (n - m) (drop m bs))"
      using lt ok by (intro readBlob_mem) auto
    have joined: "take m bs @ take (n - m) (drop m bs) = take n bs"
      using m by (metis le_add_diff_inverse take_add)
    have "length (take (n - m) (drop m bs)) = n - m" using ok by simp
    then show ?thesis using len av lt blob ok joined
      by (simp add: BufferPointer_fetchRemainingData_def allocE_def prog_defs put_data_def vec_def resize_def)
  qed
  with first show ?thesis by (intro exI conjI) (assumption, simp add: nm, assumption, simp add: nm)
qed


text \<open>A memory that holds the byte 42 everywhere, and a limit of five bytes.\<close>

definition filled_view :: tview where
  "filled_view = demo_view\<lparr>tv_prefetch := 5, tv_peek := (\<lambda>_. Inr 0x2A2A2A2A2A2A2A2A)\<rparr>"

lemma filled_mem: "mem_at (tv_peek filled_view) a (replicate n 0x2A)"
proof -
  have "word_bytes 0x2A2A2A2A2A2A2A2A = replicate 8 0x2A" by code_simp
  then show ?thesis by (auto simp: mem_at_def filled_view_def min_def)
qed

definition demo_write :: syscall where
  "demo_write = \<lparr>sc_class = ''WriteSystemCall'', sc_nr = SYS_WRITE, sc_abi = ABI_X86_64, sc_info = None, sc_error = None,
     sc_return = 0, sc_pars = cc_pars WriteSystemCall SYS_WRITE, sc_ret = cc_ret WriteSystemCall SYS_WRITE,
     sc_members = []\<rparr>"

definition demo_buffer :: item where
  "demo_buffer = (deferred (item_of (K_Buffer (OfParam 2)) PARAM_IN ''buf''))\<lparr>it_val := 4096\<rparr>"

lemma demo_buffer_ok:
  "buffer_ok filled_view (demo_write\<lparr>sc_pars := (sc_pars demo_write)[2 := (val ''SizeValue'' ''count'')\<lparr>it_val := 12\<rparr>]\<rparr>)
     (OfParam 2) demo_buffer (replicate 20 0x2A)"
  using filled_mem
  by (simp add: buffer_ok_def demo_buffer_def deferred_def item_of_def new_item_def ref_size_def demo_write_def
      WriteSystemCall_def static_class_def numbered_class_def with_items_def)
    (simp add: filled_view_def demo_view_def)

theorem buffer_fetch_complete_witness:
  "\<exists>c i1 i2. BufferPointer_processData filled_view c (OfParam 2) demo_buffer = (Inr (), i1) \<and>
     it_data i1 = Some (replicate 5 0x2A) \<and>
     BufferPointer_fetchRemainingData filled_view c (OfParam 2) i1 = (Inr (), i2) \<and>
     it_data i2 = Some (replicate 12 0x2A)"
proof -
  let ?c = "demo_write\<lparr>sc_pars := (sc_pars demo_write)[2 := (val ''SizeValue'' ''count'')\<lparr>it_val := 12\<rparr>]\<rparr>"
  have n: "ref_size ?c (OfParam 2) = 12" "tv_prefetch filled_view = 5"
    by (simp_all add: ref_size_def demo_write_def WriteSystemCall_def static_class_def numbered_class_def
        with_items_def filled_view_def)
  show ?thesis using buffer_fetch_complete [OF demo_buffer_ok] by (intro exI [of _ ?c]) (simp add: n)
qed

section \<open>write(2)\<close>

lemma write_shape:
  assumes "signature s = map par_sig (cc_pars WriteSystemCall nr)"
  obtains fd buf cnt where "sc_pars s = [fd, buf, cnt]" "it_kind fd = K_Value ''FileDescriptor''" "\<not> it_defer fd" "\<not> it_unused fd"
    "it_kind buf = K_Buffer (OfParam 2)" "it_type buf = PARAM_IN" "it_defer buf" "\<not> it_unused buf"
    "it_kind cnt = K_Value ''SizeValue''" "\<not> it_defer cnt" "\<not> it_unused cnt"
proof -
  have "map par_sig (sc_pars s) = map par_sig [val ''FileDescriptor'' ''fd'',
     deferred (item_of (K_Buffer (OfParam 2)) PARAM_IN ''buf''), val ''SizeValue'' ''count'']"
    using assms by (simp add: signature_def WriteSystemCall_def static_class_def numbered_class_def with_items_def)
  then obtain fd buf cnt where "sc_pars s = [fd, buf, cnt]" "par_sig fd = par_sig (val ''FileDescriptor'' ''fd'')"
    "par_sig buf = par_sig (deferred (item_of (K_Buffer (OfParam 2)) PARAM_IN ''buf''))"
    "par_sig cnt = par_sig (val ''SizeValue'' ''count'')"
    by (auto simp: map_eq_Cons_conv)
  then show thesis
    by (intro that [of fd buf cnt]) (simp_all add: par_sig_def val_def deferred_def item_of_def new_item_def)
qed

lemma buffer_process: "it_kind i = K_Buffer r \<Longrightarrow> processData tv c i = BufferPointer_processData tv c r i"
  by (simp add: processData_def prog_defs)

text \<open>write(2) stands its buffer before the size of the buffer, so the buffer is filled last: after the
  entry the data is the beginning of what this call writes, cut at the limit and at the size
  of this very call, also when the object was used before with another size.\<close>

theorem write_entry_buffer:
  assumes "signature s = map par_sig (cc_pars WriteSystemCall nr)" "isEntry info"
    and "entry_args info ! 1 \<noteq> 0" "mem_at (tv_peek tv) (entry_args info ! 1) bs"
    and "n = unat (entry_args info ! 2)" "n + 8 \<le> length bs" "tv_alloc tv n" "tv_alloc tv (min (tv_prefetch tv) n)"
  shows "\<exists>s'. setEntryInfo WriteSystemCall tv info s = (Inr (), s') \<and>
    it_data (sc_pars s' ! 1) = Some (take (min (tv_prefetch tv) n) bs)"
proof -
  obtain a0 a1 a2 a3 a4 a5 where args: "entry_args info = [a0, a1, a2, a3, a4, a5]"
    using assms(2) by (cases "si_kind info"; cases "entry_args info") (auto simp: isEntry.simps entry_args_def elim!: six_list.elims)
  obtain fd buf cnt where shape: "sc_pars s = [fd, buf, cnt]" "it_kind fd = K_Value ''FileDescriptor''" "\<not> it_defer fd" "\<not> it_unused fd"
    "it_kind buf = K_Buffer (OfParam 2)" "it_type buf = PARAM_IN" "it_defer buf" "\<not> it_unused buf"
    "it_kind cnt = K_Value ''SizeValue''" "\<not> it_defer cnt" "\<not> it_unused cnt"
    by (rule write_shape [OF assms(1)])
  have c: "cc_prepare WriteSystemCall = skipE" "cc_2nd WriteSystemCall = (\<lambda>_. ret False)"
    "\<And>tv n. cc_process WriteSystemCall tv n = on_par (processData tv) n"
    by (simp_all add: WriteSystemCall_def static_class_def numbered_class_def with_items_def base_class_def)
  let ?s2 = "s\<lparr>sc_abi := si_abi info, sc_error := Some (ErrnoResult ENODATA), sc_info := Some info,
     sc_pars := [fd\<lparr>it_val := a0\<rparr>, buf\<lparr>it_val := a1\<rparr>, cnt\<lparr>it_val := a2\<rparr>]\<rparr>"
  have ok: "buffer_ok tv ?s2 (OfParam 2) (buf\<lparr>it_val := a1\<rparr>) bs"
    using assms(3-8) shape by (simp add: buffer_ok_def ref_size_def args)
  have "ref_size ?s2 (OfParam 2) = n" using assms(5) by (simp add: ref_size_def args)
  with fillBuffer_mem [OF ok refl]
  have fill: "BufferPointer_processData tv ?s2 (OfParam 2) (buf\<lparr>it_val := a1\<rparr>) =
      (Inr (), buf\<lparr>it_val := a1, it_data := Some (take (min (tv_prefetch tv) n) bs)\<rparr>)" by simp
  show ?thesis
    using fill shape
    by (simp add: setEntryInfo_def c fillParameters_def args item_fill_def par_set_val_def on_par_def
        value_process buffer_process prog_defs del: numeral_2_eq_2)
qed

theorem write_entry_buffer_witness:
  "\<exists>s'. setEntryInfo WriteSystemCall filled_view ((demo_info SYS_WRITE)\<lparr>si_kind := InfoEntry 0 (Six 1 4096 12 0 0 0)\<rparr>)
       demo_write = (Inr (), s') \<and>
     it_data (sc_pars s' ! 1) = Some (replicate 5 0x2A)"
proof -
  let ?info = "(demo_info SYS_WRITE)\<lparr>si_kind := InfoEntry 0 (Six 1 4096 12 0 0 0)\<rparr>"
  have "entry_args ?info = [1, 4096, 12, 0, 0, 0]" "isEntry ?info"
    by (simp_all add: entry_args_def isEntry.simps)
  moreover have "signature demo_write = map par_sig (cc_pars WriteSystemCall SYS_WRITE)"
    by (simp add: signature_def demo_write_def)
  moreover have "tv_alloc filled_view 12" "tv_alloc filled_view 5" "tv_prefetch filled_view = 5"
    by (simp_all add: filled_view_def demo_view_def)
  ultimately show ?thesis
    using write_entry_buffer [of demo_write SYS_WRITE ?info filled_view "replicate 20 0x2A" 12] filled_mem by simp
qed

end
