(* ===== verification/Call_Methods.thy ===== *)
theory Call_Methods
  imports Call_Safe
begin

text \<open>
  Items whose class has \<open>processData\<close> and \<open>updateData\<close> methods of its own: the items on prctl(2) and
  on sockets. Such an item names its class in \<open>it_kind\<close>; the classes come with a table of their
  methods. \<open>item_methods\<close> says what every table keeps to, \<open>safe_item_methods\<close> that its methods are
  defined, and both carry over to the system calls that use the table.
\<close>

section \<open>Tables of methods\<close>

type_synonym item_method = "tview \<Rightarrow> syscall \<Rightarrow> item_prog"
type_synonym method_table = "(string \<times> item_method \<times> item_method) list"

definition own_methods :: "method_table \<Rightarrow> item \<Rightarrow> (item_method \<times> item_method) option" where
  "own_methods tbl i = (case it_kind i of K_Value cls \<Rightarrow> map_of tbl cls | _ \<Rightarrow> None)"

definition own_process :: "method_table \<Rightarrow> item_method" where
  "own_process tbl tv c = bindE (askE (own_methods tbl)) (\<lambda>m. case m of
     None \<Rightarrow> processData tv c | Some m \<Rightarrow> fst m tv c)"

definition own_update :: "method_table \<Rightarrow> item_method" where
  "own_update tbl tv c = bindE (askE (own_methods tbl)) (\<lambda>m. case m of
     None \<Rightarrow> updateData tv c | Some m \<Rightarrow> snd m tv c)"

definition with_methods :: "method_table \<Rightarrow> call_class \<Rightarrow> call_class" where
  "with_methods tbl cc = cc\<lparr>cc_process := (\<lambda>tv. on_par (own_process tbl tv)),
     cc_update := (\<lambda>tv. on_par (own_update tbl tv))\<rparr>"

section \<open>What the methods keep to\<close>

lemma sound_asked:
  "(\<And>i. I i \<Longrightarrow> sound ok I (f (g i))) \<Longrightarrow> sound ok I (bindE (askE g) f)"
proof (rule soundI)
  fix s r s'
  assume *: "\<And>i. I i \<Longrightarrow> sound ok I (f (g i))" "I s" "bindE (askE g) f s = (r, s')"
  then have "f (g s) s = (r, s')" by (simp add: prog_defs)
  with * sound_snd [OF *(1) \<open>I s\<close>, of s] sound_Inl [OF *(1) \<open>I s\<close>, of s]
  show "I s' \<and> (\<forall>e. r = Inl e \<longrightarrow> ok \<longrightarrow> \<not> is_undefined e)" by auto
qed

locale item_methods =
  fixes tbl :: method_table
  assumes process_sig: "(cls, m) \<in> set tbl \<Longrightarrow> sound False (item_is sg v) (fst m tv c)"
    and update_sig: "(cls, m) \<in> set tbl \<Longrightarrow> sound False (item_is sg v) (snd m tv c)"
begin

lemma own_Some: "own_methods tbl i = Some m \<Longrightarrow> \<exists>cls. (cls, m) \<in> set tbl"
  by (auto simp: own_methods_def split: item_kind.splits dest: map_of_SomeD)

lemma own_sig:
  "sound False (item_is sg v) (own_process tbl tv c)"
  "sound False (item_is sg v) (own_update tbl tv c)"
  unfolding own_process_def own_update_def
  by (rule sound_asked, rule sound_option, rule sound_processData, simp, simp,
      drule own_Some, erule exE, erule process_sig)
    (rule sound_asked, rule sound_option, rule sound_updateData, simp,
      drule own_Some, erule exE, erule update_sig)

lemma process_frame:
  "call_frame s (snd (on_par (own_process tbl tv) n s)) \<and>
     sc_members (snd (on_par (own_process tbl tv) n s)) = sc_members s"
  by (rule on_par_frame [where ok = False]) (rule own_sig)

lemma update_frame:
  "call_frame s (snd (on_par (own_update tbl tv) n s)) \<and>
     sc_members (snd (on_par (own_update tbl tv) n s)) = sc_members s"
  by (rule on_par_frame [where ok = False]) (rule own_sig)

lemma contract:
  assumes "cc_process cc = (\<lambda>tv. on_par (own_process tbl tv))" "cc_update cc = (\<lambda>tv. on_par (own_update tbl tv))"
  shows "call_contract cc"
  by (rule call_contract.intro) (use assms process_frame update_frame in simp_all)

end

locale safe_item_methods = item_methods +
  assumes process_safe: "(cls, m) \<in> set tbl \<Longrightarrow> view_ok tv \<Longrightarrow> entering c \<Longrightarrow>
      sound True (item_is sg v) (fst m tv c)"
    and update_safe: "(cls, m) \<in> set tbl \<Longrightarrow> view_ok tv \<Longrightarrow> sound True (item_is sg v) (snd m tv c)"
begin

lemma own_safe:
  assumes "view_ok tv"
  shows "entering c \<Longrightarrow> sound True (item_is sg v) (own_process tbl tv c)"
    and "sound True (item_is sg v) (own_update tbl tv c)"
  unfolding own_process_def own_update_def
  by (rule sound_asked, rule sound_option, rule sound_processData, rule assms, assumption,
      drule own_Some, erule exE, erule process_safe, rule assms, assumption)
    (rule sound_asked, rule sound_option, rule sound_updateData, rule assms,
      drule own_Some, erule exE, erule update_safe, rule assms)

lemma process_within:
  assumes "view_ok tv" "isEntry info"
  shows "safe (call_within n info) (on_par (own_process tbl tv) i)"
proof (rule safeI)
  fix s e s'
  assume s: "call_within n info s" and run: "on_par (own_process tbl tv) i s = (Inl e, s')"
  have "entering s" using s assms(2) by (simp add: entering_def call_within_def)
  from on_par_defined [OF run own_safe(1) [OF assms(1) this]]
  show "call_within n info s' \<and> \<not> is_undefined e"
    using call_within_frame(1) [OF process_frame s, of tv i] run by simp
next
  fix s x s'
  assume "call_within n info s" "on_par (own_process tbl tv) i s = (Inr x, s')"
  then show "call_within n info s'"
    using call_within_frame(1) [OF process_frame, of n info s tv i] by simp
qed

lemma update_within:
  assumes "view_ok tv"
  shows "safe call_fit (on_par (own_update tbl tv) i)"
proof (rule safeI)
  fix s e s'
  assume s: "call_fit s" and run: "on_par (own_update tbl tv) i s = (Inl e, s')"
  from on_par_defined [OF run own_safe(2) [OF assms]]
  show "call_fit s' \<and> \<not> is_undefined e"
    using call_within_frame(2) [OF update_frame s, of tv i] run by simp
next
  fix s x s'
  assume "call_fit s" "on_par (own_update tbl tv) i s = (Inr x, s')"
  then show "call_fit s'"
    using call_within_frame(2) [OF update_frame, of s tv i] by simp
qed

text \<open>A class that only declares its parameters, with the methods of the table.\<close>

lemma safe_methods:
  assumes "\<And>nr. length (cc_pars c nr) \<le> 6" "\<And>nr. length (cc_members c nr) \<le> 6"
    and "cc_prepare c = skipE" "cc_2nd c = (\<lambda>_. ret False)" "cc_post c = (\<lambda>_. skipE)"
    and "\<And>tv s fds e fds'. view_ok tv \<Longrightarrow> cc_fdtrack c tv s fds = (Inl e, fds') \<Longrightarrow> \<not> is_undefined e"
  shows "safe_class (with_methods tbl c) 6"
proof -
  have "call_contract (with_methods tbl c)" by (rule contract) (simp_all add: with_methods_def)
  moreover have "safe_class_axioms (with_methods tbl c) 6"
  proof (rule safe_class_axioms.intro, goal_cases)
    case (1 tv info n i)
    then show ?case by (simp add: with_methods_def process_within)
  next
    case (2 tv i)
    then show ?case by (simp add: with_methods_def update_within)
  qed (use assms in \<open>auto simp: with_methods_def hoare_def prog_defs safe_def dest: call_within_fit\<close>)
  ultimately show ?thesis by (rule safe_class.intro)
qed

end

text \<open>A class with a number of its own, its return item and parameters, and the methods of \<open>tbl\<close>.\<close>

definition own_class :: "method_table \<Rightarrow> item \<Rightarrow> item list \<Rightarrow> call_class" where
  "own_class tbl r ps = with_methods tbl (numbered_class r ps)"

lemma own_class_fields [simp]:
  "cc_prepare (own_class tbl r ps) = skipE" "cc_2nd (own_class tbl r ps) = (\<lambda>_. ret False)"
  "cc_post (own_class tbl r ps) = (\<lambda>_. skipE)" "cc_fdtrack (own_class tbl r ps) = (\<lambda>_ _. skipE)"
  "cc_pars (own_class tbl r ps) = (\<lambda>_. ps)" "cc_ret (own_class tbl r ps) = (\<lambda>_. r)"
  "cc_members (own_class tbl r ps) = (\<lambda>_. [])"
  "cc_process (own_class tbl r ps) = (\<lambda>tv. on_par (own_process tbl tv))"
  "cc_update (own_class tbl r ps) = (\<lambda>tv. on_par (own_update tbl tv))"
  by (simp_all add: own_class_def with_methods_def numbered_class_def with_items_def base_class_def)

context safe_item_methods
begin

lemma safe_own: "length ps \<le> 6 \<Longrightarrow> safe_class (own_class tbl r ps) 6"
  unfolding own_class_def
  by (rule safe_methods) (auto simp: numbered_class_def with_items_def base_class_def prog_defs)

end

end
