(* ===== verification/Call_Prctl.thy ===== *)
theory Call_Prctl
  imports Call_Methods
begin

text \<open>
  The system calls prctl(2) and arch_prctl(2): src/syscalls/prctl.cxx and include/syscalls/prctl.hxx,
  with the items of src/items/prctl.cxx and src/items/seccomp.cxx that have methods of their own.

  The class of a prctl(2) is picked at each entry from its first argument. An \<open>m_return\<close> that is null,
  or that points to an optional which was reset, is the item \<open>no_return\<close>. The constants are those of
  linux/prctl.h, asm/prctl.h and linux/seccomp.h.
\<close>

section \<open>Items\<close>

definition no_return :: item where
  "no_return = ret_val ''nullptr'' ''''"

definition prctl_mm_map_size :: nat where
  "prctl_mm_map_size = 104"

text \<open>As many bytes are read as the tracee says that its structure has.\<close>

definition MemoryMapStruct_processData :: item_method where
  "MemoryMapStruct_processData tv c =
     (if sc_class c \<noteq> ''MemoryMapSystemCall'' then raise (StdError ''bad_cast'')
      else voidE (bindE (askE it_val)
        (fetch_optional put_data tv prctl_mm_map_size (ref_size c (OfParam 3)))))"

text \<open>\<open>struct sock_fprog\<close> is a 16 bit length and, at offset 8, a pointer; a filter has 8 bytes.\<close>

definition FilterProg_fetchFilters :: "tview \<Rightarrow> item_prog" where
  "FilterProg_fetchFilters tv = bindE (askE it_data) (\<lambda>prog. case prog of
     None \<Rightarrow> raise (Undefined ''dereference of an empty optional'')
   | Some p \<Rightarrow> seqsE [
       allocE tv (8 * field 0 2 p),
       updE (\<lambda>i. i\<lparr>it_more := resize (replicate 8 0) (field 0 2 p) (it_more i)\<rparr>),
       bindE (fetch_structs tv (field_ptr 8 8 p) 8)
         (\<lambda>ok. if \<not> ok then updE (\<lambda>i. i\<lparr>it_more := []\<rparr>) else skipE)])"

definition FilterProg_processData :: item_method where
  "FilterProg_processData tv c = seqE (updE (\<lambda>i. i\<lparr>it_more := []\<rparr>))
     (if \<not> is32BitEmulationABI (tv_arch tv) c
      then seqE (voidE (bindE (askE it_val) (fetch_optional put_data tv 16 16))) (FilterProg_fetchFilters tv)
      else bindE (bindE (askE it_val) (fetch_local tv 8)) (\<lambda>prog32. case prog32 of
          None \<Rightarrow> skipE
        | Some bs \<Rightarrow> seqE
            (updE (put_data (Some (take 2 bs @ replicate 6 0 @ zero_extend (drop 4 bs)))))
            (FilterProg_fetchFilters tv)))"

text \<open>The access is a function of the scalar.\<close>

definition TSCAccessPtr_updateData :: item_method where
  "TSCAccessPtr_updateData tv c =
     (if \<not> hasResultValue c then skipE else PointerToScalar_updateData tv 4)"

text \<open>
  \<open>AuxVectorBuffer\<close>: \<open>it_more\<close> is the vector, as the bytes it is built from. A pair of words has 16
  bytes. The size of the buffer is the third parameter.
\<close>

definition AuxVectorBuffer_processData :: item_method where
  "AuxVectorBuffer_processData tv c =
     seqE (BufferPointer_processData tv c (OfParam 2)) (updE (put_more None))"

definition AuxVectorBuffer_updateData :: item_method where
  "AuxVectorBuffer_updateData tv c = seqE (BufferPointer_updateData tv c (OfParam 2))
     (updE (\<lambda>i. if vec i = [] then i
        else put_more (Some (take (length (vec i) - length (vec i) mod 16) (vec i))) i))"

definition AuxVectorBuffer_fetchRemainingData :: item_method where
  "AuxVectorBuffer_fetchRemainingData tv c = seqE (BufferPointer_fetchRemainingData tv c (OfParam 2))
     (updE (\<lambda>i. put_more (Some (vec i)) i))"

definition prctl_struct_items :: method_table where
  "prctl_struct_items =
    [(''MemoryMapStruct'', MemoryMapStruct_processData, MemoryMapStruct_processData),
     (''FilterProg'', FilterProg_processData, FilterProg_processData)]"

definition prctl_items :: method_table where
  "prctl_items =
    [(''TSCAccessPtr'', \<lambda>tv _. PointerToScalar_processData tv 4, TSCAccessPtr_updateData),
     (''AuxVectorBuffer'', AuxVectorBuffer_processData, AuxVectorBuffer_updateData)]"

section \<open>arch_prctl\<close>

definition ArchPrctl_prepare :: "(syscall, unit) prog" where
  "ArchPrctl_prepare = updE (\<lambda>s. set_ret success_result (dropParameters 1 s))"

definition ArchPrctl_check2ndPass :: "(syscall, bool) prog" where
  "ArchPrctl_check2ndPass = seqE (updE (\<lambda>s. let op = par_int s 0 in
     if op = 0x1012 then addParameters [val ''ULongValue'' ''enable''] s
     else if op = 0x1011 then set_ret (ret_val ''IntValue'' ''enabled?'') s
     else if op \<in> set [0x1002, 0x1001] then addParameters [val ''GenericPointerValue'' ''base''] s
     else if op \<in> set [0x1003, 0x1004] then addParameters [item_of (K_Scalar 8) PARAM_OUT ''*base''] s
     else s)) (ret True)"

definition ArchPrctlSystemCall :: call_class where
  "ArchPrctlSystemCall = (static_class SYS_ARCH_PRCTL success_result [val ''ArchOpParameter'' ''op''])
     \<lparr>cc_prepare := ArchPrctl_prepare, cc_2nd := (\<lambda>_. ArchPrctl_check2ndPass)\<rparr>"

section \<open>prctl\<close>

abbreviation (input) PR_SET_PDEATHSIG :: int where "PR_SET_PDEATHSIG \<equiv> 1"
abbreviation (input) PR_GET_PDEATHSIG :: int where "PR_GET_PDEATHSIG \<equiv> 2"
abbreviation (input) PR_GET_DUMPABLE :: int where "PR_GET_DUMPABLE \<equiv> 3"
abbreviation (input) PR_SET_DUMPABLE :: int where "PR_SET_DUMPABLE \<equiv> 4"
abbreviation (input) PR_GET_KEEPCAPS :: int where "PR_GET_KEEPCAPS \<equiv> 7"
abbreviation (input) PR_SET_KEEPCAPS :: int where "PR_SET_KEEPCAPS \<equiv> 8"
abbreviation (input) PR_GET_TIMING :: int where "PR_GET_TIMING \<equiv> 13"
abbreviation (input) PR_SET_TIMING :: int where "PR_SET_TIMING \<equiv> 14"
abbreviation (input) PR_SET_NAME :: int where "PR_SET_NAME \<equiv> 15"
abbreviation (input) PR_GET_NAME :: int where "PR_GET_NAME \<equiv> 16"
abbreviation (input) PR_GET_SECCOMP :: int where "PR_GET_SECCOMP \<equiv> 21"
abbreviation (input) PR_SET_SECCOMP :: int where "PR_SET_SECCOMP \<equiv> 22"
abbreviation (input) PR_CAPBSET_READ :: int where "PR_CAPBSET_READ \<equiv> 23"
abbreviation (input) PR_CAPBSET_DROP :: int where "PR_CAPBSET_DROP \<equiv> 24"
abbreviation (input) PR_GET_TSC :: int where "PR_GET_TSC \<equiv> 25"
abbreviation (input) PR_SET_TSC :: int where "PR_SET_TSC \<equiv> 26"
abbreviation (input) PR_GET_SECUREBITS :: int where "PR_GET_SECUREBITS \<equiv> 27"
abbreviation (input) PR_SET_SECUREBITS :: int where "PR_SET_SECUREBITS \<equiv> 28"
abbreviation (input) PR_SET_TIMERSLACK :: int where "PR_SET_TIMERSLACK \<equiv> 29"
abbreviation (input) PR_GET_TIMERSLACK :: int where "PR_GET_TIMERSLACK \<equiv> 30"
abbreviation (input) PR_TASK_PERF_EVENTS_DISABLE :: int where "PR_TASK_PERF_EVENTS_DISABLE \<equiv> 31"
abbreviation (input) PR_TASK_PERF_EVENTS_ENABLE :: int where "PR_TASK_PERF_EVENTS_ENABLE \<equiv> 32"
abbreviation (input) PR_MCE_KILL :: int where "PR_MCE_KILL \<equiv> 33"
abbreviation (input) PR_MCE_KILL_GET :: int where "PR_MCE_KILL_GET \<equiv> 34"
abbreviation (input) PR_SET_MM :: int where "PR_SET_MM \<equiv> 35"
abbreviation (input) PR_SET_CHILD_SUBREAPER :: int where "PR_SET_CHILD_SUBREAPER \<equiv> 36"
abbreviation (input) PR_GET_CHILD_SUBREAPER :: int where "PR_GET_CHILD_SUBREAPER \<equiv> 37"
abbreviation (input) PR_SET_NO_NEW_PRIVS :: int where "PR_SET_NO_NEW_PRIVS \<equiv> 38"
abbreviation (input) PR_GET_NO_NEW_PRIVS :: int where "PR_GET_NO_NEW_PRIVS \<equiv> 39"
abbreviation (input) PR_GET_TID_ADDRESS :: int where "PR_GET_TID_ADDRESS \<equiv> 40"
abbreviation (input) PR_SET_THP_DISABLE :: int where "PR_SET_THP_DISABLE \<equiv> 41"
abbreviation (input) PR_GET_THP_DISABLE :: int where "PR_GET_THP_DISABLE \<equiv> 42"
abbreviation (input) PR_CAP_AMBIENT :: int where "PR_CAP_AMBIENT \<equiv> 47"
abbreviation (input) PR_GET_SPECULATION_CTRL :: int where "PR_GET_SPECULATION_CTRL \<equiv> 52"
abbreviation (input) PR_SET_SPECULATION_CTRL :: int where "PR_SET_SPECULATION_CTRL \<equiv> 53"
abbreviation (input) PR_SET_TAGGED_ADDR_CTRL :: int where "PR_SET_TAGGED_ADDR_CTRL \<equiv> 55"
abbreviation (input) PR_GET_TAGGED_ADDR_CTRL :: int where "PR_GET_TAGGED_ADDR_CTRL \<equiv> 56"
abbreviation (input) PR_SET_IO_FLUSHER :: int where "PR_SET_IO_FLUSHER \<equiv> 57"
abbreviation (input) PR_GET_IO_FLUSHER :: int where "PR_GET_IO_FLUSHER \<equiv> 58"
abbreviation (input) PR_SET_SYSCALL_USER_DISPATCH :: int where "PR_SET_SYSCALL_USER_DISPATCH \<equiv> 59"
abbreviation (input) PR_SET_MDWE :: int where "PR_SET_MDWE \<equiv> 65"
abbreviation (input) PR_GET_MDWE :: int where "PR_GET_MDWE \<equiv> 66"
abbreviation (input) PR_SET_VMA :: int where "PR_SET_VMA \<equiv> 0x53564d41"
abbreviation (input) PR_GET_AUXV :: int where "PR_GET_AUXV \<equiv> 0x41555856"
abbreviation (input) PR_SET_PTRACER :: int where "PR_SET_PTRACER \<equiv> 0x59616d61"

definition prctl_op :: item where
  "prctl_op = val ''ProcessOp'' ''op''"

definition PrCtl_operation :: "syscall \<Rightarrow> int" where
  "PrCtl_operation s = par_int s 0"

definition setBoolReturn :: "syscall \<Rightarrow> syscall" where
  "setBoolReturn = set_ret (ret_val ''BoolValue'' ''bool'')"

definition setSuccessReturn :: "syscall \<Rightarrow> syscall" where
  "setSuccessReturn = set_ret success_result"

text \<open>What \<open>clearOptRetVals\<close> leaves of \<open>m_return\<close>.\<close>

definition clearOptRetVals :: "syscall \<Rightarrow> syscall" where
  "clearOptRetVals = set_ret no_return"

definition prctl_class :: "method_table \<Rightarrow> item \<Rightarrow> item list \<Rightarrow> call_class" where
  "prctl_class tbl r ps = (own_class tbl r (prctl_op # ps))\<lparr>cc_nr := (\<lambda>_. SYS_PRCTL)\<rparr>"

definition PrCtl_prepare :: "(syscall, unit) prog" where
  "PrCtl_prepare = updE (\<lambda>s. clearOptRetVals (dropParameters 1 s))"

definition PrCtl_check2ndPass :: "(syscall, bool) prog" where
  "PrCtl_check2ndPass = seqE (updE (\<lambda>s.
     let op = PrCtl_operation s;
         s = (if op \<in> set [PR_GET_DUMPABLE, PR_GET_IO_FLUSHER, PR_GET_NO_NEW_PRIVS, PR_GET_KEEPCAPS]
              then setBoolReturn s
              else if op \<in> set [PR_SET_DUMPABLE, PR_SET_IO_FLUSHER, PR_SET_CHILD_SUBREAPER,
                PR_SET_NO_NEW_PRIVS, PR_SET_KEEPCAPS]
              then addParameters [val ''BoolValue'' ''state''] s
              else if op = PR_GET_SECCOMP then set_ret (ret_val ''IntValue'' ''mode'') s
              else if op = PR_GET_TIMERSLACK then set_ret (ret_val ''IntValue'' ''slack'') s
              else s)
     in if sc_ret s = no_return then setSuccessReturn s else s)) (ret True)"

definition PrCtlSystemCall :: call_class where
  "PrCtlSystemCall = (prctl_class prctl_items no_return [])
     \<lparr>cc_prepare := PrCtl_prepare, cc_2nd := (\<lambda>_. PrCtl_check2ndPass)\<rparr>"

text \<open>Classes whose parameters do not depend on an argument.\<close>

definition FixedPrCtlSystemCall :: "item \<Rightarrow> item list \<Rightarrow> call_class" where
  "FixedPrCtlSystemCall r ps = prctl_class prctl_items r ps"

definition UnknownPrCtlSystemCall :: call_class where
  "UnknownPrCtlSystemCall = FixedPrCtlSystemCall success_result [val ''UnknownItem'' ''unknown'']"

section \<open>Memory maps\<close>

text \<open>The operations from \<open>PR_SET_MM_START_CODE\<close> to \<open>PR_SET_MM_AUXV\<close> take an address.\<close>

definition mm_map_item :: item where
  "mm_map_item = deferred (val ''MemoryMapStruct'' ''map'')"

definition MemoryMap_pars :: "int \<Rightarrow> item list" where
  "MemoryMap_pars oper =
     (if oper \<in> set [1, 2, 3, 4, 5, 6, 7, 8, 9, 10, 11, 12] then [val ''GenericPointerValue'' ''addr'']
      else if oper = 15 then [item_of (K_Scalar 4) PARAM_OUT ''size'']
      else if oper = 13 then [val ''FileDescriptor'' ''fd'']
      else if oper = 14 then [mm_map_item, val ''ULongValue'' ''size'']
      else [])"

definition MemoryMap_check2ndPass :: "(syscall, bool) prog" where
  "MemoryMap_check2ndPass = seqE
     (updE (\<lambda>s. addParameters (MemoryMap_pars (sint (it_val (sc_pars s ! 1)))) s)) (ret True)"

definition MemoryMapSystemCall :: call_class where
  "MemoryMapSystemCall = (prctl_class prctl_struct_items success_result [val ''MemoryMapOp'' ''subop''])
     \<lparr>cc_prepare := updE (dropParameters 2), cc_2nd := (\<lambda>_. MemoryMap_check2ndPass)\<rparr>"

definition VirtualMemoryAttrSystemCall :: call_class where
  "VirtualMemoryAttrSystemCall = FixedPrCtlSystemCall success_result
     [val ''VirtualMemoryAttr'' ''attr'', val ''GenericPointerValue'' ''addr'', val ''ULongValue'' ''size'',
      item_of K_String PARAM_IN ''name'']"

definition GetTHPDisableSystemCall :: call_class where
  "GetTHPDisableSystemCall = FixedPrCtlSystemCall (ret_val ''THPDisableState'' ''config'') []"

definition SetTHPDisable_check2ndPass :: "(syscall, bool) prog" where
  "SetTHPDisable_check2ndPass = bindE (askE (\<lambda>s. it_val (sc_pars s ! 1) \<noteq> 0)) (\<lambda>disable.
     if disable then seqE (updE (addParameters [val ''THPDisableFlags'' ''flags''])) (ret True) else ret False)"

definition SetTHPDisableSystemCall :: call_class where
  "SetTHPDisableSystemCall = (prctl_class prctl_items success_result [val ''BoolValue'' ''thp_disable''])
     \<lparr>cc_prepare := updE (dropParameters 2), cc_2nd := (\<lambda>_. SetTHPDisable_check2ndPass)\<rparr>"

definition GetMemDenyWriteExecSystemCall :: call_class where
  "GetMemDenyWriteExecSystemCall =
     FixedPrCtlSystemCall (ret_val ''MemDenyWriteExecProtectionMask'' ''mask'') []"

definition SetMemDenyWriteExecSystemCall :: call_class where
  "SetMemDenyWriteExecSystemCall =
     FixedPrCtlSystemCall success_result [val ''MemDenyWriteExecProtectionMask'' ''mask'']"

definition GetAuxVectorSystemCall :: call_class where
  "GetAuxVectorSystemCall = FixedPrCtlSystemCall (ret_val ''SizeValue'' ''bytes'')
     [item_of (K_Value ''AuxVectorBuffer'') PARAM_OUT ''auxv'', val ''ULongValue'' ''size'']"

section \<open>Machine checks, capabilities and security\<close>

definition MachineCheckKill_check2ndPass :: "(syscall, bool) prog" where
  "MachineCheckKill_check2ndPass = bindE (askE (\<lambda>s. it_val (sc_pars s ! 1) = 1)) (\<lambda>is_set.
     if is_set then seqE (updE (addParameters [val ''MachineCheckPolicy'' ''policy''])) (ret True)
     else ret False)"

definition MachineCheckKillSystemCall :: call_class where
  "MachineCheckKillSystemCall = (prctl_class prctl_items success_result [val ''MachineCheckOp'' ''subop''])
     \<lparr>cc_prepare := updE (dropParameters 2), cc_2nd := (\<lambda>_. MachineCheckKill_check2ndPass)\<rparr>"

definition MachineCheckKillGetSystemCall :: call_class where
  "MachineCheckKillGetSystemCall = (prctl_class prctl_items (ret_val ''MachineCheckPolicy'' ''policy'') [])
     \<lparr>cc_prepare := updE (dropParameters 1)\<rparr>"

definition CapAmbient_prepare :: "(syscall, unit) prog" where
  "CapAmbient_prepare = updE (\<lambda>s. clearOptRetVals (dropParameters 2 s))"

definition CapAmbient_check2ndPass :: "(syscall, bool) prog" where
  "CapAmbient_check2ndPass = seqE (updE (\<lambda>s.
     let sub_op = it_val (sc_pars s ! 1);
         s = (if sub_op \<noteq> 4 then addParameters [val ''Capability'' ''cap''] s else s)
     in if sub_op = 1 then setBoolReturn s else setSuccessReturn s)) (ret True)"

definition CapAmbientSystemCall :: call_class where
  "CapAmbientSystemCall = (prctl_class prctl_items no_return [val ''AmbientCapOp'' ''subop''])
     \<lparr>cc_prepare := CapAmbient_prepare, cc_2nd := (\<lambda>_. CapAmbient_check2ndPass)\<rparr>"

text \<open>The parameters stay.\<close>

definition CapBSet_check2ndPass :: "(syscall, bool) prog" where
  "CapBSet_check2ndPass = bindE (askE PrCtl_operation) (\<lambda>op.
     if op = PR_CAPBSET_READ then seqE (updE setBoolReturn) (ret True)
     else if op = PR_CAPBSET_DROP then seqE (updE setSuccessReturn) (ret True)
     else raise (RuntimeError ''bad prctl op''))"

definition CapBSetSystemCall :: call_class where
  "CapBSetSystemCall = (prctl_class prctl_items no_return [val ''Capability'' ''cap''])
     \<lparr>cc_prepare := updE clearOptRetVals, cc_2nd := (\<lambda>_. CapBSet_check2ndPass)\<rparr>"

abbreviation (input) SECCOMP_MODE_FILTER :: word64 where "SECCOMP_MODE_FILTER \<equiv> 2"

definition SetSecComp_check2ndPass :: "(syscall, bool) prog" where
  "SetSecComp_check2ndPass = bindE (askE (\<lambda>s. it_val (sc_pars s ! 1) = SECCOMP_MODE_FILTER)) (\<lambda>is_filter.
     if is_filter then seqE (updE (addParameters [val ''FilterProg'' ''filter''])) (ret True) else ret False)"

definition SetSecCompSystemCall :: call_class where
  "SetSecCompSystemCall = (prctl_class prctl_struct_items success_result [val ''SecCompMode'' ''mode''])
     \<lparr>cc_prepare := updE (dropParameters 2), cc_2nd := (\<lambda>_. SetSecComp_check2ndPass)\<rparr>"

definition GetSecureBitsSystemCall :: call_class where
  "GetSecureBitsSystemCall = FixedPrCtlSystemCall (ret_val ''SecureBits'' ''bits'') []"

definition SetSecureBitsSystemCall :: call_class where
  "SetSecureBitsSystemCall = FixedPrCtlSystemCall success_result [val ''SecureBits'' ''bits'']"

definition GetSpeculationControlSystemCall :: call_class where
  "GetSpeculationControlSystemCall = FixedPrCtlSystemCall (ret_val ''SpeculationCtrlSetting'' ''setting'')
     [val ''SpeculationCtrlMisfeature'' ''misfeature'']"

definition SetSpeculationControlSystemCall :: call_class where
  "SetSpeculationControlSystemCall = FixedPrCtlSystemCall success_result
     [val ''SpeculationCtrlMisfeature'' ''misfeature'', val ''SpeculationCtrlSetting'' ''setting'']"

definition GetTaggedAddrControlSystemCall :: call_class where
  "GetTaggedAddrControlSystemCall = FixedPrCtlSystemCall (ret_val ''TaggedAddressControl'' ''mode'') []"

definition SetTaggedAddrControlSystemCall :: call_class where
  "SetTaggedAddrControlSystemCall = FixedPrCtlSystemCall success_result [val ''TaggedAddressControl'' ''mode'']"

section \<open>Processes\<close>

definition GetChildSubReaperSystemCall :: call_class where
  "GetChildSubReaperSystemCall =
     FixedPrCtlSystemCall success_result [item_of (K_Scalar 4) PARAM_OUT ''subreaper'']"

definition Name_check2ndPass :: "(syscall, bool) prog" where
  "Name_check2ndPass = bindE (askE PrCtl_operation) (\<lambda>op.
     if op = PR_GET_NAME then seqE (updE (addParameters [item_of K_String PARAM_OUT ''name''])) (ret True)
     else if op = PR_SET_NAME then seqE (updE (addParameters [item_of K_String PARAM_IN ''name''])) (ret True)
     else raise (RuntimeError ''bad prctl op''))"

definition NameSystemCall :: call_class where
  "NameSystemCall = (prctl_class prctl_items success_result [])
     \<lparr>cc_prepare := updE (dropParameters 1), cc_2nd := (\<lambda>_. Name_check2ndPass)\<rparr>"

definition ParentDeathSignal_check2ndPass :: "(syscall, bool) prog" where
  "ParentDeathSignal_check2ndPass = bindE (askE PrCtl_operation) (\<lambda>op.
     if op = PR_GET_PDEATHSIG then seqE (updE (addParameters [item_of (K_Scalar 4) PARAM_OUT ''sig''])) (ret True)
     else if op = PR_SET_PDEATHSIG then seqE (updE (addParameters [val ''SignalNumber'' ''signum''])) (ret True)
     else raise (RuntimeError ''bad prctl op''))"

definition ParentDeathSignalSystemCall :: call_class where
  "ParentDeathSignalSystemCall = (prctl_class prctl_items success_result [])
     \<lparr>cc_prepare := updE (dropParameters 1), cc_2nd := (\<lambda>_. ParentDeathSignal_check2ndPass)\<rparr>"

definition SetPTracerSystemCall :: call_class where
  "SetPTracerSystemCall = FixedPrCtlSystemCall success_result [val ''PTracerProcessID'' ''pid'']"

definition SetSyscallUserDispatch_check2ndPass :: "(syscall, bool) prog" where
  "SetSyscallUserDispatch_check2ndPass = bindE (askE (\<lambda>s. it_val (sc_pars s ! 1) = 1)) (\<lambda>on.
     if on then seqE (updE (addParameters [val ''GenericPointerValue'' ''offset'', val ''ULongValue'' ''size'',
         val ''GenericPointerValue'' ''switch''])) (ret True)
     else ret False)"

definition SetSyscallUserDispatchSystemCall :: call_class where
  "SetSyscallUserDispatchSystemCall =
     (prctl_class prctl_items success_result [val ''SyscallUserDispatchMode'' ''mode''])
     \<lparr>cc_prepare := updE (dropParameters 2), cc_2nd := (\<lambda>_. SetSyscallUserDispatch_check2ndPass)\<rparr>"

definition GetTIDAddressSystemCall :: call_class where
  "GetTIDAddressSystemCall = FixedPrCtlSystemCall success_result [item_of (K_Scalar 8) PARAM_OUT ''addrp'']"

definition SetTimerSlackSystemCall :: call_class where
  "SetTimerSlackSystemCall = FixedPrCtlSystemCall success_result [val ''ULongValue'' ''slack'']"

definition SetTimingModeSystemCall :: call_class where
  "SetTimingModeSystemCall = FixedPrCtlSystemCall success_result [val ''TimingMode'' ''mode'']"

definition GetTimingModeSystemCall :: call_class where
  "GetTimingModeSystemCall = FixedPrCtlSystemCall (ret_val ''TimingMode'' ''mode'') []"

definition SetTSCAccessSystemCall :: call_class where
  "SetTSCAccessSystemCall = FixedPrCtlSystemCall success_result [val ''TSCAccess'' ''access'']"

definition GetTSCAccessSystemCall :: call_class where
  "GetTSCAccessSystemCall = FixedPrCtlSystemCall success_result
     [item_of (K_Value ''TSCAccessPtr'') PARAM_OUT ''access'']"

section \<open>The factory\<close>

definition prctl_cases :: "(int \<times> string) list" where
  "prctl_cases = [
     (PR_SET_MM, ''MemoryMapSystemCall''), (PR_MCE_KILL, ''MachineCheckKillSystemCall''),
     (PR_MCE_KILL_GET, ''MachineCheckKillGetSystemCall''), (PR_CAP_AMBIENT, ''CapAmbientSystemCall''),
     (PR_CAPBSET_READ, ''CapBSetSystemCall''), (PR_CAPBSET_DROP, ''CapBSetSystemCall''),
     (PR_GET_CHILD_SUBREAPER, ''GetChildSubReaperSystemCall''),
     (PR_SET_VMA, ''VirtualMemoryAttrSystemCall''), (PR_GET_NAME, ''NameSystemCall''),
     (PR_SET_NAME, ''NameSystemCall''), (PR_SET_PDEATHSIG, ''ParentDeathSignalSystemCall''),
     (PR_GET_PDEATHSIG, ''ParentDeathSignalSystemCall''), (PR_SET_PTRACER, ''SetPTracerSystemCall''),
     (PR_SET_SECCOMP, ''SetSecCompSystemCall''), (PR_GET_SECUREBITS, ''GetSecureBitsSystemCall''),
     (PR_SET_SECUREBITS, ''SetSecureBitsSystemCall''),
     (PR_GET_SPECULATION_CTRL, ''GetSpeculationControlSystemCall''),
     (PR_SET_SPECULATION_CTRL, ''SetSpeculationControlSystemCall''),
     (PR_SET_SYSCALL_USER_DISPATCH, ''SetSyscallUserDispatchSystemCall''),
     (PR_GET_TAGGED_ADDR_CTRL, ''GetTaggedAddrControlSystemCall''),
     (PR_SET_TAGGED_ADDR_CTRL, ''SetTaggedAddrControlSystemCall''),
     (PR_GET_THP_DISABLE, ''GetTHPDisableSystemCall''), (PR_SET_THP_DISABLE, ''SetTHPDisableSystemCall''),
     (PR_GET_TID_ADDRESS, ''GetTIDAddressSystemCall''), (PR_GET_TIMING, ''GetTimingModeSystemCall''),
     (PR_SET_TIMING, ''SetTimingModeSystemCall''), (PR_SET_TSC, ''SetTSCAccessSystemCall''),
     (PR_GET_TSC, ''GetTSCAccessSystemCall''), (PR_GET_MDWE, ''GetMemDenyWriteExecSystemCall''),
     (PR_SET_MDWE, ''SetMemDenyWriteExecSystemCall''), (PR_GET_AUXV, ''GetAuxVectorSystemCall''),
     (PR_SET_TIMERSLACK, ''SetTimerSlackSystemCall''), (PR_GET_TIMERSLACK, ''PrCtlSystemCall''),
     (PR_TASK_PERF_EVENTS_ENABLE, ''PrCtlSystemCall''), (PR_TASK_PERF_EVENTS_DISABLE, ''PrCtlSystemCall''),
     (PR_GET_DUMPABLE, ''PrCtlSystemCall''), (PR_SET_DUMPABLE, ''PrCtlSystemCall''),
     (PR_GET_IO_FLUSHER, ''PrCtlSystemCall''), (PR_SET_IO_FLUSHER, ''PrCtlSystemCall''),
     (PR_GET_NO_NEW_PRIVS, ''PrCtlSystemCall''), (PR_SET_NO_NEW_PRIVS, ''PrCtlSystemCall''),
     (PR_GET_KEEPCAPS, ''PrCtlSystemCall''), (PR_SET_KEEPCAPS, ''PrCtlSystemCall''),
     (PR_SET_CHILD_SUBREAPER, ''PrCtlSystemCall''), (PR_GET_SECCOMP, ''PrCtlSystemCall'')]"

definition create_prctl_syscall :: "sysinfo \<Rightarrow> string" where
  "create_prctl_syscall info = (case map_of prctl_cases (as_int (entry_args info ! 0)) of
     Some cls \<Rightarrow> cls | None \<Rightarrow> ''UnknownPrCtlSystemCall'')"

text \<open>The classes, those with items that are defined for every tracee first.\<close>

definition prctl_classes :: "(string \<times> call_class) list" where
  "prctl_classes = [
     (''ArchPrctlSystemCall'', ArchPrctlSystemCall), (''PrCtlSystemCall'', PrCtlSystemCall),
     (''UnknownPrCtlSystemCall'', UnknownPrCtlSystemCall),
     (''VirtualMemoryAttrSystemCall'', VirtualMemoryAttrSystemCall),
     (''GetTHPDisableSystemCall'', GetTHPDisableSystemCall), (''SetTHPDisableSystemCall'', SetTHPDisableSystemCall),
     (''GetMemDenyWriteExecSystemCall'', GetMemDenyWriteExecSystemCall),
     (''SetMemDenyWriteExecSystemCall'', SetMemDenyWriteExecSystemCall),
     (''GetAuxVectorSystemCall'', GetAuxVectorSystemCall),
     (''MachineCheckKillSystemCall'', MachineCheckKillSystemCall),
     (''MachineCheckKillGetSystemCall'', MachineCheckKillGetSystemCall),
     (''CapAmbientSystemCall'', CapAmbientSystemCall), (''CapBSetSystemCall'', CapBSetSystemCall),
     (''GetSecureBitsSystemCall'', GetSecureBitsSystemCall), (''SetSecureBitsSystemCall'', SetSecureBitsSystemCall),
     (''GetSpeculationControlSystemCall'', GetSpeculationControlSystemCall),
     (''SetSpeculationControlSystemCall'', SetSpeculationControlSystemCall),
     (''GetTaggedAddrControlSystemCall'', GetTaggedAddrControlSystemCall),
     (''SetTaggedAddrControlSystemCall'', SetTaggedAddrControlSystemCall),
     (''GetChildSubReaperSystemCall'', GetChildSubReaperSystemCall), (''NameSystemCall'', NameSystemCall),
     (''ParentDeathSignalSystemCall'', ParentDeathSignalSystemCall),
     (''SetPTracerSystemCall'', SetPTracerSystemCall),
     (''SetSyscallUserDispatchSystemCall'', SetSyscallUserDispatchSystemCall),
     (''GetTIDAddressSystemCall'', GetTIDAddressSystemCall), (''SetTimerSlackSystemCall'', SetTimerSlackSystemCall),
     (''SetTimingModeSystemCall'', SetTimingModeSystemCall), (''GetTimingModeSystemCall'', GetTimingModeSystemCall),
     (''SetTSCAccessSystemCall'', SetTSCAccessSystemCall), (''GetTSCAccessSystemCall'', GetTSCAccessSystemCall)]"

definition prctl_struct_classes :: "(string \<times> call_class) list" where
  "prctl_struct_classes = [
     (''MemoryMapSystemCall'', MemoryMapSystemCall), (''SetSecCompSystemCall'', SetSecCompSystemCall)]"

definition prctl_family :: "class_family \<Rightarrow> class_family" where
  "prctl_family rest = rest\<lparr>
     cf_class := (\<lambda>cls. case map_of (prctl_classes @ prctl_struct_classes) cls of
       Some c \<Rightarrow> c | None \<Rightarrow> cf_class rest cls),
     cf_multi := (\<lambda>f tv info. if f = ''create_prctl_syscall'' then Inr (create_prctl_syscall info)
       else cf_multi rest f tv info)\<rparr>"

end
