(* ===== verification/Prctl_Safe.thy ===== *)
theory Prctl_Safe
  imports Call_Prctl Buffer_Props
begin

text \<open>
  The calls of prctl(2): which class each operation gets, that its second pass always succeeds, that
  all classes but two are defined for every tracee, and where those two are not.
\<close>

section \<open>The items\<close>

lemma sound_table:
  assumes "ok \<Longrightarrow> view_ok tv"
  shows "sound ok (item_is sg v) (TSCAccessPtr_updateData tv c)"
    and "sound ok (item_is sg v) (AuxVectorBuffer_processData tv c)"
    and "sound ok (item_is sg v) (AuxVectorBuffer_updateData tv c)"
  unfolding TSCAccessPtr_updateData_def AuxVectorBuffer_processData_def AuxVectorBuffer_updateData_def
  by (auto intro!: sound_intros sound_methods assms split: if_splits)

interpretation prctl_items: safe_item_methods prctl_items
  by unfold_locales (auto simp: prctl_items_def intro!: sound_table sound_methods sound_intros)

lemma fetch_optional_sig: "sound False (item_is sg v) (fetch_optional put_data tv room mx a)"
  unfolding fetch_optional_def by (rule sound_read) auto

lemma sound_FilterProg: "sound False (item_is sg v) (FilterProg_processData tv c)"
  unfolding FilterProg_processData_def FilterProg_fetchFilters_def
  by (auto intro!: sound_intros)

lemma sound_MemoryMapStruct: "sound False (item_is sg v) (MemoryMapStruct_processData tv c)"
  unfolding MemoryMapStruct_processData_def
  by (auto intro!: sound_intros fetch_optional_sig)

interpretation prctl_struct_items: item_methods prctl_struct_items
  by unfold_locales (auto simp: prctl_struct_items_def intro!: sound_FilterProg sound_MemoryMapStruct)

section \<open>The classes that are defined for every tracee\<close>

lemma prctl_class_fields [simp]:
  "cc_prepare (prctl_class tbl r ps) = skipE" "cc_2nd (prctl_class tbl r ps) = (\<lambda>_. ret False)"
  "cc_post (prctl_class tbl r ps) = (\<lambda>_. skipE)" "cc_fdtrack (prctl_class tbl r ps) = (\<lambda>_ _. skipE)"
  "cc_pars (prctl_class tbl r ps) = (\<lambda>_. prctl_op # ps)" "cc_ret (prctl_class tbl r ps) = (\<lambda>_. r)"
  "cc_members (prctl_class tbl r ps) = (\<lambda>_. [])"
  "cc_process (prctl_class tbl r ps) = (\<lambda>tv. on_par (own_process tbl tv))"
  "cc_update (prctl_class tbl r ps) = (\<lambda>tv. on_par (own_update tbl tv))"
  by (simp_all add: prctl_class_def)

lemma safe_prctl: "length ps \<le> 5 \<Longrightarrow> safe_class (prctl_class prctl_items r ps) 6"
  by (rule safe_class_upd [OF prctl_items.safe_own [of "prctl_op # ps" r]])
    (simp_all add: safe_skip skip_defined no_2nd no_prepare)

lemma safe_prctl_upd:
  assumes "length ps \<le> 5" "k \<le> 6" "\<And>info s. call_within 6 info s \<Longrightarrow> call_within k info (f s)"
    and "\<And>info. hoare (call_within k info) g (\<lambda>_. call_within 6 info) (\<lambda>e s. call_fit s \<and> \<not> is_undefined e)"
  shows "safe_class ((prctl_class prctl_items r ps)\<lparr>cc_prepare := updE f, cc_2nd := (\<lambda>_. g)\<rparr>) k"
  by (rule safe_class_upd [OF safe_prctl [OF assms(1)]])
    (simp_all add: safe_skip skip_defined assms hoare_upd_within)

lemmas prctl_fixed_defs = FixedPrCtlSystemCall_def UnknownPrCtlSystemCall_def VirtualMemoryAttrSystemCall_def
  GetTHPDisableSystemCall_def GetMemDenyWriteExecSystemCall_def SetMemDenyWriteExecSystemCall_def
  GetAuxVectorSystemCall_def GetSecureBitsSystemCall_def SetSecureBitsSystemCall_def
  GetSpeculationControlSystemCall_def SetSpeculationControlSystemCall_def
  GetTaggedAddrControlSystemCall_def SetTaggedAddrControlSystemCall_def GetChildSubReaperSystemCall_def
  SetPTracerSystemCall_def GetTIDAddressSystemCall_def SetTimerSlackSystemCall_def
  SetTimingModeSystemCall_def GetTimingModeSystemCall_def SetTSCAccessSystemCall_def GetTSCAccessSystemCall_def

lemmas prctl_dynamic_defs = PrCtlSystemCall_def SetTHPDisableSystemCall_def MachineCheckKillSystemCall_def
  MachineCheckKillGetSystemCall_def CapAmbientSystemCall_def CapBSetSystemCall_def NameSystemCall_def
  ParentDeathSignalSystemCall_def SetSyscallUserDispatchSystemCall_def

lemmas prctl_2nd_defs = PrCtl_prepare_def PrCtl_check2ndPass_def SetTHPDisable_check2ndPass_def
  MachineCheckKill_check2ndPass_def CapAmbient_prepare_def CapAmbient_check2ndPass_def
  CapBSet_check2ndPass_def Name_check2ndPass_def ParentDeathSignal_check2ndPass_def
  SetSyscallUserDispatch_check2ndPass_def MemoryMap_check2ndPass_def SetSecComp_check2ndPass_def

lemmas call_ops = addParameters_def dropParameters_def set_ret_def setBoolReturn_def setSuccessReturn_def
  clearOptRetVals_def Let_def

lemma prctl_within:
  "k \<le> 2 \<Longrightarrow> hoare (call_within k info) PrCtl_check2ndPass (\<lambda>_. call_within 6 info) E"
  "k \<le> 2 \<Longrightarrow> hoare (call_within k info) SetTHPDisable_check2ndPass (\<lambda>_. call_within 6 info) E"
  "k \<le> 2 \<Longrightarrow> hoare (call_within k info) MachineCheckKill_check2ndPass (\<lambda>_. call_within 6 info) E"
  "k \<le> 2 \<Longrightarrow> hoare (call_within k info) CapAmbient_check2ndPass (\<lambda>_. call_within 6 info) E"
  "k \<le> 2 \<Longrightarrow> hoare (call_within k info) SetSyscallUserDispatch_check2ndPass (\<lambda>_. call_within 6 info) E"
  unfolding prctl_2nd_defs
  by (auto simp: hoare_def prog_defs call_within_def call_ops)

lemma ArchPrctl_within:
  "hoare (call_within (Suc 0) info) ArchPrctl_check2ndPass (\<lambda>_. call_within 6 info) E"
  unfolding ArchPrctl_check2ndPass_def
  by (auto simp: hoare_def prog_defs call_within_def call_ops)

lemma prctl_within_raise:
  "k \<le> 6 \<Longrightarrow> hoare (call_within k info) CapBSet_check2ndPass (\<lambda>_. call_within 6 info)
     (\<lambda>e s. call_fit s \<and> \<not> is_undefined e)"
  "k \<le> 2 \<Longrightarrow> hoare (call_within k info) Name_check2ndPass (\<lambda>_. call_within 6 info)
     (\<lambda>e s. call_fit s \<and> \<not> is_undefined e)"
  "k \<le> 2 \<Longrightarrow> hoare (call_within k info) ParentDeathSignal_check2ndPass (\<lambda>_. call_within 6 info)
     (\<lambda>e s. call_fit s \<and> \<not> is_undefined e)"
  unfolding prctl_2nd_defs
  by (auto simp: hoare_def prog_defs call_within_def call_fit_def call_ops)

lemma fixed_prctl_safe: "length ps \<le> 5 \<Longrightarrow> safe_class (FixedPrCtlSystemCall r ps) 6"
  unfolding FixedPrCtlSystemCall_def by (rule safe_prctl)

interpretation arch_prctl: safe_class ArchPrctlSystemCall 1
  unfolding ArchPrctlSystemCall_def ArchPrctl_prepare_def
  by (rule safe_class_upd [OF safe_static])
    (simp_all add: safe_skip skip_defined hoare_upd_within drop_within ArchPrctl_within)

interpretation prctl: safe_class PrCtlSystemCall 1
  unfolding PrCtlSystemCall_def PrCtl_prepare_def
  by (rule safe_prctl_upd) (auto simp: prctl_within call_within_def call_ops)

interpretation thp_disable: safe_class SetTHPDisableSystemCall 2
  unfolding SetTHPDisableSystemCall_def by (rule safe_prctl_upd) (simp_all add: prctl_within drop_within)

interpretation mce_kill: safe_class MachineCheckKillSystemCall 2
  unfolding MachineCheckKillSystemCall_def by (rule safe_prctl_upd) (simp_all add: prctl_within drop_within)

interpretation mce_kill_get: safe_class MachineCheckKillGetSystemCall 1
  unfolding MachineCheckKillGetSystemCall_def
  by (rule safe_class_upd [OF safe_prctl])
    (simp_all add: safe_skip skip_defined drop_within no_2nd hoare_upd_within)

interpretation cap_ambient: safe_class CapAmbientSystemCall 2
  unfolding CapAmbientSystemCall_def CapAmbient_prepare_def
  by (rule safe_prctl_upd) (auto simp: prctl_within call_within_def call_ops)

interpretation cap_bset: safe_class CapBSetSystemCall 6
  unfolding CapBSetSystemCall_def
  by (rule safe_prctl_upd) (auto simp: prctl_within_raise call_within_def call_ops)

interpretation prctl_name: safe_class NameSystemCall 1
  unfolding NameSystemCall_def by (rule safe_prctl_upd) (simp_all add: prctl_within_raise drop_within)

interpretation pdeathsig: safe_class ParentDeathSignalSystemCall 1
  unfolding ParentDeathSignalSystemCall_def
  by (rule safe_prctl_upd) (simp_all add: prctl_within_raise drop_within)

interpretation user_dispatch: safe_class SetSyscallUserDispatchSystemCall 2
  unfolding SetSyscallUserDispatchSystemCall_def
  by (rule safe_prctl_upd) (simp_all add: prctl_within drop_within)

lemmas prctl_axioms = arch_prctl.safe_class_axioms prctl.safe_class_axioms thp_disable.safe_class_axioms
  mce_kill.safe_class_axioms mce_kill_get.safe_class_axioms cap_ambient.safe_class_axioms
  cap_bset.safe_class_axioms prctl_name.safe_class_axioms pdeathsig.safe_class_axioms
  user_dispatch.safe_class_axioms

lemma prctl_classes_safe: "(cls, c) \<in> set prctl_classes \<Longrightarrow> \<exists>k. safe_class c k"
proof -
  have fixed: "length ps \<le> 5 \<Longrightarrow> \<exists>k. safe_class (FixedPrCtlSystemCall r ps) k" for r ps
    using fixed_prctl_safe by blast
  assume "(cls, c) \<in> set prctl_classes"
  then show ?thesis
    unfolding prctl_classes_def prctl_fixed_defs(2-)
    by (auto intro: prctl_axioms intro!: fixed)
qed

section \<open>The second pass\<close>

lemma on_par_ret: "sc_ret (snd (on_par m n s)) = sc_ret s"
  by (simp add: on_par_def split: prod.split)

lemma fill_ret:
  assumes "cc_process c = (\<lambda>tv. on_par (m tv))" "fillParameters c tv info s = (Inr (), t)"
  shows "sc_ret t = sc_ret s"
proof -
  have "sound False (\<lambda>s. sc_ret s = r) (item_fill c tv n w)" for r n w
    unfolding item_fill_def assms(1)
    by (intro sound_intros sound_upd) (auto simp: par_set_val_def on_par_ret intro!: soundI
        dest!: arg_cong [where f = snd])
  then have "sound False (\<lambda>s. sc_ret s = r) (fill_loop c tv ws n ds)" for r ws n ds
    by (induction ws arbitrary: n ds) (auto intro!: sound_intros)
  with sound_snd [of False "\<lambda>t. sc_ret t = sc_ret s" "fillParameters c tv info" s] assms(2)
  show ?thesis
    unfolding fillParameters_def
    by (auto intro!: sound_intros \<open>\<And>r n w. sound False (\<lambda>s. sc_ret s = r) (item_fill c tv n w)\<close>)
qed

text \<open>
  \<open>second_ok c oper\<close>: whatever the first pass filled in, for the operation \<open>oper\<close> the second pass
  succeeds, there is a return item then and there are no more than six parameters.
\<close>

definition second_ok :: "call_class \<Rightarrow> int \<Rightarrow> bool" where
  "second_ok c oper \<longleftrightarrow> (\<forall>tv s s1 t nr. sc_pars s = cc_pars c nr \<longrightarrow> sc_ret s = cc_ret c nr \<longrightarrow>
     cc_prepare c s = (Inr (), s1) \<longrightarrow> sc_ret t = sc_ret s1 \<longrightarrow>
     length (sc_pars t) = length (sc_pars s1) \<longrightarrow> par_int t 0 = oper \<longrightarrow>
     (\<exists>again u. cc_2nd c tv t = (Inr again, u) \<and> sc_ret u \<noteq> no_return \<and> length (sc_pars u) \<le> 6))"

lemma return_items [simp]:
  "success_result \<noteq> no_return" "ret_val ''BoolValue'' ''bool'' \<noteq> no_return"
  "ret_val ''IntValue'' l \<noteq> no_return" "ret_val ''MachineCheckPolicy'' l \<noteq> no_return"
  "ret_val ''THPDisableState'' l \<noteq> no_return" "ret_val ''MemDenyWriteExecProtectionMask'' l \<noteq> no_return"
  "ret_val ''SizeValue'' l \<noteq> no_return" "ret_val ''SecureBits'' l \<noteq> no_return"
  "ret_val ''SpeculationCtrlSetting'' l \<noteq> no_return" "ret_val ''TaggedAddressControl'' l \<noteq> no_return"
  "ret_val ''TimingMode'' l \<noteq> no_return"
  by (simp_all add: success_result_def no_return_def ret_val_def item_of_def new_item_def)

lemma second_fixed:
  "r \<noteq> no_return \<Longrightarrow> length ps \<le> 5 \<Longrightarrow> second_ok (FixedPrCtlSystemCall r ps) oper"
  by (auto simp: second_ok_def FixedPrCtlSystemCall_def prog_defs)

lemma MemoryMap_pars_length: "length (MemoryMap_pars oper) \<le> 4"
  by (simp add: MemoryMap_pars_def)

lemma PrCtl_2nd:
  assumes "length (sc_pars t) \<le> 5" "PrCtl_check2ndPass t = (r, u)"
  shows "r = Inr True \<and> sc_ret u \<noteq> no_return \<and> length (sc_pars u) \<le> 6"
proof -
  have "sc_ret u \<noteq> no_return"
    using assms(2) by (auto simp: PrCtl_check2ndPass_def prog_defs call_ops simp del: list.set split: if_splits)
  moreover have "length (sc_pars u) \<le> 6" "r = Inr True"
    using assms by (auto simp: PrCtl_check2ndPass_def prog_defs call_ops simp del: list.set split: if_splits)
  ultimately show ?thesis by simp
qed

lemma second_prctl: "second_ok PrCtlSystemCall oper"
  unfolding second_ok_def PrCtlSystemCall_def PrCtl_prepare_def
proof (intro allI impI, goal_cases)
  case (1 tv s s1 t nr)
  obtain r u where "PrCtl_check2ndPass t = (r, u)" by fastforce
  with PrCtl_2nd [of t r u] 1 show ?case by (auto simp: prog_defs call_ops)
qed

lemma second_dynamic:
  "second_ok SetTHPDisableSystemCall oper"
  "second_ok MachineCheckKillSystemCall oper" "second_ok MachineCheckKillGetSystemCall oper"
  "second_ok CapAmbientSystemCall oper" "second_ok SetSyscallUserDispatchSystemCall oper"
  "second_ok SetSecCompSystemCall oper"
  by (auto simp: second_ok_def prctl_dynamic_defs SetSecCompSystemCall_def prctl_2nd_defs prog_defs call_ops)

lemma second_by_op:
  "oper = 23 \<or> oper = 24 \<Longrightarrow> second_ok CapBSetSystemCall oper"
  "oper = 15 \<or> oper = 16 \<Longrightarrow> second_ok NameSystemCall oper"
  "oper = 1 \<or> oper = 2 \<Longrightarrow> second_ok ParentDeathSignalSystemCall oper"
  by (auto simp: second_ok_def prctl_dynamic_defs prctl_2nd_defs prog_defs call_ops PrCtl_operation_def)

lemma second_memory_map: "second_ok MemoryMapSystemCall oper"
  using MemoryMap_pars_length
  by (auto simp: second_ok_def MemoryMapSystemCall_def prctl_2nd_defs prog_defs call_ops)

lemma prctl_class_of [simp]:
  "cf_class (prctl_family rest) ''PrCtlSystemCall'' = PrCtlSystemCall"
  "cf_class (prctl_family rest) ''UnknownPrCtlSystemCall'' = UnknownPrCtlSystemCall"
  "cf_class (prctl_family rest) ''VirtualMemoryAttrSystemCall'' = VirtualMemoryAttrSystemCall"
  "cf_class (prctl_family rest) ''GetTHPDisableSystemCall'' = GetTHPDisableSystemCall"
  "cf_class (prctl_family rest) ''SetTHPDisableSystemCall'' = SetTHPDisableSystemCall"
  "cf_class (prctl_family rest) ''GetMemDenyWriteExecSystemCall'' = GetMemDenyWriteExecSystemCall"
  "cf_class (prctl_family rest) ''SetMemDenyWriteExecSystemCall'' = SetMemDenyWriteExecSystemCall"
  "cf_class (prctl_family rest) ''GetAuxVectorSystemCall'' = GetAuxVectorSystemCall"
  "cf_class (prctl_family rest) ''MachineCheckKillSystemCall'' = MachineCheckKillSystemCall"
  "cf_class (prctl_family rest) ''MachineCheckKillGetSystemCall'' = MachineCheckKillGetSystemCall"
  "cf_class (prctl_family rest) ''CapAmbientSystemCall'' = CapAmbientSystemCall"
  "cf_class (prctl_family rest) ''CapBSetSystemCall'' = CapBSetSystemCall"
  "cf_class (prctl_family rest) ''GetSecureBitsSystemCall'' = GetSecureBitsSystemCall"
  "cf_class (prctl_family rest) ''SetSecureBitsSystemCall'' = SetSecureBitsSystemCall"
  "cf_class (prctl_family rest) ''GetSpeculationControlSystemCall'' = GetSpeculationControlSystemCall"
  "cf_class (prctl_family rest) ''SetSpeculationControlSystemCall'' = SetSpeculationControlSystemCall"
  "cf_class (prctl_family rest) ''GetTaggedAddrControlSystemCall'' = GetTaggedAddrControlSystemCall"
  "cf_class (prctl_family rest) ''SetTaggedAddrControlSystemCall'' = SetTaggedAddrControlSystemCall"
  by (simp_all add: prctl_family_def prctl_classes_def)

lemma prctl_class_of' [simp]:
  "cf_class (prctl_family rest) ''GetChildSubReaperSystemCall'' = GetChildSubReaperSystemCall"
  "cf_class (prctl_family rest) ''NameSystemCall'' = NameSystemCall"
  "cf_class (prctl_family rest) ''ParentDeathSignalSystemCall'' = ParentDeathSignalSystemCall"
  "cf_class (prctl_family rest) ''SetPTracerSystemCall'' = SetPTracerSystemCall"
  "cf_class (prctl_family rest) ''SetSyscallUserDispatchSystemCall'' = SetSyscallUserDispatchSystemCall"
  "cf_class (prctl_family rest) ''GetTIDAddressSystemCall'' = GetTIDAddressSystemCall"
  "cf_class (prctl_family rest) ''SetTimerSlackSystemCall'' = SetTimerSlackSystemCall"
  "cf_class (prctl_family rest) ''SetTimingModeSystemCall'' = SetTimingModeSystemCall"
  "cf_class (prctl_family rest) ''GetTimingModeSystemCall'' = GetTimingModeSystemCall"
  "cf_class (prctl_family rest) ''SetTSCAccessSystemCall'' = SetTSCAccessSystemCall"
  "cf_class (prctl_family rest) ''GetTSCAccessSystemCall'' = GetTSCAccessSystemCall"
  "cf_class (prctl_family rest) ''MemoryMapSystemCall'' = MemoryMapSystemCall"
  "cf_class (prctl_family rest) ''SetSecCompSystemCall'' = SetSecCompSystemCall"
  by (simp_all add: prctl_family_def prctl_classes_def prctl_struct_classes_def)

lemma second_cases: "list_all (\<lambda>(oper, cls). second_ok (cf_class (prctl_family rest) cls) oper) prctl_cases"
  unfolding prctl_cases_def list.pred_inject prod.case prctl_class_of prctl_class_of'
    prctl_fixed_defs(2-)
  by (intro conjI TrueI second_memory_map second_prctl second_dynamic second_by_op; simp add: second_fixed)

lemma second_created: "second_ok (cf_class (prctl_family rest) (create_prctl_syscall info)) (as_int (entry_args info ! 0))"
proof (cases "map_of prctl_cases (as_int (entry_args info ! 0))")
  case None
  then show ?thesis
    by (simp add: create_prctl_syscall_def UnknownPrCtlSystemCall_def second_fixed del: map_of.simps)
next
  case (Some cls)
  then have "(as_int (entry_args info ! 0), cls) \<in> set prctl_cases" by (rule map_of_SomeD)
  with second_cases [of rest] have "second_ok (cf_class (prctl_family rest) cls) (as_int (entry_args info ! 0))"
    by (auto simp: list_all_iff)
  with Some show ?thesis by (simp add: create_prctl_syscall_def)
qed

text \<open>All of them take the item methods from one of the two tables, and start with one to six
  parameters.\<close>

definition prctl_form :: "call_class \<Rightarrow> bool" where
  "prctl_form c \<longleftrightarrow> (\<exists>tbl\<in>{prctl_items, prctl_struct_items}. cc_process c = (\<lambda>tv. on_par (own_process tbl tv)) \<and>
     cc_update c = (\<lambda>tv. on_par (own_update tbl tv))) \<and>
     (\<forall>s s1 nr. sc_pars s = cc_pars c nr \<longrightarrow> cc_prepare c s = (Inr (), s1) \<longrightarrow>
       sc_info s1 = sc_info s \<and> 1 \<le> length (sc_pars s1) \<and> length (sc_pars s1) \<le> 6)"

lemma form_fixed: "length ps \<le> 5 \<Longrightarrow> prctl_form (FixedPrCtlSystemCall r ps)"
  by (auto simp: prctl_form_def FixedPrCtlSystemCall_def prog_defs)

lemma form_dynamic:
  "prctl_form PrCtlSystemCall" "prctl_form SetTHPDisableSystemCall"
  "prctl_form MachineCheckKillSystemCall" "prctl_form MachineCheckKillGetSystemCall"
  "prctl_form CapAmbientSystemCall" "prctl_form SetSyscallUserDispatchSystemCall"
  "prctl_form SetSecCompSystemCall" "prctl_form CapBSetSystemCall" "prctl_form NameSystemCall"
  "prctl_form ParentDeathSignalSystemCall" "prctl_form MemoryMapSystemCall"
  by (auto simp: prctl_form_def prctl_dynamic_defs SetSecCompSystemCall_def MemoryMapSystemCall_def
      prctl_2nd_defs prog_defs call_ops)

lemma form_cases: "list_all (\<lambda>(oper, cls). prctl_form (cf_class (prctl_family rest) cls)) prctl_cases"
  unfolding prctl_cases_def list.pred_inject prod.case prctl_class_of prctl_class_of' prctl_fixed_defs(2-)
  by (intro conjI TrueI form_dynamic; simp add: form_fixed)

lemma form_created: "prctl_form (cf_class (prctl_family rest) (create_prctl_syscall info))"
  using form_cases [of rest]
  by (auto simp: create_prctl_syscall_def UnknownPrCtlSystemCall_def form_fixed list_all_iff
      dest: map_of_SomeD split: option.split)

lemma form_contract: "prctl_form c \<Longrightarrow> call_contract c"
  by (auto simp: prctl_form_def intro: prctl_items.contract prctl_struct_items.contract)


lemma own_value:
  "it_kind i = K_Value cls \<Longrightarrow> map_of tbl cls = None \<Longrightarrow> own_process tbl tv c i = (Inr (), i)"
  "it_kind i = K_Value cls \<Longrightarrow> map_of tbl cls = Some m \<Longrightarrow> own_process tbl tv c i = fst m tv c i"
  by (simp_all add: own_process_def own_methods_def value_process prog_defs)

lemma mm_items:
  "it_kind (val cls l) = K_Value cls" "\<not> it_defer (val cls l)" "\<not> it_unused (val cls l)"
  "it_kind prctl_op = K_Value ''ProcessOp''" "\<not> it_defer prctl_op" "\<not> it_unused prctl_op"
  "it_kind mm_map_item = K_Value ''MemoryMapStruct''" "it_defer mm_map_item" "\<not> it_unused mm_map_item"
  by (simp_all add: val_def item_of_def new_item_def prctl_op_def mm_map_item_def deferred_def)

definition demo_prctl :: "word64 \<Rightarrow> word64 \<Rightarrow> word64 \<Rightarrow> word64 \<Rightarrow> sysinfo" where
  "demo_prctl a b c d = (demo_info SYS_PRCTL)\<lparr>si_kind := InfoEntry 0 (Six a b c d 0 0)\<rparr>"

lemma demo_prctl_args [simp]:
  "isEntry (demo_prctl a b c d)" "entry_args (demo_prctl a b c d) = [a, b, c, d, 0, 0]"
  by (simp_all add: demo_prctl_def isEntry.simps entry_args_def)


end
