(* ===== verification/Prctl_Props.thy ===== *)
theory Prctl_Props
  imports Prctl_Safe
begin

text \<open>
  The two structures that the tracer reads from the tracee for prctl(2): the memory map of
  \<open>PR_SET_MM_MAP\<close> and the filter program of \<open>PR_SET_SECCOMP\<close>.
\<close>

section \<open>The memory map\<close>

lemma six_entry_args:
  assumes "isEntry info"
  obtains a0 a1 a2 a3 a4 a5 where "entry_args info = [a0, a1, a2, a3, a4, a5]"
  using assms by (cases "si_kind info"; cases "entry_args info") (auto simp: isEntry.simps entry_args_def elim!: six_list.elims)

lemma MemoryMapStruct_read:
  assumes "sc_class c = ''MemoryMapSystemCall''" "it_val i \<noteq> 0" "mem_at (tv_peek tv) (it_val i) bs"
    and "n = unat (it_val (sc_pars c ! 3))" "0 < n" "n + 8 \<le> length bs"
  shows "n \<le> prctl_mm_map_size \<Longrightarrow> MemoryMapStruct_processData tv c i =
      (Inr (), i\<lparr>it_data := Some (take n bs @ replicate (prctl_mm_map_size - n) 0)\<rparr>)"
    and "prctl_mm_map_size < n \<Longrightarrow>
      fst (MemoryMapStruct_processData tv c i) = Inl (Undefined ''write past the end of the buffer'')"
proof -
  let ?k = "(n + 7) div 8"
  have "8 * ?k \<le> n + 7" "n \<le> 8 * ?k" by simp_all
  then have "8 * ?k \<le> length bs" using assms(6) by linarith
  then obtain ws where ws: "reads (tv_peek tv) (it_val i) ws" "length ws = ?k" "concat (map word_bytes ws) = take (8 * ?k) bs"
    using mem_at_reads [OF assms(3)] by blast
  have n: "ref_size c (OfParam 3) = n" using assms(4) by (simp add: ref_size_def)
  let ?old = "replicate prctl_mm_map_size 0 :: byte list"
  show "MemoryMapStruct_processData tv c i = (Inr (), i\<lparr>it_data := Some (take n bs @ replicate (prctl_mm_map_size - n) 0)\<rparr>)"
    if "n \<le> prctl_mm_map_size"
  proof -
    have "readStruct (tv_peek tv) (it_val i) ?old n = Some (Inr True, take n bs @ drop n ?old)"
      using readStruct_ok [OF ws(1) assms(2,5), of ?old] that ws(2,3) \<open>n \<le> 8 * ?k\<close> by (simp add: min_def)
    then show ?thesis
      by (simp add: MemoryMapStruct_processData_def assms(1) n fetch_optional_def readStructIntoOptional_def
          voidE_def prog_defs put_data_def)
  qed
  show "fst (MemoryMapStruct_processData tv c i) = Inl (Undefined ''write past the end of the buffer'')"
    if "prctl_mm_map_size < n"
  proof -
    have "map_option fst (readStruct (tv_peek tv) (it_val i) ?old n) =
        Some (Inl (Undefined ''write past the end of the buffer''))"
      using readStruct_overrun [OF ws(1) assms(2), of ?old n] that ws(2) \<open>n \<le> 8 * ?k\<close> by simp
    then show ?thesis
      by (auto simp: MemoryMapStruct_processData_def assms(1) n fetch_optional_def readStructIntoOptional_def
          voidE_def prog_defs)
  qed
qed

text \<open>C28: prctl(PR_SET_MM, PR_SET_MM_MAP, map, size): at the entry of the call the tracer reads as many bytes
  as the tracee names into a structure of 104 bytes. Up to that size it holds exactly what is in
  the memory of the tracee, and zeros where a shorter structure ends; with a larger size the
  tracer writes past the end of its structure.\<close>

theorem memory_map_entry:
  assumes "isEntry info" "entry_args info ! 0 = 35" "entry_args info ! 1 = 14"
    and "entry_args info ! 2 \<noteq> 0" "mem_at (tv_peek tv) (entry_args info ! 2) bs"
    and "n = unat (entry_args info ! 3)" "0 < n" "n + 8 \<le> length bs"
    and "cls = create_prctl_syscall info" "c = cf_class (prctl_family rest) cls"
    and "setEntryInfo c tv info (new_call (prctl_family rest) cls SYS_PRCTL) = (r, s')"
  shows "if n \<le> prctl_mm_map_size
    then r = Inr () \<and> it_data (sc_pars s' ! 2) = Some (take n bs @ replicate (prctl_mm_map_size - n) 0)
    else r = Inl (Undefined ''write past the end of the buffer'')"
proof -
  obtain p sz a4 a5 where args: "entry_args info = [35, 14, p, sz, a4, a5]"
    using six_entry_args [OF assms(1)] assms(2,3) by (metis nth_Cons_0 nth_Cons_Suc One_nat_def)
  have cls: "cls = ''MemoryMapSystemCall''"
    using assms(2) by (simp add: assms(9) create_prctl_syscall_def prctl_cases_def as_int_def)
  have c: "c = MemoryMapSystemCall" by (simp add: assms(10) cls)
  let ?s1 = "new_call (prctl_family rest) cls SYS_PRCTL"
  obtain i0 i1 i2 i3 where new: "sc_pars ?s1 = [i0, i1]" "MemoryMap_pars 14 = [i2, i3]"
    and val: "\<And>c w. own_process prctl_struct_items tv c (i0\<lparr>it_val := w\<rparr>) = (Inr (), i0\<lparr>it_val := w\<rparr>)"
      "\<And>c w. own_process prctl_struct_items tv c (i1\<lparr>it_val := w\<rparr>) = (Inr (), i1\<lparr>it_val := w\<rparr>)"
      "\<And>c w. own_process prctl_struct_items tv c (i3\<lparr>it_val := w\<rparr>) = (Inr (), i3\<lparr>it_val := w\<rparr>)"
      "\<And>c w. own_process prctl_struct_items tv c (i2\<lparr>it_val := w\<rparr>) = MemoryMapStruct_processData tv c (i2\<lparr>it_val := w\<rparr>)"
    and flags: "\<not> it_defer i0" "\<not> it_defer i1" "it_defer i2" "\<not> it_defer i3"
      "\<not> it_unused i0" "\<not> it_unused i1" "\<not> it_unused i2" "\<not> it_unused i3"
    by (rule that [of prctl_op "val ''MemoryMapOp'' ''subop''" mm_map_item "val ''ULongValue'' ''size''"])
      (simp_all add: new_call_def cls MemoryMapSystemCall_def MemoryMap_pars_def mm_items own_value prctl_struct_items_def)
  have s1: "sc_class ?s1 = ''MemoryMapSystemCall''" by (simp add: new_call_def cls)
  have fields: "cc_prepare c = updE (dropParameters 2)" "cc_2nd c tv = MemoryMap_check2ndPass"
    "\<And>tv n. cc_process c tv n = on_par (own_process prctl_struct_items tv) n"
    by (simp_all add: c MemoryMapSystemCall_def)
  let ?t = "?s1\<lparr>sc_abi := si_abi info, sc_error := Some (ErrnoResult ENODATA), sc_info := Some info,
     sc_pars := [i0\<lparr>it_val := 35\<rparr>, i1\<lparr>it_val := 14\<rparr>, i2\<lparr>it_val := p\<rparr>, i3\<lparr>it_val := sz\<rparr>]\<rparr>"
  show ?thesis
    using assms(11) MemoryMapStruct_read [of "?t" "i2\<lparr>it_val := p\<rparr>" tv bs n] assms(4-8)
    by (simp add: setEntryInfo_def fields fillParameters_def args item_fill_def par_set_val_def on_par_def
        prog_defs new s1 MemoryMap_check2ndPass_def dropParameters_def addParameters_def val flags
        del: numeral_2_eq_2; cases "n \<le> prctl_mm_map_size") (auto split: prod.splits sum.splits)
qed

theorem memory_map_entry_witness:
  "fst (setEntryInfo MemoryMapSystemCall filled_view (demo_prctl 35 14 4096 112)
       (new_call (prctl_family plain_family) ''MemoryMapSystemCall'' SYS_PRCTL)) =
     Inl (Undefined ''write past the end of the buffer'')"
proof -
  let ?info = "demo_prctl 35 14 4096 112"
  have cls: "''MemoryMapSystemCall'' = create_prctl_syscall ?info"
    by (simp add: create_prctl_syscall_def prctl_cases_def as_int_def)
  obtain r s' where "setEntryInfo MemoryMapSystemCall filled_view ?info
       (new_call (prctl_family plain_family) ''MemoryMapSystemCall'' SYS_PRCTL) = (r, s')" by fastforce
  with memory_map_entry [of ?info filled_view "replicate 120 0x2A" 112, OF _ _ _ _ _ _ _ _ cls, of _ plain_family r s'] filled_mem
  show ?thesis by (simp add: prctl_mm_map_size_def)
qed

section \<open>The filter program\<close>

lemma FilterProg_bad:
  assumes "\<not> is32BitEmulationABI (tv_arch tv) c" "it_val i = 0 \<or> tv_peek tv (it_val i) = Inl (ApiError EIO)"
  shows "fst (FilterProg_processData tv c i) = Inl (Undefined ''dereference of an empty optional'')"
proof -
  have "fillData (tv_peek tv) BlobFiller (it_val i) f = Some (Inl (ApiError EIO), f)"
    if "tv_peek tv (it_val i) = Inl (ApiError EIO)" for f
    using that by (simp add: fillData.simps)
  then have "readStruct (tv_peek tv) (it_val i) (replicate 16 0) 16 = Some (Inr False, replicate 16 0)"
    using assms(2) by (auto simp: readStruct_def readBlob_def)
  then show ?thesis
    using assms(1)
    by (simp add: FilterProg_processData_def fetch_optional_def readStructIntoOptional_def voidE_def
        FilterProg_fetchFilters_def prog_defs put_data_def)
qed

text \<open>C29: prctl(PR_SET_SECCOMP, SECCOMP_MODE_FILTER, prog) with a pointer that is null or cannot be read, on
  a tracee of the native ABI: the structure is not there, and the tracer looks at its length all the same.
  An unprivileged tracee runs the tracer into an empty optional this way.\<close>

theorem seccomp_bad_filter:
  assumes "isEntry info" "entry_args info ! 0 = 22" "entry_args info ! 1 = 2"
    and "entry_args info ! 2 = 0 \<or> tv_peek tv (entry_args info ! 2) = Inl (ApiError EIO)"
    and "\<not> is_32bit_emulation_abi (tv_arch tv) (si_abi info)"
    and "cls = create_prctl_syscall info" "c = cf_class (prctl_family rest) cls"
  shows "fst (setEntryInfo c tv info (new_call (prctl_family rest) cls SYS_PRCTL)) =
    Inl (Undefined ''dereference of an empty optional'')"
proof -
  obtain p a3 a4 a5 where args: "entry_args info = [22, 2, p, a3, a4, a5]"
    using six_entry_args [OF assms(1)] assms(2,3) by (metis nth_Cons_0 nth_Cons_Suc One_nat_def)
  have cls: "cls = ''SetSecCompSystemCall''"
    using assms(2) by (simp add: assms(6) create_prctl_syscall_def prctl_cases_def as_int_def)
  have c: "c = SetSecCompSystemCall" by (simp add: assms(7) cls)
  let ?s1 = "new_call (prctl_family rest) cls SYS_PRCTL"
  obtain i0 i1 i2 where new: "sc_pars ?s1 = [i0, i1]" "val ''FilterProg'' ''filter'' = i2"
    and val: "\<And>c w. own_process prctl_struct_items tv c (i0\<lparr>it_val := w\<rparr>) = (Inr (), i0\<lparr>it_val := w\<rparr>)"
      "\<And>c w. own_process prctl_struct_items tv c (i1\<lparr>it_val := w\<rparr>) = (Inr (), i1\<lparr>it_val := w\<rparr>)"
      "\<And>c w. own_process prctl_struct_items tv c (i2\<lparr>it_val := w\<rparr>) = FilterProg_processData tv c (i2\<lparr>it_val := w\<rparr>)"
    and flags: "\<not> it_defer i0" "\<not> it_defer i1" "\<not> it_defer i2"
      "\<not> it_unused i0" "\<not> it_unused i1" "\<not> it_unused i2"
    by (rule that [of prctl_op "val ''SecCompMode'' ''mode''" "val ''FilterProg'' ''filter''"])
      (simp_all add: new_call_def cls SetSecCompSystemCall_def mm_items own_value prctl_struct_items_def)
  have fields: "cc_prepare c = updE (dropParameters 2)" "cc_2nd c tv = SetSecComp_check2ndPass"
    "\<And>tv n. cc_process c tv n = on_par (own_process prctl_struct_items tv) n"
    by (simp_all add: c SetSecCompSystemCall_def)
  let ?t = "?s1\<lparr>sc_abi := si_abi info, sc_error := Some (ErrnoResult ENODATA), sc_info := Some info,
     sc_pars := [i0\<lparr>it_val := 22\<rparr>, i1\<lparr>it_val := 2\<rparr>, i2\<lparr>it_val := p\<rparr>]\<rparr>"
  have "fst (FilterProg_processData tv ?t (i2\<lparr>it_val := p\<rparr>)) = Inl (Undefined ''dereference of an empty optional'')"
    using assms(4,5) by (intro FilterProg_bad) (simp_all add: args is32BitEmulationABI_def)
  then show ?thesis
    by (simp add: setEntryInfo_def fields fillParameters_def args item_fill_def par_set_val_def on_par_def
        prog_defs new SetSecComp_check2ndPass_def dropParameters_def addParameters_def val flags
        del: numeral_2_eq_2) (auto split: prod.splits sum.splits)
qed

theorem seccomp_bad_filter_witness:
  "fst (setEntryInfo SetSecCompSystemCall demo_view (demo_prctl 22 2 0 0)
       (new_call (prctl_family plain_family) ''SetSecCompSystemCall'' SYS_PRCTL)) =
     Inl (Undefined ''dereference of an empty optional'')"
proof -
  let ?info = "demo_prctl 22 2 0 0"
  have cls: "''SetSecCompSystemCall'' = create_prctl_syscall ?info"
    by (simp add: create_prctl_syscall_def prctl_cases_def as_int_def)
  have "\<not> is_32bit_emulation_abi (tv_arch demo_view) (si_abi ?info)"
    by (simp add: demo_prctl_def demo_info_def demo_view_def is_32bit_emulation_abi_def arch_x86_64_def)
  from seccomp_bad_filter [of ?info demo_view, OF _ _ _ _ this cls, of _ plain_family]
  show ?thesis by simp
qed

end
