(* ===== verification/Bytes.thy ===== *)
theory Bytes
  imports Tracee_Memory
begin

text \<open>
  Numbers as the bytes that structures of a tracee hold them in, least significant first, and the words
  that reading them yields.
\<close>

definition nat_bytes :: "nat \<Rightarrow> nat \<Rightarrow> byte list" where
  "nat_bytes n k = map (\<lambda>i. of_nat (k div 256 ^ i)) [0..<n]"

lemma length_nat_bytes [simp]: "length (nat_bytes n k) = n"
  by (simp add: nat_bytes_def)

lemma bytes_nat_simps [simp]: "bytes_nat [] = 0" "bytes_nat (b # bs) = unat b + 256 * bytes_nat bs"
  by (simp_all add: bytes_nat_def)

lemma nat_bytes_Suc: "nat_bytes (Suc n) k = of_nat k # nat_bytes n (k div 256)"
  unfolding nat_bytes_def
  by (simp add: map_upt_Suc div_mult2_eq del: upt_Suc)

lemma bytes_nat_bytes: "bytes_nat (nat_bytes n k) = k mod 256 ^ n"
proof (induction n arbitrary: k)
  case 0
  then show ?case by (simp add: nat_bytes_def)
next
  case (Suc n)
  have "k mod 256 ^ Suc n = k mod 256 + 256 * (k div 256 mod 256 ^ n)"
    by (simp add: mod_mult2_eq)
  then show ?case
    by (simp add: nat_bytes_Suc Suc unat_of_nat)
qed

lemma word_bytes_of_nat: "word_bytes (of_nat n) = nat_bytes 8 n"
proof -
  have "(ucast (drop_bit (8 * i) (of_nat n :: word64)) :: byte) = of_nat (n div 256 ^ i)" if "i < 8" for i
  proof (rule bit_eqI)
    fix j
    assume "possible_bit TYPE(byte) j"
    then have "j < 8" by simp
    have "n div 256 ^ i = drop_bit (8 * i) n" by (simp add: drop_bit_eq_div power_mult)
    with \<open>j < 8\<close> that show "bit (ucast (drop_bit (8 * i) (of_nat n :: word64)) :: byte) j =
        bit (of_nat (n div 256 ^ i) :: byte) j"
      by (auto simp: bit_simps add.commute)
  qed
  then show ?thesis by (simp add: word_bytes_def nat_bytes_def)
qed

lemma nat_bytes_of_bytes: "nat_bytes (length bs) (bytes_nat bs) = bs"
proof (induction bs)
  case (Cons b bs)
  have "unat (of_nat (unat b + 256 * bytes_nat bs) :: byte) = unat b"
    using unsigned_less [of b, where ?'a = nat] by (simp only: unat_of_nat) simp
  then have "of_nat (unat b + 256 * bytes_nat bs) = b" by (rule unsigned_word_eqI)
  moreover have "(unat b + 256 * bytes_nat bs) div 256 = bytes_nat bs"
    using unsigned_less [of b, where ?'a = nat] by simp
  ultimately show ?case using Cons by (simp add: nat_bytes_Suc)
qed (simp add: nat_bytes_def)

end
