(* ===== verification/Net_Items.thy ===== *)
theory Net_Items
  imports Call_Methods Bytes
begin

text \<open>
  The items of system calls on sockets that read the memory of the tracee: addresses and their
  lengths, socket pairs and the argument block of socketcall(2) (src/items/net.cxx), and the message
  headers of sendmsg(2) and recvmsg(2) (src/items/msghdr.cxx).

  A header has sub-items of its own. They live in \<open>it_msgs\<close>; a method of a sub-item runs on an item
  that is built from there, in a call whose parameters are the lengths that the sub-items refer to.
  The layouts are those of the 64 bit tracer.
\<close>

section \<open>Socket pairs\<close>

text \<open>\<open>it_data\<close> is the array of the two descriptors, \<open>it_more\<close> is \<open>m_valid\<close>, empty or not.\<close>

definition SocketPair_processData :: item_method where
  "SocketPair_processData tv c = updE (\<lambda>i. i\<lparr>it_data := Some (no_id @ no_id), it_more := []\<rparr>)"

text \<open>\<open>readVector\<close> stops at an element that is zero, unless it is told not to.\<close>

definition SocketPair_updateData :: item_method where
  "SocketPair_updateData tv c =
     (if \<not> hasResultValue c then skipE
      else bindE (\<lambda>i. case readVector (tv_peek tv) 4 (it_val i) 2 True of
             None \<Rightarrow> endless i
           | Some (Inl e, _) \<Rightarrow> (Inl e, i)
           | Some (Inr _, fds) \<Rightarrow> (Inr fds, i))
        (\<lambda>fds. updE (\<lambda>i. i\<lparr>it_data := Some (concat (map (nat_bytes 4) fds) @ drop (4 * length fds) (vec i)),
           it_more := [[]]\<rparr>)))"

definition SocketPair_pair :: "item \<Rightarrow> int list" where
  "SocketPair_pair i = [field_int 0 (vec i), field_int 4 (vec i)]"

section \<open>Addresses\<close>

text \<open>
  The length of an address is an \<open>int\<close> parameter or what the \<open>int*\<close> parameter points to. \<open>indirect\<close>
  tells which, \<open>k\<close> is the position of that parameter.
\<close>

definition SocketAddress_addrLen :: "bool \<Rightarrow> nat \<Rightarrow> syscall \<Rightarrow> exn + int" where
  "SocketAddress_addrLen indirect k c =
     (if \<not> indirect then Inr (as_int (it_val (sc_pars c ! k)))
      else case it_data (sc_pars c ! k) of
          None \<Rightarrow> Inl (Undefined ''dereference of an empty optional'')
        | Some bs \<Rightarrow> Inr (field_int 0 bs))"

definition sockaddr_storage_size :: nat where
  "sockaddr_storage_size = 128"

definition SocketAddress_processData :: "bool \<Rightarrow> nat \<Rightarrow> item_method" where
  "SocketAddress_processData indirect k tv c = bindE (askE id) (\<lambda>i.
     if isOut i \<and> entering c \<or> it_val i = 0 \<or> \<not> entering c \<and> \<not> hasResultValue c
     then updE (put_data None)
     else seqE (updE (put_data (Some (replicate sockaddr_storage_size 0))))
       (bindE (liftE (SocketAddress_addrLen indirect k c)) (\<lambda>len.
          let addr_len = min (nat len) sockaddr_storage_size in
          if addr_len = 0 then updE (put_data None)
          else catchE is_std_exception
            (\<lambda>i. case readBlob (tv_peek tv) (it_val i) sockaddr_storage_size addr_len of
                None \<Rightarrow> endless i
              | Some (r, bs) \<Rightarrow> (r, put_data (Some (bs @ replicate (sockaddr_storage_size - length bs) 0)) i))
            (\<lambda>_. updE (put_data None)))))"

text \<open>\<open>it_more\<close> is what was available and what was filled, an empty list for an empty optional.\<close>

definition opt_bytes :: "byte list option \<Rightarrow> byte list" where
  "opt_bytes d = (case d of None \<Rightarrow> [] | Some bs \<Rightarrow> bs)"

definition AddressLengthPointer_processData :: item_method where
  "AddressLengthPointer_processData tv c = seqE (updE (\<lambda>i. i\<lparr>it_more := [[], []]\<rparr>))
     (seqE (PointerToScalar_processData tv 4) (updE (\<lambda>i. i\<lparr>it_more := [opt_bytes (it_data i), []]\<rparr>)))"

definition AddressLengthPointer_updateData :: item_method where
  "AddressLengthPointer_updateData tv c = seqE (PointerToScalar_updateData tv 4)
     (if hasResultValue c then updE (\<lambda>i. i\<lparr>it_more := (it_more i)[1 := opt_bytes (it_data i)]\<rparr>) else skipE)"

section \<open>The arguments of socketcall\<close>

definition NUM_SOCKETCALL_ARGS :: "nat list" where
  "NUM_SOCKETCALL_ARGS = [0, 3, 3, 3, 2, 3, 3, 3, 4, 4, 4, 6, 6, 2, 5, 5, 3, 3, 4, 5, 4]"

text \<open>A failed read leaves the elements of the vector that it did not reach at zero.\<close>

definition fetchArgs :: "tview \<Rightarrow> abi \<Rightarrow> int \<Rightarrow> word64 \<Rightarrow> (exn + byte list list) option" where
  "fetchArgs tv abi callnum arg_ptr =
     (if callnum \<notin> {0..<int (length NUM_SOCKETCALL_ARGS)} then Some (Inl (Undefined ''array index out of range''))
      else let num_args = NUM_SOCKETCALL_ARGS ! nat callnum; emulated = is_32bit_emulation_abi (tv_arch tv) abi;
          w = (if emulated then 4 else 8)
        in map_option (\<lambda>(r, args). case r of
              Inl e \<Rightarrow> Inl e
            | Inr _ \<Rightarrow> Inr (if emulated then map zero_extend args else args))
          (readStructsInto (tv_peek tv) arg_ptr w (replicate num_args (replicate w 0))))"

text \<open>\<open>it_more\<close> is \<open>m_args\<close>; \<open>SocketCallType::call\<close> is the first parameter.\<close>

definition SocketCallType_call :: "syscall \<Rightarrow> int" where
  "SocketCallType_call c = as_int (it_val (sc_pars c ! 0))"

definition SocketCallArgs_processData :: item_method where
  "SocketCallArgs_processData tv c =
     (\<lambda>i. case fetchArgs tv (sc_abi c) (SocketCallType_call c) (it_val i) of
         None \<Rightarrow> endless i
       | Some (Inl e) \<Rightarrow> (Inl e, if is_undefined e then i else i\<lparr>it_more := []\<rparr>)
       | Some (Inr args) \<Rightarrow> (Inr (), i\<lparr>it_more := args\<rparr>))"

definition SocketCallArgs_updateData :: item_method where
  "SocketCallArgs_updateData tv c = skipE"

definition SocketCallArgs_args :: "item \<Rightarrow> word64 list" where
  "SocketCallArgs_args i = map (field_ptr 0 8) (it_more i)"

section \<open>Message headers\<close>

abbreviation (input) msghdr_size :: nat where "msghdr_size \<equiv> 56"

text \<open>The members of \<open>struct msghdr\<close> and, at its end in \<open>struct mmsghdr\<close>, the length.\<close>

definition msg_name :: "byte list \<Rightarrow> word64" where "msg_name h = field_ptr 0 8 h"
definition msg_namelen :: "byte list \<Rightarrow> word64" where "msg_namelen h = field_ptr 8 4 h"
definition msg_iov :: "byte list \<Rightarrow> word64" where "msg_iov h = field_ptr 16 8 h"
definition msg_iovlen :: "byte list \<Rightarrow> word64" where "msg_iovlen h = field_ptr 24 8 h"
definition msg_control :: "byte list \<Rightarrow> word64" where "msg_control h = field_ptr 32 8 h"
definition msg_controllen :: "byte list \<Rightarrow> word64" where "msg_controllen h = field_ptr 40 8 h"
definition msg_flags :: "byte list \<Rightarrow> word64" where "msg_flags h = field_ptr 48 4 h"

text \<open>\<open>struct msghdr32\<close> has seven members of 4 bytes.\<close>

definition member32 :: "nat \<Rightarrow> byte list \<Rightarrow> byte list" where
  "member32 n h = take 4 (drop (4 * n) h)"

definition convert_to64 :: "byte list \<Rightarrow> byte list" where
  "convert_to64 h =
     zero_extend (member32 0 h) @ zero_extend (member32 1 h) @ zero_extend (member32 2 h) @
     zero_extend (member32 3 h) @ zero_extend (member32 4 h) @ zero_extend (member32 5 h) @
     zero_extend (member32 6 h)"

type_synonym msg_prog = "(msg_state, unit) prog"

definition new_msg :: msg_state where
  "new_msg = \<lparr>mh_in = None, mh_out = None, mh_ctl = None, mh_name = None, mh_control = [], mh_bufs = [],
     mh_bytes = None\<rparr>"

text \<open>
  The values of the sub-items: pointers and the number of buffers are those of the entry, the
  length of the name is the one read last, flags and length of the control data are set last.
\<close>

definition hdr_val :: "(byte list \<Rightarrow> word64) \<Rightarrow> byte list option \<Rightarrow> word64" where
  "hdr_val f h = (case h of None \<Rightarrow> 0 | Some h \<Rightarrow> f h)"

definition mh_last :: "msg_state \<Rightarrow> byte list option" where
  "mh_last st = (case mh_out st of None \<Rightarrow> mh_in st | Some h \<Rightarrow> Some h)"

definition msg_view :: "msg_state \<Rightarrow> syscall \<Rightarrow> syscall" where
  "msg_view st c =
     (let i = new_item PARAM_IN ''len'' in c\<lparr>sc_pars := [
        i\<lparr>it_val := hdr_val msg_namelen (mh_last st)\<rparr>, i\<lparr>it_val := hdr_val msg_iovlen (mh_in st)\<rparr>,
        i\<lparr>it_val := hdr_val msg_controllen (mh_ctl st)\<rparr>],
        sc_return := (case mh_bytes st of None \<Rightarrow> sc_return c | Some n \<Rightarrow> of_nat n)\<rparr>)"

text \<open>A method on the sub-item that \<open>mk\<close> builds, whose data \<open>keep\<close> puts back.\<close>

definition on_sub ::
  "(msg_state \<Rightarrow> item) \<Rightarrow> (item \<Rightarrow> msg_state \<Rightarrow> msg_state) \<Rightarrow> (syscall \<Rightarrow> item_prog) \<Rightarrow> syscall \<Rightarrow> msg_prog"
where
  "on_sub mk keep m c = (\<lambda>st. case m (msg_view st c) (mk st) of (r, i) \<Rightarrow> (r, keep i st))"

definition name_item :: "item_type \<Rightarrow> msg_state \<Rightarrow> item" where
  "name_item t st = (new_item t ''addr'')\<lparr>it_val := hdr_val msg_name (mh_in st), it_data := mh_name st\<rparr>"

definition iov_item :: "item_kind \<Rightarrow> item_type \<Rightarrow> msg_state \<Rightarrow> item" where
  "iov_item k t st = (new_item t ''iov'')\<lparr>it_kind := k, it_val := hdr_val msg_iov (mh_in st), it_bufs := mh_bufs st\<rparr>"

definition control_item :: "item_type \<Rightarrow> msg_state \<Rightarrow> item" where
  "control_item t st = (new_item t ''msg_control'')\<lparr>it_val := hdr_val msg_control (mh_in st),
     it_data := Some (mh_control st)\<rparr>"

definition on_name :: "item_type \<Rightarrow> tview \<Rightarrow> syscall \<Rightarrow> msg_prog" where
  "on_name t tv = on_sub (name_item t) (\<lambda>i st. st\<lparr>mh_name := it_data i\<rparr>) (SocketAddress_processData False 0 tv)"

definition on_iov :: "item_kind \<Rightarrow> item_type \<Rightarrow> (syscall \<Rightarrow> item_prog) \<Rightarrow> syscall \<Rightarrow> msg_prog" where
  "on_iov k t = on_sub (iov_item k t) (\<lambda>i st. st\<lparr>mh_bufs := it_bufs i\<rparr>)"

definition on_control :: "item_type \<Rightarrow> (syscall \<Rightarrow> item_prog) \<Rightarrow> syscall \<Rightarrow> msg_prog" where
  "on_control t = on_sub (control_item t) (\<lambda>i st. st\<lparr>mh_control := vec i\<rparr>)"

text \<open>\<open>RecvMessageHeader\<close>: the sub-items at the entry, and their update at the exit.\<close>

definition RecvMessageHeader_fillSubItems :: "tview \<Rightarrow> syscall \<Rightarrow> msg_prog" where
  "RecvMessageHeader_fillSubItems tv c = seqsE [
     on_name PARAM_OUT tv c,
     on_iov (K_ReadVector 1) PARAM_IN_OUT (\<lambda>c. IOVectorBase_processData tv c 1) c,
     updE (\<lambda>st. st\<lparr>mh_ctl := mh_in st\<rparr>),
     on_control PARAM_OUT (\<lambda>c. BufferPointer_processData tv c (OfParam 2)) c]"

text \<open>Without a header all values are zero; that is all the difference.\<close>

definition RecvMessageHeader_resetSubItems :: "tview \<Rightarrow> syscall \<Rightarrow> msg_prog" where
  "RecvMessageHeader_resetSubItems tv c = RecvMessageHeader_fillSubItems tv c"

definition RecvMessageHeader_updateSubItems :: "tview \<Rightarrow> syscall \<Rightarrow> msg_prog" where
  "RecvMessageHeader_updateSubItems tv c = seqsE [
     on_name PARAM_OUT tv c,
     on_iov (K_ReadVector 1) PARAM_IN_OUT (ReadVector_updateData tv) c,
     updE (\<lambda>st. st\<lparr>mh_ctl := mh_out st\<rparr>),
     on_control PARAM_OUT (\<lambda>c. BufferPointer_updateData tv c (OfParam 2)) c,
     on_control PARAM_OUT (\<lambda>c. BufferPointer_fetchRemainingData tv c (OfParam 2)) c]"

definition SendMessageHeader_fillSubItems :: "tview \<Rightarrow> syscall \<Rightarrow> msg_prog" where
  "SendMessageHeader_fillSubItems tv c = seqsE [
     on_name PARAM_IN tv c,
     on_iov (K_WriteVector 1) PARAM_IN (\<lambda>c. WriteVector_processData tv c 1) c,
     updE (\<lambda>st. st\<lparr>mh_ctl := mh_in st\<rparr>),
     on_control PARAM_IN (\<lambda>c. BufferPointer_processData tv c (OfParam 2)) c]"

definition SendMessageHeader_resetSubItems :: "tview \<Rightarrow> syscall \<Rightarrow> msg_prog" where
  "SendMessageHeader_resetSubItems tv c = seqE (SendMessageHeader_fillSubItems tv c)
     (on_control PARAM_IN (\<lambda>c. BufferPointer_fetchRemainingData tv c (OfParam 2)) c)"

text \<open>The only header of an item, and the header at position \<open>k\<close> of a vector.\<close>

definition the_msg :: "item \<Rightarrow> msg_state" where
  "the_msg i = (case it_msgs i of [] \<Rightarrow> new_msg | st # _ \<Rightarrow> st)"

definition put_msg :: "msg_state \<Rightarrow> item \<Rightarrow> item" where
  "put_msg st i = i\<lparr>it_msgs := [st]\<rparr>"

definition on_msg :: "msg_prog \<Rightarrow> item_prog" where
  "on_msg m = (\<lambda>i. case m (the_msg i) of (r, st) \<Rightarrow> (r, put_msg st i))"

text \<open>The header into one of the optionals; \<open>True\<close> if there is one.\<close>

definition fetchMsgHdr ::
  "(byte list option \<Rightarrow> msg_state \<Rightarrow> msg_state) \<Rightarrow> tview \<Rightarrow> syscall \<Rightarrow> (item, bool) prog"
where
  "fetchMsgHdr put tv c = bindE (askE it_val) (\<lambda>p.
     if is32BitEmulationABI (tv_arch tv) c
     then bindE (fetch_local tv 28 p) (\<lambda>hdr32.
        seqE (updE (\<lambda>i. put_msg (put (map_option convert_to64 hdr32) (the_msg i)) i)) (ret (hdr32 \<noteq> None)))
     else fetch_optional (\<lambda>d i. put_msg (put d (the_msg i)) i) tv msghdr_size msghdr_size p)"

definition RecvMessageHeader_processData :: item_method where
  "RecvMessageHeader_processData tv c = seqE (updE (\<lambda>i. put_msg ((the_msg i)\<lparr>mh_out := None\<rparr>) i))
     (bindE (fetchMsgHdr (\<lambda>h st. st\<lparr>mh_in := h\<rparr>) tv c) (\<lambda>ok.
        on_msg (if ok then RecvMessageHeader_fillSubItems tv c else RecvMessageHeader_resetSubItems tv c)))"

definition RecvMessageHeader_updateData :: item_method where
  "RecvMessageHeader_updateData tv c = bindE (fetchMsgHdr (\<lambda>h st. st\<lparr>mh_out := h\<rparr>) tv c) (\<lambda>ok.
     if \<not> ok then skipE else on_msg (RecvMessageHeader_updateSubItems tv c))"

definition SendMessageHeader_processData :: item_method where
  "SendMessageHeader_processData tv c =
     bindE (fetchMsgHdr (\<lambda>h st. st\<lparr>mh_in := h\<rparr>) tv c) (\<lambda>ok.
        on_msg (if ok then SendMessageHeader_fillSubItems tv c else SendMessageHeader_resetSubItems tv c))"

section \<open>Vectors of message headers\<close>

text \<open>
  \<open>it_more\<close> is \<open>m_raw_headers\<close>, \<open>it_msgs\<close> is \<open>m_headers\<close>; \<open>num_msgs\<close> is the third parameter, an
  \<open>unsigned int\<close>. A \<open>struct mmsghdr\<close> has 64 bytes, or 32 for a 32 bit tracee.
\<close>

definition msg_len :: "byte list \<Rightarrow> nat" where
  "msg_len raw = field msghdr_size 4 raw"

definition convert_mmsghdr :: "byte list \<Rightarrow> byte list" where
  "convert_mmsghdr hdr32 = convert_to64 (take 28 hdr32) @ zero_extend (take 4 (drop 28 hdr32))"

definition fetchRawHeaders :: "tview \<Rightarrow> syscall \<Rightarrow> (item, bool) prog" where
  "fetchRawHeaders tv c = seqE (updE (\<lambda>i. i\<lparr>it_more := []\<rparr>))
     (let n = as_uint (it_val (sc_pars c ! 2)) in
      if is32BitEmulationABI (tv_arch tv) c
      then seqE (allocE tv (32 * n))
        (bindE (askE it_val) (\<lambda>p i. case readStructsInto (tv_peek tv) p 32 (replicate n (replicate 32 0)) of
            None \<Rightarrow> endless i
          | Some (Inl e, _) \<Rightarrow> (Inl e, i)
          | Some (Inr ok, hdrs32) \<Rightarrow> (Inr ok, if ok then i\<lparr>it_more := map convert_mmsghdr hdrs32\<rparr> else i)))
      else seqE (allocE tv (64 * n))
        (seqE (updE (\<lambda>i. i\<lparr>it_more := replicate n (replicate 64 0)\<rparr>))
          (bindE (askE it_val) (\<lambda>p. fetch_structs tv p 64))))"

text \<open>A method on the last header.\<close>

definition on_last :: "msg_prog \<Rightarrow> item_prog" where
  "on_last m = (\<lambda>i. case m (last (it_msgs i)) of (r, st) \<Rightarrow> (r, i\<lparr>it_msgs := butlast (it_msgs i) @ [st]\<rparr>))"

definition MessageHeaderVector_processData :: "(tview \<Rightarrow> syscall \<Rightarrow> msg_prog) \<Rightarrow> item_method" where
  "MessageHeaderVector_processData fill tv c = seqE (updE (\<lambda>i. i\<lparr>it_msgs := []\<rparr>))
     (bindE (fetchRawHeaders tv c) (\<lambda>ok.
        if \<not> ok then skipE
        else bindE (askE it_more) (\<lambda>raws. forE raws (\<lambda>raw.
          seqE (updE (\<lambda>i. i\<lparr>it_msgs := it_msgs i @ [new_msg\<lparr>mh_in := Some (take msghdr_size raw)\<rparr>]\<rparr>))
            (on_last (fill tv c))))))"

text \<open>A method on the header at position \<open>k\<close>, which there need not be one at.\<close>

definition on_header :: "nat \<Rightarrow> msg_prog \<Rightarrow> item_prog" where
  "on_header k m = (\<lambda>i. if k < length (it_msgs i)
     then case m (it_msgs i ! k) of (r, st) \<Rightarrow> (r, i\<lparr>it_msgs := (it_msgs i)[k := st]\<rparr>)
     else (Inl (Undefined ''vector index out of range''), i))"

definition MessageHeaderVector_updateData :: "(nat \<Rightarrow> byte list \<Rightarrow> msg_prog) \<Rightarrow> item_method" where
  "MessageHeaderVector_updateData step tv c = bindE (fetchRawHeaders tv c) (\<lambda>ok.
     if \<not> ok then skipE
     else bindE (askE it_more) (\<lambda>raws. forE [0..<length raws] (\<lambda>k. on_header k (step k (raws ! k)))))"

definition RecvMessageHeaderVector_processData :: item_method where
  "RecvMessageHeaderVector_processData = MessageHeaderVector_processData RecvMessageHeader_fillSubItems"

definition RecvMultiMessageHeader_setOutHeader :: "tview \<Rightarrow> syscall \<Rightarrow> byte list \<Rightarrow> msg_prog" where
  "RecvMultiMessageHeader_setOutHeader tv c hdr =
     seqE (updE (\<lambda>st. st\<lparr>mh_out := Some hdr\<rparr>)) (RecvMessageHeader_updateSubItems tv c)"

definition RecvMessageHeaderVector_updateData :: item_method where
  "RecvMessageHeaderVector_updateData tv c = MessageHeaderVector_updateData (\<lambda>k raw.
     seqE (updE (\<lambda>st. st\<lparr>mh_bytes := Some (msg_len raw)\<rparr>))
       (RecvMultiMessageHeader_setOutHeader tv c (take msghdr_size raw))) tv c"

definition SendMessageHeaderVector_processData :: item_method where
  "SendMessageHeaderVector_processData = MessageHeaderVector_processData SendMessageHeader_fillSubItems"

definition SendMessageHeaderVector_updateData :: item_method where
  "SendMessageHeaderVector_updateData tv c = MessageHeaderVector_updateData (\<lambda>k raw.
     updE (\<lambda>st. st\<lparr>mh_bytes := Some (msg_len raw)\<rparr>)) tv c"

end
