(* ===== verification/Control_Messages.thy ===== *)
theory Control_Messages
  imports Net_Items
begin

text \<open>
  Control messages: \<open>MessageHeaderBase::convertControlHeader32\<close> (src/items/msghdr.cxx), which turns
  the control data of a 32 bit tracee into the layout of the 64 bit tracer, and the header that the
  items hand out. In that layout a message is an 8 byte length, the level and the type, 4 bytes each,
  and the data; in the tracee the length has 4 bytes. The length counts the members before the data, 12
  or 16 bytes, too.
\<close>

section \<open>The conversion\<close>

abbreviation (input) cmsghdr32_size :: nat where "cmsghdr32_size \<equiv> 12"
abbreviation (input) cmsghdr_size :: nat where "cmsghdr_size \<equiv> 16"

text \<open>One message: \<open>aligned_len\<close> is \<open>CMSG_LEN(payload_bytes)\<close>.\<close>

definition convert_cmsg :: "byte list \<Rightarrow> byte list" where
  "convert_cmsg msg32 =
     (let payload = drop cmsghdr32_size msg32; aligned_len = cmsghdr_size + length payload;
          extra_bytes = aligned_len - length msg32 - (cmsghdr_size - cmsghdr32_size)
      in nat_bytes 8 aligned_len @ take 4 (drop 4 msg32) @ take 4 (drop 8 msg32) @ payload @
         replicate extra_bytes 0)"

text \<open>
  A length below that of the members wraps around to a huge size, a length that is larger than what is
  left makes \<open>memcpy\<close> read beyond the buffer.
\<close>

function convertControl :: "byte list \<Rightarrow> byte list \<Rightarrow> exn + byte list" where
  "convertControl control32 acc =
     (if length control32 < cmsghdr32_size then Inr acc
      else let cmsg_len = field 0 4 control32 in
        if cmsg_len < cmsghdr32_size \<or> length control32 < cmsg_len
        then Inl (Undefined ''copy beyond the control data'')
        else convertControl (drop cmsg_len control32) (acc @ convert_cmsg (take cmsg_len control32)))"
  by pat_completeness auto
termination by (relation "measure (\<lambda>(c, _). length c)") auto

declare convertControl.simps [simp del]

text \<open>\<open>msg_controllen\<close> is the value of an \<open>int\<close> item.\<close>

definition convertControlHeader32 :: "tview \<Rightarrow> syscall \<Rightarrow> msg_state \<Rightarrow> exn + byte list" where
  "convertControlHeader32 tv c st =
     (if \<not> is32BitEmulationABI (tv_arch tv) c \<or> as_int (hdr_val msg_controllen (mh_ctl st)) = 0
      then Inr (mh_control st)
      else convertControl (mh_control st) [])"

text \<open>\<open>header()\<close>: the header as it was read last, and the converted control data.\<close>

definition MessageHeader_header ::
  "byte list option \<Rightarrow> tview \<Rightarrow> syscall \<Rightarrow> msg_state \<Rightarrow> exn + (byte list \<times> byte list) option"
where
  "MessageHeader_header hdr tv c st = (case hdr of
     None \<Rightarrow> Inr None
   | Some h \<Rightarrow> map_sum id (\<lambda>ctl. Some (h, ctl)) (convertControlHeader32 tv c st))"

definition RecvMessageHeader_header :: "tview \<Rightarrow> syscall \<Rightarrow> msg_state \<Rightarrow> exn + (byte list \<times> byte list) option" where
  "RecvMessageHeader_header tv c st = MessageHeader_header (mh_out st) tv c st"

definition SendMessageHeader_header :: "tview \<Rightarrow> syscall \<Rightarrow> msg_state \<Rightarrow> exn + (byte list \<times> byte list) option" where
  "SendMessageHeader_header tv c st = MessageHeader_header (mh_in st) tv c st"

section \<open>Messages\<close>

text \<open>
  A message is its level, its type and its data. The control data of a tracee holds messages one after
  the other, each padded to the size of a word: 4 bytes for a 32 bit tracee, 8 bytes for this tracer.
\<close>

type_synonym cmsg = "byte list \<times> byte list \<times> byte list"

definition encode_cmsg :: "nat \<Rightarrow> nat \<Rightarrow> cmsg \<Rightarrow> byte list" where
  "encode_cmsg w hdr m = (case m of (level, type, payload) \<Rightarrow>
     nat_bytes w (hdr + length payload) @ level @ type @ payload)"

definition pad_bytes :: "nat \<Rightarrow> nat \<Rightarrow> byte list" where
  "pad_bytes w n = replicate ((w - n mod w) mod w) 0"

text \<open>The last message need not be padded.\<close>

fun encode_cmsgs :: "nat \<Rightarrow> nat \<Rightarrow> cmsg list \<Rightarrow> byte list" where
  "encode_cmsgs w hdr [] = []"
| "encode_cmsgs w hdr [m] = encode_cmsg w hdr m"
| "encode_cmsgs w hdr (m # ms) =
     encode_cmsg w hdr m @ pad_bytes w (length (snd (snd m))) @ encode_cmsgs w hdr ms"

definition cmsg_ok :: "cmsg \<Rightarrow> bool" where
  "cmsg_ok m = (case m of (level, type, payload) \<Rightarrow>
     length level = 4 \<and> length type = 4 \<and> length payload + 16 < 2 ^ 32)"

text \<open>\<open>SCM_RIGHTS\<close> of \<open>SOL_SOCKET\<close> with descriptors.\<close>

definition scm_rights :: "nat list \<Rightarrow> cmsg" where
  "scm_rights fds = (nat_bytes 4 1, nat_bytes 4 1, concat (map (nat_bytes 4) fds))"

section \<open>The conversion of well-formed messages\<close>

lemma field_encoded: "cmsg_ok m \<Longrightarrow> field 0 4 (encode_cmsg 4 12 m @ rest) = 12 + length (snd (snd m))"
  by (auto simp: cmsg_ok_def encode_cmsg_def field_def bytes_nat_bytes split: prod.splits)

lemma length_encoded: "cmsg_ok m \<Longrightarrow> length (encode_cmsg w hdr m) = w + 8 + length (snd (snd m))"
  by (auto simp: cmsg_ok_def encode_cmsg_def split: prod.splits)

lemma convert_encoded: "cmsg_ok m \<Longrightarrow> convert_cmsg (encode_cmsg 4 12 m) = encode_cmsg 8 16 m"
  by (auto simp: cmsg_ok_def encode_cmsg_def convert_cmsg_def Let_def split: prod.splits)

lemma convertControl_step:
  assumes "cmsg_ok m"
  shows "convertControl (encode_cmsg 4 12 m @ rest) acc = convertControl rest (acc @ encode_cmsg 8 16 m)"
  using assms
  by (subst convertControl.simps) (simp add: Let_def field_encoded length_encoded convert_encoded)

lemma convertControl_messages:
  assumes "\<forall>m\<in>set ms. cmsg_ok m" "\<forall>m\<in>set (butlast ms). 4 dvd length (snd (snd m))"
  shows "convertControl (encode_cmsgs 4 12 ms) acc = Inr (acc @ concat (map (encode_cmsg 8 16) ms))"
  using assms
proof (induction ms arbitrary: acc rule: induct_list012)
  case 1
  then show ?case by (simp add: convertControl.simps)
next
  case (2 m)
  then have "cmsg_ok m" by simp
  from convertControl_step [OF this, of "[]" acc] show ?case by (simp add: convertControl.simps)
next
  case (3 m m' ms)
  then show ?case by (simp add: convertControl_step pad_bytes_def del: convertControl.simps)
qed

lemma pad_empty: "0 < w \<Longrightarrow> pad_bytes w n = [] \<longleftrightarrow> w dvd n"
proof -
  assume w: "0 < w"
  show ?thesis
  proof (cases "n mod w = 0")
    case False
    moreover have "n mod w < w" using w by simp
    ultimately have "(w - n mod w) mod w = w - n mod w" "0 < w - n mod w" by simp_all
    then show ?thesis using False by (simp add: pad_bytes_def dvd_eq_mod_eq_0)
  qed (simp add: pad_bytes_def dvd_eq_mod_eq_0)
qed

lemma encode_concat:
  "encode_cmsgs 8 16 ms = concat (map (encode_cmsg 8 16) ms) \<longleftrightarrow>
     (\<forall>m\<in>set (butlast ms). 8 dvd length (snd (snd m)))"
proof (induction ms rule: induct_list012)
  case (3 m m' ms)
  let ?p = "pad_bytes 8 (length (snd (snd m)))"
  have len: "length (concat (map (encode_cmsg 8 16) l)) \<le> length (encode_cmsgs 8 16 l)" for l
    by (induction l rule: induct_list012) auto
  have "?p @ encode_cmsgs 8 16 (m' # ms) = concat (map (encode_cmsg 8 16) (m' # ms)) \<longleftrightarrow>
      ?p = [] \<and> encode_cmsgs 8 16 (m' # ms) = concat (map (encode_cmsg 8 16) (m' # ms))"
  proof (cases "?p = []")
    case False
    then have "length (concat (map (encode_cmsg 8 16) (m' # ms))) < length (?p @ encode_cmsgs 8 16 (m' # ms))"
      using len [of "m' # ms"] by (simp only: length_append) (meson add_strict_increasing length_greater_0_conv)
    then show ?thesis using False by (metis less_irrefl)
  qed simp
  then show ?case using 3 by (simp add: pad_empty)
qed simp_all

text \<open>C35: control messages of a 32 bit tracee: the conversion yields the messages in the layout of the
  64 bit tracer exactly if the data of every message but the last has a multiple of 8 bytes. The code
  does not pad: two messages that pass one descriptor each come out so that the tracer finds the second
  one at the wrong place.\<close>

theorem control_header_conversion:
  assumes "\<forall>m\<in>set ms. cmsg_ok m" "\<forall>m\<in>set (butlast ms). 4 dvd length (snd (snd m))"
  shows "convertControl (encode_cmsgs 4 12 ms) [] = Inr (encode_cmsgs 8 16 ms) \<longleftrightarrow>
    (\<forall>m\<in>set (butlast ms). 8 dvd length (snd (snd m)))"
  using convertControl_messages [OF assms, of "[]"] encode_concat [of ms] by auto

theorem control_header_conversion_witness:
  "convertControl (encode_cmsgs 4 12 [scm_rights [3], scm_rights [4]]) [] \<noteq>
     Inr (encode_cmsgs 8 16 [scm_rights [3], scm_rights [4]]) \<and>
   convertControl (encode_cmsgs 4 12 [scm_rights [3, 4], scm_rights [5]]) [] =
     Inr (encode_cmsgs 8 16 [scm_rights [3, 4], scm_rights [5]])"
  using control_header_conversion [of "[scm_rights [3], scm_rights [4]]"]
    control_header_conversion [of "[scm_rights [3, 4], scm_rights [5]]"]
  by (simp add: scm_rights_def cmsg_ok_def)

end
