(* ===== verification/Call_Net.thy ===== *)
theory Call_Net
  imports Control_Messages
begin

text \<open>
  The system calls on sockets: include/syscalls/net.hxx and src/syscalls/net.cxx.

  Two parts are outside of this repository and are parameters: \<open>sock\<close>, the domain and the type that
  \<open>getsockopt\<close> reports for a descriptor taken from the tracee (\<open>snatchFD\<close>), and \<open>rights\<close>, the
  descriptors of all \<open>SCM_RIGHTS\<close> messages that libcosmos finds with a header and its control data.
\<close>

section \<open>Items\<close>

definition sockfd_item :: item where
  "sockfd_item = val ''FileDescriptor'' ''sockfd''"

definition socket_address :: "item_type \<Rightarrow> item" where
  "socket_address t = deferred (item_of (K_Value ''SocketAddress'') t ''addr'')"

definition address_length :: item where
  "address_length = val ''IntValue'' ''addrlen''"

definition address_length_pointer :: item where
  "address_length_pointer = item_of (K_Value ''AddressLengthPointer'') PARAM_IN_OUT ''addrlen''"

definition sendrecv_flags :: item where
  "sendrecv_flags = val ''SendRecvFlags'' ''flags''"

definition new_fd :: item where
  "new_fd = ret_val ''FileDescriptor'' ''fd''"

text \<open>The methods of the items, where the length of the address is the parameter at position \<open>k\<close>.\<close>

definition socket_items :: method_table where
  "socket_items = [(''SocketPair'', SocketPair_processData, SocketPair_updateData)]"

definition address_in :: "nat \<Rightarrow> method_table" where
  "address_in k = [(''SocketAddress'', SocketAddress_processData False k, SocketAddress_processData False k)]"

definition address_out :: "nat \<Rightarrow> method_table" where
  "address_out k =
    [(''SocketAddress'', SocketAddress_processData True k, SocketAddress_processData True k),
     (''AddressLengthPointer'', AddressLengthPointer_processData, AddressLengthPointer_updateData)]"

definition message_items :: method_table where
  "message_items =
    [(''RecvMessageHeader'', RecvMessageHeader_processData, RecvMessageHeader_updateData),
     (''SendMessageHeader'', SendMessageHeader_processData, SendMessageHeader_processData),
     (''RecvMessageHeaderVector'', RecvMessageHeaderVector_processData, RecvMessageHeaderVector_updateData),
     (''SendMessageHeaderVector'', SendMessageHeaderVector_processData, SendMessageHeaderVector_updateData)]"

section \<open>Tracking sockets\<close>

type_synonym sock_lookup = "tview \<Rightarrow> fileno \<Rightarrow> exn + int option \<times> int option"

definition add_socket_info :: "sock_lookup \<Rightarrow> tview \<Rightarrow> fd_info \<Rightarrow> exn + fd_info" where
  "add_socket_info sock tv info = map_sum id (\<lambda>(domain, type).
     info\<lparr>fi_sock_domain := domain, fi_sock_type := type\<rparr>) (sock tv (fi_fd info))"

definition make_socket_info :: "fileno \<Rightarrow> int \<Rightarrow> int option \<Rightarrow> int option \<Rightarrow> fd_info" where
  "make_socket_info fd flags domain type =
     (creation_flags (bit flags O_CLOEXEC_BIT) (bit flags O_NONBLOCK_BIT) (FDInfo SOCKET fd))
       \<lparr>fi_sock_domain := domain, fi_sock_type := type\<rparr>"

text \<open>\<open>SocketType::processData\<close> splits the second parameter.\<close>

abbreviation (input) SOCK_TYPE_MASK :: int where "SOCK_TYPE_MASK \<equiv> 0xf"

definition SocketType_type :: "syscall \<Rightarrow> int" where
  "SocketType_type s = par_int s 1 AND SOCK_TYPE_MASK"

definition SocketType_flags :: "syscall \<Rightarrow> int" where
  "SocketType_flags s = par_int s 1 AND NOT SOCK_TYPE_MASK"

definition created_socket :: "syscall \<Rightarrow> fileno \<Rightarrow> fd_info" where
  "created_socket s fd =
     make_socket_info fd (SocketType_flags s) (Some (par_int s 0)) (Some (SocketType_type s))"

definition Socket_updateFDTracking :: "syscall \<Rightarrow> fd_prog" where
  "Socket_updateFDTracking s = track (created_socket s (ret_fd s))"

definition SocketPair_updateFDTracking :: "syscall \<Rightarrow> fd_prog" where
  "SocketPair_updateFDTracking s =
     forE (SocketPair_pair (sc_pars s ! 3)) (\<lambda>fd. track (created_socket s fd))"

text \<open>The flags of accept(2) are those of an item that is never filled.\<close>

definition accept_flags :: "syscall \<Rightarrow> int" where
  "accept_flags s = (if 3 < length (sc_pars s) then par_int s 3 else 0)"

definition Accept_updateFDTracking :: "sock_lookup \<Rightarrow> tview \<Rightarrow> syscall \<Rightarrow> fd_prog" where
  "Accept_updateFDTracking sock tv s = bindE (askE (\<lambda>m. smap_find m (par_int s 0))) (\<lambda>found. case found of
     Some info \<Rightarrow>
       (let new = make_socket_info (ret_fd s) (accept_flags s) (fi_sock_domain info) (fi_sock_type info)
        in if fi_sock_domain new = None \<or> fi_sock_type new = None
           then bindE (liftE (add_socket_info sock tv new)) (\<lambda>new. seqE
             (updE (updateFD (info\<lparr>fi_sock_domain := fi_sock_domain new, fi_sock_type := fi_sock_type new\<rparr>)))
             (track new))
           else track new)
   | None \<Rightarrow> bindE (liftE (add_socket_info sock tv (make_socket_info (ret_fd s) (accept_flags s) None None)))
       track)"

type_synonym rights_parser = "byte list \<Rightarrow> byte list \<Rightarrow> fileno list"

definition RecvMsg_track :: "tview \<Rightarrow> fileno \<Rightarrow> fd_prog" where
  "RecvMsg_track tv fd = (case get_fd_infos (tv_text tv) (tv_proc tv) of
     Inl e \<Rightarrow> if is_undefined e then raise e else track (FDInfo FD_UNKNOWN fd)
   | Inr infos \<Rightarrow> (case find (\<lambda>info. fi_fd info = fd) infos of Some info \<Rightarrow> track info | None \<Rightarrow> skipE))"

definition RecvMsg_updateFDTracking :: "rights_parser \<Rightarrow> tview \<Rightarrow> syscall \<Rightarrow> fd_prog" where
  "RecvMsg_updateFDTracking rights tv s =
     (let st = the_msg (sc_pars s ! 1) in
      if mh_control st = [] then skipE
      else bindE (liftE (RecvMessageHeader_header tv s st)) (\<lambda>header_opt. case header_opt of
          None \<Rightarrow> raise (Undefined ''dereference of an empty optional'')
        | Some (hdr, control) \<Rightarrow> forE (rights hdr control) (RecvMsg_track tv)))"

section \<open>The classes\<close>

definition socket_pars :: "item list" where
  "socket_pars = [val ''SocketDomain'' ''domain'', val ''SocketType'' ''type'', val ''SocketProtocol'' ''prot'']"

definition SocketSystemCall :: call_class where
  "SocketSystemCall = (own_class socket_items new_fd socket_pars)\<lparr>cc_fdtrack := (\<lambda>_. Socket_updateFDTracking)\<rparr>"

definition SocketPairSystemCall :: call_class where
  "SocketPairSystemCall = (own_class socket_items success_result
     (socket_pars @ [item_of (K_Value ''SocketPair'') PARAM_OUT ''sv'']))
     \<lparr>cc_fdtrack := (\<lambda>_. SocketPair_updateFDTracking)\<rparr>"

definition BindSystemCall :: call_class where
  "BindSystemCall = own_class (address_in 2) success_result [sockfd_item, socket_address PARAM_IN, address_length]"

definition ConnectSystemCall :: call_class where
  "ConnectSystemCall = own_class (address_in 2) success_result
     [sockfd_item, socket_address PARAM_IN, address_length]"

definition ListenSystemCall :: call_class where
  "ListenSystemCall = own_class socket_items success_result [sockfd_item, val ''IntValue'' ''backlog'']"

definition accept_pars :: "item list" where
  "accept_pars = [sockfd_item, socket_address PARAM_OUT, address_length_pointer]"

definition accept_flags_item :: item where
  "accept_flags_item = val ''AcceptFlags'' ''flags''"

definition AcceptSystemCall :: "sock_lookup \<Rightarrow> call_class" where
  "AcceptSystemCall sock = (own_class (address_out 2) new_fd accept_pars)
     \<lparr>cc_pars := (\<lambda>nr. if nr = SYS_ACCEPT4 then accept_pars @ [accept_flags_item] else accept_pars),
      cc_fdtrack := Accept_updateFDTracking sock\<rparr>"

definition ShutdownSystemCall :: call_class where
  "ShutdownSystemCall = own_class socket_items success_result [sockfd_item, val ''ShutdownType'' ''how'']"

text \<open>\<open>GetNameSystemCallT\<close>, for getpeername(2) and getsockname(2).\<close>

definition GetNameSystemCall :: call_class where
  "GetNameSystemCall = own_class (address_out 2) success_result
     [sockfd_item, socket_address PARAM_OUT, address_length_pointer]"

definition recv_pars :: "item list" where
  "recv_pars = [sockfd_item, item_of (K_Buffer OfResult) PARAM_OUT ''buf'', val ''SizeValue'' ''count'',
     sendrecv_flags]"

definition RecvSystemCall :: call_class where
  "RecvSystemCall = own_class socket_items (ret_val ''SizeValue'' ''bytes'') recv_pars"

definition RecvFromSystemCall :: call_class where
  "RecvFromSystemCall = own_class (address_out 5) (ret_val ''SizeValue'' ''bytes'')
     (recv_pars @ [socket_address PARAM_OUT, address_length_pointer])"

definition send_pars :: "item list" where
  "send_pars = [sockfd_item, deferred (item_of (K_Buffer (OfParam 2)) PARAM_IN ''buf''),
     val ''SizeValue'' ''count'', sendrecv_flags]"

definition SendSystemCall :: call_class where
  "SendSystemCall = own_class socket_items (ret_val ''SizeValue'' ''bytes'') send_pars"

definition SendToSystemCall :: call_class where
  "SendToSystemCall = own_class (address_in 5) (ret_val ''SizeValue'' ''bytes'')
     (send_pars @ [socket_address PARAM_IN, address_length])"

definition RecvMsgSystemCall :: "rights_parser \<Rightarrow> call_class" where
  "RecvMsgSystemCall rights = (own_class message_items (ret_val ''SizeValue'' ''read'')
     [sockfd_item, item_of (K_Value ''RecvMessageHeader'') PARAM_IN_OUT ''msg'', sendrecv_flags])
     \<lparr>cc_fdtrack := RecvMsg_updateFDTracking rights\<rparr>"

definition SendMsgSystemCall :: call_class where
  "SendMsgSystemCall = own_class message_items (ret_val ''SizeValue'' ''written'')
     [sockfd_item, item_of (K_Value ''SendMessageHeader'') PARAM_IN ''msg'', sendrecv_flags]"

definition RecvMMsgSystemCall :: call_class where
  "RecvMMsgSystemCall = own_class message_items (ret_val ''SizeValue'' ''num_received'')
     [sockfd_item, deferred (item_of (K_Value ''RecvMessageHeaderVector'') PARAM_IN_OUT ''msgvec''),
      val ''UintValue'' ''num_msgs'', sendrecv_flags, item_of K_TimeSpecInOut PARAM_IN_OUT ''timeout'']"

definition SendMMsgSystemCall :: call_class where
  "SendMMsgSystemCall = own_class message_items (ret_val ''SizeValue'' ''num_updated'')
     [sockfd_item, deferred (item_of (K_Value ''SendMessageHeaderVector'') PARAM_IN_OUT ''msgvec''),
      val ''UintValue'' ''num_msgs'', sendrecv_flags]"

text \<open>The classes, those with items that are defined for every tracee first.\<close>

definition net_classes :: "(string \<times> call_class) list" where
  "net_classes = [
     (''SocketSystemCall'', SocketSystemCall), (''SocketPairSystemCall'', SocketPairSystemCall),
     (''BindSystemCall'', BindSystemCall), (''ConnectSystemCall'', ConnectSystemCall),
     (''ListenSystemCall'', ListenSystemCall), (''ShutdownSystemCall'', ShutdownSystemCall),
     (''RecvSystemCall'', RecvSystemCall), (''SendSystemCall'', SendSystemCall),
     (''SendToSystemCall'', SendToSystemCall)]"

definition net_out_classes :: "sock_lookup \<Rightarrow> rights_parser \<Rightarrow> (string \<times> call_class) list" where
  "net_out_classes sock rights = [
     (''AcceptSystemCall'', AcceptSystemCall sock), (''GetPeerNameSystemCall'', GetNameSystemCall),
     (''GetSockNameSystemCall'', GetNameSystemCall), (''RecvFromSystemCall'', RecvFromSystemCall),
     (''RecvMsgSystemCall'', RecvMsgSystemCall rights), (''SendMsgSystemCall'', SendMsgSystemCall),
     (''RecvMMsgSystemCall'', RecvMMsgSystemCall), (''SendMMsgSystemCall'', SendMMsgSystemCall)]"

end
