(* ===== verification/Net_Safe.thy ===== *)
theory Net_Safe
  imports Call_Net Prctl_Safe
begin

text \<open>
  What holds of the items and the classes on sockets: the methods only change what they fetch, and those
  that do not depend on a length in the memory of the tracee are defined for every tracee.
\<close>

section \<open>The items\<close>

lemma item_is_msgs [simp]: "item_is sg v (i\<lparr>it_msgs := m\<rparr>) = item_is sg v i"
  "item_is sg v (put_msg st i) = item_is sg v i"
  by (simp_all add: item_is_def par_sig_def put_msg_def)

lemma item_is_both [simp]: "item_is sg v (i\<lparr>it_data := d, it_more := m\<rparr>) = item_is sg v i"
  by (simp add: item_is_def par_sig_def)

lemma sound_read_pair:
  assumes "ok \<Longrightarrow> view_ok tv"
  shows "sound ok I (\<lambda>i. case readVector (tv_peek tv) 4 (it_val i) 2 True of
      None \<Rightarrow> endless i | Some (Inl e, _) \<Rightarrow> (Inl e, i) | Some (Inr _, fds) \<Rightarrow> (Inr fds, i))"
proof (rule soundI, goal_cases)
  case (1 i r i')
  then show ?case using readVector_ends [OF assms, of 4 "it_val i" 2 True]
      readVector_defined [OF assms, of 4 "it_val i" 2 True]
    by (auto simp: endless_def raise_def split: option.splits sum.splits)
qed

lemma sound_SocketPair:
  assumes "ok \<Longrightarrow> view_ok tv"
  shows "sound ok (item_is sg v) (SocketPair_processData tv c)"
    and "sound ok (item_is sg v) (SocketPair_updateData tv c)"
  unfolding SocketPair_processData_def SocketPair_updateData_def
  by (intro sound_intros sound_read_pair assms; simp)+

lemma sound_storage:
  assumes "ok \<Longrightarrow> view_ok tv" "n \<le> sockaddr_storage_size"
  shows "sound ok (item_is sg v) (\<lambda>i. case readBlob (tv_peek tv) (it_val i) sockaddr_storage_size n of
      None \<Rightarrow> endless i
    | Some (r, bs) \<Rightarrow> (r, put_data (Some (bs @ replicate (sockaddr_storage_size - length bs) 0)) i))"
proof (rule sound_read, goal_cases)
  case (1 i r x)
  then show ?case using assms readBlob_defined [of tv n sockaddr_storage_size "it_val i"] by auto
next
  case (2 i)
  then show ?case using readBlob_ends [of "tv_peek tv" "it_val i" sockaddr_storage_size n] by auto
qed

lemma sound_SocketAddress:
  assumes "ok \<Longrightarrow> view_ok tv \<and> \<not> indirect"
  shows "sound ok (item_is sg v) (SocketAddress_processData indirect k tv c)"
  unfolding SocketAddress_processData_def Let_def
  by (intro sound_intros sound_storage)
    (use assms in \<open>auto simp: SocketAddress_addrLen_def put_data_def split: if_splits\<close>)

lemma sound_AddressLength:
  assumes "ok \<Longrightarrow> view_ok tv"
  shows "sound ok (item_is sg v) (AddressLengthPointer_processData tv c)"
    and "sound ok (item_is sg v) (AddressLengthPointer_updateData tv c)"
  unfolding AddressLengthPointer_processData_def AddressLengthPointer_updateData_def
  by (intro sound_intros sound_methods assms; simp)+

interpretation socket_items: safe_item_methods socket_items
  by unfold_locales (auto simp: socket_items_def intro!: sound_SocketPair)

interpretation address_in: safe_item_methods "address_in k" for k
  by unfold_locales (auto simp: address_in_def intro!: sound_SocketAddress)

interpretation address_out: item_methods "address_out k" for k
  by unfold_locales (auto simp: address_out_def intro!: sound_SocketAddress sound_AddressLength)

text \<open>The methods of messages only change the messages and what was fetched of them.\<close>

lemma sound_messages:
  "sound False (item_is sg v) (on_msg m)" "sound False (item_is sg v) (on_last m)"
  "sound False (item_is sg v) (on_header k m)"
  by (auto intro!: soundI simp: on_msg_def on_last_def on_header_def split: prod.splits if_splits)

lemma sound_fetchMsgHdr: "sound False (item_is sg v) (fetchMsgHdr put tv c)"
  unfolding fetchMsgHdr_def by (intro sound_intros sound_fetch_optional) simp_all

lemma sound_raw_headers:
  "sound False (item_is sg v) (\<lambda>i. case readStructsInto (tv_peek tv) p 32 (replicate n (replicate 32 0)) of
      None \<Rightarrow> endless i
    | Some (Inl e, _) \<Rightarrow> (Inl e, i)
    | Some (Inr ok, hdrs32) \<Rightarrow> (Inr ok, if ok then i\<lparr>it_more := map convert_mmsghdr hdrs32\<rparr> else i))"
  by (rule soundI) (auto simp: endless_def raise_def split: option.splits prod.splits sum.splits)

lemma sound_fetchRawHeaders: "sound False (item_is sg v) (fetchRawHeaders tv c)"
  unfolding fetchRawHeaders_def by (intro sound_intros sound_raw_headers) simp_all

lemma sound_message_items:
  "sound False (item_is sg v) (RecvMessageHeader_processData tv c)"
  "sound False (item_is sg v) (RecvMessageHeader_updateData tv c)"
  "sound False (item_is sg v) (SendMessageHeader_processData tv c)"
  "sound False (item_is sg v) (MessageHeaderVector_processData fill tv c)"
  "sound False (item_is sg v) (MessageHeaderVector_updateData step tv c)"
  unfolding RecvMessageHeader_processData_def RecvMessageHeader_updateData_def SendMessageHeader_processData_def
    MessageHeaderVector_processData_def MessageHeaderVector_updateData_def
  by (intro sound_intros sound_messages sound_fetchMsgHdr sound_fetchRawHeaders; simp)+

interpretation message_items: item_methods message_items
  by unfold_locales (auto simp: message_items_def RecvMessageHeaderVector_processData_def
      RecvMessageHeaderVector_updateData_def SendMessageHeaderVector_processData_def
      SendMessageHeaderVector_updateData_def intro!: sound_message_items)

section \<open>The classes that are defined for every tracee\<close>

lemma safe_own_fdtrack:
  assumes "safe_class (own_class tbl r ps) 6"
    and "\<And>tv s fds e fds'. view_ok tv \<Longrightarrow> f tv s fds = (Inl e, fds') \<Longrightarrow> \<not> is_undefined e"
  shows "safe_class ((own_class tbl r ps)\<lparr>cc_fdtrack := f\<rparr>) 6"
  by (rule safe_fdtrack) (use assms in simp_all)

lemma length_net_pars [simp]: "length socket_pars = 3" "length recv_pars = 4" "length send_pars = 4" "length accept_pars = 3"
  by (simp_all add: socket_pars_def recv_pars_def send_pars_def accept_pars_def)

lemma forE_track: "forE xs (\<lambda>x. track (f x)) fds = (Inr (), fold (\<lambda>x. trackFD (f x)) xs fds)"
  by (induction xs arbitrary: fds) (simp_all add: track_def prog_defs)

lemma net_classes_safe: "(cls, c) \<in> set net_classes \<Longrightarrow> safe_class c 6"
  unfolding net_classes_def SocketSystemCall_def SocketPairSystemCall_def BindSystemCall_def ConnectSystemCall_def
    ListenSystemCall_def ShutdownSystemCall_def RecvSystemCall_def SendSystemCall_def SendToSystemCall_def
  by (auto intro!: safe_own_fdtrack socket_items.safe_own address_in.safe_own
      simp: Socket_updateFDTracking_def SocketPair_updateFDTracking_def track_def [symmetric] forE_track track_defined
      dest: track_defined)

end
