(* ===== verification/Sockopt_Items.thy ===== *)
theory Sockopt_Items
  imports Call_Net Call_Prctl
begin

text \<open>
  The option values of getsockopt(2) and setsockopt(2): src/items/sockopt.cxx and
  include/items/sockopt.hxx. The value is the fourth parameter, its length the fifth: an \<open>int\<close> for
  setsockopt, a pointer to an \<open>int\<close> for getsockopt. What the classes of libcosmos wrap is named by
  their types.
\<close>

section \<open>Lengths\<close>

definition optlen_in :: "syscall \<Rightarrow> int" where
  "optlen_in c = as_int (it_val (sc_pars c ! 4))"

definition optlen_out :: "syscall \<Rightarrow> int option" where
  "optlen_out c = map_option (field_int 0) (it_data (sc_pars c ! 4))"

text \<open>The length where the code dereferences it without a check.\<close>

definition the_optlen :: "syscall \<Rightarrow> exn + int" where
  "the_optlen c = (case optlen_out c of
     None \<Rightarrow> Inl (Undefined ''dereference of an empty optional'') | Some l \<Rightarrow> Inr l)"

definition too_small :: "int \<Rightarrow> nat \<Rightarrow> bool" where
  "too_small len n \<longleftrightarrow> len < 0 \<or> nat len < n"

section \<open>Scalars\<close>

text \<open>A negative length converts to a huge one in the comparison.\<close>

definition GetSockOptVal_updateData :: "nat \<Rightarrow> item_method" where
  "GetSockOptVal_updateData w tv c =
     (if \<not> hasResultValue c \<or> (case optlen_out c of None \<Rightarrow> True | Some l \<Rightarrow> 0 \<le> l \<and> l < int w)
      then updE (put_data None)
      else PointerToScalar_updateData tv w)"

section \<open>Structures\<close>

text \<open>A structure: how it is fetched, and the size of the type that it is fetched into.\<close>

definition SetSockOptStruct_processData ::
  "(tview \<Rightarrow> nat) \<Rightarrow> (tview \<Rightarrow> item_prog) \<Rightarrow> item_method"
where
  "SetSockOptStruct_processData sz fetch tv c =
     (if too_small (optlen_in c) (sz tv) then updE (put_data None) else fetch tv)"

definition GetSockOptStruct_processData :: item_method where
  "GetSockOptStruct_processData tv c = updE (put_data None)"

definition GetSockOptStruct_updateData ::
  "(tview \<Rightarrow> nat) \<Rightarrow> (tview \<Rightarrow> item_prog) \<Rightarrow> item_method"
where
  "GetSockOptStruct_updateData sz fetch tv c =
     (if \<not> hasResultValue c then skipE
      else bindE (liftE (the_optlen c)) (\<lambda>len. if too_small len (sz tv) then skipE else fetch tv))"

definition fetch_plain :: "nat \<Rightarrow> tview \<Rightarrow> item_prog" where
  "fetch_plain n tv = voidE (bindE (askE it_val) (fetch_optional put_data tv n n))"

definition fetch_wrapped :: "string \<Rightarrow> string \<Rightarrow> tview \<Rightarrow> item_prog" where
  "fetch_wrapped raw T tv = voidE (bindE (askE it_val) (fetch_raw put_data tv raw T))"

abbreviation (input) sock_timeval_size :: nat where "sock_timeval_size \<equiv> 16"
abbreviation (input) sock_txtime_size :: nat where "sock_txtime_size \<equiv> 8"

section \<open>Filters\<close>

definition ClassicBPFSockOpt_processData :: item_method where
  "ClassicBPFSockOpt_processData tv c = seqE (updE (\<lambda>i. i\<lparr>it_data := None, it_more := []\<rparr>))
     (if optlen_in c < 16 then skipE else FilterProg_processData tv c)"

text \<open>
  The filter program that is made up here: the length, cut to 16 bits, and the pointer to the filters.
\<close>

definition put_len :: "nat \<Rightarrow> byte list \<Rightarrow> byte list" where
  "put_len n prog = nat_bytes 2 n @ drop 2 prog"

definition GetFilterSocktOpt_processData :: item_method where
  "GetFilterSocktOpt_processData tv c = seqE (updE (\<lambda>i. i\<lparr>it_data := Some (replicate 16 0), it_more := []\<rparr>))
     (bindE (liftE (the_optlen c)) (\<lambda>len. updE (\<lambda>i. i\<lparr>it_data :=
        Some (nat_bytes 2 (nat (len mod 2 ^ 16)) @ replicate 6 0 @ nat_bytes 8 (unat (it_val i)))\<rparr>)))"

definition GetFilterSocktOpt_updateData :: item_method where
  "GetFilterSocktOpt_updateData tv c = bindE (askE it_data) (\<lambda>prog. case prog of
     None \<Rightarrow> raise (Undefined ''dereference of an empty optional'')
   | Some p \<Rightarrow>
       (let none = updE (put_data (Some (put_len 0 p))) in
        if \<not> hasResultValue c then none
        else case optlen_out c of
            None \<Rightarrow> none
          | Some len \<Rightarrow> if len \<le> 0 \<or> len > 65535 then none
              else seqE (updE (put_data (Some (put_len (min (field 0 2 p) (nat len)) p))))
                (FilterProg_fetchFilters tv)))"

section \<open>Linger, timeouts, memory information\<close>

definition LingerSockOptBase_fetch :: "tview \<Rightarrow> int \<Rightarrow> item_prog" where
  "LingerSockOptBase_fetch tv optlen = seqE (updE (put_data None))
     (if too_small optlen (tv_sizeof tv ''struct linger'') then skipE
      else fetch_wrapped ''struct linger'' ''cosmos::SocketOptions::Linger'' tv)"

definition GetLingerSockOpt_updateData :: item_method where
  "GetLingerSockOpt_updateData tv c =
     (if hasResultValue c then bindE (liftE (the_optlen c)) (LingerSockOptBase_fetch tv) else skipE)"

definition SetLingerSockOpt_processData :: item_method where
  "SetLingerSockOpt_processData tv c = LingerSockOptBase_fetch tv (optlen_in c)"

abbreviation (input) SOL_SOCKET :: int where "SOL_SOCKET \<equiv> 1"
abbreviation (input) SO_RCVTIMEO_OLD :: int where "SO_RCVTIMEO_OLD \<equiv> 20"
abbreviation (input) SO_RCVTIMEO_NEW :: int where "SO_RCVTIMEO_NEW \<equiv> 66"

text \<open>\<open>TimeValParameter::needTime32Conversion\<close> and its callers, for calls on socket options.\<close>

definition sockopt_needTime32Conversion :: "arch_flags \<Rightarrow> syscall \<Rightarrow> bool" where
  "sockopt_needTime32Conversion a c \<longleftrightarrow> usesTime32 a c \<and> par_int c 1 = SOL_SOCKET \<and>
     par_int c 2 \<in> set [SO_RCVTIMEO_NEW, SO_RCVTIMEO_OLD]"

definition sockopt_TimeVal_fetch :: "tview \<Rightarrow> syscall \<Rightarrow> item_prog" where
  "sockopt_TimeVal_fetch tv c = bindE (askE it_val) (\<lambda>p.
     if sockopt_needTime32Conversion (tv_arch tv) c
     then bindE (fetch_local tv 8 p) (\<lambda>tv32. updE (put_data (map_option
         (\<lambda>bs. sign_extend4 (take 4 bs) @ sign_extend4 (drop 4 bs)) tv32)))
     else voidE (fetch_optional put_data tv 16 16 p))"

definition traceeStructSize :: "arch_flags \<Rightarrow> syscall \<Rightarrow> nat" where
  "traceeStructSize a c = (if sockopt_needTime32Conversion a c then 8 else 16)"

definition SetOldTimeValSockOpt_processData :: item_method where
  "SetOldTimeValSockOpt_processData tv c =
     (if too_small (optlen_in c) (traceeStructSize (tv_arch tv) c) then updE (put_data None)
      else sockopt_TimeVal_fetch tv c)"

definition GetOldTimeValSockOpt_updateData :: item_method where
  "GetOldTimeValSockOpt_updateData tv c =
     (if \<not> hasResultValue c then skipE
      else bindE (liftE (the_optlen c)) (\<lambda>len.
        if too_small len (traceeStructSize (tv_arch tv) c) then skipE else sockopt_TimeVal_fetch tv c))"

definition GetMemInfoSockOpt_processData :: item_method where
  "GetMemInfoSockOpt_processData tv c =
     updE (put_data (Some (replicate (tv_sizeof tv ''cosmos::SocketOptions::MemInfoArray'') 0)))"

text \<open>The length is converted to \<open>size_t\<close> and divided by the size of an element.\<close>

definition GetMemInfoSockOpt_updateData :: item_method where
  "GetMemInfoSockOpt_updateData tv c =
     (if \<not> hasResultValue c then skipE
      else bindE (liftE (the_optlen c)) (\<lambda>len.
        if nat (len mod 2 ^ 64) div 4 < tv_sizeof tv ''cosmos::SocketOptions::MemInfoArray'' div 4 then skipE
        else bindE (askE id) (\<lambda>i. bindE (fetch_over tv (vec i) (it_val i))
          (\<lambda>(ok, bs). updE (put_data (Some bs))))))"

text \<open>
  \<open>it_more\<close> is \<open>m_only_flags\<close>, empty or not. The flags are read into a variable without a value, which
  has none if the read fails.
\<close>

definition timestamping_size :: "tview \<Rightarrow> nat" where
  "timestamping_size tv = tv_sizeof tv ''cosmos::SocketOptions::TimestampingConfig''"

definition SetTimestampingSockOpt_processData :: item_method where
  "SetTimestampingSockOpt_processData tv c = seqE (updE (\<lambda>i. i\<lparr>it_more := []\<rparr>))
     (seqE (SetSockOptStruct_processData timestamping_size
         (fetch_wrapped ''struct so_timestamping'' ''cosmos::SocketOptions::TimestampingConfig'') tv c)
       (bindE (askE id) (\<lambda>i.
          if it_data i \<noteq> None then skipE
          else if optlen_in c = 4
          then seqE (updE (\<lambda>i. i\<lparr>it_data := Some (replicate (timestamping_size tv) 0), it_more := [[]]\<rparr>))
            (bindE (fetch_local tv 4 (it_val i)) (\<lambda>flags. case flags of
               None \<Rightarrow> raise (Undefined ''read of an uninitialised variable'')
             | Some bs \<Rightarrow> updE (\<lambda>i. i\<lparr>it_data := Some (bs @ drop 4 (vec i))\<rparr>)))
          else skipE)))"

section \<open>Tables\<close>

text \<open>A structure that is only set keeps its \<open>updateData\<close>, which calls \<open>processData\<close>.\<close>

definition set_struct :: "string \<Rightarrow> item_method \<Rightarrow> string \<times> item_method \<times> item_method" where
  "set_struct cls m = (cls, m, m)"

definition get_struct :: "string \<Rightarrow> item_method \<Rightarrow> string \<times> item_method \<times> item_method" where
  "get_struct cls m = (cls, GetSockOptStruct_processData, m)"

text \<open>The items that check the length, and those that rely on it.\<close>

definition sockopt_items :: method_table where
  "sockopt_items =
    [(''GetSockOptVal4'', \<lambda>tv _. PointerToScalar_processData tv 4, GetSockOptVal_updateData 4),
     (''GetSockOptVal8'', \<lambda>tv _. PointerToScalar_processData tv 8, GetSockOptVal_updateData 8),
     set_struct ''SetLingerSockOpt'' SetLingerSockOpt_processData,
     set_struct ''SetOldTimeValSockOpt'' SetOldTimeValSockOpt_processData,
     set_struct ''SetNewTimeValSockOpt''
       (SetSockOptStruct_processData (\<lambda>_. sock_timeval_size) (fetch_plain sock_timeval_size)),
     set_struct ''SetTxTimeSockOpt''
       (SetSockOptStruct_processData (\<lambda>_. sock_txtime_size) (fetch_plain sock_txtime_size)),
     set_struct ''SetDevMemDontNeedSockOpt''
       (SetSockOptStruct_processData (\<lambda>tv. tv_sizeof tv ''cosmos::SocketOptions::DMABufToken'')
         (fetch_wrapped ''struct dmabuf_token'' ''cosmos::SocketOptions::DMABufToken''))]"

definition sockopt_deref_items :: method_table where
  "sockopt_deref_items =
    [(''ClassicBPFSockOpt'', ClassicBPFSockOpt_processData, ClassicBPFSockOpt_processData),
     (''GetFilterSocktOpt'', GetFilterSocktOpt_processData, GetFilterSocktOpt_updateData),
     get_struct ''GetLingerSockOpt'' GetLingerSockOpt_updateData,
     get_struct ''GetOldTimeValSockOpt'' GetOldTimeValSockOpt_updateData,
     get_struct ''GetNewTimeValSockOpt''
       (GetSockOptStruct_updateData (\<lambda>_. sock_timeval_size) (fetch_plain sock_timeval_size)),
     get_struct ''GetTxTimeSockOpt''
       (GetSockOptStruct_updateData (\<lambda>_. sock_txtime_size) (fetch_plain sock_txtime_size)),
     get_struct ''GetPeerCredSockOpt''
       (GetSockOptStruct_updateData (\<lambda>tv. tv_sizeof tv ''cosmos::UnixCredentials'')
         (fetch_wrapped ''struct ucred'' ''cosmos::UnixCredentials'')),
     get_struct ''GetTimestampingSockOpt''
       (GetSockOptStruct_updateData timestamping_size
         (fetch_wrapped ''struct so_timestamping'' ''cosmos::SocketOptions::TimestampingConfig'')),
     (''GetMemInfoSockOpt'', GetMemInfoSockOpt_processData, GetMemInfoSockOpt_updateData),
     set_struct ''SetTimestampingSockOpt'' SetTimestampingSockOpt_processData]"

end
