(* ===== verification/Call_Sockopt.thy ===== *)
theory Call_Sockopt
  imports Sockopt_Items
begin

text \<open>
  The classes of getsockopt(2) and setsockopt(2) and the factory that picks one of them from the level
  and the name of the option: include/syscalls/sockopt.hxx and src/syscalls/sockopt.cxx. The classes only
  differ in the option value; a class of the source is \<open>GetSockOptSystemCall\<close> or \<open>SetSockOptSystemCall\<close>
  for a kind of value. The values of the options are those of asm-generic/socket.h;
  \<open>SO_RIGHTS_NOTRUNC\<close> is too new for a value to be found in the source, and a parameter.
\<close>

section \<open>Option values\<close>

definition sockopt_val :: "string \<Rightarrow> item_type \<Rightarrow> string \<Rightarrow> item" where
  "sockopt_val cls t label = deferred (item_of (K_Value cls) t label)"

definition get_val :: "string \<Rightarrow> item" where
  "get_val label = sockopt_val ''GetSockOptVal4'' PARAM_OUT label"

text \<open>\<open>SetSockOptVal\<close> leaves the type of the item at the default, an output.\<close>

definition set_val :: "string \<Rightarrow> item" where
  "set_val label = deferred (item_of (K_Scalar 4) PARAM_OUT label)"

definition string_optval :: item where
  "string_optval = item_of (K_StringBuffer (OfParam 4)) PARAM_OUT ''optval''"

definition unknown_optval :: item where
  "unknown_optval = val ''GenericPointerValue'' ''optval''"

definition get_optvals :: "(string \<times> item) list" where
  "get_optvals = [
     (''Bool'', get_val ''optval''), (''Int'', get_val ''optval''), (''String'', string_optval),
     (''Domain'', get_val ''domain''), (''Type'', get_val ''type''), (''Error'', get_val ''errno''),
     (''Protocol'', get_val ''optval''), (''FileDesc'', get_val ''fd''), (''InterfaceIndex'', get_val ''optval''),
     (''BufLock'', get_val ''optval''),
     (''NetNSCookie'', sockopt_val ''GetSockOptVal8'' PARAM_OUT ''optval''), (''Unknown'', unknown_optval)]"

definition get_struct_optvals :: "(string \<times> item) list" where
  "get_struct_optvals = [
     (''Filter'', sockopt_val ''GetFilterSocktOpt'' PARAM_OUT ''filter''),
     (''Linger'', sockopt_val ''GetLingerSockOpt'' PARAM_OUT ''linger''),
     (''PeerCred'', sockopt_val ''GetPeerCredSockOpt'' PARAM_OUT ''optval''),
     (''OldTimeVal'', sockopt_val ''GetOldTimeValSockOpt'' PARAM_OUT ''optval''),
     (''NewTimeVal'', sockopt_val ''GetNewTimeValSockOpt'' PARAM_OUT ''optval''),
     (''TxTime'', sockopt_val ''GetTxTimeSockOpt'' PARAM_OUT ''optval''),
     (''MemInfo'', sockopt_val ''GetMemInfoSockOpt'' PARAM_OUT ''optval''),
     (''Timestamping'', sockopt_val ''GetTimestampingSockOpt'' PARAM_OUT ''optval'')]"

definition set_optvals :: "(string \<times> item) list" where
  "set_optvals = [
     (''Bool'', set_val ''optval''), (''Int'', set_val ''optval''), (''String'', string_optval),
     (''FileDesc'', set_val ''fd''), (''InterfaceIndex'', set_val ''optval''),
     (''BufLock'', deferred (item_of (K_Scalar 4) PARAM_IN ''optval'')),
     (''Linger'', sockopt_val ''SetLingerSockOpt'' PARAM_IN ''linger''),
     (''OldTimeVal'', sockopt_val ''SetOldTimeValSockOpt'' PARAM_IN ''optval''),
     (''NewTimeVal'', sockopt_val ''SetNewTimeValSockOpt'' PARAM_IN ''optval''),
     (''TxTime'', sockopt_val ''SetTxTimeSockOpt'' PARAM_IN ''optval''),
     (''DevMemDontNeed'', sockopt_val ''SetDevMemDontNeedSockOpt'' PARAM_IN ''optval''),
     (''Unknown'', unknown_optval)]"

definition set_struct_optvals :: "(string \<times> item) list" where
  "set_struct_optvals = [
     (''ClassicBPF'', sockopt_val ''ClassicBPFSockOpt'' PARAM_IN ''filter''),
     (''Timestamping'', sockopt_val ''SetTimestampingSockOpt'' PARAM_IN ''optval'')]"

section \<open>The classes\<close>

abbreviation (input) SO_PEERPIDFD :: int where "SO_PEERPIDFD \<equiv> 77"

text \<open>The \<open>dynamic_cast\<close> is to the class of file descriptor options.\<close>

definition GetSockOpt_updateFDTracking :: "string \<Rightarrow> syscall \<Rightarrow> fd_prog" where
  "GetSockOpt_updateFDTracking kind s =
     (if par_int s 1 = SOL_SOCKET \<and> par_int s 2 = SO_PEERPIDFD
      then if kind \<noteq> ''FileDesc'' then raise (StdError ''bad_cast'')
        else (case it_data (sc_pars s ! 3) of
            None \<Rightarrow> raise (Undefined ''dereference of an empty optional'')
          | Some fd \<Rightarrow> track ((FDInfo PID_FD (field_int 0 fd))
              \<lparr>fi_mode := Some 2, fi_flags := Some (2 ^ O_CLOEXEC_BIT)\<rparr>))
      else skipE)"

definition sockopt_pars :: "item \<Rightarrow> item \<Rightarrow> item list" where
  "sockopt_pars optval optlen = [sockfd_item, val ''SockOptLevel'' ''optlevel'', val ''SockOptName'' ''optname'',
     optval, optlen]"

definition GetSockOptSystemCall :: "method_table \<Rightarrow> string \<Rightarrow> item \<Rightarrow> call_class" where
  "GetSockOptSystemCall tbl kind optval = (own_class tbl success_result
     (sockopt_pars optval (item_of (K_ScalarInOut 4) PARAM_IN_OUT ''optlen'')))
     \<lparr>cc_nr := (\<lambda>_. SYS_GETSOCKOPT), cc_fdtrack := (\<lambda>_. GetSockOpt_updateFDTracking kind)\<rparr>"

definition SetSockOptSystemCall :: "method_table \<Rightarrow> item \<Rightarrow> call_class" where
  "SetSockOptSystemCall tbl optval = (own_class tbl success_result
     (sockopt_pars optval (val ''IntValue'' ''optlen'')))
     \<lparr>cc_nr := (\<lambda>_. SYS_SETSOCKOPT)\<rparr>"

definition sockopt_class_name :: "bool \<Rightarrow> bool \<Rightarrow> string \<Rightarrow> string" where
  "sockopt_class_name get is_socket_call kind =
     (if is_socket_call then ''SocketCall_'' @ (if get then ''Get'' else ''Set'') @ kind @ ''SockOpt''
      else (if get then ''Get'' else ''Set'') @ kind @ ''SockOptSystemCall'')"

definition get_classes :: "method_table \<Rightarrow> (string \<times> item) list \<Rightarrow> (string \<times> call_class) list" where
  "get_classes tbl = map (\<lambda>(kind, i). (kind, GetSockOptSystemCall tbl kind i))"

definition set_classes :: "method_table \<Rightarrow> (string \<times> item) list \<Rightarrow> (string \<times> call_class) list" where
  "set_classes tbl = map (\<lambda>(kind, i). (kind, SetSockOptSystemCall tbl i))"

text \<open>All classes by their kind of value: whether an option is read or set, and the kind.\<close>

definition sockopt_classes :: "bool \<Rightarrow> (string \<times> call_class) list" where
  "sockopt_classes get =
     (if get then get_classes sockopt_items get_optvals @ get_classes sockopt_deref_items get_struct_optvals
      else set_classes sockopt_items set_optvals @ set_classes sockopt_deref_items set_struct_optvals)"

section \<open>The factory\<close>

abbreviation (input) SO_DEBUG :: int where "SO_DEBUG \<equiv> 1"
abbreviation (input) SO_REUSEADDR :: int where "SO_REUSEADDR \<equiv> 2"
abbreviation (input) SO_TYPE :: int where "SO_TYPE \<equiv> 3"
abbreviation (input) SO_ERROR :: int where "SO_ERROR \<equiv> 4"
abbreviation (input) SO_DONTROUTE :: int where "SO_DONTROUTE \<equiv> 5"
abbreviation (input) SO_BROADCAST :: int where "SO_BROADCAST \<equiv> 6"
abbreviation (input) SO_SNDBUF :: int where "SO_SNDBUF \<equiv> 7"
abbreviation (input) SO_RCVBUF :: int where "SO_RCVBUF \<equiv> 8"
abbreviation (input) SO_KEEPALIVE :: int where "SO_KEEPALIVE \<equiv> 9"
abbreviation (input) SO_OOBINLINE :: int where "SO_OOBINLINE \<equiv> 10"
abbreviation (input) SO_NO_CHECK :: int where "SO_NO_CHECK \<equiv> 11"
abbreviation (input) SO_PRIORITY :: int where "SO_PRIORITY \<equiv> 12"
abbreviation (input) SO_LINGER :: int where "SO_LINGER \<equiv> 13"
abbreviation (input) SO_BSDCOMPAT :: int where "SO_BSDCOMPAT \<equiv> 14"
abbreviation (input) SO_REUSEPORT :: int where "SO_REUSEPORT \<equiv> 15"
abbreviation (input) SO_PASSCRED :: int where "SO_PASSCRED \<equiv> 16"
abbreviation (input) SO_PEERCRED :: int where "SO_PEERCRED \<equiv> 17"
abbreviation (input) SO_RCVLOWAT :: int where "SO_RCVLOWAT \<equiv> 18"
abbreviation (input) SO_SNDLOWAT :: int where "SO_SNDLOWAT \<equiv> 19"
abbreviation (input) SO_SNDTIMEO_OLD :: int where "SO_SNDTIMEO_OLD \<equiv> 21"
abbreviation (input) SO_BINDTODEVICE :: int where "SO_BINDTODEVICE \<equiv> 25"
abbreviation (input) SO_ATTACH_FILTER :: int where "SO_ATTACH_FILTER \<equiv> 26"
abbreviation (input) SO_DETACH_BPF :: int where "SO_DETACH_BPF \<equiv> 27"
abbreviation (input) SO_TIMESTAMP_OLD :: int where "SO_TIMESTAMP_OLD \<equiv> 29"
abbreviation (input) SO_ACCEPTCONN :: int where "SO_ACCEPTCONN \<equiv> 30"
abbreviation (input) SO_PEERSEC :: int where "SO_PEERSEC \<equiv> 31"
abbreviation (input) SO_SNDBUFFORCE :: int where "SO_SNDBUFFORCE \<equiv> 32"
abbreviation (input) SO_RCVBUFFORCE :: int where "SO_RCVBUFFORCE \<equiv> 33"
abbreviation (input) SO_PASSSEC :: int where "SO_PASSSEC \<equiv> 34"
abbreviation (input) SO_TIMESTAMPNS_OLD :: int where "SO_TIMESTAMPNS_OLD \<equiv> 35"
abbreviation (input) SO_MARK :: int where "SO_MARK \<equiv> 36"
abbreviation (input) SO_TIMESTAMPING_OLD :: int where "SO_TIMESTAMPING_OLD \<equiv> 37"
abbreviation (input) SO_PROTOCOL :: int where "SO_PROTOCOL \<equiv> 38"
abbreviation (input) SO_DOMAIN :: int where "SO_DOMAIN \<equiv> 39"
abbreviation (input) SO_RXQ_OVFL :: int where "SO_RXQ_OVFL \<equiv> 40"
abbreviation (input) SO_WIFI_STATUS :: int where "SO_WIFI_STATUS \<equiv> 41"
abbreviation (input) SO_PEEK_OFF :: int where "SO_PEEK_OFF \<equiv> 42"
abbreviation (input) SO_NOFCS :: int where "SO_NOFCS \<equiv> 43"
abbreviation (input) SO_LOCK_FILTER :: int where "SO_LOCK_FILTER \<equiv> 44"
abbreviation (input) SO_SELECT_ERR_QUEUE :: int where "SO_SELECT_ERR_QUEUE \<equiv> 45"
abbreviation (input) SO_BUSY_POLL :: int where "SO_BUSY_POLL \<equiv> 46"
abbreviation (input) SO_BPF_EXTENSIONS :: int where "SO_BPF_EXTENSIONS \<equiv> 48"
abbreviation (input) SO_INCOMING_CPU :: int where "SO_INCOMING_CPU \<equiv> 49"
abbreviation (input) SO_ATTACH_BPF :: int where "SO_ATTACH_BPF \<equiv> 50"
abbreviation (input) SO_ATTACH_REUSEPORT_CBPF :: int where "SO_ATTACH_REUSEPORT_CBPF \<equiv> 51"
abbreviation (input) SO_ATTACH_REUSEPORT_EBPF :: int where "SO_ATTACH_REUSEPORT_EBPF \<equiv> 52"
abbreviation (input) SO_CNX_ADVICE :: int where "SO_CNX_ADVICE \<equiv> 53"
abbreviation (input) SO_MEMINFO :: int where "SO_MEMINFO \<equiv> 55"
abbreviation (input) SO_INCOMING_NAPI_ID :: int where "SO_INCOMING_NAPI_ID \<equiv> 56"
abbreviation (input) SO_ZEROCOPY :: int where "SO_ZEROCOPY \<equiv> 60"
abbreviation (input) SO_TXTIME :: int where "SO_TXTIME \<equiv> 61"
abbreviation (input) SO_BINDTOIFINDEX :: int where "SO_BINDTOIFINDEX \<equiv> 62"
abbreviation (input) SO_TIMESTAMP_NEW :: int where "SO_TIMESTAMP_NEW \<equiv> 63"
abbreviation (input) SO_TIMESTAMPNS_NEW :: int where "SO_TIMESTAMPNS_NEW \<equiv> 64"
abbreviation (input) SO_TIMESTAMPING_NEW :: int where "SO_TIMESTAMPING_NEW \<equiv> 65"
abbreviation (input) SO_SNDTIMEO_NEW :: int where "SO_SNDTIMEO_NEW \<equiv> 67"
abbreviation (input) SO_DETACH_REUSEPORT_BPF :: int where "SO_DETACH_REUSEPORT_BPF \<equiv> 68"
abbreviation (input) SO_PREFER_BUSY_POLL :: int where "SO_PREFER_BUSY_POLL \<equiv> 69"
abbreviation (input) SO_BUSY_POLL_BUDGET :: int where "SO_BUSY_POLL_BUDGET \<equiv> 70"
abbreviation (input) SO_NETNS_COOKIE :: int where "SO_NETNS_COOKIE \<equiv> 71"
abbreviation (input) SO_BUF_LOCK :: int where "SO_BUF_LOCK \<equiv> 72"
abbreviation (input) SO_RESERVE_MEM :: int where "SO_RESERVE_MEM \<equiv> 73"
abbreviation (input) SO_TXREHASH :: int where "SO_TXREHASH \<equiv> 74"
abbreviation (input) SO_RCVMARK :: int where "SO_RCVMARK \<equiv> 75"
abbreviation (input) SO_PASSPIDFD :: int where "SO_PASSPIDFD \<equiv> 76"
abbreviation (input) SO_DEVMEM_DONTNEED :: int where "SO_DEVMEM_DONTNEED \<equiv> 80"
abbreviation (input) SO_RCVPRIORITY :: int where "SO_RCVPRIORITY \<equiv> 82"
abbreviation (input) SO_PASSRIGHTS :: int where "SO_PASSRIGHTS \<equiv> 83"
abbreviation (input) SO_INQ :: int where "SO_INQ \<equiv> 84"

text \<open>For each option the kind of value to read and to set, if there is a class for it.\<close>

definition bool_options :: "int \<Rightarrow> int list" where
  "bool_options rights_notrunc = [
     SO_ACCEPTCONN, SO_BROADCAST, SO_BSDCOMPAT, SO_DEBUG, SO_DONTROUTE, SO_KEEPALIVE, SO_LOCK_FILTER,
     SO_OOBINLINE, SO_PASSCRED, SO_PASSSEC, SO_PASSPIDFD, SO_PASSRIGHTS, SO_REUSEADDR, SO_REUSEPORT,
     SO_RXQ_OVFL, SO_SELECT_ERR_QUEUE, SO_TIMESTAMP_OLD, SO_TIMESTAMPNS_OLD, SO_TIMESTAMP_NEW,
     SO_TIMESTAMPNS_NEW, SO_NO_CHECK, SO_PREFER_BUSY_POLL, SO_TXREHASH, SO_RCVMARK, SO_RCVPRIORITY, SO_INQ,
     SO_WIFI_STATUS, SO_NOFCS, SO_ZEROCOPY, rights_notrunc]"

definition int_options :: "int list" where
  "int_options = [
     SO_BUSY_POLL, SO_INCOMING_CPU, SO_INCOMING_NAPI_ID, SO_MARK, SO_PEEK_OFF, SO_PRIORITY, SO_RCVBUF,
     SO_RCVBUFFORCE, SO_RCVLOWAT, SO_SNDBUF, SO_SNDBUFFORCE, SO_SNDLOWAT, SO_BUSY_POLL_BUDGET,
     SO_RESERVE_MEM, SO_CNX_ADVICE, SO_BPF_EXTENSIONS]"

type_synonym kinds = "string option \<times> string option"

definition both :: "string \<Rightarrow> kinds" where
  "both k = (Some k, Some k)"

definition sockopt_kinds :: "int \<Rightarrow> (int \<times> kinds) list" where
  "sockopt_kinds rights_notrunc =
     map (\<lambda>opt. (opt, both ''Bool'')) (bool_options rights_notrunc) @
     map (\<lambda>opt. (opt, both ''Int'')) int_options @
     [(SO_BINDTODEVICE, both ''String''), (SO_PEERSEC, both ''String''), (SO_PEERCRED, (Some ''PeerCred'', None)),
      (SO_DEVMEM_DONTNEED, (None, Some ''DevMemDontNeed'')), (SO_BINDTOIFINDEX, both ''InterfaceIndex''),
      (SO_ATTACH_FILTER, (Some ''Filter'', Some ''ClassicBPF'')), (SO_ATTACH_REUSEPORT_CBPF, (None, Some ''ClassicBPF'')),
      (SO_ATTACH_BPF, (None, Some ''FileDesc'')), (SO_ATTACH_REUSEPORT_EBPF, (None, Some ''FileDesc'')), (SO_PEERPIDFD, (Some ''FileDesc'', None)),
      (SO_BUF_LOCK, both ''BufLock''), (SO_LINGER, both ''Linger''), (SO_RCVTIMEO_OLD, both ''OldTimeVal''), (SO_SNDTIMEO_OLD, both ''OldTimeVal''),
      (SO_RCVTIMEO_NEW, both ''NewTimeVal''), (SO_SNDTIMEO_NEW, both ''NewTimeVal''), (SO_TIMESTAMPING_NEW, both ''Timestamping''),
      (SO_TIMESTAMPING_OLD, both ''Timestamping''), (SO_DOMAIN, (Some ''Domain'', None)), (SO_TYPE, (Some ''Type'', None)),
      (SO_PROTOCOL, (Some ''Protocol'', None)), (SO_NETNS_COOKIE, (Some ''NetNSCookie'', None)), (SO_TXTIME, both ''TxTime''),
      (SO_MEMINFO, (Some ''MemInfo'', None)), (SO_ERROR, (Some ''Error'', None)), (SO_DETACH_BPF, (None, None)), (SO_DETACH_REUSEPORT_BPF, (None, None))]"

definition create_socket_opt_syscall :: "int \<Rightarrow> int \<Rightarrow> bool \<Rightarrow> bool \<Rightarrow> string option" where
  "create_socket_opt_syscall rights_notrunc optname get is_socket_call =
     map_option (\<lambda>(g, s). sockopt_class_name get is_socket_call
         (case if get then g else s of None \<Rightarrow> ''Unknown'' | Some kind \<Rightarrow> kind))
       (map_of (sockopt_kinds rights_notrunc) optname)"

text \<open>\<open>create_getsockopt_syscall\<close> and \<open>create_setsockopt_syscall\<close>, which only differ in \<open>get\<close>.\<close>

definition create_for_level :: "int \<Rightarrow> bool \<Rightarrow> bool \<Rightarrow> int \<Rightarrow> int \<Rightarrow> string" where
  "create_for_level rights_notrunc get is_socket_call optlevel optname =
     (case if optlevel = SOL_SOCKET then create_socket_opt_syscall rights_notrunc optname get is_socket_call
           else None of
        Some cls \<Rightarrow> cls
      | None \<Rightarrow> sockopt_class_name get is_socket_call ''Unknown'')"

definition create_getsockopt_syscall :: "int \<Rightarrow> sysinfo \<Rightarrow> string" where
  "create_getsockopt_syscall rights_notrunc info = create_for_level rights_notrunc True False
     (as_int (entry_args info ! 1)) (as_int (entry_args info ! 2))"

definition create_setsockopt_syscall :: "int \<Rightarrow> sysinfo \<Rightarrow> string" where
  "create_setsockopt_syscall rights_notrunc info = create_for_level rights_notrunc False False
     (as_int (entry_args info ! 1)) (as_int (entry_args info ! 2))"

end
