(* ===== verification/Call_Socketcall.thy ===== *)
theory Call_Socketcall
  imports Call_Sockopt
begin

text \<open>
  The multiplexed socketcall(2): include/syscalls/socketcall.hxx and src/syscalls/socketcall.cxx. A class
  of it is derived from the class of the direct system call. Its parameters are the number of the
  sub-call and the pointer to the arguments; the parameters of the direct call are \<open>sc_members\<close>, filled
  after the first pass and updated after the exit.
\<close>

section \<open>The items of the direct call\<close>

text \<open>
  A method of such an item finds the lengths and counts that it refers to among the members. Only
  \<open>needTime32Conversion\<close> asks for the number of the call, and for the sub-call if it is socketcall(2).
\<close>

definition base_view :: "syscall \<Rightarrow> syscall" where
  "base_view c = c\<lparr>sc_pars := sc_members c\<rparr>"

definition item_view :: "syscall \<Rightarrow> item \<Rightarrow> syscall" where
  "item_view c i = (if it_kind i = K_TimeSpecInOut then c else base_view c)"

definition member_set_val :: "nat \<Rightarrow> word64 \<Rightarrow> syscall \<Rightarrow> syscall" where
  "member_set_val n w s = s\<lparr>sc_members := (sc_members s)[n := (sc_members s ! n)\<lparr>it_val := w\<rparr>]\<rparr>"

definition fill_base :: "method_table \<Rightarrow> tview \<Rightarrow> nat \<Rightarrow> word64 \<Rightarrow> (syscall, unit) prog" where
  "fill_base tbl tv n w = seqE (updE (member_set_val n w))
     (on_member (\<lambda>c. bindE (askE id) (\<lambda>i. if it_unused i then skipE else own_process tbl tv (item_view c i))) n)"

definition update_base :: "method_table \<Rightarrow> tview \<Rightarrow> nat \<Rightarrow> (syscall, unit) prog" where
  "update_base tbl tv n = on_member (\<lambda>c. bindE (askE id) (\<lambda>i. own_update tbl tv (item_view c i))) n"

section \<open>SocketCallBase\<close>

text \<open>\<open>transferValues\<close> is given by the order in which it fills the items, position by position.\<close>

type_synonym transfer = "word64 list \<Rightarrow> nat list"

definition transferValues :: "method_table \<Rightarrow> transfer \<Rightarrow> tview \<Rightarrow> (syscall, unit) prog" where
  "transferValues tbl order tv = bindE (askE (\<lambda>s. SocketCallArgs_args (sc_pars s ! 1))) (\<lambda>args.
     forE (order args) (\<lambda>n. if n < length args then fill_base tbl tv n (args ! n)
       else raise (Undefined ''vector index out of range'')))"

definition SocketCall_check2ndPass :: "method_table \<Rightarrow> transfer \<Rightarrow> tview \<Rightarrow> (syscall, bool) prog" where
  "SocketCall_check2ndPass tbl order tv = bindE (askE (\<lambda>s. it_more (sc_pars s ! 1) \<noteq> [])) (\<lambda>valid.
     seqE (if valid then transferValues tbl order tv else skipE) (ret False))"

text \<open>\<open>m_update_args\<close>: the items to update, those without \<open>DEFER_FILL\<close> first.\<close>

definition update_args :: "item list \<Rightarrow> nat list" where
  "update_args ps = filter (\<lambda>n. needsUpdate (ps ! n) \<and> \<not> it_defer (ps ! n)) [0..<length ps] @
     filter (\<lambda>n. needsUpdate (ps ! n) \<and> it_defer (ps ! n)) [0..<length ps]"

definition SocketCall_postSystemCall :: "method_table \<Rightarrow> tview \<Rightarrow> (syscall, unit) prog" where
  "SocketCall_postSystemCall tbl tv = bindE (askE (\<lambda>s. update_args (sc_members s))) (\<lambda>ns.
     forE ns (update_base tbl tv))"

definition socketcall_items :: method_table where
  "socketcall_items = [(''SocketCallArgs'', SocketCallArgs_processData, SocketCallArgs_updateData)]"

definition socketcall_pars :: "item list" where
  "socketcall_pars = [val ''SocketCallType'' ''call'', item_of (K_Value ''SocketCallArgs'') PARAM_IN_OUT ''args'']"

text \<open>\<open>extra\<close> are items of the direct call that are not among its parameters.\<close>

definition SocketCallBase :: "method_table \<Rightarrow> transfer \<Rightarrow> item list \<Rightarrow> call_class \<Rightarrow> call_class" where
  "SocketCallBase tbl order extra base = with_methods socketcall_items (base\<lparr>
     cc_nr := (\<lambda>_. SYS_SOCKETCALL), cc_pars := (\<lambda>_. socketcall_pars),
     cc_members := (\<lambda>_. cc_pars base SYS_SOCKETCALL @ extra),
     cc_2nd := SocketCall_check2ndPass tbl order, cc_post := SocketCall_postSystemCall tbl,
     cc_fdtrack := (\<lambda>tv s. cc_fdtrack base tv (base_view s))\<rparr>)"

section \<open>The classes\<close>

definition SocketCall_Socket_transferValues :: transfer where
  "SocketCall_Socket_transferValues args = [0, 1, 2]"

definition SocketCall_SocketPair_transferValues :: transfer where
  "SocketCall_SocketPair_transferValues args = [0, 1, 2, 3]"

definition SocketCall_Bind_transferValues :: transfer where
  "SocketCall_Bind_transferValues args = [0, 2, 1]"

definition SocketCall_Connect_transferValues :: transfer where
  "SocketCall_Connect_transferValues args = [0, 2, 1]"

definition SocketCall_Listen_transferValues :: transfer where
  "SocketCall_Listen_transferValues args = [0, 1]"

definition SocketCall_Accept_transferValues :: transfer where
  "SocketCall_Accept_transferValues args = [0, 2] @ (if 3 < length args then [3] else []) @ [1]"

definition SocketCall_Shutdown_transferValues :: transfer where
  "SocketCall_Shutdown_transferValues args = [0, 1]"

definition SocketCall_GetSockName_transferValues :: transfer where
  "SocketCall_GetSockName_transferValues args = [0, 2, 1]"

definition SocketCall_GetPeerName_transferValues :: transfer where
  "SocketCall_GetPeerName_transferValues args = [0, 2, 1]"

definition SocketCall_Recv_transferValues :: transfer where
  "SocketCall_Recv_transferValues args = [0, 2, 3, 1]"

definition SocketCall_RecvFrom_transferValues :: transfer where
  "SocketCall_RecvFrom_transferValues args = [0, 2, 3, 5, 4, 1]"

definition SocketCall_Send_transferValues :: transfer where
  "SocketCall_Send_transferValues args = [0, 2, 3, 1]"

definition SocketCall_SendTo_transferValues :: transfer where
  "SocketCall_SendTo_transferValues args = [0, 2, 3, 5, 4, 1]"

definition SocketCall_RecvMsg_transferValues :: transfer where
  "SocketCall_RecvMsg_transferValues args = [0, 1, 2]"

definition SocketCall_SendMsg_transferValues :: transfer where
  "SocketCall_SendMsg_transferValues args = [0, 1, 2]"

definition SocketCall_RecvMMsg_transferValues :: transfer where
  "SocketCall_RecvMMsg_transferValues args = [0, 2, 1, 3, 4]"

definition SocketCall_SendMMsg_transferValues :: transfer where
  "SocketCall_SendMMsg_transferValues args = [0, 2, 1, 3]"

definition SocketCallSockOptBase_transferValues :: transfer where
  "SocketCallSockOptBase_transferValues args = [0, 1, 2, 4, 3]"

definition socketcall_classes :: "sock_lookup \<Rightarrow> rights_parser \<Rightarrow> (string \<times> call_class) list" where
  "socketcall_classes sock rights = [
     (''SocketCall_Socket'', SocketCallBase socket_items SocketCall_Socket_transferValues [] SocketSystemCall),
     (''SocketCall_SocketPair'',
        SocketCallBase socket_items SocketCall_SocketPair_transferValues [] SocketPairSystemCall),
     (''SocketCall_Bind'', SocketCallBase (address_in 2) SocketCall_Bind_transferValues [] BindSystemCall),
     (''SocketCall_Connect'', SocketCallBase (address_in 2) SocketCall_Connect_transferValues [] ConnectSystemCall),
     (''SocketCall_Listen'', SocketCallBase socket_items SocketCall_Listen_transferValues [] ListenSystemCall),
     (''SocketCall_Accept'', SocketCallBase (address_out 2) SocketCall_Accept_transferValues [accept_flags_item]
        (AcceptSystemCall sock)),
     (''SocketCall_Shutdown'', SocketCallBase socket_items SocketCall_Shutdown_transferValues [] ShutdownSystemCall),
     (''SocketCall_GetSockName'',
        SocketCallBase (address_out 2) SocketCall_GetSockName_transferValues [] GetNameSystemCall),
     (''SocketCall_GetPeerName'',
        SocketCallBase (address_out 2) SocketCall_GetPeerName_transferValues [] GetNameSystemCall),
     (''SocketCall_Recv'', SocketCallBase socket_items SocketCall_Recv_transferValues [] RecvSystemCall),
     (''SocketCall_RecvFrom'',
        SocketCallBase (address_out 5) SocketCall_RecvFrom_transferValues [] RecvFromSystemCall),
     (''SocketCall_Send'', SocketCallBase socket_items SocketCall_Send_transferValues [] SendSystemCall),
     (''SocketCall_SendTo'', SocketCallBase (address_in 5) SocketCall_SendTo_transferValues [] SendToSystemCall),
     (''SocketCall_RecvMsg'',
        SocketCallBase message_items SocketCall_RecvMsg_transferValues [] (RecvMsgSystemCall rights)),
     (''SocketCall_SendMsg'', SocketCallBase message_items SocketCall_SendMsg_transferValues [] SendMsgSystemCall),
     (''SocketCall_RecvMMsg'', SocketCallBase message_items SocketCall_RecvMMsg_transferValues [] RecvMMsgSystemCall),
     (''SocketCall_SendMMsg'', SocketCallBase message_items SocketCall_SendMMsg_transferValues [] SendMMsgSystemCall)]"

text \<open>\<open>SocketCallSockOptBase\<close> for every kind of option value; the table is that of the direct class.\<close>

definition sockopt_tables :: "bool \<Rightarrow> (string \<times> method_table) list" where
  "sockopt_tables get = map (\<lambda>(kind, _). (kind, sockopt_items)) (if get then get_optvals else set_optvals) @
     map (\<lambda>(kind, _). (kind, sockopt_deref_items)) (if get then get_struct_optvals else set_struct_optvals)"

definition socketcall_sockopt_classes :: "bool \<Rightarrow> (string \<times> call_class) list" where
  "socketcall_sockopt_classes get = map2 (\<lambda>(kind, tbl) (_, c).
     (kind, SocketCallBase tbl SocketCallSockOptBase_transferValues [] c)) (sockopt_tables get) (sockopt_classes get)"

section \<open>The factory\<close>

abbreviation (input) CALL_SETSOCKOPT :: int where "CALL_SETSOCKOPT \<equiv> 14"
abbreviation (input) CALL_GETSOCKOPT :: int where "CALL_GETSOCKOPT \<equiv> 15"

definition fetch_opt_level_and_name :: "tview \<Rightarrow> sysinfo \<Rightarrow> int \<Rightarrow> exn + int \<times> int" where
  "fetch_opt_level_and_name tv info sub_call =
     (case fetchArgs tv (si_abi info) sub_call (entry_args info ! 1) of
        None \<Rightarrow> Inl (Undefined ''endless loop'')
      | Some (Inl e) \<Rightarrow> Inl e
      | Some (Inr args) \<Rightarrow> Inr (as_int (field_ptr 0 8 (args ! 1)), as_int (field_ptr 0 8 (args ! 2))))"

text \<open>\<open>GETSOCKOPT\<close> is what both factory functions pass for the sub-call.\<close>

definition create_socket_call_sockopt :: "int \<Rightarrow> bool \<Rightarrow> tview \<Rightarrow> sysinfo \<Rightarrow> exn + string" where
  "create_socket_call_sockopt rights_notrunc get tv info = map_sum id (\<lambda>(optlevel, optname).
     create_for_level rights_notrunc get True optlevel optname)
     (fetch_opt_level_and_name tv info CALL_GETSOCKOPT)"

definition socket_call_cases :: "(int \<times> string) list" where
  "socket_call_cases = [(1, ''SocketCall_Socket''), (8, ''SocketCall_SocketPair''), (2, ''SocketCall_Bind''),
     (3, ''SocketCall_Connect''), (4, ''SocketCall_Listen''), (5, ''SocketCall_Accept''), (18, ''SocketCall_Accept''),
     (13, ''SocketCall_Shutdown''), (6, ''SocketCall_GetSockName''), (7, ''SocketCall_GetPeerName''),
     (10, ''SocketCall_Recv''), (12, ''SocketCall_RecvFrom''), (9, ''SocketCall_Send''), (11, ''SocketCall_SendTo''),
     (17, ''SocketCall_RecvMsg''), (16, ''SocketCall_SendMsg''), (19, ''SocketCall_RecvMMsg''),
     (20, ''SocketCall_SendMMsg'')]"

definition create_socket_call_syscall :: "int \<Rightarrow> tview \<Rightarrow> sysinfo \<Rightarrow> exn + string" where
  "create_socket_call_syscall rights_notrunc tv info =
     (let subcall = as_int (entry_args info ! 0) in
      case map_of socket_call_cases subcall of
        Some cls \<Rightarrow> Inr cls
      | None \<Rightarrow>
          if subcall = CALL_GETSOCKOPT then create_socket_call_sockopt rights_notrunc True tv info
          else if subcall = CALL_SETSOCKOPT then create_socket_call_sockopt rights_notrunc False tv info
          else Inl (RuntimeError ''unsupported socketcall() sub-call''))"

section \<open>The family\<close>

text \<open>All classes on sockets by name; \<open>rest\<close> has the other classes.\<close>

definition named_sockopts :: "(string \<times> call_class) list" where
  "named_sockopts =
     concat (map (\<lambda>get. map (\<lambda>(kind, c). (sockopt_class_name get False kind, c)) (sockopt_classes get) @
       map (\<lambda>(kind, c). (sockopt_class_name get True kind, c)) (socketcall_sockopt_classes get)) [True, False])"

definition socket_classes :: "sock_lookup \<Rightarrow> rights_parser \<Rightarrow> (string \<times> call_class) list" where
  "socket_classes sock rights =
     net_classes @ net_out_classes sock rights @ socketcall_classes sock rights @ named_sockopts"

definition socket_family :: "int \<Rightarrow> sock_lookup \<Rightarrow> rights_parser \<Rightarrow> class_family \<Rightarrow> class_family" where
  "socket_family rights_notrunc sock rights rest = rest\<lparr>
     cf_class := (\<lambda>cls. case map_of (socket_classes sock rights) cls of Some c \<Rightarrow> c | None \<Rightarrow> cf_class rest cls),
     cf_multi := (\<lambda>f tv info.
       if f = ''create_socket_call_syscall'' then create_socket_call_syscall rights_notrunc tv info
       else if f = ''create_getsockopt_syscall'' then Inr (create_getsockopt_syscall rights_notrunc info)
       else if f = ''create_setsockopt_syscall'' then Inr (create_setsockopt_syscall rights_notrunc info)
       else cf_multi rest f tv info)\<rparr>"

end
