(* ===== verification/Sockopt_Safe.thy ===== *)
theory Sockopt_Safe
  imports Net_Safe Call_Socketcall
begin

text \<open>
  The option values and the classes on socket options: which of them are defined for every tracee.
\<close>

section \<open>The items\<close>

lemma sound_GetSockOptVal:
  assumes "ok \<Longrightarrow> view_ok tv"
  shows "sound ok (item_is sg v) (GetSockOptVal_updateData w tv c)"
  unfolding GetSockOptVal_updateData_def by (intro sound_intros sound_methods assms) simp_all

lemma sound_fetch_plain: "(ok \<Longrightarrow> view_ok tv) \<Longrightarrow> sound ok (item_is sg v) (fetch_plain n tv)"
  unfolding fetch_plain_def by (intro sound_intros)

lemma sound_fetch_wrapped:
  "(ok \<Longrightarrow> view_ok tv) \<Longrightarrow> (raw, T) \<in> set wrapped_types \<Longrightarrow> sound ok (item_is sg v) (fetch_wrapped raw T tv)"
  unfolding fetch_wrapped_def by (intro sound_intros) simp_all

lemma sound_SetSockOptStruct:
  "sound ok (item_is sg v) (fetch tv) \<Longrightarrow> sound ok (item_is sg v) (SetSockOptStruct_processData sz fetch tv c)"
  unfolding SetSockOptStruct_processData_def by (intro sound_intros) simp_all

lemma sound_Linger:
  assumes "ok \<Longrightarrow> view_ok tv"
  shows "sound ok (item_is sg v) (LingerSockOptBase_fetch tv n)"
    and "sound ok (item_is sg v) (SetLingerSockOpt_processData tv c)"
proof -
  show *: "sound ok (item_is sg v) (LingerSockOptBase_fetch tv n)" for n
    unfolding LingerSockOptBase_fetch_def
    by (intro sound_intros sound_fetch_wrapped assms) (simp_all add: wrapped_types_def)
  show "sound ok (item_is sg v) (SetLingerSockOpt_processData tv c)"
    unfolding SetLingerSockOpt_processData_def by (rule *)
qed

lemma sound_OldTimeVal:
  assumes "ok \<Longrightarrow> view_ok tv"
  shows "sound ok (item_is sg v) (sockopt_TimeVal_fetch tv c)"
    and "sound ok (item_is sg v) (SetOldTimeValSockOpt_processData tv c)"
  unfolding SetOldTimeValSockOpt_processData_def sockopt_TimeVal_fetch_def
  by (intro sound_intros assms; simp)+

lemmas sound_sockopt = sound_GetSockOptVal sound_SetSockOptStruct sound_fetch_plain sound_fetch_wrapped
  sound_Linger sound_OldTimeVal

lemma sound_FilterProg_fetchFilters: "sound False (item_is sg v) (FilterProg_fetchFilters tv)"
  unfolding FilterProg_fetchFilters_def by (auto intro!: sound_intros)

lemma sound_deref:
  assumes "(raw, T) \<in> set wrapped_types"
  shows "sound False (item_is sg v) (GetSockOptStruct_processData tv c)"
    and "sound False (item_is sg v) (GetSockOptStruct_updateData sz (fetch_plain n) tv c)"
    and "sound False (item_is sg v) (GetSockOptStruct_updateData sz (fetch_wrapped raw T) tv c)"
    and "sound False (item_is sg v) (ClassicBPFSockOpt_processData tv c)"
    and "sound False (item_is sg v) (GetFilterSocktOpt_processData tv c)"
    and "sound False (item_is sg v) (GetFilterSocktOpt_updateData tv c)"
    and "sound False (item_is sg v) (GetLingerSockOpt_updateData tv c)"
    and "sound False (item_is sg v) (GetOldTimeValSockOpt_updateData tv c)"
    and "sound False (item_is sg v) (GetMemInfoSockOpt_processData tv c)"
    and "sound False (item_is sg v) (GetMemInfoSockOpt_updateData tv c)"
    and "sound False (item_is sg v) (SetTimestampingSockOpt_processData tv c)"
  unfolding GetSockOptStruct_processData_def GetSockOptStruct_updateData_def ClassicBPFSockOpt_processData_def
    GetFilterSocktOpt_processData_def GetFilterSocktOpt_updateData_def GetLingerSockOpt_updateData_def
    GetOldTimeValSockOpt_updateData_def GetMemInfoSockOpt_processData_def GetMemInfoSockOpt_updateData_def
    SetTimestampingSockOpt_processData_def Let_def
  by (intro sound_intros sound_sockopt sound_FilterProg sound_FilterProg_fetchFilters assms;
      simp add: wrapped_types_def)+

interpretation sockopt_items: safe_item_methods sockopt_items
  by unfold_locales (auto simp: sockopt_items_def set_struct_def wrapped_types_def
      intro!: sound_sockopt sound_methods sound_intros)

interpretation sockopt_deref_items: item_methods sockopt_deref_items
  by unfold_locales (auto simp: sockopt_deref_items_def set_struct_def get_struct_def wrapped_types_def
      intro!: sound_deref)

section \<open>The classes that are defined for every tracee\<close>

lemma safe_renumbered: "safe_class c 6 \<Longrightarrow> cc_prepare c = skipE \<Longrightarrow> cc_2nd c = (\<lambda>_. ret False) \<Longrightarrow>
    cc_post c = (\<lambda>_. skipE) \<Longrightarrow> safe_class (c\<lparr>cc_nr := f\<rparr>) 6"
  by (rule safe_class_upd) (simp_all add: no_2nd no_prepare safe_skip safe_class.fdtrack)

lemma safe_set: "safe_class (SetSockOptSystemCall sockopt_items optval) 6"
  unfolding SetSockOptSystemCall_def
  by (rule safe_renumbered [OF sockopt_items.safe_own]) (simp_all add: sockopt_pars_def)

lemma GetSockOpt_defined:
  "kind \<noteq> ''FileDesc'' \<Longrightarrow> GetSockOpt_updateFDTracking kind s fds = (Inl e, fds') \<Longrightarrow> \<not> is_undefined e"
  by (auto simp: GetSockOpt_updateFDTracking_def prog_defs split: if_splits)

lemma safe_get: "kind \<noteq> ''FileDesc'' \<Longrightarrow> safe_class (GetSockOptSystemCall sockopt_items kind optval) 6"
  unfolding GetSockOptSystemCall_def
  by (rule safe_class_upd [OF sockopt_items.safe_own [of "sockopt_pars optval (item_of (K_ScalarInOut 4) PARAM_IN_OUT ''optlen'')"]])
    (auto simp: sockopt_pars_def no_2nd no_prepare safe_skip dest: GetSockOpt_defined)

end
