(* ===== verification/Net_Props.thy ===== *)
theory Net_Props
  imports Sockopt_Safe Call_Props
begin

text \<open>
  The system calls on sockets: the classes that are defined for every tracee, what accept(2) records of
  the new socket and what is lost of a socket pair.
\<close>

section \<open>No undefined behaviour\<close>

definition defined_socket_classes :: "(string \<times> call_class) list" where
  "defined_socket_classes = net_classes @
     map (\<lambda>(kind, i). (kind, GetSockOptSystemCall sockopt_items kind i)) (filter (\<lambda>(kind, i). kind \<noteq> ''FileDesc'') get_optvals) @
     map (\<lambda>(kind, i). (kind, SetSockOptSystemCall sockopt_items i)) set_optvals"

lemma defined_socket_class_safe: "(cls, c) \<in> set defined_socket_classes \<Longrightarrow> safe_class c 6"
  by (auto simp: defined_socket_classes_def intro: net_classes_safe safe_get safe_set)



section \<open>Accepted sockets\<close>

lemma make_socket_info_fields [simp]:
  "fi_fd (make_socket_info fd flags d t) = fd" "fi_type (make_socket_info fd flags d t) = SOCKET"
  "fi_sock_domain (make_socket_info fd flags d t) = d" "fi_sock_type (make_socket_info fd flags d t) = t"
  by (simp_all add: make_socket_info_def creation_flags_def flag_set_def FDInfo_def Let_def)

lemma added_socket:
  "add_socket_info sock tv (make_socket_info fd flags d t) = Inr i \<Longrightarrow>
     fi_fd i = fd \<and> fi_type i = SOCKET \<and> sock tv fd = Inr (fi_sock_domain i, fi_sock_type i)"
  by (cases "sock tv fd") (auto simp: add_socket_info_def split: prod.splits)

lemma accept_cases:
  assumes "Accept_updateFDTracking sock tv s fds = (Inr (), fds')"
  shows "(\<exists>l. smap_find fds (par_int s 0) = Some l \<and> fi_sock_domain l \<noteq> None \<and> fi_sock_type l \<noteq> None \<and>
        fds' = trackFD (make_socket_info (ret_fd s) (accept_flags s) (fi_sock_domain l) (fi_sock_type l)) fds) \<or>
    (\<exists>l i. smap_find fds (par_int s 0) = Some l \<and> \<not> (fi_sock_domain l \<noteq> None \<and> fi_sock_type l \<noteq> None) \<and>
        fi_fd i = ret_fd s \<and> fi_type i = SOCKET \<and> sock tv (ret_fd s) = Inr (fi_sock_domain i, fi_sock_type i) \<and>
        fds' = trackFD i (updateFD (l\<lparr>fi_sock_domain := fi_sock_domain i, fi_sock_type := fi_sock_type i\<rparr>) fds)) \<or>
    (\<exists>i. smap_find fds (par_int s 0) = None \<and>
        fi_fd i = ret_fd s \<and> fi_type i = SOCKET \<and> sock tv (ret_fd s) = Inr (fi_sock_domain i, fi_sock_type i) \<and>
        fds' = trackFD i fds)"
proof (cases "smap_find fds (par_int s 0)")
  case None
  then obtain i where i: "add_socket_info sock tv (make_socket_info (ret_fd s) (accept_flags s) None None) = Inr i"
    "fds' = trackFD i fds"
    using assms by (auto simp: Accept_updateFDTracking_def track_def prog_defs split: sum.splits)
  with added_socket [OF i(1)] None show ?thesis by blast
next
  case (Some l)
  let ?new = "make_socket_info (ret_fd s) (accept_flags s) (fi_sock_domain l) (fi_sock_type l)"
  show ?thesis
  proof (cases "fi_sock_domain l = None \<or> fi_sock_type l = None")
    case False
    with assms Some show ?thesis by (simp add: Accept_updateFDTracking_def track_def prog_defs)
  next
    case True
    obtain i where i: "add_socket_info sock tv ?new = Inr i"
      "fds' = trackFD i (updateFD (l\<lparr>fi_sock_domain := fi_sock_domain i, fi_sock_type := fi_sock_type i\<rparr>) fds)"
      using assms Some True by (auto simp: Accept_updateFDTracking_def track_def prog_defs split: sum.splits)
    with added_socket [OF i(1)] Some True show ?thesis by blast
  qed
qed

text \<open>C33: a socket that accept(2) returns is tracked with the domain and the type of the listening socket,
  if the tracer knows both, and otherwise with what the tracee's descriptor itself reports; no
  descriptor other than the new one and the listening one changes, and the listening one only by
  learning its domain and type.\<close>

theorem accept_tracks_new_socket:
  assumes "Accept_updateFDTracking sock tv s fds = (Inr (), fds')" "fd_map_ok fds"
    and "ret_fd s \<noteq> FD_INVALID" "smap_find fds (ret_fd s) = None" "lfd = par_int s 0"
  shows "\<exists>i. smap_find fds' (ret_fd s) = Some i \<and> fi_type i = SOCKET \<and>
      (case smap_find fds lfd of
         Some l \<Rightarrow> (if fi_sock_domain l \<noteq> None \<and> fi_sock_type l \<noteq> None
            then (fi_sock_domain i, fi_sock_type i) = (fi_sock_domain l, fi_sock_type l)
            else sock tv (ret_fd s) = Inr (fi_sock_domain i, fi_sock_type i))
       | None \<Rightarrow> sock tv (ret_fd s) = Inr (fi_sock_domain i, fi_sock_type i)) \<and>
      (\<forall>fd. fd \<noteq> ret_fd s \<longrightarrow> smap_find fds' fd = (case smap_find fds fd of None \<Rightarrow> None | Some l \<Rightarrow>
         Some (if fd = lfd \<and> (fi_sock_domain l = None \<or> fi_sock_type l = None)
           then l\<lparr>fi_sock_domain := fi_sock_domain i, fi_sock_type := fi_sock_type i\<rparr> else l)))"
proof -
  have key: "smap_find fds k = Some l \<Longrightarrow> fi_fd l = k" for k l
    using assms(2) by (auto simp: fd_map_ok_def fd_entry_ok_def dest: smap.all_entriesD)
  from accept_cases [OF assms(1)] show ?thesis
  proof (elim disjE exE conjE, goal_cases)
    case (1 l)
    then show ?case using assms(3-5) by (auto simp: trackFD_find split: option.split)
  next
    case (2 l i)
    then have "smap_find fds' fd = (if fd = ret_fd s then Some i
        else if fd = lfd then Some (l\<lparr>fi_sock_domain := fi_sock_domain i, fi_sock_type := fi_sock_type i\<rparr>)
        else smap_find fds fd)" for fd
      using assms(3-5) key [of "par_int s 0" l] by (simp add: trackFD_find updateFD_find)
    then show ?case using 2 assms(4,5) by (intro exI [of _ i]) (auto split: option.split)
  next
    case (3 i)
    then show ?case using assms(3-5) by (auto simp: trackFD_find split: option.split)
  qed
qed

definition demo_listener :: fd_info where
  "demo_listener = make_socket_info 0 0 (Some 2) (Some 1)"

theorem accept_tracks_new_socket_witness:
  "\<exists>i. smap_find (snd (Accept_updateFDTracking (\<lambda>_ _. Inr (None, None)) demo_view
      ((demo_call ListenSystemCall)\<lparr>sc_return := 7\<rparr>) [(0, demo_listener)])) 7 = Some i \<and>
     fi_type i = SOCKET \<and> fi_sock_domain i = Some 2"
proof -
  let ?s = "(demo_call ListenSystemCall)\<lparr>sc_return := 7\<rparr>" and ?sock = "\<lambda>_ _. Inr (None, None)"
  have s: "par_int ?s 0 = 0" "ret_fd ?s = 7"
    by (simp_all add: par_int_def ret_fd_def demo_call_def ListenSystemCall_def sockfd_item_def val_def item_of_def
        new_item_def as_int_def)
  have fds: "fd_map_ok [(0, demo_listener)]" "smap_find [(0 :: int, demo_listener)] 0 = Some demo_listener"
    "smap_find [(0 :: int, demo_listener)] 7 = None"
    by (auto simp: fd_map_ok_def smap_wf_def smap.all_entries_def smap_find_def fd_entry_ok_def demo_listener_def
        split: if_splits)
  have listener: "fi_sock_domain demo_listener = Some 2" "fi_sock_type demo_listener = Some 1"
    by (simp_all add: demo_listener_def)
  obtain fds' where "Accept_updateFDTracking ?sock demo_view ?s [(0, demo_listener)] = (Inr (), fds')"
    using s fds(2) listener by (simp add: Accept_updateFDTracking_def track_def prog_defs)
  with accept_tracks_new_socket [OF this fds(1), of 0] show ?thesis
    using s fds listener by auto
qed

section \<open>Socket pairs\<close>

lemma word_items_4: "word_items 4 w = [bytes_nat (take 4 (word_bytes w)), bytes_nat (drop 4 (word_bytes w))]"
  by (simp add: word_items_def upt_rec)

lemma field_int_bytes: "n < 2 ^ 31 \<Longrightarrow> field_int 0 (nat_bytes 4 n @ bs) = int n"
  "n < 2 ^ 31 \<Longrightarrow> length xs = 4 \<Longrightarrow> field_int 4 (xs @ nat_bytes 4 n) = int n"
  by (simp_all add: field_int_def field_def bytes_nat_bytes signed_of_nat signed_take_bit_int_eq_self)

lemma length_no_id [simp]: "length no_id = 4"
  by (simp add: no_id_def)

lemma field_int_none: "field_int 0 (no_id @ bs) = FD_INVALID" "length xs = 4 \<Longrightarrow> field_int 4 (xs @ no_id) = FD_INVALID"
proof -
  have bytes: "no_id = [0xFF, 0xFF, 0xFF, 0xFF]" by (simp add: no_id_def eval_nat_numeral)
  have "bytes_nat no_id = 0xFFFFFFFF" unfolding bytes by simp
  then show "field_int 0 (no_id @ bs) = FD_INVALID" "length xs = 4 \<Longrightarrow> field_int 4 (xs @ no_id) = FD_INVALID"
    by (simp_all add: field_int_def field_def)
qed

lemma readVector_pair:
  assumes "peek addr = Inr w" "word_items 4 w = [a, b]"
  shows "readVector peek 4 addr 2 True = Some (Inr (), takeWhile (\<lambda>fd. fd \<noteq> 0) [a, b])"
  using fillData_container [of peek addr "[w]" 2 True 4 "\<lparr>cf_out = [], cf_filled = 0\<rparr>"] assms
  by (cases "a = 0"; cases "b = 0") (simp_all add: readVector_def)

text \<open>After socketpair(2) exactly the descriptors in front of the first that is zero are tracked: a pair whose
  first descriptor is 0 is lost altogether, and of a pair whose second one is 0 only the first is
  tracked. The reason is that the pair is read as a sequence that ends at a zero.\<close>

theorem socketpair_tracks_until_zero:
  assumes "peek = tv_peek tv" "peek (it_val i) = Inr w" "word_items 4 w = [a, b]" "a < 2 ^ 31" "b < 2 ^ 31"
    and "hasResultValue c" "SocketPair_processData tv c' i0 = (r0, i)" "SocketPair_updateData tv c i = (r, i')"
    and "sc_pars s ! 3 = i'" "SocketPair_updateFDTracking s fds = (q, fds')"
  shows "tracked fds' = tracked fds \<union> int ` set (takeWhile (\<lambda>fd. fd \<noteq> 0) [a, b])"
proof -
  have i: "it_data i = Some (no_id @ no_id)" using assms(7) by (auto simp: SocketPair_processData_def prog_defs)
  let ?out = "takeWhile (\<lambda>fd. fd \<noteq> 0) [a, b]"
  have "SocketPair_updateData tv c i = (Inr (), i\<lparr>it_data := Some (concat (map (nat_bytes 4) ?out) @
      drop (4 * length ?out) (no_id @ no_id)), it_more := [[]]\<rparr>)"
    using readVector_pair [of peek "it_val i" w a b] assms(2,3) i assms(1,6) by (simp add: SocketPair_updateData_def prog_defs vec_def)
  then have "SocketPair_pair i' = [if a = 0 then FD_INVALID else int a, if a = 0 \<or> b = 0 then FD_INVALID else int b]"
    using assms(4,5,8) by (auto simp: SocketPair_pair_def vec_def field_int_bytes field_int_none no_id_def [symmetric])
  moreover have "fds' = fold (\<lambda>fd. trackFD (created_socket s fd)) (SocketPair_pair i') fds"
    using assms(9,10) forE_track [of _ "created_socket s"] by (simp add: SocketPair_updateFDTracking_def)
  ultimately show ?thesis by (auto simp: tracked_simps created_socket_def)
qed

text \<open>The pair 0 and 5: neither of them is tracked.\<close>

theorem socketpair_tracks_until_zero_witness:
  "\<exists>i' s fds'. SocketPair_updateData (demo_view\<lparr>tv_peek := (\<lambda>_. Inr 0x500000000)\<rparr>)
       ((demo_call ListenSystemCall)\<lparr>sc_error := None\<rparr>)
       ((new_item PARAM_OUT ''sv'')\<lparr>it_data := Some (no_id @ no_id)\<rparr>) = (Inr (), i') \<and>
     sc_pars s ! 3 = i' \<and> SocketPair_updateFDTracking s [] = (Inr (), fds') \<and> tracked fds' = {}"
proof -
  let ?tv = "demo_view\<lparr>tv_peek := (\<lambda>_. Inr 0x500000000)\<rparr>" and ?c = "(demo_call ListenSystemCall)\<lparr>sc_error := None\<rparr>"
  let ?i = "(new_item PARAM_OUT ''sv'')\<lparr>it_data := Some (no_id @ no_id)\<rparr>"
  have "word_bytes 0x500000000 = [0, 0, 0, 0, 5, 0, 0, 0]" by code_simp
  then have w: "word_items 4 0x500000000 = [0, 5]" by (simp add: word_items_4)
  have c: "hasResultValue ?c" by (simp add: hasResultValue_def)
  obtain i' where up: "SocketPair_updateData ?tv ?c ?i = (Inr (), i')"
    using readVector_pair [of "tv_peek ?tv" 0 "0x500000000" 0 5] w c
    by (simp add: SocketPair_updateData_def prog_defs new_item_def)
  define s where "s = ?c\<lparr>sc_pars := replicate 4 i'\<rparr>"
  obtain q fds' where track: "SocketPair_updateFDTracking s [] = (q, fds')" by fastforce
  then have "q = Inr ()" by (simp add: SocketPair_updateFDTracking_def forE_track)
  moreover have "tracked fds' = {}"
    using socketpair_tracks_until_zero [OF refl _ w _ _ c _ up _ track, where ?c' = ?c and ?i0.0 = ?i and ?r0.0 = "Inr ()"]
    by (simp add: s_def SocketPair_processData_def prog_defs new_item_def tracked_def)
  ultimately show ?thesis using up track by (intro exI [of _ i'] exI [of _ s] exI [of _ fds']) (simp add: s_def)
qed

end
