(* ===== verification/Socketcall_Equiv.thy ===== *)
theory Socketcall_Equiv
  imports Sockopt_Safe
begin

text \<open>
  socketcall(2) is transparent: its classes read the parameters of the direct system call, and track its
  descriptors, as the direct call does.
\<close>

section \<open>What a method sees of its call\<close>

definition view_of :: "syscall \<Rightarrow> abi \<times> bool \<times> errno_result option \<times> word64 \<times> item list" where
  "view_of c = (sc_abi c, entering c, sc_error c, sc_return c, sc_pars c)"

lemma view_simps:
  assumes "view_of c = view_of d"
  shows "hasResultValue c = hasResultValue d" "sc_hasErrorCode c = sc_hasErrorCode d"
    "is32BitEmulationABI a c = is32BitEmulationABI a d" "usesTime32 a c = usesTime32 a d"
    "ref_size c = ref_size d" "entering c = entering d" "sc_pars c = sc_pars d" "sc_return c = sc_return d"
    "sc_abi c = sc_abi d" "sc_error c = sc_error d"
  using assms by (simp_all add: view_of_def hasResultValue_def sc_hasErrorCode_def is32BitEmulationABI_def
      usesTime32_def ref_size_def fun_eq_iff split: item_ref.split)

text \<open>The classes of items without a table that occur in these calls.\<close>

definition plain_kind :: "item_kind \<Rightarrow> bool" where
  "plain_kind k \<longleftrightarrow> (case k of K_Value _ \<Rightarrow> True | K_Scalar _ \<Rightarrow> True | K_ScalarInOut _ \<Rightarrow> True
     | K_Buffer _ \<Rightarrow> True | K_StringBuffer _ \<Rightarrow> True | _ \<Rightarrow> False)"

lemma availableBytes_view: "view_of c = view_of d \<Longrightarrow> availableBytes c = availableBytes d"
  unfolding fun_eq_iff availableBytes_def by (simp only: view_simps [of c d] simp_thms)

lemma BufferPointer_view:
  assumes "view_of c = view_of d"
  shows "BufferPointer_processData tv c r = BufferPointer_processData tv d r"
    "BufferPointer_updateData tv c r = BufferPointer_updateData tv d r"
    "BufferPointer_fetchRemainingData tv c r = BufferPointer_fetchRemainingData tv d r"
  unfolding BufferPointer_processData_def BufferPointer_updateData_def fillBuffer_def
    BufferPointer_fetchRemainingData_def availableBytes_view [OF assms] view_simps [OF assms]
  by (rule refl)+

lemma String_view:
  assumes "view_of c = view_of d"
  shows "StringData_updateData tv c = StringData_updateData tv d"
    "StringBuffer_updateData tv c r = StringBuffer_updateData tv d r"
  unfolding StringData_updateData_def StringBuffer_updateData_def view_simps [OF assms] by (rule refl)+

lemma process_view:
  assumes "view_of c = view_of d" "plain_kind k"
  shows "process_kind tv c k = process_kind tv d k"
  using assms(2) by (cases k) (simp_all add: plain_kind_def BufferPointer_view [OF assms(1)])

lemma update_view:
  assumes "view_of c = view_of d" "plain_kind k"
  shows "update_kind tv c k = update_kind tv d k"
  using assms(2)
  by (cases k) (simp_all add: plain_kind_def BufferPointer_view [OF assms(1)] String_view [OF assms(1)])

locale view_methods = item_methods tbl for tbl :: method_table +
  assumes view: "(cls, m) \<in> set tbl \<Longrightarrow> view_of c = view_of d \<Longrightarrow> fst m tv c = fst m tv d \<and> snd m tv c = snd m tv d"
begin

lemma own_view:
  assumes "view_of c = view_of d" "plain_kind (it_kind i)"
  shows "own_process tbl tv c i = own_process tbl tv d i \<and> own_update tbl tv c i = own_update tbl tv d i"
proof (cases "own_methods tbl i")
  case None
  then show ?thesis using process_view [OF assms] update_view [OF assms]
    by (simp add: own_process_def own_update_def processData_def updateData_def prog_defs)
next
  case (Some m)
  then obtain cls where "(cls, m) \<in> set tbl" using own_Some by blast
  with view [OF this assms(1)] Some show ?thesis by (simp add: own_process_def own_update_def prog_defs)
qed

end

section \<open>The tables\<close>

lemma SocketAddress_view:
  assumes "view_of c = view_of d"
  shows "SocketAddress_processData b k tv c = SocketAddress_processData b k tv d"
  unfolding SocketAddress_processData_def SocketAddress_addrLen_def view_simps [OF assms] by (rule refl)

lemma AddressLength_view:
  assumes "view_of c = view_of d"
  shows "AddressLengthPointer_processData tv c = AddressLengthPointer_processData tv d"
    "AddressLengthPointer_updateData tv c = AddressLengthPointer_updateData tv d"
    "SocketPair_processData tv c = SocketPair_processData tv d" "SocketPair_updateData tv c = SocketPair_updateData tv d"
  unfolding AddressLengthPointer_processData_def AddressLengthPointer_updateData_def SocketPair_processData_def
    SocketPair_updateData_def view_simps [OF assms]
  by (rule refl)+

interpretation socket_items: view_methods socket_items
  by unfold_locales (auto simp: socket_items_def intro: AddressLength_view)

interpretation address_in: view_methods "address_in k" for k
  by unfold_locales (auto simp: address_in_def intro: SocketAddress_view)

interpretation address_out: view_methods "address_out k" for k
  by unfold_locales (auto simp: address_out_def intro: AddressLength_view SocketAddress_view)

lemma sockopt_view:
  assumes "view_of c = view_of d"
  shows "optlen_in c = optlen_in d" "optlen_out c = optlen_out d" "the_optlen c = the_optlen d"
    "traceeStructSize a c = traceeStructSize a d" "sockopt_TimeVal_fetch tv c = sockopt_TimeVal_fetch tv d"
    "FilterProg_processData tv c = FilterProg_processData tv d"
  unfolding optlen_in_def optlen_out_def the_optlen_def traceeStructSize_def sockopt_TimeVal_fetch_def
    sockopt_needTime32Conversion_def par_int_def FilterProg_processData_def view_simps [OF assms]
  by (rule refl)+

lemma sockopt_items_view:
  assumes "view_of c = view_of d"
  shows "GetSockOptVal_updateData w tv c = GetSockOptVal_updateData w tv d"
    "SetLingerSockOpt_processData tv c = SetLingerSockOpt_processData tv d"
    "SetOldTimeValSockOpt_processData tv c = SetOldTimeValSockOpt_processData tv d"
    "SetSockOptStruct_processData sz f tv c = SetSockOptStruct_processData sz f tv d"
    "ClassicBPFSockOpt_processData tv c = ClassicBPFSockOpt_processData tv d"
    "GetFilterSocktOpt_processData tv c = GetFilterSocktOpt_processData tv d"
    "GetFilterSocktOpt_updateData tv c = GetFilterSocktOpt_updateData tv d"
    "GetLingerSockOpt_updateData tv c = GetLingerSockOpt_updateData tv d"
    "GetOldTimeValSockOpt_updateData tv c = GetOldTimeValSockOpt_updateData tv d"
    "GetSockOptStruct_processData tv c = GetSockOptStruct_processData tv d"
    "GetSockOptStruct_updateData sz f tv c = GetSockOptStruct_updateData sz f tv d"
    "GetMemInfoSockOpt_processData tv c = GetMemInfoSockOpt_processData tv d"
    "GetMemInfoSockOpt_updateData tv c = GetMemInfoSockOpt_updateData tv d"
    "SetTimestampingSockOpt_processData tv c = SetTimestampingSockOpt_processData tv d"
  unfolding GetSockOptVal_updateData_def SetLingerSockOpt_processData_def SetOldTimeValSockOpt_processData_def
    SetSockOptStruct_processData_def ClassicBPFSockOpt_processData_def GetFilterSocktOpt_processData_def
    GetFilterSocktOpt_updateData_def GetLingerSockOpt_updateData_def GetOldTimeValSockOpt_updateData_def
    GetSockOptStruct_updateData_def GetSockOptStruct_processData_def GetMemInfoSockOpt_processData_def
    GetMemInfoSockOpt_updateData_def SetTimestampingSockOpt_processData_def
    sockopt_view [OF assms] view_simps [OF assms]
  by (rule refl)+

interpretation sockopt_items: view_methods sockopt_items
  by unfold_locales (auto simp: sockopt_items_def set_struct_def intro: sockopt_items_view)

interpretation sockopt_deref_items: view_methods sockopt_deref_items
  by unfold_locales (auto simp: sockopt_deref_items_def set_struct_def get_struct_def intro: sockopt_items_view)

lemma msg_view_view: "view_of c = view_of d \<Longrightarrow> view_of (msg_view st c) = view_of (msg_view st d)"
  by (auto simp: view_of_def msg_view_def Let_def entering_def split: option.split)

lemma on_sub_view:
  assumes "view_of c = view_of d" "\<And>c d. view_of c = view_of d \<Longrightarrow> m c = m d"
  shows "on_sub mk keep m c = on_sub mk keep m d"
  using assms(2) [OF msg_view_view [OF assms(1)]] by (simp add: on_sub_def)

lemma vectors_view:
  assumes "view_of c = view_of d"
  shows "IOVectorBase_processData tv c n = IOVectorBase_processData tv d n"
    "WriteVector_processData tv c n = WriteVector_processData tv d n"
    "ReadVector_updateData tv c = ReadVector_updateData tv d"
  unfolding WriteVector_processData_def IOVectorBase_processData_def ReadVector_updateData_def view_simps [OF assms]
  by (rule refl)+

lemma sub_items_view:
  assumes "view_of c = view_of d"
  shows "on_name t tv c = on_name t tv d"
    "on_iov k t (\<lambda>c. IOVectorBase_processData tv c 1) c = on_iov k t (\<lambda>c. IOVectorBase_processData tv c 1) d"
    "on_iov k t (\<lambda>c. WriteVector_processData tv c 1) c = on_iov k t (\<lambda>c. WriteVector_processData tv c 1) d"
    "on_iov k t (ReadVector_updateData tv) c = on_iov k t (ReadVector_updateData tv) d"
    "on_control t (\<lambda>c. BufferPointer_processData tv c r) c = on_control t (\<lambda>c. BufferPointer_processData tv c r) d"
    "on_control t (\<lambda>c. BufferPointer_updateData tv c r) c = on_control t (\<lambda>c. BufferPointer_updateData tv c r) d"
    "on_control t (\<lambda>c. BufferPointer_fetchRemainingData tv c r) c =
       on_control t (\<lambda>c. BufferPointer_fetchRemainingData tv c r) d"
  unfolding on_name_def on_iov_def on_control_def
  by (rule on_sub_view [OF assms]; auto dest: SocketAddress_view vectors_view BufferPointer_view)+

lemma headers_view:
  assumes "view_of c = view_of d"
  shows "RecvMessageHeader_fillSubItems tv c = RecvMessageHeader_fillSubItems tv d"
    "RecvMessageHeader_updateSubItems tv c = RecvMessageHeader_updateSubItems tv d"
    "SendMessageHeader_fillSubItems tv c = SendMessageHeader_fillSubItems tv d"
    "SendMessageHeader_resetSubItems tv c = SendMessageHeader_resetSubItems tv d"
    "fetchMsgHdr put tv c = fetchMsgHdr put tv d" "fetchRawHeaders tv c = fetchRawHeaders tv d"
  unfolding RecvMessageHeader_fillSubItems_def RecvMessageHeader_updateSubItems_def
    SendMessageHeader_resetSubItems_def SendMessageHeader_fillSubItems_def fetchMsgHdr_def fetchRawHeaders_def
    sub_items_view [OF assms] view_simps [OF assms]
  by (rule refl)+

lemma message_items_view:
  assumes "view_of c = view_of d"
  shows "RecvMessageHeader_processData tv c = RecvMessageHeader_processData tv d"
    "RecvMessageHeader_updateData tv c = RecvMessageHeader_updateData tv d"
    "SendMessageHeader_processData tv c = SendMessageHeader_processData tv d"
    "RecvMessageHeaderVector_processData tv c = RecvMessageHeaderVector_processData tv d"
    "RecvMessageHeaderVector_updateData tv c = RecvMessageHeaderVector_updateData tv d"
    "SendMessageHeaderVector_processData tv c = SendMessageHeaderVector_processData tv d"
    "SendMessageHeaderVector_updateData tv c = SendMessageHeaderVector_updateData tv d"
  unfolding RecvMessageHeader_processData_def RecvMessageHeader_updateData_def SendMessageHeader_processData_def
    RecvMessageHeaderVector_processData_def RecvMessageHeaderVector_updateData_def
    SendMessageHeaderVector_processData_def SendMessageHeaderVector_updateData_def
    RecvMultiMessageHeader_setOutHeader_def RecvMessageHeader_resetSubItems_def
    MessageHeaderVector_processData_def MessageHeaderVector_updateData_def headers_view [OF assms]
  by (rule refl)+

interpretation message_items: view_methods message_items
  by unfold_locales (auto simp: message_items_def intro: message_items_view)

end
