(* ===== verification/Socketcall_Sim.thy ===== *)
theory Socketcall_Sim
  imports Socketcall_Equiv
begin

text \<open>
  The simulation between an object of a socketcall(2) class and one of the class it is derived from.
\<close>

section \<open>Simulation\<close>

definition like :: "nat \<Rightarrow> syscall \<Rightarrow> syscall \<Rightarrow> bool" where
  "like k s d \<longleftrightarrow> view_of (base_view s) = view_of d \<and> length (sc_pars d) = k \<and>
     (\<forall>i\<in>set (sc_pars d). plain_kind (it_kind i))"

definition sims :: "nat \<Rightarrow> (syscall, 'a) prog \<Rightarrow> (syscall, 'a) prog \<Rightarrow> bool" where
  "sims k m n \<longleftrightarrow> (\<forall>s d. like k s d \<longrightarrow>
     fst (m s) = fst (n d) \<and> like k (snd (m s)) (snd (n d)) \<and> sc_pars (snd (m s)) = sc_pars s)"

named_theorems sims_intros \<open>simulation, one rule per combinator\<close>

lemma simsI:
  "(\<And>s d. like k s d \<Longrightarrow> fst (m s) = fst (n d) \<and> like k (snd (m s)) (snd (n d)) \<and> sc_pars (snd (m s)) = sc_pars s) \<Longrightarrow>
     sims k m n"
  by (simp add: sims_def)

lemma simsD:
  "sims k m n \<Longrightarrow> like k s d \<Longrightarrow> m s = (r, s') \<Longrightarrow> n d = (q, d') \<Longrightarrow> q = r \<and> like k s' d' \<and> sc_pars s' = sc_pars s"
  unfolding sims_def by (metis fst_conv snd_conv)

lemma sims_skip [sims_intros]: "sims k skipE skipE"
  by (simp add: sims_def prog_defs)

lemma sims_bind [sims_intros]:
  assumes "sims k m n" "\<And>x. sims k (f x) (g x)"
  shows "sims k (bindE m f) (bindE n g)"
proof (rule simsI)
  fix s d assume l: "like k s d"
  obtain r s1 q d1 where run: "m s = (r, s1)" "n d = (q, d1)" by fastforce
  with simsD [OF assms(1) l run] assms(2)
  show "fst (bindE m f s) = fst (bindE n g d) \<and> like k (snd (bindE m f s)) (snd (bindE n g d)) \<and>
      sc_pars (snd (bindE m f s)) = sc_pars s"
    by (cases r) (auto simp: bindE_def sims_def)
qed

lemma sims_seq [sims_intros]: "sims k m n \<Longrightarrow> sims k m' n' \<Longrightarrow> sims k (seqE m m') (seqE n n')"
  unfolding seqE_def by (rule sims_bind)

lemma sims_for: "(\<And>x. x \<in> set xs \<Longrightarrow> sims k (f x) (g x)) \<Longrightarrow> sims k (forE xs f) (forE xs g)"
  by (induction xs) (auto intro!: sims_intros)

section \<open>The order of fills and updates\<close>

definition fill_order :: "item list \<Rightarrow> nat list" where
  "fill_order ps = filter (\<lambda>n. \<not> it_defer (ps ! n)) [0..<length ps] @ filter (\<lambda>n. it_defer (ps ! n)) [0..<length ps]"

context call_contract
begin

lemma update_sig: "map par_sig (sc_pars (snd (cc_update c tv n s))) = map par_sig (sc_pars s)"
  using update_frame [of s tv n] by (simp add: call_frame_def)

lemma update_loop_order:
  assumes "set ns \<subseteq> {..<length (sc_pars s)}"
  shows "update_loop c tv ns ds s =
    (case forE (filter (\<lambda>n. needsUpdate (sc_pars s ! n) \<and> \<not> it_defer (sc_pars s ! n)) ns) (cc_update c tv) s of
       (Inl e, s') \<Rightarrow> (Inl e, s')
     | (Inr _, s') \<Rightarrow> (Inr (ds @ filter (\<lambda>n. needsUpdate (sc_pars s ! n) \<and> it_defer (sc_pars s ! n)) ns), s'))"
  using assms
proof (induction ns arbitrary: s ds)
  case Nil
  then show ?case by (simp add: prog_defs)
next
  case (Cons n ns)
  let ?i = "sc_pars s ! n"
  show ?case
  proof (cases "needsUpdate ?i \<and> \<not> it_defer ?i")
    case False
    with Cons.IH [of s "if needsUpdate ?i then ds @ [n] else ds"] Cons.prems show ?thesis
      by (auto simp: prog_defs split: prod.splits sum.splits)
  next
    case True
    obtain r t where u: "cc_update c tv n s = (r, t)" by fastforce
    have sig: "map par_sig (sc_pars t) = map par_sig (sc_pars s)" using update_sig [of tv n s] u by simp
    have len: "length (sc_pars t) = length (sc_pars s)" by (rule sig_length [OF sig])
    have same: "par_sig (sc_pars t ! j) = par_sig (sc_pars s ! j)" if "j < length (sc_pars s)" for j
      using sig that len by (metis nth_map)
    have "needsUpdate (sc_pars t ! j) = needsUpdate (sc_pars s ! j) \<and> it_defer (sc_pars t ! j) = it_defer (sc_pars s ! j)"
      if "j \<in> set ns" for j
      using same [of j] that Cons.prems by (auto simp: par_sig_def needsUpdate_def)
    then have fil: "filter (\<lambda>j. needsUpdate (sc_pars t ! j) \<and> \<not> it_defer (sc_pars t ! j)) ns =
        filter (\<lambda>j. needsUpdate (sc_pars s ! j) \<and> \<not> it_defer (sc_pars s ! j)) ns"
      "filter (\<lambda>j. needsUpdate (sc_pars t ! j) \<and> it_defer (sc_pars t ! j)) ns =
        filter (\<lambda>j. needsUpdate (sc_pars s ! j) \<and> it_defer (sc_pars s ! j)) ns"
      by (auto intro!: filter_cong)
    show ?thesis
      using True u Cons.IH [of t ds] Cons.prems len fil
      by (cases r) (simp_all add: prog_defs split: prod.split sum.split)
  qed
qed

text \<open>The two loops of \<open>setExitInfo\<close> are one sweep.\<close>

lemma updates_order:
  "bindE (bindE (askE (\<lambda>s. [0..<length (sc_pars s)])) (\<lambda>ns. update_loop c tv ns [])) (\<lambda>ds. forE ds (cc_update c tv)) s =
     forE (update_args (sc_pars s)) (cc_update c tv) s"
  unfolding update_args_def
  by (simp add: bindE_def askE_def update_loop_order [of "[0..<length (sc_pars s)]" s tv "[]"] subset_eq
      forE_append seqE_def split: prod.split sum.split)

end

lemma setExitInfo_pars_run:
  "setExitInfo_pars c tv exit info s = seqE (bindE (bindE (askE (\<lambda>s. [0..<length (sc_pars s)]))
       (\<lambda>ns. update_loop c tv ns [])) (\<lambda>ds. forE ds (cc_update c tv))) (cc_post c tv)
     (case exit of ExitValue v \<Rightarrow> (s\<lparr>sc_info := Some info\<rparr>)\<lparr>sc_error := None, sc_return := v\<rparr>
       | ExitError e \<Rightarrow> (s\<lparr>sc_info := Some info\<rparr>)\<lparr>sc_error := Some (ErrnoResult e), sc_return := 0\<rparr>)"
  by (simp add: setExitInfo_pars_def seq_skip_last seq_upd)

section \<open>The argument block\<close>

interpretation socketcall_items: item_methods socketcall_items
proof (unfold_locales, goal_cases)
  case (1 cls m sg v tv c)
  have "sound False (item_is sg v) (SocketCallArgs_processData tv c)"
    by (rule soundI) (auto simp: SocketCallArgs_processData_def endless_def raise_def
        split: option.splits sum.splits if_splits)
  with 1 show ?case by (auto simp: socketcall_items_def)
next
  case (2 cls m sg v tv c)
  then show ?case by (auto simp: socketcall_items_def SocketCallArgs_updateData_def intro: sound_intros)
qed

lemma socketcall_fields [simp]:
  "cc_process (SocketCallBase tbl order extra c) = (\<lambda>tv. on_par (own_process socketcall_items tv))"
  "cc_update (SocketCallBase tbl order extra c) = (\<lambda>tv. on_par (own_update socketcall_items tv))"
  "cc_prepare (SocketCallBase tbl order extra c) = cc_prepare c"
  "cc_2nd (SocketCallBase tbl order extra c) = SocketCall_check2ndPass tbl order"
  "cc_post (SocketCallBase tbl order extra c) = SocketCall_postSystemCall tbl"
  "cc_pars (SocketCallBase tbl order extra c) = (\<lambda>_. socketcall_pars)"
  "cc_members (SocketCallBase tbl order extra c) = (\<lambda>_. cc_pars c SYS_SOCKETCALL @ extra)"
  "cc_fdtrack (SocketCallBase tbl order extra c) = (\<lambda>tv s. cc_fdtrack c tv (base_view s))"
  by (simp_all add: SocketCallBase_def with_methods_def)

interpretation socketcall: call_contract "SocketCallBase tbl order extra c" for tbl order extra c
  by (rule socketcall_items.contract) simp_all

text \<open>What an object of these classes has for parameters, at all times.\<close>

definition socketcall_shape :: "syscall \<Rightarrow> bool" where
  "socketcall_shape s \<longleftrightarrow> map par_sig (sc_pars s) = map par_sig socketcall_pars"

lemma socketcall_shapeE:
  assumes "socketcall_shape s"
  obtains p q where "sc_pars s = [p, q]" "it_kind p = K_Value ''SocketCallType''" "it_kind q = K_Value ''SocketCallArgs''"
    "\<not> it_defer p" "\<not> it_defer q" "\<not> it_unused p" "\<not> it_unused q" "\<not> needsUpdate p"
proof -
  obtain p q where "sc_pars s = [p, q]"
    using assms by (auto simp: socketcall_shape_def socketcall_pars_def)
  with that [of p q] assms show ?thesis
    by (auto simp: socketcall_shape_def socketcall_pars_def par_sig_def val_def item_of_def new_item_def needsUpdate_def)
qed

lemma socketcall_first_pass:
  assumes "socketcall_shape s" "length (entry_args info) = 6"
    and "fetchArgs tv (sc_abi s) (as_int (entry_args info ! 0)) (entry_args info ! 1) = Some (Inr bs)"
  obtains p q where "fillParameters (SocketCallBase tbl order extra c) tv info s = (Inr (), s\<lparr>sc_pars := [p, q]\<rparr>)"
    "it_more q = bs" "map par_sig [p, q] = map par_sig socketcall_pars"
proof -
  obtain p q where s: "sc_pars s = [p, q]" "it_kind p = K_Value ''SocketCallType''" "it_kind q = K_Value ''SocketCallArgs''"
    "\<not> it_defer p" "\<not> it_defer q" "\<not> it_unused p" "\<not> it_unused q" "\<not> needsUpdate p"
    by (rule socketcall_shapeE [OF assms(1)])
  obtain a b where args: "entry_args info ! 0 = a" "entry_args info ! Suc 0 = b" by blast
  let ?p = "p\<lparr>it_val := a\<rparr>" and ?q = "q\<lparr>it_val := b, it_more := bs\<rparr>"
  have "fillParameters (SocketCallBase tbl order extra c) tv info s = (Inr (), s\<lparr>sc_pars := [?p, ?q]\<rparr>)"
    using assms(2,3) s args
    by (simp add: socketcall.fillParameters_order item_fill_def par_set_val_def on_par_def own_process_def
        own_methods_def socketcall_items_def processData_def SocketCallArgs_processData_def SocketCallType_call_def
        prog_defs upt_rec)
  then show thesis
    using that [of ?p ?q] assms(1) s by (simp add: socketcall_shape_def par_sig_def)
qed

section \<open>Classes derived from a direct call\<close>

locale direct_call = view_methods tbl for tbl :: method_table +
  fixes c :: call_class
  assumes methods: "cc_process c = (\<lambda>tv. on_par (own_process tbl tv))" "cc_update c = (\<lambda>tv. on_par (own_update tbl tv))"
    and hooks: "cc_prepare c = skipE" "cc_2nd c = (\<lambda>_. ret False)" "cc_post c = (\<lambda>_. skipE)"
    and track_view: "view_of s = view_of d \<Longrightarrow> cc_fdtrack c tv s = cc_fdtrack c tv d"
begin

lemma own_kind: "it_kind (snd (own_process tbl tv s i)) = it_kind i" "it_kind (snd (own_update tbl tv s i)) = it_kind i"
  using sound_snd [OF own_sig(1), of "par_sig i" "it_val i" i tv s]
    sound_snd [OF own_sig(2), of "par_sig i" "it_val i" i tv s]
  by (simp_all add: item_is_def par_sig_def)

lemma like_members: "like k s d \<Longrightarrow> sc_members s = sc_pars d"
  by (simp add: like_def view_of_def base_view_def)

lemma like_upd:
  assumes "like k s d" "it_kind i = it_kind (sc_pars d ! n)" "n < k"
  shows "like k (s\<lparr>sc_members := (sc_members s)[n := i]\<rparr>) (d\<lparr>sc_pars := (sc_pars d)[n := i]\<rparr>)"
proof -
  have "plain_kind (it_kind i)" using assms by (simp add: like_def)
  then show ?thesis using assms
    by (auto simp: like_def view_of_def base_view_def entering_def dest: set_update_subset_insert [THEN subsetD])
qed

lemma like_view:
  assumes "like k s d" "n < k"
  shows "view_of (item_view s (sc_members s ! n)) = view_of d \<and> plain_kind (it_kind (sc_members s ! n))"
proof -
  have "plain_kind (it_kind (sc_members s ! n))" using assms like_members [OF assms(1)] by (simp add: like_def)
  then show ?thesis using assms(1) by (auto simp: item_view_def like_def plain_kind_def)
qed

lemma sims_fill:
  assumes "n < k"
  shows "sims k (fill_base tbl tv n w) (item_fill c tv n w)"
proof (rule simsI)
  fix s d assume l: "like k s d"
  let ?i = "(sc_members s ! n)\<lparr>it_val := w\<rparr>"
  let ?s = "member_set_val n w s" and ?d = "par_set_val n w d"
  have m: "sc_members s = sc_pars d" by (rule like_members [OF l])
  have l': "like k ?s ?d" unfolding member_set_val_def par_set_val_def m [symmetric]
    by (rule like_upd [OF l, folded m]) (use assms in \<open>simp_all add: m\<close>)
  have at: "sc_members ?s ! n = ?i" "sc_pars ?d ! n = ?i"
    using assms l by (simp_all add: member_set_val_def par_set_val_def m like_def)
  obtain r i where run: "own_process tbl tv (item_view ?s ?i) ?i = (r, i)" by fastforce
  have run': "own_process tbl tv ?d ?i = (r, i)"
    using like_view [OF l' assms] own_view [of "item_view ?s ?i" ?d ?i tv] run at by simp
  have k: "it_kind i = it_kind (sc_pars ?d ! n)" using own_kind(1) [of tv ?d ?i] run' at by simp
  show "fst (fill_base tbl tv n w s) = fst (item_fill c tv n w d) \<and>
      like k (snd (fill_base tbl tv n w s)) (snd (item_fill c tv n w d)) \<and>
      sc_pars (snd (fill_base tbl tv n w s)) = sc_pars s"
    using like_upd [OF l' k assms] l' run run' at
    by (simp add: fill_base_def item_fill_def methods on_member_def on_par_def prog_defs)
      (simp add: member_set_val_def)
qed

lemma sims_update:
  assumes "n < k"
  shows "sims k (update_base tbl tv n) (cc_update c tv n)"
proof (rule simsI)
  fix s d assume l: "like k s d"
  let ?i = "sc_members s ! n"
  have m: "sc_members s = sc_pars d" by (rule like_members [OF l])
  obtain r i where run: "own_update tbl tv (item_view s ?i) ?i = (r, i)" by fastforce
  have run': "own_update tbl tv d ?i = (r, i)"
    using like_view [OF l assms] own_view [of "item_view s ?i" d ?i tv] run by simp
  have k: "it_kind i = it_kind (sc_pars d ! n)" using own_kind(2) [of tv d ?i] run' m by simp
  show "fst (update_base tbl tv n s) = fst (cc_update c tv n d) \<and>
      like k (snd (update_base tbl tv n s)) (snd (cc_update c tv n d)) \<and> sc_pars (snd (update_base tbl tv n s)) = sc_pars s"
    using like_upd [OF l k assms] run run' m
    by (simp add: update_base_def methods on_member_def on_par_def prog_defs)
qed

lemma call_contract: "call_contract c"
  by (rule contract) (rule methods)+

text \<open>The entry of the direct call: one sweep over its parameters.\<close>

lemma direct_entry:
  assumes "length (sc_pars d) \<le> length (entry_args info)"
  shows "setEntryInfo c tv info d =
    seqE (forE (fill_order (sc_pars d)) (\<lambda>n. item_fill c tv n (entry_args info ! n))) (updE (\<lambda>s. s\<lparr>sc_info := None\<rparr>))
      (d\<lparr>sc_abi := si_abi info, sc_error := Some (ErrnoResult ENODATA), sc_info := Some info\<rparr>)"
  using call_contract.fillParameters_order [OF call_contract, of
    "d\<lparr>sc_abi := si_abi info, sc_error := Some (ErrnoResult ENODATA), sc_info := Some info\<rparr>" info tv] assms
  by (simp add: setEntryInfo_def hooks fill_order_def seqE_def bindE_def updE_def skipE_def ret_def
      split: prod.split sum.split)

lemma entry_like:
  assumes "like k s d" "socketcall_shape s" "isEntry info" "isEntry info'" "si_abi info' = si_abi info"
    and "fetchArgs tv (si_abi info) (as_int (entry_args info ! 0)) (entry_args info ! 1) = Some (Inr bs)"
    and "0 < k" "k \<le> length bs" "k \<le> 6" "\<forall>n<k. field_ptr 0 8 (bs ! n) = entry_args info' ! n"
    and "order (map (field_ptr 0 8) bs) = fill_order (sc_pars d)"
    and "setEntryInfo (SocketCallBase tbl order extra c) tv info s = (r, s')" "setEntryInfo c tv info' d = (q, d')"
  shows "q = r \<and> like k s' d' \<and> socketcall_shape s'"
proof -
  let ?s0 = "s\<lparr>sc_abi := si_abi info, sc_error := Some (ErrnoResult ENODATA), sc_info := Some info\<rparr>"
  let ?d0 = "d\<lparr>sc_abi := si_abi info', sc_error := Some (ErrnoResult ENODATA), sc_info := Some info'\<rparr>"
  have "socketcall_shape ?s0" using assms(2) by (simp add: socketcall_shape_def)
  from socketcall_first_pass [OF this, of info tv bs tbl order extra c] assms(3,6)
  obtain x y where fill: "fillParameters (SocketCallBase tbl order extra c) tv info ?s0 = (Inr (), ?s0\<lparr>sc_pars := [x, y]\<rparr>)"
    and y: "it_more y = bs" "map par_sig [x, y] = map par_sig socketcall_pars" by auto
  let ?s1 = "?s0\<lparr>sc_pars := [x, y]\<rparr>"
  let ?ns = "fill_order (sc_pars d)"
  have k: "length (sc_pars d) = k" "sc_members s = sc_pars d" using assms(1) by (simp_all add: like_def like_members)
  have l: "like k ?s1 ?d0" using assms(1,3-5) by (simp add: like_def view_of_def base_view_def entering_def)
  have fb: "n < k \<Longrightarrow> fill_base tbl tv n (field_ptr 0 8 (bs ! n)) = fill_base tbl tv n (entry_args info' ! n)" for n
    using assms(10) by simp
  have ns: "set ?ns \<subseteq> {..<k}" using k by (auto simp: fill_order_def)
  define F where "F = (\<lambda>n. if n < length bs then fill_base tbl tv n (map (field_ptr 0 8) bs ! n)
        else raise (Undefined ''vector index out of range''))"
  have sim: "sims k (forE ?ns F) (forE ?ns (\<lambda>n. item_fill c tv n (entry_args info' ! n)))"
    unfolding F_def using ns assms(8) fb by (intro sims_for) (auto intro!: sims_fill simp: subset_eq dest!: spec)
  have "transferValues tbl order tv ?s1 = forE ?ns F ?s1"
    using y(1) assms(11) by (simp add: transferValues_def SocketCallArgs_args_def bindE_def askE_def F_def cong: if_cong)
  then have "SocketCall_check2ndPass tbl order tv ?s1 = seqE (forE ?ns F) (ret False) ?s1"
    using y(1) assms(7,8) by (auto simp: SocketCall_check2ndPass_def seqE_def bindE_def askE_def)
  then have first: "setEntryInfo (SocketCallBase tbl order extra c) tv info s =
      seqE (forE ?ns F) (updE (\<lambda>s. s\<lparr>sc_info := None\<rparr>)) ?s1"
    using fill by (simp add: setEntryInfo_def hooks seqE_def bindE_def updE_def skipE_def ret_def
        split: prod.split sum.split)
  have second: "setEntryInfo c tv info' d = seqE (forE ?ns (\<lambda>n. item_fill c tv n (entry_args info' ! n)))
      (updE (\<lambda>s. s\<lparr>sc_info := None\<rparr>)) ?d0"
    by (rule direct_entry) (use k assms(4,9) in simp)
  have upd: "sims k (updE (\<lambda>s. s\<lparr>sc_info := None\<rparr>)) (updE (\<lambda>s. s\<lparr>sc_info := None\<rparr>))"
    by (rule simsI) (simp add: updE_def like_def view_of_def base_view_def entering_def)
  have run: "seqE (forE ?ns F) (updE (\<lambda>s. s\<lparr>sc_info := None\<rparr>)) ?s1 = (r, s')"
    "seqE (forE ?ns (\<lambda>n. item_fill c tv n (entry_args info' ! n))) (updE (\<lambda>s. s\<lparr>sc_info := None\<rparr>)) ?d0 = (q, d')"
    using first second assms(12,13) by simp_all
  from simsD [OF sims_seq [OF sim upd] l run] y(2) show ?thesis by (simp add: socketcall_shape_def)
qed

lemma exit_like:
  assumes "like k s d" "socketcall_shape s" "si_kind info = InfoExit exit" "si_kind info' = InfoExit exit"
    and "setExitInfo (SocketCallBase tbl order extra c) tv info (s, fds) = (r, (s', fs))"
    and "setExitInfo c tv info' (d, fds) = (q, (d', gs))"
  shows "q = r \<and> fs = gs \<and> like k s' d' \<and> socketcall_shape s'"
proof -
  obtain x y where s: "sc_pars s = [x, y]" "it_kind x = K_Value ''SocketCallType''" "it_kind y = K_Value ''SocketCallArgs''"
    "\<not> it_defer x" "\<not> it_defer y" "\<not> it_unused x" "\<not> it_unused y" "\<not> needsUpdate x"
    by (rule socketcall_shapeE [OF assms(2)])
  define upd where "upd info s = (case exit of ExitValue v \<Rightarrow> (s\<lparr>sc_info := Some info\<rparr>)\<lparr>sc_error := None, sc_return := v\<rparr>
       | ExitError e \<Rightarrow> (s\<lparr>sc_info := Some info\<rparr>)\<lparr>sc_error := Some (ErrnoResult e), sc_return := 0\<rparr>)" for info and s :: syscall
  have [simp]: "sc_pars (upd i u) = sc_pars u" "sc_members (upd i u) = sc_members u" for i u
    by (simp_all add: upd_def split: exit_info.split)
  have upd: "(case exit of ExitValue v \<Rightarrow> (s\<lparr>sc_info := Some i\<rparr>)\<lparr>sc_error := None, sc_return := v\<rparr>
       | ExitError e \<Rightarrow> (s\<lparr>sc_info := Some i\<rparr>)\<lparr>sc_error := Some (ErrnoResult e), sc_return := 0\<rparr>) = upd i s" for i s
    by (simp add: upd_def)
  have l: "like k (upd info s) (upd info' d)"
    using assms(1,3,4) by (auto simp: upd_def like_def view_of_def base_view_def entering_def isEntry.simps split: exit_info.split)
  have nop: "forE (update_args [x, y]) (cc_update (SocketCallBase tbl order extra c) tv) u = (Inr (), u)"
    if "sc_pars u = [x, y]" for u
    using that s by (simp add: update_args_def upt_rec on_par_def own_update_def own_methods_def socketcall_items_def
        SocketCallArgs_updateData_def prog_defs)
  have first: "setExitInfo_pars (SocketCallBase tbl order extra c) tv exit info s =
      forE (update_args (sc_pars d)) (update_base tbl tv) (upd info s)"
  proof -
    define m where "m = bindE (bindE (askE (\<lambda>s. [0..<length (sc_pars s)]))
        (\<lambda>ns. update_loop (SocketCallBase tbl order extra c) tv ns []))
      (\<lambda>ds. forE ds (cc_update (SocketCallBase tbl order extra c) tv))"
    have "m (upd info s) = (Inr (), upd info s)"
      unfolding m_def using socketcall.updates_order [of tbl order extra c tv "upd info s"] nop [of "upd info s"] s(1) by simp
    then have "seqE m (SocketCall_postSystemCall tbl tv) (upd info s) = SocketCall_postSystemCall tbl tv (upd info s)"
      by (simp add: seqE_def bindE_def)
    moreover have "setExitInfo_pars (SocketCallBase tbl order extra c) tv exit info s =
        seqE m (SocketCall_postSystemCall tbl tv) (upd info s)"
      by (simp add: setExitInfo_pars_run upd m_def)
    ultimately show ?thesis
      using like_members [OF assms(1)] by (simp add: SocketCall_postSystemCall_def bind_ask)
  qed
  have second: "setExitInfo_pars c tv exit info' d = forE (update_args (sc_pars d)) (cc_update c tv) (upd info' d)"
    using call_contract.updates_order [OF call_contract, of tv "upd info' d"]
    by (simp add: setExitInfo_pars_run upd hooks seq_skip_last)
  have sim: "sims k (forE (update_args (sc_pars d)) (update_base tbl tv)) (forE (update_args (sc_pars d)) (cc_update c tv))"
    by (rule sims_for) (use assms(1) in \<open>auto simp: update_args_def like_def intro!: sims_update\<close>)
  obtain u s2 w d2 where run: "setExitInfo_pars (SocketCallBase tbl order extra c) tv exit info s = (u, s2)"
    "setExitInfo_pars c tv exit info' d = (w, d2)" by fastforce
  have l2: "w = u \<and> like k s2 d2 \<and> sc_pars s2 = sc_pars s"
    by (rule simsD [OF sim l run(1) [unfolded first] run(2) [unfolded second], simplified])
  then have t: "cc_fdtrack c tv d2 = cc_fdtrack c tv (base_view s2)"
    by (intro track_view) (simp add: like_def)
  have l3: "like k (s2\<lparr>sc_info := None\<rparr>) (d2\<lparr>sc_info := None\<rparr>)"
    using l2 by (simp add: like_def view_of_def base_view_def entering_def)
  define track where "track = (case exit of ExitValue _ \<Rightarrow> cc_fdtrack c tv d2 fds | ExitError _ \<Rightarrow> (Inr (), fds))"
  define finish where "finish s = (case u of Inl e \<Rightarrow> (Inl e, (s, fds)) | Inr _ \<Rightarrow>
      (case track of (Inl e, f) \<Rightarrow> (Inl e, (s, f)) | (Inr _, f) \<Rightarrow> (Inr (), (s\<lparr>sc_info := None\<rparr>, f))))" for s :: syscall
  have "(case exit of ExitValue _ \<Rightarrow> cc_fdtrack (SocketCallBase tbl order extra c) tv s2 fds
      | ExitError _ \<Rightarrow> (Inr (), fds)) = track"
    by (simp add: track_def t split: exit_info.split)
  then have "setExitInfo (SocketCallBase tbl order extra c) tv info (s, fds) = finish s2"
    by (cases u) (simp_all add: setExitInfo_def assms(3) run(1) finish_def del: socketcall_fields)
  moreover have "setExitInfo c tv info' (d, fds) = finish d2"
    using l2 by (cases u) (simp_all add: setExitInfo_def assms(4) run(2) finish_def track_def)
  ultimately show ?thesis
    using assms(2,5,6) l2 l3 by (auto simp: finish_def socketcall_shape_def split: sum.splits prod.splits)
qed

end

end
