(* ===== verification/Socketcall_Classes.thy ===== *)
theory Socketcall_Classes
  imports Socketcall_Sim
begin

text \<open>
  The classes of socketcall(2) and of the direct system calls in one family: how the names that the
  factories give are resolved, and that the classes of each pair satisfy \<open>direct_call\<close>.
\<close>

section \<open>What the tracking of descriptors sees of its call\<close>

lemma sees_view:
  assumes "view_of s = view_of d"
  shows "par_int s = par_int d" "ret_fd s = ret_fd d" "convertControlHeader32 tv s st = convertControlHeader32 tv d st"
  unfolding par_int_def fun_eq_iff ret_fd_def convertControlHeader32_def by (simp_all only: view_simps [OF assms] simp_thms)

lemma tracked_view:
  assumes "view_of s = view_of d"
  shows "created_socket s fd = created_socket d fd" "RecvMessageHeader_header tv s st = RecvMessageHeader_header tv d st"
  unfolding created_socket_def SocketType_flags_def SocketType_type_def RecvMessageHeader_header_def
    MessageHeader_header_def sees_view [OF assms]
  by (rule refl)+

lemma track_view:
  assumes "view_of s = view_of d"
  shows "Socket_updateFDTracking s = Socket_updateFDTracking d"
    "SocketPair_updateFDTracking s = SocketPair_updateFDTracking d"
    "Accept_updateFDTracking sock tv s = Accept_updateFDTracking sock tv d"
    "RecvMsg_updateFDTracking rights tv s = RecvMsg_updateFDTracking rights tv d"
    "GetSockOpt_updateFDTracking kind s = GetSockOpt_updateFDTracking kind d"
  unfolding Socket_updateFDTracking_def SocketPair_updateFDTracking_def Accept_updateFDTracking_def accept_flags_def
    RecvMsg_updateFDTracking_def GetSockOpt_updateFDTracking_def
    view_simps [OF assms] sees_view [OF assms] tracked_view [OF assms]
  by (rule refl)+

section \<open>Pairs of classes\<close>

lemmas net_class_defs = SocketSystemCall_def SocketPairSystemCall_def BindSystemCall_def ConnectSystemCall_def
  ListenSystemCall_def AcceptSystemCall_def ShutdownSystemCall_def GetNameSystemCall_def RecvMsgSystemCall_def
  SendMsgSystemCall_def GetSockOptSystemCall_def SetSockOptSystemCall_def

definition tracks_view :: "(tview \<Rightarrow> syscall \<Rightarrow> fd_prog) \<Rightarrow> bool" where
  "tracks_view f \<longleftrightarrow> (\<forall>tv s d. view_of s = view_of d \<longrightarrow> f tv s = f tv d)"

lemma direct_call_iff:
  "direct_call tbl c \<longleftrightarrow> view_methods tbl \<and> cc_process c = (\<lambda>tv. on_par (own_process tbl tv)) \<and>
     cc_update c = (\<lambda>tv. on_par (own_update tbl tv)) \<and> cc_prepare c = skipE \<and> cc_2nd c = (\<lambda>_. ret False) \<and>
     cc_post c = (\<lambda>_. skipE) \<and> tracks_view (cc_fdtrack c)"
  unfolding direct_call_def direct_call_axioms_def tracks_view_def by blast

lemma tracks_view:
  "tracks_view (\<lambda>_ _. skipE)" "tracks_view (\<lambda>_. Socket_updateFDTracking)"
  "tracks_view (\<lambda>_. SocketPair_updateFDTracking)" "tracks_view (Accept_updateFDTracking sock)"
  "tracks_view (RecvMsg_updateFDTracking rights)" "tracks_view (\<lambda>_. GetSockOpt_updateFDTracking kind)"
  unfolding tracks_view_def using track_view by blast+

lemma direct_classes:
  "direct_call socket_items SocketSystemCall" "direct_call socket_items SocketPairSystemCall"
  "direct_call (address_in 2) BindSystemCall" "direct_call (address_in 2) ConnectSystemCall"
  "direct_call socket_items ListenSystemCall" "direct_call (address_out 2) (AcceptSystemCall sock)"
  "direct_call socket_items ShutdownSystemCall" "direct_call (address_out 2) GetNameSystemCall"
  "direct_call message_items (RecvMsgSystemCall rights)" "direct_call message_items SendMsgSystemCall"
  "direct_call sockopt_items (GetSockOptSystemCall sockopt_items kind i)"
  "direct_call sockopt_deref_items (GetSockOptSystemCall sockopt_deref_items kind i)"
  "direct_call sockopt_items (SetSockOptSystemCall sockopt_items i)"
  "direct_call sockopt_deref_items (SetSockOptSystemCall sockopt_deref_items i)"
  by (simp_all add: direct_call_iff net_class_defs tracks_view socket_items.view_methods_axioms
      address_in.view_methods_axioms address_out.view_methods_axioms message_items.view_methods_axioms
      sockopt_items.view_methods_axioms sockopt_deref_items.view_methods_axioms)

text \<open>
  A class of socketcall(2) and the class that it is derived from: the members of the one are the
  parameters of the other, and \<open>transferValues\<close> fills them in the same order.
\<close>

definition derived :: "nat \<Rightarrow> sysnr \<Rightarrow> call_class \<Rightarrow> call_class \<Rightarrow> bool" where
  "derived k nr sc c \<longleftrightarrow> (\<exists>tbl order extra. sc = SocketCallBase tbl order extra c \<and> direct_call tbl c \<and>
     cc_pars c SYS_SOCKETCALL @ extra = cc_pars c nr \<and> length (cc_pars c nr) = k \<and>
     list_all (\<lambda>i. plain_kind (it_kind i)) (cc_pars c nr) \<and>
     (\<forall>args. length args = k \<longrightarrow> order args = fill_order (cc_pars c nr)))"

lemmas net_item_defs = sockfd_item_def socket_address_def address_length_def address_length_pointer_def
  sendrecv_flags_def new_fd_def val_def item_of_def deferred_def new_item_def accept_flags_item_def accept_pars_def socket_pars_def

lemmas transfer_defs = SocketCall_Socket_transferValues_def SocketCall_SocketPair_transferValues_def
  SocketCall_Bind_transferValues_def SocketCall_Connect_transferValues_def SocketCall_Listen_transferValues_def
  SocketCall_Accept_transferValues_def SocketCall_Shutdown_transferValues_def
  SocketCall_GetSockName_transferValues_def SocketCall_GetPeerName_transferValues_def
  SocketCall_RecvMsg_transferValues_def SocketCall_SendMsg_transferValues_def SocketCallSockOptBase_transferValues_def

lemma derivedI:
  assumes "direct_call tbl c" "cc_pars c SYS_SOCKETCALL @ extra = cc_pars c nr" "length (cc_pars c nr) = k"
    "list_all (\<lambda>i. plain_kind (it_kind i)) (cc_pars c nr)"
    "\<And>args. length args = k \<Longrightarrow> order args = fill_order (cc_pars c nr)"
  shows "derived k nr (SocketCallBase tbl order extra c) c"
  using assms unfolding derived_def by blast

lemma derived_classes:
  "derived 3 nr (SocketCallBase socket_items SocketCall_Socket_transferValues [] SocketSystemCall) SocketSystemCall"
  "derived 4 nr (SocketCallBase socket_items SocketCall_SocketPair_transferValues [] SocketPairSystemCall) SocketPairSystemCall"
  "derived 3 nr (SocketCallBase (address_in 2) SocketCall_Bind_transferValues [] BindSystemCall) BindSystemCall"
  "derived 3 nr (SocketCallBase (address_in 2) SocketCall_Connect_transferValues [] ConnectSystemCall) ConnectSystemCall"
  "derived 2 nr (SocketCallBase socket_items SocketCall_Listen_transferValues [] ListenSystemCall) ListenSystemCall"
  "derived 4 SYS_ACCEPT4 (SocketCallBase (address_out 2) SocketCall_Accept_transferValues [accept_flags_item]
     (AcceptSystemCall sock)) (AcceptSystemCall sock)"
  "derived 2 nr (SocketCallBase socket_items SocketCall_Shutdown_transferValues [] ShutdownSystemCall) ShutdownSystemCall"
  "derived 3 nr (SocketCallBase (address_out 2) SocketCall_GetSockName_transferValues [] GetNameSystemCall) GetNameSystemCall"
  "derived 3 nr (SocketCallBase (address_out 2) SocketCall_GetPeerName_transferValues [] GetNameSystemCall) GetNameSystemCall"
  "derived 3 nr (SocketCallBase message_items SocketCall_RecvMsg_transferValues [] (RecvMsgSystemCall rights))
     (RecvMsgSystemCall rights)"
  "derived 3 nr (SocketCallBase message_items SocketCall_SendMsg_transferValues [] SendMsgSystemCall) SendMsgSystemCall"
  by ((rule derivedI, rule direct_classes);
      simp add: net_class_defs net_item_defs plain_kind_def transfer_defs fill_order_def upt_rec)+

lemmas optval_defs = get_optvals_def get_struct_optvals_def set_optvals_def set_struct_optvals_def

lemma plain_optvals:
  "list_all (\<lambda>(k, i). plain_kind (it_kind i)) (get_optvals @ get_struct_optvals @ set_optvals @ set_struct_optvals)"
  by (simp add: optval_defs get_val_def set_val_def sockopt_val_def string_optval_def unknown_optval_def net_item_defs
      plain_kind_def)

lemma derived_sockopts:
  assumes "plain_kind (it_kind i)" "it_defer i"
  shows "derived 5 nr (SocketCallBase sockopt_items SocketCallSockOptBase_transferValues [] (GetSockOptSystemCall sockopt_items kind i))
      (GetSockOptSystemCall sockopt_items kind i)"
    and "derived 5 nr (SocketCallBase sockopt_deref_items SocketCallSockOptBase_transferValues []
      (GetSockOptSystemCall sockopt_deref_items kind i)) (GetSockOptSystemCall sockopt_deref_items kind i)"
    and "derived 5 nr (SocketCallBase sockopt_items SocketCallSockOptBase_transferValues [] (SetSockOptSystemCall sockopt_items i))
      (SetSockOptSystemCall sockopt_items i)"
    and "derived 5 nr (SocketCallBase sockopt_deref_items SocketCallSockOptBase_transferValues []
      (SetSockOptSystemCall sockopt_deref_items i)) (SetSockOptSystemCall sockopt_deref_items i)"
  by ((rule derivedI, rule direct_classes);
      simp add: net_class_defs net_item_defs sockopt_pars_def plain_kind_def transfer_defs fill_order_def upt_rec assms [unfolded plain_kind_def])+

section \<open>Names of classes\<close>

lemma sockopt_class_name_eq:
  "sockopt_class_name get b k = sockopt_class_name get' b' k' \<longleftrightarrow> get = get' \<and> b = b' \<and> k = k'"
  by (auto simp: sockopt_class_name_def)

definition is_sockopt_name :: "string \<Rightarrow> bool" where
  "is_sockopt_name n \<longleftrightarrow> take 7 (rev n) = rev ''SockOpt'' \<or> take 17 (rev n) = rev ''SockOptSystemCall''"

lemma sockopt_class_name_is: "is_sockopt_name (sockopt_class_name get b k)"
  by (simp add: is_sockopt_name_def sockopt_class_name_def)

lemma other_names:
  "list_all (\<lambda>n. \<not> is_sockopt_name n) (map fst (net_classes @ net_out_classes sock rights @ socketcall_classes sock rights))"
  by (simp add: net_classes_def net_out_classes_def socketcall_classes_def is_sockopt_name_def)

lemma map_of_named: "(\<And>k k'. f k = f k' \<longleftrightarrow> k = k') \<Longrightarrow> map_of (map (\<lambda>(k, c). (f k, c)) xs) (f k) = map_of xs k"
  by (induction xs) auto

lemma map_of_other:
  assumes "\<And>k'. f k' \<noteq> n"
  shows "map_of (map (\<lambda>(k, c). (f k, c)) xs) n = None"
  by (induction xs) (auto simp: split_beta dest: assms [THEN notE, OF sym])

lemma named_sockopts:
  "map_of (socket_classes sock rights) (sockopt_class_name get b k) =
     map_of (if b then socketcall_sockopt_classes get else sockopt_classes get) k"
proof -
  have "map_of (net_classes @ net_out_classes sock rights @ socketcall_classes sock rights) (sockopt_class_name get b k) = None"
    using other_names [of sock rights] sockopt_class_name_is [of get b k]
    unfolding map_of_eq_None_iff list_all_iff set_map by fastforce
  then show ?thesis
    unfolding socket_classes_def named_sockopts_def
    by (cases get; cases b)
      (simp_all add: map_add_def map_of_named map_of_other sockopt_class_name_eq split: option.splits)
qed

text \<open>The classes of both kinds are built from the same list of option values.\<close>

definition optvals :: "bool \<Rightarrow> bool \<Rightarrow> (string \<times> item) list" where
  "optvals get deref =
     (if get then (if deref then get_struct_optvals else get_optvals)
      else (if deref then set_struct_optvals else set_optvals))"

definition optval_items :: "bool \<Rightarrow> method_table" where
  "optval_items deref = (if deref then sockopt_deref_items else sockopt_items)"

definition optval_class :: "bool \<Rightarrow> bool \<Rightarrow> string \<Rightarrow> item \<Rightarrow> call_class" where
  "optval_class get deref k i =
     (if get then GetSockOptSystemCall (optval_items deref) k i else SetSockOptSystemCall (optval_items deref) i)"

lemma sockopt_classes_optvals:
  "sockopt_classes get = concat (map (\<lambda>deref. map (\<lambda>(k, i). (k, optval_class get deref k i)) (optvals get deref)) [False, True])"
  "socketcall_sockopt_classes get = concat (map (\<lambda>deref. map (\<lambda>(k, i). (k,
     SocketCallBase (optval_items deref) SocketCallSockOptBase_transferValues [] (optval_class get deref k i)))
       (optvals get deref)) [False, True])"
  by (cases get; simp add: sockopt_classes_def socketcall_sockopt_classes_def sockopt_tables_def get_classes_def
        set_classes_def optvals_def optval_items_def optval_class_def map2_map_map split_beta comp_def)+

lemma sockopt_pair:
  assumes "k \<in> fst ` set (sockopt_classes get)"
  obtains sc c where "map_of (socketcall_sockopt_classes get) k = Some sc" "map_of (sockopt_classes get) k = Some c"
    "\<And>nr. it_defer (cc_pars c nr ! 3) \<Longrightarrow> derived 5 nr sc c"
proof -
  have pair: "map_of (map (\<lambda>(k, i). (k, f k i)) xs) k = map_option (f k) (map_of xs k)" for f :: "string \<Rightarrow> item \<Rightarrow> call_class" and xs
    by (induction xs) auto
  have lookups: "map_of (sockopt_classes get) k = (case map_of (optvals get False) k of
        Some i \<Rightarrow> Some (optval_class get False k i) | None \<Rightarrow> map_option (optval_class get True k) (map_of (optvals get True) k))"
    "map_of (socketcall_sockopt_classes get) k = (case map_of (optvals get False) k of
        Some i \<Rightarrow> Some (SocketCallBase (optval_items False) SocketCallSockOptBase_transferValues [] (optval_class get False k i))
      | None \<Rightarrow> map_option (\<lambda>i. SocketCallBase (optval_items True) SocketCallSockOptBase_transferValues []
          (optval_class get True k i)) (map_of (optvals get True) k))"
    unfolding sockopt_classes_optvals
    by (simp_all add: map_add_def pair split: option.split)
  have "map_of (sockopt_classes get) k \<noteq> None" using assms by (simp add: map_of_eq_None_iff)
  then obtain deref i where i: "map_of (optvals get deref) k = Some i"
    "map_of (sockopt_classes get) k = Some (optval_class get deref k i)"
    "map_of (socketcall_sockopt_classes get) k =
      Some (SocketCallBase (optval_items deref) SocketCallSockOptBase_transferValues [] (optval_class get deref k i))"
    unfolding lookups by (fastforce split: option.splits)
  have "(k, i) \<in> set (get_optvals @ get_struct_optvals @ set_optvals @ set_struct_optvals)"
    using map_of_SomeD [OF i(1)] by (auto simp: optvals_def split: if_splits)
  then have plain: "plain_kind (it_kind i)" using plain_optvals unfolding list_all_iff by blast
  have "it_defer i \<Longrightarrow> derived 5 nr
      (SocketCallBase (optval_items deref) SocketCallSockOptBase_transferValues [] (optval_class get deref k i))
      (optval_class get deref k i)" for nr
    using derived_sockopts [OF plain] by (simp add: optval_items_def optval_class_def)
  moreover have "cc_pars (optval_class get deref k i) nr ! 3 = i" for nr
    by (simp add: optval_class_def net_class_defs sockopt_pars_def)
  ultimately show thesis by (intro that [OF i(3,2)]) simp
qed

end
