(* ===== verification/Socketcall_Props.thy ===== *)
theory Socketcall_Props
  imports Socketcall_Classes
begin

text \<open>
  A system call that goes through socketcall(2) is recorded as the direct system call: the same items
  with the same values and data, the same error and the same descriptors tracked.
\<close>

section \<open>The same call\<close>

text \<open>The sub-calls of socketcall(2) whose items are filled in the order of the direct call.\<close>

definition transparent_calls :: "(int \<times> sysnr) list" where
  "transparent_calls = [(1, SYS_SOCKET), (2, SYS_BIND), (3, SYS_CONNECT), (4, SYS_LISTEN), (6, SYS_GETSOCKNAME),
     (7, SYS_GETPEERNAME), (8, SYS_SOCKETPAIR), (13, SYS_SHUTDOWN), (14, SYS_SETSOCKOPT), (15, SYS_GETSOCKOPT),
     (16, SYS_SENDMSG), (17, SYS_RECVMSG), (18, SYS_ACCEPT4)]"

text \<open>The entry of a socketcall(2) and of a direct call with the arguments from the memory of the tracee.\<close>

definition same_call :: "tview \<Rightarrow> sysinfo \<Rightarrow> sysinfo \<Rightarrow> bool" where
  "same_call tv info info' \<longleftrightarrow> isEntry info \<and> isEntry info' \<and> si_abi info' = si_abi info \<and>
     si_generic info = SYS_SOCKETCALL \<and> (as_int (entry_args info ! 0), si_generic info') \<in> set transparent_calls \<and>
     (case fetchArgs tv (si_abi info) (as_int (entry_args info ! 0)) (entry_args info ! 1) of
        Some (Inr bs) \<Rightarrow> map (field_ptr 0 8) bs = take (length bs) (entry_args info')
      | _ \<Rightarrow> False)"

lemma readStructsInto_length:
  "readStructsInto peek a sz olds = Some (r, outs) \<Longrightarrow> length outs = length olds"
  by (induction olds arbitrary: a r outs) (auto split: option.splits prod.splits sum.splits bool.splits)

lemma fetchArgs_length:
  assumes "fetchArgs tv abi sub a = Some (Inr bs)"
  shows "length bs = NUM_SOCKETCALL_ARGS ! nat sub"
  using assms by (auto simp: fetchArgs_def Let_def dest!: readStructsInto_length split: if_splits sum.splits)

definition direct_classes_of :: "(sysnr \<times> int \<times> string \<times> string) list" where
  "direct_classes_of = [
     (SYS_SOCKET, 1, ''SocketCall_Socket'', ''SocketSystemCall''), (SYS_BIND, 2, ''SocketCall_Bind'', ''BindSystemCall''),
     (SYS_CONNECT, 3, ''SocketCall_Connect'', ''ConnectSystemCall''),
     (SYS_LISTEN, 4, ''SocketCall_Listen'', ''ListenSystemCall''),
     (SYS_GETSOCKNAME, 6, ''SocketCall_GetSockName'', ''GetSockNameSystemCall''),
     (SYS_GETPEERNAME, 7, ''SocketCall_GetPeerName'', ''GetPeerNameSystemCall''),
     (SYS_SOCKETPAIR, 8, ''SocketCall_SocketPair'', ''SocketPairSystemCall''),
     (SYS_SHUTDOWN, 13, ''SocketCall_Shutdown'', ''ShutdownSystemCall''),
     (SYS_SENDMSG, 16, ''SocketCall_SendMsg'', ''SendMsgSystemCall''),
     (SYS_RECVMSG, 17, ''SocketCall_RecvMsg'', ''RecvMsgSystemCall''),
     (SYS_ACCEPT4, 18, ''SocketCall_Accept'', ''AcceptSystemCall'')]"

lemma other_factories:
  "list_all (\<lambda>nr. nr \<notin> fst ` set create_syscall_cases_3) (map fst (create_syscall_cases_1 @ create_syscall_cases_2))"
  by (simp add: create_syscall_cases_1_def create_syscall_cases_2_def create_syscall_cases_3_def)

lemma factory_of_socket:
  assumes "map_of create_syscall_cases_3 nr = Some f" "nr \<noteq> SYS_ARCH_PRCTL"
  shows "factory_of F nr = f"
proof -
  have "nr \<in> fst ` set create_syscall_cases_3"
    using map_of_SomeD [OF assms(1)] by force
  then have "nr \<notin> fst ` set create_syscall_cases_1" "nr \<notin> fst ` set create_syscall_cases_2"
    using other_factories unfolding list_all_iff by auto
  then show ?thesis
    using assms by (simp add: factory_of_def create_syscall_cases_def map_add_def flip: map_of_eq_None_iff)
qed

lemma direct_factory:
  "(nr, sub, sc, c) \<in> set direct_classes_of \<Longrightarrow> factory_of F nr = New c"
  "factory_of F SYS_SOCKETCALL = Multi ''create_socket_call_syscall''"
  "factory_of F SYS_SETSOCKOPT = Multi ''create_setsockopt_syscall''"
  "factory_of F SYS_GETSOCKOPT = Multi ''create_getsockopt_syscall''"
  by (auto simp: direct_classes_of_def intro!: factory_of_socket) (simp_all add: create_syscall_cases_3_def)

lemma socket_multi:
  "cf_multi (socket_family rn sock rights rest) ''create_socket_call_syscall'' tv info = create_socket_call_syscall rn tv info"
  "cf_multi (socket_family rn sock rights rest) ''create_getsockopt_syscall'' tv info = Inr (create_getsockopt_syscall rn info)"
  "cf_multi (socket_family rn sock rights rest) ''create_setsockopt_syscall'' tv info = Inr (create_setsockopt_syscall rn info)"
  by (simp_all add: socket_family_def)

abbreviation (input) named_classes :: "sock_lookup \<Rightarrow> rights_parser \<Rightarrow> (string \<times> call_class) list" where
  "named_classes sock rights \<equiv> net_classes @ net_out_classes sock rights @ socketcall_classes sock rights"

lemma distinct_named: "distinct (map fst (named_classes sock rights))"
  by (simp add: net_classes_def net_out_classes_def socketcall_classes_def)

lemma other_class:
  assumes "(cls, c) \<in> set net_classes \<or> (cls, c) \<in> set (net_out_classes sock rights) \<or>
    (cls, c) \<in> set (socketcall_classes sock rights)"
  shows "cf_class (socket_family rn sock rights rest) cls = c"
proof -
  have "map_of (named_classes sock rights) cls = Some c"
    by (rule map_of_is_SomeI [OF distinct_named]) (use assms in auto)
  then have "map_of (socket_classes sock rights) cls = Some c"
    by (auto simp: socket_classes_def map_add_def split: option.splits)
  then show ?thesis by (simp add: socket_family_def)
qed

lemma socket_class [simp]:
  "cf_class (socket_family rn sock rights rest) ''SocketSystemCall'' = SocketSystemCall"
  "cf_class (socket_family rn sock rights rest) ''SocketCall_Socket'' =
     SocketCallBase socket_items SocketCall_Socket_transferValues [] SocketSystemCall"
  "cf_class (socket_family rn sock rights rest) ''BindSystemCall'' = BindSystemCall"
  "cf_class (socket_family rn sock rights rest) ''SocketCall_Bind'' =
     SocketCallBase (address_in 2) SocketCall_Bind_transferValues [] BindSystemCall"
  "cf_class (socket_family rn sock rights rest) ''ConnectSystemCall'' = ConnectSystemCall"
  "cf_class (socket_family rn sock rights rest) ''SocketCall_Connect'' =
     SocketCallBase (address_in 2) SocketCall_Connect_transferValues [] ConnectSystemCall"
  "cf_class (socket_family rn sock rights rest) ''ListenSystemCall'' = ListenSystemCall"
  "cf_class (socket_family rn sock rights rest) ''SocketCall_Listen'' =
     SocketCallBase socket_items SocketCall_Listen_transferValues [] ListenSystemCall"
  "cf_class (socket_family rn sock rights rest) ''GetSockNameSystemCall'' = GetNameSystemCall"
  "cf_class (socket_family rn sock rights rest) ''SocketCall_GetSockName'' =
     SocketCallBase (address_out 2) SocketCall_GetSockName_transferValues [] GetNameSystemCall"
  "cf_class (socket_family rn sock rights rest) ''GetPeerNameSystemCall'' = GetNameSystemCall"
  "cf_class (socket_family rn sock rights rest) ''SocketCall_GetPeerName'' =
     SocketCallBase (address_out 2) SocketCall_GetPeerName_transferValues [] GetNameSystemCall"
  "cf_class (socket_family rn sock rights rest) ''SocketPairSystemCall'' = SocketPairSystemCall"
  "cf_class (socket_family rn sock rights rest) ''SocketCall_SocketPair'' =
     SocketCallBase socket_items SocketCall_SocketPair_transferValues [] SocketPairSystemCall"
  "cf_class (socket_family rn sock rights rest) ''ShutdownSystemCall'' = ShutdownSystemCall"
  "cf_class (socket_family rn sock rights rest) ''SocketCall_Shutdown'' =
     SocketCallBase socket_items SocketCall_Shutdown_transferValues [] ShutdownSystemCall"
  "cf_class (socket_family rn sock rights rest) ''SendMsgSystemCall'' = SendMsgSystemCall"
  "cf_class (socket_family rn sock rights rest) ''SocketCall_SendMsg'' =
     SocketCallBase message_items SocketCall_SendMsg_transferValues [] SendMsgSystemCall"
  "cf_class (socket_family rn sock rights rest) ''RecvMsgSystemCall'' = RecvMsgSystemCall rights"
  "cf_class (socket_family rn sock rights rest) ''SocketCall_RecvMsg'' =
     SocketCallBase message_items SocketCall_RecvMsg_transferValues [] (RecvMsgSystemCall rights)"
  "cf_class (socket_family rn sock rights rest) ''AcceptSystemCall'' = AcceptSystemCall sock"
  "cf_class (socket_family rn sock rights rest) ''SocketCall_Accept'' =
     SocketCallBase (address_out 2) SocketCall_Accept_transferValues [accept_flags_item] (AcceptSystemCall sock)"
  by (rule other_class; simp only: net_classes_def net_out_classes_def socketcall_classes_def list.set insert_iff simp_thms)+

lemma direct_class:
  assumes "(nr, sub, sc, c) \<in> set direct_classes_of"
  shows "derived (NUM_SOCKETCALL_ARGS ! nat sub) nr (cf_class (socket_family rn sock rights rest) sc)
    (cf_class (socket_family rn sock rights rest) c)"
  using assms
  by (auto simp: direct_classes_of_def NUM_SOCKETCALL_ARGS_def intro: derived_classes)

lemma fetchArgs_sockopt: "fetchArgs tv abi CALL_SETSOCKOPT a = fetchArgs tv abi CALL_GETSOCKOPT a"
  by (simp add: fetchArgs_def NUM_SOCKETCALL_ARGS_def)

lemma create_for_level_kind:
  obtains k where "k \<in> fst ` set (sockopt_classes get)"
    "\<And>b. create_for_level rn get b lvl name = sockopt_class_name get b k"
proof -
  have kinds: "list_all (\<lambda>gs. (case if get then fst gs else snd gs of None \<Rightarrow> ''Unknown'' | Some kind \<Rightarrow> kind)
      \<in> set (map fst (sockopt_classes get))) (map snd (sockopt_kinds rn))" for get
    by (cases get) (simp_all add: sockopt_kinds_def list_all_iff both_def ball_Un image_Un sockopt_classes_optvals
        optvals_def optval_defs)
  have unknown: "''Unknown'' \<in> fst ` set (sockopt_classes get)" for get
    by (cases get) (simp_all add: sockopt_classes_optvals optvals_def optval_defs)
  show thesis
  proof (cases "map_of (sockopt_kinds rn) name")
    case None
    with that [OF unknown] show ?thesis by (simp add: create_for_level_def create_socket_opt_syscall_def)
  next
    case (Some gs)
    obtain g s where gs: "gs = (g, s)" by fastforce
    have "(g, s) \<in> set (map snd (sockopt_kinds rn))" using map_of_SomeD [OF Some] gs by force
    from bspec [OF kinds [of get, unfolded list_all_iff] this]
    have "(case if get then g else s of None \<Rightarrow> ''Unknown'' | Some kind \<Rightarrow> kind) \<in> fst ` set (sockopt_classes get)"
      by (cases get) simp_all
    from that [OF this] that [OF unknown] Some gs show ?thesis
      by (cases "lvl = SOL_SOCKET") (simp_all add: create_for_level_def create_socket_opt_syscall_def)
  qed
qed

lemma sockopt_class:
  "map_of (if b then socketcall_sockopt_classes get else sockopt_classes get) k = Some c \<Longrightarrow>
     cf_class (socket_family rn sock rights rest) (sockopt_class_name get b k) = c"
  using named_sockopts [of sock rights get b k] by (simp add: socket_family_def)

lemma transparent_cases:
  assumes "(sub, nr) \<in> set transparent_calls"
  obtains sc c where "(nr, sub, sc, c) \<in> set direct_classes_of" "(sub, sc) \<in> set socket_call_cases"
    | "sub = CALL_SETSOCKOPT" "nr = SYS_SETSOCKOPT" | "sub = CALL_GETSOCKOPT" "nr = SYS_GETSOCKOPT"
proof -
  have "list_all (\<lambda>(sub, nr). sub = CALL_SETSOCKOPT \<and> nr = SYS_SETSOCKOPT \<or> sub = CALL_GETSOCKOPT \<and> nr = SYS_GETSOCKOPT \<or>
      list_ex (\<lambda>(nr', sub', sc, c). nr' = nr \<and> sub' = sub \<and> (sub, sc) \<in> set socket_call_cases) direct_classes_of) transparent_calls"
    by (simp add: transparent_calls_def direct_classes_of_def socket_call_cases_def)
  with assms that show thesis unfolding list_all_iff list_ex_iff by fastforce
qed

lemma distinct_cases: "distinct (map fst socket_call_cases)"
  by (simp add: socket_call_cases_def)

lemma same_callE:
  assumes "same_call tv info info'"
  obtains bs where "fetchArgs tv (si_abi info) (as_int (entry_args info ! 0)) (entry_args info ! 1) = Some (Inr bs)"
    "length bs = NUM_SOCKETCALL_ARGS ! nat (as_int (entry_args info ! 0))" "length bs \<le> 6" "0 < length bs"
    "\<And>n. n < length bs \<Longrightarrow> field_ptr 0 8 (bs ! n) = entry_args info' ! n"
proof -
  obtain bs where bs: "fetchArgs tv (si_abi info) (as_int (entry_args info ! 0)) (entry_args info ! 1) = Some (Inr bs)"
    "map (field_ptr 0 8) bs = take (length bs) (entry_args info')"
    using assms by (auto simp: same_call_def split: option.splits sum.splits)
  have sub: "as_int (entry_args info ! 0) \<in> fst ` set transparent_calls"
    using assms by (force simp: same_call_def)
  then have "NUM_SOCKETCALL_ARGS ! nat (as_int (entry_args info ! 0)) \<in> {1..6}"
    by (auto simp: transparent_calls_def NUM_SOCKETCALL_ARGS_def)
  moreover have "field_ptr 0 8 (bs ! n) = entry_args info' ! n" if "n < length bs" for n
    using arg_cong [OF bs(2), of "\<lambda>xs. xs ! n"] that by simp
  ultimately show thesis
    using that [OF bs(1)] fetchArgs_length [OF bs(1)] by simp
qed

text \<open>The factories pick a class of socketcall(2) and the class that it is derived from.\<close>

lemma derived_objects:
  assumes "F = socket_family rn sock rights rest" "same_call tv info info'"
    and "create_syscall F tv info = Inr (s, x)" "create_syscall F tv info' = Inr (d, y)"
    and "si_generic info' \<in> {SYS_SETSOCKOPT, SYS_GETSOCKOPT} \<Longrightarrow> it_defer (sc_pars d ! 3)"
  shows "derived (NUM_SOCKETCALL_ARGS ! nat (as_int (entry_args info ! 0))) (si_generic info')
      (cf_class F (sc_class s)) (cf_class F (sc_class d))"
proof -
  obtain bs where bs: "fetchArgs tv (si_abi info) (as_int (entry_args info ! 0)) (entry_args info ! 1) = Some (Inr bs)"
    "length bs = NUM_SOCKETCALL_ARGS ! nat (as_int (entry_args info ! 0))" "length bs \<le> 6" "0 < length bs"
    "\<And>n. n < length bs \<Longrightarrow> field_ptr 0 8 (bs ! n) = entry_args info' ! n"
    by (rule same_callE [OF assms(2)]) blast
  let ?sub = "as_int (entry_args info ! 0)"
  have nr: "si_generic info = SYS_SOCKETCALL" "(?sub, si_generic info') \<in> set transparent_calls"
    using assms(2) by (simp_all add: same_call_def)
  obtain cls where cls: "create_socket_call_syscall rn tv info = Inr cls" "s = new_call F cls SYS_SOCKETCALL"
    using assms(3) unfolding create_syscall_def nr(1) direct_factory assms(1)
    by (auto simp: socket_multi split: sum.splits)
  have opt: "derived 5 (si_generic info') (cf_class F (sc_class s)) (cf_class F (sc_class d))"
    if "?sub = (if get then CALL_GETSOCKOPT else CALL_SETSOCKOPT)"
      "si_generic info' = (if get then SYS_GETSOCKOPT else SYS_SETSOCKOPT)" for get
  proof -
    let ?lvl = "as_int (entry_args info' ! 1)" and ?opt = "as_int (entry_args info' ! 2)"
    obtain k where k: "k \<in> fst ` set (sockopt_classes get)" "\<And>b. create_for_level rn get b ?lvl ?opt = sockopt_class_name get b k"
      by (rule create_for_level_kind [of get rn ?lvl ?opt]) blast
    have len: "length bs = 5" using bs(2) that(1) by (cases get) (simp_all add: NUM_SOCKETCALL_ARGS_def)
    have "fetch_opt_level_and_name tv info CALL_GETSOCKOPT = Inr (?lvl, ?opt)"
      using bs(1,5) that(1) len by (cases get) (simp_all add: fetch_opt_level_and_name_def fetchArgs_sockopt)
    then have s: "sc_class s = sockopt_class_name get True k"
      using cls k(2) [of True] that(1)
      by (cases get) (simp_all add: create_socket_call_syscall_def create_socket_call_sockopt_def socket_call_cases_def new_call_def)
    have d: "sc_class d = sockopt_class_name get False k" "sc_pars d = cc_pars (cf_class F (sc_class d)) (si_generic info')"
      using assms(4) that(2) k(2) [of False] unfolding create_syscall_def assms(1)
      by (cases get; auto simp: direct_factory socket_multi new_call_def create_getsockopt_syscall_def
          create_setsockopt_syscall_def)+
    obtain sc c where "map_of (socketcall_sockopt_classes get) k = Some sc" "map_of (sockopt_classes get) k = Some c"
      "\<And>nr. it_defer (cc_pars c nr ! 3) \<Longrightarrow> derived 5 nr sc c"
      by (rule sockopt_pair [OF k(1)]) blast
    then show ?thesis
      using sockopt_class [of True get k sc] sockopt_class [of False get k c] s d assms(1,5) that(2)
      by (cases get) simp_all
  qed
  show "derived (NUM_SOCKETCALL_ARGS ! nat ?sub) (si_generic info') (cf_class F (sc_class s)) (cf_class F (sc_class d))"
    using nr(2)
  proof (cases rule: transparent_cases)
    case (1 sc c)
    have "map_of socket_call_cases ?sub = Some sc" using 1(2) distinct_cases by simp
    then have "sc_class s = sc" using cls by (simp add: create_socket_call_syscall_def Let_def new_call_def)
    moreover have "sc_class d = c" using assms(4) direct_factory(1) [OF 1(1)] by (auto simp: create_syscall_def new_call_def)
    ultimately show ?thesis using direct_class [OF 1(1)] assms(1) by simp
  next
    case 2
    with opt [of False] show ?thesis by (simp add: NUM_SOCKETCALL_ARGS_def)
  next
    case 3
    with opt [of True] show ?thesis by (simp add: NUM_SOCKETCALL_ARGS_def)
  qed
qed

section \<open>Entry and exit\<close>

lemma derived_start:
  assumes "derived k nr sc c" "cf_class F cls = sc" "cf_class F cls' = c"
  shows "like k (new_call F cls SYS_SOCKETCALL) (new_call F cls' nr)" "socketcall_shape (new_call F cls SYS_SOCKETCALL)"
  using assms by (auto simp: derived_def like_def view_of_def base_view_def entering_def new_call_def list_all_iff
      socketcall_shape_def)

lemma derived_entry:
  assumes "derived k nr sc c" "same_call tv info info'" "k = NUM_SOCKETCALL_ARGS ! nat (as_int (entry_args info ! 0))"
    and "like k s d" "socketcall_shape s" "sc_pars d = cc_pars c nr"
    and "setEntryInfo sc tv info s = (r, s')" "setEntryInfo c tv info' d = (q, d')"
  shows "q = r \<and> like k s' d' \<and> socketcall_shape s'"
proof -
  obtain bs where bs: "fetchArgs tv (si_abi info) (as_int (entry_args info ! 0)) (entry_args info ! 1) = Some (Inr bs)"
    "length bs = k" "length bs \<le> 6" "0 < length bs" "\<And>n. n < length bs \<Longrightarrow> field_ptr 0 8 (bs ! n) = entry_args info' ! n"
    using same_callE [OF assms(2)] assms(3) by metis
  obtain tbl order extra where sc: "sc = SocketCallBase tbl order extra c" and c: "direct_call tbl c"
    and order: "\<And>args. length args = k \<Longrightarrow> order args = fill_order (cc_pars c nr)"
    using assms(1) by (auto simp: derived_def)
  have i: "isEntry info" "isEntry info'" "si_abi info' = si_abi info" using assms(2) by (simp_all add: same_call_def)
  show ?thesis
    by (rule direct_call.entry_like [OF c assms(4,5) i bs(1)])
      (use bs order assms(6-8) in \<open>simp_all add: sc\<close>)
qed

lemma derived_exit:
  assumes "derived k nr sc c" "like k s d" "socketcall_shape s"
    and "si_kind info = InfoExit exit" "si_kind info' = InfoExit exit"
    and "setExitInfo sc tv info (s, fds) = (r, (s', fs))" "setExitInfo c tv info' (d, fds) = (q, (d', gs))"
  shows "q = r \<and> fs = gs \<and> like k s' d' \<and> socketcall_shape s'"
proof -
  obtain tbl order extra where sc: "sc = SocketCallBase tbl order extra c" and c: "direct_call tbl c"
    using assms(1) by (auto simp: derived_def)
  show ?thesis by (rule direct_call.exit_like [OF c assms(2-5) assms(6) [unfolded sc] assms(7)])
qed

lemma created:
  assumes "create_syscall F tv info = Inr (s, x)"
  shows "s = new_call F (sc_class s) (si_generic info)"
  using assms by (auto simp: create_syscall_def new_call_def split: factory.splits sum.splits)

lemma entry_pair:
  assumes "F = socket_family rn sock rights rest" "same_call tv info info'"
    and "create_syscall F tv info = Inr (s, x)" "create_syscall F tv info' = Inr (d, y)"
    and "si_generic info' \<in> {SYS_SETSOCKOPT, SYS_GETSOCKOPT} \<Longrightarrow> it_defer (sc_pars d ! 3)"
    and "setEntryInfo (cf_class F (sc_class s)) tv info s = (r, s')"
    and "setEntryInfo (cf_class F (sc_class d)) tv info' d = (q, d')"
  obtains k where "q = r" "like k s' d'" "socketcall_shape s'"
    "derived k (si_generic info') (cf_class F (sc_class s)) (cf_class F (sc_class d))"
proof -
  note o = derived_objects [OF assms(1-5)]
  have new: "s = new_call F (sc_class s) SYS_SOCKETCALL" "d = new_call F (sc_class d) (si_generic info')"
    using created [OF assms(3)] created [OF assms(4)] assms(2) by (simp_all add: same_call_def)
  have "sc_pars d = cc_pars (cf_class F (sc_class d)) (si_generic info')" by (subst new(2)) (simp add: new_call_def)
  from derived_entry [OF o assms(2) refl derived_start [OF o refl refl, folded new] this assms(6,7)] that o
  show thesis by blast
qed



text \<open>listen(2) by socketcall(2) and directly, in a memory whose bytes are all 42.\<close>

definition demo_socketcall :: "sysinfo" where
  "demo_socketcall = (demo_info SYS_SOCKETCALL)\<lparr>si_kind := InfoEntry 0 (Six 4 4096 0 0 0 0)\<rparr>"

definition demo_listen :: "sysinfo" where
  "demo_listen = (demo_info SYS_LISTEN)\<lparr>si_kind := InfoEntry 0 (Six 0x2A2A2A2A2A2A2A2A 0x2A2A2A2A2A2A2A2A 0 0 0 0)\<rparr>"

abbreviation (input) demo_sockets :: class_family where
  "demo_sockets \<equiv> socket_family 100 (\<lambda>_ _. Inr (None, None)) (\<lambda>_ _. []) plain_family"

lemma filled_struct:
  assumes "a \<noteq> 0" "z = replicate 8 0"
  shows "readStruct (tv_peek filled_view) a z 8 = Some (Inr True, replicate 8 0x2A)"
proof -
  have w: "word_bytes 0x2A2A2A2A2A2A2A2A = replicate 8 0x2A" by code_simp
  show ?thesis
    using readStruct_ok [of "tv_peek filled_view" a "[0x2A2A2A2A2A2A2A2A]" 8 z] assms
    by (simp add: filled_view_def w)
qed

lemma demo_same: "same_call filled_view demo_socketcall demo_listen"
proof -
  have two: "replicate 2 x = [x, x]" for x :: "byte list" by (simp add: numeral_2_eq_2)
  have "replicate 8 x = [x, x, x, x, x, x, x, x]" for x :: byte by (simp add: eval_nat_numeral)
  then have "field_ptr 0 8 (replicate 8 0x2A) = 0x2A2A2A2A2A2A2A2A" by (simp add: field_ptr_def field_def)
  moreover have "readStructsInto (tv_peek filled_view) 4096 8 (replicate 2 (replicate 8 0)) =
      Some (Inr True, replicate 2 (replicate 8 0x2A))"
    by (simp add: filled_struct two)
  then have "fetchArgs filled_view ABI_X86_64 4 4096 = Some (Inr (replicate 2 (replicate 8 0x2A)))"
    by (simp add: fetchArgs_def NUM_SOCKETCALL_ARGS_def is_32bit_emulation_abi_def)
  ultimately show ?thesis
    by (simp add: same_call_def demo_socketcall_def demo_listen_def demo_info_def isEntry.simps entry_args_def
        transparent_calls_def as_int_def two)
qed

lemma demo_created:
  "create_syscall demo_sockets filled_view demo_socketcall =
     Inr (new_call demo_sockets ''SocketCall_Listen'' SYS_SOCKETCALL, False)"
  "create_syscall demo_sockets filled_view demo_listen =
     Inr (new_call demo_sockets ''ListenSystemCall'' SYS_LISTEN, True)"
proof -
  have "factory_of demo_sockets SYS_LISTEN = New ''ListenSystemCall''"
    by (rule direct_factory(1)) (simp add: direct_classes_of_def)
  then show "create_syscall demo_sockets filled_view demo_listen =
     Inr (new_call demo_sockets ''ListenSystemCall'' SYS_LISTEN, True)"
    by (simp add: create_syscall_def demo_listen_def demo_info_def)
  show "create_syscall demo_sockets filled_view demo_socketcall =
     Inr (new_call demo_sockets ''SocketCall_Listen'' SYS_SOCKETCALL, False)"
    by (simp add: create_syscall_def demo_socketcall_def demo_info_def direct_factory socket_multi
        create_socket_call_syscall_def socket_call_cases_def entry_args_def as_int_def)
qed




end
