(* ===== verification/Format.thy ===== *)
theory Format
  imports FD_Tracking Tracee_Core
begin

text \<open>
  The formatting functions of src/format.cxx (include/format.hxx): labels of constants, sets of flags,
  signal information, buffers, pointers and descriptor information as text. The values of the constants
  are those of Linux on x86 and of glibc. What the functions use of libcosmos is \<open>fmt_lib\<close>.
  \<open>event()\<close>, the text of a child event for the log, is left out.
\<close>

section \<open>Constants\<close>

text \<open>
  A \<open>switch\<close> over \<open>CASE_ENUM_TO_STR\<close> entries, with \<open>std::to_string\<close> as its default.
\<close>

definition enum_label :: "(int \<times> string) list \<Rightarrow> int \<Rightarrow> string" where
  "enum_label cases raw = (case map_of cases raw of Some name \<Rightarrow> name | None \<Rightarrow> int_str raw)"

record fmt_lib =
  fl_signal_name :: "signal \<Rightarrow> string"
  fl_oct :: "nat \<Rightarrow> nat \<Rightarrow> string"
  fl_hex :: "nat \<Rightarrow> nat \<Rightarrow> string"
  fl_hex_with :: "string \<Rightarrow> nat \<Rightarrow> nat \<Rightarrow> string"
  fl_split_device :: "word64 \<Rightarrow> nat \<times> nat"
  fl_poll_width :: nat

definition SIGRTMIN :: signal where "SIGRTMIN = 34"
definition SIGRTMAX :: signal where "SIGRTMAX = 64"

definition signal_labels :: "(nat \<times> string) list" where
  "signal_labels =
    [(2, ''SIGINT''), (15, ''SIGTERM''), (1, ''SIGHUP''), (3, ''SIGQUIT''), (4, ''SIGILL''), (6, ''SIGABRT''),
     (8, ''SIGFPE''), (9, ''SIGKILL''), (13, ''SIGPIPE''), (11, ''SIGSEGV''), (14, ''SIGALRM''),
     (10, ''SIGUSR1''), (12, ''SIGUSR2''), (18, ''SIGCONT''), (19, ''SIGSTOP''), (20, ''SIGTSTP''),
     (21, ''SIGTTIN''), (22, ''SIGTTOU''), (5, ''SIGTRAP''), (7, ''SIGBUS''), (16, ''SIGSTKFLT''),
     (17, ''SIGCHLD''), (29, ''SIGIO''), (27, ''SIGPROF''), (31, ''SIGSYS''), (28, ''SIGWINCH''),
     (30, ''SIGPWR''), (23, ''SIGURG''), (24, ''SIGXCPU''), (26, ''SIGVTALRM''), (25, ''SIGXFSZ'')]"

definition signal_label :: "signal \<Rightarrow> string" where
  "signal_label raw = (case map_of signal_labels raw of
     Some name \<Rightarrow> name | None \<Rightarrow> ''unknown ('' @ nat_str raw @ '')'')"

definition format_signal :: "fmt_lib \<Rightarrow> bool \<Rightarrow> signal \<Rightarrow> string" where
  "format_signal L verbose raw =
     (let SIGRTMIN_PRIV = SIGRTMIN - 2;
          r = (if raw < SIGRTMIN_PRIV \<or> SIGRTMAX < raw then signal_label raw
               else if SIGRTMIN_PRIV \<le> raw \<and> raw < SIGRTMIN then ''glibc internal signal''
               else ''SIGRT'' @ nat_str (raw - SIGRTMIN))
      in r @ (if verbose then '' ('' @ fl_signal_name L raw @ '')'' else []))"

section \<open>Sets\<close>

text \<open>\<open>set.isSet(sig)\<close> is the predicate; the loop ends in front of the last signal.\<close>

definition signal_set_loop :: "fmt_lib \<Rightarrow> (signal \<Rightarrow> bool) \<Rightarrow> nat list \<Rightarrow> string" where
  "signal_set_loop L isSet = foldl (\<lambda>acc sig. if isSet sig then acc @ format_signal L False sig @ '', '' else acc) []"

definition signal_set :: "fmt_lib \<Rightarrow> (signal \<Rightarrow> bool) \<Rightarrow> string" where
  "signal_set L isSet =
     (let acc = signal_set_loop L isSet [1..<SIGRTMAX];
          acc = (if is_suffix '', '' acc then take (length acc - 2) acc else acc)
      in ''{'' @ acc @ ''}'')"

definition sa_flag_list :: "(32 word \<times> string) list" where
  "sa_flag_list =
    [(0x00000001, ''SA_NOCLDSTOP''), (0x00000002, ''SA_NOCLDWAIT''), (0x40000000, ''SA_NODEFER''),
     (0x08000000, ''SA_ONSTACK''), (0x80000000, ''SA_RESETHAND''), (0x10000000, ''SA_RESTART''),
     (0x00000004, ''SA_SIGINFO''), (0x04000000, ''SA_RESTORER'')]"

text \<open>\<open>chk_sa_flag\<close>, for one flag after another; the state is the text and \<open>first\<close>.\<close>

fun sa_flag_loop :: "32 word \<Rightarrow> (32 word \<times> string) list \<Rightarrow> string \<times> bool \<Rightarrow> string" where
  "sa_flag_loop flags [] (acc, first) = acc"
| "sa_flag_loop flags ((flag, name) # fs) (acc, first) =
     (if and flags flag \<noteq> 0
      then sa_flag_loop flags fs ((if \<not> first then acc @ ''|'' else acc) @ name, False)
      else sa_flag_loop flags fs (acc, first))"

definition saflags :: "32 word \<Rightarrow> string" where
  "saflags flags = (if flags = 0 then ''0'' else sa_flag_loop flags sa_flag_list ([], True))"

definition format_limit :: "word64 \<Rightarrow> string" where
  "format_limit lim =
     (if lim = - 1 then ''RLIM_INFINITY''
      else if unat lim mod 1024 = 0 then nat_str (unat lim div 1024) @ '' * 1024''
      else nat_str (unat lim))"

section \<open>Labels of signal information\<close>

definition si_code :: "int \<Rightarrow> string" where
  "si_code = enum_label [(0, ''SI_USER''), (128, ''SI_KERNEL''), (- 1, ''SI_QUEUE''), (- 2, ''SI_TIMER''),
     (- 3, ''SI_MESGQ''), (- 4, ''SI_ASYNCIO''), (- 5, ''SI_SIGIO''), (- 6, ''SI_TKILL'')]"

definition si_reason_sys :: "int \<Rightarrow> string" where
  "si_reason_sys = enum_label [(1, ''SYS_SECCOMP''), (2, ''SYS_USER_DISPATCH'')]"

definition si_reason_segv :: "int \<Rightarrow> string" where
  "si_reason_segv = enum_label [(1, ''SEGV_MAPERR''), (2, ''SEGV_ACCERR''), (3, ''SEGV_BNDERR''),
     (4, ''SEGV_PKUERR''), (5, ''SEGV_ACCADI''), (6, ''SEGV_ADIDERR''), (7, ''SEGV_ADIPERR''),
     (8, ''SEGV_MTEAERR''), (9, ''SEGV_MTESERR''), (10, ''SEGV_CPERR'')]"

definition si_reason_bus :: "int \<Rightarrow> string" where
  "si_reason_bus = enum_label [(1, ''BUS_ADRALN''), (2, ''BUS_ADRERR''), (3, ''BUS_OBJERR''),
     (4, ''BUS_MCEERR_AR''), (5, ''BUS_MCEERR_AO'')]"

definition format_ptrace_arch :: "int \<Rightarrow> string" where
  "format_ptrace_arch = enum_label [(0xC000003E, ''AUDIT_ARCH_X86_64''), (0x40000003, ''AUDIT_ARCH_I386'')]"

definition child_event :: "int \<Rightarrow> string" where
  "child_event = enum_label [(1, ''CLD_EXITED''), (2, ''CLD_KILLED''), (3, ''CLD_DUMPED''),
     (4, ''CLD_TRAPPED''), (5, ''CLD_STOPPED''), (6, ''CLD_CONTINUED'')]"

definition si_reason_poll :: "int \<Rightarrow> string" where
  "si_reason_poll = enum_label [(1, ''POLL_IN''), (2, ''POLL_OUT''), (3, ''POLL_MSG''), (4, ''POLL_ERR''),
     (5, ''POLL_PRI''), (6, ''POLL_HUP'')]"

definition si_reason_ill :: "int \<Rightarrow> string" where
  "si_reason_ill = enum_label [(1, ''ILL_ILLOPC''), (2, ''ILL_ILLOPN''), (3, ''ILL_ILLADR''),
     (4, ''ILL_ILLTRP''), (5, ''ILL_PRVOPC''), (6, ''ILL_PRVREG''), (7, ''ILL_COPROC''),
     (8, ''ILL_BADSTK''), (9, ''ILL_BADIADDR'')]"

definition si_reason_fpe :: "int \<Rightarrow> string" where
  "si_reason_fpe = enum_label [(1, ''FPE_INTDIV''), (2, ''FPE_INTOVF''), (3, ''FPE_FLTDIV''),
     (4, ''FPE_FLTOVF''), (5, ''FPE_FLTUND''), (6, ''FPE_FLTRES''), (7, ''FPE_FLTINV''),
     (8, ''FPE_FLTSUB''), (14, ''FPE_FLTUNK''), (15, ''FPE_CONDTRAP'')]"

definition poll_event :: "nat \<Rightarrow> string" where
  "poll_event raw = enum_label [(0x001, ''POLLIN''), (0x002, ''POLLPRI''), (0x004, ''POLLOUT''),
     (0x2000, ''POLLRDHUP''), (0x008, ''POLLERR''), (0x010, ''POLLHUP''), (0x020, ''POLLNVAL''),
     (0x200, ''POLLWRBAND'')] (int raw)"

text \<open>
  The loop over the bits of the events, from the lowest to the one before the highest of the type.
\<close>

fun poll_loop :: "nat \<Rightarrow> nat list \<Rightarrow> string \<Rightarrow> string" where
  "poll_loop events [] acc = acc"
| "poll_loop events (n # ns) acc =
     (if bit events n
      then poll_loop events ns ((if n \<noteq> 0 then acc @ ''|'' else acc) @ poll_event (2 ^ n))
      else poll_loop events ns acc)"

definition poll_events :: "fmt_lib \<Rightarrow> nat \<Rightarrow> string" where
  "poll_events L events = poll_loop events [0..<fl_poll_width L - 1] []"

section \<open>Signal information\<close>

text \<open>
  \<open>cosmos::SigInfo\<close>: which of the data it offers depends on the signal; \<open>sg_kernel\<close> says that its source
  is \<open>KERNEL\<close>, the raw fields are those of \<open>siginfo_t\<close>.
\<close>

record process_ctx =
  pc_pid :: int
  pc_uid :: nat

record custom_data =
  cd_int :: int
  cd_ptr :: word64

datatype sig_data =
    UserSig process_ctx
  | QueueSig process_ctx custom_data
  | MsgQueueSig process_ctx custom_data
  | TimerSig int int
  | SysSig int word64 int int int
  | ChildSig int process_ctx "signal option" "int option" "int option"
  | PollSig int int nat
  | IllSig int word64
  | FPESig int word64
  | SegvSig int word64 "(word64 \<times> word64) option" "nat option"
  | BusSig int word64 "int option"
  | OtherSig

record sig_info =
  sg_nr :: signal
  sg_kernel :: bool
  sg_source :: int
  sg_code :: int
  sg_status :: int
  sg_data :: sig_data

text \<open>A pointer in \<open>std::format\<close> and on an output stream.\<close>

definition ptr_str :: "word64 \<Rightarrow> string" where
  "ptr_str p = ''0x'' @ hex_str (unat p)"

definition ostream_ptr :: "word64 \<Rightarrow> string" where
  "ostream_ptr p = (if p = 0 then ''0'' else ptr_str p)"

definition add_process_ctx :: "process_ctx \<Rightarrow> string" where
  "add_process_ctx ctx = '', si_pid='' @ int_str (pc_pid ctx) @ '', si_uid='' @ nat_str (pc_uid ctx)"

definition add_custom_data :: "custom_data \<Rightarrow> string" where
  "add_custom_data d = '', si_int='' @ int_str (cd_int d) @ '', si_ptr='' @ ostream_ptr (cd_ptr d)"

definition add_fault_data :: "string \<Rightarrow> word64 \<Rightarrow> string" where
  "add_fault_data reason addr = '' ('' @ reason @ ''), si_addr='' @ ptr_str addr"

text \<open>
  The number of a trapped system call is the native one of the tracee; it is cast to the generic
  enumeration to get its name.
\<close>

definition call_nr_cast :: "int \<Rightarrow> sysnr" where
  "call_nr_cast nr = nat (nr mod 2 ^ 64)"

definition sig_data_str :: "fmt_lib \<Rightarrow> int \<Rightarrow> sig_data \<Rightarrow> exn + string" where
  "sig_data_str L status d = (case d of
     UserSig ctx \<Rightarrow> Inr (add_process_ctx ctx)
   | QueueSig ctx c \<Rightarrow> Inr (add_process_ctx ctx @ add_custom_data c)
   | MsgQueueSig ctx c \<Rightarrow> Inr (add_process_ctx ctx @ add_custom_data c)
   | TimerSig tid overrun \<Rightarrow> Inr ('', si_timerid='' @ int_str tid @ '', si_overrun='' @ int_str overrun)
   | SysSig reason addr nr arch err \<Rightarrow>
       map_sum id (\<lambda>name. '', reason='' @ si_reason_sys reason @ '', si_addr='' @ ptr_str addr @
         '', si_syscall='' @ int_str nr @ '' ('' @ name @ ''), si_arch='' @ format_ptrace_arch arch @
         '', si_errno='' @ int_str err) (SystemCall_name (call_nr_cast nr))
   | ChildSig event ctx sig utime stime \<Rightarrow>
       Inr ('' ('' @ child_event event @ '')'' @ add_process_ctx ctx @ '', si_status='' @ int_str status @
         (case sig of Some sg \<Rightarrow> '' ('' @ format_signal L False sg @ '')'' | None \<Rightarrow> '' (exit code)'') @
         (case utime of Some t \<Rightarrow> '', si_utime='' @ int_str t | None \<Rightarrow> []) @
         (case stime of Some t \<Rightarrow> '', si_stime='' @ int_str t | None \<Rightarrow> []))
   | PollSig reason fd events \<Rightarrow>
       Inr ('' ('' @ si_reason_poll reason @ ''), si_fd='' @ int_str fd @ '', si_band='' @ poll_events L events)
   | IllSig reason addr \<Rightarrow> Inr (add_fault_data (si_reason_ill reason) addr)
   | FPESig reason addr \<Rightarrow> Inr (add_fault_data (si_reason_fpe reason) addr)
   | SegvSig reason addr bound key \<Rightarrow>
       Inr (add_fault_data (si_reason_segv reason) addr @
         (case bound of Some (lo, hi) \<Rightarrow> '', si_lower='' @ ptr_str lo @ '', si_upper='' @ ptr_str hi | None \<Rightarrow> []) @
         (case key of Some k \<Rightarrow> '', si_pkey='' @ nat_str k | None \<Rightarrow> []))
   | BusSig reason addr lsb \<Rightarrow>
       Inr (add_fault_data (si_reason_bus reason) addr @
         (case lsb of Some b \<Rightarrow> '', si_addr_lsb='' @ int_str b | None \<Rightarrow> []))
   | OtherSig \<Rightarrow> Inr [])"

definition format_sig_info :: "fmt_lib \<Rightarrow> sig_info \<Rightarrow> exn + string" where
  "format_sig_info L info = map_sum id (\<lambda>t.
     ''{si_signo='' @ format_signal L False (sg_nr info) @ '', si_code='' @
     (if \<not> sg_kernel info \<or> sg_code info = 128 then si_code (sg_source info) else int_str (sg_code info)) @
     t @ ''}'') (sig_data_str L (sg_status info) (sg_data info))"

definition get_ptrace_event_str :: "ptrace_event \<Rightarrow> string" where
  "get_ptrace_event_str event = (case event of
     Ev_VFORK \<Rightarrow> ''VFORK'' | Ev_FORK \<Rightarrow> ''FORK'' | Ev_CLONE \<Rightarrow> ''CLONE'' | Ev_VFORK_DONE \<Rightarrow> ''VFORK_DONE''
   | Ev_EXEC \<Rightarrow> ''EXEC'' | Ev_EXIT \<Rightarrow> ''EXIT'' | Ev_STOP \<Rightarrow> ''STOP'' | Ev_SECCOMP \<Rightarrow> ''SECCOMP''
   | Ev_other n \<Rightarrow> ''??? unknown ???'')"

section \<open>Files and times\<close>

definition format_file_type :: "nat \<Rightarrow> string" where
  "format_file_type raw = (case map_of [(0xC000, ''S_IFSOCK''), (0xA000, ''S_IFLNK''), (0x8000, ''S_IFREG''),
     (0x6000, ''S_IFBLK''), (0x4000, ''S_IFDIR''), (0x2000, ''S_IFCHR''), (0x1000, ''S_IFIFO'')] raw of
     Some name \<Rightarrow> name | None \<Rightarrow> ''???'')"

definition file_mode_numeric :: "fmt_lib \<Rightarrow> nat \<Rightarrow> string" where
  "file_mode_numeric L mode = (if mode = 0 then ''0'' else fl_oct L mode 3)"

definition device_id :: "fmt_lib \<Rightarrow> word64 \<Rightarrow> string" where
  "device_id L dev = (let (ma, mi) = fl_split_device L dev in fl_hex L ma 2 @ '':'' @ fl_hex L mi 2)"

definition format_timespec :: "int \<Rightarrow> int \<Rightarrow> bool \<Rightarrow> string" where
  "format_timespec sec nsec only_secs =
     (if only_secs then int_str sec @ ''s'' else ''{'' @ int_str sec @ ''s, '' @ int_str nsec @ ''ns}'')"

definition format_timeval :: "int \<Rightarrow> int \<Rightarrow> bool \<Rightarrow> string" where
  "format_timeval sec usec only_secs =
     (if only_secs then int_str sec @ ''s'' else ''{'' @ int_str sec @ ''s, '' @ int_str usec @ ''us}'')"

section \<open>Buffers and pointers\<close>

definition HexChar :: "fmt_lib \<Rightarrow> nat \<Rightarrow> string" where
  "HexChar L ch = fl_hex_with L (CHR 0x5C # ''x'') ch 2"

definition control_char :: "nat \<Rightarrow> string" where
  "control_char ch = CHR 0x5C #
     (if ch = 10 then ''n'' else if ch = 13 then ''r'' else if ch = 11 then ''v'' else if ch = 9 then ''t''
      else if ch = 12 then ''f'' else if ch = 8 then ''b'' else ''?'')"

text \<open>\<open>isprint\<close> of the C locale.\<close>

definition isprint :: "nat \<Rightarrow> bool" where
  "isprint ch \<longleftrightarrow> 32 \<le> ch \<and> ch < 127"

definition buffer_char :: "fmt_lib \<Rightarrow> bool \<Rightarrow> byte \<Rightarrow> string" where
  "buffer_char L binary b =
     (let ch = unat b
      in if binary then HexChar L ch
         else if isprint ch then [char_of ch]
         else if is_space (char_of ch) then control_char ch
         else HexChar L ch)"

definition format_buffer :: "fmt_lib \<Rightarrow> bool \<Rightarrow> byte list \<Rightarrow> string" where
  "format_buffer L binary bs = [CHR 0x22] @ concat (map (buffer_char L binary) bs) @ [CHR 0x22]"

definition format_pointer :: "word64 \<Rightarrow> string" where
  "format_pointer p = (if p = 0 then ''NULL'' else ptr_str p)"

definition format_pointer_to :: "word64 \<Rightarrow> string \<Rightarrow> bool \<Rightarrow> string" where
  "format_pointer_to p data is_array =
     (if p = 0 then ''NULL''
      else format_pointer p @ '' '' @ [CHR 0xE2, CHR 0x86, CHR 0x92] @ '' '' @
        (if is_array then data else ''['' @ data @ '']''))"

section \<open>Descriptors\<close>

definition format_fd_type :: "fd_type \<Rightarrow> string" where
  "format_fd_type t = (case t of
     FD_NONE \<Rightarrow> ''INVALID'' | FS_PATH \<Rightarrow> ''FS_PATH'' | EVENT_FD \<Rightarrow> ''EVENT_FD'' | TIMER_FD \<Rightarrow> ''TIMER_FD''
   | SIGNAL_FD \<Rightarrow> ''SIGNAL_FD'' | SOCKET \<Rightarrow> ''SOCKET'' | EPOLL \<Rightarrow> ''EPOLL'' | PIPE \<Rightarrow> ''PIPE''
   | INOTIFY \<Rightarrow> ''INOTIFY'' | PID_FD \<Rightarrow> ''PID_FD'' | BPF_MAP \<Rightarrow> ''BPF_MAP'' | BPF_PROG \<Rightarrow> ''BPF_PROG''
   | PERF_EVENT \<Rightarrow> ''PERF_EVENT'' | FD_UNKNOWN \<Rightarrow> ''UNKNOWN'')"

definition format_fd_info :: "fd_info \<Rightarrow> string" where
  "format_fd_info info =
     (if fi_type info = FS_PATH then ''<'' @ takeWhile (\<lambda>ch. ch \<noteq> CHR 0x00) (fi_path info) @ ''>''
      else if fi_type info = PIPE
      then ''<'' @ format_fd_type (fi_type info) @ '','' @ (if fi_mode info = Some 0 then ''ro'' else ''wronly'') @ ''>''
      else ''<'' @ format_fd_type (fi_type info) @ ''>'')"

end
