(* ===== verification/Term_Conf.thy ===== *)
theory Term_Conf
  imports System_Call Tracee_Core Format
begin

text \<open>
  The command line of the terminal tracer (src/termtracer/Args.hxx, Args.cxx) and what it sets up:
  \<open>processPars\<close> and the lists of system calls and ABIs that some options print
  (src/termtracer/TermTracer.cxx). Parsing the command line is the library TCLAP; an option that is
  given is \<open>Some\<close> of its value. What the tracer uses of libcosmos and libc, and the texts of items that
  the library computes from the fetched data, are the fields of \<open>tt_lib\<close>.
\<close>

section \<open>Options and configuration\<close>

record tt_args =
  a_attach_proc :: "pid option"
  a_follow_execve :: "string option"
  a_follow_children :: "string option"
  a_follow_threads :: bool
  a_follow_children_switch :: bool
  a_no_initial_threads_attach :: bool
  a_print_fd_info :: bool
  a_verbose :: bool
  a_max_value_len :: int
  a_list_syscalls :: bool
  a_list_abi_syscalls :: "string option"
  a_list_abis :: bool
  a_syscall_filter :: "string option"

text \<open>What TCLAP sets for an empty command line.\<close>

definition default_args :: tt_args where
  "default_args = \<lparr>a_attach_proc = None, a_follow_execve = None, a_follow_children = None,
     a_follow_threads = False, a_follow_children_switch = False, a_no_initial_threads_attach = False,
     a_print_fd_info = False, a_verbose = False, a_max_value_len = 64, a_list_syscalls = False,
     a_list_abi_syscalls = None, a_list_abis = False, a_syscall_filter = None\<rparr>"

definition getABIs :: "string list" where
  "getABIs = [''i386'', ''x86-64'', ''x32'', ''aarch64'']"

datatype follow_exec = FE_YES | FE_NO | FE_ASK | FE_CHECK_PATH | FE_CHECK_GLOB

datatype follow_child = FC_YES | FC_NO | FC_ASK | FC_THREADS

text \<open>The members that do not change after \<open>processPars\<close>; \<open>m_args\<close> is kept for the switches read later.\<close>

record tt_conf =
  tc_args :: tt_args
  tc_print_pars :: bool
  tc_par_truncation_len :: nat
  tc_exec_context_arg :: string
  tc_syscall_filter :: "sysnr set"
  tc_follow_exec :: follow_exec
  tc_follow_children :: follow_child
  tc_fd_info :: bool

definition initial_conf :: "tt_args \<Rightarrow> tt_conf" where
  "initial_conf args = \<lparr>tc_args = args, tc_print_pars = True, tc_par_truncation_len = 64,
     tc_exec_context_arg = [], tc_syscall_filter = {}, tc_follow_exec = FE_YES,
     tc_follow_children = FC_NO, tc_fd_info = False\<rparr>"

record tt_lib =
  lb_split :: "string \<Rightarrow> string \<Rightarrow> string list"
  lb_is_prefix :: "string \<Rightarrow> string \<Rightarrow> bool"
  lb_fnmatch :: "string \<Rightarrow> string \<Rightarrow> bool"
  lb_pid_str :: "pid \<Rightarrow> string"
  lb_signal_str :: "signal \<Rightarrow> string"
  lb_fmt :: fmt_lib
  lb_item_str :: "item \<Rightarrow> string"
  lb_item_desc :: "item \<Rightarrow> string"
  lb_errno_names :: "string list"
  lb_wait_status :: "child_state \<Rightarrow> wait_status"
  lb_what :: "exn \<Rightarrow> string"

definition quoted :: "string \<Rightarrow> string" where
  "quoted s = [CHR 0x27] @ s @ [CHR 0x27]"

definition nl :: string where
  "nl = [CHR 0x0A]"

section \<open>Lists of system calls\<close>

abbreviation (input) EXIT_SUCCESS :: int where "EXIT_SUCCESS \<equiv> 0"
abbreviation (input) EXIT_FAILURE :: int where "EXIT_FAILURE \<equiv> 1"

definition printSyscalls :: string where
  "printSyscalls = concat (map (\<lambda>name. name @ nl) (filter (\<lambda>name. name \<noteq> []) (tl SYSTEM_CALL_NAMES)))"

text \<open>
  The loop of \<open>printABISyscalls\<close> runs from \<open>_FIRST\<close> up to, not including, \<open>_LAST\<close>; \<open>abi_bounds\<close> are
  these two enumerators and the conversion of the ABI.
\<close>

fun abi_bounds :: "string \<Rightarrow> (nat \<times> nat \<times> (nat \<Rightarrow> sysnr)) option" where
  "abi_bounds abi_str =
     (if abi_str = ''i386'' then Some (0, 469, to_generic_i386)
      else if abi_str = ''x86-64'' then Some (0, 469, to_generic_x64)
      else if abi_str = ''x32'' then Some (X32_SYSCALL_BIT + 0, X32_SYSCALL_BIT + 547, to_generic_x32)
      else if abi_str = ''aarch64'' then Some (0, 469, to_generic_aarch64)
      else None)"

definition listed_syscalls :: "nat \<Rightarrow> nat \<Rightarrow> (nat \<Rightarrow> sysnr) \<Rightarrow> (nat \<times> sysnr) list" where
  "listed_syscalls lo hi to_gen =
     filter (\<lambda>(nr, gen). gen \<noteq> SYS_UNKNOWN) (map (\<lambda>nr. (nr, to_gen nr)) [lo..<hi])"

definition print_syscall :: "string \<Rightarrow> nat \<times> sysnr \<Rightarrow> string" where
  "print_syscall abi_str = (\<lambda>(nr, gen). (SYSTEM_CALL_NAMES ! gen) @ '' ('' @
     (if abi_str = ''x32'' then ''X32_SYSCALL_BIT + '' @ nat_str (unset_bit 30 nr)
      else nat_str nr) @ '')'' @ nl)"

definition printABISyscalls :: "string \<Rightarrow> exn + string" where
  "printABISyscalls abi_str = (case abi_bounds abi_str of
     None \<Rightarrow> Inl (RuntimeError ''unexpected abi string encountered'')
   | Some (lo, hi, to_gen) \<Rightarrow>
       Inr (concat (map (print_syscall abi_str) (listed_syscalls lo hi to_gen))))"

definition printABIs :: "arch_flags \<Rightarrow> exn + string" where
  "printABIs a = map_sum id (\<lambda>abis. concat (map (\<lambda>abi. get_abi_label abi @ nl) abis)) (get_supported_abis a)"

section \<open>Processing the options\<close>

text \<open>
  The three ways out of \<open>processPars\<close> besides an exception: it returns true, it returns false, or it
  throws an exit status. The strings are what it wrote to the standard output and the standard error.
\<close>

datatype pars_result = Configured tt_conf | Refused string | ExitWith int string string

definition bad_arg :: "string \<Rightarrow> string \<Rightarrow> pars_result" where
  "bad_arg name val = Refused (''bad argument to --'' @ name @ '': '' @ quoted val @ nl)"

definition process_max_len :: "tt_conf \<Rightarrow> tt_conf" where
  "process_max_len c =
     (let max_len = a_max_value_len (tc_args c)
      in if max_len = 0 then c\<lparr>tc_print_pars := False\<rparr>
         else if max_len < 0 then c\<lparr>tc_par_truncation_len := 2 ^ 64 - 1\<rparr>
         else c\<lparr>tc_par_truncation_len := nat max_len\<rparr>)"

definition process_follow_exec :: "tt_lib \<Rightarrow> tt_conf \<Rightarrow> tt_conf + string" where
  "process_follow_exec L c = (case a_follow_execve (tc_args c) of
     None \<Rightarrow> Inl c
   | Some follow \<Rightarrow>
       if follow = ''yes'' then Inl (c\<lparr>tc_follow_exec := FE_YES\<rparr>)
       else if follow = ''no'' then Inl (c\<lparr>tc_follow_exec := FE_NO\<rparr>)
       else if follow = ''ask'' then Inl (c\<lparr>tc_follow_exec := FE_ASK\<rparr>)
       else if lb_is_prefix L follow ''path:''
       then Inl (c\<lparr>tc_follow_exec := FE_CHECK_PATH, tc_exec_context_arg := drop 5 follow\<rparr>)
       else if lb_is_prefix L follow ''glob:''
       then Inl (c\<lparr>tc_follow_exec := FE_CHECK_GLOB, tc_exec_context_arg := drop 5 follow\<rparr>)
       else Inr follow)"

definition follow_child_of :: "string \<Rightarrow> follow_child option" where
  "follow_child_of follow =
     (if follow = ''yes'' then Some FC_YES
      else if follow = ''no'' then Some FC_NO
      else if follow = ''ask'' then Some FC_ASK
      else if follow = ''threads'' then Some FC_THREADS
      else None)"

text \<open>\<open>Inr\<close> is the result of the function that ends here.\<close>

definition process_follow_children :: "tt_conf \<Rightarrow> tt_conf + pars_result" where
  "process_follow_children c =
     (let args = tc_args c
      in if a_follow_children args \<noteq> None \<and> a_follow_children_switch args
         then Inr (Refused (''cannot set both '' @ quoted ''-f'' @ '' and '' @ quoted ''--follow-children'' @ nl))
         else if a_follow_children_switch args then Inl (c\<lparr>tc_follow_children := FC_YES\<rparr>)
         else case a_follow_children args of
           None \<Rightarrow> Inl c
         | Some follow \<Rightarrow> (case follow_child_of follow of
             None \<Rightarrow> Inr (bad_arg ''follow-children'' follow)
           | Some m \<Rightarrow> Inl (c\<lparr>tc_follow_children := m\<rparr>)))"

definition process_follow_threads :: "tt_conf \<Rightarrow> tt_conf + pars_result" where
  "process_follow_threads c =
     (if a_follow_threads (tc_args c)
      then if tc_follow_children c \<noteq> FC_NO
           then Inr (Refused (''cannot combine '' @ quoted ''--threads'' @ '' with '' @ quoted ''-f'' @ '' or '' @
             quoted ''--follow-children'' @ nl))
           else Inl (c\<lparr>tc_follow_children := FC_THREADS\<rparr>)
      else Inl c)"

text \<open>The loop over the parts of a filter: the numbers to add and to remove, or the first bad name.\<close>

fun filter_parts :: "string list \<Rightarrow> sysnr list \<Rightarrow> sysnr list \<Rightarrow> string + sysnr list \<times> sysnr list" where
  "filter_parts [] to_add to_remove = Inr (to_add, to_remove)"
| "filter_parts (part # parts) to_add to_remove =
     (if take 1 part = ''!''
      then case lookup_system_call (drop 1 part) of
             None \<Rightarrow> Inl (drop 1 part)
           | Some nr \<Rightarrow> filter_parts parts to_add (to_remove @ [nr])
      else case lookup_system_call part of
             None \<Rightarrow> Inl part
           | Some nr \<Rightarrow> filter_parts parts (to_add @ [nr]) to_remove)"

definition process_filter :: "tt_lib \<Rightarrow> tt_conf \<Rightarrow> tt_conf + pars_result" where
  "process_filter L c = (case a_syscall_filter (tc_args c) of
     None \<Rightarrow> Inl c
   | Some f \<Rightarrow> (case filter_parts (lb_split L f '','') [] [] of
       Inl name \<Rightarrow> Inr (ExitWith EXIT_FAILURE [] (''invalid system call name: '' @ name @ nl))
     | Inr (to_add, to_remove) \<Rightarrow>
         Inl (c\<lparr>tc_syscall_filter := (tc_syscall_filter c \<union> set to_add) - set to_remove\<rparr>)))"

definition process_lists :: "arch_flags \<Rightarrow> tt_args \<Rightarrow> (exn + pars_result) option" where
  "process_lists a args =
     (if a_list_syscalls args then Some (Inr (ExitWith EXIT_SUCCESS printSyscalls []))
      else if a_list_abis args then Some (map_sum id (\<lambda>t. ExitWith EXIT_SUCCESS t []) (printABIs a))
      else map_option (\<lambda>abi. map_sum id (\<lambda>t. ExitWith EXIT_SUCCESS t []) (printABISyscalls abi))
        (a_list_abi_syscalls args))"

definition processPars :: "arch_flags \<Rightarrow> tt_lib \<Rightarrow> tt_conf \<Rightarrow> exn + pars_result" where
  "processPars a L c = (case process_lists a (tc_args c) of
     Some r \<Rightarrow> r
   | None \<Rightarrow> Inr (case process_follow_exec L (process_max_len c) of
       Inr follow \<Rightarrow> bad_arg ''follow-execve'' follow
     | Inl c1 \<Rightarrow> (case process_follow_children c1 of
         Inr r \<Rightarrow> r
       | Inl c2 \<Rightarrow> (case process_follow_threads c2 of
           Inr r \<Rightarrow> r
         | Inl c3 \<Rightarrow> (case process_filter L c3 of
             Inr r \<Rightarrow> r
           | Inl c4 \<Rightarrow> Configured (c4\<lparr>tc_fd_info := a_print_fd_info (tc_args c)\<rparr>))))))"

text \<open>The last system call of every ABI is assigned, but never listed.\<close>

lemma assigned: "range_ok t \<Longrightarrow> (n, g) \<in> set t \<Longrightarrow>
    (case map_of t n of None \<Rightarrow> SYS_UNKNOWN | Some g' \<Rightarrow> g') \<noteq> SYS_UNKNOWN"
  by (force simp: weak_map_of_SomeI map_of_eq_None_iff dest: range_ok_map_of split: option.split)

lemma last_assigned:
  "to_generic_i386 469 \<noteq> SYS_UNKNOWN" "to_generic_x64 469 \<noteq> SYS_UNKNOWN"
  "to_generic_x32 (X32_SYSCALL_BIT + 547) \<noteq> SYS_UNKNOWN" "to_generic_aarch64 469 \<noteq> SYS_UNKNOWN"
proof -
  have "(469, SYS_FILE_SETATTR) \<in> set i386_cases"
    by (simp add: i386_cases_def i386_cases_4_def)
  then show "to_generic_i386 469 \<noteq> SYS_UNKNOWN"
    unfolding to_generic_i386_def by (rule assigned [OF range_i386])
  have "(469, SYS_FILE_SETATTR) \<in> set x64_cases"
    by (simp add: x64_cases_def x64_cases_3_def)
  then show "to_generic_x64 469 \<noteq> SYS_UNKNOWN"
    unfolding to_generic_x64_def by (rule assigned [OF range_x64])
  have "(X32_SYSCALL_BIT + 547, SYS_PWRITEV2) \<in> set x32_cases"
    by (simp add: x32_cases_def x32_cases_3_def)
  then show "to_generic_x32 (X32_SYSCALL_BIT + 547) \<noteq> SYS_UNKNOWN"
    unfolding to_generic_x32_def by (rule assigned [OF range_x32])
  have "(469, SYS_FILE_SETATTR) \<in> set aarch64_cases"
    by (simp add: aarch64_cases_def aarch64_cases_3_def)
  then show "to_generic_aarch64 469 \<noteq> SYS_UNKNOWN"
    unfolding to_generic_aarch64_def by (rule assigned [OF range_aarch64])
qed

lemma list_abi_syscalls_omits_last:
  assumes "abi_bounds abi_str = Some (lo, hi, to_gen)"
  shows "to_gen hi \<noteq> SYS_UNKNOWN \<and> hi \<notin> fst ` set (listed_syscalls lo hi to_gen)"
  using assms last_assigned by (auto simp: listed_syscalls_def split: if_splits)

end
