(* ===== verification/Term_Tracer.thy ===== *)
theory Term_Tracer
  imports Term_Conf
begin

text \<open>
  The terminal tracer (src/termtracer/TermTracer.hxx, TermTracer.cxx): the client of the library that
  prints what the tracees do. Its members that change are the record \<open>tt\<close>; an output stream is the text
  written to it so far, the standard input the text still to be read. A callback gets the tracee and
  its process data as the engine shows them; \<open>tt_detached\<close> lists the tracees it called \<open>detach()\<close> on.
  \<open>tt_env\<close> holds what does not change during a callback: the configuration, the library functions and
  the system call objects that the stored pointers refer to.
\<close>

section \<open>State\<close>

record tt =
  tt_cerr :: string
  tt_cout :: string
  tt_cin :: string
  tt_active :: "(pid \<times> callref) option"
  tt_unfinished :: "(pid, callref) smap"
  tt_new :: "(pid, pid \<times> ptrace_event) smap"
  tt_num_tracees :: word64
  tt_seen_initial_exec :: bool
  tt_dropped_to_last :: bool
  tt_main_pid :: pid
  tt_main_status :: "wait_status option"
  tt_last_abi :: abi
  tt_detached :: "pid list"

definition initial_tt :: "string \<Rightarrow> tt" where
  "initial_tt input = \<lparr>tt_cerr = [], tt_cout = [], tt_cin = input, tt_active = None, tt_unfinished = [],
     tt_new = [], tt_num_tracees = 0, tt_seen_initial_exec = False, tt_dropped_to_last = False,
     tt_main_pid = PID_INVALID, tt_main_status = None, tt_last_abi = ABI_UNKNOWN, tt_detached = []\<rparr>"

record tt_env =
  en_lib :: tt_lib
  en_conf :: tt_conf
  en_calls :: "callref \<Rightarrow> syscall"

definition out :: "string \<Rightarrow> (tt, unit) prog" where
  "out t = updE (\<lambda>s. s\<lparr>tt_cerr := tt_cerr s @ t\<rparr>)"

definition say :: "string \<Rightarrow> (tt, unit) prog" where
  "say t = updE (\<lambda>s. s\<lparr>tt_cout := tt_cout s @ t\<rparr>)"

text \<open>\<open>cosmos::defer\<close>: the action runs when the scope is left, by an exception as well.\<close>

definition deferE :: "(tt \<Rightarrow> tt) \<Rightarrow> (tt, unit) prog \<Rightarrow> (tt, unit) prog" where
  "deferE f m = (\<lambda>s. let (r, s') = m s in (r, f s'))"

section \<open>Asking the user\<close>

text \<open>
  One round of \<open>ask_yes_no\<close> reads a word; the stream is not good any more when the end of the input
  was reached. The result is the number of rounds, the answer, and the input that is left.
\<close>

function ask_rounds :: "string \<Rightarrow> nat \<times> bool \<times> string" where
  "ask_rounds inp =
     (let t = dropWhile is_space inp;
          w = takeWhile (\<lambda>ch. \<not> is_space ch) t;
          rest = dropWhile (\<lambda>ch. \<not> is_space ch) t
      in if rest = [] \<or> w = ''n'' then (1, False, rest)
         else if w = ''y'' then (1, True, rest)
         else let (n, r) = ask_rounds rest in (n + 1, r))"
  by pat_completeness auto

lemma rest_shortens:
  assumes "dropWhile (\<lambda>x. \<not> P x) (dropWhile P xs) \<noteq> []"
  shows "length (dropWhile (\<lambda>x. \<not> P x) (dropWhile P xs)) < length xs"
proof -
  obtain y ys where y: "dropWhile P xs = y # ys" using assms by (cases "dropWhile P xs") auto
  then have "\<not> P y" by (metis hd_dropWhile list.distinct(1) list.sel(1))
  then have "length (dropWhile (\<lambda>x. \<not> P x) (y # ys)) \<le> length ys"
    by (simp add: length_dropWhile_le)
  moreover have "length (dropWhile P xs) \<le> length xs" by (rule length_dropWhile_le)
  ultimately show ?thesis using y by simp
qed

termination ask_rounds
  by (relation "measure length") (simp_all add: rest_shortens)

declare ask_rounds.simps [simp del]

definition ask_yes_no :: "(tt, bool) prog" where
  "ask_yes_no = bindE (askE (\<lambda>s. ask_rounds (tt_cin s))) (\<lambda>(n, answer, rest).
     seqE (say (concat (replicate n ''(y/n) > '')))
       (seqE (updE (\<lambda>s. s\<lparr>tt_cin := rest\<rparr>)) (ret answer)))"

section \<open>System calls in progress\<close>

definition activeSyscall :: "pid \<Rightarrow> tt \<Rightarrow> callref option" where
  "activeSyscall p s = (case tt_active s of
     None \<Rightarrow> None | Some (q, sc) \<Rightarrow> if q \<noteq> p then None else Some sc)"

definition hasActiveSyscall :: "pid \<Rightarrow> tt \<Rightarrow> bool" where
  "hasActiveSyscall p s \<longleftrightarrow> activeSyscall p s \<noteq> None"

definition findSyscall :: "tracee \<Rightarrow> tt \<Rightarrow> callref option" where
  "findSyscall t s = (case activeSyscall (t_pid t) s of
     Some sc \<Rightarrow> Some sc | None \<Rightarrow> smap_find (tt_unfinished s) (t_pid t))"

definition isExecSyscall :: "syscall \<Rightarrow> bool" where
  "isExecSyscall sc \<longleftrightarrow> sc_nr sc = SYS_EXECVE \<or> sc_nr sc = SYS_EXECVEAT"

definition currentSyscall :: "tracee \<Rightarrow> tt \<Rightarrow> callref option" where
  "currentSyscall t s =
     (case (case tt_active s of
              Some (pid, syscall) \<Rightarrow> if pid = t_pid t then Some syscall else None
            | None \<Rightarrow> None) of
        Some sc \<Rightarrow> Some sc
      | None \<Rightarrow> smap_find (tt_unfinished s) (t_pid t))"

definition isEnabled :: "tt_env \<Rightarrow> callref option \<Rightarrow> bool" where
  "isEnabled e sc = (case sc of
     None \<Rightarrow> False
   | Some r \<Rightarrow> if tc_syscall_filter (en_conf e) = {} then True
       else sc_nr (en_calls e r) \<in> tc_syscall_filter (en_conf e))"

definition storeUnfinishedSyscallCtx :: "tt_env \<Rightarrow> (tt, bool) prog" where
  "storeUnfinishedSyscallCtx e = bindE (askE tt_active) (\<lambda>a. case a of
     None \<Rightarrow> ret False
   | Some (pid, syscall) \<Rightarrow> seqE
       (updE (\<lambda>s. s\<lparr>tt_unfinished := smap_put pid syscall (tt_unfinished s), tt_active := None\<rparr>))
       (ret (isEnabled e (Some syscall))))"

definition startNewLine :: "tt_env \<Rightarrow> tracee \<Rightarrow> (tt, unit) prog" where
  "startNewLine e t = seqsE [
     bindE (storeUnfinishedSyscallCtx e) (\<lambda>unfinished.
       if unfinished then out ('' <...unfinished>'' @ nl) else skipE),
     bindE (askE tt_num_tracees) (\<lambda>n. if 1 < n
       then out (''['' @ lb_pid_str (en_lib e) (t_pid t) @ ''] '')
       else bindE (askE tt_dropped_to_last) (\<lambda>dropped. if dropped
         then seqE (updE (\<lambda>s. s\<lparr>tt_dropped_to_last := False\<rparr>))
           (out (''--- only PID '' @ lb_pid_str (en_lib e) (t_pid t) @ '' is remaining ---'' @ nl))
         else skipE))]"

definition traceStream :: "tt_env \<Rightarrow> tracee \<Rightarrow> bool \<Rightarrow> string \<Rightarrow> (tt, unit) prog" where
  "traceStream e t new_line text = seqE (if new_line then startNewLine e t else skipE) (out text)"

definition checkResumedSyscall :: "tt_env \<Rightarrow> tracee \<Rightarrow> (tt, unit) prog" where
  "checkResumedSyscall e t = bindE (askE (hasActiveSyscall (t_pid t))) (\<lambda>active.
     if active then skipE
     else bindE (askE (\<lambda>s. smap_find (tt_unfinished s) (t_pid t))) (\<lambda>node. case node of
       None \<Rightarrow> raise (Undefined ''assertion !node.empty() failed'')
     | Some r \<Rightarrow> seqsE [
         updE (\<lambda>s. s\<lparr>tt_unfinished := smap_erase (t_pid t) (tt_unfinished s)\<rparr>),
         traceStream e t True ''<resuming ...> '',
         bindE (liftE (SystemCall_name (sc_nr (en_calls e r)))) out,
         out (if hasOutParameter (en_calls e r) then ''(..., '' else ''(...'')]))"

definition cleanupTracee :: "tracee \<Rightarrow> (tt, unit) prog" where
  "cleanupTracee t = seqsE [
     bindE (askE (hasActiveSyscall (t_pid t))) (\<lambda>active. if active
       then updE (\<lambda>s. s\<lparr>tt_active := None\<rparr>)
       else updE (\<lambda>s. s\<lparr>tt_unfinished := smap_erase (t_pid t) (tt_unfinished s)\<rparr>)),
     updE (\<lambda>s. s\<lparr>tt_new := smap_erase (t_pid t) (tt_new s), tt_num_tracees := tt_num_tracees s - 1\<rparr>),
     updE (\<lambda>s. if tt_num_tracees s = 1 then s\<lparr>tt_dropped_to_last := True\<rparr> else s)]"

definition updateTracee :: "tracee \<Rightarrow> pid \<Rightarrow> (tt, unit) prog" where
  "updateTracee t old_pid = seqsE [
     updE (\<lambda>s. case activeSyscall old_pid s of
         Some sc \<Rightarrow> s\<lparr>tt_active := Some (t_pid t, sc)\<rparr>
       | None \<Rightarrow> (case smap_find (tt_unfinished s) old_pid of
           Some sc \<Rightarrow> s\<lparr>tt_unfinished := smap_erase old_pid (smap_put (t_pid t) sc (tt_unfinished s))\<rparr>
         | None \<Rightarrow> s)),
     updE (\<lambda>s. s\<lparr>tt_new := smap_erase (t_pid t) (tt_new s)\<rparr>),
     updE (\<lambda>s. case smap_find (tt_new s) old_pid of
         Some info \<Rightarrow> s\<lparr>tt_new := smap_erase old_pid (smap_put (t_pid t) info (tt_new s))\<rparr>
       | None \<Rightarrow> s)]"

definition abortSyscall :: "tt_env \<Rightarrow> tracee \<Rightarrow> (tt, unit) prog" where
  "abortSyscall e t = bindE (askE (\<lambda>s. isEnabled e (currentSyscall t s))) (\<lambda>is_enabled. seqsE [
     bindE (askE (hasActiveSyscall (t_pid t))) (\<lambda>active.
       if active then updE (\<lambda>s. s\<lparr>tt_active := None\<rparr>)
       else if is_enabled then checkResumedSyscall e t else skipE),
     if is_enabled then traceStream e t False ('') = ?'' @ nl) else skipE])"

definition checkABI :: "tt_env \<Rightarrow> arch_flags \<Rightarrow> tracee \<Rightarrow> sysinfo \<Rightarrow> (tt, unit) prog" where
  "checkABI e a t info = bindE (askE tt_last_abi) (\<lambda>last_abi.
     let report_abi = (if last_abi = ABI_UNKNOWN then \<not> is_default_abi a (si_abi info)
                       else si_abi info \<noteq> last_abi)
     in if report_abi
        then traceStream e t True (''[system call ABI changed to '' @ get_abi_label (si_abi info) @ '']'' @ nl)
        else skipE)"

section \<open>Parameters\<close>

definition printPar :: "tt_env \<Rightarrow> item \<Rightarrow> string" where
  "printPar e par = (if a_verbose (tc_args (en_conf e)) then lb_item_desc (en_lib e) par else it_name par) @
     (if tc_print_pars (en_conf e)
      then let n = tc_par_truncation_len (en_conf e);
               v = lb_item_str (en_lib e) par;
               short = take n v
           in ''='' @ (if n < length v
                       then short @ (if short \<noteq> [] \<and> hd short = CHR 0x22 then [CHR 0x22] else []) @ ''...''
                       else v)
      else [])"

primrec printParsOnEntry :: "tt_env \<Rightarrow> item list \<Rightarrow> string" where
  "printParsOnEntry e [] = []"
| "printParsOnEntry e (par # pars) =
     (if it_unused par then printParsOnEntry e pars
      else if \<not> isIn par then []
      else printPar e par @ (if pars = [] then [] else '', '') @ printParsOnEntry e pars)"

primrec pars_exit_loop :: "tt_env \<Rightarrow> bool \<Rightarrow> item list \<Rightarrow> string" where
  "pars_exit_loop e seen_non_input [] = []"
| "pars_exit_loop e seen_non_input (par # pars) =
     (if it_unused par then pars_exit_loop e seen_non_input pars
      else if \<not> seen_non_input \<and> isIn par then pars_exit_loop e seen_non_input pars
      else printPar e par @ (if pars = [] then [] else '', '') @ pars_exit_loop e True pars)"

definition printParsOnExit :: "tt_env \<Rightarrow> item list \<Rightarrow> string" where
  "printParsOnExit e pars = pars_exit_loop e False pars"

definition formatTraceeInvocation :: "string \<Rightarrow> string list \<Rightarrow> string" where
  "formatTraceeInvocation exe cmdline =
     exe @ '' ['' @ join '', '' (map (\<lambda>arg. [CHR 0x22] @ arg @ [CHR 0x22]) cmdline) @ '']''"

section \<open>Callbacks\<close>

definition to_label :: "ptrace_event \<Rightarrow> string" where
  "to_label event = (case event of
     Ev_VFORK \<Rightarrow> ''vfork()'' | Ev_FORK \<Rightarrow> ''fork()'' | Ev_CLONE \<Rightarrow> ''clone()'' | _ \<Rightarrow> ''???'')"

definition tt_syscallEntry ::
  "tt_env \<Rightarrow> arch_flags \<Rightarrow> tracee \<Rightarrow> callref \<Rightarrow> status_flag set \<Rightarrow> (tt, unit) prog"
where
  "tt_syscallEntry e a t r flags =
     (if \<not> isEnabled e (Some r) then skipE
      else deferE (\<lambda>s. s\<lparr>tt_active := Some (t_pid t, r)\<rparr>)
        (case t_info t of
           None \<Rightarrow> raise (Undefined ''dereference of an empty optional'')
         | Some info \<Rightarrow> bindE (seqE (checkABI e a t info)
               (seqE (updE (\<lambda>s. s\<lparr>tt_last_abi := si_abi info\<rparr>))
                 (seqE (traceStream e t True []) (liftE (SystemCall_name (sc_nr (en_calls e r)))))))
             (\<lambda>name. seqsE [
               if RESUMED \<in> flags
               then out (''<resuming previously interrupted '' @ name @ ''...>'' @ nl) else skipE,
               out (name @ ''(''),
               out (printParsOnEntry e (sc_pars (en_calls e r)))])))"

definition tt_syscallExit ::
  "tt_env \<Rightarrow> tracee \<Rightarrow> callref \<Rightarrow> status_flag set \<Rightarrow> (tt, unit) prog"
where
  "tt_syscallExit e t r flags =
     (let sc = en_calls e r
      in if isExecSyscall sc \<and> hasResultValue sc then skipE
      else if \<not> isEnabled e (Some r) then skipE
      else deferE (\<lambda>s. s\<lparr>tt_active := None\<rparr>) (seqsE [
        checkResumedSyscall e t,
        bindE (askE (\<lambda>s. tt_active s \<noteq> None \<and> \<not> hasActiveSyscall (t_pid t) s)) (\<lambda>need_newline.
          traceStream e t need_newline []),
        out (printParsOnExit e (sc_pars sc)),
        out '') = '',
        if hasResultValue sc
        then out (lb_item_str (en_lib e) (sc_ret sc) @ '' ('' @
          (if a_verbose (tc_args (en_conf e)) then lb_item_desc (en_lib e) (sc_ret sc) else it_name (sc_ret sc)) @
          '')'')
        else (case sc_error sc of
            None \<Rightarrow> raise (Undefined ''dereference of an empty optional'')
          | Some err \<Rightarrow> bindE (liftE (ErrnoResult_str (lb_errno_names (en_lib e)) err))
              (\<lambda>t. out (t @ '' (errno)''))),
        if INTERRUPTED \<in> flags then out '' (interrupted)'' else skipE,
        out nl]))"

definition tt_signaled :: "tt_env \<Rightarrow> tracee \<Rightarrow> sig_info \<Rightarrow> (tt, unit) prog" where
  "tt_signaled e t info = seqE (traceStream e t True (''-- '' @ format_signal (lb_fmt (en_lib e)) False (sg_nr info) @ '' ''))
     (bindE (liftE (format_sig_info (lb_fmt (en_lib e)) info)) (\<lambda>t. out (t @ '' --'' @ nl)))"

text \<open>The arrow is the UTF-8 encoding of U+2192.\<close>

definition arrow :: string where
  "arrow = [CHR 0xE2, CHR 0x86, CHR 0x92]"

definition tt_attached :: "tt_env \<Rightarrow> tracee \<Rightarrow> (tt, unit) prog" where
  "tt_attached e t = bindE (askE tt_num_tracees) (\<lambda>n. seqE
     (updE (\<lambda>s. s\<lparr>tt_num_tracees := n + 1\<rparr>))
     (if n = 0 then skipE
      else if t_attacher t \<noteq> None
      then traceStream e t True (arrow @ '' additionally attached thread'' @ nl)
      else bindE (askE (\<lambda>s. smap_find (tt_new s) (t_pid t))) (\<lambda>it. case it of
          Some (parent, event) \<Rightarrow> seqE
            (traceStream e t True (arrow @ '' automatically attached (created by PID '' @
               lb_pid_str (en_lib e) parent @ '' via '' @ to_label event @ '')'' @ nl))
            (updE (\<lambda>s. s\<lparr>tt_new := smap_erase (t_pid t) (tt_new s)\<rparr>))
        | None \<Rightarrow> traceStream e t True (''unknown Tracee '' @ int_str (t_pid t) @ '' attached?!''))))"

definition exited_with :: "int \<Rightarrow> string" where
  "exited_with n = ''+++ exited with '' @ int_str n @ '' +++'' @ nl"

definition killed_by :: "signal \<Rightarrow> string" where
  "killed_by sig = ''+++ killed by signal '' @ nat_str sig @ '' +++'' @ nl"

definition setMainStatus :: "tracee \<Rightarrow> wait_status \<Rightarrow> (tt, unit) prog" where
  "setMainStatus t status = updE (\<lambda>s. if t_pid t = tt_main_pid s
     then s\<lparr>tt_main_status := Some status\<rparr> else s)"

definition tt_exited ::
  "tt_env \<Rightarrow> tracee \<Rightarrow> wait_status \<Rightarrow> status_flag set \<Rightarrow> (tt, unit) prog"
where
  "tt_exited e t status flags = seqsE [
     if t_prev t = SYSCALL_ENTER_STOP then abortSyscall e t else skipE,
     if LOST_TO_MT_EXIT \<in> flags
     then traceStream e t True (''--- <lost to exit or execve in another thread> ---'' @ nl) else skipE,
     (case status of
        WExited n \<Rightarrow> seqE (traceStream e t True (exited_with n))
          (bindE (askE tt_seen_initial_exec) (\<lambda>seen. if seen then skipE
             else traceStream e t True (''!!! failed to execute the specified program'' @ nl)))
      | WSignaled sig \<Rightarrow> traceStream e t True (killed_by sig)),
     setMainStatus t status,
     cleanupTracee t]"

definition tt_stopped :: "tt_env \<Rightarrow> tracee \<Rightarrow> (tt, unit) prog" where
  "tt_stopped e t =
     (if t_ctr t = 0
      then case t_stop_signal t of
             None \<Rightarrow> raise (Undefined ''dereference of an empty optional'')
           | Some sig \<Rightarrow> traceStream e t True (''--- currently in stopped state due to '' @
               lb_signal_str (en_lib e) sig @ '' ---'' @ nl)
      else skipE)"

text \<open>The signal of a \<open>cosmos::ChildState\<close>: there is none when the child exited.\<close>

fun change_signal :: "child_change \<Rightarrow> signal option" where
  "change_signal (Killed sig) = Some sig"
| "change_signal (Dumped sig) = Some sig"
| "change_signal (Signaled sig) = Some sig"
| "change_signal (Trapped (Plain sig)) = Some sig"
| "change_signal (Trapped (EventStop sig ev)) = Some sig"
| "change_signal (Trapped SysTrap) = Some SIG_TRAP"
| "change_signal (Exited n) = None"
| "change_signal OtherChange = None"

definition tt_disappeared :: "tt_env \<Rightarrow> tracee \<Rightarrow> child_state \<Rightarrow> (tt, unit) prog" where
  "tt_disappeared e t d = seqsE [
     abortSyscall e t,
     traceStream e t True (''!!! disappeared (e.g. exit() or execve() in another thread)'' @ nl),
     (case ch_change d of
        Exited n \<Rightarrow> traceStream e t True (exited_with n)
      | ch \<Rightarrow> (case change_signal ch of
          None \<Rightarrow> raise (Undefined ''dereference of an empty optional'')
        | Some sig \<Rightarrow> traceStream e t True (killed_by sig))),
     setMainStatus t (lb_wait_status (en_lib e) d),
     cleanupTracee t]"

definition followExecutionContext :: "tt_env \<Rightarrow> process_data \<Rightarrow> (tt, bool) prog" where
  "followExecutionContext e pd = (case tc_follow_exec (en_conf e) of
     FE_YES \<Rightarrow> ret True
   | FE_NO \<Rightarrow> ret False
   | FE_ASK \<Rightarrow> seqE (say (''Follow into new execution context?'' @ nl)) ask_yes_no
   | FE_CHECK_PATH \<Rightarrow> ret (tc_exec_context_arg (en_conf e) = pd_exe pd)
   | FE_CHECK_GLOB \<Rightarrow> ret (lb_fnmatch (en_lib e) (tc_exec_context_arg (en_conf e)) (pd_exe pd)))"

definition clientDetach :: "tracee \<Rightarrow> (tt, unit) prog" where
  "clientDetach t = updE (\<lambda>s. s\<lparr>tt_detached := tt_detached s @ [t_pid t]\<rparr>)"

definition tt_newExecutionContext ::
  "tt_env \<Rightarrow> tracee \<Rightarrow> process_data \<Rightarrow> string \<Rightarrow> string list \<Rightarrow> pid option \<Rightarrow> (tt, unit) prog"
where
  "tt_newExecutionContext e t pd old_exe old_cmdline old_pid = seqsE [
     (case old_pid of Some old \<Rightarrow> updateTracee t old | None \<Rightarrow> skipE),
     bindE (askE (\<lambda>s. isEnabled e (currentSyscall t s))) (\<lambda>is_enabled. if is_enabled
       then seqE (checkResumedSyscall e t) (traceStream e t False ('') = 0 (success)'' @ nl))
       else skipE),
     updE (\<lambda>s. s\<lparr>tt_active := None\<rparr>),
     (case old_pid of
        Some old \<Rightarrow> traceStream e t True (''--- PID '' @ lb_pid_str (en_lib e) old @
          '' is now known as PID '' @ lb_pid_str (en_lib e) (t_pid t) @ '' ---'' @ nl)
      | None \<Rightarrow> skipE),
     bindE (askE tt_seen_initial_exec) (\<lambda>seen. if seen
       then traceStream e t True (''--- no longer running '' @
         formatTraceeInvocation old_exe old_cmdline @ '' ---'' @ nl)
       else skipE),
     traceStream e t True (''--- now running '' @
       formatTraceeInvocation (pd_exe pd) (pd_cmdline pd) @ '' ---'' @ nl),
     bindE (askE tt_seen_initial_exec) (\<lambda>seen. if \<not> seen
       then updE (\<lambda>s. s\<lparr>tt_seen_initial_exec := True\<rparr>)
       else bindE (followExecutionContext e pd) (\<lambda>follow. if follow then skipE
         else seqE (traceStream e t True (''--- detaching after execve ---'' @ nl)) (clientDetach t)))]"

definition tt_newChildProcess ::
  "tt_env \<Rightarrow> tracee \<Rightarrow> process_data \<Rightarrow> tracee \<Rightarrow> ptrace_event \<Rightarrow> status_flag set \<Rightarrow> (tt, unit) prog"
where
  "tt_newChildProcess e parent pd child event flags = bindE
     (case tc_follow_children (en_conf e) of
        FC_ASK \<Rightarrow> seqE (traceStream e parent True (''Follow into new child process created by PID '' @
            lb_pid_str (en_lib e) (t_pid parent) @ '' via '' @ to_label event @ ''?'' @ nl))
          (seqE (say (''PID '' @ lb_pid_str (en_lib e) (t_pid parent) @ '' is '' @
              formatTraceeInvocation (pd_exe pd) (pd_cmdline pd) @ nl))
            (bindE ask_yes_no (\<lambda>yes. ret (if yes then FC_YES else FC_NO))))
      | FC_THREADS \<Rightarrow> ret (if CLONED_THREAD \<in> flags then FC_YES else FC_NO)
      | f \<Rightarrow> ret f)
     (\<lambda>follow. if follow = FC_YES
       then updE (\<lambda>s. s\<lparr>tt_new := snd (smap_insert (t_pid child) (t_pid parent, event) (tt_new s))\<rparr>)
       else clientDetach child)"

section \<open>Main program\<close>

text \<open>
  What the main function uses of the engine; the callbacks of the tracees change the state of the
  tracer while \<open>trace()\<close> runs.
\<close>

record tt_engine =
  eg_attach :: "pid \<Rightarrow> bool \<Rightarrow> bool \<Rightarrow> (tt, tracee \<times> process_data) prog"
  eg_start :: "string list \<Rightarrow> bool \<Rightarrow> (tt, tracee) prog"
  eg_trace :: "(tt, unit) prog"

definition attachFailed :: "tt_env \<Rightarrow> pid \<Rightarrow> exn \<Rightarrow> string" where
  "attachFailed e pid x =
     ''Failed to attach to PID '' @ lb_pid_str (en_lib e) pid @ '': '' @ lb_what (en_lib e) x @ nl @
     (if x = ApiError 1
      then ''You need to be root to attach to processes not owned by you'' @ nl @
        ''The YAMA kernel security extension can also prevent attaching your own processes.'' @ nl @
        ''This also happens when another process is already tracing this process.'' @ nl
      else [])"

definition configureTracee :: "tt_env \<Rightarrow> tt_engine \<Rightarrow> pid \<Rightarrow> (tt, bool) prog" where
  "configureTracee e g pid =
     (let follow = (tc_follow_children (en_conf e) \<noteq> FC_NO)
      in seqE (updE (\<lambda>s. s\<lparr>tt_seen_initial_exec := True\<rparr>))
        (bindE (catchE is_ApiError
            (bindE (eg_attach g pid follow (follow \<and> \<not> a_no_initial_threads_attach (tc_args (en_conf e))))
              (\<lambda>x. ret (Some x)))
            (\<lambda>x. seqE (out (attachFailed e pid x)) (ret None)))
          (\<lambda>r. case r of
             None \<Rightarrow> ret False
           | Some (t, pd) \<Rightarrow> seqE (traceStream e t False (''--- tracing '' @
                formatTraceeInvocation (pd_exe pd) (pd_cmdline pd) @ '' ---'' @ nl))
              (seqE (updE (\<lambda>s. s\<lparr>tt_main_pid := t_pid t\<rparr>)) (ret True)))))"

text \<open>The arguments after the separator.\<close>

fun command_args :: "bool \<Rightarrow> string list \<Rightarrow> string list" where
  "command_args found_sep [] = []"
| "command_args found_sep (arg # args) =
     (if found_sep then arg # command_args found_sep args
      else if arg = ''--'' then command_args True args
      else command_args found_sep args)"

definition exit_status :: "wait_status option \<Rightarrow> int" where
  "exit_status st = (case st of
     None \<Rightarrow> EXIT_SUCCESS
   | Some (WExited n) \<Rightarrow> n
   | Some (WSignaled sig) \<Rightarrow> 128 + int sig)"

definition tt_run :: "tt_env \<Rightarrow> tt_engine \<Rightarrow> string list \<Rightarrow> (tt, int) prog" where
  "tt_run e g argv = bindE
     (case a_attach_proc (tc_args (en_conf e)) of
        Some pid \<Rightarrow> configureTracee e g pid
      | None \<Rightarrow> (case command_args False (drop 1 argv) of
          [] \<Rightarrow> seqE (out (''Neither -p nor command to execute after '' @ quoted ''--'' @
              '' was given. Nothing to do.'' @ nl)) (ret False)
        | sv \<Rightarrow> catchE is_CosmosError
            (bindE (eg_start g sv (tc_follow_children (en_conf e) \<noteq> FC_NO))
              (\<lambda>t. seqE (updE (\<lambda>s. s\<lparr>tt_main_pid := t_pid t\<rparr>)) (ret True)))
            (\<lambda>x. seqE (out (lb_what (en_lib e) x @ nl)) (ret False))))
     (\<lambda>ok. if \<not> ok then ret EXIT_FAILURE
       else catchE is_std_exception
         (seqE (eg_trace g) (askE (\<lambda>s. exit_status (tt_main_status s))))
         (\<lambda>x. seqE (out (''internal tracing error: '' @ lb_what (en_lib e) x @ nl)) (ret EXIT_FAILURE)))"

definition tt_main ::
  "arch_flags \<Rightarrow> tt_lib \<Rightarrow> (callref \<Rightarrow> syscall) \<Rightarrow> tt_engine \<Rightarrow> tt_args \<Rightarrow> string list \<Rightarrow> (tt, int) prog"
where
  "tt_main a L calls g args argv = bindE (liftE (processPars a L (initial_conf args))) (\<lambda>r. case r of
     Refused t \<Rightarrow> seqE (out t) (ret EXIT_FAILURE)
   | ExitWith code o_text e_text \<Rightarrow> seqE (say o_text) (seqE (out e_text) (ret code))
   | Configured c \<Rightarrow> tt_run \<lparr>en_lib = L, en_conf = c, en_calls = calls\<rparr> g argv)"

end
