(* ===== verification/Term_Tracer_Sim.thy ===== *)
theory Term_Tracer_Sim
  imports Term_Tracer
begin

text \<open>
  What the terminal tracer promises about its output. The printed system calls that have not been
  finished yet, wherever the code keeps them, are the map \<open>pending\<close>; \<open>spec_step\<close> says what each
  callback means to do to it, and sequences of callbacks are a simulation of the specification. The
  invariant is about the output: unless a line is kept open for a call, the output is at the start of
  a line.
\<close>

section \<open>Callbacks as events\<close>

datatype tt_event =
    CbEntry tracee callref "status_flag set"
  | CbExit tracee callref "status_flag set"
  | CbSignaled tracee sig_info
  | CbAttached tracee
  | CbExited tracee wait_status "status_flag set"
  | CbStopped tracee
  | CbDisappeared tracee child_state
  | CbNewExec tracee process_data string "string list" "pid option"
  | CbNewChild tracee process_data tracee ptrace_event "status_flag set"

primrec tt_callback :: "tt_env \<Rightarrow> arch_flags \<Rightarrow> tt_event \<Rightarrow> (tt, unit) prog" where
  "tt_callback e a (CbEntry t r f) = tt_syscallEntry e a t r f"
| "tt_callback e a (CbExit t r f) = tt_syscallExit e t r f"
| "tt_callback e a (CbSignaled t info) = tt_signaled e t info"
| "tt_callback e a (CbAttached t) = tt_attached e t"
| "tt_callback e a (CbExited t st f) = tt_exited e t st f"
| "tt_callback e a (CbStopped t) = tt_stopped e t"
| "tt_callback e a (CbDisappeared t d) = tt_disappeared e t d"
| "tt_callback e a (CbNewExec t pd exe cmdline old) = tt_newExecutionContext e t pd exe cmdline old"
| "tt_callback e a (CbNewChild t pd child ev f) = tt_newChildProcess e t pd child ev f"

text \<open>A run: each event comes with the system call objects at that moment.\<close>

definition tt_events ::
  "tt_env \<Rightarrow> arch_flags \<Rightarrow> ((callref \<Rightarrow> syscall) \<times> tt_event) list \<Rightarrow> (tt, unit) prog"
where
  "tt_events e a evs = forE evs (\<lambda>(calls, ev). tt_callback (e\<lparr>en_calls := calls\<rparr>) a ev)"

section \<open>The specification\<close>

definition pending :: "tt \<Rightarrow> pid \<Rightarrow> callref option" where
  "pending s = (case tt_active s of
     None \<Rightarrow> smap_find (tt_unfinished s) | Some (p, r) \<Rightarrow> (smap_find (tt_unfinished s))(p \<mapsto> r))"

definition rekey :: "pid option \<Rightarrow> pid \<Rightarrow> (pid \<Rightarrow> callref option) \<Rightarrow> pid \<Rightarrow> callref option" where
  "rekey old p m = (case old of
     None \<Rightarrow> m | Some q \<Rightarrow> (case m q of None \<Rightarrow> m | Some r \<Rightarrow> m(q := None, p \<mapsto> r)))"

primrec spec_step ::
  "tt_env \<Rightarrow> tt_event \<Rightarrow> (pid \<Rightarrow> callref option) \<Rightarrow> pid \<Rightarrow> callref option"
where
  "spec_step e (CbEntry t r f) m = (if isEnabled e (Some r) then m(t_pid t \<mapsto> r) else m)"
| "spec_step e (CbExit t r f) m =
     (if (isExecSyscall (en_calls e r) \<and> hasResultValue (en_calls e r)) \<or> \<not> isEnabled e (Some r) then m
      else m(t_pid t := None))"
| "spec_step e (CbSignaled t info) m = m"
| "spec_step e (CbAttached t) m = m"
| "spec_step e (CbExited t st f) m = m(t_pid t := None)"
| "spec_step e (CbStopped t) m = m"
| "spec_step e (CbDisappeared t d) m = m(t_pid t := None)"
| "spec_step e (CbNewExec t pd exe cmdline old) m = (rekey old (t_pid t) m)(t_pid t := None)"
| "spec_step e (CbNewChild t pd child ev f) m = m"

text \<open>
  What the tracer relies on: a call is entered when none of the tracee is pending and left when one
  is, an execve is seen while its call is pending or no line is open, the leader that an execve
  replaces is gone, and an attached tracee was announced.
\<close>

primrec allowed :: "tt_env \<Rightarrow> tt_event \<Rightarrow> tt \<Rightarrow> bool" where
  "allowed e (CbEntry t r f) s =
     (\<not> isEnabled e (Some r) \<or> pending s (t_pid t) = None \<and> t_info t \<noteq> None)"
| "allowed e (CbExit t r f) s =
     (isExecSyscall (en_calls e r) \<and> hasResultValue (en_calls e r) \<or> \<not> isEnabled e (Some r) \<or>
      pending s (t_pid t) \<noteq> None \<and> sc_error (en_calls e r) \<noteq> Some \<lparr>er_errno = None, er_kernel_errno = None\<rparr>)"
| "allowed e (CbSignaled t info) s = (\<exists>u. format_sig_info (lb_fmt (en_lib e)) info = Inr u)"
| "allowed e (CbAttached t) s =
     (tt_num_tracees s = 0 \<or> t_attacher t \<noteq> None \<or> smap_find (tt_new s) (t_pid t) \<noteq> None)"
| "allowed e (CbExited t st f) s = True"
| "allowed e (CbStopped t) s = (t_ctr t \<noteq> 0 \<or> t_stop_signal t \<noteq> None)"
| "allowed e (CbDisappeared t d) s = (case ch_change d of Exited n \<Rightarrow> True | ch \<Rightarrow> change_signal ch \<noteq> None)"
| "allowed e (CbNewExec t pd exe cmdline old) s =
     ((case old of None \<Rightarrow> True | Some q \<Rightarrow> q \<noteq> t_pid t \<and> pending s (t_pid t) = None) \<and>
      (tt_active s = None \<or> pending s (case old of None \<Rightarrow> t_pid t | Some q \<Rightarrow> q) \<noteq> None))"
| "allowed e (CbNewChild t pd child ev f) s = True"

text \<open>Numbers of system call objects never change, and all of them have a name.\<close>

definition calls_keep :: "(callref \<Rightarrow> sysnr) \<Rightarrow> (callref \<Rightarrow> syscall) \<Rightarrow> bool" where
  "calls_keep nr calls \<longleftrightarrow> (\<forall>r. sc_nr (calls r) = nr r \<and> nr r < SYSTEM_CALL_COUNT)"

primrec conforms ::
  "tt_env \<Rightarrow> arch_flags \<Rightarrow> (callref \<Rightarrow> sysnr) \<Rightarrow> ((callref \<Rightarrow> syscall) \<times> tt_event) list \<Rightarrow> tt \<Rightarrow> bool"
where
  "conforms e a nr [] s = True"
| "conforms e a nr (ce # evs) s =
     (calls_keep nr (fst ce) \<and> allowed (e\<lparr>en_calls := fst ce\<rparr>) (snd ce) s \<and>
      conforms e a nr evs (snd (tt_callback (e\<lparr>en_calls := fst ce\<rparr>) a (snd ce) s)))"

section \<open>Assertions\<close>

definition fresh_line :: "string \<Rightarrow> bool" where
  "fresh_line text \<longleftrightarrow> text = [] \<or> last text = CHR 0x0A"

definition shown :: "tt_conf \<Rightarrow> (callref \<Rightarrow> sysnr) \<Rightarrow> callref \<Rightarrow> bool" where
  "shown c nr r \<longleftrightarrow> tc_syscall_filter c = {} \<or> nr r \<in> tc_syscall_filter c"

definition all_shown :: "tt_conf \<Rightarrow> (callref \<Rightarrow> sysnr) \<Rightarrow> (pid \<Rightarrow> callref option) \<Rightarrow> bool" where
  "all_shown c nr m \<longleftrightarrow> (\<forall>p r. m p = Some r \<longrightarrow> shown c nr r)"

definition tt_ok :: "tt_conf \<Rightarrow> (callref \<Rightarrow> sysnr) \<Rightarrow> tt \<Rightarrow> bool" where
  "tt_ok c nr s \<longleftrightarrow>
     (\<forall>p r. tt_active s = Some (p, r) \<longrightarrow> smap_find (tt_unfinished s) p = None) \<and>
     all_shown c nr (pending s) \<and> (tt_active s = None \<longrightarrow> fresh_line (tt_cerr s))"

text \<open>\<open>tt_inv\<close> holds between callbacks; in a callback, \<open>tt_lined\<close> says that no call is active, \<open>tt_mid\<close> that
  only the line of one tracee may be open.\<close>

definition tt_inv :: "tt_conf \<Rightarrow> (callref \<Rightarrow> sysnr) \<Rightarrow> (pid \<Rightarrow> callref option) \<Rightarrow> tt \<Rightarrow> bool" where
  "tt_inv c nr m s \<longleftrightarrow> tt_ok c nr s \<and> pending s = m"

definition tt_lined :: "tt_conf \<Rightarrow> (callref \<Rightarrow> sysnr) \<Rightarrow> (pid \<Rightarrow> callref option) \<Rightarrow> tt \<Rightarrow> bool" where
  "tt_lined c nr m s \<longleftrightarrow> tt_active s = None \<and> smap_find (tt_unfinished s) = m \<and>
     all_shown c nr m"

definition tt_closed :: "tt_conf \<Rightarrow> (callref \<Rightarrow> sysnr) \<Rightarrow> (pid \<Rightarrow> callref option) \<Rightarrow> tt \<Rightarrow> bool" where
  "tt_closed c nr m s \<longleftrightarrow> tt_lined c nr m s \<and> fresh_line (tt_cerr s)"

definition tt_mid :: "tt_conf \<Rightarrow> (callref \<Rightarrow> sysnr) \<Rightarrow> pid \<Rightarrow> (pid \<Rightarrow> callref option) \<Rightarrow> tt \<Rightarrow> bool" where
  "tt_mid c nr p m s \<longleftrightarrow> (\<forall>q r. tt_active s = Some (q, r) \<longrightarrow> q = p) \<and>
     smap_find (tt_unfinished s) = m \<and> all_shown c nr m"

lemmas assertion_defs = tt_inv_def tt_lined_def tt_closed_def tt_mid_def tt_ok_def

lemma nl_simps [simp]: "fresh_line nl" "nl \<noteq> []" "fresh_line []"
  by (simp_all add: fresh_line_def nl_def)

lemma fresh_join [simp]:
  "u \<noteq> [] \<Longrightarrow> fresh_line (t @ u) = fresh_line u" "u \<noteq> [] \<Longrightarrow> fresh_line (ch # u) = fresh_line u"
  by (simp_all add: fresh_line_def)

lemma all_shown_upd [simp]:
  "all_shown c nr m \<Longrightarrow> all_shown c nr (m(p := None))"
  "all_shown c nr m \<Longrightarrow> shown c nr r \<Longrightarrow> all_shown c nr (m(p \<mapsto> r))"
  by (simp_all add: all_shown_def)

lemma all_shownD: "all_shown c nr m \<Longrightarrow> m p = Some r \<Longrightarrow> shown c nr r"
  by (simp add: all_shown_def)

lemma tt_inv_None: "tt_active s = None \<Longrightarrow>
    tt_inv c nr m s \<longleftrightarrow> smap_find (tt_unfinished s) = m \<and> all_shown c nr m \<and> fresh_line (tt_cerr s)"
  by (auto simp: assertion_defs pending_def)

lemma map_upd_swap: "f p = None \<and> f(p \<mapsto> r) = m \<longleftrightarrow> m p = Some r \<and> f = m(p := None)"
  by (auto simp: fun_eq_iff)

lemma tt_inv_Some: "tt_active s = Some (p, r) \<Longrightarrow>
    tt_inv c nr m s \<longleftrightarrow> m p = Some r \<and> smap_find (tt_unfinished s) = m(p := None) \<and> all_shown c nr m"
  using map_upd_swap [of "smap_find (tt_unfinished s)" p r m] by (auto simp: assertion_defs pending_def)

lemmas tt_inv_cases = tt_inv_None tt_inv_Some

lemma closed_inv: "tt_closed c nr m s \<Longrightarrow> tt_inv c nr m s"
  by (simp add: assertion_defs pending_def)

lemma inv_closed: "tt_inv c nr m s \<Longrightarrow> tt_active s = None \<Longrightarrow> tt_closed c nr m s"
  by (simp add: tt_inv_None tt_closed_def tt_lined_def)

lemma currentSyscall_pending: "currentSyscall t s = pending s (t_pid t)"
  by (auto simp: currentSyscall_def pending_def split: option.split prod.split)

lemma findSyscall_pending: "findSyscall t s = pending s (t_pid t)"
  by (auto simp: findSyscall_def activeSyscall_def pending_def split: option.split prod.split)

lemma isEnabled_shown: "calls_keep nr (en_calls e) \<Longrightarrow> isEnabled e (Some r) = shown (en_conf e) nr r"
  by (simp add: isEnabled_def shown_def calls_keep_def)

lemma isEnabled_pending:
  assumes "calls_keep nr (en_calls e)" "tt_inv (en_conf e) nr m s"
  shows "isEnabled e (pending s p) \<longleftrightarrow> m p \<noteq> None"
  using assms
  by (cases "m p") (auto simp: isEnabled_shown tt_inv_def tt_ok_def isEnabled_def [of e None] dest: all_shownD)

lemma gives_defer: "gives P m (\<lambda>_ s. Q () (f s)) \<Longrightarrow> gives P (deferE f m) Q"
  by (auto simp: hoare_def deferE_def Let_def split: prod.splits sum.splits)


section \<open>Operations\<close>

lemma lined_out: "gives (tt_lined c nr m) (out t) (\<lambda>_. tt_lined c nr m)"
  unfolding out_def by (rule gives_upd) (simp add: tt_lined_def)

lemma lined_out_fresh:
  "t \<noteq> [] \<Longrightarrow> fresh_line t \<Longrightarrow> gives (tt_lined c nr m) (out t) (\<lambda>_. tt_closed c nr m)"
  unfolding out_def by (rule gives_upd) (simp add: tt_closed_def tt_lined_def fresh_join)

lemma mid_out: "gives (tt_mid c nr p m) (out t) (\<lambda>_. tt_mid c nr p m)"
  unfolding out_def by (rule gives_upd) (simp add: tt_mid_def)

lemma mid_out_fresh: "t \<noteq> [] \<Longrightarrow> fresh_line t \<Longrightarrow>
    gives (tt_mid c nr p m) (out t) (\<lambda>_ s. tt_mid c nr p m s \<and> fresh_line (tt_cerr s))"
  unfolding out_def by (rule gives_upd) (simp add: tt_mid_def fresh_join)

lemma inv_frame:
  assumes "tt_inv c nr m s" "tt_active s' = tt_active s" "tt_unfinished s' = tt_unfinished s"
    "tt_cerr s' = tt_cerr s"
  shows "tt_inv c nr m s'"
  using assms by (cases "tt_active s") (auto simp: tt_inv_cases)

lemma inv_say: "gives (tt_inv c nr m) (say t) (\<lambda>_. tt_inv c nr m)"
  unfolding say_def by (rule gives_upd) (erule inv_frame, simp_all)

lemma inv_ask_yes_no: "gives (tt_inv c nr m) ask_yes_no (\<lambda>_. tt_inv c nr m)"
  unfolding ask_yes_no_def
proof (rule gives_ask)
  fix x :: "nat \<times> bool \<times> string"
  obtain n b rest where x: "x = (n, b, rest)" by (cases x) auto
  show "gives (\<lambda>s. tt_inv c nr m s \<and> ask_rounds (tt_cin s) = x)
    (case x of (n, answer, rest) \<Rightarrow> seqE (say (concat (replicate n ''(y/n) > '')))
       (seqE (updE (\<lambda>s. s\<lparr>tt_cin := rest\<rparr>)) (ret answer))) (\<lambda>_. tt_inv c nr m)"
    unfolding x prod.case
    by (rule gives_pre [OF hoare_seq [OF inv_say hoare_seq [OF gives_upd hoare_ret]]])
      (auto elim: inv_frame)
qed

lemma store_lined:
  "gives (tt_inv (en_conf e) nr m) (storeUnfinishedSyscallCtx e)
     (\<lambda>unf s. tt_lined (en_conf e) nr m s \<and> (unf \<or> \<not> calls_keep nr (en_calls e) \<or> fresh_line (tt_cerr s)))"
proof (rule givesI)
  fix s assume inv: "tt_inv (en_conf e) nr m s"
  show "\<exists>x s'. storeUnfinishedSyscallCtx e s = (Inr x, s') \<and> tt_lined (en_conf e) nr m s' \<and>
    (x \<or> \<not> calls_keep nr (en_calls e) \<or> fresh_line (tt_cerr s'))"
  proof (cases "tt_active s")
    case None
    with inv_closed [OF inv] show ?thesis
      by (auto simp: storeUnfinishedSyscallCtx_def prog_defs tt_closed_def)
  next
    case (Some a)
    obtain p r where a: "a = (p, r)" by (cases a)
    from inv Some a have "m p = Some r" "m = (smap_find (tt_unfinished s))(p \<mapsto> r)" "all_shown (en_conf e) nr m"
      by (auto simp: tt_inv_Some fun_eq_iff)
    with Some a show ?thesis
      by (auto simp: storeUnfinishedSyscallCtx_def prog_defs tt_lined_def isEnabled_shown dest: all_shownD)
  qed
qed

lemma startNewLine_lined:
  assumes "calls_keep nr (en_calls e)"
  shows "gives (tt_inv (en_conf e) nr m) (startNewLine e t) (\<lambda>_. tt_lined (en_conf e) nr m)"
  unfolding startNewLine_def seqsE.simps
proof (rule hoare_seq [OF hoare_bind [OF store_lined]])
  show "gives (\<lambda>s. tt_lined (en_conf e) nr m s \<and>
      (unf \<or> \<not> calls_keep nr (en_calls e) \<or> fresh_line (tt_cerr s)))
    (if unf then out ('' <...unfinished>'' @ nl) else skipE) (\<lambda>_. tt_lined (en_conf e) nr m)" for unf
    by (rule gives_if) (auto intro: gives_pre [OF lined_out] gives_skip)
next
  have upd: "gives (tt_lined (en_conf e) nr m) (updE (\<lambda>s. s\<lparr>tt_dropped_to_last := False\<rparr>))
      (\<lambda>_. tt_lined (en_conf e) nr m)"
    by (rule gives_upd) (simp add: tt_lined_def)
  show "gives (tt_lined (en_conf e) nr m) (seqE (bindE (askE tt_num_tracees) (\<lambda>n. if 1 < n
       then out (''['' @ lb_pid_str (en_lib e) (t_pid t) @ ''] '')
       else bindE (askE tt_dropped_to_last) (\<lambda>dropped. if dropped
         then seqE (updE (\<lambda>s. s\<lparr>tt_dropped_to_last := False\<rparr>))
           (out (''--- only PID '' @ lb_pid_str (en_lib e) (t_pid t) @ '' is remaining ---'' @ nl))
         else skipE))) skipE) (\<lambda>_. tt_lined (en_conf e) nr m)"
    by (intro hoare_seq [OF _ hoare_skip] gives_ask gives_if)
      (auto intro: gives_pre [OF lined_out] gives_pre [OF hoare_seq [OF upd lined_out]] gives_skip)
qed

lemma traceStream_lined:
  assumes "calls_keep nr (en_calls e)"
  shows "gives (tt_inv (en_conf e) nr m) (traceStream e t True text) (\<lambda>_. tt_lined (en_conf e) nr m)"
  unfolding traceStream_def if_True by (rule hoare_seq [OF startNewLine_lined [OF assms] lined_out])

lemma traceStream_closed:
  assumes "calls_keep nr (en_calls e)" "text \<noteq> []" "fresh_line text"
  shows "gives (tt_inv (en_conf e) nr m) (traceStream e t True text) (\<lambda>_. tt_closed (en_conf e) nr m)"
  unfolding traceStream_def if_True
  by (rule hoare_seq [OF startNewLine_lined [OF assms(1)] lined_out_fresh [OF assms(2,3)]])

lemma traceStream_inv:
  assumes "calls_keep nr (en_calls e)" "text \<noteq> []" "fresh_line text"
  shows "gives (tt_inv (en_conf e) nr m) (traceStream e t True text) (\<lambda>_. tt_inv (en_conf e) nr m)"
  by (rule gives_post [OF traceStream_closed [OF assms]]) (rule closed_inv)


subsection \<open>Resuming and aborting a call\<close>

lemma name_Inr: "calls_keep nr calls \<Longrightarrow> \<exists>t. SystemCall_name (sc_nr (calls r)) = Inr t"
  by (simp add: calls_keep_def SystemCall_name_def length_names)

lemma lined_mid: "tt_lined c nr m s \<Longrightarrow> tt_mid c nr p m s"
  by (simp add: tt_lined_def tt_mid_def)

lemma mid_stop: "tt_mid c nr p m s \<and> fresh_line (tt_cerr s) \<Longrightarrow> tt_closed c nr m (s\<lparr>tt_active := None\<rparr>)"
  by (simp add: assertion_defs)

lemma hasActive_iff: "hasActiveSyscall p s \<longleftrightarrow> (\<exists>r. tt_active s = Some (p, r))"
  by (auto simp: hasActiveSyscall_def activeSyscall_def split: option.splits if_splits)

lemma inv_active_mid: "tt_inv c nr m s \<Longrightarrow> hasActiveSyscall p s \<Longrightarrow> tt_mid c nr p (m(p := None)) s"
  by (auto simp: hasActive_iff tt_inv_Some tt_mid_def)

lemma inv_not_active:
  "tt_inv c nr m s \<Longrightarrow> \<not> hasActiveSyscall p s \<Longrightarrow> smap_find (tt_unfinished s) p = m p"
  by (cases "tt_active s") (auto simp: hasActive_iff tt_inv_cases)

lemma inv_erase:
  assumes "tt_inv c nr m s" "\<not> hasActiveSyscall p s"
  shows "tt_inv c nr (m(p := None)) (s\<lparr>tt_unfinished := smap_erase p (tt_unfinished s)\<rparr>)"
  using assms by (cases "tt_active s") (auto simp: hasActive_iff tt_inv_cases fun_upd_twist)

lemma checkResumed_lined:
  assumes "calls_keep nr (en_calls e)" "m (t_pid t) \<noteq> None"
  shows "gives (\<lambda>s. tt_inv (en_conf e) nr m s \<and> \<not> hasActiveSyscall (t_pid t) s) (checkResumedSyscall e t)
    (\<lambda>_. tt_lined (en_conf e) nr (m(t_pid t := None)))"
proof -
  let ?p = "t_pid t"
  obtain r where r: "m ?p = Some r" using assms(2) by blast
  obtain name where name: "SystemCall_name (sc_nr (en_calls e r)) = Inr name"
    using name_Inr [OF assms(1)] by blast
  show ?thesis
    unfolding checkResumedSyscall_def
  proof (rule gives_ask_val [where v = False])
    show "gives (\<lambda>s. tt_inv (en_conf e) nr m s \<and> \<not> hasActiveSyscall ?p s)
      (if False then skipE else bindE (askE (\<lambda>s. smap_find (tt_unfinished s) ?p)) (\<lambda>node. case node of
         None \<Rightarrow> raise (Undefined ''assertion !node.empty() failed'')
       | Some r \<Rightarrow> seqsE [
         updE (\<lambda>s. s\<lparr>tt_unfinished := smap_erase (t_pid t) (tt_unfinished s)\<rparr>),
         traceStream e t True ''<resuming ...> '',
         bindE (liftE (SystemCall_name (sc_nr (en_calls e r)))) out,
         out (if hasOutParameter (en_calls e r) then ''(..., '' else ''(...'')]))
      (\<lambda>_. tt_lined (en_conf e) nr (m(?p := None)))"
      unfolding if_False
    proof (rule gives_ask_val [where v = "Some r"], unfold option.case seqsE.simps name bind_lift_Inr)
      show "gives (\<lambda>s. tt_inv (en_conf e) nr m s \<and> \<not> hasActiveSyscall ?p s)
       (seqE (updE (\<lambda>s. s\<lparr>tt_unfinished := smap_erase (t_pid t) (tt_unfinished s)\<rparr>))
         (seqE (traceStream e t True ''<resuming ...> '')
           (seqE (out name) (seqE (out (if hasOutParameter (en_calls e r) then ''(..., '' else ''(...'')) skipE))))
        (\<lambda>_. tt_lined (en_conf e) nr (m(?p := None)))"
        unfolding seq_skip_last
        by (rule hoare_seq [OF gives_upd hoare_seq [OF traceStream_lined [OF assms(1)]
              hoare_seq [OF lined_out lined_out]]])
          (rule inv_erase, blast+)
    qed (use r inv_not_active in fastforce)
  qed simp
qed

lemma checkResumed_mid:
  assumes "calls_keep nr (en_calls e)" "m (t_pid t) \<noteq> None"
  shows "gives (tt_inv (en_conf e) nr m) (checkResumedSyscall e t)
    (\<lambda>_. tt_mid (en_conf e) nr (t_pid t) (m(t_pid t := None)))"
proof (rule hoareI)
  fix s assume inv: "tt_inv (en_conf e) nr m s"
  show "case checkResumedSyscall e t s of (Inl x, s') \<Rightarrow> False
    | (Inr x, s') \<Rightarrow> tt_mid (en_conf e) nr (t_pid t) (m(t_pid t := None)) s'"
  proof (cases "hasActiveSyscall (t_pid t) s")
    case True
    with inv_active_mid [OF inv] show ?thesis
      by (simp add: checkResumedSyscall_def bind_ask run_skip)
  next
    case False
    then obtain x s' where "checkResumedSyscall e t s = (Inr x, s')"
      "tt_lined (en_conf e) nr (m(t_pid t := None)) s'"
      using givesE [OF checkResumed_lined [of nr e m t, OF assms]] inv by (metis (no_types, lifting))
    then show ?thesis by (simp add: lined_mid)
  qed
qed

lemma enabled_pending:
  "calls_keep nr (en_calls e) \<Longrightarrow> tt_inv (en_conf e) nr m s \<Longrightarrow>
     isEnabled e (currentSyscall t s) \<longleftrightarrow> m (t_pid t) \<noteq> None"
  by (simp add: currentSyscall_pending isEnabled_pending)

lemma inv_drop_active:
  "tt_inv c nr m s \<Longrightarrow> hasActiveSyscall p s \<Longrightarrow> tt_lined c nr (m(p := None)) (s\<lparr>tt_active := None\<rparr>)"
  by (auto simp: hasActive_iff tt_inv_Some tt_lined_def)

lemma lined_trace_fresh:
  "t \<noteq> [] \<Longrightarrow> fresh_line t \<Longrightarrow> gives (tt_lined c nr m) (traceStream e tr False t) (\<lambda>_. tt_closed c nr m)"
  unfolding traceStream_def if_False by (rule hoare_seq [OF gives_skip lined_out_fresh])

text \<open>A tracee without a pending call is left alone.\<close>

lemma inv_none_inactive: "tt_inv c nr m s \<Longrightarrow> m p = None \<Longrightarrow> \<not> hasActiveSyscall p s"
  by (auto simp: hasActive_iff tt_inv_Some)

lemma abortSyscall_inv:
  assumes "calls_keep nr (en_calls e)"
  shows "gives (tt_inv (en_conf e) nr m) (abortSyscall e t) (\<lambda>_. tt_inv (en_conf e) nr (m(t_pid t := None)))"
proof (cases "m (t_pid t)")
  case None
  have "gives (tt_inv (en_conf e) nr m) (abortSyscall e t) (\<lambda>_. tt_inv (en_conf e) nr m)"
    unfolding abortSyscall_def seqsE.simps seq_skip_last
  proof (rule gives_ask_val [where v = False], unfold if_False seq_skip_last)
    show "gives (tt_inv (en_conf e) nr m) (bindE (askE (hasActiveSyscall (t_pid t))) (\<lambda>active.
        if active then updE (\<lambda>s. s\<lparr>tt_active := None\<rparr>) else skipE)) (\<lambda>_. tt_inv (en_conf e) nr m)"
      by (rule gives_ask_if) (auto intro!: gives_upd gives_skip dest: inv_none_inactive [where p = "t_pid t"] simp: None)
  qed (simp add: enabled_pending [OF assms] None)
  with None show ?thesis by (simp add: fun_upd_idem)
next
  case (Some r)
  then have p: "m (t_pid t) \<noteq> None" by simp
  show ?thesis
    unfolding abortSyscall_def seqsE.simps seq_skip_last
  proof (rule gives_ask_val [where v = True], unfold if_True)
    show "gives (tt_inv (en_conf e) nr m)
      (seqE (bindE (askE (hasActiveSyscall (t_pid t))) (\<lambda>active.
          if active then updE (\<lambda>s. s\<lparr>tt_active := None\<rparr>) else checkResumedSyscall e t))
        (traceStream e t False ('') = ?'' @ nl)))
      (\<lambda>_. tt_inv (en_conf e) nr (m(t_pid t := None)))"
      by (rule hoare_seq [OF gives_ask_if gives_post [OF lined_trace_fresh]])
        (auto intro: gives_upd inv_drop_active checkResumed_lined [of nr e m t, OF assms p] closed_inv)
  qed (simp add: enabled_pending [OF assms] Some)
qed


section \<open>Callbacks\<close>

text \<open>Each callback, when it is allowed, does to the pending calls what the specification says.\<close>

definition meets :: "tt_env \<Rightarrow> arch_flags \<Rightarrow> (callref \<Rightarrow> sysnr) \<Rightarrow> tt_event \<Rightarrow> bool" where
  "meets e a nr ev \<longleftrightarrow> (\<forall>m. gives (\<lambda>s. tt_inv (en_conf e) nr m s \<and> allowed e ev s)
     (tt_callback e a ev) (\<lambda>_. tt_inv (en_conf e) nr (spec_step e ev m)))"

lemma inv_pending: "tt_inv c nr m s \<Longrightarrow> pending s = m"
  by (simp add: tt_inv_def)

lemma checkABI_inv:
  assumes "calls_keep nr (en_calls e)"
  shows "gives (tt_inv (en_conf e) nr m) (checkABI e a t info) (\<lambda>_. tt_inv (en_conf e) nr m)"
  unfolding checkABI_def Let_def
proof (rule gives_ask)
  fix x
  show "gives (\<lambda>s. tt_inv (en_conf e) nr m s \<and> tt_last_abi s = x)
     (if if x = ABI_UNKNOWN then \<not> is_default_abi a (si_abi info) else si_abi info \<noteq> x
      then traceStream e t True (''[system call ABI changed to '' @ get_abi_label (si_abi info) @ '']'' @ nl)
      else skipE) (\<lambda>_. tt_inv (en_conf e) nr m)"
    by (intro gives_if gives_pre [OF traceStream_inv [OF assms]] gives_skip) auto
qed

lemma meets_entry:
  assumes "calls_keep nr (en_calls e)"
  shows "meets e a nr (CbEntry t r f)"
  unfolding meets_def
proof (intro allI)
  fix m :: "pid \<Rightarrow> callref option"
  let ?c = "en_conf e"
  show "gives (\<lambda>s. tt_inv ?c nr m s \<and> allowed e (CbEntry t r f) s) (tt_callback e a (CbEntry t r f))
      (\<lambda>_. tt_inv ?c nr (spec_step e (CbEntry t r f) m))"
  proof (cases "isEnabled e (Some r)")
    case False
    then show ?thesis by (auto simp: tt_syscallEntry_def intro: gives_skip)
  next
    case True
    obtain name where name: "SystemCall_name (sc_nr (en_calls e r)) = Inr name"
      using name_Inr [OF assms] by blast
    show ?thesis
    proof (cases "m (t_pid t) = None \<and> t_info t \<noteq> None")
      case False
      with True show ?thesis by (auto simp: hoare_def dest: inv_pending)
    next
      case ok: True
      then obtain info where info: "t_info t = Some info" by blast
      have upd: "gives (tt_inv ?c nr m) (updE (\<lambda>s. s\<lparr>tt_last_abi := si_abi info\<rparr>)) (\<lambda>_. tt_inv ?c nr m)"
        by (rule gives_upd) (erule inv_frame, simp_all)
      have "gives (tt_inv ?c nr m) (seqE (checkABI e a t info)
          (seqE (updE (\<lambda>s. s\<lparr>tt_last_abi := si_abi info\<rparr>)) (seqE (traceStream e t True [])
            (seqE (if RESUMED \<in> f then out (''<resuming previously interrupted '' @ name @ ''...>'' @ nl) else skipE)
              (seqE (out (name @ ''('')) (out (printParsOnEntry e (sc_pars (en_calls e r)))))))))
          (\<lambda>_. tt_lined ?c nr m)"
        by (rule hoare_seq [OF checkABI_inv [OF assms] hoare_seq [OF upd
              hoare_seq [OF traceStream_lined [OF assms] hoare_seq [OF gives_if hoare_seq [OF lined_out lined_out]]]]])
          (rule lined_out, rule gives_skip)
      moreover have "tt_inv ?c nr (m(t_pid t \<mapsto> r)) (s\<lparr>tt_active := Some (t_pid t, r)\<rparr>)"
        if "tt_lined ?c nr m s" for s
        using that ok True isEnabled_shown [OF assms] by (simp add: tt_inv_Some tt_lined_def fun_upd_idem)
      ultimately show ?thesis
        using True
        by (auto simp: tt_syscallEntry_def info name seqsE.simps step_simps
            intro!: gives_defer elim!: hoare_conseq)
    qed
  qed
qed


lemma closed_gives_inv: "gives P m (\<lambda>_. tt_closed c nr f) \<Longrightarrow> gives P m (\<lambda>_. tt_inv c nr f)"
  by (erule gives_post) (rule closed_inv)

lemma mid_stop_inv:
  "tt_mid c nr p m s \<and> fresh_line (tt_cerr s) \<Longrightarrow> tt_inv c nr m (s\<lparr>tt_active := None\<rparr>)"
  by (rule closed_inv) (rule mid_stop)

lemma ErrnoResult_str_Inr:
  assumes "r \<noteq> \<lparr>er_errno = None, er_kernel_errno = None\<rparr>"
  shows "\<exists>u. ErrnoResult_str names r = Inr u"
proof (cases r)
  case (fields a b)
  with assms show ?thesis by (cases a; cases b) (simp_all add: ErrnoResult_str_def)
qed

lemma meets_exit:
  assumes "calls_keep nr (en_calls e)"
  shows "meets e a nr (CbExit t r f)"
  unfolding meets_def
proof (intro allI)
  fix m :: "pid \<Rightarrow> callref option"
  let ?c = "en_conf e" and ?p = "t_pid t" and ?sc = "en_calls e r"
  show "gives (\<lambda>s. tt_inv ?c nr m s \<and> allowed e (CbExit t r f) s) (tt_callback e a (CbExit t r f))
      (\<lambda>_. tt_inv ?c nr (spec_step e (CbExit t r f) m))"
  proof (cases "isExecSyscall ?sc \<and> hasResultValue ?sc \<or> \<not> isEnabled e (Some r)")
    case True
    then show ?thesis by (auto simp: tt_syscallExit_def Let_def intro: gives_skip)
  next
    case printed: False
    then have shown: "\<not> (isExecSyscall ?sc \<and> hasResultValue ?sc)" "\<not> \<not> isEnabled e (Some r)" by auto
    show ?thesis
    proof (cases "m ?p \<noteq> None \<and> sc_error ?sc \<noteq> Some \<lparr>er_errno = None, er_kernel_errno = None\<rparr>")
      case False
      with printed show ?thesis by (auto simp: hoare_def dest: inv_pending)
    next
      case ok: True
      let ?mid = "tt_mid ?c nr ?p (m(?p := None))"
      have out: "gives ?mid (out u) (\<lambda>_. ?mid)" for u by (rule mid_out)
      have line: "gives ?mid (bindE (askE (\<lambda>s. tt_active s \<noteq> None \<and> \<not> hasActiveSyscall ?p s))
          (\<lambda>need_newline. traceStream e t need_newline [])) (\<lambda>_. ?mid)"
        by (rule gives_ask_val [where v = False])
          (auto simp: tt_mid_def hasActive_iff traceStream_def intro: hoare_seq [OF gives_skip out])
      have result: "gives ?mid (if hasResultValue ?sc
          then out (lb_item_str (en_lib e) (sc_ret ?sc) @ '' ('' @ (if a_verbose (tc_args ?c)
            then lb_item_desc (en_lib e) (sc_ret ?sc) else it_name (sc_ret ?sc)) @ '')'')
          else (case sc_error ?sc of None \<Rightarrow> raise (Undefined ''dereference of an empty optional'')
            | Some err \<Rightarrow> bindE (liftE (ErrnoResult_str (lb_errno_names (en_lib e)) err))
                (\<lambda>t. out (t @ '' (errno)'')))) (\<lambda>_. ?mid)"
      proof (rule gives_if, rule out)
        assume "\<not> hasResultValue ?sc"
        then obtain err where err: "sc_error ?sc = Some err" by (auto simp: hasResultValue_def)
        with ok have "err \<noteq> \<lparr>er_errno = None, er_kernel_errno = None\<rparr>" by simp
        then obtain u where "ErrnoResult_str (lb_errno_names (en_lib e)) err = Inr u"
          using ErrnoResult_str_Inr [of err "lb_errno_names (en_lib e)"] by auto
        then show "gives ?mid (case sc_error ?sc of None \<Rightarrow> raise (Undefined ''dereference of an empty optional'')
            | Some err \<Rightarrow> bindE (liftE (ErrnoResult_str (lb_errno_names (en_lib e)) err))
                (\<lambda>t. out (t @ '' (errno)''))) (\<lambda>_. ?mid)"
          by (simp add: err bind_lift_Inr out)
      qed
      have "gives (tt_inv ?c nr m) (tt_syscallExit e t r f) (\<lambda>_. tt_inv ?c nr (m(?p := None)))"
        unfolding tt_syscallExit_def Let_def
        if_not_P [OF shown(1)] if_not_P [OF shown(2)]
        seqsE.simps seq_skip_last
        by (rule gives_defer, rule hoare_seq [OF checkResumed_mid [of nr e m t, OF assms]], use ok in blast,
          rule hoare_seq [OF line], rule hoare_seq [OF out], rule hoare_seq [OF out], rule hoare_seq [OF result],
          rule hoare_seq [where R = ?mid], rule gives_if, rule out, rule gives_skip, assumption,
          rule gives_post [OF mid_out_fresh mid_stop_inv [where p = ?p]], simp_all)
      with printed show ?thesis by (auto intro: gives_pre)
    qed
  qed
qed

lemma meets_signaled:
  assumes "calls_keep nr (en_calls e)" shows "meets e a nr (CbSignaled t info)"
proof (cases "format_sig_info (lb_fmt (en_lib e)) info")
  case (Inr u)
  have "gives (tt_inv (en_conf e) nr m) (tt_signaled e t info) (\<lambda>_. tt_inv (en_conf e) nr m)" for m
    unfolding tt_signaled_def Inr bind_lift_Inr
    by (rule hoare_seq [OF traceStream_lined [OF assms]]) (auto intro!: closed_gives_inv lined_out_fresh)
  then show ?thesis by (auto simp: meets_def intro: gives_pre)
qed (auto simp: meets_def hoare_def)

lemma meets_stopped:
  assumes "calls_keep nr (en_calls e)" shows "meets e a nr (CbStopped t)"
  using gives_pre [OF traceStream_inv [OF assms]]
  by (cases "t_stop_signal t") (auto simp: meets_def tt_stopped_def hoare_def run_skip)

lemma num_frame: "gives (tt_inv c nr m) (updE (\<lambda>s. s\<lparr>tt_num_tracees := f s\<rparr>)) (\<lambda>_. tt_inv c nr m)"
  by (rule gives_upd) (erule inv_frame, simp_all)

lemma new_frame: "gives (tt_inv c nr m) (updE (\<lambda>s. s\<lparr>tt_new := f s\<rparr>)) (\<lambda>_. tt_inv c nr m)"
  by (rule gives_upd) (erule inv_frame, simp_all)

lemma meets_attached:
  assumes "calls_keep nr (en_calls e)" shows "meets e a nr (CbAttached t)"
  unfolding meets_def tt_callback.simps spec_step.simps tt_attached_def
proof (intro allI gives_ask)
  fix m n
  let ?I = "tt_inv (en_conf e) nr m"
  let ?new = "\<lambda>s. smap_find (tt_new s) (t_pid t)"
  have trace: "u \<noteq> [] \<Longrightarrow> fresh_line u \<Longrightarrow> gives ?I (traceStream e t True u) (\<lambda>_. ?I)" for u
    by (rule traceStream_inv [OF assms])
  have known: "gives (\<lambda>s. ?I s \<and> ?new s \<noteq> None)
     (bindE (askE ?new) (\<lambda>it. case it of
          Some (parent, event) \<Rightarrow> seqE
            (traceStream e t True (arrow @ '' automatically attached (created by PID '' @
               lb_pid_str (en_lib e) parent @ '' via '' @ to_label event @ '')'' @ nl))
            (updE (\<lambda>s. s\<lparr>tt_new := smap_erase (t_pid t) (tt_new s)\<rparr>))
        | None \<Rightarrow> traceStream e t True (''unknown Tracee '' @ int_str (t_pid t) @ '' attached?!'')))
     (\<lambda>_. ?I)"
  proof (rule gives_ask)
    fix x
    show "gives (\<lambda>s. (?I s \<and> ?new s \<noteq> None) \<and> ?new s = x) (case x of
          Some (parent, event) \<Rightarrow> seqE
            (traceStream e t True (arrow @ '' automatically attached (created by PID '' @
               lb_pid_str (en_lib e) parent @ '' via '' @ to_label event @ '')'' @ nl))
            (updE (\<lambda>s. s\<lparr>tt_new := smap_erase (t_pid t) (tt_new s)\<rparr>))
        | None \<Rightarrow> traceStream e t True (''unknown Tracee '' @ int_str (t_pid t) @ '' attached?!''))
        (\<lambda>_. ?I)"
    proof (cases x)
      case None
      then show ?thesis by (auto simp: hoare_def)
    next
      case (Some pe)
      then show ?thesis
        by (cases pe) (auto intro: gives_pre [OF hoare_seq [OF trace new_frame]])
    qed
  qed
  show "gives (\<lambda>s. (?I s \<and> allowed e (CbAttached t) s) \<and> tt_num_tracees s = n)
     (seqE (updE (\<lambda>s. s\<lparr>tt_num_tracees := n + 1\<rparr>))
     (if n = 0 then skipE
      else if t_attacher t \<noteq> None
      then traceStream e t True (arrow @ '' additionally attached thread'' @ nl)
      else bindE (askE ?new) (\<lambda>it. case it of
          Some (parent, event) \<Rightarrow> seqE
            (traceStream e t True (arrow @ '' automatically attached (created by PID '' @
               lb_pid_str (en_lib e) parent @ '' via '' @ to_label event @ '')'' @ nl))
            (updE (\<lambda>s. s\<lparr>tt_new := smap_erase (t_pid t) (tt_new s)\<rparr>))
        | None \<Rightarrow> traceStream e t True (''unknown Tracee '' @ int_str (t_pid t) @ '' attached?!''))))
     (\<lambda>_. ?I)"
    by (rule hoare_seq [where R = "\<lambda>s. ?I s \<and> (n = 0 \<or> t_attacher t \<noteq> None \<or> ?new s \<noteq> None)"])
      (auto intro!: gives_upd gives_if gives_skip gives_pre [OF trace] gives_pre [OF known] elim: inv_frame)
qed


text \<open>
  Every callback that reports the end of a tracee has written a line of its own, so no line is open when
  the tracee is forgotten.
\<close>

lemma cleanup_closed:
  "gives (tt_closed c nr m) (cleanupTracee t) (\<lambda>_. tt_inv c nr (m(t_pid t := None)))"
proof (rule givesI)
  fix s assume *: "tt_closed c nr m s"
  let ?s' = "snd (cleanupTracee t s)"
  have "\<not> hasActiveSyscall (t_pid t) s" using * by (simp add: hasActive_iff tt_closed_def tt_lined_def)
  then have run: "fst (cleanupTracee t s) = Inr ()" "tt_active ?s' = tt_active s" "tt_cerr ?s' = tt_cerr s"
    "tt_unfinished ?s' = smap_erase (t_pid t) (tt_unfinished s)"
    by (simp_all add: cleanupTracee_def seqsE.simps step_simps run_simps)
  have "tt_inv c nr (m(t_pid t := None)) ?s'"
    using * run(2-) by (simp add: tt_inv_None tt_closed_def tt_lined_def)
  with run(1) show "\<exists>x s'. cleanupTracee t s = (Inr x, s') \<and> tt_inv c nr (m(t_pid t := None)) s'"
    by (metis prod.collapse)
qed

lemma setMainStatus_closed: "gives (tt_closed c nr m) (setMainStatus t st) (\<lambda>_. tt_closed c nr m)"
  unfolding setMainStatus_def by (rule gives_upd) (simp add: tt_closed_def tt_lined_def)

lemma trace_closed:
  assumes "calls_keep nr (en_calls e)" "u \<noteq> []" "fresh_line u"
  shows "gives (tt_closed (en_conf e) nr m) (traceStream e t True u) (\<lambda>_. tt_closed (en_conf e) nr m)"
  by (rule gives_pre [OF traceStream_closed [OF assms]]) (rule closed_inv)

lemma end_lines [simp]: "exited_with n \<noteq> []" "fresh_line (exited_with n)" "killed_by sig \<noteq> []"
  "fresh_line (killed_by sig)"
  by (simp_all add: exited_with_def killed_by_def)

lemma status_line:
  assumes "calls_keep nr (en_calls e)"
  shows "gives (tt_inv (en_conf e) nr m) (case st of
        WExited n \<Rightarrow> seqE (traceStream e t True (exited_with n))
          (bindE (askE tt_seen_initial_exec) (\<lambda>seen. if seen then skipE
             else traceStream e t True (''!!! failed to execute the specified program'' @ nl)))
      | WSignaled sig \<Rightarrow> traceStream e t True (killed_by sig)) (\<lambda>_. tt_closed (en_conf e) nr m)"
proof (cases st)
  case (WExited n)
  show ?thesis
    unfolding WExited wait_status.case
    by (rule hoare_seq [OF traceStream_closed [OF assms]], simp, simp, rule gives_ask_if)
      (auto intro: gives_skip gives_pre [OF trace_closed [OF assms]])
next
  case (WSignaled sig)
  then show ?thesis by (simp add: traceStream_closed [OF assms])
qed

lemma end_of_tracee:
  "gives (tt_closed c nr m) (seqE (setMainStatus t st) (cleanupTracee t)) (\<lambda>_. tt_inv c nr (m(t_pid t := None)))"
  by (rule hoare_seq [OF setMainStatus_closed cleanup_closed])

lemma meets_exited:
  assumes "calls_keep nr (en_calls e)" shows "meets e a nr (CbExited t st f)"
  unfolding meets_def tt_callback.simps spec_step.simps tt_exited_def seqsE.simps seq_skip_last
proof (intro allI)
  fix m :: "pid \<Rightarrow> callref option"
  let ?I = "tt_inv (en_conf e) nr" and ?m = "m(t_pid t := None)"
  let ?lost = "if LOST_TO_MT_EXIT \<in> f
     then traceStream e t True (''--- <lost to exit or execve in another thread> ---'' @ nl) else skipE"
  let ?line = "case st of
        WExited n \<Rightarrow> seqE (traceStream e t True (exited_with n))
          (bindE (askE tt_seen_initial_exec) (\<lambda>seen. if seen then skipE
             else traceStream e t True (''!!! failed to execute the specified program'' @ nl)))
      | WSignaled sig \<Rightarrow> traceStream e t True (killed_by sig)"
  have lost: "gives (?I m') ?lost (\<lambda>_. ?I m')" for m'
    by (rule gives_if) (auto intro!: traceStream_inv [OF assms] gives_skip)
  have rest: "gives (?I m') (seqE ?lost (seqE ?line (seqE (setMainStatus t st) (cleanupTracee t)))) (\<lambda>_. ?I (m'(t_pid t := None)))" for m'
    by (rule hoare_seq [OF lost hoare_seq [OF status_line [OF assms] end_of_tracee]])
  show "gives (\<lambda>s. ?I m s \<and> allowed e (CbExited t st f) s) (seqE (if t_prev t = SYSCALL_ENTER_STOP then abortSyscall e t else skipE)
      (seqE ?lost (seqE ?line (seqE (setMainStatus t st) (cleanupTracee t))))) (\<lambda>_. ?I ?m)"
  proof (cases "t_prev t = SYSCALL_ENTER_STOP")
    case True
    then show ?thesis
      using gives_pre [OF hoare_seq [OF abortSyscall_inv [of nr e m t, OF assms] rest]] by simp
  next
    case False
    then show ?thesis using gives_pre [OF rest [of m]] by (simp add: seq_skipE)
  qed
qed

lemma meets_disappeared:
  assumes "calls_keep nr (en_calls e)" shows "meets e a nr (CbDisappeared t d)"
  unfolding meets_def tt_callback.simps spec_step.simps tt_disappeared_def seqsE.simps seq_skip_last
proof (intro allI)
  fix m :: "pid \<Rightarrow> callref option"
  let ?c = "en_conf e" and ?m = "m(t_pid t := None)"
  let ?line = "case ch_change d of
        Exited n \<Rightarrow> traceStream e t True (exited_with n)
      | ch \<Rightarrow> (case change_signal ch of
          None \<Rightarrow> raise (Undefined ''dereference of an empty optional'')
        | Some sig \<Rightarrow> traceStream e t True (killed_by sig))"
  have trace: "u \<noteq> [] \<Longrightarrow> fresh_line u \<Longrightarrow> gives (tt_closed ?c nr m') (traceStream e t True u) (\<lambda>_. tt_closed ?c nr m')" for m' u
    by (rule trace_closed [OF assms])
  show "gives (\<lambda>s. tt_inv ?c nr m s \<and> allowed e (CbDisappeared t d) s) (seqE (abortSyscall e t)
      (seqE (traceStream e t True (''!!! disappeared (e.g. exit() or execve() in another thread)'' @ nl))
        (seqE ?line (seqE (setMainStatus t (lb_wait_status (en_lib e) d)) (cleanupTracee t)))))
      (\<lambda>_. tt_inv ?c nr ?m)"
  proof (cases "case ch_change d of Exited n \<Rightarrow> True | ch \<Rightarrow> change_signal ch \<noteq> None")
    case True
    have line: "gives (tt_closed ?c nr ?m) ?line (\<lambda>_. tt_closed ?c nr ?m)"
      using True by (auto simp: trace split: child_change.splits)
    have "gives (tt_inv ?c nr m) (seqE (abortSyscall e t)
      (seqE (traceStream e t True (''!!! disappeared (e.g. exit() or execve() in another thread)'' @ nl))
        (seqE ?line (seqE (setMainStatus t (lb_wait_status (en_lib e) d)) (cleanupTracee t)))))
      (\<lambda>_. tt_inv ?c nr (?m(t_pid t := None)))"
      by (rule hoare_seq [OF abortSyscall_inv [of nr e m t, OF assms]],
          rule hoare_seq [OF traceStream_closed [OF assms]], simp, simp,
          rule hoare_seq [OF line end_of_tracee])
    then show ?thesis by (auto intro: gives_pre)
  next
    case False
    then show ?thesis by (simp add: hoare_def)
  qed
qed


lemma hasActive_None: "activeSyscall p s = None \<longleftrightarrow> \<not> hasActiveSyscall p s"
  by (simp add: hasActiveSyscall_def)

lemma all_shown_rekey: "all_shown c nr m \<Longrightarrow> all_shown c nr (rekey q p m)"
  by (auto simp: rekey_def all_shown_def split: option.split)

lemma update_inv:
  assumes "q \<noteq> t_pid t" "m (t_pid t) = None"
  shows "gives (tt_inv c nr m) (updateTracee t q) (\<lambda>_. tt_inv c nr (rekey (Some q) (t_pid t) m))"
proof -
  let ?p = "t_pid t"
  let ?f = "\<lambda>s. case activeSyscall q s of
         Some sc \<Rightarrow> s\<lparr>tt_active := Some (?p, sc)\<rparr>
       | None \<Rightarrow> (case smap_find (tt_unfinished s) q of
           Some sc \<Rightarrow> s\<lparr>tt_unfinished := smap_erase q (smap_put ?p sc (tt_unfinished s))\<rparr>
         | None \<Rightarrow> s)"
  have move: "tt_inv c nr (rekey (Some q) ?p m) (?f s)" if inv: "tt_inv c nr m s" for s
  proof (cases "tt_active s")
    case None
    with inv have "smap_find (tt_unfinished s) = m" "all_shown c nr (rekey (Some q) ?p m)" "fresh_line (tt_cerr s)"
      by (simp_all add: tt_inv_None all_shown_rekey)
    with None assms show ?thesis
      by (cases "m q") (simp_all add: activeSyscall_def rekey_def tt_inv_None fun_upd_twist)
  next
    case (Some a)
    obtain b r where a: "a = (b, r)" by (cases a)
    with Some inv have *: "m b = Some r" "smap_find (tt_unfinished s) = m(b := None)"
      "all_shown c nr (rekey (Some q) ?p m)"
      by (simp_all add: tt_inv_Some all_shown_rekey)
    show ?thesis
    proof (cases "b = q")
      case True
      with Some a * assms show ?thesis
        by (simp add: activeSyscall_def rekey_def tt_inv_Some fun_upd_idem)
    next
      case False
      with Some a * assms show ?thesis
        by (cases "m q") (auto simp: activeSyscall_def rekey_def tt_inv_Some fun_eq_iff)
    qed
  qed
  have frame: "tt_inv c nr m' (case smap_find (tt_new s) q of
         Some info \<Rightarrow> s\<lparr>tt_new := smap_erase q (smap_put ?p info (tt_new s))\<rparr> | None \<Rightarrow> s)"
    if "tt_inv c nr m' s" for m' s
    using that by (auto intro: inv_frame split: option.split)
  show ?thesis
    unfolding updateTracee_def seqsE.simps seq_skip_last
    by (rule hoare_seq [OF gives_upd hoare_seq [OF new_frame gives_upd]]) (erule move, erule frame)
qed

lemma say_closed: "gives (tt_closed c nr m) (say u) (\<lambda>_. tt_closed c nr m)"
  unfolding say_def by (rule gives_upd) (simp add: tt_closed_def tt_lined_def)

lemma follow_inv: "gives (tt_inv c nr m) (followExecutionContext e pd) (\<lambda>_. tt_inv c nr m)"
  unfolding followExecutionContext_def
  by (cases "tc_follow_exec (en_conf e)")
    (auto intro: gives_ret hoare_seq [OF inv_say inv_ask_yes_no])

lemma detach_inv: "gives (tt_inv c nr m) (clientDetach t) (\<lambda>_. tt_inv c nr m)"
  unfolding clientDetach_def by (rule gives_upd) (erule inv_frame, simp_all)

lemma meets_newChild:
  assumes "calls_keep nr (en_calls e)" shows "meets e a nr (CbNewChild t pd child ev f)"
proof -
  have "gives (tt_inv (en_conf e) nr m) (tt_newChildProcess e t pd child ev f) (\<lambda>_. tt_inv (en_conf e) nr m)" for m
  proof -
    have yes: "gives (tt_inv (en_conf e) nr m) (bindE ask_yes_no (\<lambda>yes. ret (if yes then FC_YES else FC_NO)))
        (\<lambda>_. tt_inv (en_conf e) nr m)"
      by (rule hoare_bind [OF inv_ask_yes_no hoare_ret])
    show ?thesis
      unfolding tt_newChildProcess_def
    proof (rule hoare_bind)
      show "gives (tt_inv (en_conf e) nr m) (if follow = FC_YES
         then updE (\<lambda>s. s\<lparr>tt_new := snd (smap_insert (t_pid child) (t_pid t, ev) (tt_new s))\<rparr>)
         else clientDetach child) (\<lambda>_. tt_inv (en_conf e) nr m)" for follow
        by (rule gives_if) (rule new_frame, rule detach_inv)
    qed (cases "tc_follow_children (en_conf e)", auto intro!: gives_ret hoare_seq [OF traceStream_inv [OF assms]]
        hoare_seq [OF inv_say yes])
  qed
  then show ?thesis by (auto simp: meets_def intro: gives_pre)
qed


lemma closed_upd:
  assumes "\<And>s. tt_closed c nr m s \<Longrightarrow> tt_active (f s) = None \<and> tt_unfinished (f s) = tt_unfinished s \<and>
    tt_cerr (f s) = tt_cerr s"
  shows "gives (tt_closed c nr m) (updE f) (\<lambda>_. tt_closed c nr m)"
  by (rule gives_upd) (use assms in \<open>simp add: tt_closed_def tt_lined_def\<close>)

lemma update_closed:
  assumes "m q = None"
  shows "gives (tt_closed c nr m) (updateTracee t q) (\<lambda>_. tt_closed c nr m)"
  unfolding updateTracee_def seqsE.simps seq_skip_last
  by (rule hoare_seq [OF closed_upd hoare_seq [OF closed_upd closed_upd]])
    (auto simp: tt_closed_def tt_lined_def activeSyscall_def assms split: option.split)

text \<open>The lines after an execve, when no line is open any more.\<close>

definition exec_lines :: "tt_env \<Rightarrow> tracee \<Rightarrow> process_data \<Rightarrow> string \<Rightarrow> string list \<Rightarrow> pid option \<Rightarrow> (tt, unit) prog" where
  "exec_lines e t pd old_exe old_cmdline old_pid =
     seqE (case old_pid of
        Some old \<Rightarrow> traceStream e t True (''--- PID '' @ lb_pid_str (en_lib e) old @
          '' is now known as PID '' @ lb_pid_str (en_lib e) (t_pid t) @ '' ---'' @ nl)
      | None \<Rightarrow> skipE)
     (seqE (bindE (askE tt_seen_initial_exec) (\<lambda>seen. if seen
       then traceStream e t True (''--- no longer running '' @
         formatTraceeInvocation old_exe old_cmdline @ '' ---'' @ nl)
       else skipE))
     (seqE (traceStream e t True (''--- now running '' @
       formatTraceeInvocation (pd_exe pd) (pd_cmdline pd) @ '' ---'' @ nl))
     (bindE (askE tt_seen_initial_exec) (\<lambda>seen. if \<not> seen
       then updE (\<lambda>s. s\<lparr>tt_seen_initial_exec := True\<rparr>)
       else bindE (followExecutionContext e pd) (\<lambda>follow. if follow then skipE
         else seqE (traceStream e t True (''--- detaching after execve ---'' @ nl)) (clientDetach t))))))"

lemma exec_end_inv:
  assumes "calls_keep nr (en_calls e)"
  shows "gives (tt_inv (en_conf e) nr m) (bindE (askE tt_seen_initial_exec) (\<lambda>seen. if \<not> seen
       then updE (\<lambda>s. s\<lparr>tt_seen_initial_exec := True\<rparr>)
       else bindE (followExecutionContext e pd) (\<lambda>follow. if follow then skipE
         else seqE (traceStream e t True (''--- detaching after execve ---'' @ nl)) (clientDetach t))))
     (\<lambda>_. tt_inv (en_conf e) nr m)"
proof -
  let ?I = "tt_inv (en_conf e) nr m"
  have last: "gives ?I (bindE (followExecutionContext e pd) (\<lambda>follow. if follow then skipE
         else seqE (traceStream e t True (''--- detaching after execve ---'' @ nl)) (clientDetach t))) (\<lambda>_. ?I)"
    by (rule hoare_bind [OF follow_inv gives_if])
      (auto intro!: gives_skip hoare_seq [OF traceStream_inv [OF assms] detach_inv])
  show ?thesis
    by (rule gives_ask, rule gives_if) (auto intro!: gives_upd gives_pre [OF last] elim: inv_frame)
qed

lemma exec_lines_inv:
  assumes "calls_keep nr (en_calls e)"
  shows "gives (tt_inv (en_conf e) nr m) (exec_lines e t pd old_exe old_cmdline old_pid) (\<lambda>_. tt_inv (en_conf e) nr m)"
proof -
  let ?I = "tt_inv (en_conf e) nr m"
  have trace: "u \<noteq> [] \<Longrightarrow> fresh_line u \<Longrightarrow> gives ?I (traceStream e t True u) (\<lambda>_. ?I)" for u
    by (rule traceStream_inv [OF assms])
  show ?thesis
    unfolding exec_lines_def
  proof (intro hoare_seq [where R = ?I])
    show "gives ?I (case old_pid of
        Some old \<Rightarrow> traceStream e t True (''--- PID '' @ lb_pid_str (en_lib e) old @
          '' is now known as PID '' @ lb_pid_str (en_lib e) (t_pid t) @ '' ---'' @ nl)
      | None \<Rightarrow> skipE) (\<lambda>_. ?I)"
      by (cases old_pid) (auto intro: trace gives_skip)
    show "gives ?I (bindE (askE tt_seen_initial_exec) (\<lambda>seen. if seen
       then traceStream e t True (''--- no longer running '' @
         formatTraceeInvocation old_exe old_cmdline @ '' ---'' @ nl) else skipE)) (\<lambda>_. ?I)"
      by (rule gives_ask_if) (auto intro: gives_pre [OF trace] gives_skip)
    show "gives ?I (traceStream e t True (''--- now running '' @
       formatTraceeInvocation (pd_exe pd) (pd_cmdline pd) @ '' ---'' @ nl)) (\<lambda>_. ?I)"
      by (rule trace) simp_all
    show "gives ?I (bindE (askE tt_seen_initial_exec) (\<lambda>seen. if \<not> seen
       then updE (\<lambda>s. s\<lparr>tt_seen_initial_exec := True\<rparr>)
       else bindE (followExecutionContext e pd) (\<lambda>follow. if follow then skipE
         else seqE (traceStream e t True (''--- detaching after execve ---'' @ nl)) (clientDetach t)))) (\<lambda>_. ?I)"
      by (rule exec_end_inv [OF assms])
  qed
qed

lemma newExec_split:
  "tt_newExecutionContext e t pd old_exe old_cmdline old_pid =
     seqE (case old_pid of Some old \<Rightarrow> updateTracee t old | None \<Rightarrow> skipE)
     (seqE (bindE (askE (\<lambda>s. isEnabled e (currentSyscall t s))) (\<lambda>is_enabled. if is_enabled
       then seqE (checkResumedSyscall e t) (traceStream e t False ('') = 0 (success)'' @ nl))
       else skipE))
     (seqE (updE (\<lambda>s. s\<lparr>tt_active := None\<rparr>)) (exec_lines e t pd old_exe old_cmdline old_pid)))"
  by (simp add: tt_newExecutionContext_def exec_lines_def seqsE.simps seq_skip_last)

lemma exec_call_finished:
  assumes "calls_keep nr (en_calls e)"
  shows "gives (\<lambda>s. tt_inv (en_conf e) nr m s \<and> (m (t_pid t) \<noteq> None \<or> tt_active s = None))
    (seqE (bindE (askE (\<lambda>s. isEnabled e (currentSyscall t s))) (\<lambda>is_enabled. if is_enabled
       then seqE (checkResumedSyscall e t) (traceStream e t False ('') = 0 (success)'' @ nl))
       else skipE))
     (seqE (updE (\<lambda>s. s\<lparr>tt_active := None\<rparr>)) (exec_lines e t pd old_exe old_cmdline old_pid)))
    (\<lambda>_. tt_inv (en_conf e) nr (m(t_pid t := None)))"
proof (cases "m (t_pid t)")
  case None
  have "gives (tt_closed (en_conf e) nr m)
    (seqE (bindE (askE (\<lambda>s. isEnabled e (currentSyscall t s))) (\<lambda>is_enabled. if is_enabled
       then seqE (checkResumedSyscall e t) (traceStream e t False ('') = 0 (success)'' @ nl))
       else skipE))
     (seqE (updE (\<lambda>s. s\<lparr>tt_active := None\<rparr>)) (exec_lines e t pd old_exe old_cmdline old_pid)))
    (\<lambda>_. tt_inv (en_conf e) nr m)"
    by (rule hoare_seq [where R = "tt_closed (en_conf e) nr m"],
        rule gives_ask_val [where v = False], use enabled_pending [OF assms closed_inv] None in blast,
        unfold if_False, rule gives_skip, assumption, rule hoare_seq [OF gives_upd exec_lines_inv [OF assms]])
      (simp add: tt_inv_None tt_closed_def tt_lined_def)
  then show ?thesis
    using None by (auto simp: fun_upd_idem intro: gives_pre inv_closed)
next
  case (Some r)
  then have p: "m (t_pid t) \<noteq> None" by simp
  have fin: "gives (tt_mid (en_conf e) nr (t_pid t) m') (traceStream e t False ('') = 0 (success)'' @ nl))
      (\<lambda>_ s. tt_mid (en_conf e) nr (t_pid t) m' s \<and> fresh_line (tt_cerr s))" for m'
    unfolding traceStream_def if_False by (rule hoare_seq [OF gives_skip mid_out_fresh]) simp_all
  show ?thesis
  proof (rule hoare_seq [where R = "\<lambda>s. tt_mid (en_conf e) nr (t_pid t) (m(t_pid t := None)) s \<and> fresh_line (tt_cerr s)"])
    show "gives (\<lambda>s. tt_inv (en_conf e) nr m s \<and> (m (t_pid t) \<noteq> None \<or> tt_active s = None))
      (bindE (askE (\<lambda>s. isEnabled e (currentSyscall t s))) (\<lambda>is_enabled. if is_enabled
       then seqE (checkResumedSyscall e t) (traceStream e t False ('') = 0 (success)'' @ nl))
       else skipE))
      (\<lambda>_ s. tt_mid (en_conf e) nr (t_pid t) (m(t_pid t := None)) s \<and> fresh_line (tt_cerr s))"
    proof (rule gives_ask_val [where v = True], unfold if_True)
      show "gives (\<lambda>s. tt_inv (en_conf e) nr m s \<and> (m (t_pid t) \<noteq> None \<or> tt_active s = None))
        (seqE (checkResumedSyscall e t) (traceStream e t False ('') = 0 (success)'' @ nl)))
        (\<lambda>_ s. tt_mid (en_conf e) nr (t_pid t) (m(t_pid t := None)) s \<and> fresh_line (tt_cerr s))"
        by (rule gives_pre [OF hoare_seq [OF checkResumed_mid [of nr e m t, OF assms p] fin]]) simp
    qed (use Some enabled_pending [OF assms] in auto)
    show "gives (\<lambda>s. tt_mid (en_conf e) nr (t_pid t) (m(t_pid t := None)) s \<and> fresh_line (tt_cerr s))
      (seqE (updE (\<lambda>s. s\<lparr>tt_active := None\<rparr>)) (exec_lines e t pd old_exe old_cmdline old_pid))
      (\<lambda>_. tt_inv (en_conf e) nr (m(t_pid t := None)))"
      by (rule hoare_seq [OF gives_upd exec_lines_inv [OF assms]]) (erule mid_stop_inv)
  qed
qed

lemma meets_newExec:
  assumes "calls_keep nr (en_calls e)" shows "meets e a nr (CbNewExec t pd exe cmdline old)"
  unfolding meets_def
proof (intro allI)
  fix m :: "pid \<Rightarrow> callref option"
  let ?I = "tt_inv (en_conf e) nr"
  let ?m = "rekey old (t_pid t) m"
  show "gives (\<lambda>s. ?I m s \<and> allowed e (CbNewExec t pd exe cmdline old) s)
     (tt_callback e a (CbNewExec t pd exe cmdline old)) (\<lambda>_. ?I (spec_step e (CbNewExec t pd exe cmdline old) m))"
    unfolding tt_callback.simps spec_step.simps newExec_split
  proof (rule hoare_seq [OF _ exec_call_finished [OF assms]])
    show "gives (\<lambda>s. ?I m s \<and> allowed e (CbNewExec t pd exe cmdline old) s)
      (case old of Some old \<Rightarrow> updateTracee t old | None \<Rightarrow> skipE)
      (\<lambda>_ s. ?I ?m s \<and> (?m (t_pid t) \<noteq> None \<or> tt_active s = None))"
    proof (cases old)
      case None
      then show ?thesis by (auto simp: rekey_def tt_inv_def intro!: gives_skip)
    next
      case (Some q)
      show ?thesis
      proof (cases "q \<noteq> t_pid t \<and> m (t_pid t) = None")
        case False
        with Some show ?thesis by (auto simp: hoare_def dest: inv_pending)
      next
        case ok: True
        show ?thesis
        proof (cases "m q")
          case None
          have m: "?m = m" using \<open>old = Some q\<close> None by (simp add: rekey_def)
          have upd: "gives (tt_closed (en_conf e) nr m) (updateTracee t q) (\<lambda>_ s. ?I m s \<and> tt_active s = None)"
            by (rule gives_post [OF update_closed [of m q, OF None]])
              (simp add: closed_inv, simp add: tt_closed_def tt_lined_def)
          have "gives (\<lambda>s. ?I m s \<and> allowed e (CbNewExec t pd exe cmdline old) s) (updateTracee t q)
              (\<lambda>_ s. ?I m s \<and> tt_active s = None)"
            by (rule gives_pre [OF upd])
              (use None \<open>old = Some q\<close> in \<open>auto simp: tt_inv_def intro!: inv_closed\<close>)
          then have "gives (\<lambda>s. ?I m s \<and> allowed e (CbNewExec t pd exe cmdline old) s) (updateTracee t q)
              (\<lambda>_ s. ?I m s \<and> (m (t_pid t) \<noteq> None \<or> tt_active s = None))"
            by (rule gives_post) simp
          with m show ?thesis by (simp add: \<open>old = Some q\<close>)
        next
          case (Some r)
          with \<open>old = Some q\<close> have "?m (t_pid t) \<noteq> None" by (simp add: rekey_def)
          with \<open>old = Some q\<close> ok show ?thesis
            using gives_pre [OF gives_post [OF update_inv [of q t m]]] by auto
        qed
      qed
    qed
  qed
qed


lemma callback_meets: "calls_keep nr (en_calls e) \<Longrightarrow> meets e a nr ev"
  by (cases ev) (simp_all add: meets_entry meets_exit meets_signaled meets_attached meets_exited meets_stopped
      meets_disappeared meets_newExec meets_newChild)

primrec spec_events ::
  "tt_env \<Rightarrow> ((callref \<Rightarrow> syscall) \<times> tt_event) list \<Rightarrow> (pid \<Rightarrow> callref option) \<Rightarrow> pid \<Rightarrow> callref option"
where
  "spec_events e [] m = m"
| "spec_events e (ce # evs) m = spec_events e evs (spec_step (e\<lparr>en_calls := fst ce\<rparr>) (snd ce) m)"

text \<open>Keeping to the protocol can be decided without running the tracer.\<close>

primrec fits :: "tt_env \<Rightarrow> tt_event \<Rightarrow> (pid \<Rightarrow> callref option) \<Rightarrow> bool" where
  "fits e (CbEntry t r f) m = (\<not> isEnabled e (Some r) \<or> m (t_pid t) = None \<and> t_info t \<noteq> None)"
| "fits e (CbExit t r f) m =
     (isExecSyscall (en_calls e r) \<and> hasResultValue (en_calls e r) \<or> \<not> isEnabled e (Some r) \<or>
      m (t_pid t) \<noteq> None \<and> sc_error (en_calls e r) \<noteq> Some \<lparr>er_errno = None, er_kernel_errno = None\<rparr>)"
| "fits e (CbSignaled t info) m = (\<exists>u. format_sig_info (lb_fmt (en_lib e)) info = Inr u)"
| "fits e (CbAttached t) m = (t_attacher t \<noteq> None)"
| "fits e (CbExited t st f) m = True"
| "fits e (CbStopped t) m = (t_ctr t \<noteq> 0 \<or> t_stop_signal t \<noteq> None)"
| "fits e (CbDisappeared t d) m = (case ch_change d of Exited n \<Rightarrow> True | ch \<Rightarrow> change_signal ch \<noteq> None)"
| "fits e (CbNewExec t pd exe cmdline old) m = (case old of
       None \<Rightarrow> m (t_pid t) \<noteq> None
     | Some q \<Rightarrow> q \<noteq> t_pid t \<and> m (t_pid t) = None \<and> m q \<noteq> None)"
| "fits e (CbNewChild t pd child ev f) m = True"

primrec protocol ::
  "tt_env \<Rightarrow> (callref \<Rightarrow> sysnr) \<Rightarrow> ((callref \<Rightarrow> syscall) \<times> tt_event) list \<Rightarrow> (pid \<Rightarrow> callref option) \<Rightarrow> bool"
where
  "protocol e nr [] m = True"
| "protocol e nr (ce # evs) m =
     (calls_keep nr (fst ce) \<and> fits (e\<lparr>en_calls := fst ce\<rparr>) (snd ce) m \<and>
      protocol e nr evs (spec_step (e\<lparr>en_calls := fst ce\<rparr>) (snd ce) m))"

lemma fits_allowed: "tt_inv c nr m s \<Longrightarrow> fits e ev m \<Longrightarrow> allowed e ev s"
  by (cases ev) (auto simp: tt_inv_def split: option.splits)

lemma tt_callback_run:
  assumes "calls_keep nr (en_calls e)" "allowed e ev s" "tt_inv (en_conf e) nr m s"
  obtains s' where "tt_callback e a ev s = (Inr (), s')" "tt_inv (en_conf e) nr (spec_step e ev m) s'"
proof -
  have gv: "gives (\<lambda>s. tt_inv (en_conf e) nr m s \<and> allowed e ev s) (tt_callback e a ev)
      (\<lambda>_. tt_inv (en_conf e) nr (spec_step e ev m))"
    using callback_meets [OF assms(1)] by (simp add: meets_def)
  show thesis
  proof (rule givesE [OF gv, of s])
    fix x :: unit and s'
    assume "tt_callback e a ev s = (Inr x, s')" "tt_inv (en_conf e) nr (spec_step e ev m) s'"
    then show thesis by (intro that) simp_all
  qed (use assms in simp)
qed

lemma protocol_conforms:
  "protocol e nr evs m \<Longrightarrow> tt_inv (en_conf e) nr m s \<Longrightarrow> conforms e a nr evs s"
proof (induction evs arbitrary: s m)
  case Nil
  then show ?case by simp
next
  case (Cons ce evs)
  let ?e = "e\<lparr>en_calls := fst ce\<rparr>"
  from Cons.prems have *: "calls_keep nr (en_calls ?e)" "allowed ?e (snd ce) s" "tt_inv (en_conf ?e) nr m s"
    by (auto intro: fits_allowed)
  from tt_callback_run [OF *] obtain s' where
    "tt_callback ?e a (snd ce) s = (Inr (), s')" "tt_inv (en_conf ?e) nr (spec_step ?e (snd ce) m) s'" .
  with Cons.IH [of "spec_step ?e (snd ce) m" s'] Cons.prems * show ?case by simp
qed

lemma events_run:
  assumes "conforms e a nr evs s" "tt_inv (en_conf e) nr m s"
  shows "\<exists>s'. tt_events e a evs s = (Inr (), s') \<and> tt_inv (en_conf e) nr (spec_events e evs m) s'"
  using assms
proof (induction evs arbitrary: s m)
  case Nil
  then show ?case by (simp add: tt_events_def run_simps)
next
  case (Cons ce evs)
  obtain calls ev where ce: "ce = (calls, ev)" by (cases ce)
  let ?e = "e\<lparr>en_calls := calls\<rparr>"
  from Cons.prems ce have *: "calls_keep nr (en_calls ?e)" "allowed ?e ev s" "tt_inv (en_conf ?e) nr m s"
    and tail: "conforms e a nr evs (snd (tt_callback ?e a ev s))" by simp_all
  from tt_callback_run [OF *] obtain t where
    t: "tt_callback ?e a ev s = (Inr (), t)" "tt_inv (en_conf ?e) nr (spec_step ?e ev m) t" .
  with tail Cons.IH [of t "spec_step ?e ev m"] show ?case
    by (simp add: tt_events_def ce run_seq_Inr [of _ s "()" t])
qed

lemma initial_inv: "tt_inv c nr Map.empty (initial_tt input)"
  by (simp add: tt_inv_None initial_tt_def all_shown_def)

end
