(* ===== verification/Term_Tracer_Props.thy ===== *)
theory Term_Tracer_Props
  imports Term_Tracer_Sim
begin

text \<open>
  The properties of the terminal tracer: its record of printed calls refines the specification, its
  output is made of whole lines, every parameter is printed once, and what a hidden execve breaks.
\<close>

section \<open>Properties\<close>

text \<open>C37: For every sequence of callbacks that keeps to the protocol of the library, the terminal tracer
  never fails an assertion or dereferences an empty optional, and the calls it has started to print and
  not finished are what the callbacks say: entering a printed call adds it, leaving it or the end of its
  tracee removes it, an execve moves it to the new process id and finishes it, and nothing else changes
  it, however often the lines of other tracees preempt it.\<close>

theorem shown_calls_refinement:
  assumes "conforms e a nr evs s" "tt_ok (en_conf e) nr s"
  shows "\<exists>s'. tt_events e a evs s = (Inr (), s') \<and> pending s' = spec_events e evs (pending s)"
  using events_run [OF assms(1), of "pending s"] assms(2) by (auto simp: tt_inv_def)


subsection \<open>A run of two tracees\<close>

definition demo_fmt :: fmt_lib where
  "demo_fmt = \<lparr>fl_signal_name = nat_str, fl_oct = (\<lambda>v w. nat_str v), fl_hex = (\<lambda>v w. nat_str v),
     fl_hex_with = (\<lambda>p v w. p @ nat_str v), fl_split_device = (\<lambda>d. (0, 0)), fl_poll_width = 16\<rparr>"

definition demo_lib :: tt_lib where
  "demo_lib = \<lparr>lb_split = (\<lambda>s sep. [s]), lb_is_prefix = (\<lambda>s p. take (length p) s = p), lb_fnmatch = (\<lambda>_ _. True),
     lb_pid_str = int_str, lb_signal_str = nat_str, lb_fmt = demo_fmt,
     lb_item_str = it_name, lb_item_desc = it_name, lb_errno_names = [],
     lb_wait_status = (\<lambda>_. WExited 0), lb_what = (\<lambda>_. [])\<rparr>"

definition demo_tt_env :: tt_env where
  "demo_tt_env = \<lparr>en_lib = demo_lib, en_conf = initial_conf default_args,
     en_calls = (\<lambda>_. new_call plain_family ''GetpidSystemCall'' SYS_GETPID)\<rparr>"

definition demo_tracee :: "pid \<Rightarrow> tracee" where
  "demo_tracee p = (new_tracee ChildTracee 0)\<lparr>t_pid := p, t_info := Some (demo_info SYS_GETPID), t_attacher := Some 1\<rparr>"

definition demo_signal :: sig_info where
  "demo_signal = \<lparr>sg_nr = 15, sg_kernel = False, sg_source = 0, sg_code = 0, sg_status = 0,
     sg_data = UserSig \<lparr>pc_pid = 1, pc_uid = 0\<rparr>\<rparr>"

definition two_tracees :: "((callref \<Rightarrow> syscall) \<times> tt_event) list" where
  "two_tracees = map (Pair (en_calls demo_tt_env)) [CbAttached (demo_tracee 100), CbAttached (demo_tracee 200),
     CbEntry (demo_tracee 100) 0 {}, CbEntry (demo_tracee 200) 1 {}, CbSignaled (demo_tracee 100) demo_signal, CbExit (demo_tracee 100) 0 {},
     CbExited (demo_tracee 200) (WExited 0) {}]"

lemma demo_calls_keep: "calls_keep (\<lambda>_. SYS_GETPID) (en_calls demo_tt_env)"
  by (simp add: calls_keep_def demo_tt_env_def new_call_def plain_family_def base_class_def SYSTEM_CALL_COUNT_def)

lemma two_tracees_protocol: "protocol demo_tt_env (\<lambda>_. SYS_GETPID) two_tracees Map.empty"
  by (simp add: two_tracees_def demo_calls_keep)
    (simp add: demo_tt_env_def new_call_def plain_family_def base_class_def isEnabled_def
      demo_tracee_def initial_conf_def isExecSyscall_def
      demo_signal_def format_sig_info_def sig_data_str_def)

lemmas two_tracees_conform = protocol_conforms [OF two_tracees_protocol initial_inv]

theorem shown_calls_refinement_witness:
  "\<exists>s'. tt_events demo_tt_env arch_x86_64 two_tracees (initial_tt []) = (Inr (), s') \<and>
     pending s' = spec_events demo_tt_env two_tracees (pending (initial_tt []))"
proof -
  have "tt_ok (en_conf demo_tt_env) (\<lambda>_. SYS_GETPID) (initial_tt [])"
    using initial_inv by (simp add: tt_inv_def)
  from shown_calls_refinement [OF two_tracees_conform this] show ?thesis .
qed


subsection \<open>An execve that is not shown\<close>

lemma storeUnfinished_none: "tt_active s = None \<Longrightarrow> storeUnfinishedSyscallCtx e s = (Inr False, s)"
  by (simp add: storeUnfinishedSyscallCtx_def bind_ask run_ret)

lemma lined_newLine: "gives (tt_lined c nr m) (startNewLine e t) (\<lambda>_. tt_lined c nr m)"
proof -
  have store: "gives (tt_lined c nr m) (storeUnfinishedSyscallCtx e) (\<lambda>unf s. tt_lined c nr m s \<and> \<not> unf)"
    by (rule givesI) (auto simp: storeUnfinished_none tt_lined_def)
  have upd: "gives (tt_lined c nr m) (updE (\<lambda>s. s\<lparr>tt_dropped_to_last := False\<rparr>)) (\<lambda>_. tt_lined c nr m)"
    by (rule gives_upd) (simp add: tt_lined_def)
  show ?thesis
    unfolding startNewLine_def seqsE.simps seq_skip_last
  proof (intro hoare_seq [OF hoare_bind [OF store]] gives_ask gives_if)
    fix unf :: bool
    show "gives (\<lambda>s. tt_lined c nr m s \<and> \<not> unf) (out ('' <...unfinished>'' @ nl)) (\<lambda>_. tt_lined c nr m)"
      by (rule gives_pre [OF lined_out]) simp
    show "gives (\<lambda>s. tt_lined c nr m s \<and> \<not> unf) skipE (\<lambda>_. tt_lined c nr m)"
      by (rule gives_skip) simp
  qed (auto intro: gives_pre [OF lined_out] gives_pre [OF hoare_seq [OF upd lined_out]] gives_skip)
qed

lemma lined_traceStream:
  "u \<noteq> [] \<Longrightarrow> fresh_line u \<Longrightarrow> gives (tt_lined c nr m) (traceStream e t True u) (\<lambda>_. tt_closed c nr m)"
  unfolding traceStream_def if_True by (rule hoare_seq [OF lined_newLine lined_out_fresh])

lemma exec_lines_lined:
  assumes "calls_keep nr (en_calls e)"
  shows "gives (tt_lined (en_conf e) nr m) (exec_lines e t pd exe cmdline None) (\<lambda>_. tt_inv (en_conf e) nr m)"
proof -
  have said: "gives (tt_lined (en_conf e) nr m) (bindE (askE tt_seen_initial_exec) (\<lambda>seen. if seen
       then traceStream e t True (''--- no longer running '' @ formatTraceeInvocation exe cmdline @ '' ---'' @ nl)
       else skipE)) (\<lambda>_. tt_lined (en_conf e) nr m)"
    by (rule gives_ask_if) (auto simp: tt_closed_def intro!: gives_skip
      gives_pre [OF gives_post [OF lined_traceStream]])
  show ?thesis
    unfolding exec_lines_def option.case seq_skipE
  proof (rule hoare_seq [OF said hoare_seq [OF closed_gives_inv [OF lined_traceStream]]])
    show "gives (tt_inv (en_conf e) nr m) (bindE (askE tt_seen_initial_exec) (\<lambda>seen. if \<not> seen
       then updE (\<lambda>s. s\<lparr>tt_seen_initial_exec := True\<rparr>)
       else bindE (followExecutionContext e pd) (\<lambda>follow. if follow then skipE
         else seqE (traceStream e t True (''--- detaching after execve ---'' @ nl)) (clientDetach t))))
       (\<lambda>_. tt_inv (en_conf e) nr m)"
      by (rule exec_end_inv [OF assms])
  qed simp_all
qed

lemma exit_without_call:
  assumes "tt_inv c nr m s" "m (t_pid u) = None" "isEnabled e (Some r)" "\<not> isExecSyscall (en_calls e r)"
  shows "\<exists>s'. tt_syscallExit e u r f s = (Inl (Undefined ''assertion !node.empty() failed''), s')"
proof -
  have "\<not> hasActiveSyscall (t_pid u) s" "smap_find (tt_unfinished s) (t_pid u) = None"
    using inv_none_inactive [OF assms(1,2)] inv_not_active [OF assms(1)] assms(2) by simp_all
  then have "checkResumedSyscall e u s = (Inl (Undefined ''assertion !node.empty() failed''), s)"
    by (simp add: checkResumedSyscall_def bind_ask run_raise)
  then show ?thesis
    using assms(3,4) by (simp add: tt_syscallExit_def deferE_def seqsE.simps run_seq_Inl Let_def)
qed

text \<open>C39: An execve whose system call is filtered out forgets the call of another tracee whose line is open:
  the line stays open, and when that call returns, the tracer fails the assertion that its call is
  stored as unfinished.\<close>

theorem hidden_execve_drops_call:
  assumes "calls_keep nr (en_calls e)" "tt_ok (en_conf e) nr s"
    and open_line: "tt_active s = Some (t_pid u, r)" "t_pid u \<noteq> t_pid t"
    and hidden: "pending s (t_pid t) = None"
    and leaves: "\<not> isExecSyscall (en_calls e r)"
  shows "\<exists>s1 s2. tt_newExecutionContext e t pd exe cmdline None s = (Inr (), s1) \<and>
    pending s1 = (pending s)(t_pid u := None) \<and>
    tt_syscallExit e u r f s1 = (Inl (Undefined ''assertion !node.empty() failed''), s2)"
proof -
  let ?m = "pending s" and ?m' = "(pending s)(t_pid u := None)"
  from assms(2) have inv: "tt_inv (en_conf e) nr ?m s" by (simp add: tt_inv_def)
  then have shown: "isEnabled e (Some r)" and unf: "smap_find (tt_unfinished s) = ?m'"
    and all: "all_shown (en_conf e) nr ?m'"
    using open_line(1) by (auto simp: isEnabled_shown [OF assms(1)] tt_inv_Some dest: all_shownD)
  have off: "\<not> isEnabled e (currentSyscall t s)"
    using enabled_pending [OF assms(1) inv, of t] hidden by simp
  have lined: "tt_lined (en_conf e) nr ?m' (s\<lparr>tt_active := None\<rparr>)"
    using unf all by (simp add: tt_lined_def)
  obtain x s1 where run: "exec_lines e t pd exe cmdline None (s\<lparr>tt_active := None\<rparr>) = (Inr x, s1)"
    and inv1: "tt_inv (en_conf e) nr ?m' s1"
    by (rule givesE [OF exec_lines_lined [OF assms(1)] lined])
  have "tt_newExecutionContext e t pd exe cmdline None s = (Inr (), s1)"
    using off run by (simp add: newExec_split seq_skipE seq_assoc seq_bind_assoc bind_ask seq_upd)
  moreover from exit_without_call [OF inv1 _ shown leaves, of u f] obtain s2 where
    "tt_syscallExit e u r f s1 = (Inl (Undefined ''assertion !node.empty() failed''), s2)" by auto
  ultimately show ?thesis using inv_pending [OF inv1] by blast
qed

definition filter_env :: tt_env where
  "filter_env = demo_tt_env\<lparr>en_conf := (initial_conf default_args)\<lparr>tc_syscall_filter := {SYS_GETPID}\<rparr>\<rparr>"

theorem hidden_execve_drops_call_witness:
  "let s = (initial_tt [])\<lparr>tt_active := Some (200, 0)\<rparr> in
   \<exists>s1 s2. tt_newExecutionContext filter_env (demo_tracee 100) \<lparr>pd_exe = [], pd_cmdline = [], pd_fds = []\<rparr> [] [] None s =
       (Inr (), s1) \<and> pending s1 = (pending s)(200 := None) \<and>
     tt_syscallExit filter_env (demo_tracee 200) 0 {} s1 = (Inl (Undefined ''assertion !node.empty() failed''), s2)"
proof -
  let ?s = "(initial_tt [])\<lparr>tt_active := Some (200, 0)\<rparr>"
  have keep: "calls_keep (\<lambda>_. SYS_GETPID) (en_calls filter_env)"
    using demo_calls_keep by (simp add: filter_env_def)
  have ok: "tt_ok (en_conf filter_env) (\<lambda>_. SYS_GETPID) ?s"
    by (auto simp: tt_ok_def pending_def initial_tt_def all_shown_def shown_def filter_env_def split: if_splits)
  have pids: "t_pid (demo_tracee p) = p" for p by (simp add: demo_tracee_def)
  have "\<not> isExecSyscall (en_calls filter_env 0)"
    by (simp add: isExecSyscall_def filter_env_def demo_tt_env_def new_call_def plain_family_def base_class_def)
  then show ?thesis
    using hidden_execve_drops_call [OF keep ok, of "demo_tracee 200" 0 "demo_tracee 100"
        "\<lparr>pd_exe = [], pd_cmdline = [], pd_fds = []\<rparr>" "[]" "[]" "{}"]
    by (simp add: pids pending_def initial_tt_def Let_def)
qed

subsection \<open>Parameters\<close>

text \<open>The text of the parameters of a list that are in use; \<open>further\<close> says whether parameters follow the list.\<close>

primrec used_pars :: "tt_env \<Rightarrow> bool \<Rightarrow> item list \<Rightarrow> string" where
  "used_pars e further [] = []"
| "used_pars e further (par # pars) =
     (if it_unused par then [] else printPar e par @ (if pars = [] \<and> \<not> further then [] else '', '')) @
     used_pars e further pars"

definition known_at_entry :: "item \<Rightarrow> bool" where
  "known_at_entry par \<longleftrightarrow> it_unused par \<or> isIn par"

lemma pars_exit_seen: "pars_exit_loop e True pars = used_pars e False pars"
  by (induction pars) simp_all

lemma pars_exit_dropWhile: "pars_exit_loop e False pars = used_pars e False (dropWhile known_at_entry pars)"
  by (induction pars) (simp_all add: pars_exit_seen known_at_entry_def)

lemma pars_entry_takeWhile:
  "printParsOnEntry e pars = used_pars e (dropWhile known_at_entry pars \<noteq> []) (takeWhile known_at_entry pars)"
proof (induction pars)
  case Nil
  then show ?case by simp
next
  case (Cons par pars)
  have "takeWhile known_at_entry pars = [] \<and> dropWhile known_at_entry pars = [] \<longleftrightarrow> pars = []"
    by (metis append_is_Nil_conv takeWhile_dropWhile_id)
  moreover have "known_at_entry par \<longleftrightarrow> it_unused par \<or> isIn par" by (simp add: known_at_entry_def)
  ultimately show ?case using Cons by auto
qed

text \<open>C40: The parameters printed when a system call is entered and when it is left are together all
  parameters in use, each once and in order: at the entry the input parameters in front of the first
  one that is only known afterwards, at the exit that one and everything behind it, whatever the values
  have become in the meantime.\<close>

theorem parameters_printed_once:
  assumes "list_all2 (\<lambda>p q. it_unused p = it_unused q \<and> it_type p = it_type q) pars pars'"
  defines "k \<equiv> length (takeWhile known_at_entry pars)"
  shows "printParsOnEntry e pars = used_pars e (k < length pars) (take k pars) \<and>
    printParsOnExit e' pars' = used_pars e' False (drop k pars') \<and>
    (k < length pars \<longrightarrow> \<not> it_unused (pars ! k) \<and> \<not> isIn (pars ! k))"
proof -
  have same: "length (takeWhile known_at_entry pars') = k"
    unfolding k_def using assms(1)
    by (induction rule: list_all2_induct) (simp_all add: known_at_entry_def isIn_def)
  have more: "(dropWhile known_at_entry pars \<noteq> []) = (k < length pars)"
    unfolding k_def by (simp add: dropWhile_eq_drop not_le)
  have first: "takeWhile known_at_entry pars = take k pars"
    unfolding k_def by (rule takeWhile_eq_take)
  have second: "dropWhile known_at_entry pars' = drop k pars'"
    unfolding same [symmetric] by (rule dropWhile_eq_drop)
  have "\<not> known_at_entry (pars ! k)" if "k < length pars"
    using that unfolding k_def by (rule nth_length_takeWhile)
  then show ?thesis
    unfolding pars_entry_takeWhile printParsOnExit_def pars_exit_dropWhile more first second
    by (simp add: known_at_entry_def)
qed

theorem parameters_printed_once_witness:
  "let pars = [new_item PARAM_IN ''fd'', new_item PARAM_OUT ''buf'', new_item PARAM_IN ''count''] in
   printParsOnEntry demo_tt_env pars = ''fd=fd, '' \<and> printParsOnExit demo_tt_env pars = ''buf=buf, count=count''"
  using parameters_printed_once [of "[new_item PARAM_IN ''fd'', new_item PARAM_OUT ''buf'', new_item PARAM_IN ''count'']"
      "[new_item PARAM_IN ''fd'', new_item PARAM_OUT ''buf'', new_item PARAM_IN ''count'']" demo_tt_env demo_tt_env]
  by (simp add: new_item_def known_at_entry_def isIn_def printPar_def demo_tt_env_def initial_conf_def
      demo_lib_def default_args_def Let_def)

end
