(* ===== verification/Format_Props.thy ===== *)
theory Format_Props
  imports Format
begin

text \<open>
  Properties of the formatting functions: lists are joined without a separator at the end, the sets of
  poll events get one in front, binary buffers can be read back, and the name of a trapped system call.
\<close>

section \<open>Joined lists\<close>

lemma join_Cons: "xs \<noteq> [] \<Longrightarrow> join sep (x # xs) = x @ sep @ join sep xs"
  by (cases xs) simp_all

lemma join_snoc: "xs \<noteq> [] \<Longrightarrow> join sep (xs @ [x]) = join sep xs @ sep @ x"
proof (induction xs)
  case (Cons y ys)
  then show ?case by (cases ys) (simp_all add: join_Cons)
qed simp

lemma signal_set_loop_join:
  "foldl (\<lambda>acc sig. if isSet sig then acc @ f sig @ sep else acc) t ns =
     t @ concat (map (\<lambda>sig. f sig @ sep) (filter isSet ns))"
  by (induction ns arbitrary: t) simp_all

lemma concat_join: "xs \<noteq> [] \<Longrightarrow> concat (map (\<lambda>x. x @ sep) xs) = join sep xs @ sep"
proof (induction xs)
  case (Cons y ys)
  then show ?case by (cases ys) (simp_all add: join_Cons)
qed simp

text \<open>The text of a signal set: its signals but the last possible one, joined.\<close>

lemma signal_set_text:
  "signal_set L isSet = ''{'' @ join '', '' (map (format_signal L False) (filter isSet [1..<64])) @ ''}''"
proof -
  let ?xs = "map (format_signal L False) (filter isSet [1..<64])"
  have loop: "signal_set_loop L isSet [1..<64] = concat (map (\<lambda>x. x @ '', '') ?xs)"
    unfolding signal_set_loop_def signal_set_loop_join by (simp add: comp_def)
  show ?thesis
  proof (cases "?xs = []")
    case True
    then have "signal_set_loop L isSet [1..<64] = []" unfolding loop by simp
    with True show ?thesis by (simp add: signal_set_def SIGRTMAX_def is_suffix_def Let_def)
  next
    case False
    then have "signal_set_loop L isSet [1..<64] = join '', '' ?xs @ '', ''"
      unfolding loop by (rule concat_join)
    then show ?thesis by (simp add: signal_set_def SIGRTMAX_def is_suffix_def Let_def)
  qed
qed

text \<open>A set of poll events: the labels of the bits, joined, with a separator in front unless the lowest
  bit is set.\<close>

lemma poll_loop_text:
  "0 \<notin> set ns \<Longrightarrow> poll_loop ev ns acc =
     acc @ concat (map (\<lambda>n. ''|'' @ poll_event (2 ^ n)) (filter (bit ev) ns))"
  by (induction ns arbitrary: acc) auto

lemma concat_sep_front: "concat (map (\<lambda>x. sep @ f x) xs) = (if xs = [] then [] else sep @ join sep (map f xs))"
  by (induction xs) (simp_all add: join_Cons)

theorem poll_events_text:
  fixes L :: fmt_lib and ev :: nat
  assumes "1 < fl_poll_width L"
  defines "ns \<equiv> filter (bit ev) [0..<fl_poll_width L - 1]"
  shows "poll_events L ev =
    (if ns \<noteq> [] \<and> \<not> bit ev 0 then ''|'' else []) @ join ''|'' (map (\<lambda>n. poll_event (2 ^ n)) ns)"
proof -
  let ?w = "fl_poll_width L - 1"
  let ?rest = "filter (bit ev) [1..<?w]"
  have range: "[0..<?w] = 0 # [1..<?w]" using assms(1) by (simp add: upt_conv_Cons)
  have run: "poll_events L ev = (if bit ev 0 then poll_event 1 else []) @
      concat (map (\<lambda>n. ''|'' @ poll_event (2 ^ n)) ?rest)"
    unfolding poll_events_def range by (simp add: poll_loop_text)
  show ?thesis
  proof (cases "bit ev 0")
    case True
    then have "ns = 0 # ?rest" unfolding ns_def range by simp
    with True run concat_sep_front [of "''|''" "\<lambda>n. poll_event (2 ^ n)" ?rest] show ?thesis
      by (cases "?rest = []") (simp_all add: join_Cons)
  next
    case False
    then have "ns = ?rest" unfolding ns_def range by simp
    with False run concat_sep_front [of "''|''" "\<lambda>n. poll_event (2 ^ n)" ?rest] show ?thesis by simp
  qed
qed

section \<open>Buffers\<close>

definition hex_val :: "char \<Rightarrow> nat" where
  "hex_val ch = (let n = char_val ch in if n < 58 then n - 48 else n - 87)"

text \<open>Reading a binary buffer back: two hexadecimal digits behind each \<open>\x\<close>.\<close>

fun parse_binary :: "string \<Rightarrow> byte list" where
  "parse_binary (b # x # h # l # rest) = (word_of_nat (16 * hex_val h + hex_val l) :: byte) # parse_binary rest"
| "parse_binary _ = []"

lemma hex_val_digit [simp]: "d < 16 \<Longrightarrow> hex_val (hex_digit d) = d"
  by (auto simp: hex_val_def hex_digit_def char_val_def digit_char_def)

lemma byte_bound: "unat (b :: byte) < 256"
  using unsigned_less [of b, where ?'a = nat] by simp

lemma binary_byte:
  "parse_binary (CHR 0x5C # CHR ''x'' # hex_digit (unat b div 16) # hex_digit (unat b mod 16) # rest) =
     (b :: byte) # parse_binary rest"
proof -
  have "unat b < 256" by (rule byte_bound)
  then have *: "unat b div 16 < 16" "unat b mod 16 < 16" by simp_all
  have "(word_of_nat (16 * (unat b div 16) + unat b mod 16) :: byte) = b"
    by (simp only: mult_div_mod_eq) simp
  then show ?thesis by (simp only: parse_binary.simps hex_val_digit [OF *(1)] hex_val_digit [OF *(2)])
qed

theorem buffer_binary_roundtrip:
  assumes hex: "\<And>ch. ch < 256 \<Longrightarrow> fl_hex_with L (CHR 0x5C # ''x'') ch 2 =
    CHR 0x5C # ''x'' @ [hex_digit (ch div 16), hex_digit (ch mod 16)]"
  shows "parse_binary (butlast (tl (format_buffer L True bs))) = bs"
proof -
  have ch: "buffer_char L True b =
      CHR 0x5C # ''x'' @ [hex_digit (unat b div 16), hex_digit (unat b mod 16)]" for b
    by (simp add: buffer_char_def HexChar_def hex [OF byte_bound])
  have "parse_binary (concat (map (buffer_char L True) bs)) = bs"
    by (induction bs) (simp_all add: ch binary_byte del: parse_binary.simps, simp)
  then show ?thesis by (simp add: format_buffer_def)
qed

text \<open>As text a buffer cannot be read back: the backslash and the quote are printed as they are.\<close>

lemma printed_chars: "char_of (92 :: nat) = CHR 0x5C" "char_of (120 :: nat) = CHR ''x''" "char_of (48 :: nat) = CHR ''0''"
  by code_simp+

lemma buffer_text_ambiguous:
  assumes "fl_hex_with L (CHR 0x5C # ''x'') 0 2 = CHR 0x5C # ''x00''"
  shows "format_buffer L False [0] = format_buffer L False [0x5C, 0x78, 0x30, 0x30]"
  by (simp add: format_buffer_def buffer_char_def HexChar_def assms isprint_def is_space_def char_val_def
      printed_chars)

section \<open>The name of a trapped system call\<close>

text \<open>
  A native number outside of the generic enumeration, as every number of the X32 ABI is, reads past
  the end of the name table.
\<close>

theorem trapped_call_name:
  "sig_data_str L status (SysSig reason addr nr arch err) =
     (if call_nr_cast nr < SYSTEM_CALL_COUNT
      then Inr ('', reason='' @ si_reason_sys reason @ '', si_addr='' @ ptr_str addr @ '', si_syscall='' @
        int_str nr @ '' ('' @ SYSTEM_CALL_NAMES ! call_nr_cast nr @ ''), si_arch='' @ format_ptrace_arch arch @
        '', si_errno='' @ int_str err)
      else Inl (Undefined ''SYSTEM_CALL_NAMES index out of range''))"
  by (simp add: sig_data_str_def SystemCall_name_def length_names)

lemma x32_call_has_no_name: "SYSTEM_CALL_COUNT \<le> call_nr_cast (int X32_SYSCALL_BIT + int n)" if "n < 1000"
  using that by (simp add: call_nr_cast_def X32_SYSCALL_BIT_def SYSTEM_CALL_COUNT_def)

end
