(* ===== verification/Registers.thy ===== *)
theory Registers
  imports Tracee_Core
begin

text \<open>
  The register sets that ptrace(2) delivers (include/regs/*.hxx, include/RegisterSet.hxx,
  src/RegisterSet.cxx): the layout for each ABI, the registers of the system call convention, and the
  text of a register set. \<open>reg_data\<close> is the interface that the template \<open>RegisterSet\<close> uses of its
  register data.
\<close>

section \<open>Register data\<close>

type_synonym word32 = "32 word"

record i386_regs =
  i_ebx :: word32
  i_ecx :: word32
  i_edx :: word32
  i_esi :: word32
  i_edi :: word32
  i_ebp :: word32
  i_eax :: word32
  i_xds :: word32
  i_xes :: word32
  i_xfs :: word32
  i_xgs :: word32
  i_orig_eax :: word32
  i_eip :: word32
  i_xcs :: word32
  i_eflags :: word32
  i_esp :: word32
  i_xss :: word32

record x86_64_regs =
  x_r15 :: word64
  x_r14 :: word64
  x_r13 :: word64
  x_r12 :: word64
  x_rbp :: word64
  x_rbx :: word64
  x_r11 :: word64
  x_r10 :: word64
  x_r9 :: word64
  x_r8 :: word64
  x_rax :: word64
  x_rcx :: word64
  x_rdx :: word64
  x_rsi :: word64
  x_rdi :: word64
  x_orig_rax :: word64
  x_rip :: word64
  x_cs :: word64
  x_flags :: word64
  x_rsp :: word64
  x_ss :: word64
  x_fs_base :: word64
  x_gs_base :: word64
  x_ds :: word64
  x_es :: word64
  x_fs :: word64
  x_gs :: word64

text \<open>\<open>regs\<close> has 31 elements.\<close>

record aarch64_regs =
  a_regs :: "word64 list"
  a_sp :: word64
  a_pc :: word64
  a_pstate :: word64

text \<open>
  What a register data class offers, for the raw registers \<open>'r\<close>. A name is \<open>None\<close> where the array of
  names is not filled; arrays are padded to \<open>NUM_REGS\<close> with null pointers and zeros. \<open>rd_bytes\<close> is
  the size of the class.
\<close>

record 'r reg_data =
  rd_num :: nat
  rd_bytes :: nat
  rd_nr :: "'r \<Rightarrow> nat"
  rd_res :: "'r \<Rightarrow> nat"
  rd_pars :: "'r \<Rightarrow> nat list"
  rd_names :: "string option list"
  rd_array :: "'r \<Rightarrow> nat list"

definition pad_to :: "nat \<Rightarrow> 'a \<Rightarrow> 'a list \<Rightarrow> 'a list" where
  "pad_to n x xs = xs @ replicate (n - length xs) x"

definition RegisterDataI386 :: "i386_regs reg_data" where
  "RegisterDataI386 = \<lparr>rd_num = 17, rd_bytes = 17 * 4,
     rd_nr = (\<lambda>r. unat (i_orig_eax r)), rd_res = (\<lambda>r. unat (i_eax r)),
     rd_pars = (\<lambda>r. map unat [i_ebx r, i_ecx r, i_edx r, i_esi r, i_edi r, i_ebp r]),
     rd_names = pad_to 17 None (map Some [''ebx'', ''ecx'', ''edx'', ''esi'', ''edi'', ''ebp'', ''eax'',
       ''xds'', ''xes'', ''xfs'', ''xgs'', ''orig_eax'', ''eip'', ''xcs'', ''eflags'', ''esp'', ''xss'']),
     rd_array = (\<lambda>r. pad_to 17 0 (map unat [i_ebx r, i_ecx r, i_edx r, i_esi r, i_edi r, i_ebp r, i_eax r,
       i_xds r, i_xes r, i_xfs r, i_xgs r, i_orig_eax r, i_eip r, i_xcs r, i_eflags r, i_esp r, i_xss r]))\<rparr>"

definition RegisterDataX86_64 :: "x86_64_regs reg_data" where
  "RegisterDataX86_64 = \<lparr>rd_num = 27, rd_bytes = 27 * 8,
     rd_nr = (\<lambda>r. unat (x_orig_rax r)), rd_res = (\<lambda>r. unat (x_rax r)),
     rd_pars = (\<lambda>r. map unat [x_rdi r, x_rsi r, x_rdx r, x_r10 r, x_r8 r, x_r9 r]),
     rd_names = pad_to 27 None (map Some [''r15'', ''r14'', ''r13'', ''r12'', ''rbp'', ''rbx'', ''r11'',
       ''r10'', ''r9'', ''r8'', ''rax'', ''rcx'', ''rdx'', ''rsi'', ''orig_rax'', ''rip'', ''cs'', ''flags'',
       ''rsp'', ''ss'', ''fs_base'', ''gs_base'', ''ds'', ''es'', ''fs'', ''gs'']),
     rd_array = (\<lambda>r. pad_to 27 0 (map unat [x_r15 r, x_r14 r, x_r13 r, x_r12 r, x_rbp r, x_rbx r, x_r11 r,
       x_r10 r, x_r9 r, x_r8 r, x_rax r, x_rcx r, x_rdx r, x_rsi r, x_orig_rax r, x_rip r, x_cs r, x_flags r,
       x_rsp r, x_ss r, x_fs_base r, x_gs_base r, x_ds r, x_es r, x_fs r, x_gs r]))\<rparr>"

definition RegisterDataAARCH64 :: "aarch64_regs reg_data" where
  "RegisterDataAARCH64 = \<lparr>rd_num = 34, rd_bytes = 34 * 8,
     rd_nr = (\<lambda>r. unat (and (a_regs r ! 8) 0xFFFFFFFF)), rd_res = (\<lambda>r. unat (a_regs r ! 0)),
     rd_pars = (\<lambda>r. map (\<lambda>n. unat (a_regs r ! n)) [0, 1, 2, 3, 4, 5]),
     rd_names = pad_to 34 None (map Some [''x0'', ''x1'', ''x2'', ''x3'', ''x4'', ''x5'', ''x6'', ''x7'',
       ''x8'', ''x9'', ''x10'', ''x11'', ''x12'', ''x13'', ''x14'', ''x15'', ''x16'', ''x17'', ''x18'', ''x19'',
       ''x20'', ''x21'', ''x22'', ''x23'', ''x24'', ''x25'', ''x26'', ''x27'', ''x28'', ''x29'', ''x30'',
       ''sp'', ''pc'', ''pstate'']),
     rd_array = (\<lambda>r. pad_to 34 0 (map (\<lambda>n. unat (a_regs r ! n)) [0..<31] @
       map unat [a_sp r, a_pc r, a_pstate r]))\<rparr>"

section \<open>Register sets\<close>

definition iovFilled :: "'r reg_data \<Rightarrow> nat \<Rightarrow> exn + unit" where
  "iovFilled d received = (if received < rd_bytes d
     then Inl (RuntimeError ''received incomplete register set'') else Inr ())"

definition rs_syscallNr :: "'r reg_data \<Rightarrow> (nat \<Rightarrow> sysnr) \<Rightarrow> 'r \<Rightarrow> sysnr" where
  "rs_syscallNr d to_gen r = to_gen (rd_nr d r)"

text \<open>\<open>cosmos::UsageError\<close> is a \<open>CosmosError\<close> like \<open>RuntimeError\<close>, which stands for it here.\<close>

definition syscallParameter :: "'r reg_data \<Rightarrow> nat \<Rightarrow> 'r \<Rightarrow> exn + nat" where
  "syscallParameter d number r = (let pars = rd_pars d r in
     if length pars \<le> number then Inl (RuntimeError ''invalid system call parameter nr.'')
     else Inr (pars ! number))"

text \<open>\<open>operator<<\<close>: writing a null pointer as a string is undefined.\<close>

fun print_regs :: "bool \<Rightarrow> string option list \<Rightarrow> nat list \<Rightarrow> exn + string" where
  "print_regs first (name # names) (v # vs) = (case name of
     None \<Rightarrow> Inl (Undefined ''null pointer as a string'')
   | Some t \<Rightarrow> map_sum id (\<lambda>rest. (if first then [] else [CHR 0x0A]) @ t @ '' = '' @ nat_str v @ rest)
       (print_regs False names vs))"
| "print_regs first _ _ = Inr []"

definition RegisterSet_print :: "'r reg_data \<Rightarrow> 'r \<Rightarrow> exn + string" where
  "RegisterSet_print d r = print_regs True (take (rd_num d) (rd_names d)) (take (rd_num d) (rd_array d r))"

section \<open>Properties\<close>

lemma pad_full [simp]: "length xs = n \<Longrightarrow> pad_to n x xs = xs"
  by (simp add: pad_to_def)

lemma print_regs_known:
  assumes "length ts = length vs" "ts \<noteq> []"
  shows "print_regs True (map Some ts) vs =
    Inr (join [CHR 0x0A] (map2 (\<lambda>t v. t @ '' = '' @ nat_str v) ts vs))"
proof -
  let ?f = "\<lambda>t v. t @ '' = '' @ nat_str v"
  have rest: "print_regs False (map Some ts) vs =
      Inr (if ts = [] then [] else [CHR 0x0A] @ join [CHR 0x0A] (map2 ?f ts vs))"
    if "length ts = length vs" for ts vs
    using that
  proof (induction ts vs rule: list_induct2)
    case (Cons t ts v vs)
    then show ?case by (cases ts; cases vs) simp_all
  qed simp
  from assms obtain t ts' v vs' where *: "ts = t # ts'" "vs = v # vs'" by (cases ts; cases vs) auto
  with assms(1) rest [of ts' vs'] show ?thesis by (cases ts'; cases vs') simp_all
qed

text \<open>The text of a 32-bit register set: every register with its name, one per line.\<close>

theorem i386_registers_printed:
  "RegisterSet_print RegisterDataI386 r = Inr (join [CHR 0x0A] (map2 (\<lambda>t v. t @ '' = '' @ nat_str v)
     [''ebx'', ''ecx'', ''edx'', ''esi'', ''edi'', ''ebp'', ''eax'', ''xds'', ''xes'', ''xfs'', ''xgs'',
      ''orig_eax'', ''eip'', ''xcs'', ''eflags'', ''esp'', ''xss''] (rd_array RegisterDataI386 r)))"
  unfolding RegisterSet_print_def RegisterDataI386_def reg_data.simps
  by (subst print_regs_known [symmetric]) simp_all

text \<open>
  The arrays of the 64-bit register set have 26 entries: \<open>rdi\<close>, the first parameter register, is missing
  in both, and printing the set ends at the null pointer behind the last name.
\<close>

lemma print_regs_null:
  "length vs = length ts + Suc n \<Longrightarrow>
     print_regs first (map Some ts @ None # names) vs = Inl (Undefined ''null pointer as a string'')"
  by (induction ts arbitrary: vs first; case_tac vs) simp_all

theorem x86_64_registers_undefined:
  "RegisterSet_print RegisterDataX86_64 r = Inl (Undefined ''null pointer as a string'') \<and>
     Some ''rdi'' \<notin> set (rd_names RegisterDataX86_64) \<and> x_rdi r = of_nat (rd_pars RegisterDataX86_64 r ! 0)"
proof -
  let ?ts = "[''r15'', ''r14'', ''r13'', ''r12'', ''rbp'', ''rbx'', ''r11'',
       ''r10'', ''r9'', ''r8'', ''rax'', ''rcx'', ''rdx'', ''rsi'', ''orig_rax'', ''rip'', ''cs'', ''flags'',
       ''rsp'', ''ss'', ''fs_base'', ''gs_base'', ''ds'', ''es'', ''fs'', ''gs'']"
  have names: "rd_names RegisterDataX86_64 = map Some ?ts @ [None]"
    by (simp add: RegisterDataX86_64_def pad_to_def)
  have "length (rd_array RegisterDataX86_64 r) = 27" "rd_num RegisterDataX86_64 = 27"
    by (simp_all add: RegisterDataX86_64_def pad_to_def)
  then have "RegisterSet_print RegisterDataX86_64 r = Inl (Undefined ''null pointer as a string'')"
    unfolding RegisterSet_print_def names
    using print_regs_null [of "take 27 (rd_array RegisterDataX86_64 r)" ?ts 0 True "[]"] by simp
  moreover have "Some ''rdi'' \<notin> set (rd_names RegisterDataX86_64)" unfolding names by simp
  moreover have "x_rdi r = of_nat (rd_pars RegisterDataX86_64 r ! 0)" by (simp add: RegisterDataX86_64_def)
  ultimately show ?thesis by blast
qed

text \<open>Parameters are numbered from zero; all ABIs have six.\<close>

lemma syscallParameter_range:
  "(\<exists>v. syscallParameter RegisterDataI386 n r = Inr v) \<longleftrightarrow> n < 6"
  "(\<exists>v. syscallParameter RegisterDataX86_64 n s = Inr v) \<longleftrightarrow> n < 6"
  "(\<exists>v. syscallParameter RegisterDataAARCH64 n a = Inr v) \<longleftrightarrow> n < 6"
  by (auto simp: syscallParameter_def RegisterDataI386_def RegisterDataX86_64_def RegisterDataAARCH64_def Let_def)

end
