(* ===== verification/Call_Dirents.thy ===== *)
theory Call_Dirents
  imports Buffer_Props Call_Methods Bytes
begin

text \<open>
  The system calls getdents(2), getdents64(2) and uname(2): \<open>GetDentsSystemCall\<close> (include/syscalls/fs.hxx)
  and \<open>UnameSystemCall\<close> (include/syscalls/other.hxx) with the items \<open>DirEntries\<close> (src/items/fs.cxx) and
  \<open>UnameStruct\<close> (src/items/other.cxx), which parse what the kernel wrote into the memory of the tracee.
  The layouts are those of clues/private/kernel/dirent.hxx and uname.hxx.
\<close>

section \<open>Directory entries\<close>

record dir_entry =
  de_inode :: nat
  de_offset :: int
  de_name :: "byte list"
  de_type :: nat

text \<open>
  The loop that removes padding from the length of a name: it looks from the back for a byte that is not
  zero and never removes the first byte.
\<close>

fun name_length :: "byte list \<Rightarrow> nat \<Rightarrow> nat" where
  "name_length d_name (Suc (Suc n)) = (if d_name ! Suc n = 0 then name_length d_name (Suc n) else Suc (Suc n))"
| "name_length d_name n = n"

definition entry_name :: "byte list \<Rightarrow> nat \<Rightarrow> byte list" where
  "entry_name d_name n = take (name_length d_name n) d_name"

text \<open>
  \<open>w\<close> is the size of \<open>unsigned long\<close> in the structure, so its members are at 0, \<open>w\<close> and \<open>2 * w\<close> and the name
  is behind them. The argument of the loops is the buffer from the position \<open>pos\<close> on. A record length
  that is too short for the members makes the name begin behind its end, one that is too long makes
  the entry reach beyond the buffer; the type of an entry is its last byte.
\<close>

definition next_entry :: "nat \<Rightarrow> nat \<Rightarrow> nat \<Rightarrow> byte list \<Rightarrow> exn + nat" where
  "next_entry len_at name_at tail cur =
     (if length cur < len_at + 2 then Inl (Undefined ''read beyond the buffer'')
      else let d_reclen = field len_at 2 cur in
        if d_reclen < name_at + tail then Inl (Undefined ''pointer outside of the entry'')
        else if length cur < d_reclen then Inl (Undefined ''read beyond the buffer'')
        else Inr d_reclen)"

lemma next_entry_length:
  "next_entry len_at name_at tail cur = Inr d_reclen \<Longrightarrow> name_at + tail \<le> d_reclen \<and> d_reclen \<le> length cur"
  by (auto simp: next_entry_def Let_def split: if_splits)

definition entry32 :: "nat \<Rightarrow> nat \<Rightarrow> byte list \<Rightarrow> dir_entry" where
  "entry32 w d_reclen cur = \<lparr>de_inode = field 0 w cur,
     de_offset = (if w = 8 then sint (of_nat (field w w cur) :: word64) else int (field w w cur)),
     de_name = entry_name (drop (2 * w + 2) cur) (d_reclen - (2 * w + 2) - 2),
     de_type = unat (cur ! (d_reclen - 1))\<rparr>"

function parseEntries32 :: "nat \<Rightarrow> byte list \<Rightarrow> exn + dir_entry list" where
  "parseEntries32 w cur =
     (if cur = [] then Inr []
      else case next_entry (2 * w) (2 * w + 2) 2 cur of
        Inl e \<Rightarrow> Inl e
      | Inr d_reclen \<Rightarrow> map_sum id ((#) (entry32 w d_reclen cur)) (parseEntries32 w (drop d_reclen cur)))"
  by pat_completeness auto
termination
  by (relation "measure (length \<circ> snd)") (auto dest!: next_entry_length)

definition entry64 :: "nat \<Rightarrow> byte list \<Rightarrow> dir_entry" where
  "entry64 d_reclen cur = \<lparr>de_inode = field 0 8 cur, de_offset = sint (of_nat (field 8 8 cur) :: word64),
     de_name = entry_name (drop 19 cur) (d_reclen - 19), de_type = field 18 1 cur\<rparr>"

function parseEntries64 :: "byte list \<Rightarrow> exn + dir_entry list" where
  "parseEntries64 cur =
     (if cur = [] then Inr []
      else case next_entry 16 19 0 cur of
        Inl e \<Rightarrow> Inl e
      | Inr d_reclen \<Rightarrow> map_sum id ((#) (entry64 d_reclen cur)) (parseEntries64 (drop d_reclen cur)))"
  by pat_completeness auto
termination
  by (relation "measure length") (auto dest!: next_entry_length)

declare parseEntries32.simps [simp del] parseEntries64.simps [simp del]

text \<open>
  The buffer, and with it the entries, are empty until they have been read; the entries are a function
  of the buffer. \<open>it_data\<close> is the buffer.
\<close>

definition parseEntries :: "arch_flags \<Rightarrow> syscall \<Rightarrow> byte list \<Rightarrow> exn + dir_entry list" where
  "parseEntries a c bs =
     (if sc_nr c = SYS_GETDENTS64 then parseEntries64 bs
      else if is32BitEmulationABI a c then parseEntries32 4 bs
      else parseEntries32 8 bs)"

definition DirEntries_processData :: item_method where
  "DirEntries_processData tv c = updE (put_data None)"

definition DirEntries_updateData :: item_method where
  "DirEntries_updateData tv c =
     (if \<not> hasResultValue c then skipE
      else let bytes = unat (sc_return c) in
        if bytes = 0 then skipE
        else seqsE [allocE tv bytes,
          (\<lambda>i. case readBlob (tv_peek tv) (it_val i) bytes bytes of
               None \<Rightarrow> endless i
             | Some (r, bs) \<Rightarrow> (r, case r of Inl _ \<Rightarrow> i | Inr _ \<Rightarrow> put_data (Some bs) i)),
          bindE (askE vec) (\<lambda>bs. voidE (liftE (parseEntries (tv_arch tv) c bs)))])"

definition DirEntries_entries :: "arch_flags \<Rightarrow> syscall \<Rightarrow> item \<Rightarrow> dir_entry list" where
  "DirEntries_entries a c i = (case parseEntries a c (vec i) of Inr es \<Rightarrow> es | Inl _ \<Rightarrow> [])"

section \<open>System information\<close>

text \<open>
  \<open>strcpy\<close> from a field of the structure: without a terminating zero it would read beyond the field.
\<close>

definition strcpy_field :: "byte list \<Rightarrow> exn + byte list" where
  "strcpy_field bs = (if 0 \<in> set bs then Inr (takeWhile (\<lambda>b. b \<noteq> 0) bs)
     else Inl (Undefined ''string without an end''))"

primrec copy_fields :: "byte list list \<Rightarrow> item_prog" where
  "copy_fields [] = skipE"
| "copy_fields (f # fs) = seqE
     (bindE (liftE (strcpy_field f)) (\<lambda>t. updE (\<lambda>i. i\<lparr>it_more := it_more i @ [t]\<rparr>))) (copy_fields fs)"

text \<open>
  \<open>copy_struct\<close> for a structure with \<open>n\<close> fields of \<open>len\<close> characters. \<open>it_data\<close> is not empty when \<open>m_uname\<close> is
  set, \<open>it_more\<close> are the fields that were copied into it. The domain name is behind a test for the type
  of the structure; the type tested is the one of the parameter, a reference, so the test always fails.
\<close>

definition copy_struct :: "tview \<Rightarrow> nat \<Rightarrow> nat \<Rightarrow> item_prog" where
  "copy_struct tv n len = seqE (updE (\<lambda>i. i\<lparr>it_data := Some [], it_more := []\<rparr>))
     (bindE (bindE (askE it_val) (fetch_local tv (n * len))) (\<lambda>kernel. case kernel of
        None \<Rightarrow> updE (put_data None)
      | Some bs \<Rightarrow> copy_fields (map (\<lambda>k. take len (drop (k * len) bs)) [0..<5])))"

definition UnameStruct_processData :: item_method where
  "UnameStruct_processData tv c = updE (\<lambda>i. i\<lparr>it_data := None, it_more := []\<rparr>)"

definition UnameStruct_updateData :: item_method where
  "UnameStruct_updateData tv c =
     (if \<not> hasResultValue c then skipE
      else if sc_nr c = SYS_UNAME then copy_struct tv 6 65
      else if sc_nr c = SYS_OLDUNAME then copy_struct tv 5 65
      else if sc_nr c = SYS_OLDOLDUNAME then copy_struct tv 5 9
      else raise (RuntimeError ''unexpected uname system call''))"

section \<open>The system calls\<close>

definition dirent_items :: method_table where
  "dirent_items = [(''DirEntries'', DirEntries_processData, DirEntries_updateData),
     (''UnameStruct'', UnameStruct_processData, UnameStruct_updateData)]"

definition GetDentsSystemCall :: call_class where
  "GetDentsSystemCall = with_methods dirent_items (base_class\<lparr>
     cc_pars := (\<lambda>_. [val ''FileDescriptor'' ''fd'', item_of (K_Value ''DirEntries'') PARAM_OUT ''dirent'',
       val ''UintValue'' ''size'']),
     cc_ret := (\<lambda>_. ret_val ''SizeValue'' ''bytes'')\<rparr>)"

definition UnameSystemCall :: call_class where
  "UnameSystemCall = with_methods dirent_items (base_class\<lparr>
     cc_pars := (\<lambda>_. [item_of (K_Value ''UnameStruct'') PARAM_OUT ''utsname'']),
     cc_ret := (\<lambda>_. success_result)\<rparr>)"

definition dirent_family :: "class_family \<Rightarrow> class_family" where
  "dirent_family rest = rest\<lparr>cf_class := (\<lambda>cls.
     if cls = ''GetDentsSystemCall'' then GetDentsSystemCall
     else if cls = ''UnameSystemCall'' then UnameSystemCall
     else cf_class rest cls)\<rparr>"

lemma sound_copy_fields [sound_intros]: "sound False (item_is sg v) (copy_fields fs)"
  by (induction fs) (auto intro!: sound_intros)

interpretation dirent: item_methods dirent_items
  by unfold_locales
    (auto simp: dirent_items_def DirEntries_processData_def DirEntries_updateData_def
      UnameStruct_processData_def UnameStruct_updateData_def copy_struct_def Let_def
      intro!: sound_intros split: sum.splits)

section \<open>What the kernel writes\<close>

text \<open>
  The entries as the kernel writes them: the name is followed by zeros, at least one, and in the layout
  of getdents(2) the type is the last byte of the entry.
\<close>

record kernel_entry =
  ke_inode :: nat
  ke_offset :: nat
  ke_name :: "byte list"
  ke_type :: byte
  ke_pad :: nat

definition written32 :: "nat \<Rightarrow> kernel_entry \<Rightarrow> byte list" where
  "written32 w e = nat_bytes w (ke_inode e) @ nat_bytes w (ke_offset e) @
     nat_bytes 2 (2 * w + 2 + length (ke_name e) + ke_pad e + 1) @ ke_name e @ replicate (ke_pad e) 0 @ [ke_type e]"

definition written64 :: "kernel_entry \<Rightarrow> byte list" where
  "written64 e = nat_bytes 8 (ke_inode e) @ nat_bytes 8 (ke_offset e) @
     nat_bytes 2 (19 + length (ke_name e) + ke_pad e) @ [ke_type e] @ ke_name e @ replicate (ke_pad e) 0"

definition entry_ok :: "nat \<Rightarrow> kernel_entry \<Rightarrow> bool" where
  "entry_ok w e \<longleftrightarrow> ke_inode e < 256 ^ w \<and> ke_offset e < 256 ^ w \<and> ke_name e \<noteq> [] \<and> 0 \<notin> set (ke_name e) \<and>
     0 < ke_pad e \<and> 20 + length (ke_name e) + ke_pad e < 65536"

definition entry_of :: "nat \<Rightarrow> kernel_entry \<Rightarrow> dir_entry" where
  "entry_of w e = \<lparr>de_inode = ke_inode e,
     de_offset = (if w = 8 then sint (of_nat (ke_offset e) :: word64) else int (ke_offset e)),
     de_name = ke_name e, de_type = unat (ke_type e)\<rparr>"

lemma name_length_padded:
  "ns \<noteq> [] \<Longrightarrow> 0 \<notin> set ns \<Longrightarrow> name_length (ns @ replicate k 0 @ rest) (length ns + k) = length ns"
proof (induction k arbitrary: rest)
  case 0
  show ?case
  proof (cases "length ns = 1")
    case False
    then obtain n where n: "length ns = Suc (Suc n)" using 0 by (metis One_nat_def length_0_conv nat.exhaust)
    have "ns ! Suc n \<in> set ns" using n by (intro nth_mem) simp
    with 0(2) have "ns ! Suc n \<noteq> 0" by metis
    with n show ?thesis by (simp add: nth_append)
  qed simp
next
  case (Suc k)
  obtain n where n: "length ns = Suc n" using Suc.prems(1) by (cases ns) simp_all
  let ?d = "ns @ replicate k 0 @ 0 # rest"
  have eq: "ns @ replicate (Suc k) 0 @ rest = ?d" by (simp add: replicate_app_Cons_same)
  have "?d ! Suc (n + k) = 0" using n by (simp add: nth_append)
  with Suc.IH [of "0 # rest"] Suc.prems n show ?case unfolding eq by simp
qed

lemma entry_name_padded:
  "ns \<noteq> [] \<Longrightarrow> 0 \<notin> set ns \<Longrightarrow> entry_name (ns @ replicate k 0 @ rest) (length ns + k) = ns"
  by (simp add: entry_name_def name_length_padded)

lemma field_front: "length xs = off \<Longrightarrow> k < 256 ^ n \<Longrightarrow> field off n (xs @ nat_bytes n k @ rest) = k"
  by (simp add: field_def bytes_nat_bytes)

lemma parse_written32:
  assumes "entry_ok w e"  "w \<le> 8"
  shows "parseEntries32 w (written32 w e @ rest) = map_sum id ((#) (entry_of w e)) (parseEntries32 w rest)"
proof -
  let ?cur = "written32 w e @ rest"
  define n where "n = 2 * w + 2 + length (ke_name e) + ke_pad e + 1"
  let ?tail = "ke_name e @ replicate (ke_pad e) 0 @ ke_type e # rest"
  have ok: "ke_inode e < 256 ^ w" "ke_offset e < 256 ^ w" "ke_name e \<noteq> []" "0 \<notin> set (ke_name e)" "0 < ke_pad e"
    using assms(1) by (simp_all add: entry_ok_def)
  have cur: "?cur = nat_bytes w (ke_inode e) @ nat_bytes w (ke_offset e) @ nat_bytes 2 n @ ?tail"
    by (simp add: written32_def n_def)
  have len: "length (written32 w e) = n" by (simp add: written32_def n_def)
  have reclen: "field (2 * w) 2 ?cur = n"
    using field_front [of "nat_bytes w (ke_inode e) @ nat_bytes w (ke_offset e)" "2 * w" n 2 ?tail] assms
    by (simp add: cur entry_ok_def n_def)
  have nxt: "next_entry (2 * w) (2 * w + 2) 2 ?cur = Inr n"
    unfolding next_entry_def reclen Let_def using len ok by (simp add: n_def)
  have name: "drop (2 * w + 2) ?cur = ?tail" by (simp add: cur)
  have "n - (2 * w + 2) - 2 = length (ke_name e) + (ke_pad e - 1)" using ok by (simp add: n_def)
  moreover have "?tail = ke_name e @ replicate (ke_pad e - 1) 0 @ 0 # ke_type e # rest"
    using ok by (cases "ke_pad e") (simp_all add: replicate_app_Cons_same)
  ultimately have nm: "entry_name ?tail (n - (2 * w + 2) - 2) = ke_name e"
    using entry_name_padded [OF ok(3,4)] by metis
  have ty: "?cur ! (n - 1) = ke_type e"
    using len by (simp add: nth_append) (simp add: written32_def n_def nth_append)
  have ino: "field 0 w ?cur = ke_inode e"
    using field_front [of "[]" 0 "ke_inode e" w] ok by (simp add: cur)
  have off: "field w w ?cur = ke_offset e"
    using field_front [of "nat_bytes w (ke_inode e)" w "ke_offset e" w] ok by (simp add: cur)
  have "entry32 w n ?cur = entry_of w e"
    unfolding entry32_def entry_of_def ino off name nm ty by simp
  moreover have "?cur \<noteq> []" "drop n ?cur = rest" using len by (auto simp: n_def)
  ultimately show ?thesis by (simp only: parseEntries32.simps [of w ?cur] if_False nxt sum.case)
qed

lemma parse_written64:
  assumes "entry_ok 8 e"
  shows "parseEntries64 (written64 e @ rest) = map_sum id ((#) (entry_of 8 e)) (parseEntries64 rest)"
proof -
  let ?cur = "written64 e @ rest"
  define n where "n = 19 + length (ke_name e) + ke_pad e"
  let ?tail = "ke_name e @ replicate (ke_pad e) 0 @ rest"
  have ok: "ke_inode e < 256 ^ 8" "ke_offset e < 256 ^ 8" "ke_name e \<noteq> []" "0 \<notin> set (ke_name e)" "0 < ke_pad e"
    using assms(1) by (simp_all add: entry_ok_def)
  have cur: "?cur = nat_bytes 8 (ke_inode e) @ nat_bytes 8 (ke_offset e) @ nat_bytes 2 n @ ke_type e # ?tail"
    by (simp add: written64_def n_def)
  have len: "length (written64 e) = n" by (simp add: written64_def n_def)
  have reclen: "field 16 2 ?cur = n"
    using field_front [of "nat_bytes 8 (ke_inode e) @ nat_bytes 8 (ke_offset e)" 16 n 2 "ke_type e # ?tail"] assms
    by (simp add: cur entry_ok_def n_def)
  have nxt: "next_entry 16 19 0 ?cur = Inr n"
    unfolding next_entry_def reclen Let_def using len ok by (simp add: n_def)
  have name: "drop 19 ?cur = ?tail" by (simp add: cur)
  have "n - 19 = length (ke_name e) + ke_pad e" by (simp add: n_def)
  then have nm: "entry_name ?tail (n - 19) = ke_name e"
    using entry_name_padded [OF ok(3,4)] by metis
  have ty: "field 18 1 ?cur = unat (ke_type e)" by (simp add: field_def cur)
  have ino: "field 0 8 ?cur = ke_inode e"
    using field_front [of "[]" 0 "ke_inode e" 8] ok by (simp add: cur)
  have off: "field 8 8 ?cur = ke_offset e"
    using field_front [of "nat_bytes 8 (ke_inode e)" 8 "ke_offset e" 8] ok by (simp add: cur)
  have "entry64 n ?cur = entry_of 8 e"
    unfolding entry64_def entry_of_def ino off name nm ty by simp
  moreover have "?cur \<noteq> []" "drop n ?cur = rest" using len by (auto simp: n_def)
  ultimately show ?thesis by (simp only: parseEntries64.simps [of ?cur] if_False nxt sum.case)
qed

text \<open>The layout that the kernel uses for a call.\<close>

definition dirent_width :: "arch_flags \<Rightarrow> syscall \<Rightarrow> nat" where
  "dirent_width a c = (if sc_nr c \<noteq> SYS_GETDENTS64 \<and> is32BitEmulationABI a c then 4 else 8)"

definition written :: "arch_flags \<Rightarrow> syscall \<Rightarrow> kernel_entry list \<Rightarrow> byte list" where
  "written a c es = concat (map (if sc_nr c = SYS_GETDENTS64 then written64 else written32 (dirent_width a c)) es)"

lemma parse_written:
  assumes "\<forall>e\<in>set es. entry_ok (dirent_width a c) e"
  shows "parseEntries a c (written a c es) = Inr (map (entry_of (dirent_width a c)) es)"
proof -
  have 32: "parseEntries32 w (concat (map (written32 w) es)) = Inr (map (entry_of w) es)"
    if "\<forall>e\<in>set es. entry_ok w e" "w \<le> 8" for w
    using that by (induction es) (simp_all add: parseEntries32.simps [of w "[]"] parse_written32)
  have 64: "parseEntries64 (concat (map written64 es)) = Inr (map (entry_of 8) es)"
    if "\<forall>e\<in>set es. entry_ok 8 e"
    using that by (induction es) (simp_all add: parseEntries64.simps [of "[]"] parse_written64)
  show ?thesis
    using assms 32 64 by (auto simp: parseEntries_def written_def dirent_width_def)
qed

text \<open>C25: After a successful getdents(2) or getdents64(2), in each of the three layouts of the kernel, the
  entries of the item are the entries that the kernel wrote into the buffer of the tracee: the same
  names without padding, inode numbers, offsets and types, in the same order.\<close>

theorem getdents_entries:
  assumes "\<forall>e\<in>set es. entry_ok (dirent_width (tv_arch tv) c) e" "hasResultValue c" "it_data i = None"
    and "mem_at (tv_peek tv) (it_val i) (written (tv_arch tv) c es @ rest)" "8 \<le> length rest"
    and "unat (sc_return c) = length (written (tv_arch tv) c es)" "tv_alloc tv (unat (sc_return c))"
  shows "\<exists>i'. DirEntries_updateData tv c i = (Inr (), i') \<and>
    DirEntries_entries (tv_arch tv) c i' = map (entry_of (dirent_width (tv_arch tv) c)) es"
proof (cases "written (tv_arch tv) c es = []")
  case True
  then have "parseEntries (tv_arch tv) c [] = Inr (map (entry_of (dirent_width (tv_arch tv) c)) es)"
    using parse_written [OF assms(1)] by simp
  with True assms(2,3,6) show ?thesis
    by (simp add: DirEntries_updateData_def DirEntries_entries_def vec_def prog_defs)
next
  case False
  let ?bs = "written (tv_arch tv) c es"
  have "readBlob (tv_peek tv) (it_val i) (length ?bs) (length ?bs) = Some (Inr (), ?bs)"
    using readBlob_mem [OF assms(4), of "length ?bs"] False assms(5) by simp
  then show ?thesis
    using False assms(2,6,7) parse_written [OF assms(1)]
    by (simp add: DirEntries_updateData_def DirEntries_entries_def vec_def prog_defs allocE_def voidE_def put_data_def Let_def seqsE.simps)
qed

text \<open>Two entries in a buffer of a 64-bit tracee: a short name and one that needs no more than its zero.\<close>

definition demo_entries :: "kernel_entry list" where
  "demo_entries = [\<lparr>ke_inode = 7, ke_offset = 1, ke_name = [0x2E], ke_type = 4, ke_pad = 4\<rparr>,
     \<lparr>ke_inode = 9, ke_offset = 2 ^ 63, ke_name = [0x61, 0x62, 0x63, 0x64], ke_type = 8, ke_pad = 1\<rparr>]"

definition demo_dents :: syscall where
  "demo_dents = (demo_call GetDentsSystemCall)\<lparr>sc_nr := SYS_GETDENTS64, sc_abi := ABI_X86_64, sc_return := 48\<rparr>"

definition dents_memory :: "byte list" where
  "dents_memory = written arch_x86_64 demo_dents demo_entries @ replicate 8 0"

definition peek_bytes :: "word64 \<Rightarrow> byte list \<Rightarrow> peek_fn" where
  "peek_bytes start bs a = (let k = unat (a - start) in
     if k + 8 \<le> length bs then Inr (of_nat (field k 8 bs)) else Inl (ApiError EIO))"

lemma mem_at_peek_bytes:
  assumes "length bs < 2 ^ 64" shows "mem_at (peek_bytes start bs) start bs"
  unfolding mem_at_def
proof (intro allI impI)
  fix k
  assume k: "k + 8 \<le> length bs"
  then have "unat (of_nat k :: word64) = k" using assms by (simp add: unat_of_nat)
  moreover have "word_bytes (of_nat (field k 8 bs)) = take 8 (drop k bs)"
    using nat_bytes_of_bytes [of "take 8 (drop k bs)"] k by (simp add: field_def word_bytes_of_nat)
  ultimately show "\<exists>w. peek_bytes start bs (start + of_nat k) = Inr w \<and> word_bytes w = take 8 (drop k bs)"
    using k by (simp add: peek_bytes_def Let_def)
qed

definition dents_view :: tview where
  "dents_view = demo_view\<lparr>tv_peek := peek_bytes 0x1000 dents_memory\<rparr>"

definition dents_item :: item where
  "dents_item = (item_of (K_Value ''DirEntries'') PARAM_OUT ''dirent'')\<lparr>it_val := 0x1000\<rparr>"

theorem getdents_entries_witness:
  "\<exists>i'. DirEntries_updateData dents_view demo_dents dents_item = (Inr (), i') \<and>
    DirEntries_entries arch_x86_64 demo_dents i' =
      [\<lparr>de_inode = 7, de_offset = 1, de_name = [0x2E], de_type = 4\<rparr>,
       \<lparr>de_inode = 9, de_offset = - (2 ^ 63), de_name = [0x61, 0x62, 0x63, 0x64], de_type = 8\<rparr>]"
proof -
  have w: "dirent_width arch_x86_64 demo_dents = 8" by (simp add: dirent_width_def demo_dents_def)
  have arch: "tv_arch dents_view = arch_x86_64" by (simp add: dents_view_def demo_view_def)
  have ok: "\<forall>e\<in>set demo_entries. entry_ok (dirent_width (tv_arch dents_view) demo_dents) e"
    unfolding w arch by (simp add: demo_entries_def entry_ok_def)
  have len: "length (written arch_x86_64 demo_dents demo_entries) = 48"
    by (simp add: written_def demo_dents_def demo_entries_def written64_def)
  have mem: "mem_at (tv_peek dents_view) (it_val dents_item)
      (written (tv_arch dents_view) demo_dents demo_entries @ replicate 8 0)"
    using mem_at_peek_bytes [of dents_memory "0x1000"] len
    by (simp add: dents_view_def dents_item_def dents_memory_def demo_view_def)
  have "\<exists>i'. DirEntries_updateData dents_view demo_dents dents_item = (Inr (), i') \<and>
      DirEntries_entries (tv_arch dents_view) demo_dents i' =
        map (entry_of (dirent_width (tv_arch dents_view) demo_dents)) demo_entries"
    by (rule getdents_entries [OF ok _ _ mem])
      (use len in \<open>simp_all add: arch hasResultValue_def demo_dents_def demo_call_def dents_item_def item_of_def
        new_item_def dents_view_def demo_view_def\<close>)
  then show ?thesis unfolding w arch by (simp add: demo_entries_def entry_of_def)
qed

text \<open>
  The item of uname(2) holds five strings, so the domain name, which \<open>str()\<close> prints for \<open>uname\<close>, is
  never one that was read.
\<close>

lemma copy_fields_more:
  "copy_fields fs i = (Inr (), i') \<Longrightarrow> length (it_more i') = length (it_more i) + length fs"
proof (induction fs arbitrary: i)
  case (Cons f fs)
  then show ?case by (cases "strcpy_field f") (auto simp: prog_defs)
qed (simp add: prog_defs)

lemma uname_without_domain:
  assumes "UnameStruct_updateData tv c i = (Inr (), i')" "hasResultValue c" "it_data i' \<noteq> None"
  shows "length (it_more i') = 5"
proof -
  have copy: "length (it_more j) = 5" if "copy_struct tv n len i = (Inr (), j)" "it_data j \<noteq> None" for n len j
  proof -
    let ?i = "i\<lparr>it_data := Some [], it_more := []\<rparr>"
    from that(1) obtain r k where fetch: "fetch_local tv (n * len) (it_val i) ?i = (Inr r, k)"
      and rest: "(case r of None \<Rightarrow> updE (put_data None)
        | Some bs \<Rightarrow> copy_fields (map (\<lambda>k. take len (drop (k * len) bs)) [0..<5])) k = (Inr (), j)"
      by (auto simp: copy_struct_def prog_defs split: sum.splits prod.splits)
    have "it_more k = []"
      using fetch by (auto simp: fetch_local_def fetch_over_def endless_def prog_defs
        split: option.splits sum.splits prod.splits if_splits)
    with that(2) rest show ?thesis
      by (cases r) (auto simp: prog_defs put_data_def dest!: copy_fields_more)
  qed
  from assms show ?thesis
    by (auto simp: UnameStruct_updateData_def prog_defs split: if_splits dest: copy)
qed

end
