(* ===== verification/Item_Text.thy ===== *)
theory Item_Text
  imports Format Items
begin

text \<open>
  The text of the items that are values: numbers, enumerations and sets of flags (\<open>str()\<close> in
  src/items/*.cxx, and the macros of clues/private/utils.hxx that build the text of flags). An item is
  given by the word of the argument. The values of the constants are those of the Linux headers,
  with the ones that only recent versions of them define. \<open>item_lib\<close> is what the texts use of libcosmos.
\<close>

section \<open>Flags and labels\<close>

type_synonym flag_labels = "(nat \<times> string) list"

datatype wait_view = WV_exited int | WV_signaled signal bool | WV_other

record item_lib =
  il_fmt :: fmt_lib
  il_mode_bits :: "nat \<Rightarrow> nat"
  il_mode_symbolic :: "nat \<Rightarrow> string"
  il_fs_magic :: "nat \<Rightarrow> string option"
  il_wait :: "int \<Rightarrow> wait_view"

definition strip_back :: "string \<Rightarrow> string" where
  "strip_back s = (if s \<noteq> [] \<and> last s = CHR ''|'' then butlast s else s)"

definition bitflags_add :: "nat \<Rightarrow> nat \<times> string \<Rightarrow> string" where
  "bitflags_add flags = (\<lambda>(FLAG, name). if FLAG \<noteq> 0 \<and> and flags FLAG = FLAG then name @ ''|'' else [])"

definition bitflags_adds :: "nat \<Rightarrow> flag_labels \<Rightarrow> string" where
  "bitflags_adds flags labels = concat (map (bitflags_add flags) labels)"

text \<open>
  \<open>BITFLAGS_FORMAT_START_COMBINED\<close> with what the function streams afterwards, and \<open>BITFLAGS_STR\<close>.
\<close>

definition bitflags_str :: "item_lib \<Rightarrow> nat \<Rightarrow> string \<Rightarrow> string" where
  "bitflags_str L raw_val streamed = strip_back (fl_hex (il_fmt L) raw_val 0 @ '' ('' @ streamed) @ '')''"

text \<open>The plain form, \<open>BITFLAGS_FORMAT_START\<close>.\<close>

definition flags_str :: "item_lib \<Rightarrow> flag_labels \<Rightarrow> nat \<Rightarrow> string" where
  "flags_str L labels flags = bitflags_str L flags (bitflags_adds flags labels)"

text \<open>A \<open>switch\<close> over labels with a fixed text, or with the number, as its default.\<close>

definition enum_or :: "(int \<times> string) list \<Rightarrow> (int \<Rightarrow> string) \<Rightarrow> int \<Rightarrow> string" where
  "enum_or cases dflt raw = (case map_of cases raw of Some name \<Rightarrow> name | None \<Rightarrow> dflt raw)"

definition unknown_str :: "int \<Rightarrow> string" where
  "unknown_str n = ''unknown ('' @ int_str n @ '')''"

definition as_long :: "word64 \<Rightarrow> int" where
  "as_long w = sint w"

section \<open>Numbers and pointers\<close>

datatype base = DEC | OCT | HEX

text \<open>\<open>format_number\<close> for a type of \<open>w\<close> bits.\<close>

definition format_number :: "item_lib \<Rightarrow> nat \<Rightarrow> base \<Rightarrow> int \<Rightarrow> string" where
  "format_number L w b value = (case b of
     DEC \<Rightarrow> int_str value
   | OCT \<Rightarrow> fl_oct (il_fmt L) (nat (value mod 2 ^ w)) 0
   | HEX \<Rightarrow> fl_hex (il_fmt L) (nat (value mod 2 ^ w)) 0)"

text \<open>The integer types of \<open>IntValueT\<close>: their width and the value of a word.\<close>

definition int_types :: "(string \<times> nat \<times> (word64 \<Rightarrow> int)) list" where
  "int_types = [(''IntValue'', 32, as_int), (''UintValue'', 32, \<lambda>v. int (as_uint v)),
     (''Uint32Value'', 32, \<lambda>v. int (as_uint v)), (''ULongValue'', 64, \<lambda>v. int (unat v)),
     (''LongValue'', 64, as_long), (''SizeValue'', 64, \<lambda>v. int (unat v)),
     (''Int8Value'', 8, \<lambda>v. sint (ucast v :: 8 word)), (''OffsetValue'', 64, as_long)]"

definition IntValue_str :: "item_lib \<Rightarrow> base \<Rightarrow> nat \<times> (word64 \<Rightarrow> int) \<Rightarrow> word64 \<Rightarrow> string" where
  "IntValue_str L b = (\<lambda>(w, value) v. format_number L w b (value v))"

text \<open>\<open>SystemCallItem::str\<close>.\<close>

definition word_str :: "word64 \<Rightarrow> string" where
  "word_str v = nat_str (unat v)"

definition GenericPointerValue_str :: "word64 \<Rightarrow> string" where
  "GenericPointerValue_str v = (if v \<noteq> 0 then ptr_str v else ''NULL'')"

definition BoolValue_str :: "word64 \<Rightarrow> string" where
  "BoolValue_str v = (if v \<noteq> 0 then ''true'' else ''false'')"

definition fixed_texts :: "(string \<times> string) list" where
  "fixed_texts = [(''UnknownItem'', ''<unsupported or invalid system call>''),
     (''UnsupportedItem'', ''<not yet supported system call>''),
     (''DroppedItem'', ''<legacy system call no longer available in the kernel>''),
     (''UnusedItem'', ''<unused system call parameter>'')]"

definition SuccessResult_str :: "word64 \<Rightarrow> string" where
  "SuccessResult_str v = (if v = 0 then ''0'' else int_str (as_int v) @ '' (???)'')"

text \<open>Process, process group and session identifiers.\<close>

definition ProcessID_str :: "word64 \<Rightarrow> string" where
  "ProcessID_str v = (if as_int v = - 1 then ''-1'' else word_str v)"

definition PTracerProcessID_str :: "word64 \<Rightarrow> string" where
  "PTracerProcessID_str v = (if as_int v = - 1 then ''PR_SET_PTRACER_ANY'' else ProcessID_str v)"

section \<open>Processes\<close>

definition WaitOptions_labels :: flag_labels where
  "WaitOptions_labels =
    [(4, ''WEXITED''), (2, ''WSTOPPED''), (8, ''WCONTINUED''), (1, ''WNOHANG''), (0x1000000, ''WNOWAIT''),
     (2, ''WUNTRACED''), (0x40000000, ''__WALL''), (0x80000000, ''__WCLONE''), (0x20000000, ''__WNOTHREAD'')]"

definition WaitStatus_format :: "item_lib \<Rightarrow> int \<Rightarrow> string" where
  "WaitStatus_format L val = (case il_wait L val of
     WV_exited status \<Rightarrow> ''WIFEXITED && WEXITSTATUS == '' @ int_str status
   | WV_signaled sig dumped \<Rightarrow> ''WIFSIGNALED &&'' @ (if dumped then '' WCOREDUMP &&'' else []) @
       '' WTERMSIG == '' @ format_signal (il_fmt L) False sig
   | WV_other \<Rightarrow> ''?!?'')"

definition WaitID_str :: "word64 \<Rightarrow> string" where
  "WaitID_str v = enum_or [(1, ''P_PID''), (3, ''P_PIDFD''), (2, ''P_PGID''), (0, ''P_ALL'')]
     (\<lambda>_. ''P_???'') (int (as_uint v))"

definition PIDFDOpenFlags_labels :: flag_labels where
  "PIDFDOpenFlags_labels = [(0x800, ''PIDFD_NONBLOCK''), (0x80, ''PIDFD_THREAD'')]"

definition PIDFDSendSignalFlags_labels :: flag_labels where
  "PIDFDSendSignalFlags_labels =
    [(1, ''PIDFD_SIGNAL_THREAD''), (2, ''PIDFD_SIGNAL_THREAD_GROUP''), (4, ''PIDFD_SIGNAL_PROCESS_GROUP'')]"

definition clone_flag_labels :: flag_labels where
  "clone_flag_labels =
    [(0x200000, ''CLONE_CHILD_CLEARTID''), (0x1000000, ''CLONE_CHILD_SETTID''),
     (0x100000000, ''CLONE_CLEAR_SIGHAND''), (0x400000, ''CLONE_DETACHED''), (0x400, ''CLONE_FILES''),
     (0x200, ''CLONE_FS''), (0x200000000, ''CLONE_INTO_CGROUP''), (0x80000000, ''CLONE_IO''),
     (0x2000000, ''CLONE_NEWCGROUP''), (0x8000000, ''CLONE_NEWIPC''), (0x40000000, ''CLONE_NEWNET''),
     (0x20000, ''CLONE_NEWNS''), (0x20000, ''CLONE_NEWNS''), (0x20000000, ''CLONE_NEWPID''),
     (0x10000000, ''CLONE_NEWUSER''), (0x4000000, ''CLONE_NEWUTS''), (0x8000, ''CLONE_PARENT''),
     (0x100000, ''CLONE_PARENT_SETTID''), (0x1000, ''CLONE_PIDFD''), (0x2000, ''CLONE_PTRACE''),
     (0x80000, ''CLONE_SETTLS''), (0x800, ''CLONE_SIGHAND''), (0x40000, ''CLONE_SYSVSEM''),
     (0x10000, ''CLONE_THREAD''), (0x800000, ''CLONE_UNTRACED''), (0x4000, ''CLONE_VFORK''),
     (0x100, ''CLONE_VM'')]"

definition clone_flags_str :: "item_lib \<Rightarrow> nat \<Rightarrow> signal option \<Rightarrow> string" where
  "clone_flags_str L flags exit_signal = bitflags_str L flags (bitflags_adds flags clone_flag_labels @
     (case exit_signal of Some sig \<Rightarrow> format_signal (il_fmt L) False sig | None \<Rightarrow> []))"

definition CloneFlagsValue_str :: "item_lib \<Rightarrow> sysnr \<Rightarrow> word64 \<Rightarrow> string" where
  "CloneFlagsValue_str L nr v =
     (if nr = SYS_CLONE
      then clone_flags_str L (unat (and v (not 0xFF))) (Some (unat (and v 0xFF)))
      else clone_flags_str L (unat v) None)"

section \<open>Futexes\<close>

definition futex_op_labels :: "(int \<times> string) list" where
  "futex_op_labels =
    [(4, ''FUTEX_CMP_REQUEUE''), (12, ''FUTEX_CMP_REQUEUE_PI''), (2, ''FUTEX_FD''), (6, ''FUTEX_LOCK_PI''),
     (13, ''FUTEX_LOCK_PI2''), (3, ''FUTEX_REQUEUE''), (8, ''FUTEX_TRYLOCK_PI''), (7, ''FUTEX_UNLOCK_PI''),
     (0, ''FUTEX_WAIT''), (9, ''FUTEX_WAIT_BITSET''), (11, ''FUTEX_WAIT_REQUEUE_PI''), (1, ''FUTEX_WAKE''),
     (10, ''FUTEX_WAKE_BITSET''), (5, ''FUTEX_WAKE_OP'')]"

abbreviation (input) FUTEX_FLAG_MASK :: nat where "FUTEX_FLAG_MASK \<equiv> 128 + 256"

definition FutexOperation_cmd :: "word64 \<Rightarrow> nat" where
  "FutexOperation_cmd v = as_uint v - and (as_uint v) FUTEX_FLAG_MASK"

definition FutexOperation_flags :: "word64 \<Rightarrow> nat" where
  "FutexOperation_flags v = xor (as_uint v) (FutexOperation_cmd v)"

definition futex_flag_labels :: flag_labels where
  "futex_flag_labels = [(0x80, ''FUTEX_PRIVATE_FLAG''), (0x100, ''FUTEX_CLOCK_REALTIME'')]"

definition FutexOperation_str :: "item_lib \<Rightarrow> word64 \<Rightarrow> string" where
  "FutexOperation_str L v = bitflags_str L (as_uint v)
     (enum_or futex_op_labels (\<lambda>_. unknown_str (as_int v)) (sint (of_nat (FutexOperation_cmd v) :: 32 word)) @
      (if FutexOperation_flags v \<noteq> 0 then ''|'' @ bitflags_adds (FutexOperation_flags v) futex_flag_labels else []))"

record futex_wake_op =
  fw_op :: nat
  fw_shift_arg :: bool
  fw_comp :: nat
  fw_oparg :: nat
  fw_cmparg :: nat

definition FutexWakeOperation_processData :: "word64 \<Rightarrow> futex_wake_op" where
  "FutexWakeOperation_processData v = (let raw = as_uint v; op_bits = drop_bit 28 raw
     in \<lparr>fw_op = op_bits - and op_bits 8, fw_shift_arg = (and op_bits 8 \<noteq> 0), fw_comp = and (drop_bit 24 raw) 0xF,
         fw_oparg = and (drop_bit 12 raw) 0xFFF, fw_cmparg = and raw 0xFFF\<rparr>)"

definition futex_wake_op_label :: "nat \<Rightarrow> string" where
  "futex_wake_op_label op = enum_or [(0, ''FUTEX_OP_SET''), (1, ''FUTEX_OP_ADD''), (2, ''FUTEX_OP_OR''), (3, ''FUTEX_OP_ANDN''),
     (4, ''FUTEX_OP_XOR'')]
     unknown_str (int op)"

definition futex_wake_cmp_label :: "nat \<Rightarrow> string" where
  "futex_wake_cmp_label cmp = enum_or [(0, ''FUTEX_OP_CMP_EQ''), (1, ''FUTEX_OP_CMP_NE''), (2, ''FUTEX_OP_CMP_LT''), (3, ''FUTEX_OP_CMP_LE''),
     (4, ''FUTEX_OP_CMP_GT''), (5, ''FUTEX_OP_CMP_GE'')]
     unknown_str (int cmp)"

definition FutexWakeOperation_str :: "word64 \<Rightarrow> string" where
  "FutexWakeOperation_str v = (let d = FutexWakeOperation_processData v
     in ''{op='' @ futex_wake_op_label (fw_op d) @ (if fw_shift_arg d then ''|FUTEX_OP_OPARG_SHIFT'' else []) @
        '', cmp='' @ futex_wake_cmp_label (fw_comp d) @ '', oparg='' @ nat_str (fw_oparg d) @
        '', cmparg='' @ nat_str (fw_cmparg d) @ ''}'')"

section \<open>Memory\<close>

definition MemoryProtection_labels :: flag_labels where
  "MemoryProtection_labels =
    [(1, ''PROT_READ''), (2, ''PROT_WRITE''), (4, ''PROT_EXEC''), (8, ''PROT_SEM''), (0x10, ''PROT_SAO'')]"

definition MemoryProtectionParameter_str :: "item_lib \<Rightarrow> word64 \<Rightarrow> string" where
  "MemoryProtectionParameter_str L v =
     (if as_uint v = 0 then ''PROT_NONE'' else flags_str L MemoryProtection_labels (as_uint v))"

definition MapFlags_labels :: flag_labels where
  "MapFlags_labels =
    [(0x40, ''MAP_32BIT''), (0x20, ''MAP_ANONYMOUS''), (0x10, ''MAP_FIXED''),
     (0x100000, ''MAP_FIXED_NOREPLACE''), (0x100, ''MAP_GROWSDOWN''), (0x40000, ''MAP_HUGETLB''),
     (0x2000, ''MAP_LOCKED''), (0x10000, ''MAP_NONBLOCK''), (0x4000, ''MAP_NORESERVE''),
     (0x8000, ''MAP_POPULATE''), (0x20000, ''MAP_STACK''), (0x80000, ''MAP_SYNC''),
     (0x4000000, ''MAP_UNINITIALIZED'')]"

definition MapFlagsParameter_str :: "item_lib \<Rightarrow> word64 \<Rightarrow> string" where
  "MapFlagsParameter_str L v =
     (let raw = as_uint v; type = and raw 3; flags = raw - type; huge_shift = and (drop_bit 26 raw) 0x3F
      in bitflags_str L raw
        ((if type = 1 then ''MAP_SHARED'' else if type = 3 then ''MAP_SHARED_VALIDATE''
          else if type = 2 then ''MAP_PRIVATE'' else ''MAP_???'') @ ''|'' @ bitflags_adds flags MapFlags_labels @
         (if huge_shift \<noteq> 0 then nat_str huge_shift @ ''<<MAP_HUGE_SHIFT|'' else [])))"

section \<open>Files\<close>

text \<open>\<open>FileDescriptor\<close>: whether it has the semantics of the \<open>at\<close> calls, and the information on it, if shown.\<close>

definition FileDescriptor_str :: "bool \<Rightarrow> fd_info option \<Rightarrow> word64 \<Rightarrow> string" where
  "FileDescriptor_str at_semantics info v =
     (if at_semantics \<and> as_int v = - 100 then ''AT_FDCWD''
      else int_str (as_int v) @ (case info of Some i \<Rightarrow> format_fd_info i | None \<Rightarrow> []))"

definition OpenFlags_labels :: flag_labels where
  "OpenFlags_labels =
    [(0x400, ''O_APPEND''), (0x2000, ''O_ASYNC''), (0x80000, ''O_CLOEXEC''), (0x40, ''O_CREAT''),
     (0x4000, ''O_DIRECT''), (0x10000, ''O_DIRECTORY''), (0x1000, ''O_DSYNC''), (0x80, ''O_EXCL''),
     (0x8000, ''O_LARGEFILE''), (0x40000, ''O_NOATIME''), (0x100, ''O_NOCTTY''), (0x20000, ''O_NOFOLLOW''),
     (0x800, ''O_NONBLOCK''), (0x200000, ''O_PATH''), (0x101000, ''O_SYNC''), (0x410000, ''O_TMPFILE''),
     (0x200, ''O_TRUNC'')]"

definition OpenFlagsValue_str :: "item_lib \<Rightarrow> word64 \<Rightarrow> string" where
  "OpenFlagsValue_str L v =
     (let raw = as_uint v; mode = and raw 3; flags = raw - mode
      in bitflags_str L raw
        ((if mode = 0 then ''O_RDONLY'' else if mode = 1 then ''O_WRONLY'' else if mode = 2 then ''O_RDWR''
          else ''O_???'') @ ''|'' @ bitflags_adds flags OpenFlags_labels))"

definition AtFlags_labels :: "sysnr \<Rightarrow> flag_labels" where
  "AtFlags_labels nr = [(0x1000, ''AT_EMPTY_PATH''), (0x100, ''AT_SYMLINK_NOFOLLOW''), (0x400, ''AT_SYMLINK_FOLLOW'')] @
     (if nr = SYS_UNLINKAT then [(0x200, ''AT_REMOVEDIR'')] else []) @
     (if nr = SYS_FACCESSAT2 then [(0x200, ''AT_EACCESS'')] else []) @
     (if nr = SYS_FSTATAT64 \<or> nr = SYS_NEWFSTATAT then [(0x800, ''AT_NO_AUTOMOUNT'')] else [])"

definition AccessModeParameter_str :: "word64 \<Rightarrow> string" where
  "AccessModeParameter_str v =
     (let checks = as_uint v;
          r = (if checks = 0 then ''F_OK''
               else (if and checks 4 \<noteq> 0 then ''R_OK|'' else []) @ (if and checks 2 \<noteq> 0 then ''W_OK|'' else []) @
                 (if and checks 1 \<noteq> 0 then ''X_OK'' else []))
      in if r = [] then ''???'' else strip_back r)"

definition FileModeParameter_str :: "item_lib \<Rightarrow> word64 \<Rightarrow> string" where
  "FileModeParameter_str L v =
     file_mode_numeric (il_fmt L) (il_mode_bits L (as_uint v)) @ '' ('' @ il_mode_symbolic L (as_uint v) @ '')''"

definition entry_type_label :: "int \<Rightarrow> string" where
  "entry_type_label = enum_or [(6, ''DT_BLK''), (2, ''DT_CHR''), (4, ''DT_DIR''), (1, ''DT_FIFO''), (10, ''DT_LNK''), (8, ''DT_REG''),
     (12, ''DT_SOCK''), (0, ''DT_UNKNOWN'')] (\<lambda>_. ''???'')"

definition AccessAdvice_str :: "word64 \<Rightarrow> string" where
  "AccessAdvice_str v = enum_or [(0, ''POSIX_FADV_NORMAL''), (2, ''POSIX_FADV_SEQUENTIAL''), (1, ''POSIX_FADV_RANDOM''),
     (5, ''POSIX_FADV_NOREUSE''), (3, ''POSIX_FADV_WILLNEED''), (4, ''POSIX_FADV_DONTNEED'')]
     (\<lambda>_. ''POSIX_FADV_???'') (as_int v)"

definition known_magics :: "string list" where
  "known_magics =
    [''ADFS'', ''AFFS'', ''AFS'', ''ANON_INODE_FS'', ''AUTOFS'', ''BDEVFS'', ''BEFS'', ''BFS'',
     ''BINFMTFS'', ''BPF_FS'', ''BTRFS'', ''BTRFS_TEST'', ''CGROUP'', ''CGROUP2'', ''CIFS'', ''CODA'',
     ''COH'', ''CRAMFS'', ''DEBUGFS'', ''DEVFS'', ''DEVPTS'', ''ECRYPTFS'', ''EFIVARFS'', ''EFS'', ''EXT'',
     ''EXT2_OLD'', ''EXT2_3_4'', ''F2FS'', ''FUSE'', ''FUTEXFS'', ''HFS'', ''HOSTFS'', ''HPFS'',
     ''HUGETLBFS'', ''ISOFS'', ''JFFS2'', ''JFS'', ''MINIX'', ''MINIX_2'', ''MINIX2'', ''MINIX2_2'',
     ''MINIX3'', ''MQUEUE'', ''MSDOS'', ''MTD_INODE_FS'', ''NCP'', ''NFS'', ''NILFS'', ''NSFS'',
     ''NTFS_SB'', ''OCFS2'', ''OPENPROM'', ''OVERLAYFS'', ''PIPEFS'', ''PROC'', ''PSTOREFS'', ''QNX4'',
     ''QNX6'', ''RAMFS'', ''REISERFS'', ''ROMFS'', ''SECURITYFS'', ''SELINUX'', ''SMACK'', ''SMB'',
     ''SMB2'', ''SOCKFS'', ''SQUASHFS'', ''SYSFS'', ''SYSV2'', ''SYSV4'', ''TMPFS'', ''TRACEFS'', ''UDF'',
     ''UFS'', ''USBDEVICE'', ''V9FS'', ''VXFS'', ''XENFS'', ''XENIX'', ''XFS'', ''XIAFS'']"

definition fstype2str :: "item_lib \<Rightarrow> nat \<Rightarrow> string" where
  "fstype2str L magic = (case il_fs_magic L magic of
     Some name \<Rightarrow> if name \<in> set known_magics then name else ''???_MAGIC''
   | None \<Rightarrow> ''???_MAGIC'')"

definition mount_opt_labels :: flag_labels where
  "mount_opt_labels =
    [(0x40, ''ST_MANDLOCK''), (0x400, ''ST_NOATIME''), (4, ''ST_NODEV''), (0x800, ''ST_NODIRATIME''),
     (8, ''ST_NOEXEC''), (2, ''ST_NOSUID''), (1, ''ST_RDONLY''), (0x1000, ''ST_RELATIME''),
     (0x10, ''ST_SYNCHRONOUS''), (0x2000, ''ST_NOSYMFOLLOW'')]"

definition DupFlags_labels :: flag_labels where
  "DupFlags_labels = [(0x80000, ''O_CLOEXEC'')]"

definition FileDescFlags_labels :: flag_labels where
  "FileDescFlags_labels = [(1, ''FD_CLOEXEC'')]"

definition FcntlOperation_str :: "word64 \<Rightarrow> string" where
  "FcntlOperation_str v = enum_or
    [(0, ''F_DUPFD''), (1030, ''F_DUPFD_CLOEXEC''), (1, ''F_GETFD''), (2, ''F_SETFD''), (3, ''F_GETFL''),
     (4, ''F_SETFL''), (5, ''F_GETLK''), (6, ''F_SETLK''), (7, ''F_SETLKW''), (12, ''F_GETLK64''),
     (13, ''F_SETLK64''), (14, ''F_SETLKW64''), (37, ''F_OFD_SETLK''), (38, ''F_OFD_SETLKW''),
     (36, ''F_OFD_GETLK''), (9, ''F_GETOWN''), (8, ''F_SETOWN''), (16, ''F_GETOWN_EX''),
     (15, ''F_SETOWN_EX''), (11, ''F_GETSIG''), (10, ''F_SETSIG''), (1024, ''F_SETLEASE''),
     (1025, ''F_GETLEASE''), (1026, ''F_NOTIFY''), (1031, ''F_SETPIPE_SZ''), (1032, ''F_GETPIPE_SZ''),
     (1033, ''F_ADD_SEALS''), (1034, ''F_GET_SEALS''), (1035, ''F_GET_RW_HINT''), (1036, ''F_SET_RW_HINT''),
     (1037, ''F_GET_FILE_RW_HINT''), (1038, ''F_SET_FILE_RW_HINT'')]
     (\<lambda>_. ''F_???'') (as_int v)"

definition lock_type_to_str :: "int \<Rightarrow> string" where
  "lock_type_to_str = enum_or [(0, ''F_RDLCK''), (1, ''F_WRLCK''), (2, ''F_UNLCK'')] (\<lambda>_. ''F_???'')"

definition LeaseType_str :: "word64 \<Rightarrow> string" where
  "LeaseType_str v = lock_type_to_str (as_int v)"

text \<open>\<open>FileDescOwner\<close>: a process, or a process group for negative values.\<close>

definition FileDescOwner_str :: "word64 \<Rightarrow> string" where
  "FileDescOwner_str v = (if 0 \<le> as_int v then int_str (as_int v) else int_str (- as_int v))"

definition FileDescOwner_label :: "word64 \<Rightarrow> string \<times> string" where
  "FileDescOwner_label v = (if 0 \<le> as_int v then (''pid'', ''process id'') else (''pgid'', ''process group id''))"

definition owner_type_label :: "int \<Rightarrow> string" where
  "owner_type_label = enum_or [(0, ''F_OWNER_TID''), (1, ''F_OWNER_PID''), (2, ''F_OWNER_PGRP'')] (\<lambda>_. ''???'')"

definition DNotify_labels :: flag_labels where
  "DNotify_labels =
    [(1, ''DN_ACCESS''), (2, ''DN_MODIFY''), (4, ''DN_CREATE''), (8, ''DN_DELETE''), (0x10, ''DN_RENAME''),
     (0x20, ''DN_ATTRIB''), (0x80000000, ''DN_MULTISHOT'')]"

definition FileSeal_labels :: flag_labels where
  "FileSeal_labels =
    [(1, ''F_SEAL_SEAL''), (2, ''F_SEAL_SHRINK''), (4, ''F_SEAL_GROW''), (8, ''F_SEAL_WRITE''),
     (0x10, ''F_SEAL_FUTURE_WRITE'')]"

definition rw_hint_label :: "int \<Rightarrow> string" where
  "rw_hint_label = enum_or
    [(0, ''RWH_WRITE_LIFE_NOT_SET''), (1, ''RWH_WRITE_LIFE_NONE''), (2, ''RWH_WRITE_LIFE_SHORT''),
     (3, ''RWH_WRITE_LIFE_MEDIUM''), (4, ''RWH_WRITE_LIFE_LONG''), (5, ''RWH_WRITE_LIFE_EXTREME'')] (\<lambda>_. ''???'')"

section \<open>Input and output\<close>

definition PipeFlags_labels :: flag_labels where
  "PipeFlags_labels =
    [(0x80000, ''O_CLOEXEC''), (0x4000, ''O_DIRECT''), (0x800, ''O_NONBLOCK''),
     (0x80, ''O_NOTIFICATION_PIPE'')]"

definition ReadWriteFlags_labels :: flag_labels where
  "ReadWriteFlags_labels =
    [(2, ''RWF_DSYNC''), (1, ''RWF_HIPRI''), (4, ''RWF_SYNC''), (8, ''RWF_NOWAIT''), (0x10, ''RWF_APPEND''),
     (0x20, ''RWF_NOAPPEND''), (0x40, ''RWF_ATOMIC''), (0x80, ''RWF_DONTCACHE'')]"

text \<open>The upper half of the offset is the item, the lower half is another parameter.\<close>

definition CombinedOffsetValue_str :: "word64 \<Rightarrow> word64 \<Rightarrow> string" where
  "CombinedOffsetValue_str lower_bits v = int_str (sint (or lower_bits (push_bit 32 v)))"

definition Whence_str :: "word64 \<Rightarrow> string" where
  "Whence_str v = enum_or [(0, ''SEEK_SET''), (1, ''SEEK_CUR''), (2, ''SEEK_END''), (3, ''SEEK_DATA''), (4, ''SEEK_HOLE'')]
     (\<lambda>_. ''SEEK_???'') (as_int v)"

definition EventFDFlags_labels :: flag_labels where
  "EventFDFlags_labels = [(0x80000, ''EFD_CLOEXEC''), (0x800, ''EFD_NONBLOCK''), (1, ''EFD_SEMAPHORE'')]"

definition EPollCreateFlags_labels :: flag_labels where
  "EPollCreateFlags_labels = [(0x80000, ''EPOLL_CLOEXEC'')]"

definition EPollOperation_str :: "word64 \<Rightarrow> string" where
  "EPollOperation_str v = enum_or [(1, ''EPOLL_CTL_ADD''), (2, ''EPOLL_CTL_DEL''), (3, ''EPOLL_CTL_MOD'')]
     (\<lambda>_. ''EPOLL_CTL_???'') (as_int v)"

definition epoll_event_labels :: flag_labels where
  "epoll_event_labels =
    [(0x2000, ''EPOLLRDHUP''), (8, ''EPOLLERR''), (0x10, ''EPOLLHUP''), (1, ''EPOLLIN''), (4, ''EPOLLOUT''),
     (2, ''EPOLLPRI''), (0x80000000, ''EPOLLET''), (0x40000000, ''EPOLLONESHOT''),
     (0x20000000, ''EPOLLWAKEUP'')]"

definition pollfd_event_labels :: flag_labels where
  "pollfd_event_labels =
    [(1, ''POLLIN''), (4, ''POLLOUT''), (2, ''POLLPRI''), (0x2000, ''POLLRDHUP''), (8, ''POLLERR''),
     (0x10, ''POLLHUP''), (0x20, ''POLLNVAL''), (0x40, ''POLLRDNORM''), (0x80, ''POLLRDBAND''),
     (0x100, ''POLLWRNORM''), (0x200, ''POLLWRBAND'')]"

section \<open>Limits, capabilities and clocks\<close>

definition ResourceType_str :: "word64 \<Rightarrow> string" where
  "ResourceType_str v = enum_or
    [(9, ''RLIMIT_AS''), (4, ''RLIMIT_CORE''), (0, ''RLIMIT_CPU''), (2, ''RLIMIT_DATA''),
     (1, ''RLIMIT_FSIZE''), (10, ''RLIMIT_LOCKS''), (8, ''RLIMIT_MEMLOCK''), (12, ''RLIMIT_MSGQUEUE''),
     (13, ''RLIMIT_NICE''), (7, ''RLIMIT_NOFILE''), (6, ''RLIMIT_NPROC''), (5, ''RLIMIT_RSS''),
     (14, ''RLIMIT_RTPRIO''), (15, ''RLIMIT_RTTIME''), (11, ''RLIMIT_SIGPENDING''), (3, ''RLIMIT_STACK'')]
     (\<lambda>_. ''unknown'') (as_int v)"

definition Capability_str :: "word64 \<Rightarrow> string" where
  "Capability_str v = enum_or
    [(0, ''CAP_CHOWN''), (1, ''CAP_DAC_OVERRIDE''), (2, ''CAP_DAC_READ_SEARCH''), (3, ''CAP_FOWNER''),
     (4, ''CAP_FSETID''), (5, ''CAP_KILL''), (6, ''CAP_SETGID''), (7, ''CAP_SETUID''), (8, ''CAP_SETPCAP''),
     (9, ''CAP_LINUX_IMMUTABLE''), (10, ''CAP_NET_BIND_SERVICE''), (11, ''CAP_NET_BROADCAST''),
     (12, ''CAP_NET_ADMIN''), (13, ''CAP_NET_RAW''), (14, ''CAP_IPC_LOCK''), (15, ''CAP_IPC_OWNER''),
     (16, ''CAP_SYS_MODULE''), (17, ''CAP_SYS_RAWIO''), (18, ''CAP_SYS_CHROOT''), (19, ''CAP_SYS_PTRACE''),
     (20, ''CAP_SYS_PACCT''), (21, ''CAP_SYS_ADMIN''), (22, ''CAP_SYS_BOOT''), (23, ''CAP_SYS_NICE''),
     (24, ''CAP_SYS_RESOURCE''), (25, ''CAP_SYS_TIME''), (26, ''CAP_SYS_TTY_CONFIG''), (27, ''CAP_MKNOD''),
     (28, ''CAP_LEASE''), (29, ''CAP_AUDIT_WRITE''), (30, ''CAP_AUDIT_CONTROL''), (31, ''CAP_SETFCAP''),
     (32, ''CAP_MAC_OVERRIDE''), (33, ''CAP_MAC_ADMIN''), (34, ''CAP_SYSLOG''), (35, ''CAP_WAKE_ALARM''),
     (36, ''CAP_BLOCK_SUSPEND''), (37, ''CAP_AUDIT_READ''), (38, ''CAP_PERFMON''), (39, ''CAP_BPF''),
     (40, ''CAP_CHECKPOINT_RESTORE'')]
     (\<lambda>raw_cap. int_str raw_cap @ '' (CAP_???)'') (as_long v)"

definition SecureBits_labels :: flag_labels where
  "SecureBits_labels =
    [(0x10, ''SECBIT_KEEP_CAPS''), (0x20, ''SECBIT_KEEP_CAPS_LOCKED''), (4, ''SECBIT_NO_SETUID_FIXUP''),
     (8, ''SECBIT_NO_SETUID_FIXUP_LOCKED''), (1, ''SECBIT_NOROOT''), (2, ''SECBIT_NOROOT_LOCKED''),
     (0x40, ''SECBIT_NO_CAP_AMBIENT_RAISE''), (0x80, ''SECBIT_NO_CAP_AMBIENT_RAISE_LOCKED'')]"

definition ClockID_label :: "int \<Rightarrow> string" where
  "ClockID_label = enum_or
    [(0, ''CLOCK_REALTIME''), (5, ''CLOCK_REALTIME_COARSE''), (11, ''CLOCK_TAI''), (1, ''CLOCK_MONOTONIC''),
     (4, ''CLOCK_MONOTONIC_RAW''), (6, ''CLOCK_MONOTONIC_COARSE''), (7, ''CLOCK_BOOTTIME''),
     (2, ''CLOCK_PROCESS_CPUTIME_ID''), (3, ''CLOCK_THREAD_CPUTIME_ID'')]
     unknown_str"

definition ClockNanoSleepFlags_str :: "word64 \<Rightarrow> string" where
  "ClockNanoSleepFlags_str v =
     enum_or [(1, ''TIMER_ABSTIME''), (0, ''<relative-time>'')] unknown_str (as_int v)"

definition GetRandomFlags_labels :: flag_labels where
  "GetRandomFlags_labels = [(2, ''GRND_RANDOM''), (1, ''GRND_NONBLOCK'')]"

definition RSeqFlags_labels :: flag_labels where
  "RSeqFlags_labels = [(1, ''RSEQ_FLAG_UNREGISTER'')]"

definition rseq_cs_labels :: flag_labels where
  "rseq_cs_labels =
    [(1, ''RSEQ_CS_FLAG_NO_RESTART_ON_PREEMPT''), (2, ''RSEQ_CS_FLAG_NO_RESTART_ON_SIGNAL''),
     (4, ''RSEQ_CS_FLAG_NO_RESTART_ON_MIGRATE'')]"

section \<open>Signals\<close>

definition SigSetOperation_str :: "word64 \<Rightarrow> string" where
  "SigSetOperation_str v = enum_or [(0, ''SIG_BLOCK''), (1, ''SIG_UNBLOCK''), (2, ''SIG_SETMASK'')]
     unknown_str (as_int v)"

definition signal_nr_str :: "item_lib \<Rightarrow> int \<Rightarrow> string" where
  "signal_nr_str L n = (if n < 0 then unknown_str n else format_signal (il_fmt L) False (nat n))"

definition SignalNumber_str :: "item_lib \<Rightarrow> sysnr \<Rightarrow> word64 \<Rightarrow> string" where
  "SignalNumber_str L nr v =
     (if v = 0 \<and> nr = SYS_FCNTL then ''0 (default SIGIO)'' else signal_nr_str L (as_int v))"

definition SignalFDFlags_labels :: flag_labels where
  "SignalFDFlags_labels = [(0x800, ''SFD_NONBLOCK''), (0x80000, ''SFD_CLOEXEC'')]"

section \<open>prctl\<close>

definition ArchOpParameter_str :: "word64 \<Rightarrow> string" where
  "ArchOpParameter_str v = enum_or
    [(0x1012, ''ARCH_SET_CPUID''), (0x1011, ''ARCH_GET_CPUID''), (0x1002, ''ARCH_SET_FS''),
     (0x1003, ''ARCH_GET_FS''), (0x1001, ''ARCH_SET_GS''), (0x1004, ''ARCH_GET_GS'')]
     (\<lambda>_. ''unknown'') (as_int v)"

definition AmbientCapOp_str :: "word64 \<Rightarrow> string" where
  "AmbientCapOp_str v = enum_or
    [(2, ''PR_CAP_AMBIENT_RAISE''), (3, ''PR_CAP_AMBIENT_LOWER''), (1, ''PR_CAP_AMBIENT_IS_SET''),
     (4, ''PR_CAP_AMBIENT_CLEAR_ALL'')]
     (\<lambda>_. ''PR_CAP_AMBIENT_???'') (as_long v)"

definition MachineCheckOp_str :: "word64 \<Rightarrow> string" where
  "MachineCheckOp_str v = enum_or [(0, ''PR_MCE_KILL_CLEAR''), (1, ''PR_MCE_KILL_SET'')]
     (\<lambda>_. ''PR_MCE_KILL_???'') (as_long v)"

definition MachineCheckPolicy_str :: "word64 \<Rightarrow> string" where
  "MachineCheckPolicy_str v = enum_or [(1, ''PR_MCE_KILL_EARLY''), (0, ''PR_MCE_KILL_LATE'')]
     (\<lambda>_. ''PR_MCE_KILL_???'') (as_long v)"

definition MemoryMapOp_str :: "word64 \<Rightarrow> string" where
  "MemoryMapOp_str v = enum_or
    [(1, ''PR_SET_MM_START_CODE''), (2, ''PR_SET_MM_END_CODE''), (3, ''PR_SET_MM_START_DATA''),
     (4, ''PR_SET_MM_END_DATA''), (5, ''PR_SET_MM_START_STACK''), (6, ''PR_SET_MM_START_BRK''),
     (7, ''PR_SET_MM_BRK''), (8, ''PR_SET_MM_ARG_START''), (9, ''PR_SET_MM_ARG_END''),
     (10, ''PR_SET_MM_ENV_START''), (11, ''PR_SET_MM_ENV_END''), (12, ''PR_SET_MM_AUXV''),
     (13, ''PR_SET_MM_EXE_FILE''), (14, ''PR_SET_MM_MAP''), (15, ''PR_SET_MM_MAP_SIZE'')]
     (\<lambda>_. ''PR_SET_MM_???'') (as_long v)"

definition ProcessOp_str :: "word64 \<Rightarrow> string" where
  "ProcessOp_str v = enum_or
    [(47, ''PR_CAP_AMBIENT''), (23, ''PR_CAPBSET_READ''), (24, ''PR_CAPBSET_DROP''),
     (36, ''PR_SET_CHILD_SUBREAPER''), (37, ''PR_GET_CHILD_SUBREAPER''), (4, ''PR_SET_DUMPABLE''),
     (3, ''PR_GET_DUMPABLE''), (20, ''PR_SET_ENDIAN''), (19, ''PR_GET_ENDIAN''), (45, ''PR_SET_FP_MODE''),
     (46, ''PR_GET_FP_MODE''), (10, ''PR_SET_FPEMU''), (9, ''PR_GET_FPEMU''), (12, ''PR_SET_FPEXC''),
     (11, ''PR_GET_FPEXC''), (57, ''PR_SET_IO_FLUSHER''), (58, ''PR_GET_IO_FLUSHER''),
     (8, ''PR_SET_KEEPCAPS''), (7, ''PR_GET_KEEPCAPS''), (33, ''PR_MCE_KILL''), (34, ''PR_MCE_KILL_GET''),
     (35, ''PR_SET_MM''), (0x53564D41, ''PR_SET_VMA''), (43, ''PR_MPX_ENABLE_MANAGEMENT''),
     (44, ''PR_MPX_DISABLE_MANAGEMENT''), (15, ''PR_SET_NAME''), (16, ''PR_GET_NAME''),
     (38, ''PR_SET_NO_NEW_PRIVS''), (39, ''PR_GET_NO_NEW_PRIVS''), (54, ''PR_PAC_RESET_KEYS''),
     (1, ''PR_SET_PDEATHSIG''), (2, ''PR_GET_PDEATHSIG''), (0x59616D61, ''PR_SET_PTRACER''),
     (22, ''PR_SET_SECCOMP''), (21, ''PR_GET_SECCOMP''), (28, ''PR_SET_SECUREBITS''),
     (27, ''PR_GET_SECUREBITS''), (52, ''PR_GET_SPECULATION_CTRL''), (53, ''PR_SET_SPECULATION_CTRL''),
     (50, ''PR_SVE_SET_VL''), (51, ''PR_SVE_GET_VL''), (59, ''PR_SET_SYSCALL_USER_DISPATCH''),
     (55, ''PR_SET_TAGGED_ADDR_CTRL''), (56, ''PR_GET_TAGGED_ADDR_CTRL''),
     (31, ''PR_TASK_PERF_EVENTS_DISABLE''), (32, ''PR_TASK_PERF_EVENTS_ENABLE''),
     (41, ''PR_SET_THP_DISABLE''), (42, ''PR_GET_THP_DISABLE''), (40, ''PR_GET_TID_ADDRESS''),
     (29, ''PR_SET_TIMERSLACK''), (30, ''PR_GET_TIMERSLACK''), (14, ''PR_SET_TIMING''),
     (13, ''PR_GET_TIMING''), (26, ''PR_SET_TSC''), (25, ''PR_GET_TSC''), (6, ''PR_SET_UNALIGN''),
     (5, ''PR_GET_UNALIGN''), (0x41555856, ''PR_GET_AUXV''), (65, ''PR_SET_MDWE''), (66, ''PR_GET_MDWE''),
     (71, ''PR_RISCV_SET_ICACHE_FLUSH_CTX''), (78, ''PR_FUTEX_HASH'')]
     (\<lambda>_. ''PR_???'') (as_int v)"

definition VirtualMemoryAttr_str :: "word64 \<Rightarrow> string" where
  "VirtualMemoryAttr_str v = enum_or [(0, ''PR_SET_VMA_ANON_NAME'')]
     (\<lambda>_. ''PR_SET_VMA_???'') (as_long v)"

definition SpeculationCtrlMisfeature_str :: "word64 \<Rightarrow> string" where
  "SpeculationCtrlMisfeature_str v = enum_or [(0, ''PR_SPEC_STORE_BYPASS''), (1, ''PR_SPEC_INDIRECT_BRANCH'')]
     (\<lambda>_. ''PR_SPEC_???'') (as_long v)"

definition SpeculationCtrlSetting_labels :: flag_labels where
  "SpeculationCtrlSetting_labels =
    [(1, ''PR_SPEC_PRCTL''), (2, ''PR_SPEC_ENABLE''), (4, ''PR_SPEC_DISABLE''),
     (8, ''PR_SPEC_FORCE_DISABLE''), (0x10, ''PR_SPEC_DISABLE_NOEXEC'')]"

definition SyscallUserDispatchMode_str :: "word64 \<Rightarrow> string" where
  "SyscallUserDispatchMode_str v = enum_or [(1, ''PR_SYS_DISPATCH_ON''), (0, ''PR_SYS_DISPATCH_OFF'')]
     (\<lambda>_. ''PR_SYS_???'') (as_long v)"

definition TaggedAddressControl_str :: "word64 \<Rightarrow> string" where
  "TaggedAddressControl_str v = enum_or [(0, ''0''), (1, ''PR_TAGGED_ADDR_ENABLE'')]
     (\<lambda>_. ''PR_TAGGED_???'') (as_long v)"

definition THPDisableState_str :: "word64 \<Rightarrow> string" where
  "THPDisableState_str v = enum_or [(0, ''UNSPECIFIED''), (1, ''DISABLED''), (3, ''DISABLED_EXCEPT_ADVISED'')]
     (\<lambda>_. ''???'') (as_int v)"

definition THPDisableFlags_labels :: flag_labels where
  "THPDisableFlags_labels = [(2, ''PR_THP_DISABLE_EXCEPT_ADVISED'')]"

definition TimingMode_str :: "word64 \<Rightarrow> string" where
  "TimingMode_str v = enum_or [(0, ''PR_TIMING_STATISTICAL''), (1, ''PR_TIMING_TIMESTAMP'')]
     (\<lambda>_. ''PR_TIMING_???'') (as_int v)"

definition TSCAccess_to_str :: "int \<Rightarrow> string" where
  "TSCAccess_to_str = enum_or [(1, ''PR_TSC_ENABLE''), (2, ''PR_TSC_SIGSEGV'')] (\<lambda>_. ''PR_TSC_???'')"

definition TSCAccess_str :: "word64 \<Rightarrow> string" where
  "TSCAccess_str v = TSCAccess_to_str (as_int v)"

definition MemDenyWriteExec_labels :: flag_labels where
  "MemDenyWriteExec_labels =
    [(1, ''PR_MDWE_REFUSE_EXEC_GAIN''), (2, ''PR_MDWE_NO_INHERIT'')]"

definition SecCompMode_str :: "word64 \<Rightarrow> string" where
  "SecCompMode_str v = enum_or [(1, ''SECCOMP_MODE_STRICT''), (2, ''SECCOMP_MODE_FILTER'')]
     (\<lambda>_. ''SECCOMP_MODE_???'') (as_long v)"

section \<open>All items with plain flags\<close>

text \<open>The class, how many bits its set of flags has, and its labels.\<close>

definition flag_items :: "(string \<times> nat \<times> flag_labels) list" where
  "flag_items = [(''WaitOptions'', 32, WaitOptions_labels), (''PIDFDOpenFlags'', 32, PIDFDOpenFlags_labels),
     (''PIDFDSendSignalFlags'', 32, PIDFDSendSignalFlags_labels), (''DupFlags'', 32, DupFlags_labels),
     (''FileDescFlagsValue'', 32, FileDescFlags_labels), (''DNotifySettings'', 32, DNotify_labels),
     (''FileSealSettings'', 32, FileSeal_labels), (''PipeFlags'', 32, PipeFlags_labels),
     (''ReadWriteFlags'', 32, ReadWriteFlags_labels), (''EventFDFlags'', 32, EventFDFlags_labels),
     (''EPollCreateFlags'', 32, EPollCreateFlags_labels), (''SecureBits'', 64, SecureBits_labels),
     (''GetRandomFlagsValue'', 32, GetRandomFlags_labels), (''RSeqFlagsValue'', 32, RSeqFlags_labels),
     (''SignalFDFlags'', 32, SignalFDFlags_labels), (''SpeculationCtrlSetting'', 64, SpeculationCtrlSetting_labels),
     (''THPDisableFlags'', 64, THPDisableFlags_labels),
     (''MemDenyWriteExecProtectionMask'', 32, MemDenyWriteExec_labels)]"

definition flag_item_str :: "item_lib \<Rightarrow> nat \<times> flag_labels \<Rightarrow> word64 \<Rightarrow> string" where
  "flag_item_str L = (\<lambda>(w, labels) v. flags_str L labels (take_bit w (unat v)))"

end
