(* ===== verification/Item_Text_Props.thy ===== *)
theory Item_Text_Props
  imports Item_Text Format_Props
begin

text \<open>
  The text of a set of flags can be read back: the names in it are those of the labels that the flags
  contain, joined without a separator at the end, and the bits they stand for are the known bits of the
  argument.
\<close>

section \<open>The names that are printed\<close>

definition contained_labels :: "nat \<Rightarrow> flag_labels \<Rightarrow> flag_labels" where
  "contained_labels flags labels = filter (\<lambda>(FLAG, name). FLAG \<noteq> 0 \<and> and flags FLAG = FLAG) labels"

lemma bitflags_adds_contained:
  "bitflags_adds flags labels = concat (map (\<lambda>n. n @ ''|'') (map snd (contained_labels flags labels)))"
  unfolding bitflags_adds_def contained_labels_def
  by (induction labels) (simp_all add: bitflags_add_def split_beta)

lemma flags_str_join:
  "flags_str L labels flags =
     fl_hex (il_fmt L) flags 0 @ '' ('' @ join ''|'' (map snd (contained_labels flags labels)) @ '')''"
proof (cases "map snd (contained_labels flags labels) = []")
  case True
  then show ?thesis
    by (simp add: flags_str_def bitflags_str_def bitflags_adds_contained strip_back_def)
next
  case False
  then have "bitflags_adds flags labels = join ''|'' (map snd (contained_labels flags labels)) @ ''|''"
    unfolding bitflags_adds_contained by (rule concat_join)
  then show ?thesis by (simp add: flags_str_def bitflags_str_def strip_back_def butlast_append)
qed

section \<open>Reading them back\<close>

fun split_on :: "char \<Rightarrow> string \<Rightarrow> string list" where
  "split_on sep [] = [[]]"
| "split_on sep (c # s) = (if c = sep then [] # split_on sep s
     else (case split_on sep s of [] \<Rightarrow> [[c]] | p # ps \<Rightarrow> (c # p) # ps))"

definition read_flag_names :: "string \<Rightarrow> string list" where
  "read_flag_names s = (let t = butlast (tl (dropWhile (\<lambda>c. c \<noteq> CHR ''('') s))
     in if t = [] then [] else split_on CHR ''|'' t)"

definition or_all :: "nat list \<Rightarrow> nat" where
  "or_all ns = foldr or ns 0"

definition flag_value :: "flag_labels \<Rightarrow> string \<Rightarrow> nat" where
  "flag_value labels name = (case map_of (map (\<lambda>(FLAG, n). (n, FLAG)) labels) name of Some FLAG \<Rightarrow> FLAG | None \<Rightarrow> 0)"

definition read_flags :: "flag_labels \<Rightarrow> string \<Rightarrow> nat" where
  "read_flags labels s = or_all (map (flag_value labels) (read_flag_names s))"

definition known_flags :: "flag_labels \<Rightarrow> nat" where
  "known_flags labels = or_all (map fst labels)"

definition single_bits :: "nat list" where
  "single_bits = map (\<lambda>k. 2 ^ k) [0..<64]"

text \<open>Labels of one bit each, whose names tell them apart.\<close>

definition plain_labels :: "flag_labels \<Rightarrow> bool" where
  "plain_labels labels = (\<forall>(FLAG, name) \<in> set labels.
     FLAG \<in> set single_bits \<and> name \<noteq> [] \<and> CHR ''|'' \<notin> set name \<and> flag_value labels name = FLAG)"

lemma split_on_plain: "sep \<notin> set p \<Longrightarrow> split_on sep p = [p]"
  by (induction p) auto

lemma split_on_append: "sep \<notin> set p \<Longrightarrow> split_on sep (p @ sep # s) = p # split_on sep s"
  by (induction p) auto

lemma split_on_join:
  "\<lbrakk>ps \<noteq> []; \<forall>p \<in> set ps. sep \<notin> set p\<rbrakk> \<Longrightarrow> split_on sep (join [sep] ps) = ps"
proof (induction ps)
  case (Cons p ps)
  then show ?case by (cases "ps = []") (simp_all add: split_on_plain join_Cons split_on_append)
qed simp

lemma join_empty: "join sep ps = [] \<Longrightarrow> \<forall>p \<in> set ps. p \<noteq> [] \<Longrightarrow> ps = []"
proof (induction ps)
  case (Cons p ps)
  then show ?case by (cases "ps = []") (simp_all add: join_Cons)
qed simp

lemma read_flag_names_text:
  assumes "CHR ''('' \<notin> set hex" and names: "\<forall>n \<in> set names. n \<noteq> [] \<and> CHR ''|'' \<notin> set n"
  shows "read_flag_names (hex @ '' ('' @ join ''|'' names @ '')'') = names"
proof -
  have drop: "dropWhile (\<lambda>c. c \<noteq> CHR ''('') (hex @ CHR '' '' # CHR ''('' # t) = CHR ''('' # t" for t
    using assms(1) by (induction hex) auto
  show ?thesis
  proof (cases "names = []")
    case True
    then show ?thesis by (simp add: read_flag_names_def drop)
  next
    case False
    then have "join ''|'' names \<noteq> []" using names join_empty by fastforce
    with False names show ?thesis by (simp add: read_flag_names_def drop split_on_join)
  qed
qed

lemma and_one_bit: "and (flags :: nat) (2 ^ k) = (if bit flags k then 2 ^ k else 0)"
  by (rule bit_eqI) (auto simp: bit_and_iff bit_exp_iff)

lemma or_all_contained:
  assumes "\<forall>(FLAG, name) \<in> set labels. \<exists>k. FLAG = 2 ^ k"
  shows "or_all (map fst (contained_labels flags labels)) = and flags (or_all (map fst labels))"
  using assms
proof (induction labels)
  case (Cons l labels)
  obtain k name where l: "l = (2 ^ k, name)" using Cons.prems by fastforce
  have "or_all (map fst (contained_labels flags labels)) = and flags (or_all (map fst labels))"
    using Cons.prems by (intro Cons.IH) simp
  moreover have "and flags (or (2 ^ k) n) = or (and flags (2 ^ k)) (and flags n)" for n
    by (rule bit_eqI) (auto simp: bit_simps)
  ultimately show ?case by (simp add: l contained_labels_def or_all_def and_one_bit)
qed (simp add: contained_labels_def or_all_def)

lemma plain_labelsD:
  assumes "plain_labels labels" "(FLAG, name) \<in> set labels"
  shows "name \<noteq> []" "CHR ''|'' \<notin> set name" "flag_value labels name = FLAG" "\<exists>k. FLAG = 2 ^ k"
  using assms unfolding plain_labels_def single_bits_def by fastforce+

lemma contained_subset: "set (contained_labels flags labels) \<subseteq> set labels"
  by (auto simp: contained_labels_def)

lemma read_flags_text:
  assumes plain: "plain_labels labels" and hex: "CHR ''('' \<notin> set (fl_hex (il_fmt L) flags 0)"
  shows "read_flags labels (flags_str L labels flags) = and flags (known_flags labels)"
proof -
  have names: "\<forall>n \<in> set (map snd (contained_labels flags labels)). n \<noteq> [] \<and> CHR ''|'' \<notin> set n"
    using plain_labelsD [OF plain] contained_subset by fastforce
  have "map (flag_value labels) (map snd (contained_labels flags labels)) = map fst (contained_labels flags labels)"
    using plain_labelsD(3) [OF plain] contained_subset by fastforce
  moreover have "\<forall>(FLAG, name) \<in> set labels. \<exists>k. FLAG = 2 ^ k"
    using plain_labelsD(4) [OF plain] by auto
  ultimately show ?thesis
    unfolding read_flags_def flags_str_join read_flag_names_text [OF hex names] known_flags_def
    by (simp only: or_all_contained)
qed

lemma single_bits_list: "single_bits =
   [1, 2, 4, 8, 16, 32, 64, 128, 256, 512, 0x400, 0x800, 0x1000, 0x2000, 0x4000, 0x8000, 0x10000,
    0x20000, 0x40000, 0x80000, 0x100000, 0x200000, 0x400000, 0x800000, 0x1000000, 0x2000000,
    0x4000000, 0x8000000, 0x10000000, 0x20000000, 0x40000000, 0x80000000, 0x100000000, 0x200000000,
    0x400000000, 0x800000000, 0x1000000000, 0x2000000000, 0x4000000000, 0x8000000000, 0x10000000000,
    0x20000000000, 0x40000000000, 0x80000000000, 0x100000000000, 0x200000000000, 0x400000000000,
    0x800000000000, 0x1000000000000, 0x2000000000000, 0x4000000000000, 0x8000000000000,
    0x10000000000000, 0x20000000000000, 0x40000000000000, 0x80000000000000, 0x100000000000000,
    0x200000000000000, 0x400000000000000, 0x800000000000000, 0x1000000000000000, 0x2000000000000000,
    0x4000000000000000, 0x8000000000000000]"
  by (simp add: single_bits_def upt_rec)

lemma plain_items: "list_all (\<lambda>(c, w, labels). plain_labels labels) flag_items"
  by (simp add: flag_items_def plain_labels_def single_bits_list flag_value_def
      WaitOptions_labels_def PIDFDOpenFlags_labels_def PIDFDSendSignalFlags_labels_def
      DupFlags_labels_def FileDescFlags_labels_def DNotify_labels_def FileSeal_labels_def
      PipeFlags_labels_def ReadWriteFlags_labels_def EventFDFlags_labels_def
      EPollCreateFlags_labels_def SecureBits_labels_def GetRandomFlags_labels_def
      RSeqFlags_labels_def SignalFDFlags_labels_def SpeculationCtrlSetting_labels_def
      THPDisableFlags_labels_def MemDenyWriteExec_labels_def)

text \<open>C36: the text of a set of flags, for every class of items that is one: the value in hexadecimal, and in
  parentheses the names of the labels that are contained in it, joined. Reading the names back gives exactly the
  bits of the argument that have a label.\<close>

theorem flags_text_readable:
  assumes "(c, w, labels) \<in> set flag_items"
    and "CHR ''('' \<notin> set (fl_hex (il_fmt L) (take_bit w (unat v)) 0)"
  shows "flag_item_str L (w, labels) v = fl_hex (il_fmt L) (take_bit w (unat v)) 0 @ '' ('' @
        join ''|'' (map snd (contained_labels (take_bit w (unat v)) labels)) @ '')'' \<and>
      read_flags labels (flag_item_str L (w, labels) v) = and (take_bit w (unat v)) (known_flags labels)"
proof -
  have "plain_labels labels" using plain_items assms(1) by (auto simp: list_all_iff)
  from read_flags_text [OF this assms(2)] show ?thesis
    unfolding flag_item_str_def by (simp add: flags_str_join)
qed

lemma digit_chars: "digit_char 0 = CHR ''0''" "digit_char (Suc 0) = CHR ''1''" "digit_char 2 = CHR ''2''"
    "digit_char 3 = CHR ''3''" "digit_char 4 = CHR ''4''" "digit_char 5 = CHR ''5''" "digit_char 6 = CHR ''6''"
    "digit_char 7 = CHR ''7''" "digit_char 8 = CHR ''8''" "digit_char 9 = CHR ''9''"
  by code_simp+

definition demo_items :: item_lib where
  "demo_items = \<lparr>il_fmt = \<lparr>fl_signal_name = nat_str, fl_oct = (\<lambda>v w. nat_str v), fl_hex = (\<lambda>v w. hex_str v),
       fl_hex_with = (\<lambda>p v w. p @ hex_str v), fl_split_device = (\<lambda>d. (0, 0)), fl_poll_width = 16\<rparr>,
     il_mode_bits = id, il_mode_symbolic = nat_str, il_fs_magic = (\<lambda>_. None), il_wait = (\<lambda>_. WV_other)\<rparr>"

theorem flags_text_readable_witness:
  "flag_item_str demo_items (32, EventFDFlags_labels) 0x80802 = ''80802 (EFD_CLOEXEC|EFD_NONBLOCK)'' \<and>
   read_flags EventFDFlags_labels ''80802 (EFD_CLOEXEC|EFD_NONBLOCK)'' = 0x80800"
proof -
  have item: "(''EventFDFlags'', 32, EventFDFlags_labels) \<in> set flag_items"
    by (simp add: flag_items_def)
  have hex: "CHR ''('' \<notin> set (fl_hex (il_fmt demo_items) (take_bit 32 (unat (0x80802 :: word64))) 0)"
    by (simp add: demo_items_def hex_str.simps hex_digit_def digit_chars)
  have str: "flag_item_str demo_items (32, EventFDFlags_labels) 0x80802 = ''80802 (EFD_CLOEXEC|EFD_NONBLOCK)''"
    by (simp add: demo_items_def hex_str.simps hex_digit_def digit_chars flag_item_str_def flags_str_join contained_labels_def EventFDFlags_labels_def)
  have known: "and (take_bit 32 (unat (0x80802 :: word64))) (known_flags EventFDFlags_labels) = 0x80800"
    by (simp add: known_flags_def or_all_def EventFDFlags_labels_def)
  from flags_text_readable [OF item hex] str known show ?thesis by metis
qed

section \<open>Combined arguments\<close>

text \<open>The last argument of \<open>FUTEX_WAKE_OP\<close>, as the macro \<open>FUTEX_OP\<close> of futex(2) puts it together,
  is taken apart into the same fields.\<close>

definition FUTEX_OP :: "nat \<Rightarrow> bool \<Rightarrow> nat \<Rightarrow> nat \<Rightarrow> nat \<Rightarrow> nat" where
  "FUTEX_OP op shift oparg cmp cmparg =
     (op + (if shift then 8 else 0)) * 2 ^ 28 + cmp * 2 ^ 24 + oparg * 2 ^ 12 + cmparg"

lemma futex_wake_op_fields:
  assumes "op < 8" "cmp < 16" "oparg < 4096" "cmparg < 4096" "as_uint v = FUTEX_OP op shift oparg cmp cmparg"
  shows "FutexWakeOperation_processData v =
    \<lparr>fw_op = op, fw_shift_arg = shift, fw_comp = cmp, fw_oparg = oparg, fw_cmparg = cmparg\<rparr>"
proof -
  let ?raw = "FUTEX_OP op shift oparg cmp cmparg" and ?top = "op + (if shift then 8 else 0)"
  have mask: "and n 0xF = n mod 16" "and n 0xFFF = n mod 4096" for n :: nat
    using take_bit_eq_mask [of 4 n] take_bit_eq_mask [of 12 n]
    by (simp_all add: take_bit_eq_mod mask_eq_exp_minus_1)
  have top: "drop_bit 28 ?raw = ?top"
    using assms(1-4) by (simp add: FUTEX_OP_def drop_bit_eq_div)
  have rest: "drop_bit 24 ?raw mod 16 = cmp" "drop_bit 12 ?raw mod 4096 = oparg" "?raw mod 4096 = cmparg"
  proof -
    have "?raw div 16777216 = ?top * 16 + cmp" "?raw div 4096 = (?top * 16 + cmp) * 4096 + oparg"
      using assms(1-4) by (intro div_nat_eqI; simp add: FUTEX_OP_def)+
    then have "drop_bit 24 ?raw = cmp + ?top * 16" "drop_bit 12 ?raw = oparg + (?top * 16 + cmp) * 4096"
      by (simp_all add: drop_bit_eq_div)
    then show "drop_bit 24 ?raw mod 16 = cmp" "drop_bit 12 ?raw mod 4096 = oparg"
      using assms(2,3) by (simp_all only: mod_mult_self1 mod_less)
    have "?raw = cmparg + (?top * 65536 + cmp * 4096 + oparg) * 4096"
      by (simp add: FUTEX_OP_def algebra_simps)
    then show "?raw mod 4096 = cmparg" using assms(4) by (simp only: mod_mult_self1 mod_less)
  qed
  have "op \<in> {0, 1, 2, 3, 4, 5, 6, 7}" using assms(1) by auto
  then have "and ?top 8 = (if shift then 8 else 0)" by auto
  then show ?thesis
    by (simp add: FutexWakeOperation_processData_def Let_def assms(5) top mask rest)
qed

text \<open>The size of huge pages shares its lowest bit with the label \<open>MAP_UNINITIALIZED\<close>: a mapping of huge
  pages of 2 MiB is printed with it, though the flag is not set.\<close>

lemma huge_pages_uninitialized:
  "MapFlagsParameter_str demo_items 0x54040022 =
     ''54040022 (MAP_PRIVATE|MAP_ANONYMOUS|MAP_HUGETLB|MAP_UNINITIALIZED|21<<MAP_HUGE_SHIFT)''"
proof -
  have raw: "as_uint 0x54040022 = 0x54040022" by (simp add: as_uint_def)
  have huge: "drop_bit 26 (0x54040022 :: nat) = 21" by (simp add: drop_bit_eq_div)
  have nr: "nat_str 21 = ''21''" by (simp add: nat_str.simps digit_chars)
  have hex: "hex_str 0x54040022 = ''54040022''" by (simp add: hex_str.simps hex_digit_def digit_chars)
  have adds: "bitflags_adds 0x54040020 MapFlags_labels = ''MAP_ANONYMOUS|MAP_HUGETLB|MAP_UNINITIALIZED|''"
    by (simp add: bitflags_adds_def bitflags_add_def MapFlags_labels_def)
  show ?thesis
    by (simp add: MapFlagsParameter_str_def raw huge adds nr hex bitflags_str_def strip_back_def demo_items_def)
qed

end
